(* ===== verification/Prelude.thy ===== *)
theory Prelude
  imports "HOL-Library.Word"
begin

text \<open>
  Shared vocabulary of the development: the C integer types as machine words, byte buffers
  with option-valued reads (an index outside the buffer is \<open>None\<close>, never an unspecified
  element), little- and big-endian encodings, and the lemma collections the component theories
  use (\<open>le_simps\<close> for the byte encodings, \<open>rd_simps\<close> for buffer accesses).
\<close>

unbundle bit_operations_syntax

named_theorems le_simps
named_theorems rd_simps

type_synonym u8 = "8 word"
type_synonym u16 = "16 word"
type_synonym u32 = "32 word"
type_synonym u64 = "64 word"
type_synonym bytes = "8 word list"

text \<open>The single-bit masks \<open>BIT0 .. BIT31\<close> of hal/basic_types.h.\<close>

abbreviation (input) BIT0 :: "'a::len word" where "BIT0 \<equiv> 0x01"
abbreviation (input) BIT1 :: "'a::len word" where "BIT1 \<equiv> 0x02"
abbreviation (input) BIT2 :: "'a::len word" where "BIT2 \<equiv> 0x04"
abbreviation (input) BIT3 :: "'a::len word" where "BIT3 \<equiv> 0x08"
abbreviation (input) BIT4 :: "'a::len word" where "BIT4 \<equiv> 0x10"
abbreviation (input) BIT5 :: "'a::len word" where "BIT5 \<equiv> 0x20"
abbreviation (input) BIT6 :: "'a::len word" where "BIT6 \<equiv> 0x40"
abbreviation (input) BIT7 :: "'a::len word" where "BIT7 \<equiv> 0x80"

section \<open>Buffer accesses\<close>

definition rd :: "bytes \<Rightarrow> nat \<Rightarrow> u8 option" where
  "rd buf i = (if i < length buf then Some (buf ! i) else None)"

definition slice :: "nat \<Rightarrow> nat \<Rightarrow> 'a list \<Rightarrow> 'a list" where
  "slice off n xs = take n (drop off xs)"

definition rd_slice :: "bytes \<Rightarrow> nat \<Rightarrow> nat \<Rightarrow> bytes option" where
  "rd_slice buf off n = (if off + n \<le> length buf then Some (slice off n buf) else None)"

lemma rd_Some [rd_simps]: "rd buf i = Some v \<longleftrightarrow> i < length buf \<and> buf ! i = v"
  by (auto simp: rd_def)

lemma rd_None [rd_simps]: "rd buf i = None \<longleftrightarrow> length buf \<le> i"
  by (simp add: rd_def not_less)

lemma rd_append [rd_simps]:
  "rd (xs @ ys) i = (if i < length xs then rd xs i else rd ys (i - length xs))"
  by (auto simp: rd_def nth_append)

lemma length_slice [simp]: "length (slice off n xs) = min n (length xs - off)"
  by (simp add: slice_def)

lemma slice_append_left [simp]: "off + n \<le> length xs \<Longrightarrow> slice off n (xs @ ys) = slice off n xs"
  by (simp add: slice_def)

lemma slice_append_right [simp]:
  "length xs \<le> off \<Longrightarrow> slice off n (xs @ ys) = slice (off - length xs) n ys"
  by (simp add: slice_def)

lemma slice_all [simp]: "slice 0 (length xs) xs = xs"
  by (simp add: slice_def)

lemma nth_slice: "i < n \<Longrightarrow> off + i < length xs \<Longrightarrow> slice off n xs ! i = xs ! (off + i)"
  by (simp add: slice_def)

lemma rd_slice_Some [rd_simps]:
  "rd_slice buf off n = Some s \<longleftrightarrow> off + n \<le> length buf \<and> s = slice off n buf"
  by (auto simp: rd_slice_def)

text \<open>\<open>memcpy\<close> into a buffer.\<close>

definition set_slice :: "nat \<Rightarrow> 'a list \<Rightarrow> 'a list \<Rightarrow> 'a list" where
  "set_slice off ys xs = take off xs @ ys @ drop (off + length ys) xs"

lemma length_set_slice [simp]: "off + length ys \<le> length xs \<Longrightarrow> length (set_slice off ys xs) = length xs"
  by (simp add: set_slice_def)

lemma slice_set_slice [simp]: "off \<le> length xs \<Longrightarrow> slice off (length ys) (set_slice off ys xs) = ys"
  by (simp add: slice_def set_slice_def)

lemma set_slice_slice [simp]: "off + n \<le> length xs \<Longrightarrow> set_slice off (slice off n xs) xs = xs"
  by (simp add: slice_def set_slice_def) (metis append_take_drop_id drop_drop add.commute)

lemma set_slice_twice [simp]:
  "length ys = length zs \<Longrightarrow> off + length ys \<le> length xs \<Longrightarrow>
   set_slice off ys (set_slice off zs xs) = set_slice off ys xs"
  by (simp add: set_slice_def)

section \<open>Byte encodings\<close>

lemma unat_lt: "unat (w :: 'a::len word) < 2 ^ LENGTH('a)"
  by (rule unsigned_less)

text \<open>Little-endian: the representation of a machine integer on the bus and in descriptors.\<close>

primrec le_nat :: "bytes \<Rightarrow> nat" where
  "le_nat [] = 0"
| "le_nat (b # bs) = unat b + 256 * le_nat bs"

definition le_word :: "bytes \<Rightarrow> 'a::len word" where
  "le_word bs = of_nat (le_nat bs)"

primrec nat_le :: "nat \<Rightarrow> nat \<Rightarrow> bytes" where
  "nat_le 0 v = []"
| "nat_le (Suc n) v = of_nat (v mod 256) # nat_le n (v div 256)"

definition le_bytes :: "nat \<Rightarrow> 'a::len word \<Rightarrow> bytes" where
  "le_bytes n w = nat_le n (unat w)"

lemma length_nat_le [simp, le_simps]: "length (nat_le n v) = n"
  by (induction n arbitrary: v) auto

lemma length_le_bytes [simp, le_simps]: "length (le_bytes n w) = n"
  by (simp add: le_bytes_def)

lemma le_bytes_0 [simp, le_simps]: "le_bytes n 0 = replicate n 0"
proof -
  have "nat_le n 0 = replicate n 0" by (induction n) simp_all
  then show ?thesis by (simp add: le_bytes_def)
qed

lemma unat_of_nat_mod_256 [simp]: "unat (of_nat (v mod 256) :: u8) = v mod 256"
  by (simp add: unat_of_nat)

lemma le_nat_nat_le [le_simps]: "le_nat (nat_le n v) = v mod 256 ^ n"
proof (induction n arbitrary: v)
  case 0
  then show ?case by simp
next
  case (Suc n)
  have "v mod 256 + 256 * (v div 256 mod 256 ^ n) = v mod (256 * 256 ^ n)"
    using mod_mult2_eq [of v 256 "256 ^ n"] by simp
  with Suc show ?case by simp
qed

lemma le_nat_less: "le_nat bs < 256 ^ length bs"
proof (induction bs)
  case Nil
  then show ?case by simp
next
  case (Cons b bs)
  have "unat b < 256" using unat_lt [of b] by simp
  with Cons show ?case by simp
qed

lemma nat_le_le_nat [le_simps]: "nat_le (length bs) (le_nat bs) = bs"
proof (induction bs)
  case Nil
  then show ?case by simp
next
  case (Cons b bs)
  have b: "unat b < 256" using unat_lt [of b] by simp
  then have "(unat b + 256 * le_nat bs) mod 256 = unat b"
    and "(unat b + 256 * le_nat bs) div 256 = le_nat bs" by simp_all
  with Cons show ?case by simp
qed

lemma le_word_le_bytes [le_simps]:
  assumes "256 ^ n \<ge> (2 :: nat) ^ LENGTH('a::len)"
  shows "le_word (le_bytes n (w :: 'a word)) = w"
proof -
  have "unat w < 256 ^ n" using unat_lt [of w] assms by linarith
  then show ?thesis by (simp add: le_word_def le_bytes_def le_nat_nat_le)
qed

lemma le_bytes_le_word [le_simps]:
  assumes "length bs = n" and "256 ^ n \<le> (2 :: nat) ^ LENGTH('a::len)"
  shows "le_bytes n (le_word bs :: 'a word) = bs"
proof -
  have "le_nat bs < 2 ^ LENGTH('a)" using le_nat_less [of bs] assms by simp
  then have "unat (le_word bs :: 'a word) = le_nat bs"
    by (simp add: le_word_def unat_of_nat)
  then show ?thesis using nat_le_le_nat [of bs] assms(1) by (simp add: le_bytes_def)
qed

text \<open>A short list decodes like the list padded with zero bytes.\<close>

lemma le_nat_zeros [simp]: "le_nat (replicate n 0) = 0"
  by (induction n) simp_all

lemma le_nat_pad [simp]: "le_nat (bs @ replicate n 0) = le_nat bs"
  by (induction bs) simp_all

lemma le_bytes_pad:
  assumes "length bs \<le> n" and "256 ^ n \<le> (2 :: nat) ^ LENGTH('a::len)"
  shows "le_bytes n (le_word bs :: 'a word) = bs @ replicate (n - length bs) 0"
proof -
  have "le_word bs = (le_word (bs @ replicate (n - length bs) 0) :: 'a word)"
    by (simp add: le_word_def)
  then show ?thesis using assms by (simp add: le_bytes_le_word)
qed

text \<open>The bytes of a word are its bit fields; the bits of a decoded word are those of its bytes.\<close>

lemma word_of_nat_mod_256: "(word_of_nat (v mod 256) :: u8) = word_of_nat v"
  by (simp add: word_of_nat_eq_iff take_bit_eq_mod)

lemma nat_le_conv: "nat_le n v = map (\<lambda>i. of_nat (v div 256 ^ i)) [0..<n]"
proof (induction n arbitrary: v)
  case 0
  then show ?case by simp
next
  case (Suc n)
  have "map (\<lambda>i. of_nat (v div 256 ^ i) :: u8) [0..<Suc n] =
      of_nat v # map (\<lambda>i. of_nat (v div 256 ^ Suc i)) [0..<n]"
    by (simp add: upt_conv_Cons map_Suc_upt [symmetric] del: upt_Suc)
  with Suc show ?case by (simp add: word_of_nat_mod_256 div_mult2_eq)
qed

lemma le_bytes_conv: "le_bytes n w = map (\<lambda>i. ucast (drop_bit (8 * i) w)) [0..<n]"
proof -
  have *: "(256 :: nat) ^ i = 2 ^ (8 * i)" for i by (simp add: power_mult)
  have d: "unat (drop_bit k w) = unat w div 2 ^ k" for k
    by (simp only: unat_drop_bit_eq) (simp add: drop_bit_eq_div)
  have "(of_nat (unat w div 256 ^ i) :: u8) = ucast (drop_bit (8 * i) w)" for i
    unfolding * d [symmetric] by (rule of_nat_unat)
  then show ?thesis by (simp add: le_bytes_def nat_le_conv)
qed

lemma bit_le_nat: "bit (le_nat bs) n \<longleftrightarrow> n div 8 < length bs \<and> bit (bs ! (n div 8)) (n mod 8)"
proof (induction bs arbitrary: n)
  case Nil
  then show ?case by simp
next
  case (Cons b bs)
  have split: "le_nat (b # bs) = unat b OR push_bit 8 (le_nat bs)"
  proof -
    have "unat b + push_bit 8 (le_nat bs) = unat b OR push_bit 8 (le_nat bs)"
      by (rule disjunctive_add) (auto simp: bit_simps dest: bit_imp_le_length)
    then show ?thesis by (simp add: push_bit_eq_mult mult.commute)
  qed
  show ?case
  proof (cases "n < 8")
    case True
    then show ?thesis unfolding split by (simp add: bit_simps)
  next
    case False
    then have "bit (unat b) n = False" by (auto simp: bit_simps dest: bit_imp_le_length)
    moreover have "n div 8 = Suc ((n - 8) div 8)" "n mod 8 = (n - 8) mod 8"
      using False by (simp_all add: le_div_geq le_mod_geq)
    ultimately show ?thesis unfolding split using False Cons [of "n - 8"] by (simp add: bit_simps)
  qed
qed

lemma bit_le_word:
  "bit (le_word bs :: 'a::len word) n \<longleftrightarrow>
    n < LENGTH('a) \<and> n div 8 < length bs \<and> bit (bs ! (n div 8)) (n mod 8)"
  by (simp add: le_word_def bit_simps bit_le_nat)

text \<open>Big-endian: the network order of EAPOL and the counters of SHA-1 and CCM.\<close>

definition be_bytes :: "nat \<Rightarrow> 'a::len word \<Rightarrow> bytes" where
  "be_bytes n w = rev (le_bytes n w)"

definition be_word :: "bytes \<Rightarrow> 'a::len word" where
  "be_word bs = le_word (rev bs)"

lemma length_be_bytes [simp, le_simps]: "length (be_bytes n w) = n"
  by (simp add: be_bytes_def)

lemma be_word_be_bytes [le_simps]:
  "256 ^ n \<ge> (2 :: nat) ^ LENGTH('a::len) \<Longrightarrow> be_word (be_bytes n (w :: 'a word)) = w"
  by (simp add: be_word_def be_bytes_def le_word_le_bytes)

section \<open>Bytewise exclusive or\<close>

text \<open>\<open>xor_bytes\<close> combines two buffers of one length; it is an involution.\<close>

definition xor_bytes :: "bytes \<Rightarrow> bytes \<Rightarrow> bytes" where
  "xor_bytes xs ys = map2 (\<lambda>x y. x XOR y) xs ys"

lemma length_xor_bytes [simp]: "length (xor_bytes xs ys) = min (length xs) (length ys)"
  by (simp add: xor_bytes_def)

lemma xor_xor_cancel [simp]: "(x XOR y) XOR y = (x :: 'a::len word)"
  by (simp add: xor.assoc)

lemma xor_bytes_cancel:
  "length xs \<le> length ys \<Longrightarrow> xor_bytes (xor_bytes xs ys) ys = xs"
  by (rule nth_equalityI) (simp_all add: xor_bytes_def)

section \<open>Lists\<close>

lemma foldl_invariant:
  assumes "P a" and "\<And>x b. x \<in> set xs \<Longrightarrow> P b \<Longrightarrow> P (f b x)"
  shows "P (foldl f a xs)"
  using assms by (induction xs arbitrary: a) auto

lemma map_of_rev_distinct:
  assumes "distinct (map fst xs)"
  shows "map_of (rev xs) = map_of xs"
proof
  fix k
  have "distinct (map fst (rev xs))" using assms by (metis distinct_rev rev_map)
  then have "map_of (rev xs) k = Some v \<longleftrightarrow> map_of xs k = Some v" for v
    using assms by (simp add: map_of_eq_Some_iff)
  then show "map_of (rev xs) k = map_of xs k" by (metis not_Some_eq)
qed

lemma map_of_graph: "p \<in> set xs \<Longrightarrow> map_of (map (\<lambda>k. (k, f k)) xs) p = Some (f p)"
  by (induction xs) auto

section \<open>Rounding up to a multiple of eight\<close>

lemma round_up_8: "(n + 7) div 8 = n div 8 + (if n mod 8 = 0 then 0 else 1)" for n :: nat
proof -
  define q r where "q = n div 8" and "r = n mod 8"
  have n: "n = r + 8 * q" and r: "r < 8" by (simp_all add: q_def r_def)
  have "(r + 7) div 8 = (if r = 0 then 0 else 1)" using r by (auto intro!: div_nat_eqI)
  moreover have "(n + 7) div 8 = (r + 7) div 8 + q" by (simp add: n)
  ultimately show ?thesis by (simp add: q_def r_def)
qed

lemma round_up_ge: "n \<le> 8 * ((n + 7) div 8)" for n :: nat
  using div_mult_mod_eq [of "n + 7" 8] mod_less_divisor [of 8 "n + 7"] by linarith

end
