(* ===== verification/UsbIo.thy ===== *)
theory UsbIo
  imports Prelude
begin

text \<open>
  The register-access layer of src/RtlUsbAdapter.h and src/RtlUsbAdapter.cpp. The library calls
  behind it (\<open>libusb_control_transfer\<close>, the thread sleeps) are not part of the repository: they
  are the fields of the record \<open>usb\<close>, a parameter of every definition that touches the chip,
  acting on an abstract state \<open>'h\<close> of the device and the bus. A read that fails after its
  retries is the C++ exception \<open>std::ios_base::failure\<close>, here \<open>Inl UsbReadFailed\<close>.
\<close>

datatype usb_error = UsbReadFailed

text \<open>
  \<open>ctrl_in reg n h\<close> is the vendor read of \<open>n\<close> bytes: the return code and the bytes delivered.
  \<open>ctrl_out reg bs h\<close> is the vendor write: its return code. \<open>sleep_us n h\<close> lets time pass.
\<close>

record 'h usb =
  ctrl_in :: "u16 \<Rightarrow> nat \<Rightarrow> 'h \<Rightarrow> (int \<times> bytes) \<times> 'h"
  ctrl_out :: "u16 \<Rightarrow> bytes \<Rightarrow> 'h \<Rightarrow> int \<times> 'h"
  sleep_us :: "nat \<Rightarrow> 'h \<Rightarrow> 'h"

definition LIBUSB_ERROR_NO_DEVICE :: int where
  "LIBUSB_ERROR_NO_DEVICE = -4"

section \<open>Reads and writes\<close>

text \<open>\<open>rtw_read<T>\<close>: four attempts, a 2 ms pause after a failed one, no retry without a device.\<close>

primrec rtw_read_attempts ::
    "nat \<Rightarrow> 'h usb \<Rightarrow> u16 \<Rightarrow> nat \<Rightarrow> 'h \<Rightarrow> (usb_error + bytes) \<times> 'h" where
  "rtw_read_attempts 0 dev reg n h = (Inl UsbReadFailed, h)"
| "rtw_read_attempts (Suc k) dev reg n h =
    (let ((r, bs), h') = ctrl_in dev reg n h in
     if r = int n then (Inr bs, h')
     else if r = LIBUSB_ERROR_NO_DEVICE then (Inl UsbReadFailed, h')
     else rtw_read_attempts k dev reg n (sleep_us dev 2000 h'))"

definition rtw_read :: "'h usb \<Rightarrow> u16 \<Rightarrow> nat \<Rightarrow> 'h \<Rightarrow> (usb_error + bytes) \<times> 'h" where
  "rtw_read dev reg n h = rtw_read_attempts 4 dev reg n h"

definition rtw_write :: "'h usb \<Rightarrow> u16 \<Rightarrow> bytes \<Rightarrow> 'h \<Rightarrow> bool \<times> 'h" where
  "rtw_write dev reg bs h = (let (r, h') = ctrl_out dev reg bs h in (r = int (length bs), h'))"

definition rtw_read8 :: "'h usb \<Rightarrow> u16 \<Rightarrow> 'h \<Rightarrow> (usb_error + u8) \<times> 'h" where
  "rtw_read8 dev reg h = apfst (map_sum id le_word) (rtw_read dev reg 1 h)"

definition rtw_read16 :: "'h usb \<Rightarrow> u16 \<Rightarrow> 'h \<Rightarrow> (usb_error + u16) \<times> 'h" where
  "rtw_read16 dev reg h = apfst (map_sum id le_word) (rtw_read dev reg 2 h)"

definition rtw_read32 :: "'h usb \<Rightarrow> u16 \<Rightarrow> 'h \<Rightarrow> (usb_error + u32) \<times> 'h" where
  "rtw_read32 dev reg h = apfst (map_sum id le_word) (rtw_read dev reg 4 h)"

definition rtw_write8 :: "'h usb \<Rightarrow> u16 \<Rightarrow> u8 \<Rightarrow> 'h \<Rightarrow> bool \<times> 'h" where
  "rtw_write8 dev reg v h = rtw_write dev reg (le_bytes 1 v) h"

definition rtw_write16 :: "'h usb \<Rightarrow> u16 \<Rightarrow> u16 \<Rightarrow> 'h \<Rightarrow> bool \<times> 'h" where
  "rtw_write16 dev reg v h = rtw_write dev reg (le_bytes 2 v) h"

definition rtw_write32 :: "'h usb \<Rightarrow> u16 \<Rightarrow> u32 \<Rightarrow> 'h \<Rightarrow> bool \<times> 'h" where
  "rtw_write32 dev reg v h = rtw_write dev reg (le_bytes 4 v) h"

section \<open>An instrumented device\<close>

text \<open>\<open>count_reads dev\<close> is \<open>dev\<close> with a counter of its vendor reads: the cost model of the loops.\<close>

definition count_reads :: "'h usb \<Rightarrow> ('h \<times> nat) usb" where
  "count_reads dev =
    \<lparr>ctrl_in = \<lambda>reg n (h, k). (let (r, h') = ctrl_in dev reg n h in (r, (h', k + 1))),
     ctrl_out = \<lambda>reg bs (h, k). (let (r, h') = ctrl_out dev reg bs h in (r, (h', k))),
     sleep_us = \<lambda>n (h, k). (sleep_us dev n h, k)\<rparr>"

lemma count_sleep [simp]: "snd (sleep_us (count_reads dev) n hk) = snd hk"
  by (cases hk) (simp add: count_reads_def)

lemma count_write [simp]: "snd (snd (rtw_write (count_reads dev) reg bs hk)) = snd hk"
  by (cases hk) (simp add: count_reads_def rtw_write_def split: prod.split)

lemma count_write8 [simp]: "snd (snd (rtw_write8 (count_reads dev) reg v hk)) = snd hk"
  by (simp add: rtw_write8_def)

lemma count_read_attempts:
  "snd (snd (rtw_read_attempts k (count_reads dev) reg n hk)) \<le> snd hk + k"
proof (induction k arbitrary: hk)
  case 0
  then show ?case by simp
next
  case (Suc k)
  obtain h c where hk: "hk = (h, c)" by (cases hk)
  obtain r bs h' where r: "ctrl_in dev reg n h = ((r, bs), h')" by (metis surj_pair)
  have in_eq: "ctrl_in (count_reads dev) reg n hk = ((r, bs), (h', Suc c))"
    by (simp add: count_reads_def hk r)
  show ?case
    using Suc [of "sleep_us (count_reads dev) 2000 (h', Suc c)"] by (simp add: in_eq) (simp add: hk)
qed

lemma count_read8: "snd (snd (rtw_read8 (count_reads dev) reg hk)) \<le> snd hk + 4"
  using count_read_attempts [of 4 dev reg 1 hk]
  by (simp add: rtw_read8_def rtw_read_def apfst_def map_prod_def split_beta)

section \<open>A synchronous device\<close>

text \<open>
  The chip seen as a register file: reads deliver register bytes and change no register, a write
  of bytes at an address changes the registers by the chip's reaction \<open>react\<close>, and time alone
  changes nothing. \<open>reg\<close> abstracts the device state to the register contents.
\<close>

type_synonym regs = "u16 \<Rightarrow> u8"

definition sync_device ::
    "'h usb \<Rightarrow> ('h \<Rightarrow> regs) \<Rightarrow> (u16 \<Rightarrow> bytes \<Rightarrow> regs \<Rightarrow> regs) \<Rightarrow> bool" where
  "sync_device dev reg react \<longleftrightarrow>
    (\<forall>a n h. fst (ctrl_in dev a n h) = (int n, map (\<lambda>i. reg h (a + of_nat i)) [0..<n])) \<and>
    (\<forall>a n h. reg (snd (ctrl_in dev a n h)) = reg h) \<and>
    (\<forall>a bs h. reg (snd (ctrl_out dev a bs h)) = react a bs (reg h)) \<and>
    (\<forall>n h. reg (sleep_us dev n h) = reg h)"

text \<open>The register file that follows a reaction literally is such a device.\<close>

definition reg_file :: "(u16 \<Rightarrow> bytes \<Rightarrow> regs \<Rightarrow> regs) \<Rightarrow> regs usb" where
  "reg_file react =
    \<lparr>ctrl_in = \<lambda>a n r. ((int n, map (\<lambda>i. r (a + of_nat i)) [0..<n]), r),
     ctrl_out = \<lambda>a bs r. (int (length bs), react a bs r),
     sleep_us = \<lambda>n r. r\<rparr>"

lemma sync_reg_file [simp]: "sync_device (reg_file react) id react"
  by (simp add: sync_device_def reg_file_def)

lemma sync_sleep: "sync_device dev reg react \<Longrightarrow> reg (sleep_us dev n h) = reg h"
  by (simp add: sync_device_def)

lemma sync_read:
  assumes "sync_device dev reg react"
  shows "fst (rtw_read dev a n h) = Inr (map (\<lambda>i. reg h (a + of_nat i)) [0..<n])"
    and "reg (snd (rtw_read dev a n h)) = reg h"
  using assms
  by (auto simp: sync_device_def rtw_read_def eval_nat_numeral split_beta)

lemma sync_read8:
  assumes "sync_device dev reg react"
  obtains h' where "rtw_read8 dev a h = (Inr (reg h a), h')" and "reg h' = reg h"
proof
  show "rtw_read8 dev a h = (Inr (reg h a), snd (rtw_read8 dev a h))"
    using sync_read [OF assms, of a 1 h]
    by (simp add: rtw_read8_def prod_eq_iff le_word_def)
  show "reg (snd (rtw_read8 dev a h)) = reg h"
    using sync_read [OF assms, of a 1 h] by (simp add: rtw_read8_def)
qed

lemma sync_write:
  "sync_device dev reg react \<Longrightarrow> reg (snd (rtw_write dev a bs h)) = react a bs (reg h)"
  by (simp add: sync_device_def rtw_write_def split_beta)

lemma le_bytes_1 [simp, le_simps]: "le_bytes (Suc 0) (v :: u8) = [v]"
proof -
  have "unat v mod 256 = unat v" using unat_lt [of v] by simp
  then show ?thesis by (simp add: le_bytes_def)
qed

lemma sync_write8:
  "sync_device dev reg react \<Longrightarrow> reg (snd (rtw_write8 dev a v h)) = react a [v] (reg h)"
  by (simp add: rtw_write8_def sync_write)

text \<open>Two- and four-byte accesses of a synchronous device.\<close>

lemma sync_read16:
  assumes "sync_device dev reg react"
  obtains h' where "rtw_read16 dev a h = (Inr (le_word [reg h a, reg h (a + 1)]), h')"
    and "reg h' = reg h"
proof
  have "[0..<2] = [0, 1 :: nat]" by (simp add: upt_rec)
  then show "rtw_read16 dev a h =
      (Inr (le_word [reg h a, reg h (a + 1)]), snd (rtw_read16 dev a h))"
    using sync_read [OF assms, of a 2 h] by (simp add: rtw_read16_def prod_eq_iff)
  show "reg (snd (rtw_read16 dev a h)) = reg h"
    using sync_read [OF assms, of a 2 h] by (simp add: rtw_read16_def)
qed

lemma sync_write16:
  "sync_device dev reg react \<Longrightarrow> reg (snd (rtw_write16 dev a v h)) = react a (le_bytes 2 v) (reg h)"
  by (simp add: rtw_write16_def sync_write)

section \<open>A device with a log\<close>

text \<open>\<open>log_writes dev\<close> also keeps the vendor writes, in order, with their return codes ignored.\<close>

definition log_writes :: "'h usb \<Rightarrow> ('h \<times> (u16 \<times> bytes) list) usb" where
  "log_writes dev =
    \<lparr>ctrl_in = \<lambda>reg n (h, l). (let (r, h') = ctrl_in dev reg n h in (r, (h', l))),
     ctrl_out = \<lambda>reg bs (h, l). (let (r, h') = ctrl_out dev reg bs h in (r, (h', l @ [(reg, bs)]))),
     sleep_us = \<lambda>n (h, l). (sleep_us dev n h, l)\<rparr>"

lemma log_write [simp]: "snd (snd (rtw_write (log_writes dev) reg bs hl)) = snd hl @ [(reg, bs)]"
  by (cases hl) (simp add: log_writes_def rtw_write_def split: prod.split)

lemma log_read_attempts [simp]:
  "snd (snd (rtw_read_attempts k (log_writes dev) reg n hl)) = snd hl"
proof (induction k arbitrary: hl)
  case 0
  then show ?case by simp
next
  case (Suc k)
  obtain h l where hl: "hl = (h, l)" by (cases hl)
  obtain r bs h' where r: "ctrl_in dev reg n h = ((r, bs), h')" by (metis surj_pair)
  have in_eq: "ctrl_in (log_writes dev) reg n hl = ((r, bs), (h', l))"
    by (simp add: log_writes_def hl r)
  have sl: "snd (sleep_us (log_writes dev) 2000 (h', l)) = l" by (simp add: log_writes_def)
  show ?case using Suc [of "sleep_us (log_writes dev) 2000 (h', l)"] sl by (simp add: in_eq) (simp add: hl)
qed

lemma log_read [simp]: "snd (snd (rtw_read (log_writes dev) reg n hl)) = snd hl"
  by (simp add: rtw_read_def)

lemma log_read8 [simp]: "snd (snd (rtw_read8 (log_writes dev) reg hl)) = snd hl"
  using log_read [of dev reg 1 hl] by (simp add: rtw_read8_def)

lemma log_sleep [simp]: "snd (sleep_us (log_writes dev) n hl) = snd hl"
  by (cases hl) (simp add: log_writes_def)

lemma log_write32 [simp]:
  "snd (snd (rtw_write32 (log_writes dev) reg v hl)) = snd hl @ [(reg, le_bytes 4 v)]"
  by (simp add: rtw_write32_def)

lemma log_read8_D: "rtw_read8 (log_writes dev) reg hl = (x, hl') \<Longrightarrow> snd hl' = snd hl"
  using log_read8 [of dev reg hl] by (simp del: log_read8)

lemma log_write32_D:
  "rtw_write32 (log_writes dev) reg v hl = (x, hl') \<Longrightarrow> snd hl' = snd hl @ [(reg, le_bytes 4 v)]"
  using log_write32 [of dev reg v hl] by (simp del: log_write32)

end
