(* ===== verification/PwrSeq.thy ===== *)
theory PwrSeq
  imports UsbIo
begin

text \<open>
  The power-sequence engine: the command format of hal/HalPwrSeqCmd.h and its interpreter
  \<open>HalModule::HalPwrSeqCmdParsing\<close> of src/HalModule.cpp. A flow is an array of commands; the
  interpreter walks it, skips the entries of other bus interfaces, chip cuts and fabs, and
  returns at the first END command. Walking past the array is the outcome \<open>PwrPastEnd\<close>.
\<close>

section \<open>The command format\<close>

type_synonym u4 = "4 word"

abbreviation (input) PWR_CMD_READ :: u4 where "PWR_CMD_READ \<equiv> 0x00"
abbreviation (input) PWR_CMD_WRITE :: u4 where "PWR_CMD_WRITE \<equiv> 0x01"
abbreviation (input) PWR_CMD_POLLING :: u4 where "PWR_CMD_POLLING \<equiv> 0x02"
abbreviation (input) PWR_CMD_DELAY :: u4 where "PWR_CMD_DELAY \<equiv> 0x03"
abbreviation (input) PWR_CMD_END :: u4 where "PWR_CMD_END \<equiv> 0x04"
abbreviation (input) PWR_BASEADDR_MAC :: u4 where "PWR_BASEADDR_MAC \<equiv> 0x00"
abbreviation (input) PWR_BASEADDR_USB :: u4 where "PWR_BASEADDR_USB \<equiv> 0x01"
abbreviation (input) PWR_BASEADDR_PCIE :: u4 where "PWR_BASEADDR_PCIE \<equiv> 0x02"
abbreviation (input) PWR_BASEADDR_SDIO :: u4 where "PWR_BASEADDR_SDIO \<equiv> 0x03"
abbreviation (input) PWR_INTF_SDIO_MSK :: u4 where "PWR_INTF_SDIO_MSK \<equiv> BIT0"
abbreviation (input) PWR_INTF_USB_MSK :: u4 where "PWR_INTF_USB_MSK \<equiv> BIT1"
abbreviation (input) PWR_INTF_PCI_MSK :: u4 where "PWR_INTF_PCI_MSK \<equiv> BIT2"
abbreviation (input) PWR_INTF_ALL_MSK :: u4 where "PWR_INTF_ALL_MSK \<equiv> BIT0 OR BIT1 OR BIT2 OR BIT3"
abbreviation (input) PWR_FAB_TSMC_MSK :: u4 where "PWR_FAB_TSMC_MSK \<equiv> BIT0"
abbreviation (input) PWR_FAB_UMC_MSK :: u4 where "PWR_FAB_UMC_MSK \<equiv> BIT1"
abbreviation (input) PWR_FAB_ALL_MSK :: u4 where "PWR_FAB_ALL_MSK \<equiv> BIT0 OR BIT1 OR BIT2 OR BIT3"
abbreviation (input) PWR_CUT_TESTCHIP_MSK :: u8 where "PWR_CUT_TESTCHIP_MSK \<equiv> BIT0"
abbreviation (input) PWR_CUT_A_MSK :: u8 where "PWR_CUT_A_MSK \<equiv> BIT1"
abbreviation (input) PWR_CUT_ALL_MSK :: u8 where "PWR_CUT_ALL_MSK \<equiv> 0xFF"
abbreviation (input) PWRSEQ_DELAY_US :: u8 where "PWRSEQ_DELAY_US \<equiv> 0"
abbreviation (input) PWRSEQ_DELAY_MS :: u8 where "PWRSEQ_DELAY_MS \<equiv> 1"

record WLAN_PWR_CFG =
  pc_offset :: u16
  pc_cut_msk :: u8
  pc_fab_msk :: u4
  pc_interface_msk :: u4
  pc_base :: u4
  pc_cmd :: u4
  pc_msk :: u8
  pc_value :: u8

text \<open>The positional initialiser of the C arrays.\<close>

definition pwr_cfg :: "u16 \<Rightarrow> u8 \<Rightarrow> u4 \<Rightarrow> u4 \<Rightarrow> u4 \<Rightarrow> u4 \<Rightarrow> u8 \<Rightarrow> u8 \<Rightarrow> WLAN_PWR_CFG" where
  "pwr_cfg off cutm fab intf base cmd msk val =
    \<lparr>pc_offset = off, pc_cut_msk = cutm, pc_fab_msk = fab, pc_interface_msk = intf,
     pc_base = base, pc_cmd = cmd, pc_msk = msk, pc_value = val\<rparr>"

datatype ic_type = CHIP_8812 | CHIP_8821 | CHIP_8814A

text \<open>The part of \<open>version_id\<close> (src/EepromManager) the interpreter reads.\<close>

record version_id =
  ICType :: ic_type
  normal_chip :: bool

section \<open>The interpreter\<close>

definition cut_mask :: "version_id \<Rightarrow> u8" where
  "cut_mask ver =
    (if ICType ver = CHIP_8821
     then (if normal_chip ver then PWR_CUT_A_MSK else PWR_CUT_TESTCHIP_MSK)
     else PWR_CUT_ALL_MSK)"

text \<open>The three filters at the head of the loop body, in the order of the code.\<close>

definition selected :: "version_id \<Rightarrow> WLAN_PWR_CFG \<Rightarrow> bool" where
  "selected ver c \<longleftrightarrow>
     pc_interface_msk c AND PWR_INTF_USB_MSK \<noteq> 0 \<and>
     pc_cut_msk c AND cut_mask ver \<noteq> 0 \<and>
     pc_fab_msk c AND PWR_FAB_ALL_MSK \<noteq> 0"

definition maxPollingCnt :: nat where
  "maxPollingCnt = 5000"

datatype pwr_result = PwrReturn bool | PwrThrow usb_error | PwrPastEnd

text \<open>PWR_CMD_WRITE: read, replace the masked bits, write back.\<close>

definition merge_bits :: "u8 \<Rightarrow> u8 \<Rightarrow> u8 \<Rightarrow> u8" where
  "merge_bits old msk val = (old AND NOT msk) OR (val AND msk)"

definition do_write :: "'h usb \<Rightarrow> WLAN_PWR_CFG \<Rightarrow> 'h \<Rightarrow> (usb_error + unit) \<times> 'h" where
  "do_write dev c h =
    (case rtw_read8 dev (pc_offset c) h of
       (Inl e, h') \<Rightarrow> (Inl e, h')
     | (Inr v, h') \<Rightarrow>
         (Inr (), snd (rtw_write8 dev (pc_offset c) (merge_bits v (pc_msk c) (pc_value c)) h')))"

text \<open>
  PWR_CMD_POLLING: the inner loop. \<open>cnt\<close> is \<open>pollingCount\<close>, which the code declares outside the
  loop over the commands; it is compared before its increment, also after a successful poll.
  The branch that toggles 0x04[3] and retries is guarded by \<open>bHWICSupport\<close>, a local constant
  \<open>false\<close>, so it is dead code and not modelled.
\<close>

datatype poll_result = PollHit nat | PollTimeout | PollThrow usb_error

function poll_loop :: "'h usb \<Rightarrow> WLAN_PWR_CFG \<Rightarrow> nat \<Rightarrow> 'h \<Rightarrow> poll_result \<times> 'h" where
  "poll_loop dev c cnt h =
    (case rtw_read8 dev (pc_offset c) h of
       (Inl e, h') \<Rightarrow> (PollThrow e, h')
     | (Inr v, h') \<Rightarrow>
         (let hit = (v AND pc_msk c = pc_value c AND pc_msk c);
              h'' = (if hit then h' else sleep_us dev 10000 h') in
          if cnt > maxPollingCnt then (PollTimeout, h'')
          else if hit then (PollHit (cnt + 1), h'')
          else poll_loop dev c (cnt + 1) h''))"
  by pat_completeness auto
termination
  by (relation "measure (\<lambda>(dev, c, cnt, h). maxPollingCnt + 1 - cnt)") (auto simp: maxPollingCnt_def)

declare poll_loop.simps [simp del]

definition do_delay :: "'h usb \<Rightarrow> WLAN_PWR_CFG \<Rightarrow> 'h \<Rightarrow> 'h" where
  "do_delay dev c h =
    (if pc_value c = PWRSEQ_DELAY_US then sleep_us dev (unat (pc_offset c)) h
     else sleep_us dev (1000 * unat (pc_offset c)) h)"

text \<open>The loop over the array; \<open>cfgs\<close> is the array from the current index on.\<close>

fun pwr_parse ::
    "'h usb \<Rightarrow> version_id \<Rightarrow> WLAN_PWR_CFG list \<Rightarrow> nat \<Rightarrow> 'h \<Rightarrow> pwr_result \<times> 'h" where
  "pwr_parse dev ver [] cnt h = (PwrPastEnd, h)"
| "pwr_parse dev ver (c # cs) cnt h =
    (if \<not> selected ver c then pwr_parse dev ver cs cnt h
     else if pc_cmd c = PWR_CMD_READ then pwr_parse dev ver cs cnt h
     else if pc_cmd c = PWR_CMD_WRITE then
       (case do_write dev c h of
          (Inl e, h') \<Rightarrow> (PwrThrow e, h')
        | (Inr _, h') \<Rightarrow> pwr_parse dev ver cs cnt h')
     else if pc_cmd c = PWR_CMD_POLLING then
       (case poll_loop dev c cnt h of
          (PollHit cnt', h') \<Rightarrow> pwr_parse dev ver cs cnt' h'
        | (PollTimeout, h') \<Rightarrow> (PwrReturn False, h')
        | (PollThrow e, h') \<Rightarrow> (PwrThrow e, h'))
     else if pc_cmd c = PWR_CMD_DELAY then pwr_parse dev ver cs cnt (do_delay dev c h)
     else if pc_cmd c = PWR_CMD_END then (PwrReturn True, h)
     else pwr_parse dev ver cs cnt h)"

definition HalPwrSeqCmdParsing :: "'h usb \<Rightarrow> version_id \<Rightarrow> WLAN_PWR_CFG list \<Rightarrow> 'h \<Rightarrow> pwr_result \<times> 'h" where
  "HalPwrSeqCmdParsing dev ver flow h = pwr_parse dev ver flow 0 h"

section \<open>Which entries matter\<close>

text \<open>The entries that reach the chip: selected, and neither READ nor an unknown command.\<close>

definition effective :: "version_id \<Rightarrow> WLAN_PWR_CFG \<Rightarrow> bool" where
  "effective ver c \<longleftrightarrow> selected ver c \<and>
     pc_cmd c \<in> {PWR_CMD_WRITE, PWR_CMD_POLLING, PWR_CMD_DELAY, PWR_CMD_END}"

lemma pwr_parse_filter:
  "pwr_parse dev ver cs cnt h = pwr_parse dev ver (filter (effective ver) cs) cnt h"
  by (induction dev ver cs cnt h rule: pwr_parse.induct)
     (auto simp: effective_def split: prod.split sum.split poll_result.split)

text \<open>A flow is well formed for a chip when an END command of its own interface closes it.\<close>

definition has_end :: "version_id \<Rightarrow> WLAN_PWR_CFG list \<Rightarrow> bool" where
  "has_end ver cs \<longleftrightarrow> (\<exists>c \<in> set cs. selected ver c \<and> pc_cmd c = PWR_CMD_END)"

lemma has_end_simps [simp]:
  "has_end ver [] = False"
  "has_end ver (c # cs) = ((selected ver c \<and> pc_cmd c = PWR_CMD_END) \<or> has_end ver cs)"
  "has_end ver (as @ bs) = (has_end ver as \<or> has_end ver bs)"
  by (auto simp: has_end_def)

lemma pwr_parse_not_past_end:
  "has_end ver cs \<Longrightarrow> fst (pwr_parse dev ver cs cnt h) \<noteq> PwrPastEnd"
  by (induction dev ver cs cnt h rule: pwr_parse.induct)
     (auto split: prod.split sum.split poll_result.split)

text \<open>Commands after the first END are never reached.\<close>

lemma pwr_parse_ignores_tail:
  "has_end ver cs \<Longrightarrow> pwr_parse dev ver (cs @ rest) cnt h = pwr_parse dev ver cs cnt h"
  by (induction dev ver cs cnt h rule: pwr_parse.induct)
     (auto split: prod.split sum.split poll_result.split)

section \<open>Cost\<close>

text \<open>
  All polling commands of one flow share one budget: with \<open>pollingCount\<close> at \<open>cnt\<close> at most
  \<open>5002 - cnt\<close> poll reads remain, each of at most four bus transfers.
\<close>

lemma poll_loop_cost:
  "cnt \<le> maxPollingCnt + 1 \<Longrightarrow>
   poll_loop (count_reads dev) c cnt hk = (res, hk') \<Longrightarrow>
   snd hk' + (case res of PollHit cnt' \<Rightarrow> 4 * (maxPollingCnt + 2 - cnt') | _ \<Rightarrow> 0)
     \<le> snd hk + 4 * (maxPollingCnt + 2 - cnt) \<and>
   (case res of PollHit cnt' \<Rightarrow> cnt' \<le> maxPollingCnt + 1 | _ \<Rightarrow> True)"
proof (induction "count_reads dev" c cnt hk rule: poll_loop.induct)
  case (1 c cnt hk)
  obtain v hk1 where rd: "rtw_read8 (count_reads dev) (pc_offset c) hk = (v, hk1)"
    by (cases "rtw_read8 (count_reads dev) (pc_offset c) hk")
  then have k1: "snd hk1 \<le> snd hk + 4"
    using count_read8 [of dev "pc_offset c" hk] by simp
  show ?case
  proof (cases v)
    case (Inl e)
    then show ?thesis using "1.prems" rd k1 by (auto simp: poll_loop.simps)
  next
    case (Inr b)
    let ?hit = "b AND pc_msk c = pc_value c AND pc_msk c"
    show ?thesis
    proof (cases "cnt > maxPollingCnt \<or> ?hit")
      case True
      then show ?thesis using "1.prems" rd k1 Inr
        by (auto simp: poll_loop.simps [of "count_reads dev" c cnt hk] split: if_splits)
    next
      case False
      then have "poll_loop (count_reads dev) c (Suc cnt) (sleep_us (count_reads dev) 10000 hk1)
          = (res, hk')"
        using "1.prems" rd Inr by (simp add: poll_loop.simps [of "count_reads dev" c cnt hk])
      with "1.hyps" [OF rd [symmetric] Inr refl refl, simplified] False k1
      show ?thesis by (auto split: poll_result.splits)
    qed
  qed
qed

lemma do_write_cost:
  "do_write (count_reads dev) c hk = (res, hk') \<Longrightarrow> snd hk' \<le> snd hk + 4"
  using count_read8 [of dev "pc_offset c" hk]
  by (auto simp: do_write_def split: prod.splits sum.splits)

lemma pwr_parse_cost:
  "cnt \<le> maxPollingCnt + 1 \<Longrightarrow>
   snd (snd (pwr_parse (count_reads dev) ver cs cnt hk))
     \<le> snd hk + 4 * length cs + 4 * (maxPollingCnt + 2 - cnt)"
proof (induction cs arbitrary: cnt hk)
  case Nil
  then show ?case by simp
next
  case (Cons c cs)
  note IH = Cons.IH and cnt = Cons.prems
  let ?dev = "count_reads dev"
  consider (w) "selected ver c" "pc_cmd c = PWR_CMD_WRITE"
    | (p) "selected ver c" "pc_cmd c = PWR_CMD_POLLING"
    | (d) "selected ver c" "pc_cmd c = PWR_CMD_DELAY"
    | (e) "selected ver c" "pc_cmd c = PWR_CMD_END"
    | (o) "\<not> selected ver c \<or> pc_cmd c \<notin> {PWR_CMD_WRITE, PWR_CMD_POLLING, PWR_CMD_DELAY, PWR_CMD_END}"
    by auto
  then show ?case
  proof cases
    case w
    obtain res hk' where *: "do_write ?dev c hk = (res, hk')" by (metis surj_pair)
    show ?thesis using do_write_cost [OF *] IH [OF cnt, of hk'] w * by (cases res) auto
  next
    case p
    obtain res hk' where *: "poll_loop ?dev c cnt hk = (res, hk')" by (metis surj_pair)
    show ?thesis
    proof (cases res)
      case (PollHit cnt')
      then show ?thesis using poll_loop_cost [OF cnt *] IH [of cnt' hk'] p * by simp
    qed (use poll_loop_cost [OF cnt *] p * in simp_all)
  next
    case d
    have "snd (do_delay ?dev c hk) = snd hk" by (simp add: do_delay_def)
    then show ?thesis using IH [OF cnt, of "do_delay ?dev c hk"] d by simp
  next
    case e
    then show ?thesis by simp
  next
    case o
    then have "pwr_parse ?dev ver (c # cs) cnt hk = pwr_parse ?dev ver cs cnt hk"
      by (auto split: if_splits)
    then show ?thesis using IH [OF cnt, of hk] by simp
  qed
qed

section \<open>Refinement: the flow on a register file\<close>

text \<open>
  What a flow means for the registers: every selected write merges its masked bits, a poll
  demands that the register shows the value, END succeeds.
\<close>

fun flow_spec ::
    "version_id \<Rightarrow> (u16 \<Rightarrow> bytes \<Rightarrow> regs \<Rightarrow> regs) \<Rightarrow> WLAN_PWR_CFG list \<Rightarrow> regs \<Rightarrow> bool \<times> regs" where
  "flow_spec ver react [] r = (False, r)"
| "flow_spec ver react (c # cs) r =
    (if \<not> selected ver c then flow_spec ver react cs r
     else if pc_cmd c = PWR_CMD_WRITE then
       flow_spec ver react cs
         (react (pc_offset c) [merge_bits (r (pc_offset c)) (pc_msk c) (pc_value c)] r)
     else if pc_cmd c = PWR_CMD_POLLING then
       (if r (pc_offset c) AND pc_msk c = pc_value c AND pc_msk c
        then flow_spec ver react cs r else (False, r))
     else if pc_cmd c = PWR_CMD_END then (True, r)
     else flow_spec ver react cs r)"

definition polls :: "WLAN_PWR_CFG list \<Rightarrow> nat" where
  "polls cs = length (filter (\<lambda>c. pc_cmd c = PWR_CMD_POLLING) cs)"

lemma polls_simps [simp]:
  "polls [] = 0"
  "polls (c # cs) = (if pc_cmd c = PWR_CMD_POLLING then Suc (polls cs) else polls cs)"
  "polls (as @ bs) = polls as + polls bs"
  by (simp_all add: polls_def)

lemma poll_loop_sync:
  assumes "sync_device dev reg react"
  shows "\<exists>h'. reg h' = reg h \<and> poll_loop dev c cnt h =
    (if reg h (pc_offset c) AND pc_msk c = pc_value c AND pc_msk c \<and> cnt \<le> maxPollingCnt
     then PollHit (cnt + 1) else PollTimeout, h')"
  using assms
proof (induction dev c cnt h rule: poll_loop.induct)
  case (1 dev c cnt h)
  obtain h1 where rd: "rtw_read8 dev (pc_offset c) h = (Inr (reg h (pc_offset c)), h1)"
    and r1: "reg h1 = reg h"
    using sync_read8 [OF "1.prems"] by metis
  let ?hit = "reg h (pc_offset c) AND pc_msk c = pc_value c AND pc_msk c"
  have r2: "reg (sleep_us dev 10000 h1) = reg h"
    using sync_sleep [OF "1.prems"] r1 by simp
  show ?case
  proof (cases "cnt > maxPollingCnt \<or> ?hit")
    case True
    then show ?thesis using rd r1 r2 by (auto simp: poll_loop.simps [of dev c cnt h])
  next
    case False
    then have step: "poll_loop dev c cnt h = poll_loop dev c (cnt + 1) (sleep_us dev 10000 h1)"
      using rd by (simp add: poll_loop.simps [of dev c cnt h])
    from "1.IH" [OF rd [symmetric] refl refl refl] False "1.prems" r2
    show ?thesis by (simp add: step)
  qed
qed

lemma do_write_sync:
  assumes "sync_device dev reg react"
  shows "\<exists>h'. do_write dev c h = (Inr (), h') \<and>
    reg h' = react (pc_offset c) [merge_bits (reg h (pc_offset c)) (pc_msk c) (pc_value c)] (reg h)"
proof -
  obtain h1 where "rtw_read8 dev (pc_offset c) h = (Inr (reg h (pc_offset c)), h1)"
    and "reg h1 = reg h"
    using sync_read8 [OF assms] by metis
  then show ?thesis using sync_write8 [OF assms] by (simp add: do_write_def)
qed

lemma do_delay_sync:
  "sync_device dev reg react \<Longrightarrow> reg (do_delay dev c h) = reg h"
  by (simp add: do_delay_def sync_sleep)

lemma pwr_parse_refines:
  assumes "sync_device dev reg react" and "has_end ver cs"
    and "cnt + polls cs \<le> maxPollingCnt + 1"
  shows "\<exists>h'. pwr_parse dev ver cs cnt h = (PwrReturn (fst (flow_spec ver react cs (reg h))), h') \<and>
    reg h' = snd (flow_spec ver react cs (reg h))"
  using assms
proof (induction cs arbitrary: cnt h)
  case Nil
  then show ?case by simp
next
  case (Cons c cs)
  note dev = Cons.prems(1)
  consider "\<not> selected ver c \<or> pc_cmd c \<notin> {PWR_CMD_WRITE, PWR_CMD_POLLING, PWR_CMD_DELAY, PWR_CMD_END}"
    | "selected ver c" "pc_cmd c = PWR_CMD_WRITE" | "selected ver c" "pc_cmd c = PWR_CMD_POLLING"
    | "selected ver c" "pc_cmd c = PWR_CMD_DELAY" | "selected ver c" "pc_cmd c = PWR_CMD_END"
    by auto
  then show ?case
  proof cases
    case 1
    then show ?thesis using Cons.prems Cons.IH [of cnt h] by (auto split: if_splits)
  next
    case 2
    obtain h1 where w: "do_write dev c h = (Inr (), h1)" and r1: "reg h1 =
        react (pc_offset c) [merge_bits (reg h (pc_offset c)) (pc_msk c) (pc_value c)] (reg h)"
      using do_write_sync [OF dev] by metis
    then show ?thesis using 2 Cons.prems Cons.IH [of cnt h1] by simp
  next
    case 3
    obtain h1 where r1: "reg h1 = reg h" and p: "poll_loop dev c cnt h =
      (if reg h (pc_offset c) AND pc_msk c = pc_value c AND pc_msk c \<and> cnt \<le> maxPollingCnt
       then PollHit (cnt + 1) else PollTimeout, h1)"
      using poll_loop_sync [OF dev] by metis
    show ?thesis using 3 Cons.prems Cons.IH [of "cnt + 1" h1] p r1 by auto
  next
    case 4
    then show ?thesis
      using Cons.prems Cons.IH [of cnt "do_delay dev c h"] do_delay_sync [OF dev] by simp
  next
    case 5
    then show ?thesis by simp
  qed
qed

end
