(* ===== verification/PwrFlow8812.thy ===== *)
theory PwrFlow8812
  imports PwrSeq
begin

text \<open>
  The power sequences of the RTL8812A.
  The step lists (the macros of hal/Hal8812PwrSeq.h) and the flow arrays built from them (hal/Hal8812PwrSeq.c).
\<close>

section \<open>Declared sizes of the step groups\<close>

abbreviation (input) RTL8812_TRANS_CARDEMU_TO_ACT_STEPS :: nat where "RTL8812_TRANS_CARDEMU_TO_ACT_STEPS \<equiv> 15"
abbreviation (input) RTL8812_TRANS_ACT_TO_CARDEMU_STEPS :: nat where "RTL8812_TRANS_ACT_TO_CARDEMU_STEPS \<equiv> 15"
abbreviation (input) RTL8812_TRANS_CARDEMU_TO_SUS_STEPS :: nat where "RTL8812_TRANS_CARDEMU_TO_SUS_STEPS \<equiv> 15"
abbreviation (input) RTL8812_TRANS_SUS_TO_CARDEMU_STEPS :: nat where "RTL8812_TRANS_SUS_TO_CARDEMU_STEPS \<equiv> 15"
abbreviation (input) RTL8812_TRANS_CARDEMU_TO_PDN_STEPS :: nat where "RTL8812_TRANS_CARDEMU_TO_PDN_STEPS \<equiv> 15"
abbreviation (input) RTL8812_TRANS_PDN_TO_CARDEMU_STEPS :: nat where "RTL8812_TRANS_PDN_TO_CARDEMU_STEPS \<equiv> 15"
abbreviation (input) RTL8812_TRANS_ACT_TO_LPS_STEPS :: nat where "RTL8812_TRANS_ACT_TO_LPS_STEPS \<equiv> 15"
abbreviation (input) RTL8812_TRANS_LPS_TO_ACT_STEPS :: nat where "RTL8812_TRANS_LPS_TO_ACT_STEPS \<equiv> 15"
abbreviation (input) RTL8812_TRANS_END_STEPS :: nat where "RTL8812_TRANS_END_STEPS \<equiv> 1"

section \<open>Step groups\<close>

definition RTL8812_TRANS_CARDEMU_TO_ACT :: "WLAN_PWR_CFG list" where
  "RTL8812_TRANS_CARDEMU_TO_ACT =
  [pwr_cfg 0x0005 PWR_CUT_ALL_MSK PWR_FAB_ALL_MSK PWR_INTF_ALL_MSK PWR_BASEADDR_MAC PWR_CMD_WRITE BIT2 0,
   pwr_cfg 0x0006 PWR_CUT_ALL_MSK PWR_FAB_ALL_MSK PWR_INTF_ALL_MSK PWR_BASEADDR_MAC PWR_CMD_POLLING BIT1 BIT1,
   pwr_cfg 0x0005 PWR_CUT_ALL_MSK PWR_FAB_ALL_MSK PWR_INTF_ALL_MSK PWR_BASEADDR_MAC PWR_CMD_WRITE BIT3 0,
   pwr_cfg 0x0005 PWR_CUT_ALL_MSK PWR_FAB_ALL_MSK PWR_INTF_ALL_MSK PWR_BASEADDR_MAC PWR_CMD_WRITE BIT0 BIT0,
   pwr_cfg 0x0005 PWR_CUT_ALL_MSK PWR_FAB_ALL_MSK PWR_INTF_ALL_MSK PWR_BASEADDR_MAC PWR_CMD_POLLING BIT0 0,
   pwr_cfg 0x0024 PWR_CUT_ALL_MSK PWR_FAB_ALL_MSK PWR_INTF_ALL_MSK PWR_BASEADDR_MAC PWR_CMD_WRITE BIT1 0,
   pwr_cfg 0x0028 PWR_CUT_ALL_MSK PWR_FAB_ALL_MSK PWR_INTF_ALL_MSK PWR_BASEADDR_MAC PWR_CMD_WRITE BIT3 0]"

definition RTL8812_TRANS_ACT_TO_CARDEMU :: "WLAN_PWR_CFG list" where
  "RTL8812_TRANS_ACT_TO_CARDEMU =
  [pwr_cfg 0x0C00 PWR_CUT_ALL_MSK PWR_FAB_ALL_MSK PWR_INTF_ALL_MSK PWR_BASEADDR_MAC PWR_CMD_WRITE 0xFF 0x04,
   pwr_cfg 0x0E00 PWR_CUT_ALL_MSK PWR_FAB_ALL_MSK PWR_INTF_ALL_MSK PWR_BASEADDR_MAC PWR_CMD_WRITE 0xFF 0x04,
   pwr_cfg 0x0002 PWR_CUT_ALL_MSK PWR_FAB_ALL_MSK PWR_INTF_ALL_MSK PWR_BASEADDR_MAC PWR_CMD_WRITE BIT0 0,
   pwr_cfg 0x0002 PWR_CUT_ALL_MSK PWR_FAB_ALL_MSK PWR_INTF_ALL_MSK PWR_BASEADDR_MAC PWR_CMD_DELAY 0 PWRSEQ_DELAY_US,
   pwr_cfg 0x0002 PWR_CUT_ALL_MSK PWR_FAB_ALL_MSK PWR_INTF_PCI_MSK PWR_BASEADDR_MAC PWR_CMD_WRITE BIT1 0,
   pwr_cfg 0x0007 PWR_CUT_ALL_MSK PWR_FAB_ALL_MSK PWR_INTF_ALL_MSK PWR_BASEADDR_MAC PWR_CMD_WRITE 0xFF 0x2A,
   pwr_cfg 0x0008 PWR_CUT_ALL_MSK PWR_FAB_ALL_MSK PWR_INTF_USB_MSK PWR_BASEADDR_MAC PWR_CMD_WRITE 0x02 0,
   pwr_cfg 0x0005 PWR_CUT_ALL_MSK PWR_FAB_ALL_MSK PWR_INTF_ALL_MSK PWR_BASEADDR_MAC PWR_CMD_WRITE BIT1 BIT1,
   pwr_cfg 0x0005 PWR_CUT_ALL_MSK PWR_FAB_ALL_MSK PWR_INTF_ALL_MSK PWR_BASEADDR_MAC PWR_CMD_POLLING BIT1 0]"

definition RTL8812_TRANS_CARDEMU_TO_SUS :: "WLAN_PWR_CFG list" where
  "RTL8812_TRANS_CARDEMU_TO_SUS =
  [pwr_cfg 0x0042 PWR_CUT_ALL_MSK PWR_FAB_ALL_MSK PWR_INTF_USB_MSK PWR_BASEADDR_MAC PWR_CMD_WRITE 0xF0 0xCC,
   pwr_cfg 0x0042 PWR_CUT_ALL_MSK PWR_FAB_ALL_MSK PWR_INTF_PCI_MSK PWR_BASEADDR_MAC PWR_CMD_WRITE 0xF0 0xEC,
   pwr_cfg 0x0043 PWR_CUT_ALL_MSK PWR_FAB_ALL_MSK PWR_INTF_ALL_MSK PWR_BASEADDR_MAC PWR_CMD_WRITE 0xFF 0x07,
   pwr_cfg 0x0045 PWR_CUT_ALL_MSK PWR_FAB_ALL_MSK PWR_INTF_ALL_MSK PWR_BASEADDR_MAC PWR_CMD_WRITE 0xFF 0x00,
   pwr_cfg 0x0046 PWR_CUT_ALL_MSK PWR_FAB_ALL_MSK PWR_INTF_ALL_MSK PWR_BASEADDR_MAC PWR_CMD_WRITE 0xFF 0xFF,
   pwr_cfg 0x0047 PWR_CUT_ALL_MSK PWR_FAB_ALL_MSK PWR_INTF_ALL_MSK PWR_BASEADDR_MAC PWR_CMD_WRITE 0xFF 0,
   pwr_cfg 0x0007 PWR_CUT_ALL_MSK PWR_FAB_ALL_MSK PWR_INTF_USB_MSK PWR_BASEADDR_MAC PWR_CMD_WRITE 0xFF 0,
   pwr_cfg 0x0014 PWR_CUT_ALL_MSK PWR_FAB_ALL_MSK PWR_INTF_ALL_MSK PWR_BASEADDR_MAC PWR_CMD_WRITE 0x80 BIT7,
   pwr_cfg 0x0015 PWR_CUT_ALL_MSK PWR_FAB_ALL_MSK PWR_INTF_ALL_MSK PWR_BASEADDR_MAC PWR_CMD_WRITE 0x01 BIT0,
   pwr_cfg 0x0023 PWR_CUT_ALL_MSK PWR_FAB_ALL_MSK PWR_INTF_ALL_MSK PWR_BASEADDR_MAC PWR_CMD_WRITE 0x10 BIT4,
   pwr_cfg 0x0008 PWR_CUT_ALL_MSK PWR_FAB_ALL_MSK PWR_INTF_USB_MSK PWR_BASEADDR_MAC PWR_CMD_WRITE 0x02 0,
   pwr_cfg 0x0005 PWR_CUT_ALL_MSK PWR_FAB_ALL_MSK PWR_INTF_ALL_MSK PWR_BASEADDR_MAC PWR_CMD_WRITE BIT3 BIT3]"

definition RTL8812_TRANS_SUS_TO_CARDEMU :: "WLAN_PWR_CFG list" where
  "RTL8812_TRANS_SUS_TO_CARDEMU =
  [pwr_cfg 0x0005 PWR_CUT_ALL_MSK PWR_FAB_ALL_MSK PWR_INTF_ALL_MSK PWR_BASEADDR_MAC PWR_CMD_WRITE BIT3 0,
   pwr_cfg 0x0023 PWR_CUT_ALL_MSK PWR_FAB_ALL_MSK PWR_INTF_ALL_MSK PWR_BASEADDR_MAC PWR_CMD_WRITE 0x10 0,
   pwr_cfg 0x0015 PWR_CUT_ALL_MSK PWR_FAB_ALL_MSK PWR_INTF_ALL_MSK PWR_BASEADDR_MAC PWR_CMD_WRITE 0x01 0,
   pwr_cfg 0x0014 PWR_CUT_ALL_MSK PWR_FAB_ALL_MSK PWR_INTF_ALL_MSK PWR_BASEADDR_MAC PWR_CMD_WRITE 0x80 0,
   pwr_cfg 0x0046 PWR_CUT_ALL_MSK PWR_FAB_ALL_MSK PWR_INTF_ALL_MSK PWR_BASEADDR_MAC PWR_CMD_WRITE 0xFF 0x00,
   pwr_cfg 0x0043 PWR_CUT_ALL_MSK PWR_FAB_ALL_MSK PWR_INTF_ALL_MSK PWR_BASEADDR_MAC PWR_CMD_WRITE 0xFF 0x00]"

definition RTL8812_TRANS_CARDEMU_TO_CARDDIS :: "WLAN_PWR_CFG list" where
  "RTL8812_TRANS_CARDEMU_TO_CARDDIS =
  [pwr_cfg 0x0003 PWR_CUT_ALL_MSK PWR_FAB_ALL_MSK PWR_INTF_ALL_MSK PWR_BASEADDR_MAC PWR_CMD_WRITE BIT2 0,
   pwr_cfg 0x0080 PWR_CUT_ALL_MSK PWR_FAB_ALL_MSK PWR_INTF_ALL_MSK PWR_BASEADDR_MAC PWR_CMD_WRITE 0xFF 0x05,
   pwr_cfg 0x0042 PWR_CUT_ALL_MSK PWR_FAB_ALL_MSK PWR_INTF_USB_MSK PWR_BASEADDR_MAC PWR_CMD_WRITE 0xF0 0xCC,
   pwr_cfg 0x0042 PWR_CUT_ALL_MSK PWR_FAB_ALL_MSK PWR_INTF_PCI_MSK PWR_BASEADDR_MAC PWR_CMD_WRITE 0xF0 0xEC,
   pwr_cfg 0x0043 PWR_CUT_ALL_MSK PWR_FAB_ALL_MSK PWR_INTF_ALL_MSK PWR_BASEADDR_MAC PWR_CMD_WRITE 0xFF 0x07,
   pwr_cfg 0x0045 PWR_CUT_ALL_MSK PWR_FAB_ALL_MSK PWR_INTF_ALL_MSK PWR_BASEADDR_MAC PWR_CMD_WRITE 0xFF 0x00,
   pwr_cfg 0x0046 PWR_CUT_ALL_MSK PWR_FAB_ALL_MSK PWR_INTF_ALL_MSK PWR_BASEADDR_MAC PWR_CMD_WRITE 0xFF 0xFF,
   pwr_cfg 0x0047 PWR_CUT_ALL_MSK PWR_FAB_ALL_MSK PWR_INTF_ALL_MSK PWR_BASEADDR_MAC PWR_CMD_WRITE 0xFF 0,
   pwr_cfg 0x0014 PWR_CUT_ALL_MSK PWR_FAB_ALL_MSK PWR_INTF_ALL_MSK PWR_BASEADDR_MAC PWR_CMD_WRITE 0x80 BIT7,
   pwr_cfg 0x0015 PWR_CUT_ALL_MSK PWR_FAB_ALL_MSK PWR_INTF_ALL_MSK PWR_BASEADDR_MAC PWR_CMD_WRITE 0x01 BIT0,
   pwr_cfg 0x0012 PWR_CUT_ALL_MSK PWR_FAB_ALL_MSK PWR_INTF_ALL_MSK PWR_BASEADDR_MAC PWR_CMD_WRITE 0x01 0,
   pwr_cfg 0x0023 PWR_CUT_ALL_MSK PWR_FAB_ALL_MSK PWR_INTF_ALL_MSK PWR_BASEADDR_MAC PWR_CMD_WRITE 0x10 BIT4,
   pwr_cfg 0x0008 PWR_CUT_ALL_MSK PWR_FAB_ALL_MSK PWR_INTF_USB_MSK PWR_BASEADDR_MAC PWR_CMD_WRITE 0x02 0,
   pwr_cfg 0x0007 PWR_CUT_ALL_MSK PWR_FAB_ALL_MSK PWR_INTF_USB_MSK PWR_BASEADDR_MAC PWR_CMD_WRITE 0xFF 0x20,
   pwr_cfg 0x001F PWR_CUT_ALL_MSK PWR_FAB_ALL_MSK PWR_INTF_USB_MSK PWR_BASEADDR_MAC PWR_CMD_WRITE BIT1 0,
   pwr_cfg 0x0076 PWR_CUT_ALL_MSK PWR_FAB_ALL_MSK PWR_INTF_USB_MSK PWR_BASEADDR_MAC PWR_CMD_WRITE BIT1 0,
   pwr_cfg 0x0005 PWR_CUT_ALL_MSK PWR_FAB_ALL_MSK PWR_INTF_ALL_MSK PWR_BASEADDR_MAC PWR_CMD_WRITE BIT3 BIT3]"

definition RTL8812_TRANS_CARDDIS_TO_CARDEMU :: "WLAN_PWR_CFG list" where
  "RTL8812_TRANS_CARDDIS_TO_CARDEMU =
  [pwr_cfg 0x0012 PWR_CUT_ALL_MSK PWR_FAB_ALL_MSK PWR_INTF_ALL_MSK PWR_BASEADDR_MAC PWR_CMD_WRITE BIT0 BIT0,
   pwr_cfg 0x0014 PWR_CUT_ALL_MSK PWR_FAB_ALL_MSK PWR_INTF_ALL_MSK PWR_BASEADDR_MAC PWR_CMD_WRITE 0x80 0,
   pwr_cfg 0x0015 PWR_CUT_ALL_MSK PWR_FAB_ALL_MSK PWR_INTF_ALL_MSK PWR_BASEADDR_MAC PWR_CMD_WRITE 0x01 0,
   pwr_cfg 0x0023 PWR_CUT_ALL_MSK PWR_FAB_ALL_MSK PWR_INTF_ALL_MSK PWR_BASEADDR_MAC PWR_CMD_WRITE 0x10 0,
   pwr_cfg 0x0046 PWR_CUT_ALL_MSK PWR_FAB_ALL_MSK PWR_INTF_ALL_MSK PWR_BASEADDR_MAC PWR_CMD_WRITE 0xFF 0x00,
   pwr_cfg 0x0043 PWR_CUT_ALL_MSK PWR_FAB_ALL_MSK PWR_INTF_ALL_MSK PWR_BASEADDR_MAC PWR_CMD_WRITE 0xFF 0x00,
   pwr_cfg 0x0005 PWR_CUT_ALL_MSK PWR_FAB_ALL_MSK PWR_INTF_PCI_MSK PWR_BASEADDR_MAC PWR_CMD_WRITE BIT2 0,
   pwr_cfg 0x0005 PWR_CUT_ALL_MSK PWR_FAB_ALL_MSK PWR_INTF_ALL_MSK PWR_BASEADDR_MAC PWR_CMD_WRITE BIT3 0,
   pwr_cfg 0x0003 PWR_CUT_ALL_MSK PWR_FAB_ALL_MSK PWR_INTF_ALL_MSK PWR_BASEADDR_MAC PWR_CMD_WRITE BIT2 BIT2,
   pwr_cfg 0x0301 PWR_CUT_ALL_MSK PWR_FAB_ALL_MSK PWR_INTF_PCI_MSK PWR_BASEADDR_MAC PWR_CMD_WRITE 0xFF 0,
   pwr_cfg 0x0024 PWR_CUT_ALL_MSK PWR_FAB_ALL_MSK PWR_INTF_ALL_MSK PWR_BASEADDR_MAC PWR_CMD_WRITE BIT1 BIT1,
   pwr_cfg 0x0028 PWR_CUT_ALL_MSK PWR_FAB_ALL_MSK PWR_INTF_ALL_MSK PWR_BASEADDR_MAC PWR_CMD_WRITE BIT3 BIT3]"

definition RTL8812_TRANS_CARDEMU_TO_PDN :: "WLAN_PWR_CFG list" where
  "RTL8812_TRANS_CARDEMU_TO_PDN =
  [pwr_cfg 0x0005 PWR_CUT_ALL_MSK PWR_FAB_ALL_MSK PWR_INTF_ALL_MSK PWR_BASEADDR_MAC PWR_CMD_WRITE BIT7 BIT7]"

definition RTL8812_TRANS_PDN_TO_CARDEMU :: "WLAN_PWR_CFG list" where
  "RTL8812_TRANS_PDN_TO_CARDEMU =
  [pwr_cfg 0x0005 PWR_CUT_ALL_MSK PWR_FAB_ALL_MSK PWR_INTF_ALL_MSK PWR_BASEADDR_MAC PWR_CMD_WRITE BIT7 0]"

definition RTL8812_TRANS_ACT_TO_LPS :: "WLAN_PWR_CFG list" where
  "RTL8812_TRANS_ACT_TO_LPS =
  [pwr_cfg 0x0301 PWR_CUT_ALL_MSK PWR_FAB_ALL_MSK PWR_INTF_PCI_MSK PWR_BASEADDR_MAC PWR_CMD_WRITE 0xFF 0xFF,
   pwr_cfg 0x0522 PWR_CUT_ALL_MSK PWR_FAB_ALL_MSK PWR_INTF_ALL_MSK PWR_BASEADDR_MAC PWR_CMD_WRITE 0xFF 0x7F,
   pwr_cfg 0x05F8 PWR_CUT_ALL_MSK PWR_FAB_ALL_MSK PWR_INTF_ALL_MSK PWR_BASEADDR_MAC PWR_CMD_POLLING 0xFF 0,
   pwr_cfg 0x05F9 PWR_CUT_ALL_MSK PWR_FAB_ALL_MSK PWR_INTF_ALL_MSK PWR_BASEADDR_MAC PWR_CMD_POLLING 0xFF 0,
   pwr_cfg 0x05FA PWR_CUT_ALL_MSK PWR_FAB_ALL_MSK PWR_INTF_ALL_MSK PWR_BASEADDR_MAC PWR_CMD_POLLING 0xFF 0,
   pwr_cfg 0x05FB PWR_CUT_ALL_MSK PWR_FAB_ALL_MSK PWR_INTF_ALL_MSK PWR_BASEADDR_MAC PWR_CMD_POLLING 0xFF 0,
   pwr_cfg 0x0C00 PWR_CUT_ALL_MSK PWR_FAB_ALL_MSK PWR_INTF_ALL_MSK PWR_BASEADDR_MAC PWR_CMD_WRITE 0xFF 0x04,
   pwr_cfg 0x0E00 PWR_CUT_ALL_MSK PWR_FAB_ALL_MSK PWR_INTF_ALL_MSK PWR_BASEADDR_MAC PWR_CMD_WRITE 0xFF 0x04,
   pwr_cfg 0x0002 PWR_CUT_ALL_MSK PWR_FAB_ALL_MSK PWR_INTF_ALL_MSK PWR_BASEADDR_MAC PWR_CMD_WRITE BIT0 0,
   pwr_cfg 0x0002 PWR_CUT_ALL_MSK PWR_FAB_ALL_MSK PWR_INTF_ALL_MSK PWR_BASEADDR_MAC PWR_CMD_DELAY 0 PWRSEQ_DELAY_US,
   pwr_cfg 0x0002 PWR_CUT_ALL_MSK PWR_FAB_ALL_MSK PWR_INTF_USB_MSK PWR_BASEADDR_MAC PWR_CMD_WRITE BIT1 0,
   pwr_cfg 0x0100 PWR_CUT_ALL_MSK PWR_FAB_ALL_MSK PWR_INTF_ALL_MSK PWR_BASEADDR_MAC PWR_CMD_WRITE 0xFF 0x03,
   pwr_cfg 0x0101 PWR_CUT_ALL_MSK PWR_FAB_ALL_MSK PWR_INTF_ALL_MSK PWR_BASEADDR_MAC PWR_CMD_WRITE BIT1 0,
   pwr_cfg 0x0553 PWR_CUT_ALL_MSK PWR_FAB_ALL_MSK PWR_INTF_ALL_MSK PWR_BASEADDR_MAC PWR_CMD_WRITE BIT5 BIT5]"

definition RTL8812_TRANS_LPS_TO_ACT :: "WLAN_PWR_CFG list" where
  "RTL8812_TRANS_LPS_TO_ACT =
  [pwr_cfg 0x0080 PWR_CUT_ALL_MSK PWR_FAB_ALL_MSK PWR_INTF_SDIO_MSK PWR_BASEADDR_SDIO PWR_CMD_WRITE 0xFF 0x84,
   pwr_cfg 0xFE58 PWR_CUT_ALL_MSK PWR_FAB_ALL_MSK PWR_INTF_USB_MSK PWR_BASEADDR_MAC PWR_CMD_WRITE 0xFF 0x84,
   pwr_cfg 0x0361 PWR_CUT_ALL_MSK PWR_FAB_ALL_MSK PWR_INTF_PCI_MSK PWR_BASEADDR_MAC PWR_CMD_WRITE 0xFF 0x84,
   pwr_cfg 0x0002 PWR_CUT_ALL_MSK PWR_FAB_ALL_MSK PWR_INTF_ALL_MSK PWR_BASEADDR_MAC PWR_CMD_DELAY 0 PWRSEQ_DELAY_MS,
   pwr_cfg 0x0008 PWR_CUT_ALL_MSK PWR_FAB_ALL_MSK PWR_INTF_ALL_MSK PWR_BASEADDR_MAC PWR_CMD_WRITE BIT4 0,
   pwr_cfg 0x0109 PWR_CUT_ALL_MSK PWR_FAB_ALL_MSK PWR_INTF_ALL_MSK PWR_BASEADDR_MAC PWR_CMD_POLLING BIT7 0,
   pwr_cfg 0x0029 PWR_CUT_ALL_MSK PWR_FAB_ALL_MSK PWR_INTF_ALL_MSK PWR_BASEADDR_MAC PWR_CMD_WRITE (BIT6 OR BIT7) 0,
   pwr_cfg 0x0101 PWR_CUT_ALL_MSK PWR_FAB_ALL_MSK PWR_INTF_ALL_MSK PWR_BASEADDR_MAC PWR_CMD_WRITE BIT1 BIT1,
   pwr_cfg 0x0100 PWR_CUT_ALL_MSK PWR_FAB_ALL_MSK PWR_INTF_ALL_MSK PWR_BASEADDR_MAC PWR_CMD_WRITE 0xFF 0xFF,
   pwr_cfg 0x0002 PWR_CUT_ALL_MSK PWR_FAB_ALL_MSK PWR_INTF_ALL_MSK PWR_BASEADDR_MAC PWR_CMD_WRITE (BIT1 OR BIT0) (BIT1 OR BIT0),
   pwr_cfg 0x0522 PWR_CUT_ALL_MSK PWR_FAB_ALL_MSK PWR_INTF_ALL_MSK PWR_BASEADDR_MAC PWR_CMD_WRITE 0xFF 0]"

definition RTL8812_TRANS_END :: "WLAN_PWR_CFG list" where
  "RTL8812_TRANS_END =
  [pwr_cfg 0xFFFF PWR_CUT_ALL_MSK PWR_FAB_ALL_MSK PWR_INTF_ALL_MSK 0 PWR_CMD_END 0 0]"

section \<open>Flow arrays\<close>

definition rtl8812_power_on_flow :: "WLAN_PWR_CFG list" where
  "rtl8812_power_on_flow =
     RTL8812_TRANS_CARDEMU_TO_ACT @ RTL8812_TRANS_END"

definition rtl8812_radio_off_flow :: "WLAN_PWR_CFG list" where
  "rtl8812_radio_off_flow =
     RTL8812_TRANS_ACT_TO_CARDEMU @ RTL8812_TRANS_END"

definition rtl8812_card_disable_flow :: "WLAN_PWR_CFG list" where
  "rtl8812_card_disable_flow =
     RTL8812_TRANS_ACT_TO_CARDEMU @ RTL8812_TRANS_CARDEMU_TO_CARDDIS @ RTL8812_TRANS_END"

definition rtl8812_card_enable_flow :: "WLAN_PWR_CFG list" where
  "rtl8812_card_enable_flow =
     RTL8812_TRANS_CARDDIS_TO_CARDEMU @ RTL8812_TRANS_CARDEMU_TO_ACT @ RTL8812_TRANS_END"

definition rtl8812_suspend_flow :: "WLAN_PWR_CFG list" where
  "rtl8812_suspend_flow =
     RTL8812_TRANS_ACT_TO_CARDEMU @ RTL8812_TRANS_CARDEMU_TO_SUS @ RTL8812_TRANS_END"

definition rtl8812_resume_flow :: "WLAN_PWR_CFG list" where
  "rtl8812_resume_flow =
     RTL8812_TRANS_SUS_TO_CARDEMU @ RTL8812_TRANS_CARDEMU_TO_ACT @ RTL8812_TRANS_END"

definition rtl8812_hwpdn_flow :: "WLAN_PWR_CFG list" where
  "rtl8812_hwpdn_flow =
     RTL8812_TRANS_ACT_TO_CARDEMU @ RTL8812_TRANS_CARDEMU_TO_PDN @ RTL8812_TRANS_END"

definition rtl8812_enter_lps_flow :: "WLAN_PWR_CFG list" where
  "rtl8812_enter_lps_flow =
     RTL8812_TRANS_ACT_TO_LPS @ RTL8812_TRANS_END"

definition rtl8812_leave_lps_flow :: "WLAN_PWR_CFG list" where
  "rtl8812_leave_lps_flow =
     RTL8812_TRANS_LPS_TO_ACT @ RTL8812_TRANS_END"

definition RTL8812_flows :: "(nat \<times> WLAN_PWR_CFG list) list" where
  "RTL8812_flows =
    [(RTL8812_TRANS_CARDEMU_TO_ACT_STEPS + RTL8812_TRANS_END_STEPS, rtl8812_power_on_flow),
     (RTL8812_TRANS_ACT_TO_CARDEMU_STEPS + RTL8812_TRANS_END_STEPS, rtl8812_radio_off_flow),
     (RTL8812_TRANS_ACT_TO_CARDEMU_STEPS + RTL8812_TRANS_CARDEMU_TO_PDN_STEPS + RTL8812_TRANS_END_STEPS, rtl8812_card_disable_flow),
     (RTL8812_TRANS_ACT_TO_CARDEMU_STEPS + RTL8812_TRANS_CARDEMU_TO_PDN_STEPS + RTL8812_TRANS_END_STEPS, rtl8812_card_enable_flow),
     (RTL8812_TRANS_ACT_TO_CARDEMU_STEPS + RTL8812_TRANS_CARDEMU_TO_SUS_STEPS + RTL8812_TRANS_END_STEPS, rtl8812_suspend_flow),
     (RTL8812_TRANS_ACT_TO_CARDEMU_STEPS + RTL8812_TRANS_CARDEMU_TO_SUS_STEPS + RTL8812_TRANS_END_STEPS, rtl8812_resume_flow),
     (RTL8812_TRANS_ACT_TO_CARDEMU_STEPS + RTL8812_TRANS_CARDEMU_TO_PDN_STEPS + RTL8812_TRANS_END_STEPS, rtl8812_hwpdn_flow),
     (RTL8812_TRANS_ACT_TO_LPS_STEPS + RTL8812_TRANS_END_STEPS, rtl8812_enter_lps_flow),
     (RTL8812_TRANS_LPS_TO_ACT_STEPS + RTL8812_TRANS_END_STEPS, rtl8812_leave_lps_flow)]"

lemmas RTL8812_steps =
  RTL8812_TRANS_CARDEMU_TO_ACT_def RTL8812_TRANS_ACT_TO_CARDEMU_def RTL8812_TRANS_CARDEMU_TO_SUS_def RTL8812_TRANS_SUS_TO_CARDEMU_def RTL8812_TRANS_CARDEMU_TO_CARDDIS_def RTL8812_TRANS_CARDDIS_TO_CARDEMU_def RTL8812_TRANS_CARDEMU_TO_PDN_def RTL8812_TRANS_PDN_TO_CARDEMU_def RTL8812_TRANS_ACT_TO_LPS_def RTL8812_TRANS_LPS_TO_ACT_def RTL8812_TRANS_END_def

lemmas RTL8812_flow_defs =
  rtl8812_power_on_flow_def rtl8812_radio_off_flow_def rtl8812_card_disable_flow_def rtl8812_card_enable_flow_def rtl8812_suspend_flow_def rtl8812_resume_flow_def rtl8812_hwpdn_flow_def rtl8812_enter_lps_flow_def rtl8812_leave_lps_flow_def

end
