(* ===== verification/PwrFlow8821.thy ===== *)
theory PwrFlow8821
  imports PwrSeq
begin

text \<open>
  The power sequences of the RTL8821A.
  The step lists (the macros of hal/Hal8821APwrSeq.h) and the flow arrays built from them (hal/Hal8821APwrSeq.c).
\<close>

section \<open>Declared sizes of the step groups\<close>

abbreviation (input) RTL8821A_TRANS_CARDEMU_TO_ACT_STEPS :: nat where "RTL8821A_TRANS_CARDEMU_TO_ACT_STEPS \<equiv> 25"
abbreviation (input) RTL8821A_TRANS_ACT_TO_CARDEMU_STEPS :: nat where "RTL8821A_TRANS_ACT_TO_CARDEMU_STEPS \<equiv> 15"
abbreviation (input) RTL8821A_TRANS_CARDEMU_TO_SUS_STEPS :: nat where "RTL8821A_TRANS_CARDEMU_TO_SUS_STEPS \<equiv> 15"
abbreviation (input) RTL8821A_TRANS_SUS_TO_CARDEMU_STEPS :: nat where "RTL8821A_TRANS_SUS_TO_CARDEMU_STEPS \<equiv> 15"
abbreviation (input) RTL8821A_TRANS_CARDDIS_TO_CARDEMU_STEPS :: nat where "RTL8821A_TRANS_CARDDIS_TO_CARDEMU_STEPS \<equiv> 15"
abbreviation (input) RTL8821A_TRANS_CARDEMU_TO_PDN_STEPS :: nat where "RTL8821A_TRANS_CARDEMU_TO_PDN_STEPS \<equiv> 15"
abbreviation (input) RTL8821A_TRANS_PDN_TO_CARDEMU_STEPS :: nat where "RTL8821A_TRANS_PDN_TO_CARDEMU_STEPS \<equiv> 15"
abbreviation (input) RTL8821A_TRANS_ACT_TO_LPS_STEPS :: nat where "RTL8821A_TRANS_ACT_TO_LPS_STEPS \<equiv> 15"
abbreviation (input) RTL8821A_TRANS_LPS_TO_ACT_STEPS :: nat where "RTL8821A_TRANS_LPS_TO_ACT_STEPS \<equiv> 15"
abbreviation (input) RTL8821A_TRANS_END_STEPS :: nat where "RTL8821A_TRANS_END_STEPS \<equiv> 1"

section \<open>Step groups\<close>

definition RTL8821A_TRANS_CARDEMU_TO_ACT :: "WLAN_PWR_CFG list" where
  "RTL8821A_TRANS_CARDEMU_TO_ACT =
  [pwr_cfg 0x0020 PWR_CUT_ALL_MSK PWR_FAB_ALL_MSK (PWR_INTF_USB_MSK OR PWR_INTF_SDIO_MSK) PWR_BASEADDR_MAC PWR_CMD_WRITE BIT0 BIT0,
   pwr_cfg 0x0067 PWR_CUT_ALL_MSK PWR_FAB_ALL_MSK (PWR_INTF_USB_MSK OR PWR_INTF_SDIO_MSK) PWR_BASEADDR_MAC PWR_CMD_WRITE BIT4 0,
   pwr_cfg 0x0001 PWR_CUT_ALL_MSK PWR_FAB_ALL_MSK (PWR_INTF_USB_MSK OR PWR_INTF_SDIO_MSK) PWR_BASEADDR_MAC PWR_CMD_DELAY 1 PWRSEQ_DELAY_MS,
   pwr_cfg 0x0000 PWR_CUT_ALL_MSK PWR_FAB_ALL_MSK (PWR_INTF_USB_MSK OR PWR_INTF_SDIO_MSK) PWR_BASEADDR_MAC PWR_CMD_WRITE BIT5 0,
   pwr_cfg 0x0005 PWR_CUT_ALL_MSK PWR_FAB_ALL_MSK PWR_INTF_ALL_MSK PWR_BASEADDR_MAC PWR_CMD_WRITE (BIT4 OR BIT3 OR BIT2) 0,
   pwr_cfg 0x0075 PWR_CUT_ALL_MSK PWR_FAB_ALL_MSK PWR_INTF_PCI_MSK PWR_BASEADDR_MAC PWR_CMD_WRITE BIT0 BIT0,
   pwr_cfg 0x0006 PWR_CUT_ALL_MSK PWR_FAB_ALL_MSK PWR_INTF_ALL_MSK PWR_BASEADDR_MAC PWR_CMD_POLLING BIT1 BIT1,
   pwr_cfg 0x0075 PWR_CUT_ALL_MSK PWR_FAB_ALL_MSK PWR_INTF_PCI_MSK PWR_BASEADDR_MAC PWR_CMD_WRITE BIT0 0,
   pwr_cfg 0x0006 PWR_CUT_ALL_MSK PWR_FAB_ALL_MSK PWR_INTF_ALL_MSK PWR_BASEADDR_MAC PWR_CMD_WRITE BIT0 BIT0,
   pwr_cfg 0x0005 PWR_CUT_ALL_MSK PWR_FAB_ALL_MSK PWR_INTF_ALL_MSK PWR_BASEADDR_MAC PWR_CMD_WRITE BIT7 0,
   pwr_cfg 0x0005 PWR_CUT_ALL_MSK PWR_FAB_ALL_MSK PWR_INTF_ALL_MSK PWR_BASEADDR_MAC PWR_CMD_WRITE (BIT4 OR BIT3) 0,
   pwr_cfg 0x0005 PWR_CUT_ALL_MSK PWR_FAB_ALL_MSK PWR_INTF_ALL_MSK PWR_BASEADDR_MAC PWR_CMD_WRITE BIT0 BIT0,
   pwr_cfg 0x0005 PWR_CUT_ALL_MSK PWR_FAB_ALL_MSK PWR_INTF_ALL_MSK PWR_BASEADDR_MAC PWR_CMD_POLLING BIT0 0,
   pwr_cfg 0x004F PWR_CUT_ALL_MSK PWR_FAB_ALL_MSK PWR_INTF_ALL_MSK PWR_BASEADDR_MAC PWR_CMD_WRITE BIT0 BIT0,
   pwr_cfg 0x0067 PWR_CUT_ALL_MSK PWR_FAB_ALL_MSK PWR_INTF_ALL_MSK PWR_BASEADDR_MAC PWR_CMD_WRITE (BIT5 OR BIT4) (BIT5 OR BIT4),
   pwr_cfg 0x0025 PWR_CUT_ALL_MSK PWR_FAB_ALL_MSK PWR_INTF_ALL_MSK PWR_BASEADDR_MAC PWR_CMD_WRITE BIT6 0,
   pwr_cfg 0x0049 PWR_CUT_ALL_MSK PWR_FAB_ALL_MSK PWR_INTF_ALL_MSK PWR_BASEADDR_MAC PWR_CMD_WRITE BIT1 BIT1,
   pwr_cfg 0x0063 PWR_CUT_ALL_MSK PWR_FAB_ALL_MSK PWR_INTF_ALL_MSK PWR_BASEADDR_MAC PWR_CMD_WRITE BIT1 BIT1,
   pwr_cfg 0x0062 PWR_CUT_ALL_MSK PWR_FAB_ALL_MSK PWR_INTF_ALL_MSK PWR_BASEADDR_MAC PWR_CMD_WRITE BIT1 0,
   pwr_cfg 0x0058 PWR_CUT_ALL_MSK PWR_FAB_ALL_MSK PWR_INTF_ALL_MSK PWR_BASEADDR_MAC PWR_CMD_WRITE BIT0 BIT0,
   pwr_cfg 0x005A PWR_CUT_ALL_MSK PWR_FAB_ALL_MSK PWR_INTF_ALL_MSK PWR_BASEADDR_MAC PWR_CMD_WRITE BIT1 BIT1,
   pwr_cfg 0x007A PWR_CUT_TESTCHIP_MSK PWR_FAB_ALL_MSK PWR_INTF_ALL_MSK PWR_BASEADDR_MAC PWR_CMD_WRITE 0xFF 0x3A,
   pwr_cfg 0x002E PWR_CUT_ALL_MSK PWR_FAB_ALL_MSK PWR_INTF_ALL_MSK PWR_BASEADDR_MAC PWR_CMD_WRITE 0xFF 0x82,
   pwr_cfg 0x0010 PWR_CUT_A_MSK PWR_FAB_ALL_MSK PWR_INTF_ALL_MSK PWR_BASEADDR_MAC PWR_CMD_WRITE BIT6 BIT6]"

definition RTL8821A_TRANS_ACT_TO_CARDEMU :: "WLAN_PWR_CFG list" where
  "RTL8821A_TRANS_ACT_TO_CARDEMU =
  [pwr_cfg 0x001F PWR_CUT_ALL_MSK PWR_FAB_ALL_MSK PWR_INTF_ALL_MSK PWR_BASEADDR_MAC PWR_CMD_WRITE 0xFF 0,
   pwr_cfg 0x004F PWR_CUT_ALL_MSK PWR_FAB_ALL_MSK PWR_INTF_ALL_MSK PWR_BASEADDR_MAC PWR_CMD_WRITE BIT0 0,
   pwr_cfg 0x0049 PWR_CUT_ALL_MSK PWR_FAB_ALL_MSK PWR_INTF_ALL_MSK PWR_BASEADDR_MAC PWR_CMD_WRITE BIT1 0,
   pwr_cfg 0x0006 PWR_CUT_ALL_MSK PWR_FAB_ALL_MSK PWR_INTF_ALL_MSK PWR_BASEADDR_MAC PWR_CMD_WRITE BIT0 BIT0,
   pwr_cfg 0x0005 PWR_CUT_ALL_MSK PWR_FAB_ALL_MSK PWR_INTF_ALL_MSK PWR_BASEADDR_MAC PWR_CMD_WRITE BIT1 BIT1,
   pwr_cfg 0x0005 PWR_CUT_ALL_MSK PWR_FAB_ALL_MSK PWR_INTF_ALL_MSK PWR_BASEADDR_MAC PWR_CMD_POLLING BIT1 0,
   pwr_cfg 0x0000 PWR_CUT_ALL_MSK PWR_FAB_ALL_MSK (PWR_INTF_USB_MSK OR PWR_INTF_SDIO_MSK) PWR_BASEADDR_MAC PWR_CMD_WRITE BIT5 BIT5,
   pwr_cfg 0x0020 PWR_CUT_ALL_MSK PWR_FAB_ALL_MSK (PWR_INTF_USB_MSK OR PWR_INTF_SDIO_MSK) PWR_BASEADDR_MAC PWR_CMD_WRITE BIT0 0]"

definition RTL8821A_TRANS_CARDEMU_TO_SUS :: "WLAN_PWR_CFG list" where
  "RTL8821A_TRANS_CARDEMU_TO_SUS =
  [pwr_cfg 0x0005 PWR_CUT_ALL_MSK PWR_FAB_ALL_MSK PWR_INTF_PCI_MSK PWR_BASEADDR_MAC PWR_CMD_WRITE (BIT4 OR BIT3) (BIT4 OR BIT3),
   pwr_cfg 0x0005 PWR_CUT_ALL_MSK PWR_FAB_ALL_MSK (PWR_INTF_USB_MSK OR PWR_INTF_SDIO_MSK) PWR_BASEADDR_MAC PWR_CMD_WRITE (BIT3 OR BIT4) BIT3,
   pwr_cfg 0x0023 PWR_CUT_ALL_MSK PWR_FAB_ALL_MSK PWR_INTF_SDIO_MSK PWR_BASEADDR_MAC PWR_CMD_WRITE BIT4 BIT4,
   pwr_cfg 0x0007 PWR_CUT_ALL_MSK PWR_FAB_ALL_MSK PWR_INTF_SDIO_MSK PWR_BASEADDR_MAC PWR_CMD_WRITE 0xFF 0x20,
   pwr_cfg 0x0005 PWR_CUT_ALL_MSK PWR_FAB_ALL_MSK PWR_INTF_PCI_MSK PWR_BASEADDR_MAC PWR_CMD_WRITE (BIT3 OR BIT4) (BIT3 OR BIT4),
   pwr_cfg 0x0086 PWR_CUT_ALL_MSK PWR_FAB_ALL_MSK PWR_INTF_SDIO_MSK PWR_BASEADDR_SDIO PWR_CMD_WRITE BIT0 BIT0,
   pwr_cfg 0x0086 PWR_CUT_ALL_MSK PWR_FAB_ALL_MSK PWR_INTF_SDIO_MSK PWR_BASEADDR_SDIO PWR_CMD_POLLING BIT1 0]"

definition RTL8821A_TRANS_SUS_TO_CARDEMU :: "WLAN_PWR_CFG list" where
  "RTL8821A_TRANS_SUS_TO_CARDEMU =
  [pwr_cfg 0x0005 PWR_CUT_ALL_MSK PWR_FAB_ALL_MSK PWR_INTF_ALL_MSK PWR_BASEADDR_MAC PWR_CMD_WRITE (BIT3 OR BIT7) 0,
   pwr_cfg 0x0086 PWR_CUT_ALL_MSK PWR_FAB_ALL_MSK PWR_INTF_SDIO_MSK PWR_BASEADDR_SDIO PWR_CMD_WRITE BIT0 0,
   pwr_cfg 0x0086 PWR_CUT_ALL_MSK PWR_FAB_ALL_MSK PWR_INTF_SDIO_MSK PWR_BASEADDR_SDIO PWR_CMD_POLLING BIT1 BIT1,
   pwr_cfg 0x0023 PWR_CUT_ALL_MSK PWR_FAB_ALL_MSK PWR_INTF_SDIO_MSK PWR_BASEADDR_MAC PWR_CMD_WRITE BIT4 0,
   pwr_cfg 0x0005 PWR_CUT_ALL_MSK PWR_FAB_ALL_MSK PWR_INTF_ALL_MSK PWR_BASEADDR_MAC PWR_CMD_WRITE (BIT3 OR BIT4) 0]"

definition RTL8821A_TRANS_CARDEMU_TO_CARDDIS :: "WLAN_PWR_CFG list" where
  "RTL8821A_TRANS_CARDEMU_TO_CARDDIS =
  [pwr_cfg 0x0007 PWR_CUT_ALL_MSK PWR_FAB_ALL_MSK PWR_INTF_SDIO_MSK PWR_BASEADDR_MAC PWR_CMD_WRITE 0xFF 0x20,
   pwr_cfg 0x0005 PWR_CUT_ALL_MSK PWR_FAB_ALL_MSK (PWR_INTF_USB_MSK OR PWR_INTF_SDIO_MSK) PWR_BASEADDR_MAC PWR_CMD_WRITE (BIT3 OR BIT4) BIT3,
   pwr_cfg 0x0005 PWR_CUT_ALL_MSK PWR_FAB_ALL_MSK PWR_INTF_PCI_MSK PWR_BASEADDR_MAC PWR_CMD_WRITE BIT2 BIT2,
   pwr_cfg 0x004A PWR_CUT_ALL_MSK PWR_FAB_ALL_MSK PWR_INTF_USB_MSK PWR_BASEADDR_MAC PWR_CMD_WRITE BIT0 1,
   pwr_cfg 0x0023 PWR_CUT_ALL_MSK PWR_FAB_ALL_MSK PWR_INTF_SDIO_MSK PWR_BASEADDR_MAC PWR_CMD_WRITE BIT4 BIT4,
   pwr_cfg 0x0086 PWR_CUT_ALL_MSK PWR_FAB_ALL_MSK PWR_INTF_SDIO_MSK PWR_BASEADDR_SDIO PWR_CMD_WRITE BIT0 BIT0,
   pwr_cfg 0x0086 PWR_CUT_ALL_MSK PWR_FAB_ALL_MSK PWR_INTF_SDIO_MSK PWR_BASEADDR_SDIO PWR_CMD_POLLING BIT1 0]"

definition RTL8821A_TRANS_CARDDIS_TO_CARDEMU :: "WLAN_PWR_CFG list" where
  "RTL8821A_TRANS_CARDDIS_TO_CARDEMU =
  [pwr_cfg 0x0005 PWR_CUT_ALL_MSK PWR_FAB_ALL_MSK PWR_INTF_ALL_MSK PWR_BASEADDR_MAC PWR_CMD_WRITE (BIT3 OR BIT7) 0,
   pwr_cfg 0x0086 PWR_CUT_ALL_MSK PWR_FAB_ALL_MSK PWR_INTF_SDIO_MSK PWR_BASEADDR_SDIO PWR_CMD_WRITE BIT0 0,
   pwr_cfg 0x0086 PWR_CUT_ALL_MSK PWR_FAB_ALL_MSK PWR_INTF_SDIO_MSK PWR_BASEADDR_SDIO PWR_CMD_POLLING BIT1 BIT1,
   pwr_cfg 0x004A PWR_CUT_ALL_MSK PWR_FAB_ALL_MSK PWR_INTF_USB_MSK PWR_BASEADDR_MAC PWR_CMD_WRITE BIT0 0,
   pwr_cfg 0x0005 PWR_CUT_ALL_MSK PWR_FAB_ALL_MSK PWR_INTF_ALL_MSK PWR_BASEADDR_MAC PWR_CMD_WRITE (BIT3 OR BIT4) 0,
   pwr_cfg 0x0023 PWR_CUT_ALL_MSK PWR_FAB_ALL_MSK PWR_INTF_SDIO_MSK PWR_BASEADDR_MAC PWR_CMD_WRITE BIT4 0,
   pwr_cfg 0x0301 PWR_CUT_ALL_MSK PWR_FAB_ALL_MSK PWR_INTF_PCI_MSK PWR_BASEADDR_MAC PWR_CMD_WRITE 0xFF 0]"

definition RTL8821A_TRANS_CARDEMU_TO_PDN :: "WLAN_PWR_CFG list" where
  "RTL8821A_TRANS_CARDEMU_TO_PDN =
  [pwr_cfg 0x0023 PWR_CUT_ALL_MSK PWR_FAB_ALL_MSK PWR_INTF_SDIO_MSK PWR_BASEADDR_MAC PWR_CMD_WRITE BIT4 BIT4,
   pwr_cfg 0x0007 PWR_CUT_ALL_MSK PWR_FAB_ALL_MSK (PWR_INTF_SDIO_MSK OR PWR_INTF_USB_MSK) PWR_BASEADDR_MAC PWR_CMD_WRITE 0xFF 0x20,
   pwr_cfg 0x0006 PWR_CUT_ALL_MSK PWR_FAB_ALL_MSK PWR_INTF_ALL_MSK PWR_BASEADDR_MAC PWR_CMD_WRITE BIT0 0,
   pwr_cfg 0x0005 PWR_CUT_ALL_MSK PWR_FAB_ALL_MSK PWR_INTF_ALL_MSK PWR_BASEADDR_MAC PWR_CMD_WRITE BIT7 BIT7]"

definition RTL8821A_TRANS_PDN_TO_CARDEMU :: "WLAN_PWR_CFG list" where
  "RTL8821A_TRANS_PDN_TO_CARDEMU =
  [pwr_cfg 0x0005 PWR_CUT_ALL_MSK PWR_FAB_ALL_MSK PWR_INTF_ALL_MSK PWR_BASEADDR_MAC PWR_CMD_WRITE BIT7 0]"

definition RTL8821A_TRANS_ACT_TO_LPS :: "WLAN_PWR_CFG list" where
  "RTL8821A_TRANS_ACT_TO_LPS =
  [pwr_cfg 0x0301 PWR_CUT_ALL_MSK PWR_FAB_ALL_MSK PWR_INTF_PCI_MSK PWR_BASEADDR_MAC PWR_CMD_WRITE 0xFF 0xFF,
   pwr_cfg 0x0522 PWR_CUT_ALL_MSK PWR_FAB_ALL_MSK PWR_INTF_ALL_MSK PWR_BASEADDR_MAC PWR_CMD_WRITE 0xFF 0xFF,
   pwr_cfg 0x05F8 PWR_CUT_ALL_MSK PWR_FAB_ALL_MSK PWR_INTF_ALL_MSK PWR_BASEADDR_MAC PWR_CMD_POLLING 0xFF 0,
   pwr_cfg 0x05F9 PWR_CUT_ALL_MSK PWR_FAB_ALL_MSK PWR_INTF_ALL_MSK PWR_BASEADDR_MAC PWR_CMD_POLLING 0xFF 0,
   pwr_cfg 0x05FA PWR_CUT_ALL_MSK PWR_FAB_ALL_MSK PWR_INTF_ALL_MSK PWR_BASEADDR_MAC PWR_CMD_POLLING 0xFF 0,
   pwr_cfg 0x05FB PWR_CUT_ALL_MSK PWR_FAB_ALL_MSK PWR_INTF_ALL_MSK PWR_BASEADDR_MAC PWR_CMD_POLLING 0xFF 0,
   pwr_cfg 0x0002 PWR_CUT_ALL_MSK PWR_FAB_ALL_MSK PWR_INTF_ALL_MSK PWR_BASEADDR_MAC PWR_CMD_WRITE BIT0 0,
   pwr_cfg 0x0002 PWR_CUT_ALL_MSK PWR_FAB_ALL_MSK PWR_INTF_ALL_MSK PWR_BASEADDR_MAC PWR_CMD_DELAY 0 PWRSEQ_DELAY_US,
   pwr_cfg 0x0002 PWR_CUT_ALL_MSK PWR_FAB_ALL_MSK PWR_INTF_ALL_MSK PWR_BASEADDR_MAC PWR_CMD_WRITE BIT1 0,
   pwr_cfg 0x0100 PWR_CUT_ALL_MSK PWR_FAB_ALL_MSK PWR_INTF_ALL_MSK PWR_BASEADDR_MAC PWR_CMD_WRITE 0xFF 0x03,
   pwr_cfg 0x0101 PWR_CUT_ALL_MSK PWR_FAB_ALL_MSK PWR_INTF_ALL_MSK PWR_BASEADDR_MAC PWR_CMD_WRITE BIT1 0,
   pwr_cfg 0x0093 PWR_CUT_ALL_MSK PWR_FAB_ALL_MSK PWR_INTF_SDIO_MSK PWR_BASEADDR_MAC PWR_CMD_WRITE 0xFF 0x00,
   pwr_cfg 0x0553 PWR_CUT_ALL_MSK PWR_FAB_ALL_MSK PWR_INTF_ALL_MSK PWR_BASEADDR_MAC PWR_CMD_WRITE BIT5 BIT5]"

definition RTL8821A_TRANS_LPS_TO_ACT :: "WLAN_PWR_CFG list" where
  "RTL8821A_TRANS_LPS_TO_ACT =
  [pwr_cfg 0x0080 PWR_CUT_ALL_MSK PWR_FAB_ALL_MSK PWR_INTF_SDIO_MSK PWR_BASEADDR_SDIO PWR_CMD_WRITE 0xFF 0x84,
   pwr_cfg 0xFE58 PWR_CUT_ALL_MSK PWR_FAB_ALL_MSK PWR_INTF_USB_MSK PWR_BASEADDR_MAC PWR_CMD_WRITE 0xFF 0x84,
   pwr_cfg 0x0361 PWR_CUT_ALL_MSK PWR_FAB_ALL_MSK PWR_INTF_PCI_MSK PWR_BASEADDR_MAC PWR_CMD_WRITE 0xFF 0x84,
   pwr_cfg 0x0002 PWR_CUT_ALL_MSK PWR_FAB_ALL_MSK PWR_INTF_ALL_MSK PWR_BASEADDR_MAC PWR_CMD_DELAY 0 PWRSEQ_DELAY_MS,
   pwr_cfg 0x0008 PWR_CUT_ALL_MSK PWR_FAB_ALL_MSK PWR_INTF_ALL_MSK PWR_BASEADDR_MAC PWR_CMD_WRITE BIT4 0,
   pwr_cfg 0x0109 PWR_CUT_ALL_MSK PWR_FAB_ALL_MSK PWR_INTF_ALL_MSK PWR_BASEADDR_MAC PWR_CMD_POLLING BIT7 0,
   pwr_cfg 0x0029 PWR_CUT_ALL_MSK PWR_FAB_ALL_MSK PWR_INTF_ALL_MSK PWR_BASEADDR_MAC PWR_CMD_WRITE (BIT6 OR BIT7) 0,
   pwr_cfg 0x0101 PWR_CUT_ALL_MSK PWR_FAB_ALL_MSK PWR_INTF_ALL_MSK PWR_BASEADDR_MAC PWR_CMD_WRITE BIT1 BIT1,
   pwr_cfg 0x0100 PWR_CUT_ALL_MSK PWR_FAB_ALL_MSK PWR_INTF_ALL_MSK PWR_BASEADDR_MAC PWR_CMD_WRITE 0xFF 0xFF,
   pwr_cfg 0x0002 PWR_CUT_ALL_MSK PWR_FAB_ALL_MSK PWR_INTF_ALL_MSK PWR_BASEADDR_MAC PWR_CMD_WRITE (BIT1 OR BIT0) (BIT1 OR BIT0),
   pwr_cfg 0x0522 PWR_CUT_ALL_MSK PWR_FAB_ALL_MSK PWR_INTF_ALL_MSK PWR_BASEADDR_MAC PWR_CMD_WRITE 0xFF 0]"

definition RTL8821A_TRANS_END :: "WLAN_PWR_CFG list" where
  "RTL8821A_TRANS_END =
  [pwr_cfg 0xFFFF PWR_CUT_ALL_MSK PWR_FAB_ALL_MSK PWR_INTF_ALL_MSK 0 PWR_CMD_END 0 0]"

section \<open>Flow arrays\<close>

definition rtl8821A_power_on_flow :: "WLAN_PWR_CFG list" where
  "rtl8821A_power_on_flow =
     RTL8821A_TRANS_CARDEMU_TO_ACT @ RTL8821A_TRANS_END"

definition rtl8821A_radio_off_flow :: "WLAN_PWR_CFG list" where
  "rtl8821A_radio_off_flow =
     RTL8821A_TRANS_ACT_TO_CARDEMU @ RTL8821A_TRANS_END"

definition rtl8821A_card_disable_flow :: "WLAN_PWR_CFG list" where
  "rtl8821A_card_disable_flow =
     RTL8821A_TRANS_ACT_TO_CARDEMU @ RTL8821A_TRANS_CARDEMU_TO_CARDDIS @ RTL8821A_TRANS_END"

definition rtl8821A_card_enable_flow :: "WLAN_PWR_CFG list" where
  "rtl8821A_card_enable_flow =
     RTL8821A_TRANS_CARDDIS_TO_CARDEMU @ RTL8821A_TRANS_CARDEMU_TO_ACT @ RTL8821A_TRANS_END"

definition rtl8821A_suspend_flow :: "WLAN_PWR_CFG list" where
  "rtl8821A_suspend_flow =
     RTL8821A_TRANS_ACT_TO_CARDEMU @ RTL8821A_TRANS_CARDEMU_TO_SUS @ RTL8821A_TRANS_END"

definition rtl8821A_resume_flow :: "WLAN_PWR_CFG list" where
  "rtl8821A_resume_flow =
     RTL8821A_TRANS_SUS_TO_CARDEMU @ RTL8821A_TRANS_CARDEMU_TO_ACT @ RTL8821A_TRANS_END"

definition rtl8821A_hwpdn_flow :: "WLAN_PWR_CFG list" where
  "rtl8821A_hwpdn_flow =
     RTL8821A_TRANS_ACT_TO_CARDEMU @ RTL8821A_TRANS_CARDEMU_TO_PDN @ RTL8821A_TRANS_END"

definition rtl8821A_enter_lps_flow :: "WLAN_PWR_CFG list" where
  "rtl8821A_enter_lps_flow =
     RTL8821A_TRANS_ACT_TO_LPS @ RTL8821A_TRANS_END"

definition rtl8821A_leave_lps_flow :: "WLAN_PWR_CFG list" where
  "rtl8821A_leave_lps_flow =
     RTL8821A_TRANS_LPS_TO_ACT @ RTL8821A_TRANS_END"

definition RTL8821A_flows :: "(nat \<times> WLAN_PWR_CFG list) list" where
  "RTL8821A_flows =
    [(RTL8821A_TRANS_CARDEMU_TO_ACT_STEPS + RTL8821A_TRANS_END_STEPS, rtl8821A_power_on_flow),
     (RTL8821A_TRANS_ACT_TO_CARDEMU_STEPS + RTL8821A_TRANS_END_STEPS, rtl8821A_radio_off_flow),
     (RTL8821A_TRANS_ACT_TO_CARDEMU_STEPS + RTL8821A_TRANS_CARDEMU_TO_PDN_STEPS + RTL8821A_TRANS_END_STEPS, rtl8821A_card_disable_flow),
     (RTL8821A_TRANS_CARDDIS_TO_CARDEMU_STEPS + RTL8821A_TRANS_CARDEMU_TO_ACT_STEPS + RTL8821A_TRANS_END_STEPS, rtl8821A_card_enable_flow),
     (RTL8821A_TRANS_ACT_TO_CARDEMU_STEPS + RTL8821A_TRANS_CARDEMU_TO_SUS_STEPS + RTL8821A_TRANS_END_STEPS, rtl8821A_suspend_flow),
     (RTL8821A_TRANS_ACT_TO_CARDEMU_STEPS + RTL8821A_TRANS_CARDEMU_TO_SUS_STEPS + RTL8821A_TRANS_END_STEPS, rtl8821A_resume_flow),
     (RTL8821A_TRANS_ACT_TO_CARDEMU_STEPS + RTL8821A_TRANS_CARDEMU_TO_PDN_STEPS + RTL8821A_TRANS_END_STEPS, rtl8821A_hwpdn_flow),
     (RTL8821A_TRANS_ACT_TO_LPS_STEPS + RTL8821A_TRANS_END_STEPS, rtl8821A_enter_lps_flow),
     (RTL8821A_TRANS_LPS_TO_ACT_STEPS + RTL8821A_TRANS_END_STEPS, rtl8821A_leave_lps_flow)]"

lemmas RTL8821A_steps =
  RTL8821A_TRANS_CARDEMU_TO_ACT_def RTL8821A_TRANS_ACT_TO_CARDEMU_def RTL8821A_TRANS_CARDEMU_TO_SUS_def RTL8821A_TRANS_SUS_TO_CARDEMU_def RTL8821A_TRANS_CARDEMU_TO_CARDDIS_def RTL8821A_TRANS_CARDDIS_TO_CARDEMU_def RTL8821A_TRANS_CARDEMU_TO_PDN_def RTL8821A_TRANS_PDN_TO_CARDEMU_def RTL8821A_TRANS_ACT_TO_LPS_def RTL8821A_TRANS_LPS_TO_ACT_def RTL8821A_TRANS_END_def

lemmas RTL8821A_flow_defs =
  rtl8821A_power_on_flow_def rtl8821A_radio_off_flow_def rtl8821A_card_disable_flow_def rtl8821A_card_enable_flow_def rtl8821A_suspend_flow_def rtl8821A_resume_flow_def rtl8821A_hwpdn_flow_def rtl8821A_enter_lps_flow_def rtl8821A_leave_lps_flow_def

end
