(* ===== verification/PowerOn.thy ===== *)
theory PowerOn
  imports PwrFlow8812 PwrFlow8814 PwrFlow8821
begin

text \<open>
  Power-on and the linked-list table of TX pages: \<open>HalModule::InitPowerOn\<close>,
  \<open>InitLLTTable8812A\<close>, \<open>_LLTWrite_8812A\<close> and \<open>InitLLTTable8814A\<close> of src/HalModule.cpp, the
  efuse byte read and the host-to-card mailbox of src/RtlUsbAdapter.cpp. Every operation returns
  the value of the code or the exception of a failed register read.
\<close>

section \<open>InitPowerOn\<close>

abbreviation (input) REG_CR :: u16 where "REG_CR \<equiv> 0x0100"

definition CR_ENABLE :: u16 where
  "CR_ENABLE = 0x0001 OR 0x0002 OR 0x0004 OR 0x0008 OR 0x0010 OR 0x0020 OR 0x0200 OR 0x0400"

definition enable_flow :: "version_id \<Rightarrow> WLAN_PWR_CFG list" where
  "enable_flow ver =
    (case ICType ver of
       CHIP_8814A \<Rightarrow> rtl8814A_card_enable_flow
     | CHIP_8821 \<Rightarrow> rtl8821A_card_enable_flow
     | _ \<Rightarrow> rtl8812_card_enable_flow)"

definition enable_cr :: "'h usb \<Rightarrow> 'h \<Rightarrow> (usb_error + unit) \<times> 'h" where
  "enable_cr dev h =
    (let (_, h1) = rtw_write16 dev REG_CR 0 h in
     case rtw_read16 dev REG_CR h1 of
       (Inl e, h2) \<Rightarrow> (Inl e, h2)
     | (Inr v, h2) \<Rightarrow> (Inr (), snd (rtw_write16 dev REG_CR (v OR CR_ENABLE) h2)))"

text \<open>The state of \<open>HalModule\<close> this uses is the flag \<open>_macPwrCtrlOn\<close>; it is returned updated.\<close>

definition InitPowerOn :: "'h usb \<Rightarrow> version_id \<Rightarrow> bool \<Rightarrow> 'h \<Rightarrow> pwr_result \<times> bool \<times> 'h" where
  "InitPowerOn dev ver on h =
    (if on then (PwrReturn True, on, h)
     else case HalPwrSeqCmdParsing dev ver (enable_flow ver) h of
       (PwrReturn True, h1) \<Rightarrow>
         (if ICType ver \<noteq> CHIP_8814A then
            (case enable_cr dev h1 of
               (Inl e, h2) \<Rightarrow> (PwrThrow e, on, h2)
             | (Inr _, h2) \<Rightarrow> (PwrReturn True, True, h2))
          else (PwrReturn True, True, h1))
     | (res, h1) \<Rightarrow> (res, on, h1))"

section \<open>The TX page lists\<close>

abbreviation (input) REG_LLT_INIT :: u16 where "REG_LLT_INIT \<equiv> 0x01E0"
abbreviation (input) REG_AUTO_LLT_8814A :: u16 where "REG_AUTO_LLT_8814A \<equiv> 0x0208"
abbreviation (input) LAST_ENTRY_OF_TX_PKT_BUFFER_8812 :: nat where "LAST_ENTRY_OF_TX_PKT_BUFFER_8812 \<equiv> 255"

definition POLLING_LLT_THRESHOLD :: nat where
  "POLLING_LLT_THRESHOLD = 20"

definition LLT_INIT_DATA :: "u32 \<Rightarrow> u32" where
  "LLT_INIT_DATA x = x AND 0xFF"

definition LLT_INIT_ADDR :: "u32 \<Rightarrow> u32" where
  "LLT_INIT_ADDR x = push_bit 8 (x AND 0xFF)"

definition LLT_OP :: "u32 \<Rightarrow> u32" where
  "LLT_OP x = push_bit 30 (x AND 0x3)"

definition LLT_OP_VALUE :: "u32 \<Rightarrow> u32" where
  "LLT_OP_VALUE x = drop_bit 30 x AND 0x3"

function llt_poll :: "'h usb \<Rightarrow> nat \<Rightarrow> 'h \<Rightarrow> (usb_error + bool) \<times> 'h" where
  "llt_poll dev count h =
    (case rtw_read32 dev REG_LLT_INIT h of
       (Inl e, h') \<Rightarrow> (Inl e, h')
     | (Inr v, h') \<Rightarrow>
         (if LLT_OP_VALUE v = 0 then (Inr True, h')
          else if count > POLLING_LLT_THRESHOLD then (Inr False, h')
          else llt_poll dev (count + 1) h'))"
  by pat_completeness auto
termination
  by (relation "measure (\<lambda>(dev, count, h). POLLING_LLT_THRESHOLD + 1 - count)")
     (auto simp: POLLING_LLT_THRESHOLD_def)

declare llt_poll.simps [simp del]

definition llt_value :: "u32 \<Rightarrow> u32 \<Rightarrow> u32" where
  "llt_value address data = LLT_INIT_ADDR address OR LLT_INIT_DATA data OR LLT_OP 1"

definition LLTWrite_8812A :: "'h usb \<Rightarrow> u32 \<Rightarrow> u32 \<Rightarrow> 'h \<Rightarrow> (usb_error + bool) \<times> 'h" where
  "LLTWrite_8812A dev address data h =
    (let (_, h1) = rtw_write32 dev REG_LLT_INIT (llt_value address data) h in llt_poll dev 0 h1)"

text \<open>The loop \<open>for (i = lo; i < hi; i++)\<close> over the pages that point to their successor.\<close>

function llt_range :: "'h usb \<Rightarrow> nat \<Rightarrow> nat \<Rightarrow> 'h \<Rightarrow> (usb_error + bool) \<times> 'h" where
  "llt_range dev i hi h =
    (if i < hi then
       (case LLTWrite_8812A dev (of_nat i) (of_nat (i + 1)) h of
          (Inr True, h') \<Rightarrow> llt_range dev (i + 1) hi h'
        | (res, h') \<Rightarrow> (res, h'))
     else (Inr True, h))"
  by pat_completeness auto
termination
  by (relation "measure (\<lambda>(dev, i, hi, h). hi - i)") auto

declare llt_range.simps [simp del]

text \<open>
  The boundary is a byte; \<open>txpktbuf_bndy - 1\<close> is an \<open>int\<close> that the comparison converts to
  32 unsigned bits.
\<close>

definition InitLLTTable8812A :: "'h usb \<Rightarrow> u8 \<Rightarrow> 'h \<Rightarrow> (usb_error + bool) \<times> 'h" where
  "InitLLTTable8812A dev bndy h =
    (case llt_range dev 0 (unat (of_int (uint bndy - 1) :: u32)) h of
       (Inr True, h1) \<Rightarrow>
         (case LLTWrite_8812A dev (of_int (uint bndy - 1)) 0xFF h1 of
            (Inr True, h2) \<Rightarrow>
              (case llt_range dev (unat bndy) LAST_ENTRY_OF_TX_PKT_BUFFER_8812 h2 of
                 (Inr True, h3) \<Rightarrow>
                   LLTWrite_8812A dev (of_nat LAST_ENTRY_OF_TX_PKT_BUFFER_8812) (ucast bndy) h3
               | res \<Rightarrow> res)
          | res \<Rightarrow> res)
     | res \<Rightarrow> res)"

text \<open>8814A: the hardware links the pages itself; set the trigger bit and wait at most 100 ms.\<close>

primrec auto_llt_poll :: "nat \<Rightarrow> 'h usb \<Rightarrow> 'h \<Rightarrow> (usb_error + bool) \<times> 'h" where
  "auto_llt_poll 0 dev h = (Inr False, h)"
| "auto_llt_poll (Suc n) dev h =
    (case rtw_read8 dev REG_AUTO_LLT_8814A h of
       (Inl e, h1) \<Rightarrow> (Inl e, h1)
     | (Inr v, h1) \<Rightarrow>
         if v AND BIT0 = 0 then (Inr True, h1)
         else auto_llt_poll n dev (sleep_us dev 1000 h1))"

definition InitLLTTable8814A :: "'h usb \<Rightarrow> 'h \<Rightarrow> (usb_error + bool) \<times> 'h" where
  "InitLLTTable8814A dev h =
    (case rtw_read8 dev REG_AUTO_LLT_8814A h of
       (Inl e, h1) \<Rightarrow> (Inl e, h1)
     | (Inr v, h1) \<Rightarrow>
         auto_llt_poll 100 dev (snd (rtw_write8 dev REG_AUTO_LLT_8814A (v OR BIT0) h1)))"

section \<open>The host-to-card mailbox\<close>

abbreviation (input) REG_HMETFR :: u16 where "REG_HMETFR \<equiv> 0x01CC"
abbreviation (input) REG_HMEBOX_0 :: u16 where "REG_HMEBOX_0 \<equiv> 0x01D0"
abbreviation (input) REG_HMEBOX_EXT_0 :: u16 where "REG_HMEBOX_EXT_0 \<equiv> 0x01F0"

primrec h2c_wait :: "nat \<Rightarrow> 'h usb \<Rightarrow> nat \<Rightarrow> 'h \<Rightarrow> (usb_error + unit) \<times> 'h" where
  "h2c_wait 0 dev box h = (Inr (), h)"
| "h2c_wait (Suc n) dev box h =
    (case rtw_read8 dev REG_HMETFR h of
       (Inl e, h1) \<Rightarrow> (Inl e, h1)
     | (Inr st, h1) \<Rightarrow>
         if \<not> bit st box then (Inr (), h1) else h2c_wait n dev box (sleep_us dev 1000 h1))"

text \<open>The two little-endian mailbox words: the element and three bytes, then the rest.\<close>

definition h2c_words :: "u8 \<Rightarrow> bytes \<Rightarrow> u32 \<times> u32" where
  "h2c_words elementID buf =
    (le_word (elementID # take 3 buf), if length buf \<le> 3 then 0 else le_word (drop 3 buf))"

text \<open>
  \<open>buf\<close> holds the \<open>cmdLen\<close> bytes of the command, \<open>None\<close> the null pointer. The state is the
  round-robin index \<open>_lastH2CBox\<close>.
\<close>

definition fillH2CCmd ::
    "'h usb \<Rightarrow> u8 \<Rightarrow> nat \<Rightarrow> bytes option \<Rightarrow> u8 \<Rightarrow> 'h \<Rightarrow> bool \<times> u8 \<times> 'h" where
  "fillH2CCmd dev elementID cmdLen cmdBuffer lastBox h =
    (if cmdLen > 0 \<and> cmdBuffer = None then (False, lastBox, h)
     else if cmdLen > 7 then (False, lastBox, h)
     else
       let box = unat lastBox mod 4 in
       case h2c_wait 100 dev box h of
         (Inl e, h1) \<Rightarrow> (False, lastBox, h1)
       | (Inr _, h1) \<Rightarrow>
           let buf = take cmdLen (case cmdBuffer of None \<Rightarrow> [] | Some b \<Rightarrow> b);
               (w, ex) = h2c_words elementID buf;
               (ok1, h2) = rtw_write32 dev (REG_HMEBOX_EXT_0 + of_nat (box * 4)) ex h1;
               (ok2, h3) = rtw_write32 dev (REG_HMEBOX_0 + of_nat (box * 4)) w h2
           in (ok1 \<and> ok2, of_nat ((box + 1) mod 4), h3))"

section \<open>Reading the efuse\<close>

abbreviation (input) EFUSE_CTRL :: u16 where "EFUSE_CTRL \<equiv> 0x0030"

text \<open>
  The wait loop stops after 1000 tries, the result is taken when it needed fewer than 100.
\<close>

primrec efuse_wait :: "nat \<Rightarrow> 'h usb \<Rightarrow> nat \<Rightarrow> 'h \<Rightarrow> (usb_error + nat) \<times> 'h" where
  "efuse_wait 0 dev tmpidx h =
    (case rtw_read8 dev (EFUSE_CTRL + 3) h of
       (Inl e, h1) \<Rightarrow> (Inl e, h1)
     | (Inr v, h1) \<Rightarrow> (Inr tmpidx, h1))"
| "efuse_wait (Suc n) dev tmpidx h =
    (case rtw_read8 dev (EFUSE_CTRL + 3) h of
       (Inl e, h1) \<Rightarrow> (Inl e, h1)
     | (Inr v, h1) \<Rightarrow>
         if 0x80 AND v \<noteq> 0 then (Inr tmpidx, h1)
         else efuse_wait n dev (tmpidx + 1) (sleep_us dev 1000 h1))"

definition efuse_OneByteRead :: "'h usb \<Rightarrow> u16 \<Rightarrow> 'h \<Rightarrow> (usb_error + bool \<times> u8) \<times> 'h" where
  "efuse_OneByteRead dev addr h =
    (let (_, h1) = rtw_write8 dev (EFUSE_CTRL + 1) (ucast (addr AND 0xFF)) h in
     case rtw_read8 dev (EFUSE_CTRL + 2) h1 of
       (Inl e, h2) \<Rightarrow> (Inl e, h2)
     | (Inr v, h2) \<Rightarrow>
         let (_, h3) = rtw_write8 dev (EFUSE_CTRL + 2)
                         (ucast (drop_bit 8 addr AND 0x03) OR (v AND 0xFC)) h2 in
         case rtw_read8 dev (EFUSE_CTRL + 3) h3 of
           (Inl e, h4) \<Rightarrow> (Inl e, h4)
         | (Inr b, h4) \<Rightarrow>
             let (_, h5) = rtw_write8 dev (EFUSE_CTRL + 3) (b AND 0x7F) h4 in
             case efuse_wait 1000 dev 0 h5 of
               (Inl e, h6) \<Rightarrow> (Inl e, h6)
             | (Inr tmpidx, h6) \<Rightarrow>
                 if tmpidx < 100 then
                   (case rtw_read8 dev EFUSE_CTRL h6 of
                      (Inl e, h7) \<Rightarrow> (Inl e, h7)
                    | (Inr d, h7) \<Rightarrow> (Inr (True, d), h7))
                 else
                   (case rtw_read32 dev EFUSE_CTRL h6 of
                      (Inl e, h7) \<Rightarrow> (Inl e, h7)
                    | (Inr d, h7) \<Rightarrow> (Inr (False, 0xFF), h7)))"

section \<open>The flows are well formed\<close>

definition known_cmd :: "WLAN_PWR_CFG \<Rightarrow> bool" where
  "known_cmd c \<longleftrightarrow>
    pc_cmd c \<in> {PWR_CMD_READ, PWR_CMD_WRITE, PWR_CMD_POLLING, PWR_CMD_DELAY, PWR_CMD_END}"

definition all_flows :: "(nat \<times> WLAN_PWR_CFG list) list" where
  "all_flows = RTL8812_flows @ RTL8814A_flows @ RTL8821A_flows"

lemmas flow_lists = all_flows_def RTL8812_flows_def RTL8814A_flows_def RTL8821A_flows_def
  RTL8812_flow_defs RTL8814A_flow_defs RTL8821A_flow_defs

lemmas step_lists = RTL8812_steps RTL8814A_steps RTL8821A_steps

lemma cut_mask_cases:
  "cut_mask ver = PWR_CUT_ALL_MSK \<or> cut_mask ver = PWR_CUT_A_MSK \<or> cut_mask ver = PWR_CUT_TESTCHIP_MSK"
  by (simp add: cut_mask_def)

lemma END_selected:
  "selected ver (pwr_cfg off PWR_CUT_ALL_MSK PWR_FAB_ALL_MSK PWR_INTF_ALL_MSK b c m v)"
  using cut_mask_cases [of ver] by (auto simp: selected_def pwr_cfg_def)

lemma cmd_pwr_cfg [simp]: "pc_cmd (pwr_cfg off cu f i b c m v) = c"
  by (simp add: pwr_cfg_def)

lemma has_end_END [simp]:
  "has_end ver RTL8812_TRANS_END" "has_end ver RTL8814A_TRANS_END" "has_end ver RTL8821A_TRANS_END"
  by (simp_all add: RTL8812_TRANS_END_def RTL8814A_TRANS_END_def RTL8821A_TRANS_END_def
      END_selected [simplified])

lemma flows_have_end: "list_all (\<lambda>(n, flow). has_end ver flow) all_flows"
  by (simp add: flow_lists)

lemma flows_fit: "list_all (\<lambda>(n, flow). length flow \<le> n) all_flows"
  by (simp add: flow_lists step_lists)

lemma flows_known: "list_all (\<lambda>(n, flow). list_all known_cmd flow \<and> polls flow \<le> 6) all_flows"
  by (simp add: flow_lists step_lists known_cmd_def)

lemma enable_flow_wf:
  "has_end ver (enable_flow ver)"
  "polls (enable_flow ver) \<le> 6"
   apply (cases "ICType ver"; simp add: enable_flow_def rtl8812_card_enable_flow_def
      rtl8821A_card_enable_flow_def rtl8814A_card_enable_flow_def)
  apply (cases "ICType ver"; simp add: enable_flow_def rtl8812_card_enable_flow_def
      rtl8821A_card_enable_flow_def rtl8814A_card_enable_flow_def step_lists)
  done

text \<open>
  Every power flow of the three chip families fits the declared size of its C array, holds
  only commands the interpreter knows, and is closed by an END command that no interface, cut or
  fab filter skips, so that the walk over the array ends inside it on every chip.
\<close>

theorem pwr_flows_well_formed:
  "list_all (\<lambda>(n, flow). length flow \<le> n \<and> list_all known_cmd flow \<and> has_end ver flow) all_flows"
  using flows_have_end [of ver] flows_fit flows_known by (auto simp: list_all_iff)

text \<open>
  Entries the filters reject, READ entries and unknown commands never reach the bus: on every
  device, from every state, a flow runs exactly as the flow without them.
\<close>

theorem pwr_parse_skips_foreign_entries:
  "HalPwrSeqCmdParsing dev ver flow h =
   HalPwrSeqCmdParsing dev ver (filter (effective ver) flow) h"
  unfolding HalPwrSeqCmdParsing_def by (rule pwr_parse_filter)

text \<open>
  The interpreter's cost is bounded on every device, also one that never answers a poll: a
  flow makes at most four bus reads per entry and four per poll of the shared budget of 5002.
\<close>

theorem pwr_parse_bounded:
  "snd (snd (HalPwrSeqCmdParsing (count_reads dev) ver flow (h, 0))) \<le> 4 * length flow + 20008"
  using pwr_parse_cost [of 0 dev ver flow "(h, 0)"]
  by (simp add: HalPwrSeqCmdParsing_def maxPollingCnt_def)

section \<open>Power-on refines its register-level meaning\<close>

definition enable_cr_spec :: "(u16 \<Rightarrow> bytes \<Rightarrow> regs \<Rightarrow> regs) \<Rightarrow> regs \<Rightarrow> regs" where
  "enable_cr_spec react r =
    (let r1 = react REG_CR (le_bytes 2 (0 :: u16)) r;
         v = le_word [r1 REG_CR, r1 (REG_CR + 1)]
     in react REG_CR (le_bytes 2 (v OR CR_ENABLE)) r1)"

definition power_on_spec ::
    "version_id \<Rightarrow> (u16 \<Rightarrow> bytes \<Rightarrow> regs \<Rightarrow> regs) \<Rightarrow> regs \<Rightarrow> bool \<times> regs" where
  "power_on_spec ver react r =
    (let (ok, r1) = flow_spec ver react (enable_flow ver) r in
     (ok, if ok \<and> ICType ver \<noteq> CHIP_8814A then enable_cr_spec react r1 else r1))"

lemma enable_cr_sync:
  assumes "sync_device dev reg react"
  shows "\<exists>h'. enable_cr dev h = (Inr (), h') \<and> reg h' = enable_cr_spec react (reg h)"
proof -
  obtain b h1 where w: "rtw_write16 dev REG_CR 0 h = (b, h1)" by (metis surj_pair)
  then have r1: "reg h1 = react REG_CR (le_bytes 2 (0 :: u16)) (reg h)"
    using sync_write16 [OF assms, of REG_CR 0 h] by simp
  obtain h2 where "rtw_read16 dev REG_CR h1 = (Inr (le_word [reg h1 REG_CR, reg h1 (REG_CR + 1)]), h2)"
    and "reg h2 = reg h1"
    using sync_read16 [OF assms] by metis
  then show ?thesis
    using w r1 sync_write16 [OF assms] by (simp add: enable_cr_def enable_cr_spec_def Let_def)
qed

text \<open>
  C9: on a chip that behaves as a register file with any reaction to writes, \<open>InitPowerOn\<close>
  computes exactly the register-level meaning of the enable flow of its chip family: it returns
  whether every poll of the flow is met, sets the power flag exactly then, leaves the registers
  the flow describes, and enables the MAC blocks in REG_CR except on the 8814A.
\<close>

theorem InitPowerOn_refines:
  assumes "sync_device dev reg react"
  shows "\<exists>h'. InitPowerOn dev ver False h =
      (PwrReturn (fst (power_on_spec ver react (reg h))), fst (power_on_spec ver react (reg h)), h') \<and>
    reg h' = snd (power_on_spec ver react (reg h))"
proof -
  let ?s = "flow_spec ver react (enable_flow ver) (reg h)"
  obtain h1 where p: "HalPwrSeqCmdParsing dev ver (enable_flow ver) h = (PwrReturn (fst ?s), h1)"
    and r1: "reg h1 = snd ?s"
    using pwr_parse_refines [OF assms, of ver "enable_flow ver" 0 h] enable_flow_wf [of ver]
    by (auto simp: HalPwrSeqCmdParsing_def maxPollingCnt_def)
  obtain h2 where "enable_cr dev h1 = (Inr (), h2)" and "reg h2 = enable_cr_spec react (snd ?s)"
    using enable_cr_sync [OF assms, of h1] r1 by auto
  then show ?thesis
    using p r1 by (cases "fst ?s") (auto simp: InitPowerOn_def power_on_spec_def split_beta)
qed

section \<open>The page lists\<close>

text \<open>
  A chip is ready when the operation field of REG_LLT_INIT reads as inactive. On such a chip the
  table writes are a fixed list, and read back as a successor function they give the list of
  transmit pages and the ring behind it.
\<close>

definition llt_ready :: "'h usb \<Rightarrow> bool" where
  "llt_ready dev \<longleftrightarrow> (\<forall>h. fst (fst (ctrl_in dev REG_LLT_INIT 4 h)) = 4 \<and>
     LLT_OP_VALUE (le_word (snd (fst (ctrl_in dev REG_LLT_INIT 4 h)))) = 0)"

definition llt_entry :: "u32 \<Rightarrow> u32 \<Rightarrow> u16 \<times> bytes" where
  "llt_entry a d = (REG_LLT_INIT, le_bytes 4 (llt_value a d))"

definition llt_decode :: "u16 \<times> bytes \<Rightarrow> u8 \<times> u8" where
  "llt_decode e = (let v = le_word (snd e) :: u32 in (ucast (drop_bit 8 v), ucast v))"

lemma and_FF: "x AND 0xFF = take_bit 8 (x :: 'a::len word)"
proof -
  have "(0xFF :: 'a word) = mask 8" by (simp add: mask_eq_exp_minus_1)
  then show ?thesis by (simp add: take_bit_eq_mask)
qed

lemma llt_decode_entry: "llt_decode (llt_entry a d) = (ucast a, ucast d)"
proof -
  have *: "le_word (le_bytes 4 (llt_value a d)) = llt_value a d"
    by (rule le_word_le_bytes) simp
  have "ucast (drop_bit 8 (LLT_INIT_ADDR a OR LLT_INIT_DATA d OR LLT_OP x)) = (ucast a :: u8)" for x
    by (rule bit_word_eqI)
       (auto simp: LLT_INIT_ADDR_def LLT_INIT_DATA_def LLT_OP_def and_FF bit_simps)
  then have "ucast (drop_bit 8 (llt_value a d)) = (ucast a :: u8)" by (simp only: llt_value_def)
  moreover have "ucast (LLT_INIT_ADDR a OR LLT_INIT_DATA d OR LLT_OP x) = (ucast d :: u8)" for x
    by (rule bit_word_eqI)
       (auto simp: LLT_INIT_ADDR_def LLT_INIT_DATA_def LLT_OP_def and_FF bit_simps)
  then have "ucast (llt_value a d) = (ucast d :: u8)" by (simp only: llt_value_def)
  ultimately show ?thesis by (simp add: llt_decode_def llt_entry_def * Let_def)
qed

lemma llt_write_ready:
  assumes "llt_ready dev"
  shows "\<exists>hl'. LLTWrite_8812A (log_writes dev) a d hl = (Inr True, hl') \<and>
    snd hl' = snd hl @ [llt_entry a d]"
proof -
  let ?d = "log_writes dev"
  obtain b hl1 where w: "rtw_write32 ?d REG_LLT_INIT (llt_value a d) hl = (b, hl1)"
    by (metis surj_pair)
  then have l1: "snd hl1 = snd hl @ [llt_entry a d]"
    using log_write [of dev REG_LLT_INIT "le_bytes 4 (llt_value a d)" hl]
    by (simp add: rtw_write32_def llt_entry_def)
  obtain h l where hl1: "hl1 = (h, l)" by (cases hl1)
  obtain bs h' where c: "ctrl_in dev REG_LLT_INIT 4 h = ((4, bs), h')" and v: "LLT_OP_VALUE (le_word bs) = 0"
    using assms unfolding llt_ready_def by (metis prod.collapse)
  have "rtw_read_attempts 4 ?d REG_LLT_INIT 4 hl1 = (Inr bs, (h', l))"
    using c by (simp add: numeral_eq_Suc log_writes_def hl1)
  then have "llt_poll ?d 0 hl1 = (Inr True, (h', l))"
    using v by (simp add: llt_poll.simps [of ?d 0 hl1] rtw_read32_def rtw_read_def)
  then show ?thesis using w l1 hl1 by (simp add: LLTWrite_8812A_def)
qed

lemma llt_range_ready:
  assumes "llt_ready dev"
  shows "\<exists>hl'. llt_range (log_writes dev) i hi hl = (Inr True, hl') \<and>
    snd hl' = snd hl @ map (\<lambda>k. llt_entry (of_nat k) (of_nat (k + 1))) [i..<hi]"
proof (induction "hi - i" arbitrary: i hl)
  case 0
  then show ?case by (simp add: llt_range.simps [of _ i hi hl])
next
  case (Suc n)
  then have i: "i < hi" by simp
  obtain hl1 where w: "LLTWrite_8812A (log_writes dev) (of_nat i) (of_nat (i + 1)) hl = (Inr True, hl1)"
    and l1: "snd hl1 = snd hl @ [llt_entry (of_nat i) (of_nat (i + 1))]"
    using llt_write_ready [OF assms] by metis
  from Suc.hyps have "n = hi - (i + 1)" by simp
  from Suc.hyps(1) [OF this, of hl1]
  show ?case using i w l1 by (auto simp: llt_range.simps [of _ i hi hl] upt_conv_Cons)
qed

definition llt_entries :: "u8 \<Rightarrow> (u16 \<times> bytes) list" where
  "llt_entries bndy =
    map (\<lambda>k. llt_entry (of_nat k) (of_nat (k + 1))) [0..<unat bndy - 1] @
    [llt_entry (of_int (uint bndy - 1)) 0xFF] @
    map (\<lambda>k. llt_entry (of_nat k) (of_nat (k + 1))) [unat bndy..<255] @
    [llt_entry 255 (ucast bndy)]"

lemma bndy_minus_1:
  assumes "0 < (bndy :: u8)"
  shows "(of_int (uint bndy - 1) :: u32) = of_nat (unat bndy - 1)"
    and "unat (of_int (uint bndy - 1) :: u32) = unat bndy - 1"
proof -
  have p: "0 < unat bndy" using assms by (simp add: word_less_nat_alt)
  then have "uint bndy - 1 = int (unat bndy - 1)" by (simp add: of_nat_diff)
  then show e: "(of_int (uint bndy - 1) :: u32) = of_nat (unat bndy - 1)" by simp
  have "unat bndy - 1 < 2 ^ 32" using unat_lt [of bndy] by simp
  then show "unat (of_int (uint bndy - 1) :: u32) = unat bndy - 1"
    unfolding e by (simp add: unat_of_nat)
qed

lemma llt_init_ready:
  assumes "llt_ready dev" and "0 < bndy"
  shows "\<exists>h'. InitLLTTable8812A (log_writes dev) bndy (h, []) = (Inr True, (h', llt_entries bndy))"
proof -
  let ?d = "log_writes dev"
  obtain x1 where 1: "llt_range ?d 0 (unat bndy - 1) (h, []) = (Inr True, x1)"
    and l1: "snd x1 = map (\<lambda>k. llt_entry (of_nat k) (of_nat (k + 1))) [0..<unat bndy - 1]"
    using llt_range_ready [OF assms(1), of 0 "unat bndy - 1" "(h, [])"] by auto
  obtain x2 where 2: "LLTWrite_8812A ?d (of_int (uint bndy - 1)) 0xFF x1 = (Inr True, x2)"
    and l2: "snd x2 = snd x1 @ [llt_entry (of_int (uint bndy - 1)) 0xFF]"
    using llt_write_ready [OF assms(1), of "of_int (uint bndy - 1)" "0xFF" x1] by blast
  obtain x3 where 3: "llt_range ?d (unat bndy) 255 x2 = (Inr True, x3)"
    and l3: "snd x3 = snd x2 @ map (\<lambda>k. llt_entry (of_nat k) (of_nat (k + 1))) [unat bndy..<255]"
    using llt_range_ready [OF assms(1), of "unat bndy" 255 x2] by blast
  obtain x4 where 4: "LLTWrite_8812A ?d 255 (ucast bndy) x3 = (Inr True, x4)"
    and l4: "snd x4 = snd x3 @ [llt_entry 255 (ucast bndy)]"
    using llt_write_ready [OF assms(1), of 255 "ucast bndy" x3] by blast
  have "InitLLTTable8812A ?d bndy (h, []) = (Inr True, x4)"
    using 1 2 3 4 bndy_minus_1(2) [OF assms(2)] by (simp add: InitLLTTable8812A_def)
  moreover have "snd x4 = llt_entries bndy"
    using l1 l2 l3 l4 by (simp add: llt_entries_def)
  ultimately show ?thesis by (metis prod.collapse)
qed

definition llt_next :: "(u16 \<times> bytes) list \<Rightarrow> u8 \<Rightarrow> u8 option" where
  "llt_next log = map_of (rev (map llt_decode log))"

definition ring_next :: "u8 \<Rightarrow> u8 \<Rightarrow> u8" where
  "ring_next bndy p = (if p = bndy - 1 then 0xFF else if p = 0xFF then bndy else p + 1)"

lemma llt_entries_decode:
  assumes "0 < bndy"
  shows "map llt_decode (llt_entries bndy) = map (\<lambda>k. (k, ring_next bndy k)) (map of_nat [0..<256])"
proof -
  let ?b = "unat bndy"
  have b: "0 < ?b" "?b \<le> 255" using assms unat_lt [of bndy] by (simp_all add: word_less_nat_alt)
  have upt: "[0..<256] = [0..<?b - 1] @ [?b - 1] @ [?b..<255] @ [255]"
  proof -
    have "[0..<256] = [0..<?b - 1] @ [?b - 1..<256]" using b upt_add_eq_append [of 0 "?b - 1" "257 - ?b"]
      by (simp del: upt_rec_numeral)
    moreover have "[?b - 1..<256] = [?b - 1] @ [?b..<256]" using b by (simp add: upt_conv_Cons)
    moreover have "[?b..<256] = [?b..<255] @ [255]"
      using b upt_Suc_append [of ?b 255] by (simp del: upt_rec_numeral)
    ultimately show ?thesis by (simp only: append_assoc)
  qed
  have ring: "ring_next bndy (of_nat k) = of_nat (k + 1)" if "k < 255" "k \<noteq> ?b - 1" for k
  proof -
    have "bndy - 1 = of_nat (?b - 1)" using b by (simp add: of_nat_diff)
    moreover have "(of_nat k :: u8) \<noteq> of_nat (?b - 1)"
      unfolding word_of_nat_eq_iff take_bit_eq_mod using that b by simp
    ultimately have "(of_nat k :: u8) \<noteq> bndy - 1" by simp
    moreover have "(of_nat k :: u8) \<noteq> of_nat 255"
      using that by (simp add: word_of_nat_eq_iff take_bit_eq_mod del: of_nat_numeral)
    ultimately show ?thesis by (simp add: ring_next_def)
  qed
  have last1: "ring_next bndy (of_nat (?b - 1)) = 0xFF"
    using b by (simp add: ring_next_def of_nat_diff)
  have "bndy - 1 \<noteq> 0xFF" using assms by (auto simp: diff_eq_eq)
  then have last2: "ring_next bndy 0xFF = bndy" by (simp add: ring_next_def)
  have e: "llt_decode (llt_entry (of_nat k) (of_nat j)) = (of_nat k, of_nat j)" for k j
    by (simp add: llt_decode_entry unsigned_of_nat word_of_nat_eq_iff)
  have d1: "map llt_decode (map (\<lambda>k. llt_entry (of_nat k) (of_nat (k + 1))) [i..<j]) =
      map (\<lambda>k. (k, ring_next bndy k)) (map of_nat [i..<j])"
    if "\<And>k. i \<le> k \<Longrightarrow> k < j \<Longrightarrow> k < 255 \<and> k \<noteq> ?b - 1" for i j
    using ring that by (simp add: e del: of_nat_Suc of_nat_add)
  have d2: "llt_decode (llt_entry (of_int (uint bndy - 1)) 0xFF) = (of_nat (?b - 1), 0xFF)"
    unfolding bndy_minus_1 (1) [OF assms] using e [of "?b - 1" 255] by simp
  have "(ucast (ucast bndy :: u32) :: u8) = bndy"
    by (rule bit_word_eqI) (auto simp: bit_simps dest: bit_imp_le_length)
  then have d3: "llt_decode (llt_entry 255 (ucast bndy)) = (of_nat 255, bndy)"
    by (simp add: llt_decode_entry)
  show ?thesis
    unfolding llt_entries_def upt map_append using last1 last2 b d2 d3
    by (subst d1, fastforce) (subst d1, fastforce, simp)
qed

lemma llt_next_entries:
  assumes "0 < bndy"
  shows "llt_next (llt_entries bndy) p = Some (ring_next bndy p)"
proof -
  have d: "distinct (map of_nat [0..<256] :: u8 list)"
    by (simp add: distinct_map inj_on_def word_of_nat_eq_iff take_bit_eq_mod del: upt_rec_numeral)
  have p: "p \<in> set (map of_nat [0..<256])"
  proof -
    have "p = of_nat (unat p)" by simp
    moreover have "unat p < 256" using unat_lt [of p] by simp
    ultimately show ?thesis by (metis atLeastLessThan_iff image_eqI list.set_map set_upt zero_le)
  qed
  have "map_of (rev (map (\<lambda>k. (k, ring_next bndy k)) (map of_nat [0..<256]))) =
      map_of (map (\<lambda>k. (k, ring_next bndy k)) (map of_nat [0..<256]))"
    by (rule map_of_rev_distinct) (use d in \<open>simp add: o_def\<close>)
  then show ?thesis
    unfolding llt_next_def llt_entries_decode [OF assms] using map_of_graph [OF p] by metis
qed

text \<open>
  C34: on every chip whose table port goes idle, \<open>InitLLTTable8812A\<close> succeeds, and its writes
  link all 256 pages: the pages below the boundary form the list 0, 1, ..., boundary - 1 ended by
  0xFF, the others the ring boundary, ..., 255 that returns to the boundary.
\<close>

theorem InitLLTTable8812A_links_pages:
  assumes "llt_ready dev" and "0 < bndy"
  shows "\<exists>h' log. InitLLTTable8812A (log_writes dev) bndy (h, []) = (Inr True, (h', log)) \<and>
    (\<forall>p. llt_next log p = Some (ring_next bndy p))"
  using llt_init_ready [OF assms, of h] llt_next_entries [OF assms(2)] by blast

definition idle_device :: "unit usb" where
  "idle_device =
    \<lparr>ctrl_in = \<lambda>a n h. ((int n, replicate n 0), h), ctrl_out = \<lambda>a bs h. (int (length bs), h),
     sleep_us = \<lambda>n h. h\<rparr>"

lemma idle_device_ready: "llt_ready idle_device"
proof -
  have "le_nat (replicate 4 0) = 0" using le_nat_pad [of "[]" 4] by simp
  then show ?thesis by (simp add: llt_ready_def idle_device_def le_word_def LLT_OP_VALUE_def)
qed

theorem InitLLTTable8812A_links_pages_witness:
  "\<exists>h' log. InitLLTTable8812A (log_writes idle_device) 0xF9 ((), []) = (Inr True, (h', log)) \<and>
    (\<forall>p. llt_next log p = Some (ring_next 0xF9 p))"
  by (rule InitLLTTable8812A_links_pages [OF idle_device_ready]) (simp add: word_less_nat_alt)

section \<open>The mailbox\<close>

lemma h2c_wait_log: "snd (snd (h2c_wait n (log_writes dev) box hl)) = snd hl"
proof (induction n arbitrary: hl)
  case 0
  then show ?case by simp
next
  case (Suc n)
  obtain x hl1 where r: "rtw_read8 (log_writes dev) REG_HMETFR hl = (x, hl1)" by (metis surj_pair)
  show ?case using log_read8_D [OF r] r Suc by (cases x) simp_all
qed

lemma h2c_words_bytes:
  assumes "length buf \<le> 7"
  shows "le_bytes 4 (fst (h2c_words el buf)) @ le_bytes 4 (snd (h2c_words el buf)) =
    el # buf @ replicate (7 - length buf) 0"
proof (cases "length buf \<le> 3")
  case True
  have "replicate (7 - length buf) 0 = replicate (3 - length buf) 0 @ replicate 4 (0 :: u8)"
  proof -
    have "7 - length buf = (3 - length buf) + 4" using True by simp
    then show ?thesis by (metis replicate_add)
  qed
  then show ?thesis using True by (simp add: h2c_words_def le_bytes_pad)
next
  case False
  then have "le_bytes 4 (le_word (el # take 3 buf) :: u32) = el # take 3 buf"
    using assms by (simp add: le_bytes_pad)
  then show ?thesis using False assms by (simp add: h2c_words_def le_bytes_pad)
qed

lemma h2c_order:
  "case fillH2CCmd (log_writes dev) el n (Some buf) lastBox (h, []) of (ok, box, (h', log)) \<Rightarrow>
     (log = [] \<and> ok = False \<and> box = lastBox) \<or>
     (n \<le> 7 \<and> log = [(REG_HMEBOX_EXT_0 + of_nat (unat lastBox mod 4 * 4), le_bytes 4 (snd (h2c_words el (take n buf)))),
              (REG_HMEBOX_0 + of_nat (unat lastBox mod 4 * 4), le_bytes 4 (fst (h2c_words el (take n buf))))] \<and>
      box = of_nat ((unat lastBox mod 4 + 1) mod 4))"
proof -
  let ?d = "log_writes dev" and ?b = "unat lastBox mod 4"
  obtain r hl1 where w: "h2c_wait 100 ?d ?b (h, []) = (r, hl1)" by (metis surj_pair)
  then have l1: "snd hl1 = []" using h2c_wait_log [of 100 dev ?b "(h, [])"] by simp
  let ?ex = "snd (h2c_words el (take n buf))" and ?w = "fst (h2c_words el (take n buf))"
  obtain ok1 hl2 where w1: "rtw_write32 ?d (REG_HMEBOX_EXT_0 + of_nat (?b * 4)) ?ex hl1 = (ok1, hl2)"
    by (metis surj_pair)
  obtain ok2 hl3 where w2: "rtw_write32 ?d (REG_HMEBOX_0 + of_nat (?b * 4)) ?w hl2 = (ok2, hl3)"
    by (metis surj_pair)
  have "snd hl2 = [(REG_HMEBOX_EXT_0 + of_nat (?b * 4), le_bytes 4 ?ex)]"
    using log_write32_D [OF w1] l1 by simp
  then have l3: "snd hl3 = [(REG_HMEBOX_EXT_0 + of_nat (?b * 4), le_bytes 4 ?ex),
      (REG_HMEBOX_0 + of_nat (?b * 4), le_bytes 4 ?w)]"
    using log_write32_D [OF w2] by simp
  show ?thesis
  proof (cases "n > 7")
    case True
    then show ?thesis by (simp add: fillH2CCmd_def)
  next
    case n: False
    show ?thesis
    proof (cases r)
      case (Inl e)
      then show ?thesis using w l1 n by (cases hl1) (simp add: fillH2CCmd_def Let_def)
    next
      case (Inr u)
      obtain h3 where "hl3 = (h3, snd hl3)" by (metis surjective_pairing)
      then show ?thesis using w w1 w2 l3 n Inr
        by (simp add: fillH2CCmd_def Let_def split_beta)
    qed
  qed
qed
text \<open>
  A host-to-card command either writes nothing, reports failure and keeps the mailbox index,
  or writes exactly two words, the extension box first and the primary box that triggers the
  firmware second, of the box the round-robin index selects; the bytes of the two words spell the
  element number, the command bytes and zero padding, and the index advances by one modulo four.
\<close>

theorem fillH2CCmd_mailbox:
  "case fillH2CCmd (log_writes dev) el n (Some buf) lastBox (h, []) of (ok, box, (h', log)) \<Rightarrow>
     (log = [] \<and> ok = False \<and> box = lastBox) \<or>
     (\<exists>ex w. log = [(REG_HMEBOX_EXT_0 + of_nat (unat lastBox mod 4 * 4), ex),
                   (REG_HMEBOX_0 + of_nat (unat lastBox mod 4 * 4), w)] \<and>
        w @ ex = el # take n buf @ replicate (7 - length (take n buf)) 0 \<and>
        box = of_nat ((unat lastBox mod 4 + 1) mod 4))"
proof -
  have "length (take n buf) \<le> 7" if "n \<le> 7" using that by simp
  then show ?thesis
    using h2c_order [where dev = dev and el = el and n = n and buf = buf and lastBox = lastBox and h = h] h2c_words_bytes [of "take n buf" el]
    by (auto simp del: length_take split: prod.splits)
qed

section \<open>A concrete chip\<close>

text \<open>
  Registers that store what is written, except that the power state machine clears 0x05[0] when
  the transition is done and reports power ready in 0x06[1].
\<close>

definition jaguar_react :: "u16 \<Rightarrow> bytes \<Rightarrow> regs \<Rightarrow> regs" where
  "jaguar_react a bs r =
    (let r1 = fold (\<lambda>i r. r(a + of_nat i := bs ! i)) [0..<length bs] r
     in r1(0x0005 := r1 0x0005 AND NOT BIT0, 0x0006 := r1 0x0006 OR BIT1))"

lemma jaguar_react_1:
  "jaguar_react a [v] r =
    (let r1 = r(a := v) in r1(0x0005 := r1 0x0005 AND NOT BIT0, 0x0006 := r1 0x0006 OR BIT1))"
  by (simp add: jaguar_react_def)

lemma bit_merge_bits:
  "bit (merge_bits old msk val) n = (if bit msk n then bit val n else bit old n)"
  by (auto simp: merge_bits_def bit_simps dest: bit_imp_le_length)

lemma and_1_eq_0: "(x :: u8) AND 1 = 0 \<longleftrightarrow> \<not> bit x 0"
  by (simp add: and_one_eq mod_2_eq_odd bit_0)

lemma and_2_eq_2: "(x :: u8) AND 2 = 2 \<longleftrightarrow> bit x 1"
proof
  assume "x AND 2 = 2"
  then have "bit (x AND 2) 1" by (simp add: bit_simps)
  then show "bit x 1" by (simp add: bit_simps)
next
  assume "bit x 1"
  then show "x AND 2 = 2" by (intro bit_word_eqI) (auto simp: bit_and_iff bit_2_iff)
qed

lemmas jaguar_simps = pwr_cfg_def selected_def cut_mask_def jaguar_react_1 Let_def
  and_1_eq_0 and_2_eq_2 bit_merge_bits bit_simps

lemma jaguar_flow_8812:
  "fst (flow_spec \<lparr>ICType = CHIP_8812, normal_chip = b\<rparr> jaguar_react rtl8812_card_enable_flow r)"
  by (simp add: rtl8812_card_enable_flow_def RTL8812_steps jaguar_simps)

lemma jaguar_flow_8821:
  "fst (flow_spec \<lparr>ICType = CHIP_8821, normal_chip = b\<rparr> jaguar_react rtl8821A_card_enable_flow r)"
  by (cases b; simp add: rtl8821A_card_enable_flow_def RTL8821A_steps jaguar_simps)

lemma jaguar_flow_8814:
  "fst (flow_spec \<lparr>ICType = CHIP_8814A, normal_chip = b\<rparr> jaguar_react rtl8814A_card_enable_flow r)"
  by (simp add: rtl8814A_card_enable_flow_def RTL8814A_steps jaguar_simps)

text \<open>On it the 8812 flow leaves the 8051 enabled (0x03[2]) and suspend disabled (0x05[3]).\<close>

lemma jaguar_regs_8812:
  "r' = snd (flow_spec \<lparr>ICType = CHIP_8812, normal_chip = b\<rparr> jaguar_react rtl8812_card_enable_flow r) \<Longrightarrow>
   bit (r' 3) 2 \<and> \<not> bit (r' 5) 3"
  by (simp add: rtl8812_card_enable_flow_def RTL8812_steps jaguar_simps)

theorem InitPowerOn_refines_witness:
  "\<exists>h'. InitPowerOn (reg_file jaguar_react) \<lparr>ICType = CHIP_8812, normal_chip = True\<rparr> False (\<lambda>_. 0) =
      (PwrReturn True, True, h')"
proof -
  let ?v = "\<lparr>ICType = CHIP_8812, normal_chip = True\<rparr>"
  have "fst (power_on_spec ?v jaguar_react (\<lambda>_. 0))"
    using jaguar_flow_8812 [of True "\<lambda>_. 0"]
    by (simp add: power_on_spec_def enable_flow_def split_beta)
  then show ?thesis
    using InitPowerOn_refines [OF sync_reg_file, of jaguar_react ?v "\<lambda>_. 0"] by auto
qed

end
