(* ===== verification/TxDesc.thy ===== *)
theory TxDesc
  imports Prelude
begin

text \<open>
  The transmit descriptor: the bit-field macros of src/FrameParser.h, the checksum
  \<open>rtl8812a_cal_txdesc_chksum\<close> of src/FrameParser.cpp and the station descriptor
  \<open>FillStationTxDesc\<close> of src/StationTxDesc.cpp. A descriptor is a byte buffer; a field is the
  triple of its dword offset, bit offset and width. Writing a field outside the buffer, which the
  macros do not check, is \<open>None\<close>.
\<close>

section \<open>Bit fields of little-endian dwords\<close>

type_synonym field = "nat \<times> nat \<times> nat"

abbreviation (input) TXDESC_SIZE :: nat where "TXDESC_SIZE \<equiv> 40"

definition BIT_LEN_MASK_32 :: "nat \<Rightarrow> u32" where
  "BIT_LEN_MASK_32 len = drop_bit (32 - len) 0xFFFFFFFF"

definition BIT_OFFSET_LEN_MASK_32 :: "nat \<Rightarrow> nat \<Rightarrow> u32" where
  "BIT_OFFSET_LEN_MASK_32 bo len = push_bit bo (BIT_LEN_MASK_32 len)"

definition LE_P4BYTE_TO_HOST_4BYTE :: "bytes \<Rightarrow> nat \<Rightarrow> u32" where
  "LE_P4BYTE_TO_HOST_4BYTE buf p = le_word (slice p 4 buf)"

definition WriteLE4Byte :: "nat \<Rightarrow> u32 \<Rightarrow> bytes \<Rightarrow> bytes" where
  "WriteLE4Byte p v buf = take p buf @ le_bytes 4 v @ drop (p + 4) buf"

definition LE_BITS_TO_4BYTE :: "bytes \<Rightarrow> field \<Rightarrow> u32" where
  "LE_BITS_TO_4BYTE buf f = (case f of (p, bo, len) \<Rightarrow>
     drop_bit bo (LE_P4BYTE_TO_HOST_4BYTE buf p) AND BIT_LEN_MASK_32 len)"

definition LE_BITS_CLEARED_TO_4BYTE :: "bytes \<Rightarrow> nat \<Rightarrow> nat \<Rightarrow> nat \<Rightarrow> u32" where
  "LE_BITS_CLEARED_TO_4BYTE buf p bo len =
     LE_P4BYTE_TO_HOST_4BYTE buf p AND NOT (BIT_OFFSET_LEN_MASK_32 bo len)"

definition put_bits :: "field \<Rightarrow> u32 \<Rightarrow> bytes \<Rightarrow> bytes" where
  "put_bits f v buf = (case f of (p, bo, len) \<Rightarrow>
     if bo = 0 \<and> len = 32 then WriteLE4Byte p v buf
     else WriteLE4Byte p (LE_BITS_CLEARED_TO_4BYTE buf p bo len OR
                          push_bit bo (v AND BIT_LEN_MASK_32 len)) buf)"

definition SET_BITS_TO_LE_4BYTE :: "field \<Rightarrow> u32 \<Rightarrow> bytes \<Rightarrow> bytes option" where
  "SET_BITS_TO_LE_4BYTE f v buf =
     (if fst f + 4 \<le> length buf then Some (put_bits f v buf) else None)"

text \<open>A run of field assignments, in order.\<close>

fun run_sets :: "(field \<times> u32) list \<Rightarrow> bytes \<Rightarrow> bytes option" where
  "run_sets [] buf = Some buf"
| "run_sets ((f, v) # fs) buf = Option.bind (SET_BITS_TO_LE_4BYTE f v buf) (run_sets fs)"

section \<open>The fields of the descriptor\<close>

abbreviation (input) TX_DESC_CHECKSUM_8812 :: field where "TX_DESC_CHECKSUM_8812 \<equiv> (28, 0, 16)"
abbreviation (input) RATE_ID_8812 :: field where "RATE_ID_8812 \<equiv> (4, 16, 5)"
abbreviation (input) PKT_SIZE_8812 :: field where "PKT_SIZE_8812 \<equiv> (0, 0, 16)"
abbreviation (input) OFFSET_8812 :: field where "OFFSET_8812 \<equiv> (0, 16, 8)"
abbreviation (input) BMC_8812 :: field where "BMC_8812 \<equiv> (0, 24, 1)"
abbreviation (input) HTC_8812 :: field where "HTC_8812 \<equiv> (0, 25, 1)"
abbreviation (input) LAST_SEG_8812 :: field where "LAST_SEG_8812 \<equiv> (0, 26, 1)"
abbreviation (input) FIRST_SEG_8812 :: field where "FIRST_SEG_8812 \<equiv> (0, 27, 1)"
abbreviation (input) LINIP_8812 :: field where "LINIP_8812 \<equiv> (0, 28, 1)"
abbreviation (input) NO_ACM_8812 :: field where "NO_ACM_8812 \<equiv> (0, 29, 1)"
abbreviation (input) GF_8812 :: field where "GF_8812 \<equiv> (0, 30, 1)"
abbreviation (input) OWN_8812 :: field where "OWN_8812 \<equiv> (0, 31, 1)"
abbreviation (input) MACID_8812 :: field where "MACID_8812 \<equiv> (4, 0, 7)"
abbreviation (input) QUEUE_SEL_8812 :: field where "QUEUE_SEL_8812 \<equiv> (4, 8, 5)"
abbreviation (input) RDG_NAV_EXT_8812 :: field where "RDG_NAV_EXT_8812 \<equiv> (4, 13, 1)"
abbreviation (input) LSIG_TXOP_EN_8812 :: field where "LSIG_TXOP_EN_8812 \<equiv> (4, 14, 1)"
abbreviation (input) PIFS_8812 :: field where "PIFS_8812 \<equiv> (4, 15, 1)"
abbreviation (input) EN_DESC_ID_8812 :: field where "EN_DESC_ID_8812 \<equiv> (4, 21, 1)"
abbreviation (input) SEC_TYPE_8812 :: field where "SEC_TYPE_8812 \<equiv> (4, 22, 2)"
abbreviation (input) PKT_OFFSET_8812 :: field where "PKT_OFFSET_8812 \<equiv> (4, 24, 5)"
abbreviation (input) PAID_8812 :: field where "PAID_8812 \<equiv> (8, 0, 9)"
abbreviation (input) CCA_RTS_8812 :: field where "CCA_RTS_8812 \<equiv> (8, 10, 2)"
abbreviation (input) AGG_ENABLE_8812 :: field where "AGG_ENABLE_8812 \<equiv> (8, 12, 1)"
abbreviation (input) RDG_ENABLE_8812 :: field where "RDG_ENABLE_8812 \<equiv> (8, 13, 1)"
abbreviation (input) AGG_BREAK_8812 :: field where "AGG_BREAK_8812 \<equiv> (8, 16, 1)"
abbreviation (input) MORE_FRAG_8812 :: field where "MORE_FRAG_8812 \<equiv> (8, 17, 1)"
abbreviation (input) RAW_8812 :: field where "RAW_8812 \<equiv> (8, 18, 1)"
abbreviation (input) SPE_RPT_8812 :: field where "SPE_RPT_8812 \<equiv> (8, 19, 1)"
abbreviation (input) AMPDU_DENSITY_8812 :: field where "AMPDU_DENSITY_8812 \<equiv> (8, 20, 3)"
abbreviation (input) BT_INT_8812 :: field where "BT_INT_8812 \<equiv> (8, 23, 1)"
abbreviation (input) GID_8812 :: field where "GID_8812 \<equiv> (8, 24, 6)"
abbreviation (input) WHEADER_LEN_8812 :: field where "WHEADER_LEN_8812 \<equiv> (12, 0, 4)"
abbreviation (input) CHK_EN_8812 :: field where "CHK_EN_8812 \<equiv> (12, 4, 1)"
abbreviation (input) EARLY_MODE_8812 :: field where "EARLY_MODE_8812 \<equiv> (12, 5, 1)"
abbreviation (input) HWSEQ_SEL_8812 :: field where "HWSEQ_SEL_8812 \<equiv> (12, 6, 2)"
abbreviation (input) USE_RATE_8812 :: field where "USE_RATE_8812 \<equiv> (12, 8, 1)"
abbreviation (input) DISABLE_RTS_FB_8812 :: field where "DISABLE_RTS_FB_8812 \<equiv> (12, 9, 1)"
abbreviation (input) DISABLE_FB_8812 :: field where "DISABLE_FB_8812 \<equiv> (12, 10, 1)"
abbreviation (input) CTS2SELF_8812 :: field where "CTS2SELF_8812 \<equiv> (12, 11, 1)"
abbreviation (input) RTS_ENABLE_8812 :: field where "RTS_ENABLE_8812 \<equiv> (12, 12, 1)"
abbreviation (input) HW_RTS_ENABLE_8812 :: field where "HW_RTS_ENABLE_8812 \<equiv> (12, 13, 1)"
abbreviation (input) NAV_USE_HDR_8812 :: field where "NAV_USE_HDR_8812 \<equiv> (12, 15, 1)"
abbreviation (input) USE_MAX_LEN_8812 :: field where "USE_MAX_LEN_8812 \<equiv> (12, 16, 1)"
abbreviation (input) MAX_AGG_NUM_8812 :: field where "MAX_AGG_NUM_8812 \<equiv> (12, 17, 5)"
abbreviation (input) NDPA_8812 :: field where "NDPA_8812 \<equiv> (12, 22, 2)"
abbreviation (input) AMPDU_MAX_TIME_8812 :: field where "AMPDU_MAX_TIME_8812 \<equiv> (12, 24, 8)"
abbreviation (input) TX_RATE_8812 :: field where "TX_RATE_8812 \<equiv> (16, 0, 7)"
abbreviation (input) DATA_RATE_FB_LIMIT_8812 :: field where "DATA_RATE_FB_LIMIT_8812 \<equiv> (16, 8, 5)"
abbreviation (input) RTS_RATE_FB_LIMIT_8812 :: field where "RTS_RATE_FB_LIMIT_8812 \<equiv> (16, 13, 4)"
abbreviation (input) RETRY_LIMIT_ENABLE_8812 :: field where "RETRY_LIMIT_ENABLE_8812 \<equiv> (16, 17, 1)"
abbreviation (input) DATA_RETRY_LIMIT_8812 :: field where "DATA_RETRY_LIMIT_8812 \<equiv> (16, 18, 6)"
abbreviation (input) RTS_RATE_8812 :: field where "RTS_RATE_8812 \<equiv> (16, 24, 5)"
abbreviation (input) DATA_SC_8812 :: field where "DATA_SC_8812 \<equiv> (20, 0, 4)"
abbreviation (input) DATA_SHORT_8812 :: field where "DATA_SHORT_8812 \<equiv> (20, 4, 1)"
abbreviation (input) DATA_BW_8812 :: field where "DATA_BW_8812 \<equiv> (20, 5, 2)"
abbreviation (input) DATA_LDPC_8812 :: field where "DATA_LDPC_8812 \<equiv> (20, 7, 1)"
abbreviation (input) DATA_STBC_8812 :: field where "DATA_STBC_8812 \<equiv> (20, 8, 2)"
abbreviation (input) CTROL_STBC_8812 :: field where "CTROL_STBC_8812 \<equiv> (20, 10, 2)"
abbreviation (input) RTS_SHORT_8812 :: field where "RTS_SHORT_8812 \<equiv> (20, 12, 1)"
abbreviation (input) RTS_SC_8812 :: field where "RTS_SC_8812 \<equiv> (20, 13, 4)"
abbreviation (input) TX_ANT_8812 :: field where "TX_ANT_8812 \<equiv> (20, 24, 4)"
abbreviation (input) SW_DEFINE_8812 :: field where "SW_DEFINE_8812 \<equiv> (24, 0, 12)"
abbreviation (input) ANTSEL_A_8812 :: field where "ANTSEL_A_8812 \<equiv> (24, 16, 3)"
abbreviation (input) ANTSEL_B_8812 :: field where "ANTSEL_B_8812 \<equiv> (24, 19, 3)"
abbreviation (input) ANTSEL_C_8812 :: field where "ANTSEL_C_8812 \<equiv> (24, 22, 3)"
abbreviation (input) ANTSEL_D_8812 :: field where "ANTSEL_D_8812 \<equiv> (24, 25, 3)"
abbreviation (input) MBSSID_8821 :: field where "MBSSID_8821 \<equiv> (24, 12, 4)"
abbreviation (input) TX_BUFFER_SIZE_8812 :: field where "TX_BUFFER_SIZE_8812 \<equiv> (28, 0, 16)"
abbreviation (input) USB_TXAGG_NUM_8812 :: field where "USB_TXAGG_NUM_8812 \<equiv> (28, 24, 8)"
abbreviation (input) SDIO_TXSEQ_8812 :: field where "SDIO_TXSEQ_8812 \<equiv> (28, 16, 8)"
abbreviation (input) HWSEQ_EN_8812 :: field where "HWSEQ_EN_8812 \<equiv> (32, 15, 1)"
abbreviation (input) SEQ_8812 :: field where "SEQ_8812 \<equiv> (36, 12, 12)"
abbreviation (input) TX_BUFFER_ADDRESS_8812 :: field where "TX_BUFFER_ADDRESS_8812 \<equiv> (40, 0, 32)"
abbreviation (input) NEXT_DESC_ADDRESS_8812 :: field where "NEXT_DESC_ADDRESS_8812 \<equiv> (48, 0, 32)"
abbreviation (input) EARLYMODE_PKTNUM_8812 :: field where "EARLYMODE_PKTNUM_8812 \<equiv> (0, 0, 4)"
abbreviation (input) EARLYMODE_LEN0_8812 :: field where "EARLYMODE_LEN0_8812 \<equiv> (0, 4, 15)"
abbreviation (input) EARLYMODE_LEN1_1_8812 :: field where "EARLYMODE_LEN1_1_8812 \<equiv> (0, 19, 13)"
abbreviation (input) EARLYMODE_LEN1_2_8812 :: field where "EARLYMODE_LEN1_2_8812 \<equiv> (4, 0, 2)"
abbreviation (input) EARLYMODE_LEN2_8812 :: field where "EARLYMODE_LEN2_8812 \<equiv> (4, 2, 15)"
abbreviation (input) EARLYMODE_LEN3_8812 :: field where "EARLYMODE_LEN3_8812 \<equiv> (4, 17, 15)"

definition tx_fields :: "field list" where
  "tx_fields =
   [TX_DESC_CHECKSUM_8812, RATE_ID_8812, PKT_SIZE_8812, OFFSET_8812, BMC_8812, HTC_8812,
    LAST_SEG_8812, FIRST_SEG_8812, LINIP_8812, NO_ACM_8812, GF_8812, OWN_8812, MACID_8812,
    QUEUE_SEL_8812, RDG_NAV_EXT_8812, LSIG_TXOP_EN_8812, PIFS_8812, EN_DESC_ID_8812,
    SEC_TYPE_8812, PKT_OFFSET_8812, PAID_8812, CCA_RTS_8812, AGG_ENABLE_8812, RDG_ENABLE_8812,
    AGG_BREAK_8812, MORE_FRAG_8812, RAW_8812, SPE_RPT_8812, AMPDU_DENSITY_8812, BT_INT_8812,
    GID_8812, WHEADER_LEN_8812, CHK_EN_8812, HWSEQ_SEL_8812, USE_RATE_8812, DISABLE_RTS_FB_8812,
    DISABLE_FB_8812, CTS2SELF_8812, RTS_ENABLE_8812, HW_RTS_ENABLE_8812, NAV_USE_HDR_8812,
    USE_MAX_LEN_8812, MAX_AGG_NUM_8812, NDPA_8812, AMPDU_MAX_TIME_8812, TX_RATE_8812,
    DATA_RATE_FB_LIMIT_8812, RTS_RATE_FB_LIMIT_8812, RETRY_LIMIT_ENABLE_8812,
    DATA_RETRY_LIMIT_8812, RTS_RATE_8812, DATA_SC_8812, DATA_SHORT_8812, DATA_BW_8812,
    DATA_LDPC_8812, DATA_STBC_8812, CTROL_STBC_8812, RTS_SHORT_8812, RTS_SC_8812, TX_ANT_8812,
    SW_DEFINE_8812, ANTSEL_A_8812, ANTSEL_B_8812, ANTSEL_C_8812, ANTSEL_D_8812, MBSSID_8821,
    TX_BUFFER_SIZE_8812, USB_TXAGG_NUM_8812, SDIO_TXSEQ_8812, HWSEQ_EN_8812, SEQ_8812]"

section \<open>The laws of the fields\<close>

text \<open>
  A field fits when it is inside the descriptor and inside its dword; two fields are disjoint
  when they share no bit. The locale is the contract a sequence of field writes relies on.
\<close>

definition field_ok :: "nat \<Rightarrow> field \<Rightarrow> bool" where
  "field_ok sz f = (case f of (p, bo, len) \<Rightarrow> p + 4 \<le> sz \<and> 0 < len \<and> bo + len \<le> 32)"

definition fdisj :: "field \<Rightarrow> field \<Rightarrow> bool" where
  "fdisj f g = (case f of (p, bo, len) \<Rightarrow> case g of (p', bo', len') \<Rightarrow>
     p + 4 \<le> p' \<or> p' + 4 \<le> p \<or> (p = p' \<and> (bo + len \<le> bo' \<or> bo' + len' \<le> bo)))"

locale field_codec =
  fixes get :: "'b \<Rightarrow> 'f \<Rightarrow> 'v"
    and put :: "'f \<Rightarrow> 'v \<Rightarrow> 'b \<Rightarrow> 'b"
    and inv :: "'b \<Rightarrow> bool"
    and ok :: "'f \<Rightarrow> bool"
    and disj :: "'f \<Rightarrow> 'f \<Rightarrow> bool"
    and fit :: "'f \<Rightarrow> 'v \<Rightarrow> 'v"
  assumes inv_put: "ok f \<Longrightarrow> inv b \<Longrightarrow> inv (put f v b)"
    and get_put_same: "ok f \<Longrightarrow> inv b \<Longrightarrow> get (put f v b) f = fit f v"
    and get_put_other: "ok f \<Longrightarrow> ok g \<Longrightarrow> inv b \<Longrightarrow> disj f g \<Longrightarrow> get (put f v b) g = get b g"
begin

lemma inv_puts: "list_all (\<lambda>(f, v). ok f) fs \<Longrightarrow> inv b \<Longrightarrow> inv (fold (\<lambda>(f, v). put f v) fs b)"
  by (induction fs arbitrary: b) (auto simp: inv_put)

lemma get_puts_other:
  "list_all (\<lambda>(f, v). ok f \<and> disj f g) fs \<Longrightarrow> ok g \<Longrightarrow> inv b \<Longrightarrow>
   get (fold (\<lambda>(f, v). put f v) fs b) g = get b g"
  by (induction fs arbitrary: b) (auto simp: inv_put get_put_other)

text \<open>After a run of writes a field has its last value, whatever was written before.\<close>

lemma get_puts:
  assumes "ok g" "inv b"
  shows "list_all (\<lambda>(f, v). ok f \<and> (f = g \<or> disj f g)) fs \<Longrightarrow>
    get (fold (\<lambda>(f, v). put f v) fs b) g =
      (case map_of (rev fs) g of None \<Rightarrow> get b g | Some v \<Rightarrow> fit g v)"
proof (induction fs rule: rev_induct)
  case Nil
  then show ?case by simp
next
  case (snoc x fs)
  obtain f v where x: "x = (f, v)" by (cases x)
  have "list_all (\<lambda>(f, v). ok f) fs" using snoc.prems by (auto simp: list_all_iff)
  then have inv: "inv (fold (\<lambda>(f, v). put f v) fs b)" using inv_puts assms by blast
  show ?case
    using snoc assms get_put_same [OF assms(1) inv] get_put_other [OF _ assms(1) inv]
    by (auto simp: x)
qed

end

lemma drop_bit_mask:
  "len \<le> k \<Longrightarrow> k \<le> LENGTH('a::len) \<Longrightarrow> drop_bit (k - len) (mask k :: 'a word) = mask len"
  by (rule bit_word_eqI) (auto simp: bit_simps)

lemma bit_len_mask: "len \<le> 32 \<Longrightarrow> BIT_LEN_MASK_32 len = mask len"
proof -
  assume "len \<le> 32"
  moreover have e: "(0xFFFFFFFF :: u32) = mask 32" by (simp add: mask_eq_exp_minus_1)
  ultimately show ?thesis
    unfolding BIT_LEN_MASK_32_def e by (subst drop_bit_mask) simp_all
qed

lemma length_WriteLE4Byte [simp]:
  "p + 4 \<le> length buf \<Longrightarrow> length (WriteLE4Byte p v buf) = length buf"
  by (simp add: WriteLE4Byte_def)

lemma length_put_bits [simp]:
  "fst f + 4 \<le> length buf \<Longrightarrow> length (put_bits f v buf) = length buf"
  by (cases f) (simp add: put_bits_def)

lemma read_write_same [simp]:
  assumes "p + 4 \<le> length buf"
  shows "LE_P4BYTE_TO_HOST_4BYTE (WriteLE4Byte p v buf) p = v"
proof -
  have "slice p 4 (WriteLE4Byte p v buf) = le_bytes 4 v"
    using assms by (simp add: slice_def WriteLE4Byte_def)
  then show ?thesis
    unfolding LE_P4BYTE_TO_HOST_4BYTE_def by (simp add: le_word_le_bytes)
qed

lemma read_write_other:
  assumes "p + 4 \<le> length buf" "p + 4 \<le> q \<or> q + 4 \<le> p"
  shows "LE_P4BYTE_TO_HOST_4BYTE (WriteLE4Byte p v buf) q = LE_P4BYTE_TO_HOST_4BYTE buf q"
proof -
  have "slice q 4 (WriteLE4Byte p v buf) = slice q 4 buf"
    using assms(2)
  proof
    assume "p + 4 \<le> q"
    then show ?thesis using assms(1) by (simp add: slice_def WriteLE4Byte_def)
  next
    assume "q + 4 \<le> p"
    then have "take 4 (drop q (take p buf)) = take 4 (drop q buf)"
      by (simp add: drop_take min_def)
    then show ?thesis using \<open>q + 4 \<le> p\<close> assms(1) by (simp add: slice_def WriteLE4Byte_def)
  qed
  then show ?thesis by (simp add: LE_P4BYTE_TO_HOST_4BYTE_def)
qed

lemma bit_put_word:
  assumes "bo + len \<le> 32" "p + 4 \<le> length buf" "n < 32"
  shows "bit (LE_P4BYTE_TO_HOST_4BYTE (put_bits (p, bo, len) v buf) p) n =
    (if bo \<le> n \<and> n < bo + len then bit v (n - bo) else bit (LE_P4BYTE_TO_HOST_4BYTE buf p) n)"
  using assms
  by (auto simp: put_bits_def LE_BITS_CLEARED_TO_4BYTE_def BIT_OFFSET_LEN_MASK_32_def
      bit_len_mask bit_simps)

lemma bit_get:
  "len \<le> 32 \<Longrightarrow> bit (LE_BITS_TO_4BYTE buf (p, bo, len)) n \<longleftrightarrow>
    n < len \<and> bit (LE_P4BYTE_TO_HOST_4BYTE buf p) (bo + n)"
  by (auto simp: LE_BITS_TO_4BYTE_def bit_len_mask bit_simps dest: bit_imp_le_length)

definition field_fit :: "field \<Rightarrow> u32 \<Rightarrow> u32" where
  "field_fit f v = take_bit (snd (snd f)) v"

text \<open>The macros satisfy the contract on buffers of at least \<open>size\<close> bytes.\<close>

lemma put_bits_other_dword:
  assumes "p + 4 \<le> length buf" "p + 4 \<le> q \<or> q + 4 \<le> p"
  shows "LE_P4BYTE_TO_HOST_4BYTE (put_bits (p, bo, len) v buf) q = LE_P4BYTE_TO_HOST_4BYTE buf q"
  using read_write_other [OF assms] by (simp add: put_bits_def)

lemma field_codec_bits:
  "field_codec LE_BITS_TO_4BYTE put_bits (\<lambda>buf. length buf = sz) (field_ok sz) fdisj field_fit"
proof unfold_locales
  fix f v and b :: bytes
  assume "field_ok sz f" "length b = sz"
  then show "length (put_bits f v b) = sz"
    by (auto simp: field_ok_def split: prod.splits)
next
  fix f v and b :: bytes
  assume f: "field_ok sz f" "length b = sz"
  obtain p bo len where e: "f = (p, bo, len)" by (cases f)
  show "LE_BITS_TO_4BYTE (put_bits f v b) f = field_fit f v"
    using f by (intro bit_word_eqI)
      (auto simp: e field_ok_def bit_get bit_put_word field_fit_def bit_simps)
next
  fix f g v and b :: bytes
  assume f: "field_ok sz f" "field_ok sz g" "length b = sz" "fdisj f g"
  obtain p bo len q bo' len' where e: "f = (p, bo, len)" "g = (q, bo', len')" by (cases f, cases g)
  show "LE_BITS_TO_4BYTE (put_bits f v b) g = LE_BITS_TO_4BYTE b g"
  proof (cases "p = q")
    case True
    then show ?thesis using f by (intro bit_word_eqI)
      (auto simp: e field_ok_def fdisj_def bit_get bit_put_word)
  next
    case False
    then show ?thesis using f put_bits_other_dword [of p b q bo len v]
      by (simp add: e field_ok_def fdisj_def LE_BITS_TO_4BYTE_def)
  qed
qed

interpretation tx: field_codec LE_BITS_TO_4BYTE put_bits "\<lambda>buf. length buf = TXDESC_SIZE"
  "field_ok TXDESC_SIZE" fdisj field_fit
  by (rule field_codec_bits)

lemma run_sets_fold:
  "list_all (\<lambda>(f, v). field_ok TXDESC_SIZE f) fs \<Longrightarrow> length buf = TXDESC_SIZE \<Longrightarrow>
   run_sets fs buf = Some (fold (\<lambda>(f, v). put_bits f v) fs buf)"
  by (induction fs buf rule: run_sets.induct)
     (auto simp: SET_BITS_TO_LE_4BYTE_def field_ok_def tx.inv_put split: prod.splits)

section \<open>The checksum\<close>

definition halfword :: "bytes \<Rightarrow> nat \<Rightarrow> u16" where
  "halfword buf i = le_word (slice (2 * i) 2 buf)"

abbreviation (input) TX_CHECKSUM :: field where "TX_CHECKSUM \<equiv> (28, 0, 16)"

definition xor_halfwords :: "bytes \<Rightarrow> u16" where
  "xor_halfwords buf = fold (\<lambda>i c. c XOR halfword buf i) [0..<16] 0"

text \<open>Clear the field, combine the first 16 halfwords, store the result.\<close>

definition rtl8812a_cal_txdesc_chksum :: "bytes \<Rightarrow> bytes option" where
  "rtl8812a_cal_txdesc_chksum buf =
    Option.bind (SET_BITS_TO_LE_4BYTE TX_CHECKSUM 0 buf)
      (\<lambda>b. SET_BITS_TO_LE_4BYTE TX_CHECKSUM (ucast (xor_halfwords b)) b)"

lemma rd_le_word4:
  "p + 4 \<le> length buf \<Longrightarrow>
   LE_P4BYTE_TO_HOST_4BYTE buf p = le_word [buf ! p, buf ! (p + 1), buf ! (p + 2), buf ! (p + 3)]"
proof -
  assume p: "p + 4 \<le> length buf"
  have "slice p 4 buf = [buf ! p, buf ! (p + 1), buf ! (p + 2), buf ! (p + 3)]"
    using p by (intro nth_equalityI) (auto simp: nth_slice less_Suc_eq numeral_eq_Suc)
  then show ?thesis by (simp add: LE_P4BYTE_TO_HOST_4BYTE_def)
qed

lemma halfword_low:
  assumes "p + 4 \<le> length buf" "p = 2 * i"
  shows "halfword buf i = ucast (LE_P4BYTE_TO_HOST_4BYTE buf p)"
    and "halfword buf (Suc i) = ucast (drop_bit 16 (LE_P4BYTE_TO_HOST_4BYTE buf p))"
proof -
  have n: "\<And>k. k < 2 \<Longrightarrow> slice p 2 buf ! k = slice p 4 buf ! k"
    "\<And>k. k < 2 \<Longrightarrow> slice (Suc (Suc p)) 2 buf ! k = slice p 4 buf ! Suc (Suc k)"
    using assms(1) by (auto simp: nth_slice)
  have l: "length (slice p 2 buf) = 2" "length (slice (p + 2) 2 buf) = 2" "length (slice p 4 buf) = 4"
    using assms(1) by simp_all
  show "halfword buf i = ucast (LE_P4BYTE_TO_HOST_4BYTE buf p)"
    by (rule bit_word_eqI)
       (auto simp: halfword_def LE_P4BYTE_TO_HOST_4BYTE_def bit_simps bit_le_word l n
         simp flip: assms(2))
  show "halfword buf (Suc i) = ucast (drop_bit 16 (LE_P4BYTE_TO_HOST_4BYTE buf p))"
  proof -
    have e: "2 * Suc i = p + 2" using assms(2) by simp
    have m: "(16 + k) mod 8 = k mod 8" "(16 + k) div 8 = 2 + k div 8" for k :: nat by presburger+
    show ?thesis unfolding halfword_def LE_P4BYTE_TO_HOST_4BYTE_def e
      by (rule bit_word_eqI) (use assms(1) in \<open>auto simp: bit_simps bit_le_word l n m\<close>)
  qed
qed

lemma halfword_even_odd:
  assumes "length buf = TXDESC_SIZE" "j < 8"
  shows "halfword buf (2 * j) = ucast (LE_P4BYTE_TO_HOST_4BYTE buf (4 * j))"
    and "halfword buf (Suc (2 * j)) = ucast (drop_bit 16 (LE_P4BYTE_TO_HOST_4BYTE buf (4 * j)))"
proof -
  have "4 * j + 4 \<le> length buf" using assms by simp
  note low = halfword_low [OF this, of "2 * j"]
  show "halfword buf (2 * j) = ucast (LE_P4BYTE_TO_HOST_4BYTE buf (4 * j))" by (rule low(1)) simp
  show "halfword buf (Suc (2 * j)) = ucast (drop_bit 16 (LE_P4BYTE_TO_HOST_4BYTE buf (4 * j)))"
    by (rule low(2)) simp
qed

lemma halfword_put_checksum:
  assumes "length buf = TXDESC_SIZE" "i < 16"
  shows "halfword (put_bits TX_CHECKSUM (ucast v) buf) i = (if i = 14 then v else halfword buf i)"
proof -
  obtain j where j: "j < 8" "i = 2 * j \<or> i = Suc (2 * j)"
  proof
    show "i div 2 < 8" using assms(2) by simp
    show "i = 2 * (i div 2) \<or> i = Suc (2 * (i div 2))" by presburger
  qed
  let ?b = "put_bits TX_CHECKSUM (ucast v) buf"
  have lb: "length ?b = TXDESC_SIZE" using assms by simp
  show ?thesis
  proof (cases "j = 7")
    case False
    then have "4 * j \<noteq> 28" "4 * j + 4 \<le> 28" using j by auto
    then have "LE_P4BYTE_TO_HOST_4BYTE ?b (4 * j) = LE_P4BYTE_TO_HOST_4BYTE buf (4 * j)"
      using assms by (intro put_bits_other_dword) auto
    then show ?thesis
      using j False halfword_even_odd [OF assms(1) j(1)] halfword_even_odd [OF lb j(1)] by auto
  next
    case True
    have lo: "(ucast (LE_P4BYTE_TO_HOST_4BYTE ?b 28) :: u16) = v"
      using assms by (intro bit_word_eqI) (auto simp: bit_simps bit_put_word)
    have hi: "(ucast (drop_bit 16 (LE_P4BYTE_TO_HOST_4BYTE ?b 28)) :: u16) =
        ucast (drop_bit 16 (LE_P4BYTE_TO_HOST_4BYTE buf 28))"
      using assms by (intro bit_word_eqI) (auto simp: bit_simps bit_put_word)
    show ?thesis
      using j True lo hi halfword_even_odd [OF assms(1) j(1)] halfword_even_odd [OF lb j(1)] by auto
  qed
qed


lemma xor_fold:
  "fold (\<lambda>i c. c XOR f i) xs a = a XOR fold (\<lambda>i c. c XOR f i) xs (0 :: u16)"
proof (induction xs arbitrary: a)
  case Nil
  then show ?case by simp
next
  case (Cons x xs)
  show ?case using Cons [of "a XOR f x"] Cons [of "f x"] by (simp add: xor.assoc)
qed

text \<open>Storing \<open>v\<close> changes the combination by \<open>v\<close> and the old checksum.\<close>

lemma xor_halfwords_put:
  assumes "length buf = TXDESC_SIZE"
  shows "xor_halfwords (put_bits TX_CHECKSUM (ucast v) buf) =
    xor_halfwords buf XOR halfword buf 14 XOR v"
proof -
  let ?b = "put_bits TX_CHECKSUM (ucast v) buf"
  have hw: "halfword ?b i = (if i = 14 then v else halfword buf i)" if "i < 16" for i
    using halfword_put_checksum [OF assms that] .
  have split: "[0..<16] = [0..<14] @ [14, 15]"
  proof -
    have "[0..<16] = [0..<14] @ [14..<16]" using upt_add_eq_append [of 0 14 2] by simp
    moreover have "[14..<16] = [14, 15 :: nat]" by (simp add: upt_rec)
    ultimately show ?thesis by simp
  qed
  have same: "fold (\<lambda>i c. c XOR halfword ?b i) [0..<14] 0 =
      fold (\<lambda>i c. c XOR halfword buf i) [0..<14] (0 :: u16)"
    by (rule fold_cong) (simp_all add: hw)
  show ?thesis
    unfolding xor_halfwords_def split fold_append o_def same
    by (simp add: hw) (simp add: xor.assoc xor.commute xor.left_commute)
qed

lemma chksum_run:
  assumes "length buf = TXDESC_SIZE"
  shows "rtl8812a_cal_txdesc_chksum buf =
    Some (put_bits TX_CHECKSUM (ucast (xor_halfwords (put_bits TX_CHECKSUM 0 buf)))
           (put_bits TX_CHECKSUM 0 buf))"
  using assms by (simp add: rtl8812a_cal_txdesc_chksum_def SET_BITS_TO_LE_4BYTE_def)

lemma chksum_zero:
  assumes "length buf = TXDESC_SIZE"
  shows "\<exists>buf'. rtl8812a_cal_txdesc_chksum buf = Some buf' \<and> length buf' = TXDESC_SIZE \<and>
    xor_halfwords buf' = 0 \<and>
    (\<forall>f. field_ok TXDESC_SIZE f \<and> fdisj TX_CHECKSUM f \<longrightarrow> LE_BITS_TO_4BYTE buf' f = LE_BITS_TO_4BYTE buf f)"
proof -
  let ?b = "put_bits TX_CHECKSUM 0 buf"
  let ?v = "xor_halfwords ?b"
  have lb: "length ?b = TXDESC_SIZE" using assms by simp
  have "halfword ?b 14 = 0" using halfword_put_checksum [OF assms, of 14 0] by simp
  then have "xor_halfwords (put_bits TX_CHECKSUM (ucast ?v) ?b) = 0"
    using xor_halfwords_put [OF lb, of ?v] by simp
  moreover have "LE_BITS_TO_4BYTE (put_bits TX_CHECKSUM (ucast ?v) ?b) f = LE_BITS_TO_4BYTE buf f"
    if "field_ok TXDESC_SIZE f" "fdisj TX_CHECKSUM f" for f
    using tx.get_put_other [OF _ that(1) lb that(2)] tx.get_put_other [OF _ that(1) assms that(2)]
    by (simp add: field_ok_def)
  ultimately show ?thesis using assms by (auto simp: chksum_run)
qed

text \<open>
  On every 40-byte descriptor the checksum routine succeeds, makes the exclusive or of the
  first sixteen halfwords zero, which is what the chip verifies, and leaves every other field of
  the descriptor as it was.
\<close>

theorem txdesc_chksum_zero:
  assumes "length buf = TXDESC_SIZE"
  shows "\<exists>buf'. rtl8812a_cal_txdesc_chksum buf = Some buf' \<and> length buf' = TXDESC_SIZE \<and>
    xor_halfwords buf' = 0 \<and>
    (\<forall>f. field_ok TXDESC_SIZE f \<and> fdisj TX_CHECKSUM f \<longrightarrow> LE_BITS_TO_4BYTE buf' f = LE_BITS_TO_4BYTE buf f)"
  by (rule chksum_zero [OF assms])

theorem txdesc_chksum_zero_witness:
  "\<exists>buf'. rtl8812a_cal_txdesc_chksum (replicate 40 0xA5) = Some buf' \<and> xor_halfwords buf' = 0"
  using txdesc_chksum_zero [of "replicate 40 0xA5"] by (simp only: length_replicate simp_thms) blast

text \<open>
  The layout of the descriptor macros is sound: every field lies inside the 40 bytes and
  inside its dword, and no two fields share a bit, except the buffer size, whose bits the USB
  descriptor reuses for the checksum.
\<close>

theorem tx_fields_sound:
  "list_all (field_ok TXDESC_SIZE) tx_fields \<and>
   list_all (\<lambda>f. list_all (\<lambda>g. f = g \<or> fdisj f g) tx_fields) tx_fields \<and>
   TX_BUFFER_SIZE_8812 = TX_DESC_CHECKSUM_8812"
  by (simp add: tx_fields_def field_ok_def fdisj_def)

section \<open>The station descriptor\<close>

datatype StationFrameKind = Mgmt | EapolData | CcmpData | BroadcastMgmt | Beacon

definition is_bmc :: "StationFrameKind \<Rightarrow> bool" where
  "is_bmc kind \<longleftrightarrow> kind = BroadcastMgmt \<or> kind = Beacon"

definition queue_sel :: "StationFrameKind \<Rightarrow> u32" where
  "queue_sel kind =
    (if kind = Beacon then 0x10 else if kind = Mgmt \<or> kind = BroadcastMgmt then 0x12 else 0x00)"

text \<open>
  The assignments of \<open>FillStationTxDesc\<close> in their order. \<open>fw_ra\<close> is what \<open>fwRaEnabled()\<close>
  finds in the process environment.
\<close>

definition station_sets ::
    "bool \<Rightarrow> u16 \<Rightarrow> u8 \<Rightarrow> u8 \<Rightarrow> StationFrameKind \<Rightarrow> u8 \<Rightarrow> u8 \<Rightarrow> (field \<times> u32) list" where
  "station_sets fw_ra payloadLen descOffset macId kind rateId txRate =
    (let bmc = is_bmc kind; fwRa = (kind = CcmpData \<and> fw_ra) in
     [(PKT_SIZE_8812, ucast payloadLen),
      (OFFSET_8812, ucast descOffset),
      (FIRST_SEG_8812, 1),
      (LAST_SEG_8812, 1),
      (OWN_8812, 1),
      (BMC_8812, if bmc then 1 else 0),
      (MACID_8812, ucast macId),
      (QUEUE_SEL_8812, queue_sel kind),
      (SEC_TYPE_8812, 0),
      (HWSEQ_EN_8812, 1),
      (RATE_ID_8812, ucast rateId),
      (USE_RATE_8812, if fwRa then 0 else 1)] @
     (if \<not> fwRa then [(TX_RATE_8812, ucast txRate)] else []) @
     [(RETRY_LIMIT_ENABLE_8812, if bmc then 0 else 1),
      (DATA_RETRY_LIMIT_8812, if bmc then 0 else 12)])"

definition FillStationTxDesc ::
    "bool \<Rightarrow> bytes \<Rightarrow> u16 \<Rightarrow> u8 \<Rightarrow> u8 \<Rightarrow> StationFrameKind \<Rightarrow> u8 \<Rightarrow> u8 \<Rightarrow> bytes option" where
  "FillStationTxDesc fw_ra txdesc payloadLen descOffset macId kind rateId txRate =
    Option.bind (run_sets (station_sets fw_ra payloadLen descOffset macId kind rateId txRate) txdesc)
      rtl8812a_cal_txdesc_chksum"

lemma chksum_get:
  assumes "length buf = TXDESC_SIZE" and "rtl8812a_cal_txdesc_chksum buf = Some buf'"
    and "field_ok TXDESC_SIZE f" and "fdisj TX_CHECKSUM f"
  shows "LE_BITS_TO_4BYTE buf' f = LE_BITS_TO_4BYTE buf f"
proof -
  let ?b = "put_bits TX_CHECKSUM 0 buf"
  have lb: "length ?b = TXDESC_SIZE" using assms(1) by simp
  have ok: "field_ok TXDESC_SIZE TX_CHECKSUM" by (simp add: field_ok_def)
  have "buf' = put_bits TX_CHECKSUM (ucast (xor_halfwords ?b)) ?b"
    using assms(2) chksum_run [OF assms(1)] by simp
  then show ?thesis
    using tx.get_put_other [OF ok assms(3) lb assms(4)] tx.get_put_other [OF ok assms(3,1,4)] by simp
qed

lemmas field_simps = field_ok_def fdisj_def field_fit_def

text \<open>The descriptor as the kind of the frame asks for.\<close>

lemma station_descriptor:
  assumes "length buf = TXDESC_SIZE"
  shows "\<exists>d. FillStationTxDesc fw_ra buf payloadLen descOffset macId kind rateId txRate = Some d \<and>
    length d = TXDESC_SIZE \<and> xor_halfwords d = 0 \<and>
    LE_BITS_TO_4BYTE d PKT_SIZE_8812 = ucast payloadLen \<and>
    LE_BITS_TO_4BYTE d OFFSET_8812 = ucast descOffset \<and>
    LE_BITS_TO_4BYTE d OWN_8812 = 1 \<and>
    LE_BITS_TO_4BYTE d FIRST_SEG_8812 = 1 \<and> LE_BITS_TO_4BYTE d LAST_SEG_8812 = 1 \<and>
    LE_BITS_TO_4BYTE d MACID_8812 = take_bit 7 (ucast macId) \<and>
    LE_BITS_TO_4BYTE d BMC_8812 = of_bool (is_bmc kind) \<and>
    LE_BITS_TO_4BYTE d QUEUE_SEL_8812 = queue_sel kind \<and>
    LE_BITS_TO_4BYTE d USE_RATE_8812 = of_bool (\<not> (kind = CcmpData \<and> fw_ra)) \<and>
    LE_BITS_TO_4BYTE d RETRY_LIMIT_ENABLE_8812 = of_bool (\<not> is_bmc kind) \<and>
    LE_BITS_TO_4BYTE d RATE_ID_8812 = take_bit 5 (ucast rateId) \<and>
    (\<not> (kind = CcmpData \<and> fw_ra) \<longrightarrow> LE_BITS_TO_4BYTE d TX_RATE_8812 = take_bit 7 (ucast txRate)) \<and>
    LE_BITS_TO_4BYTE d DATA_RETRY_LIMIT_8812 = (if is_bmc kind then 0 else 12)"
proof -
  let ?fs = "station_sets fw_ra payloadLen descOffset macId kind rateId txRate"
  let ?b = "fold (\<lambda>(f, v). put_bits f v) ?fs buf"
  have ok: "list_all (\<lambda>(f, v). field_ok TXDESC_SIZE f) ?fs"
    by (simp add: station_sets_def field_ok_def Let_def)
  have run: "run_sets ?fs buf = Some ?b" by (rule run_sets_fold [OF ok assms])
  have lb: "length ?b = TXDESC_SIZE" by (rule tx.inv_puts [OF ok assms])
  obtain d where d: "rtl8812a_cal_txdesc_chksum ?b = Some d" "length d = TXDESC_SIZE" "xor_halfwords d = 0"
    using chksum_zero [OF lb] by blast
  have get: "LE_BITS_TO_4BYTE d f = LE_BITS_TO_4BYTE ?b f"
    if "field_ok TXDESC_SIZE f" "fdisj TX_CHECKSUM f" for f
    by (rule chksum_get [OF lb d(1) that])
  have pl: "take_bit 16 (ucast payloadLen :: u32) = ucast payloadLen"
    by (rule bit_word_eqI) (auto simp: bit_simps dest: bit_imp_le_length)
  have po: "take_bit 8 (ucast descOffset :: u32) = ucast descOffset"
    by (rule bit_word_eqI) (auto simp: bit_simps dest: bit_imp_le_length)
  have fields:
    "LE_BITS_TO_4BYTE d PKT_SIZE_8812 = ucast payloadLen"
    "LE_BITS_TO_4BYTE d OFFSET_8812 = ucast descOffset"
    "LE_BITS_TO_4BYTE d OWN_8812 = 1"
    "LE_BITS_TO_4BYTE d FIRST_SEG_8812 = 1" "LE_BITS_TO_4BYTE d LAST_SEG_8812 = 1"
    "LE_BITS_TO_4BYTE d MACID_8812 = take_bit 7 (ucast macId)"
    "LE_BITS_TO_4BYTE d BMC_8812 = of_bool (is_bmc kind)"
    "LE_BITS_TO_4BYTE d QUEUE_SEL_8812 = queue_sel kind"
    "LE_BITS_TO_4BYTE d USE_RATE_8812 = of_bool (\<not> (kind = CcmpData \<and> fw_ra))"
    "LE_BITS_TO_4BYTE d RETRY_LIMIT_ENABLE_8812 = of_bool (\<not> is_bmc kind)"
    "LE_BITS_TO_4BYTE d DATA_RETRY_LIMIT_8812 = (if is_bmc kind then 0 else 12)"
    by (subst get, simp add: field_simps, simp add: field_simps, subst tx.get_puts; simp add: assms station_sets_def Let_def field_simps pl po queue_sel_def)+
  have "LE_BITS_TO_4BYTE d RATE_ID_8812 = take_bit 5 (ucast rateId)"
    by (subst get, simp add: field_simps, simp add: field_simps, subst tx.get_puts; simp add: assms station_sets_def Let_def field_simps)
  moreover have "\<not> (kind = CcmpData \<and> fw_ra) \<Longrightarrow> LE_BITS_TO_4BYTE d TX_RATE_8812 = take_bit 7 (ucast txRate)"
    by (subst get, simp add: field_simps, simp add: field_simps, subst tx.get_puts; simp add: assms station_sets_def Let_def field_simps)
  ultimately show ?thesis
    using run d fields by (simp add: FillStationTxDesc_def)
qed

text \<open>
  On every 40-byte buffer, whatever it held, \<open>FillStationTxDesc\<close> succeeds and the descriptor
  it leaves verifies its checksum and says what the frame kind asks for: broadcast frames are
  marked so that the chip neither waits for an acknowledgement nor retries, unicast frames get
  twelve retries, beacons go to the beacon queue, management to the management queue, and only
  encrypted data with firmware rate adaptation leaves the fixed rate off.
\<close>

theorem FillStationTxDesc_fields:
  assumes "length buf = TXDESC_SIZE"
  shows "\<exists>d. FillStationTxDesc fw_ra buf payloadLen descOffset macId kind rateId txRate = Some d \<and>
    length d = TXDESC_SIZE \<and> xor_halfwords d = 0 \<and>
    LE_BITS_TO_4BYTE d PKT_SIZE_8812 = ucast payloadLen \<and>
    LE_BITS_TO_4BYTE d OFFSET_8812 = ucast descOffset \<and>
    LE_BITS_TO_4BYTE d OWN_8812 = 1 \<and>
    LE_BITS_TO_4BYTE d FIRST_SEG_8812 = 1 \<and> LE_BITS_TO_4BYTE d LAST_SEG_8812 = 1 \<and>
    LE_BITS_TO_4BYTE d MACID_8812 = take_bit 7 (ucast macId) \<and>
    LE_BITS_TO_4BYTE d BMC_8812 = of_bool (is_bmc kind) \<and>
    LE_BITS_TO_4BYTE d QUEUE_SEL_8812 = queue_sel kind \<and>
    LE_BITS_TO_4BYTE d USE_RATE_8812 = of_bool (\<not> (kind = CcmpData \<and> fw_ra)) \<and>
    LE_BITS_TO_4BYTE d RETRY_LIMIT_ENABLE_8812 = of_bool (\<not> is_bmc kind) \<and>
    LE_BITS_TO_4BYTE d DATA_RETRY_LIMIT_8812 = (if is_bmc kind then 0 else 12)"
  using station_descriptor [OF assms, of fw_ra payloadLen descOffset macId kind rateId txRate] by blast

theorem FillStationTxDesc_fields_witness:
  "\<exists>d. FillStationTxDesc True (replicate 40 0) 64 40 1 Beacon 8 4 = Some d \<and>
    xor_halfwords d = 0 \<and> LE_BITS_TO_4BYTE d BMC_8812 = 1 \<and> LE_BITS_TO_4BYTE d QUEUE_SEL_8812 = 0x10"
proof -
  have "length (replicate 40 (0 :: u8)) = 40" by simp
  from FillStationTxDesc_fields [OF this, of True 64 40 1 Beacon 8 4]
  show ?thesis by (auto simp: is_bmc_def queue_sel_def)
qed

end
