(* ===== verification/RxFrame.thy ===== *)
theory RxFrame
  imports TxDesc
begin

text \<open>
  The receive path of src/FrameParser.cpp: a bulk-IN transfer holds an aggregate of packets, each
  a 24-byte status descriptor, the driver info, shift bytes and the frame, aligned to 8 bytes.
  \<open>recvbuf2recvframe\<close> walks it. Its spans are pairs of an offset into the transfer and a
  length; the calls it makes into the watchdog are events. A read outside the transfer is the
  result \<open>None\<close>. The diagnostic counters that are only logged are not modelled.
\<close>

section \<open>The status descriptor\<close>

abbreviation (input) RXDESC_SIZE :: nat where "RXDESC_SIZE \<equiv> 24"

abbreviation (input) RX_PKT_LEN :: field where "RX_PKT_LEN \<equiv> (0, 0, 14)"
abbreviation (input) RX_CRC32 :: field where "RX_CRC32 \<equiv> (0, 14, 1)"
abbreviation (input) RX_ICV :: field where "RX_ICV \<equiv> (0, 15, 1)"
abbreviation (input) RX_DRVINFO_SIZE :: field where "RX_DRVINFO_SIZE \<equiv> (0, 16, 4)"
abbreviation (input) RX_SECURITY :: field where "RX_SECURITY \<equiv> (0, 20, 3)"
abbreviation (input) RX_QOS :: field where "RX_QOS \<equiv> (0, 23, 1)"
abbreviation (input) RX_SHIFT :: field where "RX_SHIFT \<equiv> (0, 24, 2)"
abbreviation (input) RX_PHY_STATUS :: field where "RX_PHY_STATUS \<equiv> (0, 26, 1)"
abbreviation (input) RX_SWDEC :: field where "RX_SWDEC \<equiv> (0, 27, 1)"
abbreviation (input) RX_LAST_SEG :: field where "RX_LAST_SEG \<equiv> (0, 28, 1)"
abbreviation (input) RX_FIRST_SEG :: field where "RX_FIRST_SEG \<equiv> (0, 29, 1)"
abbreviation (input) RX_EOR :: field where "RX_EOR \<equiv> (0, 30, 1)"
abbreviation (input) RX_OWN :: field where "RX_OWN \<equiv> (0, 31, 1)"
abbreviation (input) RX_MACID :: field where "RX_MACID \<equiv> (4, 0, 7)"
abbreviation (input) RX_TID :: field where "RX_TID \<equiv> (4, 8, 4)"
abbreviation (input) RX_AMSDU :: field where "RX_AMSDU \<equiv> (4, 13, 1)"
abbreviation (input) RX_RXID_MATCH :: field where "RX_RXID_MATCH \<equiv> (4, 14, 1)"
abbreviation (input) RX_PAGGR :: field where "RX_PAGGR \<equiv> (4, 15, 1)"
abbreviation (input) RX_A1_FIT :: field where "RX_A1_FIT \<equiv> (4, 16, 4)"
abbreviation (input) RX_CHKERR :: field where "RX_CHKERR \<equiv> (4, 20, 1)"
abbreviation (input) RX_IPVER :: field where "RX_IPVER \<equiv> (4, 21, 1)"
abbreviation (input) RX_IS_TCPUDP :: field where "RX_IS_TCPUDP \<equiv> (4, 22, 1)"
abbreviation (input) RX_CHK_VLD :: field where "RX_CHK_VLD \<equiv> (4, 23, 1)"
abbreviation (input) RX_PAM :: field where "RX_PAM \<equiv> (4, 24, 1)"
abbreviation (input) RX_PWR :: field where "RX_PWR \<equiv> (4, 25, 1)"
abbreviation (input) RX_MORE_DATA :: field where "RX_MORE_DATA \<equiv> (4, 26, 1)"
abbreviation (input) RX_MORE_FRAG :: field where "RX_MORE_FRAG \<equiv> (4, 27, 1)"
abbreviation (input) RX_TYPE :: field where "RX_TYPE \<equiv> (4, 28, 2)"
abbreviation (input) RX_MC :: field where "RX_MC \<equiv> (4, 30, 1)"
abbreviation (input) RX_BC :: field where "RX_BC \<equiv> (4, 31, 1)"
abbreviation (input) RX_SEQ :: field where "RX_SEQ \<equiv> (8, 0, 12)"
abbreviation (input) RX_FRAG :: field where "RX_FRAG \<equiv> (8, 12, 4)"
abbreviation (input) RX_RX_IS_QOS :: field where "RX_RX_IS_QOS \<equiv> (8, 16, 1)"
abbreviation (input) RX_WLANHD_IV_LEN :: field where "RX_WLANHD_IV_LEN \<equiv> (8, 18, 6)"
abbreviation (input) RX_RPT_SEL :: field where "RX_RPT_SEL \<equiv> (8, 28, 1)"
abbreviation (input) RX_RX_RATE :: field where "RX_RX_RATE \<equiv> (12, 0, 7)"
abbreviation (input) RX_HTC :: field where "RX_HTC \<equiv> (12, 10, 1)"
abbreviation (input) RX_EOSP :: field where "RX_EOSP \<equiv> (12, 11, 1)"
abbreviation (input) RX_BSSID_FIT :: field where "RX_BSSID_FIT \<equiv> (12, 12, 2)"
abbreviation (input) RX_USB_AGG_PKTNUM :: field where "RX_USB_AGG_PKTNUM \<equiv> (12, 16, 8)"
abbreviation (input) RX_PATTERN_MATCH :: field where "RX_PATTERN_MATCH \<equiv> (12, 29, 1)"
abbreviation (input) RX_UNICAST_MATCH :: field where "RX_UNICAST_MATCH \<equiv> (12, 30, 1)"
abbreviation (input) RX_MAGIC_MATCH :: field where "RX_MAGIC_MATCH \<equiv> (12, 31, 1)"
abbreviation (input) RX_SPLCP :: field where "RX_SPLCP \<equiv> (16, 0, 1)"
abbreviation (input) RX_LDPC :: field where "RX_LDPC \<equiv> (16, 1, 1)"
abbreviation (input) RX_STBC :: field where "RX_STBC \<equiv> (16, 2, 1)"
abbreviation (input) RX_BW :: field where "RX_BW \<equiv> (16, 4, 2)"
abbreviation (input) RX_TSFL :: field where "RX_TSFL \<equiv> (20, 0, 32)"
abbreviation (input) RX_BUFF_ADDR :: field where "RX_BUFF_ADDR \<equiv> (24, 0, 32)"
abbreviation (input) RX_BUFF_ADDR64 :: field where "RX_BUFF_ADDR64 \<equiv> (28, 0, 32)"

datatype RX_PACKET_TYPE = NORMAL_RX | TX_REPORT1 | TX_REPORT2 | HIS_REPORT | C2H_PACKET

record rx_pkt_attrib =
  ra_pkt_len :: u16
  ra_physt :: bool
  ra_drvinfo_sz :: u8
  ra_shift_sz :: u8
  ra_qos :: bool
  ra_priority :: u8
  ra_mdata :: bool
  ra_seq_num :: u16
  ra_frag_num :: u8
  ra_mfrag :: bool
  ra_bdecrypted :: bool
  ra_encrypt :: u8
  ra_crc_err :: bool
  ra_icv_err :: bool
  ra_data_rate :: u8
  ra_bw :: u8
  ra_stbc :: u8
  ra_ldpc :: u8
  ra_sgi :: u8
  ra_rssi :: "u8 list"
  ra_snr :: "u8 list"
  ra_pkt_rpt_type :: RX_PACKET_TYPE

text \<open>The descriptor \<open>d\<close> is the buffer from the descriptor's first byte on.\<close>

definition rtl8812_query_rx_desc_status :: "bytes \<Rightarrow> rx_pkt_attrib" where
  "rtl8812_query_rx_desc_status d =
    \<lparr>ra_pkt_len = ucast (LE_BITS_TO_4BYTE d RX_PKT_LEN),
     ra_physt = (LE_BITS_TO_4BYTE d RX_PHY_STATUS \<noteq> 0),
     ra_drvinfo_sz = ucast (LE_BITS_TO_4BYTE d RX_DRVINFO_SIZE * 8),
     ra_shift_sz = ucast (LE_BITS_TO_4BYTE d RX_SHIFT),
     ra_qos = (LE_BITS_TO_4BYTE d RX_QOS \<noteq> 0),
     ra_priority = ucast (LE_BITS_TO_4BYTE d RX_TID),
     ra_mdata = (LE_BITS_TO_4BYTE d RX_MORE_DATA \<noteq> 0),
     ra_seq_num = ucast (LE_BITS_TO_4BYTE d RX_SEQ),
     ra_frag_num = ucast (LE_BITS_TO_4BYTE d RX_FRAG),
     ra_mfrag = (LE_BITS_TO_4BYTE d RX_MORE_FRAG \<noteq> 0),
     ra_bdecrypted = (LE_BITS_TO_4BYTE d RX_SWDEC = 0),
     ra_encrypt = ucast (LE_BITS_TO_4BYTE d RX_SECURITY),
     ra_crc_err = (LE_BITS_TO_4BYTE d RX_CRC32 \<noteq> 0),
     ra_icv_err = (LE_BITS_TO_4BYTE d RX_ICV \<noteq> 0),
     ra_data_rate = ucast (LE_BITS_TO_4BYTE d RX_RX_RATE),
     ra_bw = ucast (LE_BITS_TO_4BYTE d RX_BW),
     ra_stbc = ucast (LE_BITS_TO_4BYTE d RX_STBC),
     ra_ldpc = ucast (LE_BITS_TO_4BYTE d RX_LDPC),
     ra_sgi = ucast (LE_BITS_TO_4BYTE d RX_SPLCP),
     ra_rssi = [0, 0, 0, 0],
     ra_snr = [0, 0, 0, 0],
     ra_pkt_rpt_type = (if LE_BITS_TO_4BYTE d RX_RPT_SEL \<noteq> 0 then C2H_PACKET else NORMAL_RX)\<rparr>"

definition RND8 :: "u32 \<Rightarrow> u32" where
  "RND8 sz = push_bit 3 (drop_bit 3 sz + (if sz AND 7 \<noteq> 0 then 1 else 0))"

section \<open>Walking the aggregate\<close>

text \<open>
  The 28 bytes of \<open>_phy_status_rpt_8812\<close> the code copies, by the byte offsets of the fields it
  reads: gain_trsw 0, cfotail 9, rxsnr 15, csi_current 21, gain_trsw_cd 23.
\<close>

abbreviation (input) PHY_STATUS_SIZE :: nat where "PHY_STATUS_SIZE \<equiv> 28"

datatype rx_event = AddCfo u8 u8 | OnUplinkRate u8

type_synonym span = "nat \<times> nat"

record Packet =
  RxAtrib :: rx_pkt_attrib
  Data :: span

definition span_bytes :: "bytes \<Rightarrow> span \<Rightarrow> bytes" where
  "span_bytes buf s = slice (fst s) (snd s) buf"

definition add_phy_status :: "bytes \<Rightarrow> rx_pkt_attrib \<Rightarrow> rx_pkt_attrib" where
  "add_phy_status ps a =
    a\<lparr>ra_rssi := [ps ! 0, ps ! 1, ps ! 23, ps ! 24], ra_snr := [ps ! 15, ps ! 16, ps ! 21, ps ! 22]\<rparr>"

definition frame_off :: "rx_pkt_attrib \<Rightarrow> nat" where
  "frame_off a = unat (ra_shift_sz a) + unat (ra_drvinfo_sz a) + RXDESC_SIZE"

definition pkt_offset :: "rx_pkt_attrib \<Rightarrow> nat" where
  "pkt_offset a = RXDESC_SIZE + unat (ra_drvinfo_sz a) + unat (ra_shift_sz a) + unat (ra_pkt_len a)"

text \<open>The body of the loop after its checks: the packet of one descriptor and its events.\<close>

definition rx_item :: "bytes \<Rightarrow> nat \<Rightarrow> rx_pkt_attrib \<Rightarrow> (Packet list \<times> rx_event list) option" where
  "rx_item buf pos a =
    (if ra_crc_err a \<or> ra_icv_err a then Some ([], [])
     else if ra_pkt_rpt_type a = NORMAL_RX then
       (case rd_slice buf (pos + RXDESC_SIZE) PHY_STATUS_SIZE of
          None \<Rightarrow> None
        | Some ps \<Rightarrow>
            Some ([\<lparr>RxAtrib = add_phy_status ps a, Data = (pos + frame_off a, unat (ra_pkt_len a))\<rparr>],
                  if ra_physt a \<and> ra_data_rate a \<ge> 4 then [AddCfo (ps ! 9) (ps ! 10)] else []))
     else if ra_pkt_rpt_type a = C2H_PACKET then
       (if frame_off a + 4 \<le> length buf - pos then
          (if buf ! (pos + frame_off a) = 0x0C
           then Some ([], [OnUplinkRate (buf ! (pos + frame_off a + 2) AND 0x7F)])
           else Some ([], []))
        else Some ([], []))
     else Some ([], []))"

definition next_offset :: "rx_pkt_attrib \<Rightarrow> nat" where
  "next_offset a = unat (ucast (RND8 (of_nat (pkt_offset a))) :: u16)"

lemma ucast_u16_bound: "unat (LE_BITS_TO_4BYTE d (p, bo, len)) < 2 ^ len" if "len \<le> 31"
proof -
  have "LE_BITS_TO_4BYTE d (p, bo, len) = take_bit len (LE_BITS_TO_4BYTE d (p, bo, len))"
    using that by (intro bit_word_eqI) (auto simp: bit_simps bit_get)
  then have "unat (LE_BITS_TO_4BYTE d (p, bo, len)) = take_bit len (unat (LE_BITS_TO_4BYTE d (p, bo, len)))"
    by (metis unsigned_take_bit_eq)
  then show ?thesis by (metis take_bit_nat_less_exp)
qed

lemma query_bounds:
  "unat (ra_pkt_len (rtl8812_query_rx_desc_status d)) < 2 ^ 14"
  "unat (ra_drvinfo_sz (rtl8812_query_rx_desc_status d)) \<le> 120"
  "unat (ra_shift_sz (rtl8812_query_rx_desc_status d)) \<le> 3"
proof -
  have l: "unat (LE_BITS_TO_4BYTE d RX_PKT_LEN) < 2 ^ 14" by (rule ucast_u16_bound) simp
  then show "unat (ra_pkt_len (rtl8812_query_rx_desc_status d)) < 2 ^ 14"
    by (simp add: rtl8812_query_rx_desc_status_def unsigned_ucast_eq take_bit_eq_mod)
  have d: "unat (LE_BITS_TO_4BYTE d RX_DRVINFO_SIZE) < 2 ^ 4" by (rule ucast_u16_bound) simp
  then have "unat (LE_BITS_TO_4BYTE d RX_DRVINFO_SIZE * 8) = unat (LE_BITS_TO_4BYTE d RX_DRVINFO_SIZE) * 8"
    by (simp add: unat_word_ariths)
  then show "unat (ra_drvinfo_sz (rtl8812_query_rx_desc_status d)) \<le> 120"
    using d by (simp add: rtl8812_query_rx_desc_status_def unsigned_ucast_eq take_bit_eq_mod)
  have s: "unat (LE_BITS_TO_4BYTE d RX_SHIFT) < 2 ^ 2" by (rule ucast_u16_bound) simp
  then show "unat (ra_shift_sz (rtl8812_query_rx_desc_status d)) \<le> 3"
    by (simp add: rtl8812_query_rx_desc_status_def unsigned_ucast_eq take_bit_eq_mod)
qed

lemma RND8_nat:
  assumes "n < 2 ^ 16 - 8"
  shows "unat (ucast (RND8 (of_nat n)) :: u16) = 8 * ((n + 7) div 8)"
proof -
  have a: "(of_nat n :: u32) AND 7 = of_nat (n mod 8)"
  proof -
    have "(7 :: u32) = mask 3" by (simp add: mask_eq_exp_minus_1)
    then show ?thesis
      by (simp only: take_bit_eq_mask [symmetric] take_bit_of_nat) (simp add: take_bit_eq_mod)
  qed
  have z: "(of_nat (n mod 8) :: u32) = 0 \<longleftrightarrow> n mod 8 = 0"
  proof -
    have "unat (of_nat (n mod 8) :: u32) = n mod 8" by (simp add: unat_of_nat)
    then show ?thesis by (metis unat_0 word_unat_eq_iff)
  qed
  have d: "drop_bit 3 (of_nat n :: u32) = of_nat (n div 8)"
  proof (rule word_unat_eq_iff [THEN iffD2])
    have "unat (of_nat n :: u32) = n" using assms by (simp add: unat_of_nat)
    moreover have "unat (of_nat (n div 8) :: u32) = n div 8" using assms by (simp add: unat_of_nat)
    ultimately show "unat (drop_bit 3 (of_nat n :: u32)) = unat (of_nat (n div 8) :: u32)"
      by (simp only: unat_drop_bit_eq) (simp add: drop_bit_eq_div)
  qed
  have e: "RND8 (of_nat n) = of_nat (push_bit 3 (n div 8 + (if n mod 8 = 0 then 0 else 1)))"
    unfolding RND8_def a d push_bit_of_nat [symmetric] using z by (cases "n mod 8 = 0") (simp_all add: add.commute)
  have "push_bit 3 (n div 8 + (if n mod 8 = 0 then 0 else 1)) = 8 * ((n + 7) div 8)"
    by (simp add: push_bit_eq_mult round_up_8)
  with e have "RND8 (of_nat n) = of_nat (8 * ((n + 7) div 8))" by simp
  moreover have "8 * ((n + 7) div 8) < 2 ^ 16" using assms by simp
  moreover have "unat (of_nat (8 * ((n + 7) div 8)) :: u32) = 8 * ((n + 7) div 8)"
    using \<open>8 * ((n + 7) div 8) < 2 ^ 16\<close> by (subst unat_of_nat) simp
  ultimately show ?thesis by (simp only: unsigned_ucast_eq) (simp add: take_bit_eq_mod)
qed

lemma next_offset_query:
  "next_offset (rtl8812_query_rx_desc_status d) = 8 * ((pkt_offset (rtl8812_query_rx_desc_status d) + 7) div 8)"
  unfolding next_offset_def using query_bounds [of d]
  by (intro RND8_nat) (simp add: pkt_offset_def)

lemma next_offset_ge: "pkt_offset (rtl8812_query_rx_desc_status d) \<le> next_offset (rtl8812_query_rx_desc_status d)"
  unfolding next_offset_query by (rule round_up_ge)

function rx_walk :: "bytes \<Rightarrow> nat \<Rightarrow> (Packet list \<times> rx_event list) option" where
  "rx_walk buf pos =
    (if length buf - pos < RXDESC_SIZE then Some ([], [])
     else
       let a = rtl8812_query_rx_desc_status (drop pos buf) in
       if ra_pkt_len a = 0 \<or> pkt_offset a > length buf - pos then Some ([], [])
       else case rx_item buf pos a of
         None \<Rightarrow> None
       | Some (ps, es) \<Rightarrow>
           if next_offset a \<ge> length buf - pos then Some (ps, es)
           else (case rx_walk buf (pos + next_offset a) of
                   None \<Rightarrow> None
                 | Some (ps', es') \<Rightarrow> Some (ps @ ps', es @ es')))"
  by pat_completeness auto
termination
proof (relation "measure (\<lambda>(buf, pos). length buf - pos)", goal_cases)
  case 1
  then show ?case by simp
next
  case (2 buf pos a ps_es ps es)
  have "0 < next_offset a"
    using next_offset_ge [of "drop pos buf"] 2 by (simp add: pkt_offset_def)
  then show ?case using 2 by simp
qed

declare rx_walk.simps [simp del]

text \<open>
  The transfer is read for its packet count (only logged) before its size is checked.
\<close>

definition recvbuf2recvframe :: "bytes \<Rightarrow> (Packet list \<times> rx_event list) option" where
  "recvbuf2recvframe buf =
    (case rd_slice buf 12 4 of None \<Rightarrow> None | Some _ \<Rightarrow> rx_walk buf 0)"

section \<open>The spans lie in the transfer\<close>

definition span_end :: "Packet \<Rightarrow> nat" where
  "span_end p = fst (Data p) + snd (Data p)"

lemma rx_item_spans:
  assumes "rx_item buf pos a = Some (ps, es)"
  shows "ps = [] \<or> (\<exists>b. ps = [\<lparr>RxAtrib = b, Data = (pos + frame_off a, unat (ra_pkt_len a))\<rparr>])"
  using assms by (auto simp: rx_item_def split: if_splits option.splits)

lemma frame_off_end: "frame_off a + unat (ra_pkt_len a) = pkt_offset a"
  by (simp add: frame_off_def pkt_offset_def)

lemma rx_walk_spans:
  "rx_walk buf pos = Some (ps, es) \<Longrightarrow>
    list_all (\<lambda>p. pos + RXDESC_SIZE \<le> fst (Data p) \<and> span_end p \<le> length buf \<and> 0 < snd (Data p)) ps \<and>
    sorted_wrt (\<lambda>p q. span_end p \<le> fst (Data q)) ps"
proof (induction buf pos arbitrary: ps es rule: rx_walk.induct)
  case (1 buf pos)
  let ?a = "rtl8812_query_rx_desc_status (drop pos buf)"
  show ?case
  proof (cases "length buf - pos < RXDESC_SIZE \<or> ra_pkt_len ?a = 0 \<or> pkt_offset ?a > length buf - pos")
    case True
    then show ?thesis using "1.prems" by (auto simp: rx_walk.simps [of buf pos] Let_def split: if_splits)
  next
    case go: False
    then obtain qs fs where item: "rx_item buf pos ?a = Some (qs, fs)"
      using "1.prems" by (auto simp: rx_walk.simps [of buf pos] Let_def split: option.splits if_splits)
    have len: "0 < unat (ra_pkt_len ?a)" using go by (simp add: unat_gt_0)
    have inside: "pos + pkt_offset ?a \<le> length buf" using go by linarith
    have head: "list_all (\<lambda>p. pos + RXDESC_SIZE \<le> fst (Data p) \<and> span_end p \<le> length buf \<and>
        span_end p \<le> pos + pkt_offset ?a \<and> 0 < snd (Data p)) qs \<and>
        sorted_wrt (\<lambda>p q. span_end p \<le> fst (Data q)) qs"
      using rx_item_spans [OF item] len inside frame_off_end [of ?a]
      by (auto simp: span_end_def frame_off_def)
    show ?thesis
    proof (cases "next_offset ?a \<ge> length buf - pos")
      case True
      then have "ps = qs" using "1.prems" go item
        by (auto simp: rx_walk.simps [of buf pos] Let_def)
      then show ?thesis using head by (auto simp: list_all_iff)
    next
      case False
      then obtain ps' es' where rest: "rx_walk buf (pos + next_offset ?a) = Some (ps', es')"
        and ps: "ps = qs @ ps'"
        using "1.prems" go item
        by (auto simp: rx_walk.simps [of buf pos] Let_def split: option.splits)
      from "1.IH" [OF _ refl _ item [symmetric, THEN sym] refl False rest] go
      have tail: "list_all (\<lambda>p. pos + next_offset ?a + RXDESC_SIZE \<le> fst (Data p) \<and>
          span_end p \<le> length buf \<and> 0 < snd (Data p)) ps'"
        "sorted_wrt (\<lambda>p q. span_end p \<le> fst (Data q)) ps'" by auto
      show ?thesis
        using head tail next_offset_ge [of "drop pos buf"]
        by (fastforce simp: ps sorted_wrt_append list_all_iff)
    qed
  qed
qed

section \<open>The aggregate the chip builds\<close>

text \<open>
  What the chip documentation and the parser agree on: a frame with its status bits, the driver
  info in units of eight bytes and the shift bytes, packed behind its descriptor.
\<close>

record rx_frame =
  f_info :: bytes
  f_shift :: bytes
  f_payload :: bytes
  f_crc :: bool
  f_icv :: bool
  f_c2h :: bool
  f_physt :: bool
  f_tid :: u8
  f_seq :: u16
  f_rate :: u8

definition rx_frame_wf :: "rx_frame \<Rightarrow> bool" where
  "rx_frame_wf f \<longleftrightarrow>
    0 < length (f_payload f) \<and> length (f_payload f) < 2 ^ 14 \<and> length (f_shift f) \<le> 3 \<and>
    length (f_info f) mod 8 = 0 \<and> length (f_info f) \<le> 120 \<and>
    f_tid f < 16 \<and> f_seq f < 4096 \<and> f_rate f < 128"

text \<open>The driver info of a frame starts with the 28-byte physical status report.\<close>

definition has_phy_status :: "rx_frame \<Rightarrow> bool" where
  "has_phy_status f \<longleftrightarrow> PHY_STATUS_SIZE \<le> length (f_info f)"

definition rx_desc_fields :: "rx_frame \<Rightarrow> (field \<times> u32) list" where
  "rx_desc_fields f =
    [(RX_PKT_LEN, of_nat (length (f_payload f))),
     (RX_CRC32, of_bool (f_crc f)),
     (RX_ICV, of_bool (f_icv f)),
     (RX_DRVINFO_SIZE, of_nat (length (f_info f) div 8)),
     (RX_SHIFT, of_nat (length (f_shift f))),
     (RX_PHY_STATUS, of_bool (f_physt f)),
     (RX_TID, ucast (f_tid f)),
     (RX_SEQ, ucast (f_seq f)),
     (RX_RPT_SEL, of_bool (f_c2h f)),
     (RX_RX_RATE, ucast (f_rate f))]"

definition rx_desc :: "rx_frame \<Rightarrow> bytes" where
  "rx_desc f = fold (\<lambda>(g, v). put_bits g v) (rx_desc_fields f) (replicate RXDESC_SIZE 0)"

definition rx_packet :: "rx_frame \<Rightarrow> bytes" where
  "rx_packet f = rx_desc f @ f_info f @ f_shift f @ f_payload f"

definition pad8 :: "nat \<Rightarrow> bytes" where
  "pad8 n = replicate (8 * ((n + 7) div 8) - n) 0"

fun rx_agg :: "rx_frame list \<Rightarrow> bytes" where
  "rx_agg [] = []"
| "rx_agg [f] = rx_packet f"
| "rx_agg (f # g # fs) = rx_packet f @ pad8 (length (rx_packet f)) @ rx_agg (g # fs)"

interpretation rx: field_codec LE_BITS_TO_4BYTE put_bits "\<lambda>buf. length buf = RXDESC_SIZE"
  "field_ok RXDESC_SIZE" fdisj field_fit
  by (rule field_codec_bits)

lemma rx_desc_ok: "list_all (\<lambda>(g, v). field_ok RXDESC_SIZE g) (rx_desc_fields f)"
  by (simp add: rx_desc_fields_def field_ok_def)

lemma length_rx_desc [simp]: "length (rx_desc f) = RXDESC_SIZE"
  unfolding rx_desc_def by (rule rx.inv_puts [OF rx_desc_ok]) simp

lemma length_rx_packet:
  "length (rx_packet f) = RXDESC_SIZE + length (f_info f) + length (f_shift f) + length (f_payload f)"
  by (simp add: rx_packet_def)

lemma get_append:
  "field_ok (length d) g \<Longrightarrow> LE_BITS_TO_4BYTE (d @ rest) g = LE_BITS_TO_4BYTE d g"
  by (auto simp: LE_BITS_TO_4BYTE_def LE_P4BYTE_TO_HOST_4BYTE_def field_ok_def split: prod.splits)

lemma take_bit_of_nat_small: "n < 2 ^ k \<Longrightarrow> take_bit k (of_nat n :: 'a::len word) = of_nat n"
  by (simp only: take_bit_of_nat take_bit_nat_eq_self)

lemma take_bit_ucast_small:
  "unat x < 2 ^ k \<Longrightarrow> take_bit k (ucast (x :: 'b::len word) :: 'a::len word) = ucast x"
  using take_bit_of_nat_small [of "unat x" k, where 'a = 'a] by simp

lemma rx_desc_get:
  assumes "rx_frame_wf f"
  shows "LE_BITS_TO_4BYTE (rx_desc f @ rest) RX_PKT_LEN = of_nat (length (f_payload f))"
    and "LE_BITS_TO_4BYTE (rx_desc f @ rest) RX_CRC32 = of_bool (f_crc f)"
    and "LE_BITS_TO_4BYTE (rx_desc f @ rest) RX_ICV = of_bool (f_icv f)"
    and "LE_BITS_TO_4BYTE (rx_desc f @ rest) RX_DRVINFO_SIZE = of_nat (length (f_info f) div 8)"
    and "LE_BITS_TO_4BYTE (rx_desc f @ rest) RX_SHIFT = of_nat (length (f_shift f))"
    and "LE_BITS_TO_4BYTE (rx_desc f @ rest) RX_PHY_STATUS = of_bool (f_physt f)"
    and "LE_BITS_TO_4BYTE (rx_desc f @ rest) RX_TID = ucast (f_tid f)"
    and "LE_BITS_TO_4BYTE (rx_desc f @ rest) RX_SEQ = ucast (f_seq f)"
    and "LE_BITS_TO_4BYTE (rx_desc f @ rest) RX_RPT_SEL = of_bool (f_c2h f)"
    and "LE_BITS_TO_4BYTE (rx_desc f @ rest) RX_RX_RATE = ucast (f_rate f)"
proof -
  have fit:
    "take_bit 14 (of_nat (length (f_payload f)) :: u32) = of_nat (length (f_payload f))"
    "take_bit 4 (of_nat (length (f_info f) div 8) :: u32) = of_nat (length (f_info f) div 8)"
    "take_bit 2 (of_nat (length (f_shift f)) :: u32) = of_nat (length (f_shift f))"
    "take_bit 4 (ucast (f_tid f) :: u32) = ucast (f_tid f)"
    "take_bit 12 (ucast (f_seq f) :: u32) = ucast (f_seq f)"
    "take_bit 7 (ucast (f_rate f) :: u32) = ucast (f_rate f)"
    using assms
    by (auto intro!: take_bit_of_nat_small take_bit_ucast_small simp: rx_frame_wf_def word_less_nat_alt)
  show "LE_BITS_TO_4BYTE (rx_desc f @ rest) RX_PKT_LEN = of_nat (length (f_payload f))"
    "LE_BITS_TO_4BYTE (rx_desc f @ rest) RX_CRC32 = of_bool (f_crc f)"
    "LE_BITS_TO_4BYTE (rx_desc f @ rest) RX_ICV = of_bool (f_icv f)"
    "LE_BITS_TO_4BYTE (rx_desc f @ rest) RX_DRVINFO_SIZE = of_nat (length (f_info f) div 8)"
    "LE_BITS_TO_4BYTE (rx_desc f @ rest) RX_SHIFT = of_nat (length (f_shift f))"
    "LE_BITS_TO_4BYTE (rx_desc f @ rest) RX_PHY_STATUS = of_bool (f_physt f)"
    "LE_BITS_TO_4BYTE (rx_desc f @ rest) RX_TID = ucast (f_tid f)"
    "LE_BITS_TO_4BYTE (rx_desc f @ rest) RX_SEQ = ucast (f_seq f)"
    "LE_BITS_TO_4BYTE (rx_desc f @ rest) RX_RPT_SEL = of_bool (f_c2h f)"
    "LE_BITS_TO_4BYTE (rx_desc f @ rest) RX_RX_RATE = ucast (f_rate f)"
    by (subst get_append, simp add: field_ok_def, unfold rx_desc_def,
        subst rx.get_puts; simp add: rx_desc_fields_def field_simps fit)+
qed

lemma rx_query:
  assumes "rx_frame_wf f" and a_def: "a = rtl8812_query_rx_desc_status (rx_desc f @ rest)"
  shows "unat (ra_pkt_len a) = length (f_payload f)"
    and "unat (ra_drvinfo_sz a) = length (f_info f)"
    and "unat (ra_shift_sz a) = length (f_shift f)"
    and "ra_crc_err a = f_crc f" and "ra_icv_err a = f_icv f"
    and "ra_pkt_rpt_type a = (if f_c2h f then C2H_PACKET else NORMAL_RX)"
    and "ra_priority a = f_tid f" and "ra_seq_num a = f_seq f" and "ra_data_rate a = f_rate f"
    and "ra_physt a = f_physt f"
proof -
  note get = rx_desc_get [OF assms(1), of rest, unfolded One_nat_def]
  have wf: "length (f_payload f) < 2 ^ 14" "length (f_shift f) \<le> 3" "length (f_info f) \<le> 120"
    "length (f_info f) = 8 * (length (f_info f) div 8)"
    using assms(1) by (auto simp: rx_frame_wf_def)
  show "unat (ra_pkt_len a) = length (f_payload f)"
    using wf by (simp add: a_def rtl8812_query_rx_desc_status_def get unsigned_ucast_eq unat_of_nat take_bit_eq_mod)
  have "ra_drvinfo_sz a = of_nat (length (f_info f))"
  proof -
    have "(of_nat (length (f_info f) div 8) * 8 :: u32) = of_nat (length (f_info f))"
      using wf(4) by (metis mult.commute of_nat_mult of_nat_numeral)
    then show ?thesis
      by (simp add: a_def rtl8812_query_rx_desc_status_def get unsigned_of_nat word_of_nat_eq_iff)
  qed
  then show "unat (ra_drvinfo_sz a) = length (f_info f)" using wf(3) by (simp add: unat_of_nat)
  show "unat (ra_shift_sz a) = length (f_shift f)"
    using wf by (simp add: a_def rtl8812_query_rx_desc_status_def get unsigned_ucast_eq unat_of_nat take_bit_eq_mod)
  have uu: "ucast (ucast (x :: u8) :: u32) = x" "ucast (ucast (y :: u16) :: u32) = y" for x y
    by (rule bit_word_eqI; auto simp: bit_simps dest: bit_imp_le_length)+
  show "ra_crc_err a = f_crc f" "ra_icv_err a = f_icv f" "ra_physt a = f_physt f"
    "ra_pkt_rpt_type a = (if f_c2h f then C2H_PACKET else NORMAL_RX)"
    "ra_priority a = f_tid f" "ra_seq_num a = f_seq f" "ra_data_rate a = f_rate f"
    by (simp_all add: a_def rtl8812_query_rx_desc_status_def get uu)
qed

definition rx_good :: "rx_frame \<Rightarrow> bool" where
  "rx_good f \<longleftrightarrow> \<not> f_crc f \<and> \<not> f_icv f \<and> \<not> f_c2h f"

definition rx_view :: "bytes \<Rightarrow> Packet \<Rightarrow> bytes \<times> u16 \<times> u8 \<times> u8" where
  "rx_view buf p = (span_bytes buf (Data p), ra_seq_num (RxAtrib p), ra_priority (RxAtrib p), ra_data_rate (RxAtrib p))"

definition rx_expect :: "rx_frame \<Rightarrow> bytes \<times> u16 \<times> u8 \<times> u8" where
  "rx_expect f = (f_payload f, f_seq f, f_tid f, f_rate f)"

lemma rx_item_frame:
  assumes "rx_frame_wf f" and buf: "buf = pre @ rx_packet f @ rest"
    and a: "a = rtl8812_query_rx_desc_status (drop (length pre) buf)"
  shows "pkt_offset a = length (rx_packet f)" and "ra_pkt_len a \<noteq> 0"
    and "has_phy_status f \<Longrightarrow> \<exists>ps es. rx_item buf (length pre) a = Some (ps, es) \<and>
      map (rx_view buf) ps = (if rx_good f then [rx_expect f] else [])"
    and "rx_good f \<Longrightarrow> length buf < length pre + 52 \<Longrightarrow> rx_item buf (length pre) a = None"
proof -
  have "drop (length pre) buf = rx_desc f @ f_info f @ f_shift f @ f_payload f @ rest"
    by (simp add: buf rx_packet_def)
  note q = rx_query [OF assms(1) a [unfolded this]]
  show po: "pkt_offset a = length (rx_packet f)"
    by (simp add: pkt_offset_def q length_rx_packet)
  show "ra_pkt_len a \<noteq> 0" using assms(1) q(1) by (auto simp: rx_frame_wf_def)
  show "rx_item buf (length pre) a = None" if "rx_good f" "length buf < length pre + 52"
    using that by (simp add: rx_item_def q rx_good_def rd_slice_def)
  assume "has_phy_status f"
  then have "length pre + RXDESC_SIZE + PHY_STATUS_SIZE \<le> length buf"
    by (simp add: buf length_rx_packet has_phy_status_def)
  then obtain ps where "rd_slice buf (length pre + RXDESC_SIZE) PHY_STATUS_SIZE = Some ps"
    by (simp add: rd_slice_def)
  moreover have "span_bytes buf (length pre + frame_off a, unat (ra_pkt_len a)) = f_payload f"
    by (simp add: span_bytes_def frame_off_def q buf rx_packet_def slice_def)
  ultimately show "\<exists>ps es. rx_item buf (length pre) a = Some (ps, es) \<and>
      map (rx_view buf) ps = (if rx_good f then [rx_expect f] else [])"
    by (auto simp: rx_item_def q rx_good_def rx_view_def rx_expect_def add_phy_status_def)
qed

lemma rx_agg_nonempty [simp]: "rx_agg (f # fs) \<noteq> []"
  using length_rx_packet [of f] by (cases fs) auto

lemma rx_walk_agg:
  "list_all rx_frame_wf (f # fs) \<Longrightarrow> list_all has_phy_status (f # fs) \<Longrightarrow>
   buf = pre @ rx_agg (f # fs) \<Longrightarrow>
   \<exists>ps es. rx_walk buf (length pre) = Some (ps, es) \<and>
     map (rx_view buf) ps = map rx_expect (filter rx_good (f # fs))"
proof (induction fs arbitrary: f pre)
  case Nil
  define a where "a = rtl8812_query_rx_desc_status (drop (length pre) buf)"
  have wf: "rx_frame_wf f" and phy: "has_phy_status f" using Nil by simp_all
  have buf: "buf = pre @ rx_packet f @ []" using Nil by simp
  note item = rx_item_frame [OF wf buf a_def]
  have size: "length buf - length pre = length (rx_packet f)" by (simp add: buf)
  have "length buf - length pre \<le> next_offset a"
    using next_offset_ge [of "drop (length pre) buf"] item(1) by (simp add: a_def size)
  then show ?case
    using item(1,2) item(3) [OF phy] size length_rx_packet [of f]
    by (auto simp: rx_walk.simps [of buf "length pre"] Let_def simp flip: a_def)
next
  case (Cons g fs)
  define a where "a = rtl8812_query_rx_desc_status (drop (length pre) buf)"
  let ?L = "length (rx_packet f)"
  have wf: "rx_frame_wf f" and phy: "has_phy_status f" using Cons.prems by simp_all
  have buf: "buf = pre @ rx_packet f @ (pad8 ?L @ rx_agg (g # fs))" using Cons.prems by simp
  note item = rx_item_frame [OF wf buf a_def]
  have no: "next_offset a = 8 * ((?L + 7) div 8)"
    using next_offset_query [of "drop (length pre) buf"] item(1) by (simp add: a_def)
  have len: "length (rx_packet f @ pad8 ?L) = next_offset a"
    using round_up_ge [of ?L] by (simp add: pad8_def no)
  have size: "length buf - length pre = next_offset a + length (rx_agg (g # fs))"
    using len by (simp add: buf)
  have pos: "0 < length (rx_agg (g # fs))" by simp
  have buf': "buf = (pre @ rx_packet f @ pad8 ?L) @ rx_agg (g # fs)" by (simp add: buf)
  obtain ps es where rest: "rx_walk buf (length pre + next_offset a) = Some (ps, es)"
    and v: "map (rx_view buf) ps = map rx_expect (filter rx_good (g # fs))"
    using Cons.IH [OF _ _ buf'] Cons.prems(1,2) len by auto
  obtain qs gs where it: "rx_item buf (length pre) a = Some (qs, gs)"
    and w: "map (rx_view buf) qs = (if rx_good f then [rx_expect f] else [])"
    using item(3) [OF phy] by blast
  have "pkt_offset a \<le> next_offset a" unfolding no item(1) by (rule round_up_ge)
  then have "rx_walk buf (length pre) = Some (qs @ ps, gs @ es)"
    using item(1,2) it rest size pos length_rx_packet [of f]
    by (simp add: rx_walk.simps [of buf "length pre"] Let_def flip: a_def)
  then show ?case using v w by simp
qed

section \<open>Properties\<close>

text \<open>
  C21: whatever bytes a transfer holds, every packet the parser returns is a non-empty span
  inside the transfer behind its own descriptor, and the spans follow each other without overlap;
  so a consumer that stays inside the span it gets never touches foreign bytes.
\<close>

theorem recvbuf2recvframe_spans_inside:
  "case recvbuf2recvframe buf of
     None \<Rightarrow> True
   | Some (ps, es) \<Rightarrow>
       list_all (\<lambda>p. RXDESC_SIZE \<le> fst (Data p) \<and> span_end p \<le> length buf \<and> 0 < snd (Data p)) ps \<and>
       sorted_wrt (\<lambda>p q. span_end p \<le> fst (Data q)) ps"
  using rx_walk_spans [of buf 0] by (auto simp: recvbuf2recvframe_def split: option.splits)

text \<open>
  C8: the parser inverts the chip's aggregation: from an aggregate of any number of frames that
  carry their physical status report it returns, in order and with payload, sequence number,
  traffic class and rate, exactly the frames without CRC or ICV error that are not firmware
  reports; a bad frame costs no other frame of its transfer.
\<close>

theorem recvbuf2recvframe_deaggregates:
  assumes "list_all rx_frame_wf fs" and "list_all has_phy_status fs" and "fs \<noteq> []"
  shows "\<exists>ps es. recvbuf2recvframe (rx_agg fs) = Some (ps, es) \<and>
    map (rx_view (rx_agg fs)) ps = map rx_expect (filter rx_good fs)"
proof -
  obtain f gs where fs: "fs = f # gs" using assms(3) by (cases fs) auto
  have "16 \<le> length (rx_agg fs)" using length_rx_packet [of f] by (cases gs) (simp_all add: fs)
  then show ?thesis
    using rx_walk_agg [of f gs "rx_agg fs" "[]"] assms(1,2)
    by (simp add: fs recvbuf2recvframe_def rd_slice_def)
qed

text \<open>
  A good frame that ends its transfer and has less than 28 bytes behind its descriptor, such
  as a control frame reported without driver info, makes the parser copy the physical status
  report from beyond the transfer; no check guards the copy, and the status is read although the
  descriptor says there is none.
\<close>

theorem phy_status_read_past_transfer:
  assumes "rx_frame_wf f" and "rx_good f"
    and "length (f_info f) + length (f_shift f) + length (f_payload f) < 28"
  shows "recvbuf2recvframe (rx_agg [f]) = None"
proof -
  let ?a = "rtl8812_query_rx_desc_status (rx_agg [f])"
  have buf: "rx_agg [f] = [] @ rx_packet f @ []" by simp
  have a: "?a = rtl8812_query_rx_desc_status (drop (length []) (rx_agg [f]))" by simp
  note item = rx_item_frame [OF assms(1) buf a]
  have "length (rx_agg [f]) < 52" using assms(3) by (simp add: length_rx_packet)
  then have none: "rx_item (rx_agg [f]) 0 ?a = None" using item(4) [OF assms(2)] by simp
  show ?thesis
    using none item(1,2) length_rx_packet [of f]
    by (simp add: recvbuf2recvframe_def rd_slice_def rx_walk.simps [of "rx_packet f" 0] Let_def)
qed

definition sample_frame :: "bool \<Rightarrow> rx_frame" where
  "sample_frame bad =
    \<lparr>f_info = replicate 32 0, f_shift = [0, 0], f_payload = [1, 2, 3], f_crc = bad, f_icv = False,
     f_c2h = False, f_physt = True, f_tid = 5, f_seq = 100, f_rate = 44\<rparr>"

theorem recvbuf2recvframe_deaggregates_witness:
  "\<exists>ps es. recvbuf2recvframe (rx_agg [sample_frame False, sample_frame True, sample_frame False]) = Some (ps, es) \<and>
    map (rx_view (rx_agg [sample_frame False, sample_frame True, sample_frame False])) ps =
      [([1, 2, 3], 100, 5, 44), ([1, 2, 3], 100, 5, 44)]"
proof -
  let ?fs = "[sample_frame False, sample_frame True, sample_frame False]"
  have "list_all rx_frame_wf ?fs" by (simp add: sample_frame_def rx_frame_wf_def)
  moreover have "list_all has_phy_status ?fs" by (simp add: sample_frame_def has_phy_status_def)
  moreover have "map rx_expect (filter rx_good ?fs) = [([1, 2, 3], 100, 5, 44), ([1, 2, 3], 100, 5, 44)]"
    by (simp add: sample_frame_def rx_good_def rx_expect_def)
  ultimately show ?thesis using recvbuf2recvframe_deaggregates [of ?fs] by simp
qed

theorem phy_status_read_past_transfer_witness:
  "recvbuf2recvframe (rx_agg [(sample_frame False) \<lparr>f_info := [], f_payload := replicate 14 0\<rparr>]) = None"
  by (rule phy_status_read_past_transfer) (simp_all add: sample_frame_def rx_frame_wf_def rx_good_def)

end
