(* ===== verification/Radiotap.thy ===== *)
theory Radiotap
  imports Prelude
begin

text \<open>
  The radiotap parser of src/Radiotap.c with the definitions of src/ieee80211_radiotap.h: the
  iterator over the arguments of a radiotap header, and the mapping from rate codes to descriptor
  rates. Pointers into the header are offsets from its first byte. \<open>_next_ns_data\<close>, which the
  initialisation leaves unset, is an option; using it unset, or reading outside the buffer, is the
  outcome \<open>RtUndefined\<close>.
\<close>

section \<open>Argument numbers\<close>

abbreviation (input) IEEE80211_RADIOTAP_TSFT :: nat where "IEEE80211_RADIOTAP_TSFT \<equiv> 0"
abbreviation (input) IEEE80211_RADIOTAP_FLAGS :: nat where "IEEE80211_RADIOTAP_FLAGS \<equiv> 1"
abbreviation (input) IEEE80211_RADIOTAP_RATE :: nat where "IEEE80211_RADIOTAP_RATE \<equiv> 2"
abbreviation (input) IEEE80211_RADIOTAP_CHANNEL :: nat where "IEEE80211_RADIOTAP_CHANNEL \<equiv> 3"
abbreviation (input) IEEE80211_RADIOTAP_FHSS :: nat where "IEEE80211_RADIOTAP_FHSS \<equiv> 4"
abbreviation (input) IEEE80211_RADIOTAP_DBM_ANTSIGNAL :: nat where "IEEE80211_RADIOTAP_DBM_ANTSIGNAL \<equiv> 5"
abbreviation (input) IEEE80211_RADIOTAP_DBM_ANTNOISE :: nat where "IEEE80211_RADIOTAP_DBM_ANTNOISE \<equiv> 6"
abbreviation (input) IEEE80211_RADIOTAP_LOCK_QUALITY :: nat where "IEEE80211_RADIOTAP_LOCK_QUALITY \<equiv> 7"
abbreviation (input) IEEE80211_RADIOTAP_TX_ATTENUATION :: nat where "IEEE80211_RADIOTAP_TX_ATTENUATION \<equiv> 8"
abbreviation (input) IEEE80211_RADIOTAP_DB_TX_ATTENUATION :: nat where "IEEE80211_RADIOTAP_DB_TX_ATTENUATION \<equiv> 9"
abbreviation (input) IEEE80211_RADIOTAP_DBM_TX_POWER :: nat where "IEEE80211_RADIOTAP_DBM_TX_POWER \<equiv> 10"
abbreviation (input) IEEE80211_RADIOTAP_ANTENNA :: nat where "IEEE80211_RADIOTAP_ANTENNA \<equiv> 11"
abbreviation (input) IEEE80211_RADIOTAP_DB_ANTSIGNAL :: nat where "IEEE80211_RADIOTAP_DB_ANTSIGNAL \<equiv> 12"
abbreviation (input) IEEE80211_RADIOTAP_DB_ANTNOISE :: nat where "IEEE80211_RADIOTAP_DB_ANTNOISE \<equiv> 13"
abbreviation (input) IEEE80211_RADIOTAP_RX_FLAGS :: nat where "IEEE80211_RADIOTAP_RX_FLAGS \<equiv> 14"
abbreviation (input) IEEE80211_RADIOTAP_TX_FLAGS :: nat where "IEEE80211_RADIOTAP_TX_FLAGS \<equiv> 15"
abbreviation (input) IEEE80211_RADIOTAP_RTS_RETRIES :: nat where "IEEE80211_RADIOTAP_RTS_RETRIES \<equiv> 16"
abbreviation (input) IEEE80211_RADIOTAP_DATA_RETRIES :: nat where "IEEE80211_RADIOTAP_DATA_RETRIES \<equiv> 17"
abbreviation (input) IEEE80211_RADIOTAP_MCS :: nat where "IEEE80211_RADIOTAP_MCS \<equiv> 19"
abbreviation (input) IEEE80211_RADIOTAP_AMPDU_STATUS :: nat where "IEEE80211_RADIOTAP_AMPDU_STATUS \<equiv> 20"
abbreviation (input) IEEE80211_RADIOTAP_VHT :: nat where "IEEE80211_RADIOTAP_VHT \<equiv> 21"
abbreviation (input) IEEE80211_RADIOTAP_TIMESTAMP :: nat where "IEEE80211_RADIOTAP_TIMESTAMP \<equiv> 22"
abbreviation (input) IEEE80211_RADIOTAP_RADIOTAP_NAMESPACE :: nat where "IEEE80211_RADIOTAP_RADIOTAP_NAMESPACE \<equiv> 29"
abbreviation (input) IEEE80211_RADIOTAP_VENDOR_NAMESPACE :: nat where "IEEE80211_RADIOTAP_VENDOR_NAMESPACE \<equiv> 30"
abbreviation (input) IEEE80211_RADIOTAP_EXT :: nat where "IEEE80211_RADIOTAP_EXT \<equiv> 31"

text \<open>Alignment and size of the arguments of the default namespace.\<close>

definition rtap_namespace_sizes :: "(nat \<times> nat) list" where
  "rtap_namespace_sizes =
    [(8, 8), (1, 1), (1, 1), (2, 4), (2, 2), (1, 1), (1, 1), (2, 2), (2, 2), (2, 2), (1, 1), (1, 1),
     (1, 1), (1, 1), (2, 2), (2, 2), (1, 1), (1, 1), (0, 0), (1, 3), (4, 8), (2, 12), (8, 12)]"

record rt_namespace =
  align_size :: "(nat \<times> nat) list"
  ns_oui :: u32
  ns_subns :: u8

definition radiotap_ns :: rt_namespace where
  "radiotap_ns = \<lparr>align_size = rtap_namespace_sizes, ns_oui = 0, ns_subns = 0\<rparr>"

text \<open>\<open>RadiotapNs\<close> is the pointer \<open>&radiotap_ns\<close>, \<open>VendorNs\<close> one into the caller's table.\<close>

datatype ns_ref = RadiotapNs | VendorNs rt_namespace

fun ns_of :: "ns_ref \<Rightarrow> rt_namespace" where
  "ns_of RadiotapNs = radiotap_ns"
| "ns_of (VendorNs n) = n"

record radiotap_iterator =
  rt_vns :: "rt_namespace list option"
  current_namespace :: "ns_ref option"
  rt_arg :: nat
  next_ns_data :: "nat option"
  next_bitmap :: nat
  this_arg :: nat
  this_arg_index :: nat
  this_arg_size :: nat
  is_radiotap_ns :: bool
  rt_max_length :: nat
  arg_index :: nat
  bitmap_shifter :: u32
  reset_on_ext :: bool

datatype rt_error = EINVAL | ENOENT

datatype rt_result = RtOk radiotap_iterator | RtErr rt_error | RtUndefined

definition rd16 :: "bytes \<Rightarrow> nat \<Rightarrow> u16 option" where
  "rd16 buf p = map_option le_word (rd_slice buf p 2)"

definition rd32 :: "bytes \<Rightarrow> nat \<Rightarrow> u32 option" where
  "rd32 buf p = map_option le_word (rd_slice buf p 4)"

section \<open>Initialisation\<close>

text \<open>
  The loop over the extension bitmaps: from the bitmap at \<open>arg\<close> on, until one has bit 31 clear;
  the result is the offset of the first argument.
\<close>

function skip_bitmaps :: "bytes \<Rightarrow> nat \<Rightarrow> nat \<Rightarrow> nat option + rt_error" where
  "skip_bitmaps buf mx arg =
    (case rd32 buf arg of
       None \<Rightarrow> Inl None
     | Some w \<Rightarrow>
         if bit w IEEE80211_RADIOTAP_EXT then
           (if arg + 4 + 4 > mx then Inr EINVAL else skip_bitmaps buf mx (arg + 4))
         else Inl (Some (arg + 4)))"
  by pat_completeness auto
termination by (relation "measure (\<lambda>(buf, mx, arg). mx - arg)") auto

declare skip_bitmaps.simps [simp del]

text \<open>The assignments of the initialisation; \<open>_next_ns_data\<close> is not among them.\<close>

definition fresh_iterator :: "rt_namespace list option \<Rightarrow> u16 \<Rightarrow> u32 \<Rightarrow> radiotap_iterator" where
  "fresh_iterator vns it_len present =
    \<lparr>rt_vns = vns, current_namespace = Some RadiotapNs, rt_arg = 8, next_ns_data = None,
     next_bitmap = 8, this_arg = 8, this_arg_index = 0, this_arg_size = 0, is_radiotap_ns = True,
     rt_max_length = unat it_len, arg_index = 0, bitmap_shifter = present, reset_on_ext = False\<rparr>"

definition ieee80211_radiotap_iterator_init ::
    "bytes \<Rightarrow> nat \<Rightarrow> rt_namespace list option \<Rightarrow> rt_result" where
  "ieee80211_radiotap_iterator_init buf max_length vns =
    (if max_length < 8 then RtErr EINVAL
     else case (rd buf 0, rd16 buf 2, rd32 buf 4) of
       (Some version, Some it_len, Some present) \<Rightarrow>
         (if version \<noteq> 0 then RtErr EINVAL
          else if max_length < unat it_len then RtErr EINVAL
          else if bit present IEEE80211_RADIOTAP_EXT then
            (if 8 + 4 > unat it_len then RtErr EINVAL
             else case skip_bitmaps buf (unat it_len) 8 of
               Inr e \<Rightarrow> RtErr e
             | Inl None \<Rightarrow> RtUndefined
             | Inl (Some a) \<Rightarrow> RtOk ((fresh_iterator vns it_len present)\<lparr>rt_arg := a, this_arg := a\<rparr>))
          else RtOk (fresh_iterator vns it_len present))
     | _ \<Rightarrow> RtUndefined)"

section \<open>The next argument\<close>

definition find_ns :: "rt_namespace list option \<Rightarrow> u32 \<Rightarrow> u8 \<Rightarrow> ns_ref option" where
  "find_ns vns oui subns =
    (case vns of
       None \<Rightarrow> None
     | Some ns \<Rightarrow> map_option VendorNs (find (\<lambda>n. ns_oui n = oui \<and> ns_subns n = subns) ns))"

text \<open>What the first \<open>switch\<close> finds: the end, an argument to skip, or its alignment and size.\<close>

datatype rt_layout = LayoutEnd | LayoutUnknown | Layout nat nat

definition arg_layout :: "radiotap_iterator \<Rightarrow> rt_layout" where
  "arg_layout it =
    (let i = arg_index it mod 32 in
     if i = IEEE80211_RADIOTAP_RADIOTAP_NAMESPACE \<or> i = IEEE80211_RADIOTAP_EXT then Layout 1 0
     else if i = IEEE80211_RADIOTAP_VENDOR_NAMESPACE then Layout 2 6
     else case current_namespace it of
       None \<Rightarrow> LayoutUnknown
     | Some ns \<Rightarrow>
         if arg_index it \<ge> length (align_size (ns_of ns))
         then (if ns = RadiotapNs then LayoutEnd else LayoutUnknown)
         else let (al, sz) = align_size (ns_of ns) ! arg_index it in
              if al = 0 then LayoutUnknown else Layout al sz)"

text \<open>The label \<open>next_entry\<close>.\<close>

definition next_entry :: "radiotap_iterator \<Rightarrow> radiotap_iterator" where
  "next_entry it = it\<lparr>bitmap_shifter := drop_bit 1 (bitmap_shifter it), arg_index := arg_index it + 1\<rparr>"

text \<open>One round of \<open>while (1)\<close>: go on, or return.\<close>

datatype rt_step = RtMore radiotap_iterator | RtReturn rt_result

definition align_up :: "nat \<Rightarrow> nat \<Rightarrow> nat" where
  "align_up al p = (let pad = p AND (al - 1) in if pad \<noteq> 0 then p + al - pad else p)"

text \<open>The vendor namespace header: its OUI selects a namespace, its length the data to skip.\<close>

definition enter_vendor ::
    "bytes \<Rightarrow> nat \<Rightarrow> radiotap_iterator \<Rightarrow> (radiotap_iterator \<times> nat) option" where
  "enter_vendor buf sz it =
    (case (rd_slice buf (rt_arg it) 4, rd16 buf (rt_arg it + 4)) of
       (Some b, Some len) \<Rightarrow>
         let oui = push_bit 16 (ucast (b ! 0)) OR push_bit 8 (ucast (b ! 1)) OR ucast (b ! 2) :: u32;
             ns = find_ns (rt_vns it) oui (b ! 3);
             it' = it\<lparr>current_namespace := ns, next_ns_data := Some (rt_arg it + sz + unat len)\<rparr>
         in Some (it', if ns = None then sz + unat len else sz)
     | _ \<Rightarrow> None)"

text \<open>From the commit of the argument on: the bound check and the second \<open>switch\<close>.\<close>

definition commit_arg :: "bytes \<Rightarrow> nat \<Rightarrow> radiotap_iterator \<Rightarrow> rt_step" where
  "commit_arg buf sz it =
    (let it1 = it\<lparr>this_arg_index := arg_index it, this_arg := rt_arg it, this_arg_size := sz,
                  rt_arg := rt_arg it + sz\<rparr>;
         i = arg_index it mod 32 in
     if rt_arg it1 > rt_max_length it1 then RtReturn (RtErr EINVAL)
     else if i = IEEE80211_RADIOTAP_VENDOR_NAMESPACE then
       (let it2 = next_entry (it1\<lparr>reset_on_ext := True, is_radiotap_ns := False,
                                  this_arg_index := IEEE80211_RADIOTAP_VENDOR_NAMESPACE\<rparr>) in
        if current_namespace it2 = None then RtReturn (RtOk it2) else RtMore it2)
     else if i = IEEE80211_RADIOTAP_RADIOTAP_NAMESPACE then
       RtMore (next_entry (it1\<lparr>reset_on_ext := True, current_namespace := Some RadiotapNs,
                               is_radiotap_ns := True\<rparr>))
     else if i = IEEE80211_RADIOTAP_EXT then
       (case rd32 buf (next_bitmap it1) of
          None \<Rightarrow> RtReturn RtUndefined
        | Some w \<Rightarrow>
            RtMore (it1\<lparr>bitmap_shifter := w, next_bitmap := next_bitmap it1 + 4,
                        arg_index := (if reset_on_ext it1 then 0 else arg_index it1 + 1),
                        reset_on_ext := False\<rparr>))
     else RtReturn (RtOk (next_entry it1)))"

definition radiotap_step :: "bytes \<Rightarrow> radiotap_iterator \<Rightarrow> rt_step" where
  "radiotap_step buf it =
    (if \<not> bit (bitmap_shifter it) 0 then
       (if arg_index it mod 32 = IEEE80211_RADIOTAP_EXT then RtReturn (RtErr ENOENT)
        else RtMore (next_entry it))
     else case arg_layout it of
       LayoutEnd \<Rightarrow> RtReturn (RtErr ENOENT)
     | LayoutUnknown \<Rightarrow>
         (case next_ns_data it of
            None \<Rightarrow> RtReturn RtUndefined
          | Some p \<Rightarrow> RtMore (next_entry (it\<lparr>rt_arg := p, current_namespace := None\<rparr>)))
     | Layout al sz \<Rightarrow>
         let it1 = it\<lparr>rt_arg := align_up al (rt_arg it)\<rparr> in
         if arg_index it mod 32 = IEEE80211_RADIOTAP_VENDOR_NAMESPACE then
           (if rt_arg it1 + sz > rt_max_length it1 then RtReturn (RtErr EINVAL)
            else case enter_vendor buf sz it1 of
              None \<Rightarrow> RtReturn RtUndefined
            | Some (it2, sz2) \<Rightarrow> commit_arg buf sz2 it2)
         else commit_arg buf sz it1)"

text \<open>
  A round that goes on moves to the next bit of the bitmap, or to the next bitmap, which must lie
  in the buffer.
\<close>

definition rt_measure :: "bytes \<Rightarrow> radiotap_iterator \<Rightarrow> nat" where
  "rt_measure buf it = 33 * (length buf + 4 - next_bitmap it) + (32 - arg_index it mod 32)"

lemma next_entry_simps [simp]:
  "next_bitmap (next_entry it) = next_bitmap it" "arg_index (next_entry it) = arg_index it + 1"
  "bitmap_shifter (next_entry it) = drop_bit 1 (bitmap_shifter it)"
  "rt_arg (next_entry it) = rt_arg it" "current_namespace (next_entry it) = current_namespace it"
  "next_ns_data (next_entry it) = next_ns_data it" "rt_max_length (next_entry it) = rt_max_length it"
  "this_arg (next_entry it) = this_arg it" "this_arg_size (next_entry it) = this_arg_size it"
  "this_arg_index (next_entry it) = this_arg_index it" "rt_vns (next_entry it) = rt_vns it"
  "reset_on_ext (next_entry it) = reset_on_ext it"
  by (simp_all add: next_entry_def)

lemma measure_next_entry:
  "arg_index it mod 32 \<noteq> 31 \<Longrightarrow> next_bitmap it' = next_bitmap it \<Longrightarrow> arg_index it' = arg_index it + 1 \<Longrightarrow>
   rt_measure buf it' < rt_measure buf it"
proof -
  assume a: "arg_index it mod 32 \<noteq> 31" and e: "next_bitmap it' = next_bitmap it" "arg_index it' = arg_index it + 1"
  have "arg_index it mod 32 < 32" by simp
  with a have "(arg_index it + 1) mod 32 = arg_index it mod 32 + 1" by (simp add: mod_Suc)
  with a e \<open>arg_index it mod 32 < 32\<close> show ?thesis by (simp add: rt_measure_def)
qed

lemma commit_measure:
  assumes "commit_arg buf sz it = RtMore it' \<or> commit_arg buf sz it = RtReturn (RtOk it')"
  shows "rt_measure buf it' < rt_measure buf it"
proof (cases "arg_index it mod 32 = 31")
  case True
  then obtain w where "rd32 buf (next_bitmap it) = Some w"
    and n: "next_bitmap it' = next_bitmap it + 4"
    and i: "arg_index it' = 0 \<or> arg_index it' = arg_index it + 1"
    using assms by (auto simp: commit_arg_def Let_def split: if_splits option.splits)
  then have "next_bitmap it + 4 \<le> length buf" by (auto simp: rd32_def rd_slice_def split: if_splits)
  moreover have "arg_index it' mod 32 = 0" using i True by (auto simp: mod_Suc)
  ultimately show ?thesis using n True by (simp add: rt_measure_def)
next
  case False
  then have "next_bitmap it' = next_bitmap it \<and> arg_index it' = arg_index it + 1"
    using assms by (auto simp: commit_arg_def Let_def split: if_splits option.splits)
  then show ?thesis using measure_next_entry [OF False] by blast
qed

lemma step_measure:
  assumes "radiotap_step buf it = RtMore it' \<or> radiotap_step buf it = RtReturn (RtOk it')"
  shows "rt_measure buf it' < rt_measure buf it"
proof -
  have ne: "arg_index it mod 32 \<noteq> 31 \<Longrightarrow> next_bitmap it' = next_bitmap it \<Longrightarrow> arg_index it' = arg_index it + 1 \<Longrightarrow>
    ?thesis" by (rule measure_next_entry)
  have m: "rt_measure buf it1 = rt_measure buf it"
    if "next_bitmap it1 = next_bitmap it" "arg_index it1 = arg_index it" for it1
    using that by (simp add: rt_measure_def)
  have ev: "next_bitmap it2 = next_bitmap it1 \<and> arg_index it2 = arg_index it1"
    if "enter_vendor buf sz it1 = Some (it2, sz2)" for it1 it2 sz sz2
    using that by (auto simp: enter_vendor_def Let_def split: option.splits)
  have lay: "arg_layout it = LayoutUnknown \<Longrightarrow> arg_index it mod 32 \<noteq> 31"
    by (auto simp: arg_layout_def Let_def)
  show ?thesis
  proof (cases "bit (bitmap_shifter it) 0")
    case False
    then show ?thesis using assms ne by (auto simp: radiotap_step_def split: if_splits)
  next
    case True
    show ?thesis
    proof (cases "arg_layout it")
      case LayoutEnd
      then show ?thesis using assms True by (simp add: radiotap_step_def)
    next
      case LayoutUnknown
      then show ?thesis
        using assms True ne lay by (auto simp: radiotap_step_def split: option.splits)
    next
      case (Layout al sz)
      let ?it1 = "it\<lparr>rt_arg := align_up al (rt_arg it)\<rparr>"
      obtain it2 sz2 where it2: "next_bitmap it2 = next_bitmap it" "arg_index it2 = arg_index it"
        and "commit_arg buf sz2 it2 = RtMore it' \<or> commit_arg buf sz2 it2 = RtReturn (RtOk it')"
      proof (cases "arg_index it mod 32 = IEEE80211_RADIOTAP_VENDOR_NAMESPACE")
        case vendor: True
        then obtain it2 sz2 where "enter_vendor buf sz ?it1 = Some (it2, sz2)"
          and "commit_arg buf sz2 it2 = RtMore it' \<or> commit_arg buf sz2 it2 = RtReturn (RtOk it')"
          using assms True Layout
          by (auto simp: radiotap_step_def Let_def split: if_splits option.splits)
        then show ?thesis using that ev [of sz ?it1 it2 sz2] by auto
      next
        case False
        then show ?thesis
          using that [of ?it1 sz] assms True Layout by (auto simp: radiotap_step_def Let_def)
      qed
      then show ?thesis using commit_measure m [OF it2] by metis
    qed
  qed
qed

function ieee80211_radiotap_iterator_next :: "bytes \<Rightarrow> radiotap_iterator \<Rightarrow> rt_result" where
  "ieee80211_radiotap_iterator_next buf it =
    (case radiotap_step buf it of
       RtMore it' \<Rightarrow> ieee80211_radiotap_iterator_next buf it'
     | RtReturn r \<Rightarrow> r)"
  by pat_completeness auto
termination
  by (relation "measure (\<lambda>(buf, it). rt_measure buf it)") (auto intro: step_measure)

declare ieee80211_radiotap_iterator_next.simps [simp del]

lemma next_measure:
  "ieee80211_radiotap_iterator_next buf it = RtOk it' \<Longrightarrow> rt_measure buf it' < rt_measure buf it"
proof (induction buf it rule: ieee80211_radiotap_iterator_next.induct)
  case (1 buf it)
  show ?case
  proof (cases "radiotap_step buf it")
    case (RtMore it1)
    then show ?thesis
      using "1.IH" [OF RtMore] "1.prems" step_measure [of buf it it1]
      by (auto simp: ieee80211_radiotap_iterator_next.simps [of buf it])
  next
    case (RtReturn r)
    then show ?thesis
      using "1.prems" step_measure [of buf it it']
      by (auto simp: ieee80211_radiotap_iterator_next.simps [of buf it])
  qed
qed

section \<open>The parser stays inside the header\<close>

definition rt_bitmap :: "bytes \<Rightarrow> nat \<Rightarrow> u32" where
  "rt_bitmap buf k = le_word (slice (4 + 4 * k) 4 buf)"

text \<open>From bitmap \<open>k\<close> on, every bitmap announced by its predecessor lies in the header.\<close>

inductive chain_in :: "bytes \<Rightarrow> nat \<Rightarrow> nat \<Rightarrow> bool" for buf mx where
  chain_stop: "\<not> bit (rt_bitmap buf k) IEEE80211_RADIOTAP_EXT \<Longrightarrow> chain_in buf mx k"
| chain_go: "12 + 4 * k \<le> mx \<Longrightarrow> chain_in buf mx (Suc k) \<Longrightarrow> chain_in buf mx k"

lemma chain_next:
  "chain_in buf mx k \<Longrightarrow> bit (rt_bitmap buf k) IEEE80211_RADIOTAP_EXT \<Longrightarrow>
   12 + 4 * k \<le> mx \<and> chain_in buf mx (Suc k)"
  by (auto elim: chain_in.cases)

definition rt_inv :: "bytes \<Rightarrow> radiotap_iterator \<Rightarrow> bool" where
  "rt_inv buf it \<longleftrightarrow>
    rt_vns it = None \<and> rt_max_length it \<le> length buf \<and>
    (\<exists>k. next_bitmap it = 8 + 4 * k \<and> (k = 0 \<or> 8 + 4 * k \<le> rt_max_length it) \<and>
       (\<forall>j<k. bit (rt_bitmap buf j) IEEE80211_RADIOTAP_EXT) \<and>
       bitmap_shifter it = drop_bit (arg_index it mod 32) (rt_bitmap buf k) \<and>
       chain_in buf (rt_max_length it) k) \<and>
    (current_namespace it = Some RadiotapNs \<or> (current_namespace it = None \<and> next_ns_data it \<noteq> None))"

lemma rt_invI:
  "rt_vns it = None \<Longrightarrow> rt_max_length it \<le> length buf \<Longrightarrow> next_bitmap it = 8 + 4 * k \<Longrightarrow>
   k = 0 \<or> 8 + 4 * k \<le> rt_max_length it \<Longrightarrow>
   (\<And>j. j < k \<Longrightarrow> bit (rt_bitmap buf j) IEEE80211_RADIOTAP_EXT) \<Longrightarrow>
   bitmap_shifter it = drop_bit (arg_index it mod 32) (rt_bitmap buf k) \<Longrightarrow>
   chain_in buf (rt_max_length it) k \<Longrightarrow>
   current_namespace it = Some RadiotapNs \<or> (current_namespace it = None \<and> next_ns_data it \<noteq> None) \<Longrightarrow>
   rt_inv buf it"
  unfolding rt_inv_def by blast

text \<open>A hit lies in the header; in the default namespace it has the size and alignment of its row.\<close>

definition rt_hit_ok :: "radiotap_iterator \<Rightarrow> bool" where
  "rt_hit_ok it \<longleftrightarrow>
    this_arg it + this_arg_size it \<le> rt_max_length it \<and>
    (this_arg_index it = IEEE80211_RADIOTAP_VENDOR_NAMESPACE \<or>
     (this_arg_index it < 23 \<and>
      this_arg_size it = snd (rtap_namespace_sizes ! this_arg_index it) \<and>
      fst (rtap_namespace_sizes ! this_arg_index it) dvd this_arg it))"

text \<open>
  The one bit of the standard bitmaps for which the size table has no row, in a bitmap that is
  announced by all its predecessors.
\<close>

definition has_bit18 :: "bytes \<Rightarrow> nat \<Rightarrow> bool" where
  "has_bit18 buf mx \<longleftrightarrow> 
    (\<exists>k. (k = 0 \<or> 8 + 4 * k \<le> mx) \<and> (\<forall>j<k. bit (rt_bitmap buf j) IEEE80211_RADIOTAP_EXT) \<and>
       bit (rt_bitmap buf k) 18)"

lemma rd32_bitmap: "4 + 4 * k + 4 \<le> length buf \<Longrightarrow> rd32 buf (4 + 4 * k) = Some (rt_bitmap buf k)"
  by (simp add: rd32_def rd_slice_def rt_bitmap_def)

lemma and_mask_mod: "(p :: nat) AND (2 ^ n - 1) = p mod 2 ^ n"
  by (metis mask_eq_exp_minus_1 take_bit_eq_mask take_bit_eq_mod)

lemma align_up_dvd:
  "al \<in> {1, 2, 4, 8} \<Longrightarrow> al dvd align_up al p"
proof -
  assume al: "al \<in> {1, 2, 4, 8}"
  then have m: "p AND (al - 1) = p mod al"
    using and_mask_mod [of p 0] and_mask_mod [of p 1] and_mask_mod [of p 2] and_mask_mod [of p 3] by auto
  have e: "p + al - p mod al = (p - p mod al) + al"
    using mod_less_eq_dividend [of p al] by simp
  have d: "al dvd (p - p mod al) + al" by (intro dvd_add) (simp_all add: dvd_minus_mod)
  have "al dvd p + al - p mod al" unfolding e by (rule d)
  then show ?thesis unfolding align_up_def Let_def m by (simp add: mod_eq_0_iff_dvd)
qed

lemma sizes_align: "i < 23 \<Longrightarrow> i \<noteq> 18 \<Longrightarrow> fst (rtap_namespace_sizes ! i) \<in> {1, 2, 4, 8}"
  by (auto simp: rtap_namespace_sizes_def less_Suc_eq numeral_eq_Suc)

lemma sizes_18: "rtap_namespace_sizes ! 18 = (0, 0)"
  by (simp add: rtap_namespace_sizes_def)

lemma length_sizes [simp]: "length rtap_namespace_sizes = 23"
  by (simp add: rtap_namespace_sizes_def)

lemma commit_inv:
  assumes "rt_inv buf it" and "bit (bitmap_shifter it) 0"
    and idx: "arg_index it mod 32 < 29 \<Longrightarrow> arg_index it < 23 \<and> arg_index it \<noteq> 18 \<and>
      sz = snd (rtap_namespace_sizes ! arg_index it) \<and>
      fst (rtap_namespace_sizes ! arg_index it) dvd rt_arg it"
  shows "case commit_arg buf sz it of
      RtMore it' \<Rightarrow> rt_inv buf it'
    | RtReturn (RtOk it') \<Rightarrow> rt_inv buf it' \<and> rt_hit_ok it'
    | RtReturn (RtErr e) \<Rightarrow> True
    | RtReturn RtUndefined \<Rightarrow> False"
proof -
  obtain k where nb: "next_bitmap it = 8 + 4 * k" and kin: "k = 0 \<or> 8 + 4 * k \<le> rt_max_length it"
    and ann: "\<And>j. j < k \<Longrightarrow> bit (rt_bitmap buf j) IEEE80211_RADIOTAP_EXT"
    and sh: "bitmap_shifter it = drop_bit (arg_index it mod 32) (rt_bitmap buf k)"
    and ch: "chain_in buf (rt_max_length it) k"
    and mx: "rt_max_length it \<le> length buf" and vns: "rt_vns it = None"
    and ns: "current_namespace it = Some RadiotapNs \<or> (current_namespace it = None \<and> next_ns_data it \<noteq> None)"
    using assms(1) by (auto simp: rt_inv_def)
  have b: "bit (rt_bitmap buf k) (arg_index it mod 32)"
    using assms(2) by (simp add: sh bit_simps)
  have sh': "drop_bit 1 (bitmap_shifter it) = drop_bit (Suc (arg_index it) mod 32) (rt_bitmap buf k)"
    if "arg_index it mod 32 \<noteq> 31"
    using that by (simp add: sh mod_Suc)
  show ?thesis
  proof (cases "arg_index it mod 32 = 31")
    case ext: True
    then have "12 + 4 * k \<le> rt_max_length it" "chain_in buf (rt_max_length it) (Suc k)"
      using chain_next [OF ch] b by auto
    moreover from this have "rd32 buf (next_bitmap it) = Some (rt_bitmap buf (Suc k))"
      using rd32_bitmap [of "Suc k" buf] mx nb by simp
    moreover have "(if reset_on_ext it then 0 else Suc (arg_index it)) mod 32 = 0"
      using ext by (simp add: mod_Suc)
    ultimately show ?thesis
      using ext ns vns mx nb ann b
      by (simp add: commit_arg_def Let_def) (auto intro!: rt_invI [where k = "Suc k"] simp: less_Suc_eq)
  next
    case False
    have inv: "rt_inv buf it'" if "rt_vns it' = None" "rt_max_length it' = rt_max_length it"
      "next_bitmap it' = next_bitmap it" "bitmap_shifter it' = drop_bit 1 (bitmap_shifter it)"
      "arg_index it' = Suc (arg_index it)"
      "current_namespace it' = Some RadiotapNs \<or> (current_namespace it' = None \<and> next_ns_data it' \<noteq> None)" for it'
      by (rule rt_invI [where k = k]) (use that mx nb kin ann ch sh' [OF False] in simp_all)
    let ?it1 = "it\<lparr>this_arg_index := arg_index it, this_arg := rt_arg it, this_arg_size := sz,
                  rt_arg := rt_arg it + sz\<rparr>"
    let ?vit = "next_entry (?it1\<lparr>reset_on_ext := True, is_radiotap_ns := False, this_arg_index := 30\<rparr>)"
    let ?rit = "next_entry (?it1\<lparr>reset_on_ext := True, current_namespace := Some RadiotapNs, is_radiotap_ns := True\<rparr>)"
    have v: "rt_inv buf ?vit" by (rule inv) (use vns ns in simp_all)
    have r: "rt_inv buf ?rit" by (rule inv) (use vns in simp_all)
    have n: "rt_inv buf (next_entry ?it1)" by (rule inv) (use vns ns in simp_all)
    have lt: "arg_index it mod 32 < 29 \<or> arg_index it mod 32 = 29 \<or> arg_index it mod 32 = 30"
      using mod_less_divisor [of 32 "arg_index it"] False by linarith
    show ?thesis
    proof (cases "rt_arg it + sz > rt_max_length it")
      case True
      then show ?thesis by (simp add: commit_arg_def Let_def)
    next
      case fits: False
      from lt show ?thesis
      proof (elim disjE)
        assume lo: "arg_index it mod 32 < 29"
        then have "commit_arg buf sz it = RtReturn (RtOk (next_entry ?it1))"
          using fits by (simp add: commit_arg_def Let_def)
        then show ?thesis using n idx [OF lo] fits by (simp add: rt_hit_ok_def)
      next
        assume "arg_index it mod 32 = 29"
        then have "commit_arg buf sz it = RtMore ?rit"
          using fits by (simp add: commit_arg_def Let_def)
        then show ?thesis using r by simp
      next
        assume "arg_index it mod 32 = 30"
        then have "commit_arg buf sz it = RtReturn (RtOk ?vit) \<or> commit_arg buf sz it = RtMore ?vit"
          using fits by (simp add: commit_arg_def Let_def)
        then show ?thesis using v fits by (elim disjE) (simp_all add: rt_hit_ok_def)
      qed
    qed
  qed
qed

lemma step_inv:
  assumes "rt_inv buf it"
  shows "case radiotap_step buf it of
      RtMore it' \<Rightarrow> rt_inv buf it'
    | RtReturn (RtOk it') \<Rightarrow> rt_inv buf it' \<and> rt_hit_ok it'
    | RtReturn (RtErr e) \<Rightarrow> True
    | RtReturn RtUndefined \<Rightarrow> has_bit18 buf (rt_max_length it)"
proof -
  obtain k where nb: "next_bitmap it = 8 + 4 * k" and kin: "k = 0 \<or> 8 + 4 * k \<le> rt_max_length it"
    and ann: "\<And>j. j < k \<Longrightarrow> bit (rt_bitmap buf j) IEEE80211_RADIOTAP_EXT"
    and sh: "bitmap_shifter it = drop_bit (arg_index it mod 32) (rt_bitmap buf k)"
    and ch: "chain_in buf (rt_max_length it) k"
    and mx: "rt_max_length it \<le> length buf" and vns: "rt_vns it = None"
    and ns: "current_namespace it = Some RadiotapNs \<or> (current_namespace it = None \<and> next_ns_data it \<noteq> None)"
    using assms by (auto simp: rt_inv_def)
  have next_inv: "rt_inv buf (next_entry it')"
    if "rt_vns it' = None" "rt_max_length it' = rt_max_length it" "next_bitmap it' = next_bitmap it"
      "bitmap_shifter it' = bitmap_shifter it" "arg_index it' = arg_index it" "arg_index it mod 32 \<noteq> 31"
      "current_namespace it' = Some RadiotapNs \<or> (current_namespace it' = None \<and> next_ns_data it' \<noteq> None)" for it'
  proof -
    have "drop_bit 1 (bitmap_shifter it) = drop_bit (Suc (arg_index it) mod 32) (rt_bitmap buf k)"
      using that by (simp add: sh mod_Suc)
    then show ?thesis by (intro rt_invI [where k = k]) (use that mx nb kin ann ch in simp_all)
  qed
  show ?thesis
  proof (cases "bit (bitmap_shifter it) 0")
    case False
    then show ?thesis using next_inv [of it] vns ns by (simp add: radiotap_step_def)
  next
    case True
    then have bk: "bit (rt_bitmap buf k) (arg_index it mod 32)" by (simp add: sh bit_simps)
    show ?thesis
    proof (cases "arg_layout it")
      case LayoutEnd
      then show ?thesis using True by (simp add: radiotap_step_def)
    next
      case LayoutUnknown
      then have i31: "arg_index it mod 32 \<noteq> 31" by (auto simp: arg_layout_def Let_def)
      show ?thesis
      proof (cases "next_ns_data it")
        case None
        then have "current_namespace it = Some RadiotapNs" using ns by simp
        then have "arg_index it < 23 \<and> fst (rtap_namespace_sizes ! arg_index it) = 0"
          using LayoutUnknown
          by (auto simp: arg_layout_def Let_def radiotap_ns_def split: if_splits prod.splits)
        then have "arg_index it = 18" using sizes_align [of "arg_index it"] by auto
        then have "has_bit18 buf (rt_max_length it)" using bk kin ann by (auto simp: has_bit18_def)
        then show ?thesis using True LayoutUnknown None by (simp add: radiotap_step_def)
      next
        case (Some p)
        then show ?thesis
          using True LayoutUnknown vns i31 by (simp add: radiotap_step_def) (rule next_inv, simp_all)
      qed
    next
      case (Layout al sz)
      let ?it1 = "it\<lparr>rt_arg := align_up al (rt_arg it)\<rparr>"
      have inv1: "rt_inv buf ?it1" using assms by (simp add: rt_inv_def)
      show ?thesis
      proof (cases "arg_index it mod 32 = IEEE80211_RADIOTAP_VENDOR_NAMESPACE")
        case vendor: True
        then have sz: "sz = 6" using Layout by (auto simp: arg_layout_def Let_def)
        show ?thesis
        proof (cases "rt_arg ?it1 + sz > rt_max_length it")
          case True
          then show ?thesis using \<open>bit (bitmap_shifter it) 0\<close> Layout vendor by (simp add: radiotap_step_def)
        next
          case False
          then obtain it2 sz2 where e: "enter_vendor buf sz ?it1 = Some (it2, sz2)"
            using mx sz by (auto simp: enter_vendor_def rd16_def rd_slice_def Let_def)
          then have inv2: "rt_inv buf it2" and same: "arg_index it2 = arg_index it"
            "bitmap_shifter it2 = bitmap_shifter it" "rt_max_length it2 = rt_max_length it"
            using inv1 vns by (auto simp: enter_vendor_def Let_def find_ns_def rt_inv_def split: option.splits)
          show ?thesis
            using commit_inv [OF inv2, of sz2] True vendor False Layout e same
            by (auto simp: radiotap_step_def Let_def split: rt_step.splits rt_result.splits)
        qed
      next
        case False
        have "arg_index it < 23 \<and> arg_index it \<noteq> 18 \<and> sz = snd (rtap_namespace_sizes ! arg_index it) \<and>
            fst (rtap_namespace_sizes ! arg_index it) dvd rt_arg ?it1" if "arg_index it mod 32 < 29"
        proof -
          have row: "arg_index it < 23" "rtap_namespace_sizes ! arg_index it = (al, sz)" "al \<noteq> 0"
            using Layout that ns
            by (auto simp: arg_layout_def Let_def radiotap_ns_def split: if_splits prod.splits option.splits)
          then have "arg_index it \<noteq> 18" using sizes_18 by auto
          then show ?thesis
            using row sizes_align [OF row(1)] align_up_dvd [of al "rt_arg it"] by auto
        qed
        then show ?thesis
          using commit_inv [OF inv1, of sz] True False Layout
          by (auto simp: radiotap_step_def Let_def split: rt_step.splits rt_result.splits)
      qed
    qed
  qed
qed

lemma commit_max:
  "commit_arg buf sz it = RtMore it' \<or> commit_arg buf sz it = RtReturn (RtOk it') \<Longrightarrow>
   rt_max_length it' = rt_max_length it"
  by (auto simp: commit_arg_def Let_def split: if_splits option.splits)

lemma enter_vendor_max:
  "enter_vendor buf sz it = Some (it', sz') \<Longrightarrow> rt_max_length it' = rt_max_length it"
  by (auto simp: enter_vendor_def Let_def split: option.splits)

lemma step_max:
  assumes "radiotap_step buf it = RtMore it' \<or> radiotap_step buf it = RtReturn (RtOk it')"
  shows "rt_max_length it' = rt_max_length it"
proof (cases "bit (bitmap_shifter it) 0")
  case False
  then show ?thesis using assms by (auto simp: radiotap_step_def split: if_splits)
next
  case True
  show ?thesis
  proof (cases "arg_layout it")
    case (Layout al sz)
    let ?it1 = "it\<lparr>rt_arg := align_up al (rt_arg it)\<rparr>"
    obtain it2 sz2 where "rt_max_length it2 = rt_max_length it"
      and "commit_arg buf sz2 it2 = RtMore it' \<or> commit_arg buf sz2 it2 = RtReturn (RtOk it')"
    proof (cases "arg_index it mod 32 = IEEE80211_RADIOTAP_VENDOR_NAMESPACE")
      case vendor: True
      then obtain it2 sz2 where "enter_vendor buf sz ?it1 = Some (it2, sz2)"
        and "commit_arg buf sz2 it2 = RtMore it' \<or> commit_arg buf sz2 it2 = RtReturn (RtOk it')"
        using assms True Layout
        by (auto simp: radiotap_step_def Let_def split: if_splits option.splits)
      then show ?thesis using that enter_vendor_max [of buf sz ?it1 it2 sz2] by auto
    next
      case False
      then show ?thesis
        using that [of ?it1 sz] assms True Layout by (auto simp: radiotap_step_def Let_def)
    qed
    then show ?thesis using commit_max by metis
  qed (use assms True in \<open>auto simp: radiotap_step_def split: option.splits\<close>)
qed

lemma next_max:
  "ieee80211_radiotap_iterator_next buf it = RtOk it' \<Longrightarrow> rt_max_length it' = rt_max_length it"
proof (induction buf it rule: ieee80211_radiotap_iterator_next.induct)
  case (1 buf it)
  show ?case
  proof (cases "radiotap_step buf it")
    case (RtMore it1)
    then show ?thesis
      using "1.IH" [OF RtMore] "1.prems" step_max [of buf it it1]
      by (simp add: ieee80211_radiotap_iterator_next.simps [of buf it])
  next
    case (RtReturn r)
    then show ?thesis
      using "1.prems" step_max [of buf it it']
      by (simp add: ieee80211_radiotap_iterator_next.simps [of buf it])
  qed
qed

lemma next_inv:
  "rt_inv buf it \<Longrightarrow>
   case ieee80211_radiotap_iterator_next buf it of
      RtOk it' \<Rightarrow> rt_inv buf it' \<and> rt_hit_ok it'
    | RtErr e \<Rightarrow> True
    | RtUndefined \<Rightarrow> has_bit18 buf (rt_max_length it)"
proof (induction buf it rule: ieee80211_radiotap_iterator_next.induct)
  case (1 buf it)
  show ?case
  proof (cases "radiotap_step buf it")
    case (RtMore it1)
    then have "rt_inv buf it1" using step_inv [OF "1.prems"] by simp
    then show ?thesis
      using "1.IH" [OF RtMore] RtMore step_max [of buf it it1]
      by (simp add: ieee80211_radiotap_iterator_next.simps [of buf it] split: rt_result.splits)
  next
    case (RtReturn r)
    then show ?thesis
      using step_inv [OF "1.prems"]
      by (auto simp: ieee80211_radiotap_iterator_next.simps [of buf it] split: rt_result.splits)
  qed
qed

lemma skip_chain:
  "skip_bitmaps buf mx (4 + 4 * k) = Inl (Some a) \<Longrightarrow> chain_in buf mx k"
proof (induction "mx - 4 * k" arbitrary: k rule: less_induct)
  case less
  from less.prems obtain w where w: "rd32 buf (4 + 4 * k) = Some w"
    by (auto simp: skip_bitmaps.simps [of buf mx "4 + 4 * k"] split: option.splits)
  then have wb: "w = rt_bitmap buf k" by (auto simp: rd32_def rd_slice_def rt_bitmap_def split: if_splits)
  show ?case
  proof (cases "bit w IEEE80211_RADIOTAP_EXT")
    case True
    have e: "4 + 4 * k + 4 = 4 + 4 * Suc k" "4 + 4 * Suc k + 4 = 12 + 4 * k" by simp_all
    have "(if 12 + 4 * k > mx then Inr EINVAL else skip_bitmaps buf mx (4 + 4 * Suc k)) = Inl (Some a)"
      using less.prems True unfolding skip_bitmaps.simps [of buf mx "4 + 4 * k"] w option.case e
      by (simp only: if_True)
    then have *: "12 + 4 * k \<le> mx" "skip_bitmaps buf mx (4 + 4 * Suc k) = Inl (Some a)"
      by (simp_all only: not_less split: if_splits) auto
    then show ?thesis using less.hyps [of "Suc k"] by (simp add: chain_in.chain_go)
  next
    case False
    then show ?thesis by (intro chain_stop) (simp add: wb)
  qed
qed

lemma init_ok:
  assumes "ieee80211_radiotap_iterator_init buf mx vns = RtOk it"
  obtains l where "rd16 buf 2 = Some l" "8 \<le> mx" "unat l \<le> mx"
    and "rd32 buf 4 = Some (rt_bitmap buf 0)"
    and "\<not> bit (rt_bitmap buf 0) 31 \<Longrightarrow> it = fresh_iterator vns l (rt_bitmap buf 0)"
    and "bit (rt_bitmap buf 0) 31 \<Longrightarrow> 12 \<le> unat l \<and> (\<exists>a. skip_bitmaps buf (unat l) 8 = Inl (Some a) \<and>
      it = (fresh_iterator vns l (rt_bitmap buf 0))\<lparr>rt_arg := a, this_arg := a\<rparr>)"
proof -
  obtain v l p where r: "rd buf 0 = Some v" "rd16 buf 2 = Some l" "rd32 buf 4 = Some p"
    using assms
    by (cases "rd buf 0"; cases "rd16 buf 2"; cases "rd32 buf 4")
       (simp_all add: ieee80211_radiotap_iterator_init_def split: if_splits)
  then have p: "p = rt_bitmap buf 0" by (auto simp: rd32_def rd_slice_def rt_bitmap_def split: if_splits)
  have "8 \<le> mx" "v = 0" "unat l \<le> mx"
    using assms r by (simp_all add: ieee80211_radiotap_iterator_init_def split: if_splits)
  note * = r [unfolded p] this
  show thesis
  proof (cases "bit (rt_bitmap buf 0) 31")
    case True
    then have "12 \<le> unat l"
      using assms * by (simp add: ieee80211_radiotap_iterator_init_def split: if_splits)
    moreover obtain a where "skip_bitmaps buf (unat l) 8 = Inl (Some a)"
      "it = (fresh_iterator vns l (rt_bitmap buf 0))\<lparr>rt_arg := a, this_arg := a\<rparr>"
      using assms * True calculation
      by (cases "skip_bitmaps buf (unat l) 8")
         (simp_all add: ieee80211_radiotap_iterator_init_def not_less split: option.splits)
    ultimately show thesis using that [of l] * True by blast
  next
    case False
    then have "it = fresh_iterator vns l (rt_bitmap buf 0)"
      using assms * by (simp add: ieee80211_radiotap_iterator_init_def)
    then show thesis using that [of l] * False by blast
  qed
qed

lemma init_inv:
  assumes "ieee80211_radiotap_iterator_init buf mx None = RtOk it" and "mx \<le> length buf"
  shows "rt_inv buf it \<and> rt_max_length it \<le> mx"
proof -
  obtain l where l: "unat l \<le> mx"
    and plain: "\<not> bit (rt_bitmap buf 0) 31 \<longrightarrow> it = fresh_iterator None l (rt_bitmap buf 0)"
    and ext: "bit (rt_bitmap buf 0) 31 \<longrightarrow> 12 \<le> unat l \<and> (\<exists>a. skip_bitmaps buf (unat l) 8 = Inl (Some a) \<and>
      it = (fresh_iterator None l (rt_bitmap buf 0))\<lparr>rt_arg := a, this_arg := a\<rparr>)"
    by (rule init_ok [OF assms(1)]) blast
  show ?thesis
  proof (cases "bit (rt_bitmap buf 0) 31")
    case False
    then have "chain_in buf (unat l) 0" by (intro chain_stop) simp
    then show ?thesis
      using plain False l assms(2) by (auto simp: fresh_iterator_def intro!: rt_invI [where k = 0])
  next
    case True
    then obtain a where a: "12 \<le> unat l" "skip_bitmaps buf (unat l) 8 = Inl (Some a)"
      "it = (fresh_iterator None l (rt_bitmap buf 0))\<lparr>rt_arg := a, this_arg := a\<rparr>"
      using ext True by blast
    have "chain_in buf (unat l) 1" using skip_chain [of buf "unat l" 1 a] a by simp
    then have "chain_in buf (unat l) 0" using a(1) by (simp add: chain_in.chain_go)
    then show ?thesis
      using a l assms(2) by (auto simp: fresh_iterator_def intro!: rt_invI [where k = 0])
  qed
qed


lemma skip_defined:
  "mx \<le> length buf \<Longrightarrow> a + 4 \<le> mx \<Longrightarrow> skip_bitmaps buf mx a \<noteq> Inl None"
proof (induction buf mx a rule: skip_bitmaps.induct)
  case (1 buf mx a)
  have "rd32 buf a = Some (le_word (slice a 4 buf))"
    using "1.prems" by (simp add: rd32_def rd_slice_def)
  then show ?case
    using "1.IH" "1.prems" unfolding skip_bitmaps.simps [of buf mx a] by simp
qed

lemma init_defined:
  assumes "rd16 buf 2 = Some l" "8 \<le> length buf" "mx \<le> length buf"
  shows "ieee80211_radiotap_iterator_init buf mx vns \<noteq> RtUndefined"
proof -
  have "rd buf 0 = Some (buf ! 0)" "rd32 buf 4 = Some (le_word (slice 4 4 buf))"
    using assms(2) by (auto simp: rd_def rd32_def rd_slice_def)
  moreover have "skip_bitmaps buf (unat l) 8 \<noteq> Inl None" if "8 + 4 \<le> unat l" "unat l \<le> mx"
    using skip_defined [of "unat l" buf 8] that assms(3) by simp
  ultimately show ?thesis
    using assms(1) by (auto simp: ieee80211_radiotap_iterator_init_def split: sum.splits option.splits)
qed

lemma rt_inv_len: "rt_inv buf it \<Longrightarrow> rt_max_length it \<le> length buf"
  by (simp add: rt_inv_def)


text \<open>
  C12: what the parser hands out can be read. For every buffer and every length that lies in it,
  an iterator initialised without vendor namespaces only returns arguments that lie inside the
  header's own length, hence inside the buffer, and each argument of the default namespace has
  the size and alignment of its row; the undefined outcome needs the present bit 18, whose row is
  missing from the size table. The second part says the same of every later call, because the
  invariant it needs is the one the call re-establishes.
\<close>

theorem radiotap_arguments_inside:
  assumes "ieee80211_radiotap_iterator_init buf mx None = RtOk it0" and "mx \<le> length buf"
  shows "rt_inv buf it0 \<and> rt_max_length it0 \<le> mx \<and>
    (\<forall>it. rt_inv buf it \<longrightarrow> (case ieee80211_radiotap_iterator_next buf it of
        RtOk it' \<Rightarrow> rt_inv buf it' \<and> this_arg it' + this_arg_size it' \<le> length buf \<and>
          (this_arg_index it' = IEEE80211_RADIOTAP_VENDOR_NAMESPACE \<or>
           (this_arg_index it' < 23 \<and>
            this_arg_size it' = snd (rtap_namespace_sizes ! this_arg_index it') \<and>
            fst (rtap_namespace_sizes ! this_arg_index it') dvd this_arg it'))
      | RtErr e \<Rightarrow> True
      | RtUndefined \<Rightarrow> has_bit18 buf (rt_max_length it)))"
proof -
  have "case ieee80211_radiotap_iterator_next buf it of
        RtOk it' \<Rightarrow> rt_inv buf it' \<and> this_arg it' + this_arg_size it' \<le> length buf \<and>
          (this_arg_index it' = IEEE80211_RADIOTAP_VENDOR_NAMESPACE \<or>
           (this_arg_index it' < 23 \<and>
            this_arg_size it' = snd (rtap_namespace_sizes ! this_arg_index it') \<and>
            fst (rtap_namespace_sizes ! this_arg_index it') dvd this_arg it'))
      | RtErr e \<Rightarrow> True
      | RtUndefined \<Rightarrow> has_bit18 buf (rt_max_length it)" if "rt_inv buf it" for it
    using next_inv [OF that] rt_inv_len
    by (cases "ieee80211_radiotap_iterator_next buf it") (auto simp: rt_hit_ok_def intro: le_trans)
  then show ?thesis using init_inv [OF assms] by blast
qed

theorem radiotap_arguments_inside_witness:
  "rt_inv [0, 0, 13, 0, 0, 0x80, 8, 0, 0, 0, 7, 1, 4] (fresh_iterator None 13 0x88000)"
proof -
  let ?buf = "[0, 0, 13, 0, 0, 0x80, 8, 0, 0, 0, 7, 1, 4] :: bytes"
  have "ieee80211_radiotap_iterator_init ?buf 13 None = RtOk (fresh_iterator None 13 0x88000)"
    by (simp add: ieee80211_radiotap_iterator_init_def rd_def rd16_def rd32_def rd_slice_def slice_def le_word_def)
  from radiotap_arguments_inside [OF this] show ?thesis by simp
qed

text \<open>
  Present bit 18 makes the parser use a pointer it never set. The initialisation accepts the
  twelve-byte header below, and the first call jumps to \<open>_next_ns_data\<close>, which only a vendor
  namespace assigns, before anything has been returned.
\<close>

theorem radiotap_bit18_uses_unset_pointer:
  "ieee80211_radiotap_iterator_init [0, 0, 12, 0, 0, 0, 4, 0, 0, 0, 0, 0] 12 None =
     RtOk (fresh_iterator None 12 0x40000) \<and>
   ieee80211_radiotap_iterator_next [0, 0, 12, 0, 0, 0, 4, 0, 0, 0, 0, 0] (fresh_iterator None 12 0x40000) =
     RtUndefined"
  by (simp add: ieee80211_radiotap_iterator_init_def rd_def rd16_def rd32_def rd_slice_def slice_def
      le_word_def fresh_iterator_def ieee80211_radiotap_iterator_next.simps radiotap_step_def
      next_entry_def arg_layout_def radiotap_ns_def rtap_namespace_sizes_def Let_def)

section \<open>Rates\<close>

text \<open>Rate codes of the injection interface (\<open>enum MGN_RATE\<close>).\<close>

abbreviation (input) MGN_1M :: u8 where "MGN_1M \<equiv> 0x02"
abbreviation (input) MGN_2M :: u8 where "MGN_2M \<equiv> 0x04"
abbreviation (input) MGN_5_5M :: u8 where "MGN_5_5M \<equiv> 0x0B"
abbreviation (input) MGN_6M :: u8 where "MGN_6M \<equiv> 0x0C"
abbreviation (input) MGN_9M :: u8 where "MGN_9M \<equiv> 0x12"
abbreviation (input) MGN_11M :: u8 where "MGN_11M \<equiv> 0x16"
abbreviation (input) MGN_12M :: u8 where "MGN_12M \<equiv> 0x18"
abbreviation (input) MGN_18M :: u8 where "MGN_18M \<equiv> 0x24"
abbreviation (input) MGN_24M :: u8 where "MGN_24M \<equiv> 0x30"
abbreviation (input) MGN_36M :: u8 where "MGN_36M \<equiv> 0x48"
abbreviation (input) MGN_48M :: u8 where "MGN_48M \<equiv> 0x60"
abbreviation (input) MGN_54M :: u8 where "MGN_54M \<equiv> 0x6C"
abbreviation (input) MGN_MCS32 :: u8 where "MGN_MCS32 \<equiv> 0x7F"
abbreviation (input) MGN_MCS0 :: u8 where "MGN_MCS0 \<equiv> 0x80"
abbreviation (input) MGN_MCS1 :: u8 where "MGN_MCS1 \<equiv> 0x81"
abbreviation (input) MGN_MCS2 :: u8 where "MGN_MCS2 \<equiv> 0x82"
abbreviation (input) MGN_MCS3 :: u8 where "MGN_MCS3 \<equiv> 0x83"
abbreviation (input) MGN_MCS4 :: u8 where "MGN_MCS4 \<equiv> 0x84"
abbreviation (input) MGN_MCS5 :: u8 where "MGN_MCS5 \<equiv> 0x85"
abbreviation (input) MGN_MCS6 :: u8 where "MGN_MCS6 \<equiv> 0x86"
abbreviation (input) MGN_MCS7 :: u8 where "MGN_MCS7 \<equiv> 0x87"
abbreviation (input) MGN_MCS8 :: u8 where "MGN_MCS8 \<equiv> 0x88"
abbreviation (input) MGN_MCS9 :: u8 where "MGN_MCS9 \<equiv> 0x89"
abbreviation (input) MGN_MCS10 :: u8 where "MGN_MCS10 \<equiv> 0x8A"
abbreviation (input) MGN_MCS11 :: u8 where "MGN_MCS11 \<equiv> 0x8B"
abbreviation (input) MGN_MCS12 :: u8 where "MGN_MCS12 \<equiv> 0x8C"
abbreviation (input) MGN_MCS13 :: u8 where "MGN_MCS13 \<equiv> 0x8D"
abbreviation (input) MGN_MCS14 :: u8 where "MGN_MCS14 \<equiv> 0x8E"
abbreviation (input) MGN_MCS15 :: u8 where "MGN_MCS15 \<equiv> 0x8F"
abbreviation (input) MGN_MCS16 :: u8 where "MGN_MCS16 \<equiv> 0x90"
abbreviation (input) MGN_MCS17 :: u8 where "MGN_MCS17 \<equiv> 0x91"
abbreviation (input) MGN_MCS18 :: u8 where "MGN_MCS18 \<equiv> 0x92"
abbreviation (input) MGN_MCS19 :: u8 where "MGN_MCS19 \<equiv> 0x93"
abbreviation (input) MGN_MCS20 :: u8 where "MGN_MCS20 \<equiv> 0x94"
abbreviation (input) MGN_MCS21 :: u8 where "MGN_MCS21 \<equiv> 0x95"
abbreviation (input) MGN_MCS22 :: u8 where "MGN_MCS22 \<equiv> 0x96"
abbreviation (input) MGN_MCS23 :: u8 where "MGN_MCS23 \<equiv> 0x97"
abbreviation (input) MGN_MCS24 :: u8 where "MGN_MCS24 \<equiv> 0x98"
abbreviation (input) MGN_MCS25 :: u8 where "MGN_MCS25 \<equiv> 0x99"
abbreviation (input) MGN_MCS26 :: u8 where "MGN_MCS26 \<equiv> 0x9A"
abbreviation (input) MGN_MCS27 :: u8 where "MGN_MCS27 \<equiv> 0x9B"
abbreviation (input) MGN_MCS28 :: u8 where "MGN_MCS28 \<equiv> 0x9C"
abbreviation (input) MGN_MCS29 :: u8 where "MGN_MCS29 \<equiv> 0x9D"
abbreviation (input) MGN_MCS30 :: u8 where "MGN_MCS30 \<equiv> 0x9E"
abbreviation (input) MGN_MCS31 :: u8 where "MGN_MCS31 \<equiv> 0x9F"
abbreviation (input) MGN_VHT1SS_MCS0 :: u8 where "MGN_VHT1SS_MCS0 \<equiv> 0xA0"
abbreviation (input) MGN_VHT1SS_MCS1 :: u8 where "MGN_VHT1SS_MCS1 \<equiv> 0xA1"
abbreviation (input) MGN_VHT1SS_MCS2 :: u8 where "MGN_VHT1SS_MCS2 \<equiv> 0xA2"
abbreviation (input) MGN_VHT1SS_MCS3 :: u8 where "MGN_VHT1SS_MCS3 \<equiv> 0xA3"
abbreviation (input) MGN_VHT1SS_MCS4 :: u8 where "MGN_VHT1SS_MCS4 \<equiv> 0xA4"
abbreviation (input) MGN_VHT1SS_MCS5 :: u8 where "MGN_VHT1SS_MCS5 \<equiv> 0xA5"
abbreviation (input) MGN_VHT1SS_MCS6 :: u8 where "MGN_VHT1SS_MCS6 \<equiv> 0xA6"
abbreviation (input) MGN_VHT1SS_MCS7 :: u8 where "MGN_VHT1SS_MCS7 \<equiv> 0xA7"
abbreviation (input) MGN_VHT1SS_MCS8 :: u8 where "MGN_VHT1SS_MCS8 \<equiv> 0xA8"
abbreviation (input) MGN_VHT1SS_MCS9 :: u8 where "MGN_VHT1SS_MCS9 \<equiv> 0xA9"
abbreviation (input) MGN_VHT2SS_MCS0 :: u8 where "MGN_VHT2SS_MCS0 \<equiv> 0xAA"
abbreviation (input) MGN_VHT2SS_MCS1 :: u8 where "MGN_VHT2SS_MCS1 \<equiv> 0xAB"
abbreviation (input) MGN_VHT2SS_MCS2 :: u8 where "MGN_VHT2SS_MCS2 \<equiv> 0xAC"
abbreviation (input) MGN_VHT2SS_MCS3 :: u8 where "MGN_VHT2SS_MCS3 \<equiv> 0xAD"
abbreviation (input) MGN_VHT2SS_MCS4 :: u8 where "MGN_VHT2SS_MCS4 \<equiv> 0xAE"
abbreviation (input) MGN_VHT2SS_MCS5 :: u8 where "MGN_VHT2SS_MCS5 \<equiv> 0xAF"
abbreviation (input) MGN_VHT2SS_MCS6 :: u8 where "MGN_VHT2SS_MCS6 \<equiv> 0xB0"
abbreviation (input) MGN_VHT2SS_MCS7 :: u8 where "MGN_VHT2SS_MCS7 \<equiv> 0xB1"
abbreviation (input) MGN_VHT2SS_MCS8 :: u8 where "MGN_VHT2SS_MCS8 \<equiv> 0xB2"
abbreviation (input) MGN_VHT2SS_MCS9 :: u8 where "MGN_VHT2SS_MCS9 \<equiv> 0xB3"
abbreviation (input) MGN_VHT3SS_MCS0 :: u8 where "MGN_VHT3SS_MCS0 \<equiv> 0xB4"
abbreviation (input) MGN_VHT3SS_MCS1 :: u8 where "MGN_VHT3SS_MCS1 \<equiv> 0xB5"
abbreviation (input) MGN_VHT3SS_MCS2 :: u8 where "MGN_VHT3SS_MCS2 \<equiv> 0xB6"
abbreviation (input) MGN_VHT3SS_MCS3 :: u8 where "MGN_VHT3SS_MCS3 \<equiv> 0xB7"
abbreviation (input) MGN_VHT3SS_MCS4 :: u8 where "MGN_VHT3SS_MCS4 \<equiv> 0xB8"
abbreviation (input) MGN_VHT3SS_MCS5 :: u8 where "MGN_VHT3SS_MCS5 \<equiv> 0xB9"
abbreviation (input) MGN_VHT3SS_MCS6 :: u8 where "MGN_VHT3SS_MCS6 \<equiv> 0xBA"
abbreviation (input) MGN_VHT3SS_MCS7 :: u8 where "MGN_VHT3SS_MCS7 \<equiv> 0xBB"
abbreviation (input) MGN_VHT3SS_MCS8 :: u8 where "MGN_VHT3SS_MCS8 \<equiv> 0xBC"
abbreviation (input) MGN_VHT3SS_MCS9 :: u8 where "MGN_VHT3SS_MCS9 \<equiv> 0xBD"
abbreviation (input) MGN_VHT4SS_MCS0 :: u8 where "MGN_VHT4SS_MCS0 \<equiv> 0xBE"
abbreviation (input) MGN_VHT4SS_MCS1 :: u8 where "MGN_VHT4SS_MCS1 \<equiv> 0xBF"
abbreviation (input) MGN_VHT4SS_MCS2 :: u8 where "MGN_VHT4SS_MCS2 \<equiv> 0xC0"
abbreviation (input) MGN_VHT4SS_MCS3 :: u8 where "MGN_VHT4SS_MCS3 \<equiv> 0xC1"
abbreviation (input) MGN_VHT4SS_MCS4 :: u8 where "MGN_VHT4SS_MCS4 \<equiv> 0xC2"
abbreviation (input) MGN_VHT4SS_MCS5 :: u8 where "MGN_VHT4SS_MCS5 \<equiv> 0xC3"
abbreviation (input) MGN_VHT4SS_MCS6 :: u8 where "MGN_VHT4SS_MCS6 \<equiv> 0xC4"
abbreviation (input) MGN_VHT4SS_MCS7 :: u8 where "MGN_VHT4SS_MCS7 \<equiv> 0xC5"
abbreviation (input) MGN_VHT4SS_MCS8 :: u8 where "MGN_VHT4SS_MCS8 \<equiv> 0xC6"
abbreviation (input) MGN_VHT4SS_MCS9 :: u8 where "MGN_VHT4SS_MCS9 \<equiv> 0xC7"
abbreviation (input) MGN_UNKNOWN :: u8 where "MGN_UNKNOWN \<equiv> 0xC8"

text \<open>Rate codes of the descriptor.\<close>

abbreviation (input) DESC_RATE1M :: u8 where "DESC_RATE1M \<equiv> 0x00"
abbreviation (input) DESC_RATE2M :: u8 where "DESC_RATE2M \<equiv> 0x01"
abbreviation (input) DESC_RATE5_5M :: u8 where "DESC_RATE5_5M \<equiv> 0x02"
abbreviation (input) DESC_RATE11M :: u8 where "DESC_RATE11M \<equiv> 0x03"
abbreviation (input) DESC_RATE6M :: u8 where "DESC_RATE6M \<equiv> 0x04"
abbreviation (input) DESC_RATE9M :: u8 where "DESC_RATE9M \<equiv> 0x05"
abbreviation (input) DESC_RATE12M :: u8 where "DESC_RATE12M \<equiv> 0x06"
abbreviation (input) DESC_RATE18M :: u8 where "DESC_RATE18M \<equiv> 0x07"
abbreviation (input) DESC_RATE24M :: u8 where "DESC_RATE24M \<equiv> 0x08"
abbreviation (input) DESC_RATE36M :: u8 where "DESC_RATE36M \<equiv> 0x09"
abbreviation (input) DESC_RATE48M :: u8 where "DESC_RATE48M \<equiv> 0x0A"
abbreviation (input) DESC_RATE54M :: u8 where "DESC_RATE54M \<equiv> 0x0B"
abbreviation (input) DESC_RATEMCS0 :: u8 where "DESC_RATEMCS0 \<equiv> 0x0C"
abbreviation (input) DESC_RATEMCS1 :: u8 where "DESC_RATEMCS1 \<equiv> 0x0D"
abbreviation (input) DESC_RATEMCS2 :: u8 where "DESC_RATEMCS2 \<equiv> 0x0E"
abbreviation (input) DESC_RATEMCS3 :: u8 where "DESC_RATEMCS3 \<equiv> 0x0F"
abbreviation (input) DESC_RATEMCS4 :: u8 where "DESC_RATEMCS4 \<equiv> 0x10"
abbreviation (input) DESC_RATEMCS5 :: u8 where "DESC_RATEMCS5 \<equiv> 0x11"
abbreviation (input) DESC_RATEMCS6 :: u8 where "DESC_RATEMCS6 \<equiv> 0x12"
abbreviation (input) DESC_RATEMCS7 :: u8 where "DESC_RATEMCS7 \<equiv> 0x13"
abbreviation (input) DESC_RATEMCS8 :: u8 where "DESC_RATEMCS8 \<equiv> 0x14"
abbreviation (input) DESC_RATEMCS9 :: u8 where "DESC_RATEMCS9 \<equiv> 0x15"
abbreviation (input) DESC_RATEMCS10 :: u8 where "DESC_RATEMCS10 \<equiv> 0x16"
abbreviation (input) DESC_RATEMCS11 :: u8 where "DESC_RATEMCS11 \<equiv> 0x17"
abbreviation (input) DESC_RATEMCS12 :: u8 where "DESC_RATEMCS12 \<equiv> 0x18"
abbreviation (input) DESC_RATEMCS13 :: u8 where "DESC_RATEMCS13 \<equiv> 0x19"
abbreviation (input) DESC_RATEMCS14 :: u8 where "DESC_RATEMCS14 \<equiv> 0x1A"
abbreviation (input) DESC_RATEMCS15 :: u8 where "DESC_RATEMCS15 \<equiv> 0x1B"
abbreviation (input) DESC_RATEMCS16 :: u8 where "DESC_RATEMCS16 \<equiv> 0x1C"
abbreviation (input) DESC_RATEMCS17 :: u8 where "DESC_RATEMCS17 \<equiv> 0x1D"
abbreviation (input) DESC_RATEMCS18 :: u8 where "DESC_RATEMCS18 \<equiv> 0x1E"
abbreviation (input) DESC_RATEMCS19 :: u8 where "DESC_RATEMCS19 \<equiv> 0x1F"
abbreviation (input) DESC_RATEMCS20 :: u8 where "DESC_RATEMCS20 \<equiv> 0x20"
abbreviation (input) DESC_RATEMCS21 :: u8 where "DESC_RATEMCS21 \<equiv> 0x21"
abbreviation (input) DESC_RATEMCS22 :: u8 where "DESC_RATEMCS22 \<equiv> 0x22"
abbreviation (input) DESC_RATEMCS23 :: u8 where "DESC_RATEMCS23 \<equiv> 0x23"
abbreviation (input) DESC_RATEMCS24 :: u8 where "DESC_RATEMCS24 \<equiv> 0x24"
abbreviation (input) DESC_RATEMCS25 :: u8 where "DESC_RATEMCS25 \<equiv> 0x25"
abbreviation (input) DESC_RATEMCS26 :: u8 where "DESC_RATEMCS26 \<equiv> 0x26"
abbreviation (input) DESC_RATEMCS27 :: u8 where "DESC_RATEMCS27 \<equiv> 0x27"
abbreviation (input) DESC_RATEMCS28 :: u8 where "DESC_RATEMCS28 \<equiv> 0x28"
abbreviation (input) DESC_RATEMCS29 :: u8 where "DESC_RATEMCS29 \<equiv> 0x29"
abbreviation (input) DESC_RATEMCS30 :: u8 where "DESC_RATEMCS30 \<equiv> 0x2A"
abbreviation (input) DESC_RATEMCS31 :: u8 where "DESC_RATEMCS31 \<equiv> 0x2B"
abbreviation (input) DESC_RATEVHTSS1MCS0 :: u8 where "DESC_RATEVHTSS1MCS0 \<equiv> 0x2C"
abbreviation (input) DESC_RATEVHTSS1MCS1 :: u8 where "DESC_RATEVHTSS1MCS1 \<equiv> 0x2D"
abbreviation (input) DESC_RATEVHTSS1MCS2 :: u8 where "DESC_RATEVHTSS1MCS2 \<equiv> 0x2E"
abbreviation (input) DESC_RATEVHTSS1MCS3 :: u8 where "DESC_RATEVHTSS1MCS3 \<equiv> 0x2F"
abbreviation (input) DESC_RATEVHTSS1MCS4 :: u8 where "DESC_RATEVHTSS1MCS4 \<equiv> 0x30"
abbreviation (input) DESC_RATEVHTSS1MCS5 :: u8 where "DESC_RATEVHTSS1MCS5 \<equiv> 0x31"
abbreviation (input) DESC_RATEVHTSS1MCS6 :: u8 where "DESC_RATEVHTSS1MCS6 \<equiv> 0x32"
abbreviation (input) DESC_RATEVHTSS1MCS7 :: u8 where "DESC_RATEVHTSS1MCS7 \<equiv> 0x33"
abbreviation (input) DESC_RATEVHTSS1MCS8 :: u8 where "DESC_RATEVHTSS1MCS8 \<equiv> 0x34"
abbreviation (input) DESC_RATEVHTSS1MCS9 :: u8 where "DESC_RATEVHTSS1MCS9 \<equiv> 0x35"
abbreviation (input) DESC_RATEVHTSS2MCS0 :: u8 where "DESC_RATEVHTSS2MCS0 \<equiv> 0x36"
abbreviation (input) DESC_RATEVHTSS2MCS1 :: u8 where "DESC_RATEVHTSS2MCS1 \<equiv> 0x37"
abbreviation (input) DESC_RATEVHTSS2MCS2 :: u8 where "DESC_RATEVHTSS2MCS2 \<equiv> 0x38"
abbreviation (input) DESC_RATEVHTSS2MCS3 :: u8 where "DESC_RATEVHTSS2MCS3 \<equiv> 0x39"
abbreviation (input) DESC_RATEVHTSS2MCS4 :: u8 where "DESC_RATEVHTSS2MCS4 \<equiv> 0x3A"
abbreviation (input) DESC_RATEVHTSS2MCS5 :: u8 where "DESC_RATEVHTSS2MCS5 \<equiv> 0x3B"
abbreviation (input) DESC_RATEVHTSS2MCS6 :: u8 where "DESC_RATEVHTSS2MCS6 \<equiv> 0x3C"
abbreviation (input) DESC_RATEVHTSS2MCS7 :: u8 where "DESC_RATEVHTSS2MCS7 \<equiv> 0x3D"
abbreviation (input) DESC_RATEVHTSS2MCS8 :: u8 where "DESC_RATEVHTSS2MCS8 \<equiv> 0x3E"
abbreviation (input) DESC_RATEVHTSS2MCS9 :: u8 where "DESC_RATEVHTSS2MCS9 \<equiv> 0x3F"
abbreviation (input) DESC_RATEVHTSS3MCS0 :: u8 where "DESC_RATEVHTSS3MCS0 \<equiv> 0x40"
abbreviation (input) DESC_RATEVHTSS3MCS1 :: u8 where "DESC_RATEVHTSS3MCS1 \<equiv> 0x41"
abbreviation (input) DESC_RATEVHTSS3MCS2 :: u8 where "DESC_RATEVHTSS3MCS2 \<equiv> 0x42"
abbreviation (input) DESC_RATEVHTSS3MCS3 :: u8 where "DESC_RATEVHTSS3MCS3 \<equiv> 0x43"
abbreviation (input) DESC_RATEVHTSS3MCS4 :: u8 where "DESC_RATEVHTSS3MCS4 \<equiv> 0x44"
abbreviation (input) DESC_RATEVHTSS3MCS5 :: u8 where "DESC_RATEVHTSS3MCS5 \<equiv> 0x45"
abbreviation (input) DESC_RATEVHTSS3MCS6 :: u8 where "DESC_RATEVHTSS3MCS6 \<equiv> 0x46"
abbreviation (input) DESC_RATEVHTSS3MCS7 :: u8 where "DESC_RATEVHTSS3MCS7 \<equiv> 0x47"
abbreviation (input) DESC_RATEVHTSS3MCS8 :: u8 where "DESC_RATEVHTSS3MCS8 \<equiv> 0x48"
abbreviation (input) DESC_RATEVHTSS3MCS9 :: u8 where "DESC_RATEVHTSS3MCS9 \<equiv> 0x49"
abbreviation (input) DESC_RATEVHTSS4MCS0 :: u8 where "DESC_RATEVHTSS4MCS0 \<equiv> 0x4A"
abbreviation (input) DESC_RATEVHTSS4MCS1 :: u8 where "DESC_RATEVHTSS4MCS1 \<equiv> 0x4B"
abbreviation (input) DESC_RATEVHTSS4MCS2 :: u8 where "DESC_RATEVHTSS4MCS2 \<equiv> 0x4C"
abbreviation (input) DESC_RATEVHTSS4MCS3 :: u8 where "DESC_RATEVHTSS4MCS3 \<equiv> 0x4D"
abbreviation (input) DESC_RATEVHTSS4MCS4 :: u8 where "DESC_RATEVHTSS4MCS4 \<equiv> 0x4E"
abbreviation (input) DESC_RATEVHTSS4MCS5 :: u8 where "DESC_RATEVHTSS4MCS5 \<equiv> 0x4F"
abbreviation (input) DESC_RATEVHTSS4MCS6 :: u8 where "DESC_RATEVHTSS4MCS6 \<equiv> 0x50"
abbreviation (input) DESC_RATEVHTSS4MCS7 :: u8 where "DESC_RATEVHTSS4MCS7 \<equiv> 0x51"
abbreviation (input) DESC_RATEVHTSS4MCS8 :: u8 where "DESC_RATEVHTSS4MCS8 \<equiv> 0x52"
abbreviation (input) DESC_RATEVHTSS4MCS9 :: u8 where "DESC_RATEVHTSS4MCS9 \<equiv> 0x53"

text \<open>The switch as a table; every other rate code falls to the default.\<close>

definition rate_table :: "(u8 \<times> u8) list" where
  "rate_table =
    [(MGN_1M, DESC_RATE1M),
     (MGN_2M, DESC_RATE2M),
     (MGN_5_5M, DESC_RATE5_5M),
     (MGN_11M, DESC_RATE11M),
     (MGN_6M, DESC_RATE6M),
     (MGN_9M, DESC_RATE9M),
     (MGN_12M, DESC_RATE12M),
     (MGN_18M, DESC_RATE18M),
     (MGN_24M, DESC_RATE24M),
     (MGN_36M, DESC_RATE36M),
     (MGN_48M, DESC_RATE48M),
     (MGN_54M, DESC_RATE54M),
     (MGN_MCS0, DESC_RATEMCS0),
     (MGN_MCS1, DESC_RATEMCS1),
     (MGN_MCS2, DESC_RATEMCS2),
     (MGN_MCS3, DESC_RATEMCS3),
     (MGN_MCS4, DESC_RATEMCS4),
     (MGN_MCS5, DESC_RATEMCS5),
     (MGN_MCS6, DESC_RATEMCS6),
     (MGN_MCS7, DESC_RATEMCS7),
     (MGN_MCS8, DESC_RATEMCS8),
     (MGN_MCS9, DESC_RATEMCS9),
     (MGN_MCS10, DESC_RATEMCS10),
     (MGN_MCS11, DESC_RATEMCS11),
     (MGN_MCS12, DESC_RATEMCS12),
     (MGN_MCS13, DESC_RATEMCS13),
     (MGN_MCS14, DESC_RATEMCS14),
     (MGN_MCS15, DESC_RATEMCS15),
     (MGN_MCS16, DESC_RATEMCS16),
     (MGN_MCS17, DESC_RATEMCS17),
     (MGN_MCS18, DESC_RATEMCS18),
     (MGN_MCS19, DESC_RATEMCS19),
     (MGN_MCS20, DESC_RATEMCS20),
     (MGN_MCS21, DESC_RATEMCS21),
     (MGN_MCS22, DESC_RATEMCS22),
     (MGN_MCS23, DESC_RATEMCS23),
     (MGN_MCS24, DESC_RATEMCS24),
     (MGN_MCS25, DESC_RATEMCS25),
     (MGN_MCS26, DESC_RATEMCS26),
     (MGN_MCS27, DESC_RATEMCS27),
     (MGN_MCS28, DESC_RATEMCS28),
     (MGN_MCS29, DESC_RATEMCS29),
     (MGN_MCS30, DESC_RATEMCS30),
     (MGN_MCS31, DESC_RATEMCS31),
     (MGN_VHT1SS_MCS0, DESC_RATEVHTSS1MCS0),
     (MGN_VHT1SS_MCS1, DESC_RATEVHTSS1MCS1),
     (MGN_VHT1SS_MCS2, DESC_RATEVHTSS1MCS2),
     (MGN_VHT1SS_MCS3, DESC_RATEVHTSS1MCS3),
     (MGN_VHT1SS_MCS4, DESC_RATEVHTSS1MCS4),
     (MGN_VHT1SS_MCS5, DESC_RATEVHTSS1MCS5),
     (MGN_VHT1SS_MCS6, DESC_RATEVHTSS1MCS6),
     (MGN_VHT1SS_MCS7, DESC_RATEVHTSS1MCS7),
     (MGN_VHT1SS_MCS8, DESC_RATEVHTSS1MCS8),
     (MGN_VHT1SS_MCS9, DESC_RATEVHTSS1MCS9),
     (MGN_VHT2SS_MCS0, DESC_RATEVHTSS2MCS0),
     (MGN_VHT2SS_MCS1, DESC_RATEVHTSS2MCS1),
     (MGN_VHT2SS_MCS2, DESC_RATEVHTSS2MCS2),
     (MGN_VHT2SS_MCS3, DESC_RATEVHTSS2MCS3),
     (MGN_VHT2SS_MCS4, DESC_RATEVHTSS2MCS4),
     (MGN_VHT2SS_MCS5, DESC_RATEVHTSS2MCS5),
     (MGN_VHT2SS_MCS6, DESC_RATEVHTSS2MCS6),
     (MGN_VHT2SS_MCS7, DESC_RATEVHTSS2MCS7),
     (MGN_VHT2SS_MCS8, DESC_RATEVHTSS2MCS8),
     (MGN_VHT2SS_MCS9, DESC_RATEVHTSS2MCS9),
     (MGN_VHT3SS_MCS0, DESC_RATEVHTSS3MCS0),
     (MGN_VHT3SS_MCS1, DESC_RATEVHTSS3MCS1),
     (MGN_VHT3SS_MCS2, DESC_RATEVHTSS3MCS2),
     (MGN_VHT3SS_MCS3, DESC_RATEVHTSS3MCS3),
     (MGN_VHT3SS_MCS4, DESC_RATEVHTSS3MCS4),
     (MGN_VHT3SS_MCS5, DESC_RATEVHTSS3MCS5),
     (MGN_VHT3SS_MCS6, DESC_RATEVHTSS3MCS6),
     (MGN_VHT3SS_MCS7, DESC_RATEVHTSS3MCS7),
     (MGN_VHT3SS_MCS8, DESC_RATEVHTSS3MCS8),
     (MGN_VHT3SS_MCS9, DESC_RATEVHTSS3MCS9),
     (MGN_VHT4SS_MCS0, DESC_RATEVHTSS4MCS0),
     (MGN_VHT4SS_MCS1, DESC_RATEVHTSS4MCS1),
     (MGN_VHT4SS_MCS2, DESC_RATEVHTSS4MCS2),
     (MGN_VHT4SS_MCS3, DESC_RATEVHTSS4MCS3),
     (MGN_VHT4SS_MCS4, DESC_RATEVHTSS4MCS4),
     (MGN_VHT4SS_MCS5, DESC_RATEVHTSS4MCS5),
     (MGN_VHT4SS_MCS6, DESC_RATEVHTSS4MCS6),
     (MGN_VHT4SS_MCS7, DESC_RATEVHTSS4MCS7),
     (MGN_VHT4SS_MCS8, DESC_RATEVHTSS4MCS8),
     (MGN_VHT4SS_MCS9, DESC_RATEVHTSS4MCS9)]"

definition MRateToHwRate :: "u8 \<Rightarrow> u8" where
  "MRateToHwRate rate = (case map_of rate_table rate of Some r \<Rightarrow> r | None \<Rightarrow> DESC_RATE1M)"


definition GetSequence :: "bytes \<Rightarrow> u16 option" where
  "GetSequence packet =
    (case (rd packet 22, rd packet 23) of
       (Some a, Some b) \<Rightarrow>
         let seqCtrl = ucast a OR push_bit 8 (ucast b) :: u16 in Some (drop_bit 4 seqCtrl AND 0x0FFF)
     | _ \<Rightarrow> None)"

lemma distinct_rates: "distinct (map fst rate_table)" "distinct (map snd rate_table)"
  by code_simp+

lemma MRateToHwRate_le: "MRateToHwRate r \<le> 0x53"
proof (cases "map_of rate_table r")
  case (Some v)
  moreover have "list_all (\<lambda>p. snd p \<le> 0x53) rate_table" by code_simp
  ultimately show ?thesis by (auto dest!: map_of_SomeD simp: list_all_iff MRateToHwRate_def)
qed (simp add: MRateToHwRate_def)

text \<open>
  The rate mapping is a bijection between the 84 injection rates and the descriptor codes
  \<open>0 .. 0x53\<close>, which fit the seven bits of the rate field; any other byte maps to 1 Mb/s; and the
  rate the transmit path computes for stream \<open>n\<close> and index \<open>m\<close> of a VHT argument is the
  descriptor code of that stream and index.
\<close>

theorem MRateToHwRate_bijective:
  "bij_betw MRateToHwRate (set (map fst rate_table)) {0..0x53} \<and>
   (\<forall>r. MRateToHwRate r \<le> 0x53) \<and>
   list_all (\<lambda>i. MRateToHwRate (MGN_VHT1SS_MCS0 + of_nat i) = DESC_RATEVHTSS1MCS0 + of_nat i) [0..<40]"
proof -
  have m: "MRateToHwRate (fst p) = snd p" if "p \<in> set rate_table" for p
    using map_of_is_SomeI [OF distinct_rates(1)] that by (cases p) (simp add: MRateToHwRate_def)
  have s: "set (map snd rate_table) = {0..0x53}"
  proof
    show le: "set (map snd rate_table) \<subseteq> {0..0x53}" by (simp add: rate_table_def)
    show "{0..0x53} \<subseteq> set (map snd rate_table)"
    proof
      fix w :: u8 assume "w \<in> {0..0x53}"
      then have "unat w \<in> set [0..<84]" by (simp add: word_le_nat_alt)
      moreover have "list_all (\<lambda>n. of_nat n \<in> set (map snd rate_table)) [0..<84]"
        by code_simp
      ultimately have "of_nat (unat w) \<in> set (map snd rate_table)" by (simp only: list_all_iff)
      then show "w \<in> set (map snd rate_table)" by simp
    qed
  qed
  have i: "inj_on MRateToHwRate (set (map fst rate_table))"
  proof (rule inj_onI)
    fix x y assume xy: "x \<in> set (map fst rate_table)" "y \<in> set (map fst rate_table)"
      and e: "MRateToHwRate x = MRateToHwRate y"
    from xy obtain p q where "p \<in> set rate_table" "q \<in> set rate_table" "x = fst p" "y = fst q" by auto
    moreover have "inj_on snd (set rate_table)" using distinct_rates(2) by (simp add: distinct_map)
    ultimately show "x = y" using e m by (metis inj_onD)
  qed
  have "MRateToHwRate ` set (map fst rate_table) = {0..0x53}"
    unfolding s [symmetric] using m by (simp add: image_image)
  moreover have "list_all (\<lambda>i. MRateToHwRate (MGN_VHT1SS_MCS0 + of_nat i) = DESC_RATEVHTSS1MCS0 + of_nat i) [0..<40]"
    by code_simp
  ultimately show ?thesis using i MRateToHwRate_le by (simp add: bij_betw_def)
qed

end
