(* ===== verification/SendPacket.thy ===== *)
theory SendPacket
  imports TxDesc Radiotap
begin

text \<open>
  The injection path \<open>RtlJaguarDevice::send_packet\<close> of src/RtlJaguarDevice.cpp: the arguments of
  the radiotap header in front of the frame select rate, guard interval, bandwidth and coding, a
  transmit descriptor is filled and the frame is appended. What the bulk transfer returns and the
  chip variant with its environment override are arguments.
\<close>

abbreviation (input) CHANNEL_WIDTH_20 :: u8 where "CHANNEL_WIDTH_20 \<equiv> 0"
abbreviation (input) CHANNEL_WIDTH_40 :: u8 where "CHANNEL_WIDTH_40 \<equiv> 1"
abbreviation (input) CHANNEL_WIDTH_80 :: u8 where "CHANNEL_WIDTH_80 \<equiv> 2"
abbreviation (input) OFFSET_SZ :: nat where "OFFSET_SZ \<equiv> 0"

record tx_params =
  fixed_rate :: u8
  tp_sgi :: u8
  tp_bwidth :: u8
  tp_ldpc :: u8
  tp_stbc :: u8
  tp_txflags :: u16

definition tx_defaults :: tx_params where
  "tx_defaults = \<lparr>fixed_rate = MGN_1M, tp_sgi = 0, tp_bwidth = 0, tp_ldpc = 0, tp_stbc = 0, tp_txflags = 0\<rparr>"

section \<open>The arguments of the header\<close>

definition mcs_arg :: "u8 \<Rightarrow> tx_params \<Rightarrow> tx_params" where
  "mcs_arg mcs_flags p =
    (let bw = mcs_flags AND 0x03 in
     p\<lparr>tp_bwidth := (if bw = 1 then CHANNEL_WIDTH_40
                    else if bw = 0 \<or> bw = 2 \<or> bw = 3 then CHANNEL_WIDTH_20 else tp_bwidth p),
       tp_sgi := (if mcs_flags AND 0x04 \<noteq> 0 then 1 else 0)\<rparr>)"

definition vht_rate :: "u8 \<Rightarrow> u8 option" where
  "vht_rate b =
    (let mcs = unat (drop_bit 4 b AND 0x0F); nss = unat (b AND 0x0F) in
     if nss > 0 then Some (MGN_VHT1SS_MCS0 + of_nat ((min nss 4 - 1) * 10 + min mcs 9)) else None)"

definition vht_arg :: "bytes \<Rightarrow> tx_params \<Rightarrow> tx_params" where
  "vht_arg a p =
    (let known = a ! 0; flags = a ! 2; bw = (a ! 3) AND 0x1F in
     p\<lparr>tp_sgi := (if known AND 4 \<noteq> 0 \<and> flags AND 4 \<noteq> 0 then 1 else tp_sgi p),
       tp_stbc := (if known AND 1 \<noteq> 0 \<and> flags AND 1 \<noteq> 0 then 1 else tp_stbc p),
       tp_bwidth := (if known AND 0x40 \<noteq> 0
                     then (if bw \<ge> 1 \<and> bw \<le> 3 then 40 else if bw \<ge> 4 \<and> bw \<le> 10 then 80 else 20)
                     else tp_bwidth p),
       tp_ldpc := (if (a ! 8) AND 1 \<noteq> 0 then 1 else tp_ldpc p),
       fixed_rate := (case vht_rate (a ! 4) of Some r \<Rightarrow> r | None \<Rightarrow> fixed_rate p)\<rparr>)"

text \<open>The switch over the argument; \<open>None\<close> is an access outside the packet.\<close>

definition tx_arg :: "bytes \<Rightarrow> radiotap_iterator \<Rightarrow> tx_params \<Rightarrow> tx_params option" where
  "tx_arg packet it p =
    (let a = this_arg it; i = this_arg_index it in
     if i = IEEE80211_RADIOTAP_RATE then map_option (\<lambda>b. p\<lparr>fixed_rate := b\<rparr>) (rd packet a)
     else if i = IEEE80211_RADIOTAP_TX_FLAGS then map_option (\<lambda>w. p\<lparr>tp_txflags := w\<rparr>) (rd16 packet a)
     else if i = IEEE80211_RADIOTAP_MCS then map_option (\<lambda>b. mcs_arg b p) (rd packet (a + 1))
     else if i = IEEE80211_RADIOTAP_VHT then map_option (\<lambda>s. vht_arg s p) (rd_slice packet a 9)
     else Some p)"

text \<open>The \<open>while (!ret)\<close> loop; \<open>None\<close> is undefined behaviour.\<close>

function tx_args :: "bytes \<Rightarrow> radiotap_iterator \<Rightarrow> tx_params \<Rightarrow> tx_params option" where
  "tx_args packet it p =
    (case ieee80211_radiotap_iterator_next packet it of
       RtErr e \<Rightarrow> Some p
     | RtUndefined \<Rightarrow> None
     | RtOk it' \<Rightarrow> (case tx_arg packet it' p of None \<Rightarrow> None | Some p' \<Rightarrow> tx_args packet it' p'))"
  by pat_completeness auto
termination
  by (relation "measure (\<lambda>(packet, it, p). rt_measure packet it)") (auto intro: next_measure)

declare tx_args.simps [simp del]

definition tx_params_of :: "bytes \<Rightarrow> nat \<Rightarrow> tx_params option" where
  "tx_params_of packet radiotap_length =
    (case ieee80211_radiotap_iterator_init packet radiotap_length None of
       RtErr e \<Rightarrow> Some tx_defaults
     | RtUndefined \<Rightarrow> None
     | RtOk it \<Rightarrow> tx_args packet it tx_defaults)"

section \<open>The descriptor and the frame\<close>

definition BWSettingOfDesc :: "u8 \<Rightarrow> u32" where
  "BWSettingOfDesc bwidth = (if bwidth = CHANNEL_WIDTH_40 then 1 else if bwidth = CHANNEL_WIDTH_80 then 2 else 0)"

definition send_sets :: "bool \<Rightarrow> nat \<Rightarrow> bool \<Rightarrow> tx_params \<Rightarrow> (field \<times> u32) list" where
  "send_sets is_8814a real_packet_length vht p =
    [(DATA_BW_8812, BWSettingOfDesc (tp_bwidth p)),
     (FIRST_SEG_8812, 1),
     (LAST_SEG_8812, 1)] @
    (if \<not> is_8814a then [(OWN_8812, 1)] else []) @
    [(PKT_SIZE_8812, of_nat real_packet_length),
     (OFFSET_8812, ucast (of_nat (TXDESC_SIZE + OFFSET_SZ) :: u8)),
     (MACID_8812, 1),
     (BMC_8812, 1),
     (RATE_ID_8812, if \<not> vht then 8 else 9),
     (QUEUE_SEL_8812, 0x12),
     (HWSEQ_EN_8812, 1)] @
    (if \<not> is_8814a then [(GID_8812, 0x3F)] else []) @
    [(SW_DEFINE_8812, 1),
     (RETRY_LIMIT_ENABLE_8812, 1)] @
    (if \<not> is_8814a then [(DATA_RETRY_LIMIT_8812, 12)] else []) @
    (if tp_sgi p \<noteq> 0 then [(DATA_SHORT_8812, 1)] else []) @
    [(USE_RATE_8812, 1),
     (TX_RATE_8812, ucast (MRateToHwRate (fixed_rate p)))] @
    (if tp_ldpc p \<noteq> 0 then [(DATA_LDPC_8812, ucast (tp_ldpc p))] else []) @
    [(DATA_STBC_8812, ucast (tp_stbc p AND 3))]"

text \<open>The outcome: rejected (\<open>false\<close>), or what the bulk transfer answers for the frame it is given.\<close>

datatype send_result = SendRejected | SendDone bytes bool | SendUndefined

definition send_packet :: "(bytes \<Rightarrow> bool) \<Rightarrow> bool \<Rightarrow> bytes \<Rightarrow> send_result" where
  "send_packet device is_8814a packet =
    (if length packet < 8 then SendRejected
     else case rd16 packet 2 of
       None \<Rightarrow> SendUndefined
     | Some w \<Rightarrow>
        let radiotap_length = unat w in
        if radiotap_length = 0 \<or> radiotap_length \<ge> length packet then SendRejected
        else
          let real_packet_length = length packet - radiotap_length;
              vht = (radiotap_length \<noteq> 0x0d);
              usb_frame = replicate (real_packet_length + TXDESC_SIZE) 0 in
          case tx_params_of packet radiotap_length of
            None \<Rightarrow> SendUndefined
          | Some p \<Rightarrow>
             (case Option.bind (run_sets (send_sets is_8814a real_packet_length vht p) usb_frame)
                     rtl8812a_cal_txdesc_chksum of
                None \<Rightarrow> SendUndefined
              | Some b \<Rightarrow>
                  let frame = take TXDESC_SIZE b @ drop radiotap_length packet in
                  SendDone frame (device frame)))"

section \<open>The parameters\<close>

lemma tx_arg_defined:
  "rt_hit_ok it \<Longrightarrow> rt_max_length it \<le> length packet \<Longrightarrow> \<exists>p'. tx_arg packet it p = Some p'"
  by (auto simp: rt_hit_ok_def tx_arg_def Let_def rtap_namespace_sizes_def rd_def rd16_def rd_slice_def)

lemma tx_args_defined:
  "rt_inv packet it \<Longrightarrow> \<not> has_bit18 packet (rt_max_length it) \<Longrightarrow> \<exists>p'. tx_args packet it p = Some p'"
proof (induction packet it p rule: tx_args.induct)
  case (1 packet it p)
  show ?case
  proof (cases "ieee80211_radiotap_iterator_next packet it")
    case (RtOk it')
    then have h: "rt_inv packet it'" "rt_hit_ok it'" using next_inv [OF "1.prems"(1)] by simp_all
    then obtain p' where "tx_arg packet it' p = Some p'"
      using tx_arg_defined rt_inv_len by blast
    then show ?thesis
      using "1.IH" [OF RtOk] h(1) "1.prems"(2) RtOk next_max [OF RtOk]
      by (simp add: tx_args.simps [of packet it p])
  next
    case (RtErr e)
    then show ?thesis by (simp add: tx_args.simps [of packet it p])
  next
    case RtUndefined
    then show ?thesis using next_inv [OF "1.prems"(1)] "1.prems"(2) by simp
  qed
qed

text \<open>An invariant of the parameters that every argument keeps holds of what the loop leaves.\<close>

lemma tx_args_invariant:
  assumes step: "\<And>b it q q'. P q \<Longrightarrow> tx_arg b it q = Some q' \<Longrightarrow> P q'"
  shows "P p \<Longrightarrow> tx_args packet it p = Some p' \<Longrightarrow> P p'"
proof (induction packet it p arbitrary: p' rule: tx_args.induct)
  case (1 packet it p)
  show ?case
  proof (cases "ieee80211_radiotap_iterator_next packet it")
    case (RtOk it')
    then obtain q where q: "tx_arg packet it' p = Some q" "tx_args packet it' q = Some p'"
      using "1.prems"(2) by (simp add: tx_args.simps [of packet it p] split: option.splits)
    from "1.IH" [OF RtOk q(1) step [OF "1.prems"(1) q(1)] q(2)] show ?thesis .
  next
    case (RtErr e)
    then show ?thesis using "1.prems" by (simp add: tx_args.simps [of packet it p])
  next
    case RtUndefined
    then show ?thesis using "1.prems"(2) by (simp add: tx_args.simps [of packet it p])
  qed
qed

lemma tx_params_defined:
  assumes "rd16 packet 2 = Some w" and "unat w \<le> length packet" and "\<not> has_bit18 packet (unat w)"
    and "8 \<le> length packet"
  shows "\<exists>p. tx_params_of packet (unat w) = Some p"
proof (cases "ieee80211_radiotap_iterator_init packet (unat w) None")
  case (RtOk it)
  then obtain l where "rd16 packet 2 = Some l" "rt_max_length it = unat l"
    by (rule init_ok, cases "bit (rt_bitmap packet 0) 31") (auto simp: fresh_iterator_def)
  then show ?thesis
    using RtOk tx_args_defined [of packet it tx_defaults] init_inv [OF RtOk assms(2)] assms(1,3)
    by (simp add: tx_params_of_def)
next
  case RtUndefined
  then show ?thesis using init_defined [OF assms(1,4,2)] by simp
qed (simp add: tx_params_of_def)

section \<open>The frame that is sent\<close>

lemma put_bits_append: "fst f + 4 \<le> length d \<Longrightarrow> put_bits f v (d @ q) = put_bits f v d @ q"
  by (cases f) (simp add: put_bits_def LE_BITS_CLEARED_TO_4BYTE_def LE_P4BYTE_TO_HOST_4BYTE_def WriteLE4Byte_def)

lemma run_sets_append:
  "list_all (\<lambda>(f, v). field_ok TXDESC_SIZE f) fs \<Longrightarrow> length d = TXDESC_SIZE \<Longrightarrow>
   run_sets fs (d @ q) = map_option (\<lambda>x. x @ q) (run_sets fs d)"
  by (induction fs d rule: run_sets.induct)
     (auto simp: SET_BITS_TO_LE_4BYTE_def field_ok_def put_bits_append split: prod.splits)

lemma chksum_append:
  assumes "length d = TXDESC_SIZE"
  shows "rtl8812a_cal_txdesc_chksum (d @ q) = map_option (\<lambda>x. x @ q) (rtl8812a_cal_txdesc_chksum d)"
proof -
  have "xor_halfwords (e @ q) = xor_halfwords e" if "length e = TXDESC_SIZE" for e
    unfolding xor_halfwords_def using that by (intro fold_cong) (simp_all add: halfword_def)
  then show ?thesis
    using assms by (simp add: rtl8812a_cal_txdesc_chksum_def SET_BITS_TO_LE_4BYTE_def put_bits_append)
qed

lemma send_sets_ok: "list_all (\<lambda>(f, v). field_ok TXDESC_SIZE f) (send_sets v n vht p)"
  by (simp add: send_sets_def field_ok_def)

lemma send_descriptor:
  obtains d where
    "Option.bind (run_sets (send_sets v n vht p) (replicate (n + TXDESC_SIZE) 0)) rtl8812a_cal_txdesc_chksum
      = Some (d @ replicate n 0)"
    "length d = TXDESC_SIZE" "xor_halfwords d = 0"
    "\<And>f. field_ok TXDESC_SIZE f \<Longrightarrow> fdisj TX_CHECKSUM f \<Longrightarrow>
      LE_BITS_TO_4BYTE d f = LE_BITS_TO_4BYTE (fold (\<lambda>(f, v). put_bits f v) (send_sets v n vht p) (replicate TXDESC_SIZE 0)) f"
proof -
  let ?z = "replicate TXDESC_SIZE 0 :: bytes"
  let ?b = "fold (\<lambda>(f, v). put_bits f v) (send_sets v n vht p) ?z"
  have z: "length ?z = TXDESC_SIZE" by simp
  have lb: "length ?b = TXDESC_SIZE" by (rule tx.inv_puts [OF send_sets_ok z])
  obtain d where d: "rtl8812a_cal_txdesc_chksum ?b = Some d" "length d = TXDESC_SIZE" "xor_halfwords d = 0"
    using chksum_zero [OF lb] by blast
  have "replicate (n + TXDESC_SIZE) 0 = ?z @ replicate n (0 :: u8)"
    by (simp only: add.commute [of n] replicate_add)
  then have "Option.bind (run_sets (send_sets v n vht p) (replicate (n + TXDESC_SIZE) 0)) rtl8812a_cal_txdesc_chksum
      = Some (d @ replicate n 0)"
    using run_sets_append [OF send_sets_ok z] run_sets_fold [OF send_sets_ok z] chksum_append [OF lb] d(1)
    by simp
  then show thesis using that d chksum_get [OF lb d(1)] by blast
qed

lemma send_fields:
  assumes "\<And>f. field_ok TXDESC_SIZE f \<Longrightarrow> fdisj TX_CHECKSUM f \<Longrightarrow>
      LE_BITS_TO_4BYTE d f = LE_BITS_TO_4BYTE (fold (\<lambda>(f, v). put_bits f v) (send_sets v n vht p) (replicate TXDESC_SIZE 0)) f"
  shows "LE_BITS_TO_4BYTE d PKT_SIZE_8812 = take_bit 16 (of_nat n)"
    "LE_BITS_TO_4BYTE d OFFSET_8812 = 40"
    "LE_BITS_TO_4BYTE d FIRST_SEG_8812 = 1"
    "LE_BITS_TO_4BYTE d LAST_SEG_8812 = 1"
    "LE_BITS_TO_4BYTE d OWN_8812 = of_bool (\<not> v)"
    "LE_BITS_TO_4BYTE d TX_RATE_8812 = ucast (MRateToHwRate (fixed_rate p))"
    "LE_BITS_TO_4BYTE d DATA_BW_8812 = BWSettingOfDesc (tp_bwidth p)"
    "LE_BITS_TO_4BYTE d DATA_SHORT_8812 = of_bool (tp_sgi p \<noteq> 0)"
proof -
  have r: "take_bit 7 (ucast (MRateToHwRate x) :: u32) = ucast (MRateToHwRate x)" for x
  proof -
    have "unat (MRateToHwRate x) < 128" using MRateToHwRate_le [of x] by (simp add: word_le_nat_alt)
    then show ?thesis by (simp add: word_unat_eq_iff unsigned_take_bit_eq unsigned_ucast_eq take_bit_nat_eq_self)
  qed
  have b: "take_bit 2 (BWSettingOfDesc x) = BWSettingOfDesc x" for x by (simp add: BWSettingOfDesc_def)
  have z0: "LE_BITS_TO_4BYTE (replicate TXDESC_SIZE 0) f = 0" if "field_ok TXDESC_SIZE f" for f
    using that by (cases f) (simp add: LE_BITS_TO_4BYTE_def LE_P4BYTE_TO_HOST_4BYTE_def slice_def field_ok_def le_word_def)
  note s = send_sets_def Let_def field_simps r b
  show "LE_BITS_TO_4BYTE d PKT_SIZE_8812 = take_bit 16 (of_nat n)"
    by (subst assms, simp add: s, simp add: s, subst tx.get_puts; simp add: s)
  show "LE_BITS_TO_4BYTE d OFFSET_8812 = 40"
    by (subst assms, simp add: s, simp add: s, subst tx.get_puts; simp add: s)
  show "LE_BITS_TO_4BYTE d FIRST_SEG_8812 = 1"
    by (subst assms, simp add: s, simp add: s, subst tx.get_puts; simp add: s)
  show "LE_BITS_TO_4BYTE d LAST_SEG_8812 = 1"
    by (subst assms, simp add: s, simp add: s, subst tx.get_puts; simp add: s)
  show "LE_BITS_TO_4BYTE d OWN_8812 = of_bool (\<not> v)"
    by (subst assms, simp add: s, simp add: s, subst tx.get_puts; simp add: s z0)
  show "LE_BITS_TO_4BYTE d TX_RATE_8812 = ucast (MRateToHwRate (fixed_rate p))"
    by (subst assms, simp add: s, simp add: s, subst tx.get_puts; simp add: s)
  show "LE_BITS_TO_4BYTE d DATA_BW_8812 = BWSettingOfDesc (tp_bwidth p)"
    by (subst assms, simp add: s, simp add: s, subst tx.get_puts; simp add: s)
  show "LE_BITS_TO_4BYTE d DATA_SHORT_8812 = of_bool (tp_sgi p \<noteq> 0)"
    by (subst assms, simp add: s, simp add: s, subst tx.get_puts; simp add: s z0)
qed


lemma send_packet_run:
  assumes w: "rd16 packet 2 = Some w" and len: "8 \<le> length packet" "w \<noteq> 0" "unat w < length packet"
    and b: "\<not> has_bit18 packet (unat w)"
  obtains p d where "tx_params_of packet (unat w) = Some p"
    "send_packet device v packet = SendDone (d @ drop (unat w) packet) (device (d @ drop (unat w) packet))"
    "length d = TXDESC_SIZE" "xor_halfwords d = 0"
    "\<And>f. field_ok TXDESC_SIZE f \<Longrightarrow> fdisj TX_CHECKSUM f \<Longrightarrow> LE_BITS_TO_4BYTE d f =
      LE_BITS_TO_4BYTE (fold (\<lambda>(f, v). put_bits f v)
        (send_sets v (length packet - unat w) (unat w \<noteq> 0x0d) p) (replicate TXDESC_SIZE 0)) f"
proof -
  obtain p where p: "tx_params_of packet (unat w) = Some p"
    using tx_params_defined [OF w _ b] len by auto
  obtain d where d:
    "Option.bind (run_sets (send_sets v (length packet - unat w) (unat w \<noteq> 0x0d) p)
       (replicate (length packet - unat w + TXDESC_SIZE) 0)) rtl8812a_cal_txdesc_chksum
      = Some (d @ replicate (length packet - unat w) 0)"
    "length d = TXDESC_SIZE" "xor_halfwords d = 0"
    "\<And>f. field_ok TXDESC_SIZE f \<Longrightarrow> fdisj TX_CHECKSUM f \<Longrightarrow>
      LE_BITS_TO_4BYTE d f = LE_BITS_TO_4BYTE (fold (\<lambda>(f, v). put_bits f v)
        (send_sets v (length packet - unat w) (unat w \<noteq> 0x0d) p) (replicate TXDESC_SIZE 0)) f"
    using send_descriptor [of v "length packet - unat w" "unat w \<noteq> 0x0d" p] by blast
  have "unat w \<noteq> 0" using len(2) by (simp add: unat_eq_zero)
  then have "send_packet device v packet = SendDone (d @ drop (unat w) packet) (device (d @ drop (unat w) packet))"
    using w len p d(1,2) by (simp add: send_packet_def Let_def)
  with p d(2-) show thesis using that by blast
qed

text \<open>
  C10: injection sends what it is given. For every packet with a radiotap length inside the packet
  and no present bit 18, \<open>send_packet\<close> runs without an access outside its buffers and hands the
  device one descriptor of 40 bytes followed by exactly the 802.11 frame; the descriptor verifies
  its checksum, describes a single-segment frame of that length behind 40 bytes, and carries the
  rate, guard interval and bandwidth setting of the header's arguments.
\<close>

theorem send_packet_frame:
  assumes "rd16 packet 2 = Some w" and "8 \<le> length packet" and "w \<noteq> 0" and "unat w < length packet"
    and "\<not> has_bit18 packet (unat w)"
  shows "\<exists>p d. tx_params_of packet (unat w) = Some p \<and>
    send_packet device v packet = SendDone (d @ drop (unat w) packet) (device (d @ drop (unat w) packet)) \<and>
    length d = TXDESC_SIZE \<and> xor_halfwords d = 0 \<and>
    LE_BITS_TO_4BYTE d PKT_SIZE_8812 = take_bit 16 (of_nat (length packet - unat w)) \<and>
    LE_BITS_TO_4BYTE d OFFSET_8812 = 40 \<and>
    LE_BITS_TO_4BYTE d FIRST_SEG_8812 = 1 \<and> LE_BITS_TO_4BYTE d LAST_SEG_8812 = 1 \<and>
    LE_BITS_TO_4BYTE d OWN_8812 = of_bool (\<not> v) \<and>
    LE_BITS_TO_4BYTE d TX_RATE_8812 = ucast (MRateToHwRate (fixed_rate p)) \<and>
    LE_BITS_TO_4BYTE d DATA_SHORT_8812 = of_bool (tp_sgi p \<noteq> 0) \<and>
    LE_BITS_TO_4BYTE d DATA_BW_8812 = BWSettingOfDesc (tp_bwidth p)"
proof -
  obtain p d where *: "tx_params_of packet (unat w) = Some p"
    "send_packet device v packet = SendDone (d @ drop (unat w) packet) (device (d @ drop (unat w) packet))"
    "length d = TXDESC_SIZE" "xor_halfwords d = 0"
    "\<And>f. field_ok TXDESC_SIZE f \<Longrightarrow> fdisj TX_CHECKSUM f \<Longrightarrow> LE_BITS_TO_4BYTE d f =
      LE_BITS_TO_4BYTE (fold (\<lambda>(f, v). put_bits f v)
        (send_sets v (length packet - unat w) (unat w \<noteq> 0x0d) p) (replicate TXDESC_SIZE 0)) f"
    using send_packet_run [OF assms] by blast
  show ?thesis using *(1-4) send_fields [OF *(5)] by blast
qed

text \<open>The header the wfb transmitter puts in front of HT frames: TX flags and MCS.\<close>

definition ht_header :: "u8 \<Rightarrow> u8 \<Rightarrow> u8 \<Rightarrow> u8 \<Rightarrow> u8 \<Rightarrow> bytes" where
  "ht_header f0 f1 known flags mcs = [0, 0, 0x0d, 0, 0, 0x80, 0x08, 0, f0, f1, known, flags, mcs]"

lemma length_ht_header [simp]: "length (ht_header f0 f1 known flags mcs) = 13"
  by (simp add: ht_header_def)

lemma ht_bitmap: "rt_bitmap (ht_header f0 f1 known flags mcs @ q) 0 = 0x88000"
  by (simp add: rt_bitmap_def ht_header_def slice_def le_word_def)

lemma ht_no_bit18: "\<not> has_bit18 (ht_header f0 f1 known flags mcs @ q) mx"
proof
  assume "has_bit18 (ht_header f0 f1 known flags mcs @ q) mx"
  then obtain k where "\<forall>j<k. bit (rt_bitmap (ht_header f0 f1 known flags mcs @ q) j) IEEE80211_RADIOTAP_EXT"
    "bit (rt_bitmap (ht_header f0 f1 known flags mcs @ q) k) 18" by (auto simp: has_bit18_def)
  then show False by (cases k) (auto simp: ht_bitmap)
qed

lemma ht_params:
  "tx_params_of (ht_header f0 f1 known flags mcs @ q) 13 =
     Some (mcs_arg flags (tx_defaults\<lparr>tp_txflags := le_word [f0, f1]\<rparr>))"
  by (simp add: tx_params_of_def ieee80211_radiotap_iterator_init_def rd_def rd16_def rd32_def
      rd_slice_def slice_def le_word_def fresh_iterator_def ht_header_def
      tx_args.simps ieee80211_radiotap_iterator_next.simps radiotap_step_def next_entry_def
      arg_layout_def radiotap_ns_def rtap_namespace_sizes_def Let_def align_up_def commit_arg_def
      tx_arg_def)

text \<open>
  An HT frame of the wfb transmitter goes out at 1 Mb/s whatever MCS its header asks for: for
  every TX flags, every MCS argument and every payload the descriptor's rate is that of 1 Mb/s,
  because the MCS index of the argument is never read; guard interval and bandwidth do follow the
  flags of the argument.
\<close>

theorem ht_mcs_index_ignored:
  assumes "q \<noteq> []"
  shows "\<exists>d. send_packet device v (ht_header f0 f1 known flags mcs @ q) = SendDone (d @ q) (device (d @ q)) \<and>
    length d = TXDESC_SIZE \<and> xor_halfwords d = 0 \<and>
    LE_BITS_TO_4BYTE d TX_RATE_8812 = ucast DESC_RATE1M \<and>
    LE_BITS_TO_4BYTE d DATA_SHORT_8812 = of_bool (flags AND 4 \<noteq> 0) \<and>
    LE_BITS_TO_4BYTE d DATA_BW_8812 = of_bool (flags AND 3 = 1)"
proof -
  let ?p = "ht_header f0 f1 known flags mcs @ q"
  have w: "rd16 ?p 2 = Some 13"
    by (simp add: rd16_def rd_slice_def ht_header_def slice_def le_word_def)
  have l: "8 \<le> length ?p" "(13 :: u16) \<noteq> 0" "unat (13 :: u16) < length ?p" "drop (unat (13 :: u16)) ?p = q"
    using assms by (simp_all add: ht_header_def)
  obtain p d where *: "tx_params_of ?p (unat (13 :: u16)) = Some p"
    "send_packet device v ?p = SendDone (d @ drop (unat (13 :: u16)) ?p) (device (d @ drop (unat (13 :: u16)) ?p))"
    "length d = TXDESC_SIZE" "xor_halfwords d = 0"
    "\<And>f. field_ok TXDESC_SIZE f \<Longrightarrow> fdisj TX_CHECKSUM f \<Longrightarrow> LE_BITS_TO_4BYTE d f =
      LE_BITS_TO_4BYTE (fold (\<lambda>(f, v). put_bits f v)
        (send_sets v (length ?p - unat (13 :: u16)) (unat (13 :: u16) \<noteq> 0x0d) p) (replicate TXDESC_SIZE 0)) f"
    using send_packet_run [OF w l(1-3) ht_no_bit18] by blast
  have p: "p = mcs_arg flags (tx_defaults\<lparr>tp_txflags := le_word [f0, f1]\<rparr>)"
    using *(1) ht_params [of f0 f1 known flags mcs q] by simp
  have "MRateToHwRate MGN_1M = DESC_RATE1M" by (simp add: MRateToHwRate_def rate_table_def)
  then show ?thesis
    using *(2-4) send_fields [OF *(5)] l(4)
    by (auto simp: p mcs_arg_def tx_defaults_def BWSettingOfDesc_def Let_def)
qed

theorem ht_mcs_index_ignored_witness:
  "\<exists>d. send_packet (\<lambda>_. True) False (ht_header 8 0 0x37 0 7 @ [0xAA]) = SendDone (d @ [0xAA]) True \<and>
    LE_BITS_TO_4BYTE d TX_RATE_8812 = 0"
  using ht_mcs_index_ignored [where q = "[0xAA]" and device = "\<lambda>_. True" and v = False and ?f0.0 = 8
      and ?f1.0 = 0 and known = "0x37" and flags = 0 and mcs = 7] by auto

theorem send_packet_frame_witness:
  "\<exists>d. send_packet (\<lambda>_. True) True (ht_header 8 0 0x37 1 7 @ [0xAA]) = SendDone (d @ [0xAA]) True \<and>
    LE_BITS_TO_4BYTE d PKT_SIZE_8812 = 1 \<and> LE_BITS_TO_4BYTE d OWN_8812 = 0"
proof -
  let ?p = "ht_header 8 0 0x37 1 7 @ [0xAA]"
  have w: "rd16 ?p 2 = Some 13"
    by (simp add: rd16_def rd_slice_def ht_header_def slice_def le_word_def)
  have "8 \<le> length ?p" "(13 :: u16) \<noteq> 0" "unat (13 :: u16) < length ?p" "drop (unat (13 :: u16)) ?p = [0xAA]"
    "length ?p = 14"
    by (simp_all add: ht_header_def)
  with send_packet_frame [OF w _ _ _ ht_no_bit18, of "\<lambda>_. True" True] show ?thesis by auto
qed

text \<open>
  The bandwidth of a VHT argument is lost. The argument is decoded to 20, 40 or 80 and then
  compared with the enumeration codes 1 and 2, so that whenever it announces a bandwidth the
  descriptor asks for 20 MHz.
\<close>

theorem vht_bandwidth_lost:
  assumes "(a ! 0) AND 0x40 \<noteq> 0"
  shows "tp_bwidth (vht_arg a p) \<in> {20, 40, 80} \<and> BWSettingOfDesc (tp_bwidth (vht_arg a p)) = 0"
  using assms by (auto simp: vht_arg_def BWSettingOfDesc_def Let_def)

theorem vht_bandwidth_lost_witness:
  "tp_bwidth (vht_arg [0x44, 0, 4, 4, 0x11, 0, 0, 0, 0] tx_defaults) = 80 \<and>
   BWSettingOfDesc (tp_bwidth (vht_arg [0x44, 0, 4, 4, 0x11, 0, 0, 0, 0] tx_defaults)) = 0"
proof
  show "tp_bwidth (vht_arg [0x44, 0, 4, 4, 0x11, 0, 0, 0, 0] tx_defaults) = 80"
    by (simp add: vht_arg_def Let_def)
  show "BWSettingOfDesc (tp_bwidth (vht_arg [0x44, 0, 4, 4, 0x11, 0, 0, 0, 0] tx_defaults)) = 0"
    using vht_bandwidth_lost [of "[0x44, 0, 4, 4, 0x11, 0, 0, 0, 0]" tx_defaults] by simp
qed

end
