(* ===== verification/RegIo.thy ===== *)
theory RegIo
  imports UsbIo
begin

text \<open>
  Programs over registers. Sequencing with the exception of a failed read (\<open>io\<close>), the masked
  register access of src/RtlUsbAdapter.cpp and src/RadioManagementModule.cpp, and what a program
  computes on a register memory (\<open>computes\<close>): the refinement the register sequences of the driver
  are proved against.
\<close>

section \<open>Masked register access\<close>

abbreviation (input) bMaskDWord :: u32 where "bMaskDWord \<equiv> 0xFFFFFFFF"

definition PHY_CalculateBitShift :: "u32 \<Rightarrow> nat" where
  "PHY_CalculateBitShift BitMask =
    (case find (\<lambda>i. drop_bit i BitMask AND 1 = 1) [0..<32] of Some i \<Rightarrow> i | None \<Rightarrow> 32)"

definition masked :: "u32 \<Rightarrow> u32 \<Rightarrow> u32 \<Rightarrow> u32" where
  "masked orig bitMask data =
    (orig AND NOT bitMask) OR (push_bit (PHY_CalculateBitShift bitMask) data AND bitMask)"

definition PHY_SetBBReg8812 ::
    "'h usb \<Rightarrow> u16 \<Rightarrow> u32 \<Rightarrow> u32 \<Rightarrow> 'h \<Rightarrow> (usb_error + unit) \<times> 'h" where
  "PHY_SetBBReg8812 dev regAddr bitMask dataOriginal h =
    (if bitMask \<noteq> bMaskDWord then
       (case rtw_read32 dev regAddr h of
          (Inl e, h') \<Rightarrow> (Inl e, h')
        | (Inr orig, h') \<Rightarrow> (Inr (), snd (rtw_write32 dev regAddr (masked orig bitMask dataOriginal) h')))
     else (Inr (), snd (rtw_write32 dev regAddr dataOriginal h)))"

definition PHY_QueryBBReg8812 :: "'h usb \<Rightarrow> u16 \<Rightarrow> u32 \<Rightarrow> 'h \<Rightarrow> (usb_error + u32) \<times> 'h" where
  "PHY_QueryBBReg8812 dev regAddr bitMask h =
    apfst (map_sum id (\<lambda>v. drop_bit (PHY_CalculateBitShift bitMask) (v AND bitMask))) (rtw_read32 dev regAddr h)"

section \<open>A masked write reads back\<close>

lemma find_first_bit:
  assumes "(m :: u32) \<noteq> 0"
  shows "PHY_CalculateBitShift m < 32 \<and> bit m (PHY_CalculateBitShift m) \<and>
    (\<forall>j<PHY_CalculateBitShift m. \<not> bit m j)"
proof -
  have odd: "drop_bit i m AND 1 = 1 \<longleftrightarrow> bit m i" for i
    by (simp add: and_one_eq bit_iff_odd_drop_bit odd_iff_mod_2_eq_one)
  from assms obtain n where n: "n < 32" "bit m n"
    using bit_word_eqI [of m 0] by auto
  then obtain i where i: "find (bit m) [0..<32] = Some i"
    by (cases "find (bit m) [0..<32]") (auto simp: find_None_iff)
  then have "PHY_CalculateBitShift m = i" by (simp add: PHY_CalculateBitShift_def odd)
  then show ?thesis using i by (auto simp: find_Some_iff)
qed

lemma masked_same:
  assumes "bitMask \<noteq> 0" and "push_bit (PHY_CalculateBitShift bitMask) data AND NOT bitMask = 0"
    and "drop_bit (32 - PHY_CalculateBitShift bitMask) data = 0"
  shows "drop_bit (PHY_CalculateBitShift bitMask) (masked orig bitMask data AND bitMask) = data"
proof (rule bit_word_eqI)
  let ?s = "PHY_CalculateBitShift bitMask"
  fix n assume n: "n < LENGTH(32)"
  have s: "?s < 32" using find_first_bit [OF assms(1)] by simp
  have fits: "bit bitMask (?s + n)" if "?s + n < 32" "bit data n"
  proof (rule ccontr)
    assume "\<not> bit bitMask (?s + n)"
    then have "bit (push_bit ?s data AND NOT bitMask) (?s + n)" using that by (simp add: bit_simps)
    then show False using assms(2) by simp
  qed
  have high: "\<not> bit data n" if "32 \<le> ?s + n"
  proof
    assume "bit data n"
    then have "bit (drop_bit (32 - ?s) data) (n - (32 - ?s))" using that s by (simp add: bit_simps)
    then show False using assms(3) by simp
  qed
  show "bit (drop_bit ?s (masked orig bitMask data AND bitMask)) n = bit data n"
    using fits high n by (cases "?s + n < 32") (auto simp: masked_def bit_simps dest: bit_imp_le_length)
qed


text \<open>The plain register memory: a write stores its bytes.\<close>

definition store :: "u16 \<Rightarrow> bytes \<Rightarrow> regs \<Rightarrow> regs" where
  "store a bs r = (\<lambda>x. if unat (x - a) < length bs then bs ! unat (x - a) else r x)"

definition reg32 :: "regs \<Rightarrow> u16 \<Rightarrow> u32" where
  "reg32 r a = le_word (map (\<lambda>i. r (a + of_nat i)) [0..<4])"

lemma reg32_store [simp]: "reg32 (store a (le_bytes 4 v) r) a = v"
proof -
  have "unat (of_nat i :: u16) = i" if "i < 4" for i using that by (simp add: unat_of_nat)
  then have "map (\<lambda>i. store a (le_bytes 4 v) r (a + of_nat i)) [0..<4] = le_bytes 4 v"
    by (intro nth_equalityI) (simp_all add: store_def)
  then show ?thesis by (simp add: reg32_def le_word_le_bytes)
qed

lemma sync_read32:
  assumes "sync_device dev reg react"
  shows "fst (rtw_read32 dev a h) = Inr (reg32 (reg h) a)" and "reg (snd (rtw_read32 dev a h)) = reg h"
  using sync_read [OF assms, of a 4 h] by (simp_all add: rtw_read32_def reg32_def)

lemma sync_write32:
  "sync_device dev reg react \<Longrightarrow> reg (snd (rtw_write32 dev a v h)) = react a (le_bytes 4 v) (reg h)"
  by (simp add: rtw_write32_def sync_write)

lemma set_bb_reg_sync:
  assumes "sync_device dev reg store"
  obtains h' where "PHY_SetBBReg8812 dev a m d h = (Inr (), h')"
    "reg h' = store a (le_bytes 4 (masked (reg32 (reg h) a) m d)) (reg h)"
proof (cases "m = bMaskDWord")
  case True
  have "PHY_CalculateBitShift bMaskDWord = 0" by code_simp
  moreover have m1: "bMaskDWord = (-1 :: u32)" by simp
  ultimately have "masked (reg32 (reg h) a) m d = d"
    using True by (simp add: masked_def m1)
  then show ?thesis
    using that True sync_write32 [OF assms, of a d h] by (simp add: PHY_SetBBReg8812_def)
next
  case False
  obtain h1 where h1: "rtw_read32 dev a h = (Inr (reg32 (reg h) a), h1)" "reg h1 = reg h"
    using sync_read32 [OF assms, of a h] by (metis prod.collapse)
  then show ?thesis
    using that False sync_write32 [OF assms, of a _ h1] by (simp add: PHY_SetBBReg8812_def)
qed

lemma query_bb_reg_sync:
  assumes "sync_device dev reg react"
  shows "fst (PHY_QueryBBReg8812 dev a m h) =
    Inr (drop_bit (PHY_CalculateBitShift m) (reg32 (reg h) a AND m))"
  using sync_read32(1) [OF assms, of a h] by (simp add: PHY_QueryBBReg8812_def)

text \<open>
  A baseband field is written alone and reads back. On a chip that stores what is written, for
  every mask and every value that fits the mask, the masked write succeeds, the query with the
  same mask returns the value, the query with any disjoint mask returns what it returned before,
  and no byte outside the register changes.
\<close>

theorem bb_reg_roundtrip:
  assumes "sync_device dev reg store" and "m \<noteq> 0"
    and "push_bit (PHY_CalculateBitShift m) d AND NOT m = 0"
    and "drop_bit (32 - PHY_CalculateBitShift m) d = 0"
  shows "\<exists>h'. PHY_SetBBReg8812 dev a m d h = (Inr (), h') \<and>
    fst (PHY_QueryBBReg8812 dev a m h') = Inr d \<and>
    (\<forall>m'. m AND m' = 0 \<longrightarrow> fst (PHY_QueryBBReg8812 dev a m' h') = fst (PHY_QueryBBReg8812 dev a m' h)) \<and>
    (\<forall>x. 4 \<le> unat (x - a) \<longrightarrow> reg h' x = reg h x)"
proof -
  obtain h' where h': "PHY_SetBBReg8812 dev a m d h = (Inr (), h')"
    "reg h' = store a (le_bytes 4 (masked (reg32 (reg h) a) m d)) (reg h)"
    by (rule set_bb_reg_sync [OF assms(1)])
  have other: "masked v m d AND m' = v AND m'" if "m AND m' = 0" for v m'
  proof (rule bit_word_eqI)
    fix n assume n: "n < LENGTH(32)"
    have "\<not> (bit m n \<and> bit m' n)" using that by (metis bit_and_iff bit_0_eq bot_apply bot_bool_def)
    then show "bit (masked v m d AND m') n = bit (v AND m') n"
      using n by (auto simp: masked_def bit_simps)
  qed
  have r: "reg32 (reg h') a = masked (reg32 (reg h) a) m d" using h'(2) by simp
  have "\<forall>x. 4 \<le> unat (x - a) \<longrightarrow> reg h' x = reg h x" using h'(2) by (simp add: store_def)
  moreover have "fst (PHY_QueryBBReg8812 dev a m h') = Inr d"
    unfolding query_bb_reg_sync [OF assms(1)] r masked_same [OF assms(2-4)] by (rule refl)
  moreover have "fst (PHY_QueryBBReg8812 dev a m' h') = fst (PHY_QueryBBReg8812 dev a m' h)"
    if "m AND m' = 0" for m'
    unfolding query_bb_reg_sync [OF assms(1)] r other [OF that] by (rule refl)
  ultimately show ?thesis using h'(1) by blast
qed

theorem bb_reg_roundtrip_witness:
  "\<exists>r'. PHY_SetBBReg8812 (reg_file store) 0xE00 0xF0 9 (\<lambda>_. 0x5A) = (Inr (), r') \<and>
    fst (PHY_QueryBBReg8812 (reg_file store) 0xE00 0xF0 r') = Inr 9 \<and> r' 0x100 = 0x5A"
proof -
  have s: "PHY_CalculateBitShift 0xF0 = 4" by code_simp
  have "unat (0x100 - 0xE00 :: u16) \<ge> 4" by simp
  then show ?thesis
    using bb_reg_roundtrip [OF sync_reg_file, of "0xF0" 9 "0xE00" "\<lambda>_. 0x5A"]
    by (auto simp: s)
qed


section \<open>Register programs\<close>

type_synonym ('h, 'a) io = "'h \<Rightarrow> (usb_error + 'a) \<times> 'h"

definition io_return :: "'a \<Rightarrow> ('h, 'a) io" where
  "io_return x h = (Inr x, h)"

definition io_bind :: "('h, 'a) io \<Rightarrow> ('a \<Rightarrow> ('h, 'b) io) \<Rightarrow> ('h, 'b) io" where
  "io_bind m k h = (case m h of (Inl e, h') \<Rightarrow> (Inl e, h') | (Inr x, h') \<Rightarrow> k x h')"

definition io_then :: "('h, 'a) io \<Rightarrow> ('h, 'b) io \<Rightarrow> ('h, 'b) io" where
  "io_then m n = io_bind m (\<lambda>_. n)"

definition io_when :: "bool \<Rightarrow> ('h, unit) io \<Rightarrow> ('h, unit) io" where
  "io_when b m = (if b then m else io_return ())"

text \<open>Statements in a row, and the writes, whose result no caller here looks at.\<close>

fun io_seq :: "('h, unit) io list \<Rightarrow> ('h, unit) io" where
  "io_seq [] = io_return ()"
| "io_seq (m # ms) = io_then m (io_seq ms)"

definition wr8 :: "'h usb \<Rightarrow> u16 \<Rightarrow> u8 \<Rightarrow> ('h, unit) io" where
  "wr8 dev a v h = (Inr (), snd (rtw_write8 dev a v h))"

definition wr16 :: "'h usb \<Rightarrow> u16 \<Rightarrow> u16 \<Rightarrow> ('h, unit) io" where
  "wr16 dev a v h = (Inr (), snd (rtw_write16 dev a v h))"

definition wr32 :: "'h usb \<Rightarrow> u16 \<Rightarrow> u32 \<Rightarrow> ('h, unit) io" where
  "wr32 dev a v h = (Inr (), snd (rtw_write32 dev a v h))"

definition pause_us :: "'h usb \<Rightarrow> nat \<Rightarrow> ('h, unit) io" where
  "pause_us dev n h = (Inr (), sleep_us dev n h)"

section \<open>What a program computes on the chip\<close>

text \<open>
  \<open>computes st m f\<close>: the program never throws, and seen through the abstraction \<open>st\<close> of the device
  state it is the function \<open>f\<close>. The rules below compute \<open>f\<close> along the syntax of the program.
\<close>

definition computes :: "('h \<Rightarrow> 's) \<Rightarrow> ('h, 'a) io \<Rightarrow> ('s \<Rightarrow> 'a \<times> 's) \<Rightarrow> bool" where
  "computes st m f \<longleftrightarrow> (\<forall>h. \<exists>h'. m h = (Inr (fst (f (st h))), h') \<and> st h' = snd (f (st h)))"

lemma computesI:
  assumes "\<And>h. fst (m h) = Inr (fst (f (reg h)))" and "\<And>h. reg (snd (m h)) = snd (f (reg h))"
  shows "computes reg m f"
  using assms unfolding computes_def by (metis prod.collapse)

lemma computesE:
  assumes "computes reg m f"
  obtains h' where "m h = (Inr (fst (f (reg h))), h')" and "reg h' = snd (f (reg h))"
  using assms unfolding computes_def by blast

named_theorems computes_rules

lemma computes_return [computes_rules]: "computes reg (io_return x) (\<lambda>r. (x, r))"
  by (rule computesI) (simp_all add: io_return_def)

lemma computes_bind [computes_rules]:
  assumes "computes reg m f" and "\<And>x. computes reg (k x) (g x)"
  shows "computes reg (io_bind m k) (\<lambda>r. g (fst (f r)) (snd (f r)))"
  unfolding computes_def
proof
  fix h
  obtain h1 where h1: "m h = (Inr (fst (f (reg h))), h1)" "reg h1 = snd (f (reg h))"
    by (rule computesE [OF assms(1)])
  obtain h2 where "k (fst (f (reg h))) h1 = (Inr (fst (g (fst (f (reg h))) (reg h1))), h2)"
    "reg h2 = snd (g (fst (f (reg h))) (reg h1))"
    by (rule computesE [OF assms(2)])
  then show "\<exists>h'. io_bind m k h = (Inr (fst (g (fst (f (reg h))) (snd (f (reg h))))), h') \<and>
      reg h' = snd (g (fst (f (reg h))) (snd (f (reg h))))"
    using h1 by (simp add: io_bind_def)
qed

lemma computes_then [computes_rules]:
  assumes "computes reg m f" and "computes reg n g"
  shows "computes reg (io_then m n) (\<lambda>r. g (snd (f r)))"
  unfolding io_then_def by (rule computes_bind [OF assms(1)]) (rule assms(2))

lemma computes_when [computes_rules]:
  assumes "computes reg m f"
  shows "computes reg (io_when b m) (\<lambda>r. if b then f r else ((), r))"
  using assms by (cases b) (simp_all add: io_when_def computes_return)

lemma computes_if [computes_rules]:
  assumes "computes reg m f" and "computes reg n g"
  shows "computes reg (if b then m else n) (\<lambda>r. if b then f r else g r)"
  using assms by simp

lemma computes_seq:
  assumes "list_all2 (computes reg) ms fs"
  shows "computes reg (io_seq ms) (\<lambda>r. ((), fold (\<lambda>f r. snd (f r)) fs r))"
  using assms
proof (induction rule: list_all2_induct)
  case Nil
  then show ?case by (simp add: computes_return)
next
  case (Cons m ms f fs)
  then show ?case using computes_then [OF Cons(1) Cons(3)] by simp
qed

text \<open>
  \<open>wp m Q h\<close>: from \<open>h\<close> the program ends without an exception, with a result and a state that satisfy
  \<open>Q\<close>. It follows the program text; what a program computes is used at its calls.
\<close>

definition wp :: "('h, 'a) io \<Rightarrow> ('a \<Rightarrow> 'h \<Rightarrow> bool) \<Rightarrow> 'h \<Rightarrow> bool" where
  "wp m Q h \<longleftrightarrow> (\<exists>x h'. m h = (Inr x, h') \<and> Q x h')"

lemma wp_return [simp]: "wp (io_return x) Q h = Q x h"
  by (simp add: wp_def io_return_def)

lemma wp_bind [simp]: "wp (io_bind m k) Q h = wp m (\<lambda>x. wp (k x) Q) h"
  by (simp add: wp_def io_bind_def split: prod.split sum.split)

lemma wp_then [simp]: "wp (io_then m n) Q h = wp m (\<lambda>_. wp n Q) h"
  by (simp add: io_then_def)

lemma wp_when: "wp (io_when b m) Q h = (if b then wp m Q h else Q () h)"
  by (simp add: io_when_def)

lemma wp_computes:
  assumes "computes st m f" and "\<And>h'. st h' = snd (f (st h)) \<Longrightarrow> Q (fst (f (st h))) h'"
  shows "wp m Q h"
  using assms unfolding computes_def wp_def by blast

lemma wp_mono: "wp m P h \<Longrightarrow> (\<And>x h'. P x h' \<Longrightarrow> Q x h') \<Longrightarrow> wp m Q h"
  unfolding wp_def by blast

text \<open>
  The accesses themselves. A chip has a state of which reads show registers through \<open>obs\<close>; a read
  or a pause changes nothing, a write changes the state by \<open>react\<close>.
\<close>

definition chip_device ::
    "'h usb \<Rightarrow> ('h \<Rightarrow> 's) \<Rightarrow> ('s \<Rightarrow> regs) \<Rightarrow> (u16 \<Rightarrow> bytes \<Rightarrow> 's \<Rightarrow> 's) \<Rightarrow> bool" where
  "chip_device dev st obs react \<longleftrightarrow>
    (\<forall>a n h. fst (ctrl_in dev a n h) = (int n, map (\<lambda>i. obs (st h) (a + of_nat i)) [0..<n])) \<and>
    (\<forall>a n h. st (snd (ctrl_in dev a n h)) = st h) \<and>
    (\<forall>a bs h. st (snd (ctrl_out dev a bs h)) = react a bs (st h)) \<and>
    (\<forall>n h. st (sleep_us dev n h) = st h)"

definition chip_usb :: "('s \<Rightarrow> regs) \<Rightarrow> (u16 \<Rightarrow> bytes \<Rightarrow> 's \<Rightarrow> 's) \<Rightarrow> 's usb" where
  "chip_usb obs react =
    \<lparr>ctrl_in = \<lambda>a n s. ((int n, map (\<lambda>i. obs s (a + of_nat i)) [0..<n]), s),
     ctrl_out = \<lambda>a bs s. (int (length bs), react a bs s),
     sleep_us = \<lambda>n s. s\<rparr>"

lemma chip_chip_usb [simp]: "chip_device (chip_usb obs react) (\<lambda>s. s) obs react"
  by (simp add: chip_device_def chip_usb_def)

lemma sync_device_chip: "sync_device dev reg react \<longleftrightarrow> chip_device dev reg (\<lambda>r. r) react"
  by (simp add: sync_device_def chip_device_def)

lemma upt_2_4: "[0..<2] = [0, 1 :: nat]" "[0..<4] = [0, 1, 2, 3 :: nat]"
  by (simp_all add: upt_rec)

locale chip =
  fixes dev :: "'h usb" and st :: "'h \<Rightarrow> 's" and obs :: "'s \<Rightarrow> regs"
    and react :: "u16 \<Rightarrow> bytes \<Rightarrow> 's \<Rightarrow> 's"
  assumes chip: "chip_device dev st obs react"
begin

lemma read_bytes: "fst (rtw_read dev a n h) = Inr (map (\<lambda>i. obs (st h) (a + of_nat i)) [0..<n])"
    "st (snd (rtw_read dev a n h)) = st h"
  using chip by (auto simp: chip_device_def rtw_read_def eval_nat_numeral split_beta)

lemma write_bytes: "st (snd (rtw_write dev a bs h)) = react a bs (st h)"
  using chip by (simp add: chip_device_def rtw_write_def split_beta)

lemma read8: "computes st (rtw_read8 dev a) (\<lambda>s. (obs s a, s))"
  by (rule computesI) (simp_all add: rtw_read8_def read_bytes le_word_def)

lemma read16: "computes st (rtw_read16 dev a) (\<lambda>s. (le_word [obs s a, obs s (a + 1)], s))"
  by (rule computesI) (simp_all add: rtw_read16_def read_bytes upt_2_4)

lemma read32: "computes st (rtw_read32 dev a) (\<lambda>s. (reg32 (obs s) a, s))"
  by (rule computesI) (simp_all add: rtw_read32_def read_bytes reg32_def)

lemma write8: "computes st (wr8 dev a v) (\<lambda>s. ((), react a [v] s))"
  by (rule computesI) (simp_all add: wr8_def rtw_write8_def write_bytes)

lemma write16: "computes st (wr16 dev a v) (\<lambda>s. ((), react a (le_bytes 2 v) s))"
  by (rule computesI) (simp_all add: wr16_def rtw_write16_def write_bytes)

lemma write32: "computes st (wr32 dev a v) (\<lambda>s. ((), react a (le_bytes 4 v) s))"
  by (rule computesI) (simp_all add: wr32_def rtw_write32_def write_bytes)

lemma pause: "computes st (pause_us dev n) (\<lambda>s. ((), s))"
  using chip by (intro computesI) (simp_all add: pause_us_def chip_device_def)

lemma query_bb: "computes st (PHY_QueryBBReg8812 dev a m)
    (\<lambda>s. (drop_bit (PHY_CalculateBitShift m) (reg32 (obs s) a AND m), s))"
  by (rule computesI) (simp_all add: PHY_QueryBBReg8812_def rtw_read32_def read_bytes reg32_def)

lemma set_bb: "computes st (PHY_SetBBReg8812 dev a m d)
    (\<lambda>s. ((), react a (le_bytes 4 (if m = bMaskDWord then d else masked (reg32 (obs s) a) m d)) s))"
proof -
  have eq: "PHY_SetBBReg8812 dev a m d =
      (if m \<noteq> bMaskDWord then io_bind (rtw_read32 dev a) (\<lambda>v. wr32 dev a (masked v m d)) else wr32 dev a d)"
    by (rule ext) (simp add: PHY_SetBBReg8812_def io_bind_def wr32_def split: prod.split sum.split)
  have "computes st (io_bind (rtw_read32 dev a) (\<lambda>v. wr32 dev a (masked v m d)))
      (\<lambda>s. ((), react a (le_bytes 4 (masked (reg32 (obs s) a) m d)) s))"
    using computes_bind [OF read32 [of a], of "\<lambda>v. wr32 dev a (masked v m d)"] write32 by fastforce
  then show ?thesis using write32 by (simp add: eq)
qed

lemmas accesses = read8 read16 read32 write8 write16 write32 pause query_bb set_bb

end

text \<open>A register file, and plain memory, are chips.\<close>

locale reg_device = chip dev reg "\<lambda>r. r" react
  for dev :: "'h usb" and reg :: "'h \<Rightarrow> regs" and react :: "u16 \<Rightarrow> bytes \<Rightarrow> regs \<Rightarrow> regs"
begin

lemma sync: "sync_device dev reg react"
  using chip by (simp add: sync_device_chip)

end

interpretation chip_usb: chip "chip_usb obs react" "\<lambda>s. s" obs react for obs react
  by unfold_locales simp

interpretation reg_file: reg_device "reg_file react" id react for react
  by unfold_locales (simp add: sync_device_chip [symmetric])

text \<open>Programs of register accesses on a memory.\<close>

lemma computes_cong: "computes st m f \<Longrightarrow> (\<And>s. f s = g s) \<Longrightarrow> computes st m g"
  unfolding computes_def by simp

lemma sync_chip: "sync_device dev reg store \<Longrightarrow> chip dev reg (\<lambda>r. r) store"
  by (simp add: chip_def sync_device_chip)

lemma store_append:
  assumes "length bs + length cs < 2 ^ 16"
  shows "store (a + of_nat (length bs)) cs (store a bs r) = store a (bs @ cs) r"
proof
  fix x
  have n: "unat (of_nat (length bs) :: u16) = length bs" using assms by (simp add: unat_of_nat)
  have d: "x - (a + of_nat (length bs)) = (x - a) - of_nat (length bs)" by simp
  have u: "unat (x - (a + of_nat (length bs))) = (if length bs \<le> unat (x - a)
      then unat (x - a) - length bs else unat (x - a) + 2 ^ 16 - length bs)"
    unfolding d unat_sub_if' n by simp
  show "store (a + of_nat (length bs)) cs (store a bs r) x = store a (bs @ cs) r x"
    using assms by (auto simp: store_def u nth_append)
qed

lemma store_apply: "store a bs r x = (if unat (x - a) < length bs then bs ! unat (x - a) else r x)"
  by (simp add: store_def)

lemma reg32_store_apart:
  assumes "list_all (\<lambda>i. length bs \<le> unat (a + i - b)) [0, 1, 2, 3]"
  shows "reg32 (store b bs r) a = reg32 r a"
  using assms by (simp add: reg32_def upt_2_4 store_apply)

text \<open>A read-modify-write of a byte, and a chain of programs without result.\<close>

lemma computes_update8:
  assumes "sync_device dev reg store"
  shows "computes reg (io_bind (rtw_read8 dev a) (\<lambda>v. wr8 dev a (f v))) (\<lambda>r. ((), store a [f (r a)] r))"
  by (rule computes_cong, rule computes_bind [OF chip.read8 [OF sync_chip [OF assms]]
      chip.write8 [OF sync_chip [OF assms]]]) simp

lemma computes_chain:
  assumes "computes reg m (\<lambda>r. ((), f r))" and "computes reg n g"
  shows "computes reg (io_then m n) (\<lambda>r. g (f r))"
  by (rule computes_cong, rule computes_then [OF assms]) simp

lemma computes_chain2:
  assumes "computes reg m (\<lambda>r. ((), f r))" and "computes reg n (\<lambda>r. ((), g r))"
  shows "computes reg (io_then m n) (\<lambda>r. ((), g (f r)))"
  by (rule computes_chain [OF assms])

lemma computes_list:
  assumes "\<And>i. computes st (f i) (\<lambda>s. ((), g i s))"
  shows "computes st (io_seq (map f is)) (\<lambda>s. ((), fold g is s))"
proof -
  have "list_all2 (computes st) (map f is) (map (\<lambda>i s. ((), g i s)) is)"
    using assms by (simp add: list_all2_conv_all_nth)
  from computes_seq [OF this] show ?thesis by (simp add: fold_map comp_def)
qed

lemma bit_reg32_low: "n < 8 \<Longrightarrow> bit (reg32 r a) n = bit (r a) n"
  by (simp add: reg32_def bit_le_word upt_2_4)

text \<open>A byte read, changed and written back.\<close>

definition update8 :: "'h usb \<Rightarrow> u16 \<Rightarrow> (u8 \<Rightarrow> u8) \<Rightarrow> ('h, unit) io" where
  "update8 dev a f = io_bind (rtw_read8 dev a) (\<lambda>v. wr8 dev a (f v))"

lemma update8_chip:
  assumes "chip dev st obs react"
  shows "computes st (update8 dev a f) (\<lambda>s. ((), react a [f (obs s a)] s))"
  unfolding update8_def
  by (rule computes_cong, rule computes_bind [OF chip.read8 [OF assms] chip.write8 [OF assms]]) simp

text \<open>A program whose exception is caught, as \<open>try { } catch (...)\<close> around it.\<close>

definition io_catch :: "('h, 'a) io \<Rightarrow> 'a \<Rightarrow> ('h, 'a) io" where
  "io_catch m d h = (case m h of (Inl _, h') \<Rightarrow> (Inr d, h') | (Inr x, h') \<Rightarrow> (Inr x, h'))"

lemma computes_catch:
  assumes "computes st m f"
  shows "computes st (io_catch m d) f"
  unfolding computes_def
proof
  fix h
  obtain h' where "m h = (Inr (fst (f (st h))), h')" "st h' = snd (f (st h))" by (rule computesE [OF assms])
  then show "\<exists>h'. io_catch m d h = (Inr (fst (f (st h))), h') \<and> st h' = snd (f (st h))"
    by (simp add: io_catch_def)
qed

text \<open>A step of the program that ignores the value of a read.\<close>

definition io_void :: "('h, 'a) io \<Rightarrow> ('h, unit) io" where
  "io_void m = io_bind m (\<lambda>_. io_return ())"

lemma computes_void:
  assumes "computes st m (\<lambda>s. (f s, s))"
  shows "computes st (io_void m) (\<lambda>s. ((), s))"
  unfolding io_void_def by (rule computes_cong, rule computes_bind [OF assms computes_return]) simp

end
