(* ===== verification/PhyTable.thy ===== *)
theory PhyTable
  imports Prelude
begin

text \<open>
  The register-table loader of src/PhyTableLoader.cpp. A table is a flat list of word pairs, plain
  entries and the opcodes of conditional blocks; the loader walks it once with two flags. The
  blocks are given a syntax of their own, with the meaning a reader of the table has in mind, and
  the walk is shown to implement it. The writer callback is the list of its calls.
\<close>

section \<open>The loader\<close>

abbreviation (input) BIT_POSITIVE :: u32 where "BIT_POSITIVE \<equiv> 0x80000000"
abbreviation (input) BIT_NEGATIVE :: u32 where "BIT_NEGATIVE \<equiv> 0x40000000"
abbreviation (input) C_COND_MASK :: u32 where "C_COND_MASK \<equiv> 0x30000000"
abbreviation (input) C_COND_SHIFT :: nat where "C_COND_SHIFT \<equiv> 28"
abbreviation (input) COND_IF :: u8 where "COND_IF \<equiv> 0"
abbreviation (input) COND_ELSE_IF :: u8 where "COND_ELSE_IF \<equiv> 1"
abbreviation (input) COND_ELSE :: u8 where "COND_ELSE \<equiv> 2"
abbreviation (input) COND_ENDIF :: u8 where "COND_ENDIF \<equiv> 3"
abbreviation (input) ODM_CUT_A :: u8 where "ODM_CUT_A \<equiv> 0"

record JaguarPhyContext =
  cut_version :: u8
  support_interface :: u8
  support_platform :: u8
  package_type :: u8
  rfe_type :: u8
  type_glna :: u16
  type_gpa :: u16
  type_alna :: u16
  type_apa :: u16

definition driver1 :: "JaguarPhyContext \<Rightarrow> u32" where
  "driver1 ctx =
    (let cut_for_para = (if cut_version ctx = ODM_CUT_A then 15 else cut_version ctx);
         pkg_for_para = (if package_type ctx = 0 then 15 else package_type ctx) in
     push_bit 24 (ucast cut_for_para) OR push_bit 16 (ucast (support_interface ctx) AND 0xF0) OR
     push_bit 16 (ucast (support_platform ctx)) OR push_bit 12 (ucast pkg_for_para) OR
     push_bit 8 (ucast (support_interface ctx) AND 0x0F) OR ucast (rfe_type ctx))"

definition CheckPositive :: "JaguarPhyContext \<Rightarrow> u32 \<Rightarrow> u32 \<Rightarrow> u32 \<Rightarrow> u32 \<Rightarrow> bool" where
  "CheckPositive ctx c1 c2 c3 c4 =
    (if c1 AND 0x0F000000 \<noteq> 0 \<and> c1 AND 0x0F000000 \<noteq> driver1 ctx AND 0x0F000000 then False
     else if c1 AND 0x0000F000 \<noteq> 0 \<and> c1 AND 0x0000F000 \<noteq> driver1 ctx AND 0x0000F000 then False
     else if c1 AND 0x00000F00 \<noteq> 0 \<and> c1 AND 0x00000F00 \<noteq> driver1 ctx AND 0x00000F00 then False
     else c1 AND 0xFF = driver1 ctx AND 0xFF)"

record load_state =
  is_matched :: bool
  is_skipped :: bool
  pre_v1 :: u32
  pre_v2 :: u32

definition load_init :: load_state where
  "load_init = \<lparr>is_matched = True, is_skipped = False, pre_v1 = 0, pre_v2 = 0\<rparr>"

text \<open>One round of the loop: the new flags and the calls of the writer.\<close>

definition load_step ::
    "JaguarPhyContext \<Rightarrow> u32 \<Rightarrow> u32 \<Rightarrow> load_state \<Rightarrow> load_state \<times> (u32 \<times> u32) list" where
  "load_step ctx v1 v2 st =
    (if v1 AND (BIT_POSITIVE OR BIT_NEGATIVE) \<noteq> 0 then
       (if v1 AND BIT_POSITIVE \<noteq> 0 then
          (let c_cond = ucast (drop_bit C_COND_SHIFT (v1 AND C_COND_MASK)) :: u8 in
           if c_cond = COND_ENDIF then (st\<lparr>is_matched := True, is_skipped := False\<rparr>, [])
           else if c_cond = COND_ELSE then (st\<lparr>is_matched := \<not> is_skipped st\<rparr>, [])
           else (st\<lparr>pre_v1 := v1, pre_v2 := v2\<rparr>, []))
        else
          (if \<not> is_skipped st then
             (if CheckPositive ctx (pre_v1 st) (pre_v2 st) v1 v2
              then (st\<lparr>is_matched := True, is_skipped := True\<rparr>, [])
              else (st\<lparr>is_matched := False, is_skipped := False\<rparr>, []))
           else (st\<lparr>is_matched := False\<rparr>, [])))
     else (st, if is_matched st then [(v1, v2)] else []))"

fun load_loop :: "JaguarPhyContext \<Rightarrow> load_state \<Rightarrow> u32 list \<Rightarrow> (u32 \<times> u32) list" where
  "load_loop ctx st (v1 # v2 # t) = (case load_step ctx v1 v2 st of (st', ws) \<Rightarrow> ws @ load_loop ctx st' t)"
| "load_loop ctx st _ = []"

definition Load :: "u32 list \<Rightarrow> JaguarPhyContext \<Rightarrow> (u32 \<times> u32) list" where
  "Load table ctx = load_loop ctx load_init table"

section \<open>The tables as programs\<close>

text \<open>
  An entry of a table is a write or a conditional with its branches, each under the positive half
  of its condition, and the writes of its \<open>ELSE\<close>. The first branch whose condition holds is
  executed.
\<close>

datatype phy_op = OpWrite | OpIf | OpElseIf | OpElse | OpEndif | OpNeg

definition op_of :: "u32 \<Rightarrow> phy_op" where
  "op_of v =
    (if \<not> bit v 31 then (if \<not> bit v 30 then OpWrite else OpNeg)
     else if \<not> bit v 29 then (if \<not> bit v 28 then OpIf else OpElseIf)
     else (if \<not> bit v 28 then OpElse else OpEndif))"

datatype phy_block = Write u32 u32 | Cond "(u32 \<times> (u32 \<times> u32) list) list" "(u32 \<times> u32) list"

definition holds :: "JaguarPhyContext \<Rightarrow> u32 \<Rightarrow> bool" where
  "holds ctx c = CheckPositive ctx c 0 0 0"

fun pick :: "JaguarPhyContext \<Rightarrow> (u32 \<times> (u32 \<times> u32) list) list \<Rightarrow> (u32 \<times> u32) list \<Rightarrow> (u32 \<times> u32) list" where
  "pick ctx [] els = els"
| "pick ctx ((c, ws) # brs) els = (if holds ctx c then ws else pick ctx brs els)"

fun exec_block :: "JaguarPhyContext \<Rightarrow> phy_block \<Rightarrow> (u32 \<times> u32) list" where
  "exec_block ctx (Write a v) = [(a, v)]"
| "exec_block ctx (Cond brs els) = pick ctx brs els"

definition exec_blocks :: "JaguarPhyContext \<Rightarrow> phy_block list \<Rightarrow> (u32 \<times> u32) list" where
  "exec_blocks ctx bs = concat (map (exec_block ctx) bs)"

text \<open>The parser of tables; it accepts no nesting, no write between the halves of a condition.\<close>

datatype parse_mode =
    Top
  | Pos "(u32 \<times> (u32 \<times> u32) list) list" u32
  | InBranch "(u32 \<times> (u32 \<times> u32) list) list" u32 "(u32 \<times> u32) list"
  | InElse "(u32 \<times> (u32 \<times> u32) list) list" "(u32 \<times> u32) list"

fun parse_table :: "parse_mode \<Rightarrow> u32 list \<Rightarrow> phy_block list option" where
  "parse_table m [] = (if m = Top then Some [] else None)"
| "parse_table m [x] = None"
| "parse_table m (v1 # v2 # t) =
    (case (m, op_of v1) of
       (Top, OpWrite) \<Rightarrow> map_option (Cons (Write v1 v2)) (parse_table Top t)
     | (Top, OpIf) \<Rightarrow> parse_table (Pos [] v1) t
     | (Pos brs c, OpNeg) \<Rightarrow> parse_table (InBranch brs c []) t
     | (InBranch brs c ws, OpWrite) \<Rightarrow> parse_table (InBranch brs c (ws @ [(v1, v2)])) t
     | (InBranch brs c ws, OpElseIf) \<Rightarrow> parse_table (Pos (brs @ [(c, ws)]) v1) t
     | (InBranch brs c ws, OpElse) \<Rightarrow> parse_table (InElse (brs @ [(c, ws)]) []) t
     | (InBranch brs c ws, OpEndif) \<Rightarrow> map_option (Cons (Cond (brs @ [(c, ws)]) [])) (parse_table Top t)
     | (InElse brs ws, OpWrite) \<Rightarrow> parse_table (InElse brs (ws @ [(v1, v2)])) t
     | (InElse brs ws, OpEndif) \<Rightarrow> map_option (Cons (Cond brs ws)) (parse_table Top t)
     | _ \<Rightarrow> None)"

section \<open>The walk implements the blocks\<close>

lemma and_bit_31: "v AND 0x80000000 \<noteq> 0 \<longleftrightarrow> bit (v :: u32) 31"
  using and_exp_eq_0_iff_not_bit [of v 31] by simp

lemma and_bits_31_30: "v AND (BIT_POSITIVE OR BIT_NEGATIVE) \<noteq> 0 \<longleftrightarrow> bit (v :: u32) 31 \<or> bit v 30"
  using and_exp_eq_0_iff_not_bit [of v 31] and_exp_eq_0_iff_not_bit [of v 30]
  unfolding bit.conj_disj_distrib or_eq_0_iff by simp

lemma c_cond_bits:
  "(ucast (drop_bit 28 (v AND C_COND_MASK)) :: u8) =
     of_bool (bit (v :: u32) 28) OR push_bit 1 (of_bool (bit v 29))"
proof (rule bit_word_eqI)
  fix n assume "n < LENGTH(8)"
  have "C_COND_MASK = push_bit 28 (mask 2 :: u32)" by (simp add: mask_eq_exp_minus_1)
  then have m: "bit (C_COND_MASK :: u32) k \<longleftrightarrow> 28 \<le> k \<and> k < 30" for k
    by (simp only: bit_push_bit_iff bit_mask_iff) auto
  have "bit (ucast (drop_bit 28 (v AND C_COND_MASK)) :: u8) n \<longleftrightarrow> n < 2 \<and> bit v (28 + n)"
    by (simp only: bit_unsigned_iff bit_drop_bit_eq bit_and_iff m o_apply) (auto dest: bit_imp_le_length)
  also have "\<dots> \<longleftrightarrow> bit (of_bool (bit v 28) OR push_bit 1 (of_bool (bit v 29)) :: u8) n"
  proof (cases "n < 2")
    case True
    then consider "n = 0" | "n = 1" by linarith
    then show ?thesis by cases (simp_all add: bit_simps)
  next
    case False
    then show ?thesis by (simp add: bit_simps)
  qed
  finally show "bit (ucast (drop_bit 28 (v AND C_COND_MASK)) :: u8) n \<longleftrightarrow>
    bit (of_bool (bit v 28) OR push_bit 1 (of_bool (bit v 29)) :: u8) n" .
qed

lemma load_step_op:
  "load_step ctx v1 v2 st =
    (case op_of v1 of
       OpWrite \<Rightarrow> (st, if is_matched st then [(v1, v2)] else [])
     | OpIf \<Rightarrow> (st\<lparr>pre_v1 := v1, pre_v2 := v2\<rparr>, [])
     | OpElseIf \<Rightarrow> (st\<lparr>pre_v1 := v1, pre_v2 := v2\<rparr>, [])
     | OpElse \<Rightarrow> (st\<lparr>is_matched := \<not> is_skipped st\<rparr>, [])
     | OpEndif \<Rightarrow> (st\<lparr>is_matched := True, is_skipped := False\<rparr>, [])
     | OpNeg \<Rightarrow> (st\<lparr>is_matched := \<not> is_skipped st \<and> holds ctx (pre_v1 st),
                   is_skipped := is_skipped st \<or> holds ctx (pre_v1 st)\<rparr>, []))"
  unfolding load_step_def and_bit_31 and_bits_31_30 c_cond_bits Let_def
  by (cases st) (simp add: op_of_def holds_def CheckPositive_def)

text \<open>The writes of the conditional block that have been emitted already.\<close>

abbreviation any_holds where "any_holds ctx brs \<equiv> list_ex (\<lambda>(c, ws). holds ctx c) brs"

fun emitted :: "JaguarPhyContext \<Rightarrow> parse_mode \<Rightarrow> (u32 \<times> u32) list" where
  "emitted ctx Top = []"
| "emitted ctx (Pos brs c) = pick ctx brs []"
| "emitted ctx (InBranch brs c ws) = pick ctx (brs @ [(c, ws)]) []"
| "emitted ctx (InElse brs ws) = pick ctx brs ws"

fun mode_state :: "JaguarPhyContext \<Rightarrow> parse_mode \<Rightarrow> load_state \<Rightarrow> bool" where
  "mode_state ctx Top st \<longleftrightarrow> is_matched st \<and> \<not> is_skipped st"
| "mode_state ctx (Pos brs c) st \<longleftrightarrow> is_skipped st = any_holds ctx brs \<and> pre_v1 st = c"
| "mode_state ctx (InBranch brs c ws) st \<longleftrightarrow>
    is_skipped st = (any_holds ctx brs \<or> holds ctx c) \<and> is_matched st = (\<not> any_holds ctx brs \<and> holds ctx c)"
| "mode_state ctx (InElse brs ws) st \<longleftrightarrow>
    is_skipped st = any_holds ctx brs \<and> is_matched st = (\<not> any_holds ctx brs)"

lemma pick_append:
  "pick ctx (brs @ brs') els = (if any_holds ctx brs then pick ctx brs [] else pick ctx brs' els)"
  by (induction ctx brs els rule: pick.induct) auto

lemma pick_else: "pick ctx brs els = (if any_holds ctx brs then pick ctx brs [] else els)"
  using pick_append [of ctx brs "[]" els] by simp

lemma pick_none: "\<not> any_holds ctx brs \<Longrightarrow> pick ctx brs els = els"
  by (subst pick_else) simp

text \<open>One round keeps the relation and emits what the mode says.\<close>

lemma load_loop_blocks:
  "parse_table m t = Some bs \<Longrightarrow> mode_state ctx m st \<Longrightarrow>
   emitted ctx m @ load_loop ctx st t = exec_blocks ctx bs"
proof (induction m t arbitrary: st bs rule: parse_table.induct)
  case (1 m)
  then show ?case by (simp add: exec_blocks_def split: if_splits)
next
  case (2 m x)
  then show ?case by simp
next
  case (3 m v1 v2 t)
  show ?case
  proof (cases m)
    case Top
    then show ?thesis
      using "3.prems" "3.IH"
      by (cases "op_of v1") (auto simp: load_step_op exec_blocks_def)
  next
    case (Pos brs c)
    then show ?thesis
      using "3.prems" "3.IH"
      by (cases "op_of v1"; cases "holds ctx c") (auto simp: load_step_op pick_append pick_none)
  next
    case (InBranch brs c ws)
    then show ?thesis
      using "3.prems" "3.IH"
      by (cases "op_of v1") (auto simp: load_step_op exec_blocks_def pick_append)
  next
    case (InElse brs ws)
    then show ?thesis
      using "3.prems" "3.IH"
      by (cases "op_of v1") (auto simp: load_step_op exec_blocks_def pick_else [of ctx brs ws] pick_else [of ctx brs "ws @ [(v1, v2)]"])
  qed
qed


text \<open>
  C13: the loader runs a table the way it reads. Whenever a table parses into writes and
  conditional blocks, then for every chip context the calls of the writer are, in order, the plain
  writes and for each block the writes of its first branch whose condition matches the context, or
  of its \<open>ELSE\<close>.
\<close>

theorem Load_refines_blocks:
  assumes "parse_table Top table = Some bs"
  shows "Load table ctx = exec_blocks ctx bs"
  using load_loop_blocks [OF assms, of ctx load_init] by (simp add: Load_def load_init_def)

theorem Load_refines_blocks_witness:
  "\<forall>ctx. Load [0x80000003, 0, 0x40000000, 0, 0x810, 7, 0xA0000000, 0, 0x810, 9, 0xB0000000, 0] ctx =
     (if holds ctx 0x80000003 then [(0x810, 7)] else [(0x810, 9)])"
proof -
  have "parse_table Top [0x80000003, 0, 0x40000000, 0, 0x810, 7, 0xA0000000, 0, 0x810, 9, 0xB0000000, 0] =
      Some [Cond [(0x80000003, [(0x810, 7)])] [(0x810, 9)]]"
    by (simp add: op_of_def)
  from Load_refines_blocks [OF this] show ?thesis by (simp add: exec_blocks_def)
qed

section \<open>Tables that always write the same registers\<close>

text \<open>
  A checker that walks a table once: every conditional has an \<open>ELSE\<close>, and all its branches write
  the same registers in the same order. Its state is the register list of the first branch and
  that of the current one, latest first; the second component counts the registers written.
\<close>

datatype chk = KTop | KPos "u32 list option" | KIn "u32 list option" "u32 list" | KElse "u32 list" "u32 list"

fun chk_step :: "chk \<Rightarrow> u32 \<Rightarrow> chk option" where
  "chk_step KTop v = (if op_of v = OpWrite then Some KTop else if op_of v = OpIf then Some (KPos None) else None)"
| "chk_step (KPos f) v = (if op_of v = OpNeg then Some (KIn f []) else None)"
| "chk_step (KIn f c) v =
    (if op_of v = OpWrite then Some (KIn f (v # c))
     else if f \<noteq> None \<and> f \<noteq> Some c then None
     else if op_of v = OpElseIf then Some (KPos (Some c))
     else if op_of v = OpElse then Some (KElse c [])
     else None)"
| "chk_step (KElse f c) v =
    (if op_of v = OpWrite then Some (KElse f (v # c))
     else if op_of v = OpEndif \<and> f = c then Some KTop else None)"

fun chk_run :: "(u32 \<Rightarrow> u32 \<Rightarrow> bool) \<Rightarrow> chk \<Rightarrow> u32 list \<Rightarrow> chk option" where
  "chk_run P k (v1 # v2 # t) =
    (if op_of v1 = OpWrite \<and> \<not> P v1 v2 then None
     else case chk_step k v1 of None \<Rightarrow> None | Some k' \<Rightarrow> chk_run P k' t)"
| "chk_run P k [x] = None"
| "chk_run P k [] = Some k"

lemma chk_run_append:
  "chk_run P k xs = Some k' \<Longrightarrow> chk_run P k (xs @ ys) = chk_run P k' ys"
  by (induction P k xs rule: chk_run.induct) (auto split: if_splits option.splits)

fun chk_mode :: "chk \<Rightarrow> parse_mode \<Rightarrow> bool" where
  "chk_mode KTop m \<longleftrightarrow> m = Top"
| "chk_mode (KPos f) m \<longleftrightarrow> (\<exists>brs c. m = Pos brs c \<and>
    (case f of None \<Rightarrow> brs = [] | Some r \<Rightarrow> brs \<noteq> [] \<and> list_all (\<lambda>(c, ws). map fst ws = rev r) brs))"
| "chk_mode (KIn f cur) m \<longleftrightarrow> (\<exists>brs c ws. m = InBranch brs c ws \<and> map fst ws = rev cur \<and>
    (case f of None \<Rightarrow> brs = [] | Some r \<Rightarrow> brs \<noteq> [] \<and> list_all (\<lambda>(c, ws). map fst ws = rev r) brs))"
| "chk_mode (KElse f cur) m \<longleftrightarrow> (\<exists>brs ws. m = InElse brs ws \<and> map fst ws = rev cur \<and>
    list_all (\<lambda>(c, ws). map fst ws = rev f) brs)"

fun uniform :: "phy_block \<Rightarrow> bool" where
  "uniform (Write a v) = True"
| "uniform (Cond brs els) = list_all (\<lambda>(c, ws). map fst ws = map fst els) brs"

lemma chk_run_parse:
  "chk_run P k t = Some KTop \<Longrightarrow> chk_mode k m \<Longrightarrow>
   \<exists>bs. parse_table m t = Some bs \<and> list_all uniform bs"
proof (induction P k t arbitrary: m rule: chk_run.induct)
  case (1 P k v1 v2 t)
  then obtain k' where k': "chk_step k v1 = Some k'" "chk_run P k' t = Some KTop"
    by (auto split: if_splits option.splits)
  have ih: "chk_mode k' m' \<Longrightarrow> \<exists>bs. parse_table m' t = Some bs \<and> list_all uniform bs" for m'
    using "1.IH" k' "1.prems"(1) by (auto split: if_splits)
  show ?case
  proof (cases k)
    case KTop
    then show ?thesis
      using k'(1) "1.prems"(2) ih [of Top] ih [of "Pos [] v1"] by (auto split: if_splits)
  next
    case (KPos f)
    then show ?thesis
      using k'(1) "1.prems"(2) ih by (fastforce split: if_splits)
  next
    case (KIn f c)
    then show ?thesis
      using k'(1) "1.prems"(2) ih by (fastforce split: if_splits option.splits)
  next
    case (KElse f c)
    then show ?thesis
      using k'(1) "1.prems"(2) ih by (fastforce split: if_splits)
  qed
qed auto

lemma pick_uniform:
  "list_all (\<lambda>(c, ws). map fst ws = map fst els) brs \<Longrightarrow> map fst (pick ctx brs els) = map fst els"
  by (induction ctx brs els rule: pick.induct) auto

lemma exec_uniform:
  "list_all uniform bs \<Longrightarrow> map fst (exec_blocks ctx bs) = map fst (exec_blocks ctx' bs)"
proof (induction bs)
  case (Cons b bs)
  then show ?case by (cases b) (auto simp: exec_blocks_def pick_uniform)
qed (simp add: exec_blocks_def)

lemma load_loop_entries:
  "chk_run P k t = Some k' \<Longrightarrow> (a, v) \<in> set (load_loop ctx st t) \<Longrightarrow> P a v"
proof (induction P k t arbitrary: st rule: chk_run.induct)
  case (1 P k v1 v2 t)
  obtain k1 where k1: "chk_step k v1 = Some k1" "chk_run P k1 t = Some k'"
    using "1.prems"(1) by (auto split: if_splits option.splits)
  obtain st' ws where st: "load_step ctx v1 v2 st = (st', ws)" by fastforce
  then have "(a, v) \<in> set ws \<or> (a, v) \<in> set (load_loop ctx st' t)" using "1.prems"(2) by simp
  then show ?case
  proof
    assume "(a, v) \<in> set ws"
    then have "op_of v1 = OpWrite \<and> a = v1 \<and> v = v2"
      using st by (auto simp: load_step_op split: phy_op.splits if_splits)
    then show ?thesis using "1.prems"(1) by (auto split: if_splits)
  next
    assume "(a, v) \<in> set (load_loop ctx st' t)"
    then show ?thesis using "1.IH" k1 "1.prems"(1) by (auto split: if_splits)
  qed
qed auto

text \<open>What the checker's success says of the loader.\<close>

lemma chk_run_Load:
  assumes "chk_run P KTop t = Some KTop"
  shows "map fst (Load t ctx) = map fst (Load t ctx') \<and> list_all (\<lambda>(a, v). P a v) (Load t ctx)"
proof -
  have entries: "list_all (\<lambda>(a, v). P a v) (Load t ctx)"
    using load_loop_entries [OF assms] by (auto simp: list_all_iff Load_def)
  obtain bs where "parse_table Top t = Some bs" "list_all uniform bs"
    using chk_run_parse [OF assms, of Top] by auto
  then have "Load t ctx = exec_blocks ctx bs" "Load t ctx' = exec_blocks ctx' bs" "list_all uniform bs"
    using load_loop_blocks [of Top t bs ctx load_init] load_loop_blocks [of Top t bs ctx' load_init]
    by (simp_all add: Load_def load_init_def)
  then show ?thesis
    using exec_uniform [of bs ctx ctx'] entries by simp
qed


text \<open>
  What the writers of src/HalModule.cpp need of an entry: the MAC writer narrows the address to 16
  bits and the value to eight; a baseband register is a word of the 16-bit space outside the
  addresses that stand for delays.
\<close>

definition mac_entry :: "u32 \<Rightarrow> u32 \<Rightarrow> bool" where
  "mac_entry a v \<longleftrightarrow> a < 0x10000 \<and> v < 0x100"

definition bb_entry :: "u32 \<Rightarrow> u32 \<Rightarrow> bool" where
  "bb_entry a v \<longleftrightarrow> 0x800 \<le> a \<and> a < 0x10000 \<and> a AND 3 = 0"

end
