(* ===== verification/PhyReg8814.thy ===== *)
theory PhyReg8814
  imports PhyTable
begin

text \<open>
  The MAC and baseband tables of the RTL8814A, hal/phydm/rtl8814a/Hal8814_PhyTables.c, in pieces
  of at most 150 source lines, each with the state the table checker has behind it.
\<close>

definition array_mp_8814a_mac_reg :: "u32 list" where
  "array_mp_8814a_mac_reg =
    [0x10, 0x7C, 0x14, 0xDB, 0x16, 2, 0x73, 0x10, 0x420, 0x80, 0x421, 0xF, 0x428, 0xA, 0x429,
     0x10, 0x430, 0, 0x431, 0, 0x432, 0, 0x433, 1, 0x434, 4, 0x435, 5, 0x436, 7, 0x437, 8, 0x43C,
     4, 0x43D, 5, 0x43E, 7, 0x43F, 8, 0x440, 0x5D, 0x441, 1, 0x442, 0, 0x444, 0x10, 0x445, 0xF0,
     0x446, 1, 0x447, 0xFE, 0x448, 0, 0x449, 0, 0x44A, 0, 0x44B, 0x40, 0x44C, 0x10, 0x44D, 0xF0,
     0x44E, 0x3F, 0x44F, 0, 0x450, 0, 0x451, 0, 0x452, 0, 0x453, 0x40, 0x45E, 4, 0x49C, 0x10,
     0x49D, 0xF0, 0x49E, 0, 0x49F, 6, 0x4A0, 0xE0, 0x4A1, 3, 0x4A2, 0, 0x4A3, 0x40, 0x4A4, 0x15,
     0x4A5, 0xF0, 0x4A6, 0, 0x4A7, 6, 0x4A8, 0xE0, 0x4A9, 0, 0x4AA, 0, 0x4AB, 0, 0x7DA, 8, 0x1448,
     6, 0x144A, 6, 0x144C, 6, 0x144E, 6, 0x4C8, 0xFF, 0x4C9, 8, 0x4CA, 0x3C, 0x4CB, 0x3C, 0x4CC,
     0xFF, 0x4CD, 0xFF, 0x4CE, 1, 0x4CF, 8, 0x500, 0x26, 0x501, 0xA2, 0x502, 0x2F, 0x503, 0,
     0x504, 0x28, 0x505, 0xA3, 0x506, 0x5E, 0x507, 0, 0x508, 0x2B, 0x509, 0xA4, 0x50A, 0x5E,
     0x50B, 0, 0x50C, 0x4F, 0x50D, 0xA4, 0x50E, 0, 0x50F, 0, 0x512, 0x1C, 0x514, 0xA, 0x516, 0xA,
     0x521, 0x2F, 0x525, 0x47, 0x550, 0x10, 0x551, 0x10, 0x559, 2, 0x55C, 0x64, 0x55D, 0xFF,
     0x577, 3, 0x5BE, 0x64, 0x604, 1, 0x605, 0x30, 0x607, 1, 0x608, 0xE, 0x609, 0x2A, 0x60A, 0,
     0x60C, 0x18, 0x60D, 0x50, 0x6A0, 0xFF, 0x6A1, 0xFF, 0x6A2, 0xFF, 0x6A3, 0xFF, 0x6A4, 0xFF,
     0x6A5, 0xFF, 0x6DE, 0x84, 0x620, 0xFF, 0x621, 0xFF, 0x622, 0xFF, 0x623, 0xFF, 0x624, 0xFF,
     0x625, 0xFF, 0x626, 0xFF, 0x627, 0xFF, 0x638, 0x64, 0x63C, 0xA, 0x63D, 0xA, 0x63E, 0xE,
     0x63F, 0xE, 0x640, 0x40, 0x642, 0x40, 0x643, 0, 0x652, 0xC8, 0x66E, 5, 0x700, 0x21, 0x701,
     0x43, 0x702, 0x65, 0x703, 0x87, 0x708, 0x21, 0x709, 0x43, 0x70A, 0x65, 0x70B, 0x87, 0x718,
     0x40, 0x7D5, 0xBC, 0x7D8, 0x28, 0x7D9, 0, 0x7DA, 0xB]"

lemma chk_array_mp_8814a_mac_reg: "chk_run mac_entry KTop array_mp_8814a_mac_reg =
  Some KTop"
  by code_simp

definition array_mp_8814a_phy_reg_1 :: "u32 list" where
  "array_mp_8814a_phy_reg_1 =
    [0x800, 0x9020D010, 0x804, 0x8011280, 0x808, 0xE0282FF, 0x80C, 0x1000002F, 0x80000003, 0,
     0x40000000, 0, 0x810, 0x33303265, 0xA0000000, 0, 0x810, 0x33303265, 0xB0000000, 0, 0x814,
     0x20C3D10, 0x818, 0x4A10385, 0x820, 0, 0x824, 0x33E40, 0x828, 0, 0x82C, 0x73985170, 0x830,
     0x79A0EA08, 0x834, 0x42E708A, 0x80000002, 0, 0x40000000, 0, 0x838, 0x86667640, 0x90000004, 0,
     0x40000000, 0, 0x838, 0x86667641, 0x9000000A, 0, 0x40000000, 0, 0x838, 0x86667641,
     0x9000000B, 0, 0x40000000, 0, 0x838, 0x86667641, 0xA0000000, 0, 0x838, 0x86667640,
     0xB0000000, 0, 0x83C, 0x9798B9B9, 0x840, 0x17578F60, 0x844, 0x4BBDFCDE, 0x848, 0x5CD07F8B,
     0x84C, 0x6CFBF7B5, 0x850, 0x28834706, 0x854, 0x1520C, 0x858, 0x4060C000, 0x85C, 0x74210368,
     0x860, 0x6929C321, 0x864, 0x79727432, 0x868, 0x8CA7A314, 0x86C, 0x438C2878, 0x870,
     0x44444444, 0x874, 0x21612C2E, 0x878, 0x3152, 0x87C, 0xFC000, 0x8A0, 0x13, 0x8A4, 0x7F7F7F7F,
     0x8A8, 0xA202033E, 0x8AC, 0xF40F550A, 0x8B0, 0x600, 0x8B4, 0xFC080, 0x8B8, 0xEC0057FF, 0x8BC,
     0x8CA520C3, 0x8C0, 0x3FF00020, 0x8C4, 0x44C00000, 0x80000009, 0, 0x40000000, 0, 0x8C8,
     0x80025969, 0xA0000000, 0, 0x8C8, 0x80025167, 0xB0000000, 0, 0x8CC, 0x8250492, 0x8D0, 0xB800,
     0x8D4, 0x940008A0, 0x8D8, 0x290B5612, 0x8DC, 0, 0x8E0, 0x32316407, 0x8E4, 0x4A092925, 0x8E8,
     0xFFFFC42C, 0x8EC, 0x99999999, 0x8F0, 0x9999, 0x8F4, 0xF80FA1, 0x8F8, 0x400082C0, 0x8FC, 0,
     0x900, 0x400700, 0x90C, 0x9004000, 0x910, 0xFC00, 0x914, 0xD6400404, 0x918, 0x1C1028C0,
     0x91C, 0x64B11A1C, 0x920, 0xE0767233, 0x924, 0x55AA500, 0x928, 0x4AB0E4E4, 0x92C, 0xFFFE0000,
     0x930, 0xFFFFFFFE, 0x934, 0x1FFFFF, 0x938, 0x8400, 0x93C, 0x932C0642, 0x940, 0x93E9360,
     0x944, 0x8000000, 0x948, 0x4000000, 0x950, 0x2010080, 0x954, 0x86510080, 0x960, 0, 0x964, 0,
     0x968, 0, 0x96C, 0, 0x970, 0x801FFFFF, 0x978, 0, 0x97C, 0, 0x980, 0, 0x984, 0, 0x988, 0,
     0x98C, 0x3440000, 0x990, 0x27100000, 0x994, 0xFFFF0100, 0x998, 0xFFFFFF5C, 0x99C, 0xFFFFFFFF,
     0x9A0, 0xFF, 0x9A4, 0x80080, 0x9A8, 0xC2F0000, 0x9AC, 0x560000, 0x9B0, 0x81081008, 0x9B4, 0,
     0x9B8, 0x1081008, 0x9BC, 0x1081008, 0x9D0, 0, 0x9D4, 0, 0x9D8, 0, 0x9DC, 0, 0x9E4, 2, 0x9E8,
     0x22D5, 0x9FC, 0xEFFFF7FF, 0xB00, 0xE3100000, 0xB04, 0xB000, 0xB0C, 0x31EAA006, 0xB5C,
     0x41CFFFFF, 0xC00, 7, 0xC04, 0x42020, 0xC08, 0x80410231, 0xC0C, 0, 0xC10, 0x100, 0xC14,
     0x1000000, 0xC1C, 0x40000053, 0xC50, 0x20, 0xC54, 0, 0x80000002, 0, 0x40000000, 0, 0xC58,
     0x3C0A0C14, 0x90000004, 0, 0x40000000, 0, 0xC58, 0x3C0A0C14, 0x9000000A, 0, 0x40000000, 0,
     0xC58, 0x3C0A0C14, 0x9000000B, 0, 0x40000000, 0, 0xC58, 0x3C0A0C14, 0xA0000000, 0]"

lemma chk_array_mp_8814a_phy_reg_1: "chk_run bb_entry KTop array_mp_8814a_phy_reg_1 =
  Some (KElse [0xC58] [])"
  by code_simp

definition array_mp_8814a_phy_reg_2 :: "u32 list" where
  "array_mp_8814a_phy_reg_2 =
    [0xC58, 0x3C020C14, 0xB0000000, 0, 0xC5C, 0xD000058, 0xC60, 0x1B800000, 0xC60, 0xB800001,
     0xC60, 0x5800002, 0xC60, 0x7800003, 0xC60, 0x1A800004, 0xC60, 0xB800005, 0xC60, 0x5800006,
     0xC60, 0xE800007, 0xC60, 0x1A800008, 0xC60, 0xB800009, 0xC60, 0x1580000A, 0xC60, 0x880000B,
     0xC60, 0x1A80000C, 0xC60, 0xB80000D, 0xC60, 0x580000E, 0xC60, 0xE80000F, 0xC60, 0x1A800010,
     0xC60, 0xB800011, 0xC60, 0x15800012, 0xC60, 0x8800013, 0xC60, 0x1A800014, 0xC60, 0xB800015,
     0xC60, 0x5800016, 0xC60, 0x7800017, 0xC60, 0x1A800018, 0xC60, 0xB800019, 0xC60, 0x1580001A,
     0xC60, 0x880001B, 0xC60, 0x1B80001C, 0xC60, 0xB80001D, 0xC60, 0x580001E, 0xC60, 0x780001F,
     0xC60, 0x1B800020, 0xC60, 0xB800021, 0xC60, 0x5800022, 0xC60, 0x7800023, 0xC60, 0x1B800024,
     0xC60, 0xB800025, 0xC60, 0x5800026, 0xC60, 0x7800027, 0xC60, 0x1B800028, 0xC60, 0xB800029,
     0xC60, 0x580002A, 0xC60, 0x780002B, 0xC60, 0x1B800030, 0xC60, 0xB800031, 0xC60, 0x5800032,
     0xC60, 0x800033, 0xC60, 0x1B800034, 0xC60, 0xB800035, 0xC60, 0x5800036, 0xC60, 0x800037,
     0xC60, 0x1B800038, 0xC60, 0xB800039, 0xC60, 0x580003A, 0xC60, 0xE80803B, 0xC94, 0x1000401,
     0xC98, 0x188000, 0xCA0, 0x2929, 0xCA4, 0x8040201, 0xCA8, 0x80402010, 0xCAC, 0x77777000,
     0xCB0, 0x54775477, 0xCB4, 0x54775477, 0xCB8, 0x500000, 0xCBC, 0x77700000, 0xCC0, 0x10, 0xCC8,
     0x10, 0xE00, 7, 0xE04, 0x42020, 0xE08, 0x80410231, 0xE0C, 0, 0xE10, 0x100, 0xE14, 0x1000000,
     0xE1C, 0x40000053, 0xE50, 0x20, 0xE54, 0, 0x80000002, 0, 0x40000000, 0, 0xE58, 0x3C0A0C14,
     0x90000004, 0, 0x40000000, 0, 0xE58, 0x3C0A0C14, 0x9000000A, 0, 0x40000000, 0, 0xE58,
     0x3C0A0C14, 0x9000000B, 0, 0x40000000, 0, 0xE58, 0x3C0A0C14, 0xA0000000, 0, 0xE58,
     0x3C020C14, 0xB0000000, 0, 0xE5C, 0xD000058, 0xE60, 0x1B800000, 0xE60, 0xB800001, 0xE60,
     0x5800002, 0xE60, 0x7800003, 0xE60, 0x1A800004, 0xE60, 0xB800005, 0xE60, 0x5800006, 0xE60,
     0xE800007, 0xE60, 0x1A800008, 0xE60, 0xB800009, 0xE60, 0x1580000A, 0xE60, 0x880000B, 0xE60,
     0x1A80000C, 0xE60, 0xB80000D, 0xE60, 0x580000E, 0xE60, 0xE80000F, 0xE60, 0x1A800010, 0xE60,
     0xB800011, 0xE60, 0x15800012, 0xE60, 0x8800013, 0xE60, 0x1A800014, 0xE60, 0xB800015, 0xE60,
     0x5800016, 0xE60, 0x7800017, 0xE60, 0x1A800018, 0xE60, 0xB800019, 0xE60, 0x1580001A, 0xE60,
     0x880001B, 0xE60, 0x1B80001C, 0xE60, 0xB80001D, 0xE60, 0x580001E, 0xE60, 0x780001F, 0xE60,
     0x1B800020, 0xE60, 0xB800021, 0xE60, 0x5800022, 0xE60, 0x7800023, 0xE60, 0x1B800024, 0xE60,
     0xB800025, 0xE60, 0x5800026, 0xE60, 0x7800027, 0xE60, 0x1B800028, 0xE60, 0xB800029, 0xE60,
     0x580002A, 0xE60, 0x780002B, 0xE60, 0x1B800030, 0xE60, 0xB800031, 0xE60, 0x5800032, 0xE60,
     0x800033, 0xE60, 0x1B800034, 0xE60, 0xB800035, 0xE60, 0x5800036, 0xE60, 0x800037, 0xE60,
     0x1B800038]"

lemma chk_array_mp_8814a_phy_reg_2: "chk_run bb_entry (KElse [0xC58] []) array_mp_8814a_phy_reg_2 =
  Some KTop"
  by code_simp

definition array_mp_8814a_phy_reg_3 :: "u32 list" where
  "array_mp_8814a_phy_reg_3 =
    [0xE60, 0xB800039, 0xE60, 0x580003A, 0xE60, 0xE80803B, 0xE94, 0x1000401, 0xE98, 0x188000,
     0xEA0, 0x2929, 0xEA4, 0x8040201, 0xEA8, 0x80402010, 0xEAC, 0x77777000, 0xEB0, 0x54775477,
     0xEB4, 0x54775477, 0xEB8, 0x500000, 0xEBC, 0x77700000, 0x1800, 7, 0x1804, 0x42020, 0x1808,
     0x80410231, 0x180C, 0, 0x1810, 0x100, 0x1814, 0x1000000, 0x181C, 0x40000053, 0x1850, 0x20,
     0x1854, 0, 0x80000002, 0, 0x40000000, 0, 0x1858, 0x3C0A0C14, 0x90000004, 0, 0x40000000, 0,
     0x1858, 0x3C0A0C14, 0x9000000A, 0, 0x40000000, 0, 0x1858, 0x3C0A0C14, 0x9000000B, 0,
     0x40000000, 0, 0x1858, 0x3C0A0C14, 0xA0000000, 0, 0x1858, 0x3C020C14, 0xB0000000, 0, 0x185C,
     0xD000058, 0x1860, 0x1B800000, 0x1860, 0xB800001, 0x1860, 0x5800002, 0x1860, 0x7800003,
     0x1860, 0x1A800004, 0x1860, 0xB800005, 0x1860, 0x5800006, 0x1860, 0xE800007, 0x1860,
     0x1A800008, 0x1860, 0xB800009, 0x1860, 0x1580000A, 0x1860, 0x880000B, 0x1860, 0x1A80000C,
     0x1860, 0xB80000D, 0x1860, 0x580000E, 0x1860, 0xE80000F, 0x1860, 0x1A800010, 0x1860,
     0xB800011, 0x1860, 0x15800012, 0x1860, 0x8800013, 0x1860, 0x1A800014, 0x1860, 0xB800015,
     0x1860, 0x5800016, 0x1860, 0x7800017, 0x1860, 0x1A800018, 0x1860, 0xB800019, 0x1860,
     0x1580001A, 0x1860, 0x880001B, 0x1860, 0x1B80001C, 0x1860, 0xB80001D, 0x1860, 0x580001E,
     0x1860, 0x780001F, 0x1860, 0x1B800020, 0x1860, 0xB800021, 0x1860, 0x5800022, 0x1860,
     0x7800023, 0x1860, 0x1B800024, 0x1860, 0xB800025, 0x1860, 0x5800026, 0x1860, 0x7800027,
     0x1860, 0x1B800028, 0x1860, 0xB800029, 0x1860, 0x580002A, 0x1860, 0x780002B, 0x1860,
     0x1B800030, 0x1860, 0xB800031, 0x1860, 0x5800032, 0x1860, 0x800033, 0x1860, 0x1B800034,
     0x1860, 0xB800035, 0x1860, 0x5800036, 0x1860, 0x800037, 0x1860, 0x1B800038, 0x1860,
     0xB800039, 0x1860, 0x580003A, 0x1860, 0xE80803B, 0x1894, 0x1000401, 0x1898, 0x188000, 0x18A0,
     0x2929, 0x18A4, 0x8040201, 0x18A8, 0x80402010, 0x18AC, 0x77777000, 0x18B0, 0x54775477,
     0x18B4, 0x54775477, 0x18B8, 0x500000, 0x18BC, 0x77700000, 0x1A00, 7, 0x1A04, 0x42020, 0x1A08,
     0x80410231, 0x1A0C, 0, 0x1A10, 0x100, 0x1A14, 0x1000000, 0x1A1C, 0x40000053, 0x1A50, 0x20,
     0x1A54, 0, 0x80000002, 0, 0x40000000, 0, 0x1A58, 0x3C0A0C14, 0x90000004, 0, 0x40000000, 0,
     0x1A58, 0x3C0A0C14, 0x9000000A, 0, 0x40000000, 0, 0x1A58, 0x3C0A0C14, 0x9000000B, 0,
     0x40000000, 0, 0x1A58, 0x3C0A0C14, 0xA0000000, 0, 0x1A58, 0x3C020C14, 0xB0000000, 0, 0x1A5C,
     0xD000058, 0x1A60, 0x1B800000, 0x1A60, 0xB800001, 0x1A60, 0x5800002, 0x1A60, 0x7800003,
     0x1A60, 0x1A800004, 0x1A60, 0xB800005, 0x1A60, 0x5800006, 0x1A60, 0xE800007, 0x1A60,
     0x1A800008, 0x1A60, 0xB800009, 0x1A60, 0x1580000A, 0x1A60, 0x880000B, 0x1A60, 0x1A80000C,
     0x1A60, 0xB80000D, 0x1A60, 0x580000E, 0x1A60, 0xE80000F, 0x1A60, 0x1A800010, 0x1A60,
     0xB800011, 0x1A60, 0x15800012, 0x1A60, 0x8800013, 0x1A60, 0x1A800014, 0x1A60, 0xB800015,
     0x1A60, 0x5800016, 0x1A60, 0x7800017]"

lemma chk_array_mp_8814a_phy_reg_3: "chk_run bb_entry KTop array_mp_8814a_phy_reg_3 =
  Some KTop"
  by code_simp

definition array_mp_8814a_phy_reg_4 :: "u32 list" where
  "array_mp_8814a_phy_reg_4 =
    [0x1A60, 0x1A800018, 0x1A60, 0xB800019, 0x1A60, 0x1580001A, 0x1A60, 0x880001B, 0x1A60,
     0x1B80001C, 0x1A60, 0xB80001D, 0x1A60, 0x580001E, 0x1A60, 0x780001F, 0x1A60, 0x1B800020,
     0x1A60, 0xB800021, 0x1A60, 0x5800022, 0x1A60, 0x7800023, 0x1A60, 0x1B800024, 0x1A60,
     0xB800025, 0x1A60, 0x5800026, 0x1A60, 0x7800027, 0x1A60, 0x1B800028, 0x1A60, 0xB800029,
     0x1A60, 0x580002A, 0x1A60, 0x780002B, 0x1A60, 0x1B800030, 0x1A60, 0xB800031, 0x1A60,
     0x5800032, 0x1A60, 0x800033, 0x1A60, 0x1B800034, 0x1A60, 0xB800035, 0x1A60, 0x5800036,
     0x1A60, 0x800037, 0x1A60, 0x1B800038, 0x1A60, 0xB800039, 0x1A60, 0x580003A, 0x1A60,
     0xE80803B, 0x1A94, 0x1000401, 0x1A98, 0x188000, 0x1AA0, 0x2929, 0x1AA4, 0x8040201, 0x1AA8,
     0x80402010, 0x1AAC, 0x77777000, 0x1AB0, 0x54775477, 0x1AB4, 0x54775477, 0x1AB8, 0x500000,
     0x1ABC, 0x77700000, 0x1904, 0x30000, 0x1914, 0x30000, 0x1984, 0x3000000, 0x1988, 0x87,
     0x198C, 7, 0x1990, 0xFFAA5500, 0x1994, 0x77, 0x1998, 0x12801000, 0x1998, 0x12801000, 0x1998,
     0x12801001, 0x1998, 0x12801002, 0x1998, 0x12801003, 0x1998, 0x12801004, 0x1998, 0x12801005,
     0x1998, 0x12801006, 0x1998, 0x12801007, 0x1998, 0x12801008, 0x1998, 0x12801009, 0x1998,
     0x1280100A, 0x1998, 0x1280100B, 0x1998, 0x1280100C, 0x1998, 0x1280100D, 0x1998, 0x1280100E,
     0x1998, 0x1280100F, 0x1998, 0x12801010, 0x1998, 0x12801011, 0x1998, 0x12801012, 0x1998,
     0x12801013, 0x1998, 0x12801014, 0x1998, 0x12801015, 0x1998, 0x12801016, 0x1998, 0x12801017,
     0x1998, 0x12801018, 0x1998, 0x12801019, 0x1998, 0x1280101A, 0x1998, 0x1280101B, 0x1998,
     0x1280101C, 0x1998, 0x1280101D, 0x1998, 0x1280101E, 0x1998, 0x1280101F, 0x1998, 0x12801020,
     0x1998, 0x12801021, 0x1998, 0x12801022, 0x1998, 0x12801023, 0x1998, 0x1280102C, 0x1998,
     0x1280102D, 0x1998, 0x1280102E, 0x1998, 0x1280102F, 0x1998, 0x12801030, 0x1998, 0x12801031,
     0x1998, 0x12801032, 0x1998, 0x12801033, 0x1998, 0x12801034, 0x1998, 0x12801035, 0x1998,
     0x12801036, 0x1998, 0x12801037, 0x1998, 0x12801038, 0x1998, 0x12801039, 0x1998, 0x1280103A,
     0x1998, 0x1280103B, 0x1998, 0x1280103C, 0x1998, 0x1280103D, 0x1998, 0x1280103E, 0x1998,
     0x1280103F, 0x1998, 0x12801040, 0x1998, 0x12801041, 0x1998, 0x12801042, 0x1998, 0x12801043,
     0x1998, 0x12801044, 0x1998, 0x12801045, 0x1998, 0x12801046, 0x1998, 0x12801047, 0x1998,
     0x12801048, 0x1998, 0x12801049, 0x1998, 0x12801100, 0x1998, 0x12801101, 0x1998, 0x12801102,
     0x1998, 0x12801103, 0x1998, 0x12801104, 0x1998, 0x12801105, 0x1998, 0x12801106, 0x1998,
     0x12801107, 0x1998, 0x12801108, 0x1998, 0x12801109, 0x1998, 0x1280110A, 0x1998, 0x1280110B,
     0x1998, 0x1280110C, 0x1998, 0x1280110D, 0x1998, 0x1280110E, 0x1998, 0x1280110F, 0x1998,
     0x12801110, 0x1998, 0x12801111, 0x1998, 0x12801112, 0x1998, 0x12801113, 0x1998, 0x12801114,
     0x1998, 0x12801115, 0x1998, 0x12801116, 0x1998, 0x12801117, 0x1998, 0x12801118, 0x1998,
     0x12801119, 0x1998, 0x1280111A, 0x1998, 0x1280111B, 0x1998, 0x1280111C]"

lemma chk_array_mp_8814a_phy_reg_4: "chk_run bb_entry KTop array_mp_8814a_phy_reg_4 =
  Some KTop"
  by code_simp

definition array_mp_8814a_phy_reg_5 :: "u32 list" where
  "array_mp_8814a_phy_reg_5 =
    [0x1998, 0x1280111D, 0x1998, 0x1280111E, 0x1998, 0x1280111F, 0x1998, 0x12801120, 0x1998,
     0x12801121, 0x1998, 0x12801122, 0x1998, 0x12801123, 0x1998, 0x1280112C, 0x1998, 0x1280112D,
     0x1998, 0x1280112E, 0x1998, 0x1280112F, 0x1998, 0x12801130, 0x1998, 0x12801131, 0x1998,
     0x12801132, 0x1998, 0x12801133, 0x1998, 0x12801134, 0x1998, 0x12801135, 0x1998, 0x12801136,
     0x1998, 0x12801137, 0x1998, 0x12801138, 0x1998, 0x12801139, 0x1998, 0x1280113A, 0x1998,
     0x1280113B, 0x1998, 0x1280113C, 0x1998, 0x1280113D, 0x1998, 0x1280113E, 0x1998, 0x1280113F,
     0x1998, 0x12801140, 0x1998, 0x12801141, 0x1998, 0x12801142, 0x1998, 0x12801143, 0x1998,
     0x12801144, 0x1998, 0x12801145, 0x1998, 0x12801146, 0x1998, 0x12801147, 0x1998, 0x12801148,
     0x1998, 0x12801149, 0x1998, 0x12801200, 0x1998, 0x12801201, 0x1998, 0x12801202, 0x1998,
     0x12801203, 0x1998, 0x12801204, 0x1998, 0x12801205, 0x1998, 0x12801206, 0x1998, 0x12801207,
     0x1998, 0x12801208, 0x1998, 0x12801209, 0x1998, 0x1280120A, 0x1998, 0x1280120B, 0x1998,
     0x1280120C, 0x1998, 0x1280120D, 0x1998, 0x1280120E, 0x1998, 0x1280120F, 0x1998, 0x12801210,
     0x1998, 0x12801211, 0x1998, 0x12801212, 0x1998, 0x12801213, 0x1998, 0x12801214, 0x1998,
     0x12801215, 0x1998, 0x12801216, 0x1998, 0x12801217, 0x1998, 0x12801218, 0x1998, 0x12801219,
     0x1998, 0x1280121A, 0x1998, 0x1280121B, 0x1998, 0x1280121C, 0x1998, 0x1280121D, 0x1998,
     0x1280121E, 0x1998, 0x1280121F, 0x1998, 0x12801220, 0x1998, 0x12801221, 0x1998, 0x12801222,
     0x1998, 0x12801223, 0x1998, 0x1280122C, 0x1998, 0x1280122D, 0x1998, 0x1280122E, 0x1998,
     0x1280122F, 0x1998, 0x12801230, 0x1998, 0x12801231, 0x1998, 0x12801232, 0x1998, 0x12801233,
     0x1998, 0x12801234, 0x1998, 0x12801235, 0x1998, 0x12801236, 0x1998, 0x12801237, 0x1998,
     0x12801238, 0x1998, 0x12801239, 0x1998, 0x1280123A, 0x1998, 0x1280123B, 0x1998, 0x1280123C,
     0x1998, 0x1280123D, 0x1998, 0x1280123E, 0x1998, 0x1280123F, 0x1998, 0x12801240, 0x1998,
     0x12801241, 0x1998, 0x12801242, 0x1998, 0x12801243, 0x1998, 0x12801244, 0x1998, 0x12801245,
     0x1998, 0x12801246, 0x1998, 0x12801247, 0x1998, 0x12801248, 0x1998, 0x12801249, 0x1998,
     0x12801300, 0x1998, 0x12801301, 0x1998, 0x12801302, 0x1998, 0x12801303, 0x1998, 0x12801304,
     0x1998, 0x12801305, 0x1998, 0x12801306, 0x1998, 0x12801307, 0x1998, 0x12801308, 0x1998,
     0x12801309, 0x1998, 0x1280130A, 0x1998, 0x1280130B, 0x1998, 0x1280130C, 0x1998, 0x1280130D,
     0x1998, 0x1280130E, 0x1998, 0x1280130F, 0x1998, 0x12801310, 0x1998, 0x12801311, 0x1998,
     0x12801312, 0x1998, 0x12801313, 0x1998, 0x12801314, 0x1998, 0x12801315, 0x1998, 0x12801316,
     0x1998, 0x12801317, 0x1998, 0x12801318, 0x1998, 0x12801319, 0x1998, 0x1280131A, 0x1998,
     0x1280131B, 0x1998, 0x1280131C, 0x1998, 0x1280131D, 0x1998, 0x1280131E, 0x1998, 0x1280131F,
     0x1998, 0x12801320, 0x1998, 0x12801321, 0x1998, 0x12801322, 0x1998, 0x12801323, 0x1998,
     0x1280132C, 0x1998, 0x1280132D, 0x1998, 0x1280132E, 0x1998, 0x1280132F, 0x1998, 0x12801330,
     0x1998, 0x12801331]"

lemma chk_array_mp_8814a_phy_reg_5: "chk_run bb_entry KTop array_mp_8814a_phy_reg_5 =
  Some KTop"
  by code_simp

definition array_mp_8814a_phy_reg_6 :: "u32 list" where
  "array_mp_8814a_phy_reg_6 =
    [0x1998, 0x12801332, 0x1998, 0x12801333, 0x1998, 0x12801334, 0x1998, 0x12801335, 0x1998,
     0x12801336, 0x1998, 0x12801337, 0x1998, 0x12801338, 0x1998, 0x12801339, 0x1998, 0x1280133A,
     0x1998, 0x1280133B, 0x1998, 0x1280133C, 0x1998, 0x1280133D, 0x1998, 0x1280133E, 0x1998,
     0x1280133F, 0x1998, 0x12801340, 0x1998, 0x12801341, 0x1998, 0x12801342, 0x1998, 0x12801343,
     0x1998, 0x12801344, 0x1998, 0x12801345, 0x1998, 0x12801346, 0x1998, 0x12801347, 0x1998,
     0x12801348, 0x1998, 0x12801349, 0x19D4, 0x88888888, 0x19D8, 0x888, 0xB00, 0xE3100100, 0xB00,
     0xE7100100, 0xC60, 0x15808002, 0xC60, 0x1808003, 0xE60, 0x15808002, 0xE60, 0x1808003, 0x1860,
     0x15808002, 0x1860, 0x1808003, 0x1A60, 0x15808002, 0x1A60, 0x1808003, 0xB00, 0xE3100100,
     0xC5C, 0xD080058, 0xE5C, 0xD080058, 0x185C, 0xD080058, 0x1A5C, 0xD080058, 0xC5C, 0xD000058,
     0xE5C, 0xD000058, 0x185C, 0xD000058, 0x1A5C, 0xD000058, 0xC60, 0x5808002, 0xC60, 0xE808003,
     0xE60, 0x5808002, 0xE60, 0xE808003, 0x1860, 0x5808002, 0x1860, 0xE808003, 0x1A60, 0x5808002,
     0x1A60, 0xE808003, 0xB00, 0xE7100100, 0xB00, 0xE3100100, 0xB00, 0xE3100000, 0x1C38, 2, 0xA00,
     0xD047C8, 0xA04, 0x46FF800C, 0xA08, 0x8C838300, 0xA0C, 0x2E7E000F, 0xA10, 0x9500BB78, 0xA14,
     0x11144028, 0xA18, 0x881117, 0xA1C, 0x89140F00, 0xA20, 0x1A1B0030, 0xA24, 0x90E1317, 0xA28,
     0x204, 0xA2C, 0x900000, 0xA70, 0x101FFF00, 0xA74, 0x128, 0xA78, 0x900, 0xA7C, 0x225B0606,
     0xA80, 0x218075B2, 0xA84, 0x9C1F8C00, 0x1B04, 0xE24628D2, 0x1B10, 0x88010D46, 0x1B14, 0,
     0x1B18, 0x292903, 0x1B00, 0xF8000000, 0x1B00, 0xF800D000, 0x1B00, 0xF801F000, 0x1B1C,
     0xA2123DB2, 0x1B20, 0x7040001, 0x1B24, 0x7060807, 0x80000001, 0, 0x40000000, 0, 0x1B28,
     0xC0060324, 0x90000002, 0, 0x40000000, 0, 0x1B28, 0xC0060324, 0x90000004, 0, 0x40000000, 0,
     0x1B28, 0xC0060324, 0x90000003, 0, 0x40000000, 0, 0x1B28, 0xC0060324, 0x90000005, 0,
     0x40000000, 0, 0x1B28, 0xC0060324, 0x90000006, 0, 0x40000000, 0, 0x1B28, 0xC0060324,
     0x9000000A, 0, 0x40000000, 0, 0x1B28, 0xC0060324, 0x9000000B, 0, 0x40000000, 0, 0x1B28,
     0xC0060324, 0xA0000000, 0, 0x1B28, 0xC0060348, 0xB0000000, 0, 0x1B2C, 0x20000003, 0x1B30,
     0x20000000, 0x1B38, 0x20000000, 0x1B3C, 0x20000000, 0x1BD4, 1, 0x1B94, 0x80000000, 0x1B34, 0,
     0x1B34, 2, 0x1B34, 0, 0x1B00, 0xF8000002, 0x1B00, 0xF800D002, 0x1B00, 0xF801F002, 0x1B1C,
     0xA2123DB2, 0x1B20, 0x7040001, 0x1B24, 0x7060807, 0x80000001, 0, 0x40000000, 0, 0x1B28,
     0xC0060324, 0x90000002, 0, 0x40000000, 0, 0x1B28, 0xC0060324, 0x90000004, 0, 0x40000000, 0,
     0x1B28, 0xC0060324, 0x90000003, 0, 0x40000000, 0, 0x1B28, 0xC0060324, 0x90000005, 0,
     0x40000000, 0, 0x1B28, 0xC0060324, 0x90000006, 0, 0x40000000, 0, 0x1B28, 0xC0060324,
     0x9000000A, 0, 0x40000000, 0, 0x1B28, 0xC0060324, 0x9000000B, 0, 0x40000000, 0, 0x1B28,
     0xC0060324, 0xA0000000, 0, 0x1B28, 0xC0060348, 0xB0000000, 0, 0x1B2C, 0x20000003, 0x1B30,
     0x20000000, 0x1B38, 0x20000000, 0x1B3C, 0x20000000, 0x1BD4, 1, 0x1B94, 0x80000000, 0x1B34, 0]"

lemma chk_array_mp_8814a_phy_reg_6: "chk_run bb_entry KTop array_mp_8814a_phy_reg_6 =
  Some KTop"
  by code_simp

definition array_mp_8814a_phy_reg_7 :: "u32 list" where
  "array_mp_8814a_phy_reg_7 =
    [0x1B34, 2, 0x1B34, 0, 0x1B00, 0xF8000004, 0x1B00, 0xF800D004, 0x1B00, 0xF801F004, 0x1B1C,
     0xA2123DB2, 0x1B20, 0x7040001, 0x1B24, 0x7060807, 0x80000001, 0, 0x40000000, 0, 0x1B28,
     0xC0060324, 0x90000002, 0, 0x40000000, 0, 0x1B28, 0xC0060324, 0x90000004, 0, 0x40000000, 0,
     0x1B28, 0xC0060324, 0x90000003, 0, 0x40000000, 0, 0x1B28, 0xC0060324, 0x90000005, 0,
     0x40000000, 0, 0x1B28, 0xC0060324, 0x90000006, 0, 0x40000000, 0, 0x1B28, 0xC0060324,
     0x9000000A, 0, 0x40000000, 0, 0x1B28, 0xC0060324, 0x9000000B, 0, 0x40000000, 0, 0x1B28,
     0xC0060324, 0xA0000000, 0, 0x1B28, 0xC0060348, 0xB0000000, 0, 0x1B2C, 0x20000003, 0x1B30,
     0x20000000, 0x1B38, 0x20000000, 0x1B3C, 0x20000000, 0x1BD4, 1, 0x1B94, 0x80000000, 0x1B34, 0,
     0x1B34, 2, 0x1B34, 0, 0x1B00, 0xF8000006, 0x1B00, 0xF800D006, 0x1B00, 0xF801F006, 0x1B1C,
     0xA2123DB2, 0x1B20, 0x7040001, 0x1B24, 0x7060807, 0x80000001, 0, 0x40000000, 0, 0x1B28,
     0xC0060324, 0x90000002, 0, 0x40000000, 0, 0x1B28, 0xC0060324, 0x90000004, 0, 0x40000000, 0,
     0x1B28, 0xC0060324, 0x90000003, 0, 0x40000000, 0, 0x1B28, 0xC0060324, 0x90000005, 0,
     0x40000000, 0, 0x1B28, 0xC0060324, 0x90000006, 0, 0x40000000, 0, 0x1B28, 0xC0060324,
     0x9000000A, 0, 0x40000000, 0, 0x1B28, 0xC0060324, 0x9000000B, 0, 0x40000000, 0, 0x1B28,
     0xC0060324, 0xA0000000, 0, 0x1B28, 0xC0060348, 0xB0000000, 0, 0x1B2C, 0x20000003, 0x1B30,
     0x20000000, 0x1B38, 0x20000000, 0x1B3C, 0x20000000, 0x1BD4, 1, 0x1B94, 0x80000000, 0x1B34, 0,
     0x1B34, 2, 0x1B34, 0, 0x1B00, 0xF8000000, 0x1B80, 7, 0x1B80, 0x9060005, 0x1B80, 0x9060007,
     0x1B80, 0xFFE0015, 0x1B80, 0xFFE0017, 0x1B80, 0x240025, 0x1B80, 0x240027, 0x1B80, 0x40035,
     0x1B80, 0x40037, 0x1B80, 0x5C00045, 0x1B80, 0x5C00047, 0x1B80, 0x70055, 0x1B80, 0x70057,
     0x1B80, 0x64000065, 0x1B80, 0x64000067, 0x1B80, 0x20075, 0x1B80, 0x20077, 0x1B80, 0x80085,
     0x1B80, 0x80087, 0x1B80, 0x80000095, 0x1B80, 0x80000097, 0x1B80, 0x90100A5, 0x1B80,
     0x90100A7, 0x1B80, 0xF0200B5, 0x1B80, 0xF0200B7, 0x1B80, 0x2400C5, 0x1B80, 0x2400C7, 0x1B80,
     0x400D5, 0x1B80, 0x400D7, 0x1B80, 0x5C000E5, 0x1B80, 0x5C000E7, 0x1B80, 0x700F5, 0x1B80,
     0x700F7, 0x1B80, 0x64020105, 0x1B80, 0x64020107, 0x1B80, 0x20115, 0x1B80, 0x20117, 0x1B80,
     0x40125, 0x1B80, 0x40127, 0x1B80, 0x4A000135, 0x1B80, 0x4A000137, 0x1B80, 0x4B040145, 0x1B80,
     0x4B040147, 0x1B80, 0x85030155, 0x1B80, 0x85030157, 0x1B80, 0x40010165, 0x1B80, 0x40010167,
     0x1B80, 0xE0290175, 0x1B80, 0xE0290177, 0x1B80, 0x40185, 0x1B80, 0x40187, 0x1B80, 0x4B050195,
     0x1B80, 0x4B050197, 0x1B80, 0x860301A5, 0x1B80, 0x860301A7, 0x1B80, 0x400301B5, 0x1B80,
     0x400301B7, 0x1B80, 0xE02901C5, 0x1B80, 0xE02901C7, 0x1B80, 0x401D5, 0x1B80, 0x401D7, 0x1B80,
     0x4B0601E5, 0x1B80, 0x4B0601E7, 0x1B80, 0x870301F5, 0x1B80, 0x870301F7, 0x1B80, 0x40050205,
     0x1B80, 0x40050207, 0x1B80, 0xE0290215, 0x1B80, 0xE0290217, 0x1B80, 0x40225, 0x1B80, 0x40227,
     0x1B80, 0x4B070235, 0x1B80, 0x4B070237, 0x1B80, 0x88030245]"

lemma chk_array_mp_8814a_phy_reg_7: "chk_run bb_entry KTop array_mp_8814a_phy_reg_7 =
  Some KTop"
  by code_simp

definition array_mp_8814a_phy_reg_8 :: "u32 list" where
  "array_mp_8814a_phy_reg_8 =
    [0x1B80, 0x88030247, 0x1B80, 0x40070255, 0x1B80, 0x40070257, 0x1B80, 0xE0290265, 0x1B80,
     0xE0290267, 0x1B80, 0x4B000275, 0x1B80, 0x4B000277, 0x1B80, 0x30000285, 0x1B80, 0x30000287,
     0x1B80, 0xFE100295, 0x1B80, 0xFE100297, 0x1B80, 0xFF1002A5, 0x1B80, 0xFF1002A7, 0x1B80,
     0xE18602B5, 0x1B80, 0xE18602B7, 0x1B80, 0xF00A02C5, 0x1B80, 0xF00A02C7, 0x1B80, 0xF10A02D5,
     0x1B80, 0xF10A02D7, 0x1B80, 0xF20A02E5, 0x1B80, 0xF20A02E7, 0x1B80, 0xF30802F5, 0x1B80,
     0xF30802F7, 0x1B80, 0xF4070305, 0x1B80, 0xF4070307, 0x1B80, 0xF5060315, 0x1B80, 0xF5060317,
     0x1B80, 0xF7060325, 0x1B80, 0xF7060327, 0x1B80, 0xF8050335, 0x1B80, 0xF8050337, 0x1B80,
     0xF9040345, 0x1B80, 0xF9040347, 0x1B80, 0x10355, 0x1B80, 0x10357, 0x1B80, 0x303B0365, 0x1B80,
     0x303B0367, 0x1B80, 0x30500375, 0x1B80, 0x30500377, 0x1B80, 0x305C0385, 0x1B80, 0x305C0387,
     0x1B80, 0x31D50395, 0x1B80, 0x31D50397, 0x1B80, 0x31C503A5, 0x1B80, 0x31C503A7, 0x1B80,
     0x4D0403B5, 0x1B80, 0x4D0403B7, 0x1B80, 0x2EF003C5, 0x1B80, 0x2EF003C7, 0x1B80, 0x203D5,
     0x1B80, 0x203D7, 0x1B80, 0x208003E5, 0x1B80, 0x208003E7, 0x1B80, 0x3F5, 0x1B80, 0x3F7,
     0x1B80, 0x4D000405, 0x1B80, 0x4D000407, 0x1B80, 0x55070415, 0x1B80, 0x55070417, 0x1B80,
     0xE1230425, 0x1B80, 0xE1230427, 0x1B80, 0xE1230435, 0x1B80, 0xE1230437, 0x1B80, 0x4D040445,
     0x1B80, 0x4D040447, 0x1B80, 0x20800455, 0x1B80, 0x20800457, 0x1B80, 0x84000465, 0x1B80,
     0x84000467, 0x1B80, 0x4D000475, 0x1B80, 0x4D000477, 0x1B80, 0x550F0485, 0x1B80, 0x550F0487,
     0x1B80, 0xE1230495, 0x1B80, 0xE1230497, 0x1B80, 0x4F0204A5, 0x1B80, 0x4F0204A7, 0x1B80,
     0x4E0004B5, 0x1B80, 0x4E0004B7, 0x1B80, 0x530204C5, 0x1B80, 0x530204C7, 0x1B80, 0x520104D5,
     0x1B80, 0x520104D7, 0x1B80, 0xE12704E5, 0x1B80, 0xE12704E7, 0x1B80, 0x104F5, 0x1B80, 0x104F7,
     0x1B80, 0x5C720505, 0x1B80, 0x5C720507, 0x1B80, 0xE1320515, 0x1B80, 0xE1320517, 0x1B80,
     0x54E50525, 0x1B80, 0x54E50527, 0x1B80, 0x54BF0535, 0x1B80, 0x54BF0537, 0x1B80, 0x54C50545,
     0x1B80, 0x54C50547, 0x1B80, 0x54BE0555, 0x1B80, 0x54BE0557, 0x1B80, 0x54DF0565, 0x1B80,
     0x54DF0567, 0x1B80, 0xBA60575, 0x1B80, 0xBA60577, 0x1B80, 0xF3130585, 0x1B80, 0xF3130587,
     0x1B80, 0xF41E0595, 0x1B80, 0xF41E0597, 0x1B80, 0xF53C05A5, 0x1B80, 0xF53C05A7, 0x1B80,
     0x105B5, 0x1B80, 0x105B7, 0x1B80, 0x620605C5, 0x1B80, 0x620605C7, 0x1B80, 0x600605D5, 0x1B80,
     0x600605D7, 0x1B80, 0xE1A905E5, 0x1B80, 0xE1A905E7, 0x1B80, 0xC0005F5, 0x1B80, 0xC0005F7,
     0x1B80, 0x5C720605, 0x1B80, 0x5C720607, 0x1B80, 0xE1320615, 0x1B80, 0xE1320617, 0x1B80,
     0x5CF10625, 0x1B80, 0x5CF10627, 0x1B80, 0xC010635, 0x1B80, 0xC010637, 0x1B80, 0xF2020645,
     0x1B80, 0xF2020647, 0x1B80, 0x30D60655, 0x1B80, 0x30D60657, 0x1B80, 0xAC60665, 0x1B80,
     0xAC60667, 0x1B80, 0xE1B60675, 0x1B80, 0xE1B60677, 0x1B80, 0xE1580685, 0x1B80, 0xE1580687,
     0x1B80, 0x54E50695, 0x1B80, 0x54E50697, 0x1B80, 0x106A5, 0x1B80, 0x106A7, 0x1B80, 0x560106B5,
     0x1B80, 0x560106B7, 0x1B80, 0x5CE206C5, 0x1B80, 0x5CE206C7]"

lemma chk_array_mp_8814a_phy_reg_8: "chk_run bb_entry KTop array_mp_8814a_phy_reg_8 =
  Some KTop"
  by code_simp

definition array_mp_8814a_phy_reg_9 :: "u32 list" where
  "array_mp_8814a_phy_reg_9 =
    [0x1B80, 0xAE106D5, 0x1B80, 0xAE106D7, 0x1B80, 0x630C06E5, 0x1B80, 0x630C06E7, 0x1B80,
     0xE13F06F5, 0x1B80, 0xE13F06F7, 0x1B80, 0x270705, 0x1B80, 0x270707, 0x1B80, 0xE16C0715,
     0x1B80, 0xE16C0717, 0x1B80, 0x20725, 0x1B80, 0x20727, 0x1B80, 0x2A0735, 0x1B80, 0x2A0737,
     0x1B80, 0x7140745, 0x1B80, 0x7140747, 0x1B80, 0x20755, 0x1B80, 0x20757, 0x1B80, 0x30C30765,
     0x1B80, 0x30C30767, 0x1B80, 0x56010775, 0x1B80, 0x56010777, 0x1B80, 0x5CE20785, 0x1B80,
     0x5CE20787, 0x1B80, 0xAE10795, 0x1B80, 0xAE10797, 0x1B80, 0x631707A5, 0x1B80, 0x631707A7,
     0x1B80, 0xE13F07B5, 0x1B80, 0xE13F07B7, 0x1B80, 0x2507C5, 0x1B80, 0x2507C7, 0x1B80,
     0xE16C07D5, 0x1B80, 0xE16C07D7, 0x1B80, 0x207E5, 0x1B80, 0x207E7, 0x1B80, 0x630F07F5, 0x1B80,
     0x630F07F7, 0x1B80, 0xE13F0805, 0x1B80, 0xE13F0807, 0x1B80, 0x63070815, 0x1B80, 0x63070817,
     0x1B80, 0xE13F0825, 0x1B80, 0xE13F0827, 0x1B80, 0x7140835, 0x1B80, 0x7140837, 0x1B80,
     0x56000845, 0x1B80, 0x56000847, 0x1B80, 0x5CF20855, 0x1B80, 0x5CF20857, 0x1B80, 0xAF10865,
     0x1B80, 0xAF10867, 0x1B80, 0x7140875, 0x1B80, 0x7140877, 0x1B80, 0x7140885, 0x1B80,
     0x7140887, 0x1B80, 0x630F0895, 0x1B80, 0x630F0897, 0x1B80, 0xE13F08A5, 0x1B80, 0xE13F08A7,
     0x1B80, 0x631708B5, 0x1B80, 0x631708B7, 0x1B80, 0xE13F08C5, 0x1B80, 0xE13F08C7, 0x1B80,
     0x2508D5, 0x1B80, 0x2508D7, 0x1B80, 0xE16C08E5, 0x1B80, 0xE16C08E7, 0x1B80, 0x208F5, 0x1B80,
     0x208F7, 0x1B80, 0x30C30905, 0x1B80, 0x30C30907, 0x1B80, 0xE1A90915, 0x1B80, 0xE1A90917,
     0x1B80, 0x62060925, 0x1B80, 0x62060927, 0x1B80, 0x60060935, 0x1B80, 0x60060937, 0x1B80,
     0xE1160945, 0x1B80, 0xE1160947, 0x1B80, 0x54BE0955, 0x1B80, 0x54BE0957, 0x1B80, 0x56010965,
     0x1B80, 0x56010967, 0x1B80, 0x5CE20975, 0x1B80, 0x5CE20977, 0x1B80, 0xAE10985, 0x1B80,
     0xAE10987, 0x1B80, 0x633A0995, 0x1B80, 0x633A0997, 0x1B80, 0xE13F09A5, 0x1B80, 0xE13F09A7,
     0x1B80, 0x633709B5, 0x1B80, 0x633709B7, 0x1B80, 0xE13F09C5, 0x1B80, 0xE13F09C7, 0x1B80,
     0x632F09D5, 0x1B80, 0x632F09D7, 0x1B80, 0xE13F09E5, 0x1B80, 0xE13F09E7, 0x1B80, 0x632709F5,
     0x1B80, 0x632709F7, 0x1B80, 0xE13F0A05, 0x1B80, 0xE13F0A07, 0x1B80, 0x631F0A15, 0x1B80,
     0x631F0A17, 0x1B80, 0xE13F0A25, 0x1B80, 0xE13F0A27, 0x1B80, 0x63170A35, 0x1B80, 0x63170A37,
     0x1B80, 0xE13F0A45, 0x1B80, 0xE13F0A47, 0x1B80, 0x630F0A55, 0x1B80, 0x630F0A57, 0x1B80,
     0xE13F0A65, 0x1B80, 0xE13F0A67, 0x1B80, 0x63070A75, 0x1B80, 0x63070A77, 0x1B80, 0xE13F0A85,
     0x1B80, 0xE13F0A87, 0x1B80, 0xE16C0A95, 0x1B80, 0xE16C0A97, 0x1B80, 0x56000AA5, 0x1B80,
     0x56000AA7, 0x1B80, 0x5CF20AB5, 0x1B80, 0x5CF20AB7, 0x1B80, 0xAF10AC5, 0x1B80, 0xAF10AC7,
     0x1B80, 0xF5040AD5, 0x1B80, 0xF5040AD7, 0x1B80, 0xE13F0AE5, 0x1B80, 0xE13F0AE7, 0x1B80,
     0xE16C0AF5, 0x1B80, 0xE16C0AF7, 0x1B80, 0x30B30B05, 0x1B80, 0x30B30B07, 0x1B80, 0x7140B15,
     0x1B80, 0x7140B17, 0x1B80, 0x7140B25, 0x1B80, 0x7140B27, 0x1B80, 0x630F0B35, 0x1B80,
     0x630F0B37, 0x1B80, 0xE13F0B45, 0x1B80, 0xE13F0B47, 0x1B80, 0x63170B55]"

lemma chk_array_mp_8814a_phy_reg_9: "chk_run bb_entry KTop array_mp_8814a_phy_reg_9 =
  Some KTop"
  by code_simp

definition array_mp_8814a_phy_reg_10 :: "u32 list" where
  "array_mp_8814a_phy_reg_10 =
    [0x1B80, 0x63170B57, 0x1B80, 0xE13F0B65, 0x1B80, 0xE13F0B67, 0x1B80, 0x631F0B75, 0x1B80,
     0x631F0B77, 0x1B80, 0xE13F0B85, 0x1B80, 0xE13F0B87, 0x1B80, 0x63270B95, 0x1B80, 0x63270B97,
     0x1B80, 0xE13F0BA5, 0x1B80, 0xE13F0BA7, 0x1B80, 0x632F0BB5, 0x1B80, 0x632F0BB7, 0x1B80,
     0xE13F0BC5, 0x1B80, 0xE13F0BC7, 0x1B80, 0x63370BD5, 0x1B80, 0x63370BD7, 0x1B80, 0xE13F0BE5,
     0x1B80, 0xE13F0BE7, 0x1B80, 0x633A0BF5, 0x1B80, 0x633A0BF7, 0x1B80, 0xE13F0C05, 0x1B80,
     0xE13F0C07, 0x1B80, 0xF60B0C15, 0x1B80, 0xF60B0C17, 0x1B80, 0xF7170C25, 0x1B80, 0xF7170C27,
     0x1B80, 0x4D300C35, 0x1B80, 0x4D300C37, 0x1B80, 0x57040C45, 0x1B80, 0x57040C47, 0x1B80,
     0x57000C55, 0x1B80, 0x57000C57, 0x1B80, 0x96000C65, 0x1B80, 0x96000C67, 0x1B80, 0x57080C75,
     0x1B80, 0x57080C77, 0x1B80, 0x57000C85, 0x1B80, 0x57000C87, 0x1B80, 0x95000C95, 0x1B80,
     0x95000C97, 0x1B80, 0x4D000CA5, 0x1B80, 0x4D000CA7, 0x1B80, 0x6C070CB5, 0x1B80, 0x6C070CB7,
     0x1B80, 0x10CC5, 0x1B80, 0x10CC7, 0x1B80, 0x220CD5, 0x1B80, 0x220CD7, 0x1B80, 0x6140CE5,
     0x1B80, 0x6140CE7, 0x1B80, 0xE16C0CF5, 0x1B80, 0xE16C0CF7, 0x1B80, 0x20D05, 0x1B80, 0x20D07,
     0x1B80, 0x250D15, 0x1B80, 0x250D17, 0x1B80, 0x6140D25, 0x1B80, 0x6140D27, 0x1B80, 0xE16C0D35,
     0x1B80, 0xE16C0D37, 0x1B80, 0x20D45, 0x1B80, 0x20D47, 0x1B80, 0x10D55, 0x1B80, 0x10D57,
     0x1B80, 0x320D65, 0x1B80, 0x320D67, 0x1B80, 0xE16C0D75, 0x1B80, 0xE16C0D77, 0x1B80, 0x20D85,
     0x1B80, 0x20D87, 0x1B80, 0xE1860D95, 0x1B80, 0xE1860D97, 0x1B80, 0xE1B60DA5, 0x1B80,
     0xE1B60DA7, 0x1B80, 0x5CD10DB5, 0x1B80, 0x5CD10DB7, 0x1B80, 0x673A0DC5, 0x1B80, 0x673A0DC7,
     0x1B80, 0xE1230DD5, 0x1B80, 0xE1230DD7, 0x1B80, 0xF80B0DE5, 0x1B80, 0xF80B0DE7, 0x1B80,
     0xF9110DF5, 0x1B80, 0xF9110DF7, 0x1B80, 0xE1580E05, 0x1B80, 0xE1580E07, 0x1B80, 0x67370E15,
     0x1B80, 0x67370E17, 0x1B80, 0xE1580E25, 0x1B80, 0xE1580E27, 0x1B80, 0x672F0E35, 0x1B80,
     0x672F0E37, 0x1B80, 0xE1580E45, 0x1B80, 0xE1580E47, 0x1B80, 0x67270E55, 0x1B80, 0x67270E57,
     0x1B80, 0xE1580E65, 0x1B80, 0xE1580E67, 0x1B80, 0x671F0E75, 0x1B80, 0x671F0E77, 0x1B80,
     0xE1580E85, 0x1B80, 0xE1580E87, 0x1B80, 0x67170E95, 0x1B80, 0x67170E97, 0x1B80, 0xE1580EA5,
     0x1B80, 0xE1580EA7, 0x1B80, 0xF8020EB5, 0x1B80, 0xF8020EB7, 0x1B80, 0x30EE0EC5, 0x1B80,
     0x30EE0EC7, 0x1B80, 0xE0D10ED5, 0x1B80, 0xE0D10ED7, 0x1B80, 0x670F0EE5, 0x1B80, 0x670F0EE7,
     0x1B80, 0xE1580EF5, 0x1B80, 0xE1580EF7, 0x1B80, 0x67070F05, 0x1B80, 0x67070F07, 0x1B80,
     0xE1580F15, 0x1B80, 0xE1580F17, 0x1B80, 0xF9020F25, 0x1B80, 0xF9020F27, 0x1B80, 0x30F50F35,
     0x1B80, 0x30F50F37, 0x1B80, 0xE0CD0F45, 0x1B80, 0xE0CD0F47, 0x1B80, 0x6140F55, 0x1B80,
     0x6140F57, 0x1B80, 0xE16C0F65, 0x1B80, 0xE16C0F67, 0x1B80, 0x5CF10F75, 0x1B80, 0x5CF10F77,
     0x1B80, 0xE1580F85, 0x1B80, 0xE1580F87, 0x1B80, 0x6140F95, 0x1B80, 0x6140F97, 0x1B80,
     0xE16C0FA5, 0x1B80, 0xE16C0FA7, 0x1B80, 0xF9020FB5, 0x1B80, 0xF9020FB7, 0x1B80, 0x30FF0FC5,
     0x1B80, 0x30FF0FC7, 0x1B80, 0xE0CD0FD5, 0x1B80, 0xE0CD0FD7]"

lemma chk_array_mp_8814a_phy_reg_10: "chk_run bb_entry KTop array_mp_8814a_phy_reg_10 =
  Some KTop"
  by code_simp

definition array_mp_8814a_phy_reg_11 :: "u32 list" where
  "array_mp_8814a_phy_reg_11 =
    [0x1B80, 0x31130FE5, 0x1B80, 0x31130FE7, 0x1B80, 0x670F0FF5, 0x1B80, 0x670F0FF7, 0x1B80,
     0xE1581005, 0x1B80, 0xE1581007, 0x1B80, 0x67171015, 0x1B80, 0x67171017, 0x1B80, 0xE1581025,
     0x1B80, 0xE1581027, 0x1B80, 0xF8021035, 0x1B80, 0xF8021037, 0x1B80, 0x31071045, 0x1B80,
     0x31071047, 0x1B80, 0xE0D11055, 0x1B80, 0xE0D11057, 0x1B80, 0x31131065, 0x1B80, 0x31131067,
     0x1B80, 0x670F1075, 0x1B80, 0x670F1077, 0x1B80, 0xE1581085, 0x1B80, 0xE1581087, 0x1B80,
     0x671F1095, 0x1B80, 0x671F1097, 0x1B80, 0xE15810A5, 0x1B80, 0xE15810A7, 0x1B80, 0x672710B5,
     0x1B80, 0x672710B7, 0x1B80, 0xE15810C5, 0x1B80, 0xE15810C7, 0x1B80, 0x672F10D5, 0x1B80,
     0x672F10D7, 0x1B80, 0xE15810E5, 0x1B80, 0xE15810E7, 0x1B80, 0x673710F5, 0x1B80, 0x673710F7,
     0x1B80, 0xE1581105, 0x1B80, 0xE1581107, 0x1B80, 0x673A1115, 0x1B80, 0x673A1117, 0x1B80,
     0xE1581125, 0x1B80, 0xE1581127, 0x1B80, 0x4D101135, 0x1B80, 0x4D101137, 0x1B80, 0x30C41145,
     0x1B80, 0x30C41147, 0x1B80, 0x11155, 0x1B80, 0x11157, 0x1B80, 0x6F241165, 0x1B80, 0x6F241167,
     0x1B80, 0x6E401175, 0x1B80, 0x6E401177, 0x1B80, 0x6D001185, 0x1B80, 0x6D001187, 0x1B80,
     0x55031195, 0x1B80, 0x55031197, 0x1B80, 0x312311A5, 0x1B80, 0x312311A7, 0x1B80, 0x6F1C11B5,
     0x1B80, 0x6F1C11B7, 0x1B80, 0x6E4011C5, 0x1B80, 0x6E4011C7, 0x1B80, 0x550B11D5, 0x1B80,
     0x550B11D7, 0x1B80, 0x312311E5, 0x1B80, 0x312311E7, 0x1B80, 0x61C11F5, 0x1B80, 0x61C11F7,
     0x1B80, 0x54DE1205, 0x1B80, 0x54DE1207, 0x1B80, 0x6DC1215, 0x1B80, 0x6DC1217, 0x1B80,
     0x55131225, 0x1B80, 0x55131227, 0x1B80, 0x74011235, 0x1B80, 0x74011237, 0x1B80, 0x74001245,
     0x1B80, 0x74001247, 0x1B80, 0x8E001255, 0x1B80, 0x8E001257, 0x1B80, 0x11265, 0x1B80, 0x11267,
     0x1B80, 0x57021275, 0x1B80, 0x57021277, 0x1B80, 0x57001285, 0x1B80, 0x57001287, 0x1B80,
     0x97001295, 0x1B80, 0x97001297, 0x1B80, 0x112A5, 0x1B80, 0x112A7, 0x1B80, 0x54BF12B5, 0x1B80,
     0x54BF12B7, 0x1B80, 0x54C112C5, 0x1B80, 0x54C112C7, 0x1B80, 0x54A212D5, 0x1B80, 0x54A212D7,
     0x1B80, 0x54C012E5, 0x1B80, 0x54C012E7, 0x1B80, 0x54A112F5, 0x1B80, 0x54A112F7, 0x1B80,
     0x54DF1305, 0x1B80, 0x54DF1307, 0x1B80, 0x11315, 0x1B80, 0x11317, 0x1B80, 0x55001325, 0x1B80,
     0x55001327, 0x1B80, 0xE1231335, 0x1B80, 0xE1231337, 0x1B80, 0x54811345, 0x1B80, 0x54811347,
     0x1B80, 0xE1231355, 0x1B80, 0xE1231357, 0x1B80, 0x54801365, 0x1B80, 0x54801367, 0x1B80,
     0x2A1375, 0x1B80, 0x2A1377, 0x1B80, 0xE12B1385, 0x1B80, 0xE12B1387, 0x1B80, 0xE1231395,
     0x1B80, 0xE1231397, 0x1B80, 0x548013A5, 0x1B80, 0x548013A7, 0x1B80, 0xE17213B5, 0x1B80,
     0xE17213B7, 0x1B80, 0xBF3013C5, 0x1B80, 0xBF3013C7, 0x1B80, 0x213D5, 0x1B80, 0x213D7, 0x1B80,
     0x302813E5, 0x1B80, 0x302813E7, 0x1B80, 0x4F7813F5, 0x1B80, 0x4F7813F7, 0x1B80, 0x4E001405,
     0x1B80, 0x4E001407, 0x1B80, 0x53871415, 0x1B80, 0x53871417, 0x1B80, 0x52F11425, 0x1B80,
     0x52F11427, 0x1B80, 0xE1161435, 0x1B80, 0xE1161437, 0x1B80, 0xE11B1445, 0x1B80, 0xE11B1447,
     0x1B80, 0xE11F1455, 0x1B80, 0xE11F1457, 0x1B80, 0xE1271465]"

lemma chk_array_mp_8814a_phy_reg_11: "chk_run bb_entry KTop array_mp_8814a_phy_reg_11 =
  Some KTop"
  by code_simp

definition array_mp_8814a_phy_reg_12 :: "u32 list" where
  "array_mp_8814a_phy_reg_12 =
    [0x1B80, 0xE1271467, 0x1B80, 0x54811475, 0x1B80, 0x54811477, 0x1B80, 0xE1161485, 0x1B80,
     0xE1161487, 0x1B80, 0xE11B1495, 0x1B80, 0xE11B1497, 0x1B80, 0xE11F14A5, 0x1B80, 0xE11F14A7,
     0x1B80, 0xE12714B5, 0x1B80, 0xE12714B7, 0x1B80, 0x548014C5, 0x1B80, 0x548014C7, 0x1B80,
     0x2A14D5, 0x1B80, 0x2A14D7, 0x1B80, 0xE12B14E5, 0x1B80, 0xE12B14E7, 0x1B80, 0xE11614F5,
     0x1B80, 0xE11614F7, 0x1B80, 0xE11B1505, 0x1B80, 0xE11B1507, 0x1B80, 0xE11F1515, 0x1B80,
     0xE11F1517, 0x1B80, 0xE1271525, 0x1B80, 0xE1271527, 0x1B80, 0x54801535, 0x1B80, 0x54801537,
     0x1B80, 0xE1721545, 0x1B80, 0xE1721547, 0x1B80, 0xBF171555, 0x1B80, 0xBF171557, 0x1B80,
     0x21565, 0x1B80, 0x21567, 0x1B80, 0x30281575, 0x1B80, 0x30281577, 0x1B80, 0x6141585, 0x1B80,
     0x6141587, 0x1B80, 0x73201595, 0x1B80, 0x73201597, 0x1B80, 0x720015A5, 0x1B80, 0x720015A7,
     0x1B80, 0x710015B5, 0x1B80, 0x710015B7, 0x1B80, 0x550115C5, 0x1B80, 0x550115C7, 0x1B80,
     0xE12315D5, 0x1B80, 0xE12315D7, 0x1B80, 0xE12715E5, 0x1B80, 0xE12715E7, 0x1B80, 0x548115F5,
     0x1B80, 0x548115F7, 0x1B80, 0xE1231605, 0x1B80, 0xE1231607, 0x1B80, 0xE1271615, 0x1B80,
     0xE1271617, 0x1B80, 0x54801625, 0x1B80, 0x54801627, 0x1B80, 0x2A1635, 0x1B80, 0x2A1637,
     0x1B80, 0xE12B1645, 0x1B80, 0xE12B1647, 0x1B80, 0xE1231655, 0x1B80, 0xE1231657, 0x1B80,
     0xE1271665, 0x1B80, 0xE1271667, 0x1B80, 0x54801675, 0x1B80, 0x54801677, 0x1B80, 0xE1721685,
     0x1B80, 0xE1721687, 0x1B80, 0xBF031695, 0x1B80, 0xBF031697, 0x1B80, 0x216A5, 0x1B80, 0x216A7,
     0x1B80, 0x302816B5, 0x1B80, 0x302816B7, 0x1B80, 0x54BF16C5, 0x1B80, 0x54BF16C7, 0x1B80,
     0x54C516D5, 0x1B80, 0x54C516D7, 0x1B80, 0x50A16E5, 0x1B80, 0x50A16E7, 0x1B80, 0x71416F5,
     0x1B80, 0x71416F7, 0x1B80, 0x54DF1705, 0x1B80, 0x54DF1707, 0x1B80, 0x11715, 0x1B80, 0x11717,
     0x1B80, 0x54BF1725, 0x1B80, 0x54BF1727, 0x1B80, 0x54C01735, 0x1B80, 0x54C01737, 0x1B80,
     0x54A31745, 0x1B80, 0x54A31747, 0x1B80, 0x54C11755, 0x1B80, 0x54C11757, 0x1B80, 0x54A41765,
     0x1B80, 0x54A41767, 0x1B80, 0x4C831775, 0x1B80, 0x4C831777, 0x1B80, 0x4C031785, 0x1B80,
     0x4C031787, 0x1B80, 0xBF0B1795, 0x1B80, 0xBF0B1797, 0x1B80, 0x54C217A5, 0x1B80, 0x54C217A7,
     0x1B80, 0x54A417B5, 0x1B80, 0x54A417B7, 0x1B80, 0x4C8517C5, 0x1B80, 0x4C8517C7, 0x1B80,
     0x4C0517D5, 0x1B80, 0x4C0517D7, 0x1B80, 0xBF0617E5, 0x1B80, 0xBF0617E7, 0x1B80, 0x54C117F5,
     0x1B80, 0x54C117F7, 0x1B80, 0x54A31805, 0x1B80, 0x54A31807, 0x1B80, 0x4C861815, 0x1B80,
     0x4C861817, 0x1B80, 0x4C061825, 0x1B80, 0x4C061827, 0x1B80, 0xBF011835, 0x1B80, 0xBF011837,
     0x1B80, 0x54DF1845, 0x1B80, 0x54DF1847, 0x1B80, 0x11855, 0x1B80, 0x11857, 0x1B80, 0x71865,
     0x1B80, 0x71867, 0x1B80, 0x54011875, 0x1B80, 0x54011877, 0x1B80, 0x41885, 0x1B80, 0x41887,
     0x1B80, 0x56001895, 0x1B80, 0x56001897, 0x1B80, 0x5CF218A5, 0x1B80, 0x5CF218A7, 0x1B80,
     0x630718B5, 0x1B80, 0x630718B7, 0x1B80, 0x620418C5, 0x1B80, 0x620418C7, 0x1B80, 0x610018D5,
     0x1B80, 0x610018D7, 0x1B80, 0x670718E5, 0x1B80, 0x670718E7]"

lemma chk_array_mp_8814a_phy_reg_12: "chk_run bb_entry KTop array_mp_8814a_phy_reg_12 =
  Some KTop"
  by code_simp

definition array_mp_8814a_phy_reg_13 :: "u32 list" where
  "array_mp_8814a_phy_reg_13 =
    [0x1B80, 0x660618F5, 0x1B80, 0x660618F7, 0x1B80, 0x6F201905, 0x1B80, 0x6F201907, 0x1B80,
     0x6E001915, 0x1B80, 0x6E001917, 0x1B80, 0x6D001925, 0x1B80, 0x6D001927, 0x1B80, 0x6C031935,
     0x1B80, 0x6C031937, 0x1B80, 0x73201945, 0x1B80, 0x73201947, 0x1B80, 0x72001955, 0x1B80,
     0x72001957, 0x1B80, 0x71001965, 0x1B80, 0x71001967, 0x1B80, 0x7B201975, 0x1B80, 0x7B201977,
     0x1B80, 0x7A001985, 0x1B80, 0x7A001987, 0x1B80, 0x79001995, 0x1B80, 0x79001997, 0x1B80,
     0x7F2019A5, 0x1B80, 0x7F2019A7, 0x1B80, 0x7E0019B5, 0x1B80, 0x7E0019B7, 0x1B80, 0x7D0019C5,
     0x1B80, 0x7D0019C7, 0x1B80, 0x90119D5, 0x1B80, 0x90119D7, 0x1B80, 0xAC619E5, 0x1B80,
     0xAC619E7, 0x1B80, 0xBA619F5, 0x1B80, 0xBA619F7, 0x1B80, 0xC011A05, 0x1B80, 0xC011A07,
     0x1B80, 0xD021A15, 0x1B80, 0xD021A17, 0x1B80, 0xE041A25, 0x1B80, 0xE041A27, 0x1B80,
     0xFFF1A35, 0x1B80, 0xFFF1A37, 0x1B80, 0x4D041A45, 0x1B80, 0x4D041A47, 0x1B80, 0x28F81A55,
     0x1B80, 0x28F81A57, 0x1B80, 0xE0001A65, 0x1B80, 0xE0001A67, 0x1B80, 0x4D001A75, 0x1B80,
     0x4D001A77, 0x1B80, 0x11A85, 0x1B80, 0x11A87, 0x1B80, 0x4D041A95, 0x1B80, 0x4D041A97, 0x1B80,
     0x2EF81AA5, 0x1B80, 0x2EF81AA7, 0x1B80, 0x21AB5, 0x1B80, 0x21AB7, 0x1B80, 0x23031AC5, 0x1B80,
     0x23031AC7, 0x1B80, 0x1AD5, 0x1B80, 0x1AD7, 0x1B80, 0x23131AE5, 0x1B80, 0x23131AE7, 0x1B80,
     0xE77F1AF5, 0x1B80, 0xE77F1AF7, 0x1B80, 0x232F1B05, 0x1B80, 0x232F1B07, 0x1B80, 0xEFBF1B15,
     0x1B80, 0xEFBF1B17, 0x1B80, 0x2EF01B25, 0x1B80, 0x2EF01B27, 0x1B80, 0x21B35, 0x1B80, 0x21B37,
     0x1B80, 0x4D001B45, 0x1B80, 0x4D001B47, 0x1B80, 0x11B55, 0x1B80, 0x11B57, 0x1B80, 0x4D041B65,
     0x1B80, 0x4D041B67, 0x1B80, 0x2EF81B75, 0x1B80, 0x2EF81B77, 0x1B80, 0x21B85, 0x1B80, 0x21B87,
     0x1B80, 0x23031B95, 0x1B80, 0x23031B97, 0x1B80, 0x1BA5, 0x1B80, 0x1BA7, 0x1B80, 0x23131BB5,
     0x1B80, 0x23131BB7, 0x1B80, 0xE77F1BC5, 0x1B80, 0xE77F1BC7, 0x1B80, 0x232F1BD5, 0x1B80,
     0x232F1BD7, 0x1B80, 0xE79F1BE5, 0x1B80, 0xE79F1BE7, 0x1B80, 0x2EF01BF5, 0x1B80, 0x2EF01BF7,
     0x1B80, 0x21C05, 0x1B80, 0x21C07, 0x1B80, 0x28F81C15, 0x1B80, 0x28F81C17, 0x1B80, 0x80001C25,
     0x1B80, 0x80001C27, 0x1B80, 0x4D001C35, 0x1B80, 0x4D001C37, 0x1B80, 0x11C45, 0x1B80, 0x11C47,
     0x1B80, 0x41C55, 0x1B80, 0x41C57, 0x1B80, 0x6BC01C65, 0x1B80, 0x6BC01C67, 0x1B80, 0x4D041C75,
     0x1B80, 0x4D041C77, 0x80000001, 0, 0x40000000, 0, 0x1B80, 0x68241C85, 0x1B80, 0x68241C87,
     0x90000002, 0, 0x40000000, 0, 0x1B80, 0x68241C85, 0x1B80, 0x68241C87, 0x90000004, 0,
     0x40000000, 0, 0x1B80, 0x68241C85, 0x1B80, 0x68241C87, 0x90000003, 0, 0x40000000, 0, 0x1B80,
     0x68241C85, 0x1B80, 0x68241C87, 0x90000005, 0, 0x40000000, 0, 0x1B80, 0x68241C85, 0x1B80,
     0x68241C87, 0x90000006, 0, 0x40000000, 0, 0x1B80, 0x68241C85, 0x1B80, 0x68241C87, 0x9000000A,
     0, 0x40000000, 0, 0x1B80, 0x68241C85, 0x1B80, 0x68241C87, 0x9000000B, 0, 0x40000000, 0,
     0x1B80, 0x68241C85, 0x1B80, 0x68241C87, 0xA0000000, 0, 0x1B80, 0x68481C85, 0x1B80,
     0x68481C87, 0xB0000000, 0, 0x1B80, 0x66061C95, 0x1B80, 0x66061C97, 0x80000001, 0, 0x40000000,
     0]"

lemma chk_array_mp_8814a_phy_reg_13: "chk_run bb_entry KTop array_mp_8814a_phy_reg_13 =
  Some (KIn None [])"
  by code_simp

definition array_mp_8814a_phy_reg_14 :: "u32 list" where
  "array_mp_8814a_phy_reg_14 =
    [0x1B80, 0x650C1CA5, 0x1B80, 0x650C1CA7, 0x90000002, 0, 0x40000000, 0, 0x1B80, 0x650C1CA5,
     0x1B80, 0x650C1CA7, 0x90000004, 0, 0x40000000, 0, 0x1B80, 0x650C1CA5, 0x1B80, 0x650C1CA7,
     0x90000003, 0, 0x40000000, 0, 0x1B80, 0x650C1CA5, 0x1B80, 0x650C1CA7, 0x90000005, 0,
     0x40000000, 0, 0x1B80, 0x650C1CA5, 0x1B80, 0x650C1CA7, 0x90000006, 0, 0x40000000, 0, 0x1B80,
     0x650C1CA5, 0x1B80, 0x650C1CA7, 0x9000000A, 0, 0x40000000, 0, 0x1B80, 0x650C1CA5, 0x1B80,
     0x650C1CA7, 0x9000000B, 0, 0x40000000, 0, 0x1B80, 0x650C1CA5, 0x1B80, 0x650C1CA7, 0xA0000000,
     0, 0x1B80, 0x65041CA5, 0x1B80, 0x65041CA7, 0xB0000000, 0, 0x1B80, 0x64471CB5, 0x1B80,
     0x64471CB7, 0x1B80, 0x23411CC5, 0x1B80, 0x23411CC7, 0x1B80, 0x100E1CD5, 0x1B80, 0x100E1CD7,
     0x80000001, 0, 0x40000000, 0, 0x1B80, 0x60101CE5, 0x1B80, 0x60101CE7, 0x90000002, 0,
     0x40000000, 0, 0x1B80, 0x60101CE5, 0x1B80, 0x60101CE7, 0x90000004, 0, 0x40000000, 0, 0x1B80,
     0x60101CE5, 0x1B80, 0x60101CE7, 0x90000003, 0, 0x40000000, 0, 0x1B80, 0x60101CE5, 0x1B80,
     0x60101CE7, 0x90000005, 0, 0x40000000, 0, 0x1B80, 0x60101CE5, 0x1B80, 0x60101CE7, 0x90000006,
     0, 0x40000000, 0, 0x1B80, 0x60101CE5, 0x1B80, 0x60101CE7, 0x9000000A, 0, 0x40000000, 0,
     0x1B80, 0x60101CE5, 0x1B80, 0x60101CE7, 0x9000000B, 0, 0x40000000, 0, 0x1B80, 0x60101CE5,
     0x1B80, 0x60101CE7, 0xA0000000, 0, 0x1B80, 0x60011CE5, 0x1B80, 0x60011CE7, 0xB0000000, 0,
     0x1B80, 0x23411CF5, 0x1B80, 0x23411CF7, 0x80000001, 0, 0x40000000, 0, 0x1B80, 0x60811D05,
     0x1B80, 0x60811D07, 0x90000002, 0, 0x40000000, 0, 0x1B80, 0x60811D05, 0x1B80, 0x60811D07,
     0x90000004, 0, 0x40000000, 0, 0x1B80, 0x60811D05, 0x1B80, 0x60811D07, 0x90000003, 0,
     0x40000000, 0, 0x1B80, 0x60811D05, 0x1B80, 0x60811D07, 0x90000005, 0, 0x40000000, 0, 0x1B80,
     0x60811D05, 0x1B80, 0x60811D07, 0x90000006, 0, 0x40000000, 0, 0x1B80, 0x60811D05, 0x1B80,
     0x60811D07, 0x9000000A, 0, 0x40000000, 0, 0x1B80, 0x60811D05, 0x1B80, 0x60811D07, 0x9000000B,
     0, 0x40000000, 0, 0x1B80, 0x60811D05, 0x1B80, 0x60811D07, 0xA0000000, 0, 0x1B80, 0x60611D05,
     0x1B80, 0x60611D07, 0xB0000000, 0, 0x1B80, 0x23411D15, 0x1B80, 0x23411D17, 0x1B80,
     0x70E11D25, 0x1B80, 0x70E11D27, 0x1B80, 0x4D001D35, 0x1B80, 0x4D001D37, 0x1B80, 0x11D45,
     0x1B80, 0x11D47, 0x1B80, 0x41D55, 0x1B80, 0x41D57, 0x1B80, 0x6B401D65, 0x1B80, 0x6B401D67,
     0x1B80, 0x4D041D75, 0x1B80, 0x4D041D77, 0x80000002, 0, 0x40000000, 0, 0x1B80, 0x68241D85,
     0x1B80, 0x68241D87, 0x90000004, 0, 0x40000000, 0, 0x1B80, 0x68241D85, 0x1B80, 0x68241D87,
     0x90000003, 0, 0x40000000, 0, 0x1B80, 0x68241D85, 0x1B80, 0x68241D87, 0x90000005, 0,
     0x40000000, 0, 0x1B80, 0x68241D85, 0x1B80, 0x68241D87, 0x9000000A, 0, 0x40000000, 0, 0x1B80,
     0x68241D85, 0x1B80, 0x68241D87, 0x9000000B, 0, 0x40000000, 0, 0x1B80, 0x68241D85, 0x1B80,
     0x68241D87, 0xA0000000, 0, 0x1B80, 0x68481D85, 0x1B80, 0x68481D87, 0xB0000000, 0, 0x1B80,
     0x66061D95, 0x1B80, 0x66061D97, 0x80000001, 0, 0x40000000, 0, 0x1B80, 0x65081DA5, 0x1B80,
     0x65081DA7, 0x90000002, 0, 0x40000000, 0, 0x1B80, 0x65181DA5, 0x1B80, 0x65181DA7, 0x90000004,
     0, 0x40000000, 0, 0x1B80, 0x65181DA5, 0x1B80, 0x65181DA7, 0x90000003, 0, 0x40000000, 0,
     0x1B80, 0x65181DA5, 0x1B80, 0x65181DA7, 0x90000005, 0, 0x40000000, 0, 0x1B80, 0x65181DA5,
     0x1B80, 0x65181DA7, 0x90000006, 0, 0x40000000, 0]"

lemma chk_array_mp_8814a_phy_reg_14: "chk_run bb_entry (KIn None []) array_mp_8814a_phy_reg_14 =
  Some (KIn (Some [0x1B80, 0x1B80]) [])"
  by code_simp

definition array_mp_8814a_phy_reg_15 :: "u32 list" where
  "array_mp_8814a_phy_reg_15 =
    [0x1B80, 0x65081DA5, 0x1B80, 0x65081DA7, 0x9000000A, 0, 0x40000000, 0, 0x1B80, 0x65181DA5,
     0x1B80, 0x65181DA7, 0x9000000B, 0, 0x40000000, 0, 0x1B80, 0x65181DA5, 0x1B80, 0x65181DA7,
     0xA0000000, 0, 0x1B80, 0x65081DA5, 0x1B80, 0x65081DA7, 0xB0000000, 0, 0x80000002, 0,
     0x40000000, 0, 0x1B80, 0x64481DB5, 0x1B80, 0x64481DB7, 0x90000004, 0, 0x40000000, 0, 0x1B80,
     0x64481DB5, 0x1B80, 0x64481DB7, 0x90000003, 0, 0x40000000, 0, 0x1B80, 0x64481DB5, 0x1B80,
     0x64481DB7, 0x90000005, 0, 0x40000000, 0, 0x1B80, 0x64481DB5, 0x1B80, 0x64481DB7, 0x9000000A,
     0, 0x40000000, 0, 0x1B80, 0x64481DB5, 0x1B80, 0x64481DB7, 0x9000000B, 0, 0x40000000, 0,
     0x1B80, 0x64481DB5, 0x1B80, 0x64481DB7, 0xA0000000, 0, 0x1B80, 0x64471DB5, 0x1B80,
     0x64471DB7, 0xB0000000, 0, 0x1B80, 0x23411DC5, 0x1B80, 0x23411DC7, 0x80000001, 0, 0x40000000,
     0, 0x1B80, 0x11E41DD5, 0x1B80, 0x11E41DD7, 0x90000002, 0, 0x40000000, 0, 0x1B80, 0x11E81DD5,
     0x1B80, 0x11E81DD7, 0x90000004, 0, 0x40000000, 0, 0x1B80, 0x11E81DD5, 0x1B80, 0x11E81DD7,
     0x90000003, 0, 0x40000000, 0, 0x1B80, 0x11E81DD5, 0x1B80, 0x11E81DD7, 0x90000005, 0,
     0x40000000, 0, 0x1B80, 0x11E81DD5, 0x1B80, 0x11E81DD7, 0x90000006, 0, 0x40000000, 0, 0x1B80,
     0x11E41DD5, 0x1B80, 0x11E41DD7, 0x9000000A, 0, 0x40000000, 0, 0x1B80, 0x11E81DD5, 0x1B80,
     0x11E81DD7, 0x9000000B, 0, 0x40000000, 0, 0x1B80, 0x11E81DD5, 0x1B80, 0x11E81DD7, 0xA0000000,
     0, 0x1B80, 0x11E41DD5, 0x1B80, 0x11E41DD7, 0xB0000000, 0, 0x1B80, 0x60011DE5, 0x1B80,
     0x60011DE7, 0x1B80, 0x23411DF5, 0x1B80, 0x23411DF7, 0x80000001, 0, 0x40000000, 0, 0x1B80,
     0x60E11E05, 0x1B80, 0x60E11E07, 0x90000002, 0, 0x40000000, 0, 0x1B80, 0x61E11E05, 0x1B80,
     0x61E11E07, 0x90000004, 0, 0x40000000, 0, 0x1B80, 0x61E11E05, 0x1B80, 0x61E11E07, 0x90000003,
     0, 0x40000000, 0, 0x1B80, 0x61E11E05, 0x1B80, 0x61E11E07, 0x90000005, 0, 0x40000000, 0,
     0x1B80, 0x61E11E05, 0x1B80, 0x61E11E07, 0x90000006, 0, 0x40000000, 0, 0x1B80, 0x60E11E05,
     0x1B80, 0x60E11E07, 0x9000000A, 0, 0x40000000, 0, 0x1B80, 0x61E11E05, 0x1B80, 0x61E11E07,
     0x9000000B, 0, 0x40000000, 0, 0x1B80, 0x61E11E05, 0x1B80, 0x61E11E07, 0xA0000000, 0, 0x1B80,
     0x60E11E05, 0x1B80, 0x60E11E07, 0xB0000000, 0, 0x1B80, 0x23411E15, 0x1B80, 0x23411E17,
     0x1B80, 0x70611E25, 0x1B80, 0x70611E27, 0x1B80, 0x4D001E35, 0x1B80, 0x4D001E37, 0x1B80,
     0x11E45, 0x1B80, 0x11E47, 0x1B80, 0x1E55, 0x1B80, 0x1E57, 0x1B80, 0x1E65, 0x1B80, 0x1E67,
     0x1B80, 0x1E75, 0x1B80, 0x1E77, 0x1B80, 0x1E85, 0x1B80, 0x1E87, 0x1B80, 0x1E95, 0x1B80,
     0x1E97, 0x1B80, 0x1EA5, 0x1B80, 0x1EA7, 0x1B80, 0x1EB5, 0x1B80, 0x1EB7, 0x1B80, 0x1EC5,
     0x1B80, 0x1EC7, 0x1B80, 0x1ED5, 0x1B80, 0x1ED7, 0x1B80, 0x1EE5, 0x1B80, 0x1EE7, 0x1B80,
     0x1EF5, 0x1B80, 0x1EF7, 0x1B80, 0x1F05, 0x1B80, 0x1F07, 0x1B80, 0x1F15, 0x1B80, 0x1F17,
     0x1B80, 0x1F25, 0x1B80, 0x1F27, 0x1B80, 0x1F35, 0x1B80, 0x1F37, 0x1B80, 0x1F45, 0x1B80,
     0x1F47, 0x1B80, 0x1F55, 0x1B80, 0x1F57, 0x1B80, 0x1F65, 0x1B80, 0x1F67, 0x1B80, 0x1F75,
     0x1B80, 0x1F77, 0x1B80, 0x1F85, 0x1B80, 0x1F87, 0x1B80, 0x1F95]"

lemma chk_array_mp_8814a_phy_reg_15: "chk_run bb_entry (KIn (Some [0x1B80, 0x1B80]) []) array_mp_8814a_phy_reg_15 =
  Some KTop"
  by code_simp

definition array_mp_8814a_phy_reg_16 :: "u32 list" where
  "array_mp_8814a_phy_reg_16 =
    [0x1B80, 0x1F97, 0x1B80, 0x1FA5, 0x1B80, 0x1FA7, 0x1B80, 0x1FB5, 0x1B80, 0x1FB7, 0x1B80,
     0x1FC5, 0x1B80, 0x1FC7, 0x1B80, 0x1FD5, 0x1B80, 0x1FD7, 0x1B80, 0x1FE5, 0x1B80, 0x1FE7,
     0x1B80, 0x1FF5, 0x1B80, 0x1FF7, 0x1B80, 6, 0x1B80, 2]"

lemma chk_array_mp_8814a_phy_reg_16: "chk_run bb_entry KTop array_mp_8814a_phy_reg_16 =
  Some KTop"
  by code_simp

definition array_mp_8814a_phy_reg :: "u32 list" where
  "array_mp_8814a_phy_reg =
    array_mp_8814a_phy_reg_1 @ array_mp_8814a_phy_reg_2 @ array_mp_8814a_phy_reg_3 @ array_mp_8814a_phy_reg_4 @
    array_mp_8814a_phy_reg_5 @ array_mp_8814a_phy_reg_6 @ array_mp_8814a_phy_reg_7 @ array_mp_8814a_phy_reg_8 @
    array_mp_8814a_phy_reg_9 @ array_mp_8814a_phy_reg_10 @ array_mp_8814a_phy_reg_11 @ array_mp_8814a_phy_reg_12 @
    array_mp_8814a_phy_reg_13 @ array_mp_8814a_phy_reg_14 @ array_mp_8814a_phy_reg_15 @ array_mp_8814a_phy_reg_16"

lemma chk_array_mp_8814a_phy_reg: "chk_run bb_entry KTop array_mp_8814a_phy_reg = Some KTop"
  unfolding array_mp_8814a_phy_reg_def append_assoc
  by (simp only: chk_run_append [OF chk_array_mp_8814a_phy_reg_1] chk_run_append [OF chk_array_mp_8814a_phy_reg_2] chk_run_append [OF chk_array_mp_8814a_phy_reg_3] chk_run_append [OF chk_array_mp_8814a_phy_reg_4] chk_run_append [OF chk_array_mp_8814a_phy_reg_5] chk_run_append [OF chk_array_mp_8814a_phy_reg_6] chk_run_append [OF chk_array_mp_8814a_phy_reg_7] chk_run_append [OF chk_array_mp_8814a_phy_reg_8] chk_run_append [OF chk_array_mp_8814a_phy_reg_9] chk_run_append [OF chk_array_mp_8814a_phy_reg_10] chk_run_append [OF chk_array_mp_8814a_phy_reg_11] chk_run_append [OF chk_array_mp_8814a_phy_reg_12] chk_run_append [OF chk_array_mp_8814a_phy_reg_13] chk_run_append [OF chk_array_mp_8814a_phy_reg_14] chk_run_append [OF chk_array_mp_8814a_phy_reg_15] chk_array_mp_8814a_phy_reg_16)

end
