(* ===== verification/PhyAgc8814.thy ===== *)
theory PhyAgc8814
  imports PhyTable
begin

text \<open>
  The AGC table of the RTL8814A, hal/phydm/rtl8814a/Hal8814_PhyTables.c, in pieces of at most 150
  source lines, each with the state the table checker has behind it.
\<close>

definition array_mp_8814a_agc_tab_1 :: "u32 list" where
  "array_mp_8814a_agc_tab_1 =
    [0x80000002, 0, 0x40000000, 0, 0x81C, 0xFE000003, 0x90000003, 0, 0x40000000, 0, 0x81C,
     0xFE000003, 0x90000004, 0, 0x40000000, 0, 0x81C, 0xFE000003, 0x90000005, 0, 0x40000000, 0,
     0x81C, 0xFE000003, 0x90000007, 0, 0x40000000, 0, 0x81C, 0xFF000003, 0x90000008, 0,
     0x40000000, 0, 0x81C, 0xFE000003, 0x90000009, 0, 0x40000000, 0, 0x81C, 0xFF000003,
     0x9000000A, 0, 0x40000000, 0, 0x81C, 0xFE000003, 0x9000000B, 0, 0x40000000, 0, 0x81C,
     0xFE000003, 0xA0000000, 0, 0x81C, 0xFF000003, 0xB0000000, 0, 0x80000001, 0, 0x40000000, 0,
     0x81C, 0xFE000003, 0x81C, 0xFD020003, 0x81C, 0xFC040003, 0x81C, 0xFB060003, 0x81C,
     0xFA080003, 0x81C, 0xF90A0003, 0x81C, 0xF80C0003, 0x81C, 0xF70E0003, 0x81C, 0xF6100003,
     0x81C, 0xF5120003, 0x81C, 0xF4140003, 0x81C, 0xF3160003, 0x81C, 0xF2180003, 0x81C,
     0xF11A0003, 0x81C, 0xF01C0003, 0x81C, 0xEF1E0003, 0x81C, 0xEE200003, 0x81C, 0xED220003,
     0x81C, 0xCF240003, 0x81C, 0xCE260003, 0x81C, 0xCD280003, 0x81C, 0xCC2A0003, 0x81C,
     0xCB2C0003, 0x81C, 0xCA2E0003, 0x81C, 0xC9300003, 0x81C, 0xC8320003, 0x81C, 0xC7340003,
     0x81C, 0xC6360003, 0x81C, 0xC5380003, 0x81C, 0xC43A0003, 0x81C, 0xA63C0003, 0x81C,
     0xA53E0003, 0x81C, 0xA4400003, 0x81C, 0xA3420003, 0x81C, 0xA2440003, 0x81C, 0xA1460003,
     0x81C, 0x86480003, 0x81C, 0x854A0003, 0x81C, 0x844C0003, 0x81C, 0x834E0003, 0x81C,
     0x66500003, 0x81C, 0x65520003, 0x81C, 0x64540003, 0x81C, 0x63560003, 0x81C, 0x62580003,
     0x81C, 0x615A0003, 0x81C, 0x435C0003, 0x81C, 0x425E0003, 0x81C, 0x41600003, 0x81C,
     0x27620003, 0x81C, 0x26640003, 0x81C, 0x25660003, 0x81C, 0x24680003, 0x81C, 0x236A0003,
     0x81C, 0x226C0003, 0x81C, 0x216E0003, 0x81C, 0x21700003, 0x81C, 0x21720003, 0x81C,
     0x21740003, 0x81C, 0x21760003, 0x81C, 0x21780003, 0x81C, 0x217A0003, 0x81C, 0x217C0003,
     0x81C, 0x217E0003, 0x90000002, 0, 0x40000000, 0, 0x81C, 0xFF000003, 0x81C, 0xFE020003, 0x81C,
     0xFD040003, 0x81C, 0xFC060003, 0x81C, 0xFB080003, 0x81C, 0xFA0A0003, 0x81C, 0xF90C0003,
     0x81C, 0xF80E0003, 0x81C, 0xF7100003, 0x81C, 0xF6120003, 0x81C, 0xF5140003, 0x81C,
     0xF4160003, 0x81C, 0xF3180003, 0x81C, 0xF21A0003, 0x81C, 0xF11C0003, 0x81C, 0xF01E0003,
     0x81C, 0xEF200003, 0x81C, 0xEE220003, 0x81C, 0xED240003, 0x81C, 0xEC260003, 0x81C,
     0xEB280003, 0x81C, 0xEA2A0003, 0x81C, 0xE92C0003, 0x81C, 0xE82E0003, 0x81C, 0xE7300003,
     0x81C, 0xE6320003, 0x81C, 0xE5340003, 0x81C, 0xE4360003, 0x81C, 0xE3380003, 0x81C,
     0xC53A0003, 0x81C, 0xC43C0003, 0x81C, 0xC33E0003, 0x81C, 0xC2400003, 0x81C, 0xC1420003,
     0x81C, 0xA8440003, 0x81C, 0xA7460003, 0x81C, 0xA6480003, 0x81C, 0xA54A0003, 0x81C,
     0xA44C0003, 0x81C, 0xA34E0003, 0x81C, 0xA2500003, 0x81C, 0x65520003, 0x81C, 0x64540003,
     0x81C, 0x63560003, 0x81C, 0x62580003, 0x81C, 0x615A0003, 0x81C, 0x475C0003, 0x81C,
     0x465E0003, 0x81C, 0x45600003, 0x81C, 0x44620003, 0x81C, 0x43640003, 0x81C, 0x42660003,
     0x81C, 0x41680003, 0x81C, 0x416A0003, 0x81C, 0x416C0003, 0x81C, 0x416E0003, 0x81C, 0x41700003]"

lemma chk_array_mp_8814a_agc_tab_1: "chk_run bb_entry KTop array_mp_8814a_agc_tab_1 =
  Some (KIn (Some [0x81C, 0x81C, 0x81C, 0x81C, 0x81C, 0x81C, 0x81C, 0x81C, 0x81C, 0x81C, 0x81C, 0x81C, 0x81C, 0x81C, 0x81C, 0x81C, 0x81C, 0x81C, 0x81C, 0x81C, 0x81C, 0x81C, 0x81C, 0x81C, 0x81C, 0x81C, 0x81C, 0x81C, 0x81C, 0x81C, 0x81C, 0x81C, 0x81C, 0x81C, 0x81C, 0x81C, 0x81C, 0x81C, 0x81C, 0x81C, 0x81C, 0x81C, 0x81C, 0x81C, 0x81C, 0x81C, 0x81C, 0x81C, 0x81C, 0x81C, 0x81C, 0x81C, 0x81C, 0x81C, 0x81C, 0x81C, 0x81C, 0x81C, 0x81C, 0x81C, 0x81C, 0x81C, 0x81C, 0x81C]) [0x81C, 0x81C, 0x81C, 0x81C, 0x81C, 0x81C, 0x81C, 0x81C, 0x81C, 0x81C, 0x81C, 0x81C, 0x81C, 0x81C, 0x81C, 0x81C, 0x81C, 0x81C, 0x81C, 0x81C, 0x81C, 0x81C, 0x81C, 0x81C, 0x81C, 0x81C, 0x81C, 0x81C, 0x81C, 0x81C, 0x81C, 0x81C, 0x81C, 0x81C, 0x81C, 0x81C, 0x81C, 0x81C, 0x81C, 0x81C, 0x81C, 0x81C, 0x81C, 0x81C, 0x81C, 0x81C, 0x81C, 0x81C, 0x81C, 0x81C, 0x81C, 0x81C, 0x81C, 0x81C, 0x81C, 0x81C, 0x81C])"
  by code_simp

definition array_mp_8814a_agc_tab_2 :: "u32 list" where
  "array_mp_8814a_agc_tab_2 =
    [0x81C, 0x41720003, 0x81C, 0x41740003, 0x81C, 0x41760003, 0x81C, 0x41780003, 0x81C,
     0x417A0003, 0x81C, 0x417C0003, 0x81C, 0x417E0003, 0x90000003, 0, 0x40000000, 0, 0x81C,
     0xFE000003, 0x81C, 0xFD020003, 0x81C, 0xFC040003, 0x81C, 0xFB060003, 0x81C, 0xFA080003,
     0x81C, 0xF90A0003, 0x81C, 0xF80C0003, 0x81C, 0xF70E0003, 0x81C, 0xF6100003, 0x81C,
     0xF5120003, 0x81C, 0xF4140003, 0x81C, 0xF3160003, 0x81C, 0xF2180003, 0x81C, 0xF11A0003,
     0x81C, 0xF01C0003, 0x81C, 0xEF1E0003, 0x81C, 0xEE200003, 0x81C, 0xED220003, 0x81C,
     0xEC240003, 0x81C, 0xEB260003, 0x81C, 0xEA280003, 0x81C, 0xE92A0003, 0x81C, 0xE82C0003,
     0x81C, 0xE72E0003, 0x81C, 0xE6300003, 0x81C, 0xE5320003, 0x81C, 0xE4340003, 0x81C,
     0xE3360003, 0x81C, 0xC6380003, 0x81C, 0xC53A0003, 0x81C, 0xC43C0003, 0x81C, 0xC33E0003,
     0x81C, 0xC2400003, 0x81C, 0xA9420003, 0x81C, 0xA8440003, 0x81C, 0xA7460003, 0x81C,
     0xA6480003, 0x81C, 0xA54A0003, 0x81C, 0xA44C0003, 0x81C, 0xA34E0003, 0x81C, 0x66500003,
     0x81C, 0x65520003, 0x81C, 0x64540003, 0x81C, 0x63560003, 0x81C, 0x49580003, 0x81C,
     0x485A0003, 0x81C, 0x475C0003, 0x81C, 0x465E0003, 0x81C, 0x45600003, 0x81C, 0x44620003,
     0x81C, 0x43640003, 0x81C, 0x42660003, 0x81C, 0x41680003, 0x81C, 0x416A0003, 0x81C,
     0x416C0003, 0x81C, 0x416E0003, 0x81C, 0x41700003, 0x81C, 0x41720003, 0x81C, 0x41740003,
     0x81C, 0x41760003, 0x81C, 0x41780003, 0x81C, 0x417A0003, 0x81C, 0x417C0003, 0x81C,
     0x417E0003, 0x90000004, 0, 0x40000000, 0, 0x81C, 0xFF000003, 0x81C, 0xFE020003, 0x81C,
     0xFD040003, 0x81C, 0xFC060003, 0x81C, 0xFB080003, 0x81C, 0xFA0A0003, 0x81C, 0xF90C0003,
     0x81C, 0xF80E0003, 0x81C, 0xF7100003, 0x81C, 0xF6120003, 0x81C, 0xF5140003, 0x81C,
     0xF4160003, 0x81C, 0xF3180003, 0x81C, 0xF21A0003, 0x81C, 0xF11C0003, 0x81C, 0xF01E0003,
     0x81C, 0xEF200003, 0x81C, 0xEE220003, 0x81C, 0xED240003, 0x81C, 0xEC260003, 0x81C,
     0xEB280003, 0x81C, 0xEA2A0003, 0x81C, 0xE92C0003, 0x81C, 0xE82E0003, 0x81C, 0xE7300003,
     0x81C, 0xE6320003, 0x81C, 0xE5340003, 0x81C, 0xE4360003, 0x81C, 0xE3380003, 0x81C,
     0xC53A0003, 0x81C, 0xC43C0003, 0x81C, 0xC33E0003, 0x81C, 0xC2400003, 0x81C, 0xC1420003,
     0x81C, 0xA8440003, 0x81C, 0xA7460003, 0x81C, 0xA6480003, 0x81C, 0xA54A0003, 0x81C,
     0xA44C0003, 0x81C, 0xA34E0003, 0x81C, 0xA2500003, 0x81C, 0x65520003, 0x81C, 0x64540003,
     0x81C, 0x63560003, 0x81C, 0x62580003, 0x81C, 0x615A0003, 0x81C, 0x475C0003, 0x81C,
     0x465E0003, 0x81C, 0x45600003, 0x81C, 0x44620003, 0x81C, 0x43640003, 0x81C, 0x42660003,
     0x81C, 0x41680003, 0x81C, 0x416A0003, 0x81C, 0x416C0003, 0x81C, 0x416E0003, 0x81C,
     0x41700003, 0x81C, 0x41720003, 0x81C, 0x41740003, 0x81C, 0x41760003, 0x81C, 0x41780003,
     0x81C, 0x417A0003, 0x81C, 0x417C0003, 0x81C, 0x417E0003, 0x90000005, 0, 0x40000000, 0, 0x81C,
     0xFE000003, 0x81C, 0xFD020003, 0x81C, 0xFC040003, 0x81C, 0xFB060003, 0x81C, 0xFA080003,
     0x81C, 0xF90A0003, 0x81C, 0xF80C0003]"

lemma chk_array_mp_8814a_agc_tab_2: "chk_run bb_entry (KIn (Some [0x81C, 0x81C, 0x81C, 0x81C, 0x81C, 0x81C, 0x81C, 0x81C, 0x81C, 0x81C, 0x81C, 0x81C, 0x81C, 0x81C, 0x81C, 0x81C, 0x81C, 0x81C, 0x81C, 0x81C, 0x81C, 0x81C, 0x81C, 0x81C, 0x81C, 0x81C, 0x81C, 0x81C, 0x81C, 0x81C, 0x81C, 0x81C, 0x81C, 0x81C, 0x81C, 0x81C, 0x81C, 0x81C, 0x81C, 0x81C, 0x81C, 0x81C, 0x81C, 0x81C, 0x81C, 0x81C, 0x81C, 0x81C, 0x81C, 0x81C, 0x81C, 0x81C, 0x81C, 0x81C, 0x81C, 0x81C, 0x81C, 0x81C, 0x81C, 0x81C, 0x81C, 0x81C, 0x81C, 0x81C]) [0x81C, 0x81C, 0x81C, 0x81C, 0x81C, 0x81C, 0x81C, 0x81C, 0x81C, 0x81C, 0x81C, 0x81C, 0x81C, 0x81C, 0x81C, 0x81C, 0x81C, 0x81C, 0x81C, 0x81C, 0x81C, 0x81C, 0x81C, 0x81C, 0x81C, 0x81C, 0x81C, 0x81C, 0x81C, 0x81C, 0x81C, 0x81C, 0x81C, 0x81C, 0x81C, 0x81C, 0x81C, 0x81C, 0x81C, 0x81C, 0x81C, 0x81C, 0x81C, 0x81C, 0x81C, 0x81C, 0x81C, 0x81C, 0x81C, 0x81C, 0x81C, 0x81C, 0x81C, 0x81C, 0x81C, 0x81C, 0x81C]) array_mp_8814a_agc_tab_2 =
  Some (KIn (Some [0x81C, 0x81C, 0x81C, 0x81C, 0x81C, 0x81C, 0x81C, 0x81C, 0x81C, 0x81C, 0x81C, 0x81C, 0x81C, 0x81C, 0x81C, 0x81C, 0x81C, 0x81C, 0x81C, 0x81C, 0x81C, 0x81C, 0x81C, 0x81C, 0x81C, 0x81C, 0x81C, 0x81C, 0x81C, 0x81C, 0x81C, 0x81C, 0x81C, 0x81C, 0x81C, 0x81C, 0x81C, 0x81C, 0x81C, 0x81C, 0x81C, 0x81C, 0x81C, 0x81C, 0x81C, 0x81C, 0x81C, 0x81C, 0x81C, 0x81C, 0x81C, 0x81C, 0x81C, 0x81C, 0x81C, 0x81C, 0x81C, 0x81C, 0x81C, 0x81C, 0x81C, 0x81C, 0x81C, 0x81C]) [0x81C, 0x81C, 0x81C, 0x81C, 0x81C, 0x81C, 0x81C])"
  by code_simp

definition array_mp_8814a_agc_tab_3 :: "u32 list" where
  "array_mp_8814a_agc_tab_3 =
    [0x81C, 0xF70E0003, 0x81C, 0xF6100003, 0x81C, 0xF5120003, 0x81C, 0xF4140003, 0x81C,
     0xF3160003, 0x81C, 0xF2180003, 0x81C, 0xF11A0003, 0x81C, 0xF01C0003, 0x81C, 0xEF1E0003,
     0x81C, 0xEE200003, 0x81C, 0xED220003, 0x81C, 0xEC240003, 0x81C, 0xEB260003, 0x81C,
     0xEA280003, 0x81C, 0xE92A0003, 0x81C, 0xE82C0003, 0x81C, 0xE72E0003, 0x81C, 0xE6300003,
     0x81C, 0xE5320003, 0x81C, 0xE4340003, 0x81C, 0xE3360003, 0x81C, 0xC6380003, 0x81C,
     0xC53A0003, 0x81C, 0xC43C0003, 0x81C, 0xC33E0003, 0x81C, 0xC2400003, 0x81C, 0xA9420003,
     0x81C, 0xA8440003, 0x81C, 0xA7460003, 0x81C, 0xA6480003, 0x81C, 0xA54A0003, 0x81C,
     0xA44C0003, 0x81C, 0xA34E0003, 0x81C, 0x66500003, 0x81C, 0x65520003, 0x81C, 0x64540003,
     0x81C, 0x63560003, 0x81C, 0x49580003, 0x81C, 0x485A0003, 0x81C, 0x475C0003, 0x81C,
     0x465E0003, 0x81C, 0x45600003, 0x81C, 0x44620003, 0x81C, 0x43640003, 0x81C, 0x42660003,
     0x81C, 0x41680003, 0x81C, 0x416A0003, 0x81C, 0x416C0003, 0x81C, 0x416E0003, 0x81C,
     0x41700003, 0x81C, 0x41720003, 0x81C, 0x41740003, 0x81C, 0x41760003, 0x81C, 0x41780003,
     0x81C, 0x417A0003, 0x81C, 0x417C0003, 0x81C, 0x417E0003, 0x90000007, 0, 0x40000000, 0, 0x81C,
     0xDF000003, 0x81C, 0xDF020003, 0x81C, 0xDF040003, 0x81C, 0xDE060003, 0x81C, 0xDD080003,
     0x81C, 0xDC0A0003, 0x81C, 0xDB0C0003, 0x81C, 0xDA0E0003, 0x81C, 0xD9100003, 0x81C,
     0xD8120003, 0x81C, 0xD7140003, 0x81C, 0xD6160003, 0x81C, 0xD5180003, 0x81C, 0xD41A0003,
     0x81C, 0xD31C0003, 0x81C, 0xD21E0003, 0x81C, 0xD1200003, 0x81C, 0xD0220003, 0x81C,
     0xCF240003, 0x81C, 0xCE260003, 0x81C, 0xCD280003, 0x81C, 0xCC2A0003, 0x81C, 0xCB2C0003,
     0x81C, 0xCA2E0003, 0x81C, 0xC9300003, 0x81C, 0xC8320003, 0x81C, 0xC7340003, 0x81C,
     0xC6360003, 0x81C, 0xC5380003, 0x81C, 0xA73A0003, 0x81C, 0xA63C0003, 0x81C, 0xA53E0003,
     0x81C, 0xA4400003, 0x81C, 0xA3420003, 0x81C, 0xA2440003, 0x81C, 0x87460003, 0x81C,
     0x86480003, 0x81C, 0x854A0003, 0x81C, 0x844C0003, 0x81C, 0x834E0003, 0x81C, 0x82500003,
     0x81C, 0x81520003, 0x81C, 0x64540003, 0x81C, 0x63560003, 0x81C, 0x62580003, 0x81C,
     0x615A0003, 0x81C, 0x445C0003, 0x81C, 0x435E0003, 0x81C, 0x42600003, 0x81C, 0x41620003,
     0x81C, 0x27640003, 0x81C, 0x26660003, 0x81C, 0x25680003, 0x81C, 0x246A0003, 0x81C,
     0x236C0003, 0x81C, 0x226E0003, 0x81C, 0x21700003, 0x81C, 0x21720003, 0x81C, 0x21740003,
     0x81C, 0x21760003, 0x81C, 0x21780003, 0x81C, 0x217A0003, 0x81C, 0x217C0003, 0x81C,
     0x217E0003, 0x90000008, 0, 0x40000000, 0, 0x81C, 0xFF000003, 0x81C, 0xFE020003, 0x81C,
     0xFD040003, 0x81C, 0xFC060003, 0x81C, 0xFB080003, 0x81C, 0xFA0A0003, 0x81C, 0xF90C0003,
     0x81C, 0xF80E0003, 0x81C, 0xF7100003, 0x81C, 0xF6120003, 0x81C, 0xF5140003, 0x81C,
     0xF4160003, 0x81C, 0xF3180003, 0x81C, 0xF21A0003, 0x81C, 0xF11C0003, 0x81C, 0xF01E0003,
     0x81C, 0xEF200003, 0x81C, 0xEE220003, 0x81C, 0xED240003, 0x81C, 0xEC260003, 0x81C,
     0xEB280003, 0x81C, 0xEA2A0003]"

lemma chk_array_mp_8814a_agc_tab_3: "chk_run bb_entry (KIn (Some [0x81C, 0x81C, 0x81C, 0x81C, 0x81C, 0x81C, 0x81C, 0x81C, 0x81C, 0x81C, 0x81C, 0x81C, 0x81C, 0x81C, 0x81C, 0x81C, 0x81C, 0x81C, 0x81C, 0x81C, 0x81C, 0x81C, 0x81C, 0x81C, 0x81C, 0x81C, 0x81C, 0x81C, 0x81C, 0x81C, 0x81C, 0x81C, 0x81C, 0x81C, 0x81C, 0x81C, 0x81C, 0x81C, 0x81C, 0x81C, 0x81C, 0x81C, 0x81C, 0x81C, 0x81C, 0x81C, 0x81C, 0x81C, 0x81C, 0x81C, 0x81C, 0x81C, 0x81C, 0x81C, 0x81C, 0x81C, 0x81C, 0x81C, 0x81C, 0x81C, 0x81C, 0x81C, 0x81C, 0x81C]) [0x81C, 0x81C, 0x81C, 0x81C, 0x81C, 0x81C, 0x81C]) array_mp_8814a_agc_tab_3 =
  Some (KIn (Some [0x81C, 0x81C, 0x81C, 0x81C, 0x81C, 0x81C, 0x81C, 0x81C, 0x81C, 0x81C, 0x81C, 0x81C, 0x81C, 0x81C, 0x81C, 0x81C, 0x81C, 0x81C, 0x81C, 0x81C, 0x81C, 0x81C, 0x81C, 0x81C, 0x81C, 0x81C, 0x81C, 0x81C, 0x81C, 0x81C, 0x81C, 0x81C, 0x81C, 0x81C, 0x81C, 0x81C, 0x81C, 0x81C, 0x81C, 0x81C, 0x81C, 0x81C, 0x81C, 0x81C, 0x81C, 0x81C, 0x81C, 0x81C, 0x81C, 0x81C, 0x81C, 0x81C, 0x81C, 0x81C, 0x81C, 0x81C, 0x81C, 0x81C, 0x81C, 0x81C, 0x81C, 0x81C, 0x81C, 0x81C]) [0x81C, 0x81C, 0x81C, 0x81C, 0x81C, 0x81C, 0x81C, 0x81C, 0x81C, 0x81C, 0x81C, 0x81C, 0x81C, 0x81C, 0x81C, 0x81C, 0x81C, 0x81C, 0x81C, 0x81C, 0x81C, 0x81C])"
  by code_simp

definition array_mp_8814a_agc_tab_4 :: "u32 list" where
  "array_mp_8814a_agc_tab_4 =
    [0x81C, 0xE92C0003, 0x81C, 0xE82E0003, 0x81C, 0xE7300003, 0x81C, 0xE6320003, 0x81C,
     0xE5340003, 0x81C, 0xE4360003, 0x81C, 0xE3380003, 0x81C, 0xC53A0003, 0x81C, 0xC43C0003,
     0x81C, 0xC33E0003, 0x81C, 0xC2400003, 0x81C, 0xC1420003, 0x81C, 0xA8440003, 0x81C,
     0xA7460003, 0x81C, 0xA6480003, 0x81C, 0xA54A0003, 0x81C, 0xA44C0003, 0x81C, 0xA34E0003,
     0x81C, 0xA2500003, 0x81C, 0x65520003, 0x81C, 0x64540003, 0x81C, 0x63560003, 0x81C,
     0x62580003, 0x81C, 0x615A0003, 0x81C, 0x475C0003, 0x81C, 0x465E0003, 0x81C, 0x45600003,
     0x81C, 0x44620003, 0x81C, 0x43640003, 0x81C, 0x42660003, 0x81C, 0x41680003, 0x81C,
     0x416A0003, 0x81C, 0x416C0003, 0x81C, 0x416E0003, 0x81C, 0x41700003, 0x81C, 0x41720003,
     0x81C, 0x41740003, 0x81C, 0x41760003, 0x81C, 0x41780003, 0x81C, 0x417A0003, 0x81C,
     0x417C0003, 0x81C, 0x417E0003, 0x90000009, 0, 0x40000000, 0, 0x81C, 0xDF000003, 0x81C,
     0xDF020003, 0x81C, 0xDF040003, 0x81C, 0xDE060003, 0x81C, 0xDD080003, 0x81C, 0xDC0A0003,
     0x81C, 0xDB0C0003, 0x81C, 0xDA0E0003, 0x81C, 0xD9100003, 0x81C, 0xD8120003, 0x81C,
     0xD7140003, 0x81C, 0xD6160003, 0x81C, 0xD5180003, 0x81C, 0xD41A0003, 0x81C, 0xD31C0003,
     0x81C, 0xD21E0003, 0x81C, 0xD1200003, 0x81C, 0xD0220003, 0x81C, 0xCF240003, 0x81C,
     0xCE260003, 0x81C, 0xCD280003, 0x81C, 0xCC2A0003, 0x81C, 0xCB2C0003, 0x81C, 0xCA2E0003,
     0x81C, 0xC9300003, 0x81C, 0xC8320003, 0x81C, 0xC7340003, 0x81C, 0xC6360003, 0x81C,
     0xC5380003, 0x81C, 0xA73A0003, 0x81C, 0xA63C0003, 0x81C, 0xA53E0003, 0x81C, 0xA4400003,
     0x81C, 0xA3420003, 0x81C, 0xA2440003, 0x81C, 0x87460003, 0x81C, 0x86480003, 0x81C,
     0x854A0003, 0x81C, 0x844C0003, 0x81C, 0x834E0003, 0x81C, 0x82500003, 0x81C, 0x81520003,
     0x81C, 0x64540003, 0x81C, 0x63560003, 0x81C, 0x62580003, 0x81C, 0x615A0003, 0x81C,
     0x445C0003, 0x81C, 0x435E0003, 0x81C, 0x42600003, 0x81C, 0x41620003, 0x81C, 0x27640003,
     0x81C, 0x26660003, 0x81C, 0x25680003, 0x81C, 0x246A0003, 0x81C, 0x236C0003, 0x81C,
     0x226E0003, 0x81C, 0x21700003, 0x81C, 0x21720003, 0x81C, 0x21740003, 0x81C, 0x21760003,
     0x81C, 0x21780003, 0x81C, 0x217A0003, 0x81C, 0x217C0003, 0x81C, 0x217E0003, 0x9000000A, 0,
     0x40000000, 0, 0x81C, 0xFE000003, 0x81C, 0xFE020003, 0x81C, 0xFD040003, 0x81C, 0xFC060003,
     0x81C, 0xFB080003, 0x81C, 0xFA0A0003, 0x81C, 0xF90C0003, 0x81C, 0xF80E0003, 0x81C,
     0xF7100003, 0x81C, 0xF6120003, 0x81C, 0xF5140003, 0x81C, 0xF4160003, 0x81C, 0xF3180003,
     0x81C, 0xF21A0003, 0x81C, 0xF11C0003, 0x81C, 0xF01E0003, 0x81C, 0xEF200003, 0x81C,
     0xEE220003, 0x81C, 0xED240003, 0x81C, 0xF260003, 0x81C, 0xE280003, 0x81C, 0xD2A0003, 0x81C,
     0xC2C0003, 0x81C, 0xB2E0003, 0x81C, 0xA300003, 0x81C, 0x9320003, 0x81C, 0x8340003, 0x81C,
     0x7360003, 0x81C, 0x6380003, 0x81C, 0x53A0003, 0x81C, 0x43C0003, 0x81C, 0x33E0003, 0x81C,
     0x23400003, 0x81C, 0x22420003, 0x81C, 0xA8440003, 0x81C, 0xA7460003, 0x81C, 0xA6480003]"

lemma chk_array_mp_8814a_agc_tab_4: "chk_run bb_entry (KIn (Some [0x81C, 0x81C, 0x81C, 0x81C, 0x81C, 0x81C, 0x81C, 0x81C, 0x81C, 0x81C, 0x81C, 0x81C, 0x81C, 0x81C, 0x81C, 0x81C, 0x81C, 0x81C, 0x81C, 0x81C, 0x81C, 0x81C, 0x81C, 0x81C, 0x81C, 0x81C, 0x81C, 0x81C, 0x81C, 0x81C, 0x81C, 0x81C, 0x81C, 0x81C, 0x81C, 0x81C, 0x81C, 0x81C, 0x81C, 0x81C, 0x81C, 0x81C, 0x81C, 0x81C, 0x81C, 0x81C, 0x81C, 0x81C, 0x81C, 0x81C, 0x81C, 0x81C, 0x81C, 0x81C, 0x81C, 0x81C, 0x81C, 0x81C, 0x81C, 0x81C, 0x81C, 0x81C, 0x81C, 0x81C]) [0x81C, 0x81C, 0x81C, 0x81C, 0x81C, 0x81C, 0x81C, 0x81C, 0x81C, 0x81C, 0x81C, 0x81C, 0x81C, 0x81C, 0x81C, 0x81C, 0x81C, 0x81C, 0x81C, 0x81C, 0x81C, 0x81C]) array_mp_8814a_agc_tab_4 =
  Some (KIn (Some [0x81C, 0x81C, 0x81C, 0x81C, 0x81C, 0x81C, 0x81C, 0x81C, 0x81C, 0x81C, 0x81C, 0x81C, 0x81C, 0x81C, 0x81C, 0x81C, 0x81C, 0x81C, 0x81C, 0x81C, 0x81C, 0x81C, 0x81C, 0x81C, 0x81C, 0x81C, 0x81C, 0x81C, 0x81C, 0x81C, 0x81C, 0x81C, 0x81C, 0x81C, 0x81C, 0x81C, 0x81C, 0x81C, 0x81C, 0x81C, 0x81C, 0x81C, 0x81C, 0x81C, 0x81C, 0x81C, 0x81C, 0x81C, 0x81C, 0x81C, 0x81C, 0x81C, 0x81C, 0x81C, 0x81C, 0x81C, 0x81C, 0x81C, 0x81C, 0x81C, 0x81C, 0x81C, 0x81C, 0x81C]) [0x81C, 0x81C, 0x81C, 0x81C, 0x81C, 0x81C, 0x81C, 0x81C, 0x81C, 0x81C, 0x81C, 0x81C, 0x81C, 0x81C, 0x81C, 0x81C, 0x81C, 0x81C, 0x81C, 0x81C, 0x81C, 0x81C, 0x81C, 0x81C, 0x81C, 0x81C, 0x81C, 0x81C, 0x81C, 0x81C, 0x81C, 0x81C, 0x81C, 0x81C, 0x81C, 0x81C, 0x81C])"
  by code_simp

definition array_mp_8814a_agc_tab_5 :: "u32 list" where
  "array_mp_8814a_agc_tab_5 =
    [0x81C, 0xA54A0003, 0x81C, 0xA44C0003, 0x81C, 0x684E0003, 0x81C, 0x67500003, 0x81C,
     0x66520003, 0x81C, 0x65540003, 0x81C, 0x64560003, 0x81C, 0x63580003, 0x81C, 0x625A0003,
     0x81C, 0x615C0003, 0x81C, 0x475E0003, 0x81C, 0x46600003, 0x81C, 0x45620003, 0x81C,
     0x44640003, 0x81C, 0x43660003, 0x81C, 0x42680003, 0x81C, 0x416A0003, 0x81C, 0x416C0003,
     0x81C, 0x416E0003, 0x81C, 0x41700003, 0x81C, 0x41720003, 0x81C, 0x41740003, 0x81C,
     0x41760003, 0x81C, 0x41780003, 0x81C, 0x417A0003, 0x81C, 0x417C0003, 0x81C, 0x417E0003,
     0x9000000B, 0, 0x40000000, 0, 0x81C, 0xFE000003, 0x81C, 0xFE020003, 0x81C, 0xFD040003, 0x81C,
     0xFC060003, 0x81C, 0xFB080003, 0x81C, 0xFA0A0003, 0x81C, 0xF90C0003, 0x81C, 0xF80E0003,
     0x81C, 0xF7100003, 0x81C, 0xF6120003, 0x81C, 0xF5140003, 0x81C, 0xF4160003, 0x81C,
     0xF3180003, 0x81C, 0xF21A0003, 0x81C, 0xF11C0003, 0x81C, 0xF01E0003, 0x81C, 0xEF200003,
     0x81C, 0xEE220003, 0x81C, 0xED240003, 0x81C, 0xEC260003, 0x81C, 0xEB280003, 0x81C,
     0xEA2A0003, 0x81C, 0xE92C0003, 0x81C, 0xE72E0003, 0x81C, 0xE6300003, 0x81C, 0xE5320003,
     0x81C, 0x8340003, 0x81C, 0x7360003, 0x81C, 0x6380003, 0x81C, 0x53A0003, 0x81C, 0x43C0003,
     0x81C, 0x33E0003, 0x81C, 0x2400003, 0x81C, 0xA9420003, 0x81C, 0xA8440003, 0x81C, 0xA7460003,
     0x81C, 0xA6480003, 0x81C, 0xA54A0003, 0x81C, 0x684C0003, 0x81C, 0x674E0003, 0x81C,
     0x66500003, 0x81C, 0x65520003, 0x81C, 0x64540003, 0x81C, 0x63560003, 0x81C, 0x62580003,
     0x81C, 0x615A0003, 0x81C, 0x475C0003, 0x81C, 0x465E0003, 0x81C, 0x45600003, 0x81C,
     0x44620003, 0x81C, 0x43640003, 0x81C, 0x42660003, 0x81C, 0x41680003, 0x81C, 0x416A0003,
     0x81C, 0x416C0003, 0x81C, 0x416E0003, 0x81C, 0x41700003, 0x81C, 0x41720003, 0x81C,
     0x41740003, 0x81C, 0x41760003, 0x81C, 0x41780003, 0x81C, 0x417A0003, 0x81C, 0x417C0003,
     0x81C, 0x417E0003, 0xA0000000, 0, 0x81C, 0xFE000003, 0x81C, 0xFD020003, 0x81C, 0xFC040003,
     0x81C, 0xFB060003, 0x81C, 0xFA080003, 0x81C, 0xF90A0003, 0x81C, 0xF80C0003, 0x81C,
     0xF70E0003, 0x81C, 0xF6100003, 0x81C, 0xF5120003, 0x81C, 0xF4140003, 0x81C, 0xF3160003,
     0x81C, 0xF2180003, 0x81C, 0xF11A0003, 0x81C, 0xF01C0003, 0x81C, 0xEF1E0003, 0x81C,
     0xEE200003, 0x81C, 0xED220003, 0x81C, 0xCF240003, 0x81C, 0xCE260003, 0x81C, 0xCD280003,
     0x81C, 0xCC2A0003, 0x81C, 0xCB2C0003, 0x81C, 0xCA2E0003, 0x81C, 0xC9300003, 0x81C,
     0xC8320003, 0x81C, 0xC7340003, 0x81C, 0xC6360003, 0x81C, 0xC5380003, 0x81C, 0xC43A0003,
     0x81C, 0xA63C0003, 0x81C, 0xA53E0003, 0x81C, 0xA4400003, 0x81C, 0xA3420003, 0x81C,
     0xA2440003, 0x81C, 0xA1460003, 0x81C, 0x86480003, 0x81C, 0x854A0003, 0x81C, 0x844C0003,
     0x81C, 0x834E0003, 0x81C, 0x66500003, 0x81C, 0x65520003, 0x81C, 0x64540003, 0x81C,
     0x63560003, 0x81C, 0x62580003, 0x81C, 0x615A0003, 0x81C, 0x435C0003, 0x81C, 0x425E0003,
     0x81C, 0x41600003, 0x81C, 0x27620003, 0x81C, 0x26640003, 0x81C, 0x25660003]"

lemma chk_array_mp_8814a_agc_tab_5: "chk_run bb_entry (KIn (Some [0x81C, 0x81C, 0x81C, 0x81C, 0x81C, 0x81C, 0x81C, 0x81C, 0x81C, 0x81C, 0x81C, 0x81C, 0x81C, 0x81C, 0x81C, 0x81C, 0x81C, 0x81C, 0x81C, 0x81C, 0x81C, 0x81C, 0x81C, 0x81C, 0x81C, 0x81C, 0x81C, 0x81C, 0x81C, 0x81C, 0x81C, 0x81C, 0x81C, 0x81C, 0x81C, 0x81C, 0x81C, 0x81C, 0x81C, 0x81C, 0x81C, 0x81C, 0x81C, 0x81C, 0x81C, 0x81C, 0x81C, 0x81C, 0x81C, 0x81C, 0x81C, 0x81C, 0x81C, 0x81C, 0x81C, 0x81C, 0x81C, 0x81C, 0x81C, 0x81C, 0x81C, 0x81C, 0x81C, 0x81C]) [0x81C, 0x81C, 0x81C, 0x81C, 0x81C, 0x81C, 0x81C, 0x81C, 0x81C, 0x81C, 0x81C, 0x81C, 0x81C, 0x81C, 0x81C, 0x81C, 0x81C, 0x81C, 0x81C, 0x81C, 0x81C, 0x81C, 0x81C, 0x81C, 0x81C, 0x81C, 0x81C, 0x81C, 0x81C, 0x81C, 0x81C, 0x81C, 0x81C, 0x81C, 0x81C, 0x81C, 0x81C]) array_mp_8814a_agc_tab_5 =
  Some (KElse [0x81C, 0x81C, 0x81C, 0x81C, 0x81C, 0x81C, 0x81C, 0x81C, 0x81C, 0x81C, 0x81C, 0x81C, 0x81C, 0x81C, 0x81C, 0x81C, 0x81C, 0x81C, 0x81C, 0x81C, 0x81C, 0x81C, 0x81C, 0x81C, 0x81C, 0x81C, 0x81C, 0x81C, 0x81C, 0x81C, 0x81C, 0x81C, 0x81C, 0x81C, 0x81C, 0x81C, 0x81C, 0x81C, 0x81C, 0x81C, 0x81C, 0x81C, 0x81C, 0x81C, 0x81C, 0x81C, 0x81C, 0x81C, 0x81C, 0x81C, 0x81C, 0x81C, 0x81C, 0x81C, 0x81C, 0x81C, 0x81C, 0x81C, 0x81C, 0x81C, 0x81C, 0x81C, 0x81C, 0x81C] [0x81C, 0x81C, 0x81C, 0x81C, 0x81C, 0x81C, 0x81C, 0x81C, 0x81C, 0x81C, 0x81C, 0x81C, 0x81C, 0x81C, 0x81C, 0x81C, 0x81C, 0x81C, 0x81C, 0x81C, 0x81C, 0x81C, 0x81C, 0x81C, 0x81C, 0x81C, 0x81C, 0x81C, 0x81C, 0x81C, 0x81C, 0x81C, 0x81C, 0x81C, 0x81C, 0x81C, 0x81C, 0x81C, 0x81C, 0x81C, 0x81C, 0x81C, 0x81C, 0x81C, 0x81C, 0x81C, 0x81C, 0x81C, 0x81C, 0x81C, 0x81C, 0x81C])"
  by code_simp

definition array_mp_8814a_agc_tab_6 :: "u32 list" where
  "array_mp_8814a_agc_tab_6 =
    [0x81C, 0x24680003, 0x81C, 0x236A0003, 0x81C, 0x226C0003, 0x81C, 0x216E0003, 0x81C,
     0x21700003, 0x81C, 0x21720003, 0x81C, 0x21740003, 0x81C, 0x21760003, 0x81C, 0x21780003,
     0x81C, 0x217A0003, 0x81C, 0x217C0003, 0x81C, 0x217E0003, 0xB0000000, 0, 0x80000001, 0,
     0x40000000, 0, 0x81C, 0xF9000103, 0x81C, 0xF8020103, 0x81C, 0xF7040103, 0x81C, 0xF6060103,
     0x81C, 0xF5080103, 0x81C, 0xF40A0103, 0x81C, 0xF30C0103, 0x81C, 0xF20E0103, 0x81C,
     0xF1100103, 0x81C, 0xF0120103, 0x81C, 0xEF140103, 0x81C, 0xEE160103, 0x81C, 0xED180103,
     0x81C, 0xEC1A0103, 0x81C, 0xEB1C0103, 0x81C, 0xEA1E0103, 0x81C, 0xE9200103, 0x81C,
     0xE8220103, 0x81C, 0xE7240103, 0x81C, 0xE6260103, 0x81C, 0xE5280103, 0x81C, 0xE42A0103,
     0x81C, 0xE32C0103, 0x81C, 0xC32E0103, 0x81C, 0xC2300103, 0x81C, 0xC1320103, 0x81C,
     0xA5340103, 0x81C, 0xA4360103, 0x81C, 0xA3380103, 0x81C, 0xA23A0103, 0x81C, 0xA13C0103,
     0x81C, 0x843E0103, 0x81C, 0x83400103, 0x81C, 0x82420103, 0x81C, 0x81440103, 0x81C,
     0x64460103, 0x81C, 0x63480103, 0x81C, 0x624A0103, 0x81C, 0x614C0103, 0x81C, 0x444E0103,
     0x81C, 0x43500103, 0x81C, 0x42520103, 0x81C, 0x41540103, 0x81C, 0x25560103, 0x81C,
     0x24580103, 0x81C, 0x235A0103, 0x81C, 0x65C0103, 0x81C, 0x55E0103, 0x81C, 0x4600103, 0x81C,
     0x3620103, 0x81C, 0x2640103, 0x81C, 0x1660103, 0x81C, 0x1680103, 0x81C, 0x16A0103, 0x81C,
     0x16C0103, 0x81C, 0x16E0103, 0x81C, 0x1700103, 0x81C, 0x1720103, 0x81C, 0x1740103, 0x81C,
     0x1760103, 0x81C, 0x1780103, 0x81C, 0x17A0103, 0x81C, 0x17C0103, 0x81C, 0x17E0103,
     0x90000002, 0, 0x40000000, 0, 0x81C, 0xF8000103, 0x81C, 0xF7020103, 0x81C, 0xF6040103, 0x81C,
     0xF5060103, 0x81C, 0xF4080103, 0x81C, 0xF30A0103, 0x81C, 0xF20C0103, 0x81C, 0xF10E0103,
     0x81C, 0xF0100103, 0x81C, 0xEF120103, 0x81C, 0xEE140103, 0x81C, 0xED160103, 0x81C,
     0xEC180103, 0x81C, 0xEB1A0103, 0x81C, 0xEA1C0103, 0x81C, 0xE91E0103, 0x81C, 0xE8200103,
     0x81C, 0xE7220103, 0x81C, 0xE6240103, 0x81C, 0xE5260103, 0x81C, 0xE4280103, 0x81C,
     0xE32A0103, 0x81C, 0xE22C0103, 0x81C, 0xE12E0103, 0x81C, 0xA5300103, 0x81C, 0xA4320103,
     0x81C, 0xA3340103, 0x81C, 0xA2360103, 0x81C, 0xA1380103, 0x81C, 0x843A0103, 0x81C,
     0x833C0103, 0x81C, 0x823E0103, 0x81C, 0x81400103, 0x81C, 0x64420103, 0x81C, 0x63440103,
     0x81C, 0x62460103, 0x81C, 0x61480103, 0x81C, 0x454A0103, 0x81C, 0x444C0103, 0x81C,
     0x434E0103, 0x81C, 0x42500103, 0x81C, 0x25520103, 0x81C, 0x24540103, 0x81C, 0x23560103,
     0x81C, 0x6580103, 0x81C, 0x55A0103, 0x81C, 0x45C0103, 0x81C, 0x35E0103, 0x81C, 0x2600103,
     0x81C, 0x1620103, 0x81C, 0x1640103, 0x81C, 0x1660103, 0x81C, 0x1680103, 0x81C, 0x16A0103,
     0x81C, 0x16C0103, 0x81C, 0x16E0103, 0x81C, 0x1700103, 0x81C, 0x1720103, 0x81C, 0x1740103,
     0x81C, 0x1760103, 0x81C, 0x1780103, 0x81C, 0x17A0103, 0x81C, 0x17C0103, 0x81C, 0x17E0103,
     0x90000003, 0, 0x40000000, 0, 0x81C, 0xFC000103]"

lemma chk_array_mp_8814a_agc_tab_6: "chk_run bb_entry (KElse [0x81C, 0x81C, 0x81C, 0x81C, 0x81C, 0x81C, 0x81C, 0x81C, 0x81C, 0x81C, 0x81C, 0x81C, 0x81C, 0x81C, 0x81C, 0x81C, 0x81C, 0x81C, 0x81C, 0x81C, 0x81C, 0x81C, 0x81C, 0x81C, 0x81C, 0x81C, 0x81C, 0x81C, 0x81C, 0x81C, 0x81C, 0x81C, 0x81C, 0x81C, 0x81C, 0x81C, 0x81C, 0x81C, 0x81C, 0x81C, 0x81C, 0x81C, 0x81C, 0x81C, 0x81C, 0x81C, 0x81C, 0x81C, 0x81C, 0x81C, 0x81C, 0x81C, 0x81C, 0x81C, 0x81C, 0x81C, 0x81C, 0x81C, 0x81C, 0x81C, 0x81C, 0x81C, 0x81C, 0x81C] [0x81C, 0x81C, 0x81C, 0x81C, 0x81C, 0x81C, 0x81C, 0x81C, 0x81C, 0x81C, 0x81C, 0x81C, 0x81C, 0x81C, 0x81C, 0x81C, 0x81C, 0x81C, 0x81C, 0x81C, 0x81C, 0x81C, 0x81C, 0x81C, 0x81C, 0x81C, 0x81C, 0x81C, 0x81C, 0x81C, 0x81C, 0x81C, 0x81C, 0x81C, 0x81C, 0x81C, 0x81C, 0x81C, 0x81C, 0x81C, 0x81C, 0x81C, 0x81C, 0x81C, 0x81C, 0x81C, 0x81C, 0x81C, 0x81C, 0x81C, 0x81C, 0x81C]) array_mp_8814a_agc_tab_6 =
  Some (KIn (Some [0x81C, 0x81C, 0x81C, 0x81C, 0x81C, 0x81C, 0x81C, 0x81C, 0x81C, 0x81C, 0x81C, 0x81C, 0x81C, 0x81C, 0x81C, 0x81C, 0x81C, 0x81C, 0x81C, 0x81C, 0x81C, 0x81C, 0x81C, 0x81C, 0x81C, 0x81C, 0x81C, 0x81C, 0x81C, 0x81C, 0x81C, 0x81C, 0x81C, 0x81C, 0x81C, 0x81C, 0x81C, 0x81C, 0x81C, 0x81C, 0x81C, 0x81C, 0x81C, 0x81C, 0x81C, 0x81C, 0x81C, 0x81C, 0x81C, 0x81C, 0x81C, 0x81C, 0x81C, 0x81C, 0x81C, 0x81C, 0x81C, 0x81C, 0x81C, 0x81C, 0x81C, 0x81C, 0x81C, 0x81C]) [0x81C])"
  by code_simp

definition array_mp_8814a_agc_tab_7 :: "u32 list" where
  "array_mp_8814a_agc_tab_7 =
    [0x81C, 0xFB020103, 0x81C, 0xFA040103, 0x81C, 0xF9060103, 0x81C, 0xF8080103, 0x81C,
     0xF70A0103, 0x81C, 0xF60C0103, 0x81C, 0xF50E0103, 0x81C, 0xF4100103, 0x81C, 0xF3120103,
     0x81C, 0xF2140103, 0x81C, 0xF1160103, 0x81C, 0xF0180103, 0x81C, 0xEF1A0103, 0x81C,
     0xEE1C0103, 0x81C, 0xED1E0103, 0x81C, 0xEC200103, 0x81C, 0xEB220103, 0x81C, 0xEA240103,
     0x81C, 0xE9260103, 0x81C, 0xE8280103, 0x81C, 0xE72A0103, 0x81C, 0xE62C0103, 0x81C,
     0xE52E0103, 0x81C, 0xE4300103, 0x81C, 0xE3320103, 0x81C, 0xE2340103, 0x81C, 0xE1360103,
     0x81C, 0x87380103, 0x81C, 0x863A0103, 0x81C, 0x853C0103, 0x81C, 0x843E0103, 0x81C,
     0x83400103, 0x81C, 0x82420103, 0x81C, 0x81440103, 0x81C, 0x64460103, 0x81C, 0x63480103,
     0x81C, 0x624A0103, 0x81C, 0x464C0103, 0x81C, 0x454E0103, 0x81C, 0x44500103, 0x81C,
     0x43520103, 0x81C, 0x26540103, 0x81C, 0x25560103, 0x81C, 0x24580103, 0x81C, 0x75A0103, 0x81C,
     0x65C0103, 0x81C, 0x55E0103, 0x81C, 0x4600103, 0x81C, 0x3620103, 0x81C, 0x2640103, 0x81C,
     0x1660103, 0x81C, 0x1680103, 0x81C, 0x16A0103, 0x81C, 0x16C0103, 0x81C, 0x16E0103, 0x81C,
     0x1700103, 0x81C, 0x1720103, 0x81C, 0x1740103, 0x81C, 0x1760103, 0x81C, 0x1780103, 0x81C,
     0x17A0103, 0x81C, 0x17C0103, 0x81C, 0x17E0103, 0x90000004, 0, 0x40000000, 0, 0x81C,
     0xF9000103, 0x81C, 0xF8020103, 0x81C, 0xF7040103, 0x81C, 0xF6060103, 0x81C, 0xF5080103,
     0x81C, 0xF40A0103, 0x81C, 0xF30C0103, 0x81C, 0xF20E0103, 0x81C, 0xF1100103, 0x81C,
     0xF0120103, 0x81C, 0xEF140103, 0x81C, 0xEE160103, 0x81C, 0xED180103, 0x81C, 0xEC1A0103,
     0x81C, 0xEB1C0103, 0x81C, 0xEA1E0103, 0x81C, 0xE9200103, 0x81C, 0xE8220103, 0x81C,
     0xE7240103, 0x81C, 0xE6260103, 0x81C, 0xE5280103, 0x81C, 0xE42A0103, 0x81C, 0xE32C0103,
     0x81C, 0xE22E0103, 0x81C, 0xA6300103, 0x81C, 0xA5320103, 0x81C, 0xA4340103, 0x81C,
     0xA3360103, 0x81C, 0xA2380103, 0x81C, 0xA13A0103, 0x81C, 0x843C0103, 0x81C, 0x833E0103,
     0x81C, 0x82400103, 0x81C, 0x81420103, 0x81C, 0x64440103, 0x81C, 0x63460103, 0x81C,
     0x62480103, 0x81C, 0x614A0103, 0x81C, 0x444C0103, 0x81C, 0x434E0103, 0x81C, 0x42500103,
     0x81C, 0x41520103, 0x81C, 0x25540103, 0x81C, 0x24560103, 0x81C, 0x23580103, 0x81C,
     0x225A0103, 0x81C, 0x55C0103, 0x81C, 0x45E0103, 0x81C, 0x3600103, 0x81C, 0x2620103, 0x81C,
     0x1640103, 0x81C, 0x1660103, 0x81C, 0x1680103, 0x81C, 0x16A0103, 0x81C, 0x16C0103, 0x81C,
     0x16E0103, 0x81C, 0x1700103, 0x81C, 0x1720103, 0x81C, 0x1740103, 0x81C, 0x1760103, 0x81C,
     0x1780103, 0x81C, 0x17A0103, 0x81C, 0x17C0103, 0x81C, 0x17E0103, 0x90000005, 0, 0x40000000,
     0, 0x81C, 0xFD000103, 0x81C, 0xFC020103, 0x81C, 0xFB040103, 0x81C, 0xFA060103, 0x81C,
     0xF9080103, 0x81C, 0xF80A0103, 0x81C, 0xF70C0103, 0x81C, 0xF60E0103, 0x81C, 0xF5100103,
     0x81C, 0xF4120103, 0x81C, 0xF3140103, 0x81C, 0xF2160103, 0x81C, 0xF1180103, 0x81C,
     0xF01A0103, 0x81C, 0xEF1C0103, 0x81C, 0xEE1E0103]"

lemma chk_array_mp_8814a_agc_tab_7: "chk_run bb_entry (KIn (Some [0x81C, 0x81C, 0x81C, 0x81C, 0x81C, 0x81C, 0x81C, 0x81C, 0x81C, 0x81C, 0x81C, 0x81C, 0x81C, 0x81C, 0x81C, 0x81C, 0x81C, 0x81C, 0x81C, 0x81C, 0x81C, 0x81C, 0x81C, 0x81C, 0x81C, 0x81C, 0x81C, 0x81C, 0x81C, 0x81C, 0x81C, 0x81C, 0x81C, 0x81C, 0x81C, 0x81C, 0x81C, 0x81C, 0x81C, 0x81C, 0x81C, 0x81C, 0x81C, 0x81C, 0x81C, 0x81C, 0x81C, 0x81C, 0x81C, 0x81C, 0x81C, 0x81C, 0x81C, 0x81C, 0x81C, 0x81C, 0x81C, 0x81C, 0x81C, 0x81C, 0x81C, 0x81C, 0x81C, 0x81C]) [0x81C]) array_mp_8814a_agc_tab_7 =
  Some (KIn (Some [0x81C, 0x81C, 0x81C, 0x81C, 0x81C, 0x81C, 0x81C, 0x81C, 0x81C, 0x81C, 0x81C, 0x81C, 0x81C, 0x81C, 0x81C, 0x81C, 0x81C, 0x81C, 0x81C, 0x81C, 0x81C, 0x81C, 0x81C, 0x81C, 0x81C, 0x81C, 0x81C, 0x81C, 0x81C, 0x81C, 0x81C, 0x81C, 0x81C, 0x81C, 0x81C, 0x81C, 0x81C, 0x81C, 0x81C, 0x81C, 0x81C, 0x81C, 0x81C, 0x81C, 0x81C, 0x81C, 0x81C, 0x81C, 0x81C, 0x81C, 0x81C, 0x81C, 0x81C, 0x81C, 0x81C, 0x81C, 0x81C, 0x81C, 0x81C, 0x81C, 0x81C, 0x81C, 0x81C, 0x81C]) [0x81C, 0x81C, 0x81C, 0x81C, 0x81C, 0x81C, 0x81C, 0x81C, 0x81C, 0x81C, 0x81C, 0x81C, 0x81C, 0x81C, 0x81C, 0x81C])"
  by code_simp

definition array_mp_8814a_agc_tab_8 :: "u32 list" where
  "array_mp_8814a_agc_tab_8 =
    [0x81C, 0xED200103, 0x81C, 0xEC220103, 0x81C, 0xEB240103, 0x81C, 0xEA260103, 0x81C,
     0xE9280103, 0x81C, 0xE82A0103, 0x81C, 0xE72C0103, 0x81C, 0xE62E0103, 0x81C, 0xE5300103,
     0x81C, 0xE4320103, 0x81C, 0xE3340103, 0x81C, 0xE2360103, 0x81C, 0xE1380103, 0x81C,
     0xA33A0103, 0x81C, 0xA23C0103, 0x81C, 0xA13E0103, 0x81C, 0x84400103, 0x81C, 0x83420103,
     0x81C, 0x82440103, 0x81C, 0x81460103, 0x81C, 0x64480103, 0x81C, 0x634A0103, 0x81C,
     0x624C0103, 0x81C, 0x614E0103, 0x81C, 0x45500103, 0x81C, 0x44520103, 0x81C, 0x43540103,
     0x81C, 0x42560103, 0x81C, 0x25580103, 0x81C, 0x245A0103, 0x81C, 0x235C0103, 0x81C, 0x65E0103,
     0x81C, 0x5600103, 0x81C, 0x4620103, 0x81C, 0x3640103, 0x81C, 0x2660103, 0x81C, 0x1680103,
     0x81C, 0x16A0103, 0x81C, 0x16C0103, 0x81C, 0x16E0103, 0x81C, 0x1700103, 0x81C, 0x1720103,
     0x81C, 0x1740103, 0x81C, 0x1760103, 0x81C, 0x1780103, 0x81C, 0x17A0103, 0x81C, 0x17C0103,
     0x81C, 0x17E0103, 0x90000006, 0, 0x40000000, 0, 0x81C, 0xFA000103, 0x81C, 0xF9020103, 0x81C,
     0xF8040103, 0x81C, 0xF7060103, 0x81C, 0xF6080103, 0x81C, 0xF50A0103, 0x81C, 0xF40C0103,
     0x81C, 0xF30E0103, 0x81C, 0xF2100103, 0x81C, 0xF1120103, 0x81C, 0xF0140103, 0x81C,
     0xEF160103, 0x81C, 0xEE180103, 0x81C, 0xED1A0103, 0x81C, 0xEC1C0103, 0x81C, 0xEB1E0103,
     0x81C, 0xEA200103, 0x81C, 0xE9220103, 0x81C, 0xE8240103, 0x81C, 0xE7260103, 0x81C,
     0xE6280103, 0x81C, 0xE52A0103, 0x81C, 0xE42C0103, 0x81C, 0xE32E0103, 0x81C, 0xE2300103,
     0x81C, 0xE1320103, 0x81C, 0xA5340103, 0x81C, 0xA4360103, 0x81C, 0xA3380103, 0x81C,
     0xA23A0103, 0x81C, 0xA13C0103, 0x81C, 0x843E0103, 0x81C, 0x83400103, 0x81C, 0x82420103,
     0x81C, 0x81440103, 0x81C, 0x64460103, 0x81C, 0x63480103, 0x81C, 0x624A0103, 0x81C,
     0x614C0103, 0x81C, 0x454E0103, 0x81C, 0x44500103, 0x81C, 0x43520103, 0x81C, 0x42540103,
     0x81C, 0x41560103, 0x81C, 0x24580103, 0x81C, 0x235A0103, 0x81C, 0x225C0103, 0x81C, 0x55E0103,
     0x81C, 0x4600103, 0x81C, 0x3620103, 0x81C, 0x2640103, 0x81C, 0x1660103, 0x81C, 0x1680103,
     0x81C, 0x16A0103, 0x81C, 0x16C0103, 0x81C, 0x16E0103, 0x81C, 0x1700103, 0x81C, 0x1720103,
     0x81C, 0x1740103, 0x81C, 0x1760103, 0x81C, 0x1780103, 0x81C, 0x17A0103, 0x81C, 0x17C0103,
     0x81C, 0x17E0103, 0x90000007, 0, 0x40000000, 0, 0x81C, 0xFF000103, 0x81C, 0xFF020103, 0x81C,
     0xFE040103, 0x81C, 0xFD060103, 0x81C, 0xFC080103, 0x81C, 0xFB0A0103, 0x81C, 0xFA0C0103,
     0x81C, 0xF90E0103, 0x81C, 0xF8100103, 0x81C, 0xF7120103, 0x81C, 0xF6140103, 0x81C,
     0xF5160103, 0x81C, 0xF4180103, 0x81C, 0xF31A0103, 0x81C, 0xF21C0103, 0x81C, 0xF11E0103,
     0x81C, 0xF0200103, 0x81C, 0xEF220103, 0x81C, 0xEE240103, 0x81C, 0xED260103, 0x81C,
     0xEC280103, 0x81C, 0xEB2A0103, 0x81C, 0xEA2C0103, 0x81C, 0xE92E0103, 0x81C, 0xE8300103,
     0x81C, 0xE7320103, 0x81C, 0xE6340103, 0x81C, 0xE5360103, 0x81C, 0xE4380103, 0x81C,
     0xE33A0103, 0x81C, 0xA53C0103]"

lemma chk_array_mp_8814a_agc_tab_8: "chk_run bb_entry (KIn (Some [0x81C, 0x81C, 0x81C, 0x81C, 0x81C, 0x81C, 0x81C, 0x81C, 0x81C, 0x81C, 0x81C, 0x81C, 0x81C, 0x81C, 0x81C, 0x81C, 0x81C, 0x81C, 0x81C, 0x81C, 0x81C, 0x81C, 0x81C, 0x81C, 0x81C, 0x81C, 0x81C, 0x81C, 0x81C, 0x81C, 0x81C, 0x81C, 0x81C, 0x81C, 0x81C, 0x81C, 0x81C, 0x81C, 0x81C, 0x81C, 0x81C, 0x81C, 0x81C, 0x81C, 0x81C, 0x81C, 0x81C, 0x81C, 0x81C, 0x81C, 0x81C, 0x81C, 0x81C, 0x81C, 0x81C, 0x81C, 0x81C, 0x81C, 0x81C, 0x81C, 0x81C, 0x81C, 0x81C, 0x81C]) [0x81C, 0x81C, 0x81C, 0x81C, 0x81C, 0x81C, 0x81C, 0x81C, 0x81C, 0x81C, 0x81C, 0x81C, 0x81C, 0x81C, 0x81C, 0x81C]) array_mp_8814a_agc_tab_8 =
  Some (KIn (Some [0x81C, 0x81C, 0x81C, 0x81C, 0x81C, 0x81C, 0x81C, 0x81C, 0x81C, 0x81C, 0x81C, 0x81C, 0x81C, 0x81C, 0x81C, 0x81C, 0x81C, 0x81C, 0x81C, 0x81C, 0x81C, 0x81C, 0x81C, 0x81C, 0x81C, 0x81C, 0x81C, 0x81C, 0x81C, 0x81C, 0x81C, 0x81C, 0x81C, 0x81C, 0x81C, 0x81C, 0x81C, 0x81C, 0x81C, 0x81C, 0x81C, 0x81C, 0x81C, 0x81C, 0x81C, 0x81C, 0x81C, 0x81C, 0x81C, 0x81C, 0x81C, 0x81C, 0x81C, 0x81C, 0x81C, 0x81C, 0x81C, 0x81C, 0x81C, 0x81C, 0x81C, 0x81C, 0x81C, 0x81C]) [0x81C, 0x81C, 0x81C, 0x81C, 0x81C, 0x81C, 0x81C, 0x81C, 0x81C, 0x81C, 0x81C, 0x81C, 0x81C, 0x81C, 0x81C, 0x81C, 0x81C, 0x81C, 0x81C, 0x81C, 0x81C, 0x81C, 0x81C, 0x81C, 0x81C, 0x81C, 0x81C, 0x81C, 0x81C, 0x81C, 0x81C])"
  by code_simp

definition array_mp_8814a_agc_tab_9 :: "u32 list" where
  "array_mp_8814a_agc_tab_9 =
    [0x81C, 0xA43E0103, 0x81C, 0xA3400103, 0x81C, 0xA2420103, 0x81C, 0xA1440103, 0x81C,
     0x85460103, 0x81C, 0x84480103, 0x81C, 0x834A0103, 0x81C, 0x824C0103, 0x81C, 0x814E0103,
     0x81C, 0x64500103, 0x81C, 0x63520103, 0x81C, 0x62540103, 0x81C, 0x44560103, 0x81C,
     0x43580103, 0x81C, 0x425A0103, 0x81C, 0x265C0103, 0x81C, 0x255E0103, 0x81C, 0x24600103,
     0x81C, 0x7620103, 0x81C, 0x6640103, 0x81C, 0x5660103, 0x81C, 0x4680103, 0x81C, 0x36A0103,
     0x81C, 0x26C0103, 0x81C, 0x16E0103, 0x81C, 0x1700103, 0x81C, 0x1720103, 0x81C, 0x1740103,
     0x81C, 0x1760103, 0x81C, 0x1780103, 0x81C, 0x17A0103, 0x81C, 0x17C0103, 0x81C, 0x17E0103,
     0x90000008, 0, 0x40000000, 0, 0x81C, 0xF8000103, 0x81C, 0xF7020103, 0x81C, 0xF6040103, 0x81C,
     0xF5060103, 0x81C, 0xF4080103, 0x81C, 0xF30A0103, 0x81C, 0xF20C0103, 0x81C, 0xF10E0103,
     0x81C, 0xF0100103, 0x81C, 0xEF120103, 0x81C, 0xEE140103, 0x81C, 0xED160103, 0x81C,
     0xEC180103, 0x81C, 0xEB1A0103, 0x81C, 0xEA1C0103, 0x81C, 0xE91E0103, 0x81C, 0xE8200103,
     0x81C, 0xE7220103, 0x81C, 0xE6240103, 0x81C, 0xE5260103, 0x81C, 0xE4280103, 0x81C,
     0xE32A0103, 0x81C, 0xE22C0103, 0x81C, 0xE12E0103, 0x81C, 0xA4300103, 0x81C, 0xA3320103,
     0x81C, 0xA2340103, 0x81C, 0xA1360103, 0x81C, 0x85380103, 0x81C, 0x843A0103, 0x81C,
     0x833C0103, 0x81C, 0x823E0103, 0x81C, 0x65400103, 0x81C, 0x64420103, 0x81C, 0x63440103,
     0x81C, 0x62460103, 0x81C, 0x45480103, 0x81C, 0x444A0103, 0x81C, 0x434C0103, 0x81C,
     0x264E0103, 0x81C, 0x25500103, 0x81C, 0x24520103, 0x81C, 0x8540103, 0x81C, 0x7560103, 0x81C,
     0x6580103, 0x81C, 0x55A0103, 0x81C, 0x45C0103, 0x81C, 0x35E0103, 0x81C, 0x2600103, 0x81C,
     0x1620103, 0x81C, 0x1640103, 0x81C, 0x1660103, 0x81C, 0x1680103, 0x81C, 0x16A0103, 0x81C,
     0x16C0103, 0x81C, 0x16E0103, 0x81C, 0x1700103, 0x81C, 0x1720103, 0x81C, 0x1740103, 0x81C,
     0x1760103, 0x81C, 0x1780103, 0x81C, 0x17A0103, 0x81C, 0x17C0103, 0x81C, 0x17E0103,
     0x90000009, 0, 0x40000000, 0, 0x81C, 0xFF000103, 0x81C, 0xFF020103, 0x81C, 0xFE040103, 0x81C,
     0xFD060103, 0x81C, 0xFC080103, 0x81C, 0xFB0A0103, 0x81C, 0xFA0C0103, 0x81C, 0xF90E0103,
     0x81C, 0xF8100103, 0x81C, 0xF7120103, 0x81C, 0xF6140103, 0x81C, 0xF5160103, 0x81C,
     0xF4180103, 0x81C, 0xF31A0103, 0x81C, 0xF21C0103, 0x81C, 0xF11E0103, 0x81C, 0xF0200103,
     0x81C, 0xEF220103, 0x81C, 0xEE240103, 0x81C, 0xED260103, 0x81C, 0xEC280103, 0x81C,
     0xEB2A0103, 0x81C, 0xEA2C0103, 0x81C, 0xE92E0103, 0x81C, 0xE8300103, 0x81C, 0xE7320103,
     0x81C, 0xE6340103, 0x81C, 0xE5360103, 0x81C, 0xE4380103, 0x81C, 0xE33A0103, 0x81C,
     0xA53C0103, 0x81C, 0xA43E0103, 0x81C, 0xA3400103, 0x81C, 0xA2420103, 0x81C, 0xA1440103,
     0x81C, 0x85460103, 0x81C, 0x84480103, 0x81C, 0x834A0103, 0x81C, 0x824C0103, 0x81C,
     0x814E0103, 0x81C, 0x64500103, 0x81C, 0x63520103, 0x81C, 0x62540103, 0x81C, 0x44560103,
     0x81C, 0x43580103, 0x81C, 0x425A0103]"

lemma chk_array_mp_8814a_agc_tab_9: "chk_run bb_entry (KIn (Some [0x81C, 0x81C, 0x81C, 0x81C, 0x81C, 0x81C, 0x81C, 0x81C, 0x81C, 0x81C, 0x81C, 0x81C, 0x81C, 0x81C, 0x81C, 0x81C, 0x81C, 0x81C, 0x81C, 0x81C, 0x81C, 0x81C, 0x81C, 0x81C, 0x81C, 0x81C, 0x81C, 0x81C, 0x81C, 0x81C, 0x81C, 0x81C, 0x81C, 0x81C, 0x81C, 0x81C, 0x81C, 0x81C, 0x81C, 0x81C, 0x81C, 0x81C, 0x81C, 0x81C, 0x81C, 0x81C, 0x81C, 0x81C, 0x81C, 0x81C, 0x81C, 0x81C, 0x81C, 0x81C, 0x81C, 0x81C, 0x81C, 0x81C, 0x81C, 0x81C, 0x81C, 0x81C, 0x81C, 0x81C]) [0x81C, 0x81C, 0x81C, 0x81C, 0x81C, 0x81C, 0x81C, 0x81C, 0x81C, 0x81C, 0x81C, 0x81C, 0x81C, 0x81C, 0x81C, 0x81C, 0x81C, 0x81C, 0x81C, 0x81C, 0x81C, 0x81C, 0x81C, 0x81C, 0x81C, 0x81C, 0x81C, 0x81C, 0x81C, 0x81C, 0x81C]) array_mp_8814a_agc_tab_9 =
  Some (KIn (Some [0x81C, 0x81C, 0x81C, 0x81C, 0x81C, 0x81C, 0x81C, 0x81C, 0x81C, 0x81C, 0x81C, 0x81C, 0x81C, 0x81C, 0x81C, 0x81C, 0x81C, 0x81C, 0x81C, 0x81C, 0x81C, 0x81C, 0x81C, 0x81C, 0x81C, 0x81C, 0x81C, 0x81C, 0x81C, 0x81C, 0x81C, 0x81C, 0x81C, 0x81C, 0x81C, 0x81C, 0x81C, 0x81C, 0x81C, 0x81C, 0x81C, 0x81C, 0x81C, 0x81C, 0x81C, 0x81C, 0x81C, 0x81C, 0x81C, 0x81C, 0x81C, 0x81C, 0x81C, 0x81C, 0x81C, 0x81C, 0x81C, 0x81C, 0x81C, 0x81C, 0x81C, 0x81C, 0x81C, 0x81C]) [0x81C, 0x81C, 0x81C, 0x81C, 0x81C, 0x81C, 0x81C, 0x81C, 0x81C, 0x81C, 0x81C, 0x81C, 0x81C, 0x81C, 0x81C, 0x81C, 0x81C, 0x81C, 0x81C, 0x81C, 0x81C, 0x81C, 0x81C, 0x81C, 0x81C, 0x81C, 0x81C, 0x81C, 0x81C, 0x81C, 0x81C, 0x81C, 0x81C, 0x81C, 0x81C, 0x81C, 0x81C, 0x81C, 0x81C, 0x81C, 0x81C, 0x81C, 0x81C, 0x81C, 0x81C, 0x81C])"
  by code_simp

definition array_mp_8814a_agc_tab_10 :: "u32 list" where
  "array_mp_8814a_agc_tab_10 =
    [0x81C, 0x265C0103, 0x81C, 0x255E0103, 0x81C, 0x24600103, 0x81C, 0x7620103, 0x81C, 0x6640103,
     0x81C, 0x5660103, 0x81C, 0x4680103, 0x81C, 0x36A0103, 0x81C, 0x26C0103, 0x81C, 0x16E0103,
     0x81C, 0x1700103, 0x81C, 0x1720103, 0x81C, 0x1740103, 0x81C, 0x1760103, 0x81C, 0x1780103,
     0x81C, 0x17A0103, 0x81C, 0x17C0103, 0x81C, 0x17E0103, 0x9000000A, 0, 0x40000000, 0, 0x81C,
     0xF9000103, 0x81C, 0xF8020103, 0x81C, 0xF7040103, 0x81C, 0xF6060103, 0x81C, 0xF5080103,
     0x81C, 0xF40A0103, 0x81C, 0xF30C0103, 0x81C, 0xF20E0103, 0x81C, 0xF1100103, 0x81C,
     0xF0120103, 0x81C, 0xEF140103, 0x81C, 0xEE160103, 0x81C, 0xED180103, 0x81C, 0xEC1A0103,
     0x81C, 0xEB1C0103, 0x81C, 0xEA1E0103, 0x81C, 0xE9200103, 0x81C, 0xE8220103, 0x81C,
     0xE7240103, 0x81C, 0xE6260103, 0x81C, 0xE5280103, 0x81C, 0xE42A0103, 0x81C, 0xE32C0103,
     0x81C, 0xE22E0103, 0x81C, 0xA6300103, 0x81C, 0xA5320103, 0x81C, 0xA4340103, 0x81C,
     0xA3360103, 0x81C, 0xA2380103, 0x81C, 0xA13A0103, 0x81C, 0x843C0103, 0x81C, 0x833E0103,
     0x81C, 0x82400103, 0x81C, 0x81420103, 0x81C, 0x64440103, 0x81C, 0x63460103, 0x81C,
     0x62480103, 0x81C, 0x614A0103, 0x81C, 0x444C0103, 0x81C, 0x434E0103, 0x81C, 0x42500103,
     0x81C, 0x41520103, 0x81C, 0x25540103, 0x81C, 0x24560103, 0x81C, 0x23580103, 0x81C,
     0x225A0103, 0x81C, 0x55C0103, 0x81C, 0x45E0103, 0x81C, 0x3600103, 0x81C, 0x2620103, 0x81C,
     0x1640103, 0x81C, 0x1660103, 0x81C, 0x1680103, 0x81C, 0x16A0103, 0x81C, 0x16C0103, 0x81C,
     0x16E0103, 0x81C, 0x1700103, 0x81C, 0x1720103, 0x81C, 0x1740103, 0x81C, 0x1760103, 0x81C,
     0x1780103, 0x81C, 0x17A0103, 0x81C, 0x17C0103, 0x81C, 0x17E0103, 0x9000000B, 0, 0x40000000,
     0, 0x81C, 0xFA000103, 0x81C, 0xF9020103, 0x81C, 0xF8040103, 0x81C, 0xF7060103, 0x81C,
     0xF6080103, 0x81C, 0xF50A0103, 0x81C, 0xF40C0103, 0x81C, 0xF30E0103, 0x81C, 0xF2100103,
     0x81C, 0xF1120103, 0x81C, 0xF0140103, 0x81C, 0xEF160103, 0x81C, 0xEE180103, 0x81C,
     0xED1A0103, 0x81C, 0xCC1C0103, 0x81C, 0xCB1E0103, 0x81C, 0xCA200103, 0x81C, 0xE9220103,
     0x81C, 0xE8240103, 0x81C, 0xE7260103, 0x81C, 0xE6280103, 0x81C, 0xE42A0103, 0x81C,
     0xE32C0103, 0x81C, 0xE22E0103, 0x81C, 0xA7300103, 0x81C, 0xA6320103, 0x81C, 0xA5340103,
     0x81C, 0xA4360103, 0x81C, 0xA3380103, 0x81C, 0xA23A0103, 0x81C, 0xA13C0103, 0x81C,
     0x843E0103, 0x81C, 0x83400103, 0x81C, 0x82420103, 0x81C, 0x65440103, 0x81C, 0x64460103,
     0x81C, 0x63480103, 0x81C, 0x624A0103, 0x81C, 0x614C0103, 0x81C, 0x444E0103, 0x81C,
     0x43500103, 0x81C, 0x42520103, 0x81C, 0x41540103, 0x81C, 0x24560103, 0x81C, 0x23580103,
     0x81C, 0x55A0103, 0x81C, 0x45C0103, 0x81C, 0x35E0103, 0x81C, 0x2600103, 0x81C, 0x1620103,
     0x81C, 0x1640103, 0x81C, 0x1660103, 0x81C, 0x1680103, 0x81C, 0x16A0103, 0x81C, 0x16C0103,
     0x81C, 0x16E0103, 0x81C, 0x1700103, 0x81C, 0x1720103, 0x81C, 0x1740103, 0x81C, 0x1760103,
     0x81C, 0x1780103]"

lemma chk_array_mp_8814a_agc_tab_10: "chk_run bb_entry (KIn (Some [0x81C, 0x81C, 0x81C, 0x81C, 0x81C, 0x81C, 0x81C, 0x81C, 0x81C, 0x81C, 0x81C, 0x81C, 0x81C, 0x81C, 0x81C, 0x81C, 0x81C, 0x81C, 0x81C, 0x81C, 0x81C, 0x81C, 0x81C, 0x81C, 0x81C, 0x81C, 0x81C, 0x81C, 0x81C, 0x81C, 0x81C, 0x81C, 0x81C, 0x81C, 0x81C, 0x81C, 0x81C, 0x81C, 0x81C, 0x81C, 0x81C, 0x81C, 0x81C, 0x81C, 0x81C, 0x81C, 0x81C, 0x81C, 0x81C, 0x81C, 0x81C, 0x81C, 0x81C, 0x81C, 0x81C, 0x81C, 0x81C, 0x81C, 0x81C, 0x81C, 0x81C, 0x81C, 0x81C, 0x81C]) [0x81C, 0x81C, 0x81C, 0x81C, 0x81C, 0x81C, 0x81C, 0x81C, 0x81C, 0x81C, 0x81C, 0x81C, 0x81C, 0x81C, 0x81C, 0x81C, 0x81C, 0x81C, 0x81C, 0x81C, 0x81C, 0x81C, 0x81C, 0x81C, 0x81C, 0x81C, 0x81C, 0x81C, 0x81C, 0x81C, 0x81C, 0x81C, 0x81C, 0x81C, 0x81C, 0x81C, 0x81C, 0x81C, 0x81C, 0x81C, 0x81C, 0x81C, 0x81C, 0x81C, 0x81C, 0x81C]) array_mp_8814a_agc_tab_10 =
  Some (KIn (Some [0x81C, 0x81C, 0x81C, 0x81C, 0x81C, 0x81C, 0x81C, 0x81C, 0x81C, 0x81C, 0x81C, 0x81C, 0x81C, 0x81C, 0x81C, 0x81C, 0x81C, 0x81C, 0x81C, 0x81C, 0x81C, 0x81C, 0x81C, 0x81C, 0x81C, 0x81C, 0x81C, 0x81C, 0x81C, 0x81C, 0x81C, 0x81C, 0x81C, 0x81C, 0x81C, 0x81C, 0x81C, 0x81C, 0x81C, 0x81C, 0x81C, 0x81C, 0x81C, 0x81C, 0x81C, 0x81C, 0x81C, 0x81C, 0x81C, 0x81C, 0x81C, 0x81C, 0x81C, 0x81C, 0x81C, 0x81C, 0x81C, 0x81C, 0x81C, 0x81C, 0x81C, 0x81C, 0x81C, 0x81C]) [0x81C, 0x81C, 0x81C, 0x81C, 0x81C, 0x81C, 0x81C, 0x81C, 0x81C, 0x81C, 0x81C, 0x81C, 0x81C, 0x81C, 0x81C, 0x81C, 0x81C, 0x81C, 0x81C, 0x81C, 0x81C, 0x81C, 0x81C, 0x81C, 0x81C, 0x81C, 0x81C, 0x81C, 0x81C, 0x81C, 0x81C, 0x81C, 0x81C, 0x81C, 0x81C, 0x81C, 0x81C, 0x81C, 0x81C, 0x81C, 0x81C, 0x81C, 0x81C, 0x81C, 0x81C, 0x81C, 0x81C, 0x81C, 0x81C, 0x81C, 0x81C, 0x81C, 0x81C, 0x81C, 0x81C, 0x81C, 0x81C, 0x81C, 0x81C, 0x81C, 0x81C])"
  by code_simp

definition array_mp_8814a_agc_tab_11 :: "u32 list" where
  "array_mp_8814a_agc_tab_11 =
    [0x81C, 0x17A0103, 0x81C, 0x17C0103, 0x81C, 0x17E0103, 0xA0000000, 0, 0x81C, 0xFF000103,
     0x81C, 0xFE020103, 0x81C, 0xFD040103, 0x81C, 0xFC060103, 0x81C, 0xFB080103, 0x81C,
     0xFA0A0103, 0x81C, 0xF90C0103, 0x81C, 0xF80E0103, 0x81C, 0xF7100103, 0x81C, 0xF6120103,
     0x81C, 0xF5140103, 0x81C, 0xF4160103, 0x81C, 0xF3180103, 0x81C, 0xF21A0103, 0x81C,
     0xF11C0103, 0x81C, 0xF01E0103, 0x81C, 0xEF200103, 0x81C, 0xEE220103, 0x81C, 0xED240103,
     0x81C, 0xEC260103, 0x81C, 0xEB280103, 0x81C, 0xEA2A0103, 0x81C, 0xE92C0103, 0x81C,
     0xE82E0103, 0x81C, 0xE7300103, 0x81C, 0xE6320103, 0x81C, 0xE5340103, 0x81C, 0xE4360103,
     0x81C, 0xE3380103, 0x81C, 0xE23A0103, 0x81C, 0xE13C0103, 0x81C, 0xA43E0103, 0x81C,
     0xA3400103, 0x81C, 0xA2420103, 0x81C, 0xA1440103, 0x81C, 0x86460103, 0x81C, 0x85480103,
     0x81C, 0x844A0103, 0x81C, 0x834C0103, 0x81C, 0x824E0103, 0x81C, 0x81500103, 0x81C,
     0x64520103, 0x81C, 0x63540103, 0x81C, 0x62560103, 0x81C, 0x61580103, 0x81C, 0x435A0103,
     0x81C, 0x425C0103, 0x81C, 0x415E0103, 0x81C, 0x25600103, 0x81C, 0x24620103, 0x81C, 0x6640103,
     0x81C, 0x5660103, 0x81C, 0x4680103, 0x81C, 0x36A0103, 0x81C, 0x26C0103, 0x81C, 0x16E0103,
     0x81C, 0x1700103, 0x81C, 0x1720103, 0x81C, 0x1740103, 0x81C, 0x1760103, 0x81C, 0x1780103,
     0x81C, 0x17A0103, 0x81C, 0x17C0103, 0x81C, 0x17E0103, 0xB0000000, 0, 0x80000001, 0,
     0x40000000, 0, 0x81C, 0xFA000203, 0x81C, 0xF9020203, 0x81C, 0xF8040203, 0x81C, 0xF7060203,
     0x81C, 0xF6080203, 0x81C, 0xF50A0203, 0x81C, 0xF40C0203, 0x81C, 0xF30E0203, 0x81C,
     0xF2100203, 0x81C, 0xF1120203, 0x81C, 0xF0140203, 0x81C, 0xEF160203, 0x81C, 0xEE180203,
     0x81C, 0xED1A0203, 0x81C, 0xEC1C0203, 0x81C, 0xEB1E0203, 0x81C, 0xEA200203, 0x81C,
     0xE9220203, 0x81C, 0xE8240203, 0x81C, 0xE7260203, 0x81C, 0xE6280203, 0x81C, 0xE52A0203,
     0x81C, 0xE42C0203, 0x81C, 0xE32E0203, 0x81C, 0xE2300203, 0x81C, 0xE1320203, 0x81C,
     0xA5340203, 0x81C, 0xA4360203, 0x81C, 0xA3380203, 0x81C, 0xA23A0203, 0x81C, 0xA13C0203,
     0x81C, 0x843E0203, 0x81C, 0x83400203, 0x81C, 0x82420203, 0x81C, 0x81440203, 0x81C,
     0x63460203, 0x81C, 0x62480203, 0x81C, 0x614A0203, 0x81C, 0x464C0203, 0x81C, 0x454E0203,
     0x81C, 0x44500203, 0x81C, 0x43520203, 0x81C, 0x42540203, 0x81C, 0x41560203, 0x81C,
     0x24580203, 0x81C, 0x235A0203, 0x81C, 0x65C0203, 0x81C, 0x55E0203, 0x81C, 0x4600203, 0x81C,
     0x3620203, 0x81C, 0x2640203, 0x81C, 0x1660203, 0x81C, 0x1680203, 0x81C, 0x16A0203, 0x81C,
     0x16C0203, 0x81C, 0x16E0203, 0x81C, 0x1700203, 0x81C, 0x1720203, 0x81C, 0x1740203, 0x81C,
     0x1760203, 0x81C, 0x1780203, 0x81C, 0x17A0203, 0x81C, 0x17C0203, 0x81C, 0x17E0203,
     0x90000002, 0, 0x40000000, 0, 0x81C, 0xF8000203, 0x81C, 0xF7020203, 0x81C, 0xF6040203, 0x81C,
     0xF5060203, 0x81C, 0xF4080203, 0x81C, 0xF30A0203, 0x81C, 0xF20C0203, 0x81C, 0xF10E0203,
     0x81C, 0xF0100203, 0x81C, 0xEF120203]"

lemma chk_array_mp_8814a_agc_tab_11: "chk_run bb_entry (KIn (Some [0x81C, 0x81C, 0x81C, 0x81C, 0x81C, 0x81C, 0x81C, 0x81C, 0x81C, 0x81C, 0x81C, 0x81C, 0x81C, 0x81C, 0x81C, 0x81C, 0x81C, 0x81C, 0x81C, 0x81C, 0x81C, 0x81C, 0x81C, 0x81C, 0x81C, 0x81C, 0x81C, 0x81C, 0x81C, 0x81C, 0x81C, 0x81C, 0x81C, 0x81C, 0x81C, 0x81C, 0x81C, 0x81C, 0x81C, 0x81C, 0x81C, 0x81C, 0x81C, 0x81C, 0x81C, 0x81C, 0x81C, 0x81C, 0x81C, 0x81C, 0x81C, 0x81C, 0x81C, 0x81C, 0x81C, 0x81C, 0x81C, 0x81C, 0x81C, 0x81C, 0x81C, 0x81C, 0x81C, 0x81C]) [0x81C, 0x81C, 0x81C, 0x81C, 0x81C, 0x81C, 0x81C, 0x81C, 0x81C, 0x81C, 0x81C, 0x81C, 0x81C, 0x81C, 0x81C, 0x81C, 0x81C, 0x81C, 0x81C, 0x81C, 0x81C, 0x81C, 0x81C, 0x81C, 0x81C, 0x81C, 0x81C, 0x81C, 0x81C, 0x81C, 0x81C, 0x81C, 0x81C, 0x81C, 0x81C, 0x81C, 0x81C, 0x81C, 0x81C, 0x81C, 0x81C, 0x81C, 0x81C, 0x81C, 0x81C, 0x81C, 0x81C, 0x81C, 0x81C, 0x81C, 0x81C, 0x81C, 0x81C, 0x81C, 0x81C, 0x81C, 0x81C, 0x81C, 0x81C, 0x81C, 0x81C]) array_mp_8814a_agc_tab_11 =
  Some (KIn (Some [0x81C, 0x81C, 0x81C, 0x81C, 0x81C, 0x81C, 0x81C, 0x81C, 0x81C, 0x81C, 0x81C, 0x81C, 0x81C, 0x81C, 0x81C, 0x81C, 0x81C, 0x81C, 0x81C, 0x81C, 0x81C, 0x81C, 0x81C, 0x81C, 0x81C, 0x81C, 0x81C, 0x81C, 0x81C, 0x81C, 0x81C, 0x81C, 0x81C, 0x81C, 0x81C, 0x81C, 0x81C, 0x81C, 0x81C, 0x81C, 0x81C, 0x81C, 0x81C, 0x81C, 0x81C, 0x81C, 0x81C, 0x81C, 0x81C, 0x81C, 0x81C, 0x81C, 0x81C, 0x81C, 0x81C, 0x81C, 0x81C, 0x81C, 0x81C, 0x81C, 0x81C, 0x81C, 0x81C, 0x81C]) [0x81C, 0x81C, 0x81C, 0x81C, 0x81C, 0x81C, 0x81C, 0x81C, 0x81C, 0x81C])"
  by code_simp

definition array_mp_8814a_agc_tab_12 :: "u32 list" where
  "array_mp_8814a_agc_tab_12 =
    [0x81C, 0xEE140203, 0x81C, 0xED160203, 0x81C, 0xEC180203, 0x81C, 0xEB1A0203, 0x81C,
     0xEA1C0203, 0x81C, 0xE91E0203, 0x81C, 0xE8200203, 0x81C, 0xE7220203, 0x81C, 0xE6240203,
     0x81C, 0xE5260203, 0x81C, 0xE4280203, 0x81C, 0xE32A0203, 0x81C, 0xE22C0203, 0x81C,
     0xE12E0203, 0x81C, 0xA6300203, 0x81C, 0xA5320203, 0x81C, 0xA4340203, 0x81C, 0xA3360203,
     0x81C, 0xA2380203, 0x81C, 0x853A0203, 0x81C, 0x843C0203, 0x81C, 0x833E0203, 0x81C,
     0x82400203, 0x81C, 0x81420203, 0x81C, 0x64440203, 0x81C, 0x63460203, 0x81C, 0x62480203,
     0x81C, 0x614A0203, 0x81C, 0x444C0203, 0x81C, 0x434E0203, 0x81C, 0x42500203, 0x81C,
     0x25520203, 0x81C, 0x24540203, 0x81C, 0x23560203, 0x81C, 0x6580203, 0x81C, 0x55A0203, 0x81C,
     0x45C0203, 0x81C, 0x35E0203, 0x81C, 0x2600203, 0x81C, 0x1620203, 0x81C, 0x1640203, 0x81C,
     0x1660203, 0x81C, 0x1680203, 0x81C, 0x16A0203, 0x81C, 0x16C0203, 0x81C, 0x16E0203, 0x81C,
     0x1700203, 0x81C, 0x1720203, 0x81C, 0x1740203, 0x81C, 0x1760203, 0x81C, 0x1780203, 0x81C,
     0x17A0203, 0x81C, 0x17C0203, 0x81C, 0x17E0203, 0x90000003, 0, 0x40000000, 0, 0x81C,
     0xFC000203, 0x81C, 0xFB020203, 0x81C, 0xFA040203, 0x81C, 0xF9060203, 0x81C, 0xF8080203,
     0x81C, 0xF70A0203, 0x81C, 0xF60C0203, 0x81C, 0xF50E0203, 0x81C, 0xF4100203, 0x81C,
     0xF3120203, 0x81C, 0xF2140203, 0x81C, 0xF1160203, 0x81C, 0xF0180203, 0x81C, 0xEF1A0203,
     0x81C, 0xEE1C0203, 0x81C, 0xED1E0203, 0x81C, 0xEC200203, 0x81C, 0xEB220203, 0x81C,
     0xEA240203, 0x81C, 0xE9260203, 0x81C, 0xE8280203, 0x81C, 0xE72A0203, 0x81C, 0xE62C0203,
     0x81C, 0xE52E0203, 0x81C, 0xE4300203, 0x81C, 0xE3320203, 0x81C, 0xE2340203, 0x81C,
     0xE1360203, 0x81C, 0x87380203, 0x81C, 0x863A0203, 0x81C, 0x853C0203, 0x81C, 0x843E0203,
     0x81C, 0x83400203, 0x81C, 0x82420203, 0x81C, 0x81440203, 0x81C, 0x64460203, 0x81C,
     0x63480203, 0x81C, 0x624A0203, 0x81C, 0x474C0203, 0x81C, 0x464E0203, 0x81C, 0x45500203,
     0x81C, 0x44520203, 0x81C, 0x43540203, 0x81C, 0x42560203, 0x81C, 0x24580203, 0x81C,
     0x235A0203, 0x81C, 0x75C0203, 0x81C, 0x65E0203, 0x81C, 0x5600203, 0x81C, 0x4620203, 0x81C,
     0x3640203, 0x81C, 0x2660203, 0x81C, 0x1680203, 0x81C, 0x16A0203, 0x81C, 0x16C0203, 0x81C,
     0x16E0203, 0x81C, 0x1700203, 0x81C, 0x1720203, 0x81C, 0x1740203, 0x81C, 0x1760203, 0x81C,
     0x1780203, 0x81C, 0x17A0203, 0x81C, 0x17C0203, 0x81C, 0x17E0203, 0x90000004, 0, 0x40000000,
     0, 0x81C, 0xF8000203, 0x81C, 0xF7020203, 0x81C, 0xF6040203, 0x81C, 0xF5060203, 0x81C,
     0xF4080203, 0x81C, 0xF30A0203, 0x81C, 0xF20C0203, 0x81C, 0xF10E0203, 0x81C, 0xF0100203,
     0x81C, 0xEF120203, 0x81C, 0xEE140203, 0x81C, 0xED160203, 0x81C, 0xEC180203, 0x81C,
     0xEB1A0203, 0x81C, 0xEA1C0203, 0x81C, 0xE91E0203, 0x81C, 0xE8200203, 0x81C, 0xE7220203,
     0x81C, 0xE6240203, 0x81C, 0xE5260203, 0x81C, 0xE4280203, 0x81C, 0xE32A0203, 0x81C,
     0xE22C0203, 0x81C, 0xE12E0203, 0x81C, 0xA6300203]"

lemma chk_array_mp_8814a_agc_tab_12: "chk_run bb_entry (KIn (Some [0x81C, 0x81C, 0x81C, 0x81C, 0x81C, 0x81C, 0x81C, 0x81C, 0x81C, 0x81C, 0x81C, 0x81C, 0x81C, 0x81C, 0x81C, 0x81C, 0x81C, 0x81C, 0x81C, 0x81C, 0x81C, 0x81C, 0x81C, 0x81C, 0x81C, 0x81C, 0x81C, 0x81C, 0x81C, 0x81C, 0x81C, 0x81C, 0x81C, 0x81C, 0x81C, 0x81C, 0x81C, 0x81C, 0x81C, 0x81C, 0x81C, 0x81C, 0x81C, 0x81C, 0x81C, 0x81C, 0x81C, 0x81C, 0x81C, 0x81C, 0x81C, 0x81C, 0x81C, 0x81C, 0x81C, 0x81C, 0x81C, 0x81C, 0x81C, 0x81C, 0x81C, 0x81C, 0x81C, 0x81C]) [0x81C, 0x81C, 0x81C, 0x81C, 0x81C, 0x81C, 0x81C, 0x81C, 0x81C, 0x81C]) array_mp_8814a_agc_tab_12 =
  Some (KIn (Some [0x81C, 0x81C, 0x81C, 0x81C, 0x81C, 0x81C, 0x81C, 0x81C, 0x81C, 0x81C, 0x81C, 0x81C, 0x81C, 0x81C, 0x81C, 0x81C, 0x81C, 0x81C, 0x81C, 0x81C, 0x81C, 0x81C, 0x81C, 0x81C, 0x81C, 0x81C, 0x81C, 0x81C, 0x81C, 0x81C, 0x81C, 0x81C, 0x81C, 0x81C, 0x81C, 0x81C, 0x81C, 0x81C, 0x81C, 0x81C, 0x81C, 0x81C, 0x81C, 0x81C, 0x81C, 0x81C, 0x81C, 0x81C, 0x81C, 0x81C, 0x81C, 0x81C, 0x81C, 0x81C, 0x81C, 0x81C, 0x81C, 0x81C, 0x81C, 0x81C, 0x81C, 0x81C, 0x81C, 0x81C]) [0x81C, 0x81C, 0x81C, 0x81C, 0x81C, 0x81C, 0x81C, 0x81C, 0x81C, 0x81C, 0x81C, 0x81C, 0x81C, 0x81C, 0x81C, 0x81C, 0x81C, 0x81C, 0x81C, 0x81C, 0x81C, 0x81C, 0x81C, 0x81C, 0x81C])"
  by code_simp

definition array_mp_8814a_agc_tab_13 :: "u32 list" where
  "array_mp_8814a_agc_tab_13 =
    [0x81C, 0xA5320203, 0x81C, 0xA4340203, 0x81C, 0xA3360203, 0x81C, 0xA2380203, 0x81C,
     0xA13A0203, 0x81C, 0x843C0203, 0x81C, 0x833E0203, 0x81C, 0x82400203, 0x81C, 0x81420203,
     0x81C, 0x64440203, 0x81C, 0x63460203, 0x81C, 0x62480203, 0x81C, 0x614A0203, 0x81C,
     0x444C0203, 0x81C, 0x434E0203, 0x81C, 0x42500203, 0x81C, 0x41520203, 0x81C, 0x25540203,
     0x81C, 0x24560203, 0x81C, 0x23580203, 0x81C, 0x65A0203, 0x81C, 0x55C0203, 0x81C, 0x45E0203,
     0x81C, 0x3600203, 0x81C, 0x2620203, 0x81C, 0x1640203, 0x81C, 0x1660203, 0x81C, 0x1680203,
     0x81C, 0x16A0203, 0x81C, 0x16C0203, 0x81C, 0x16E0203, 0x81C, 0x1700203, 0x81C, 0x1720203,
     0x81C, 0x1740203, 0x81C, 0x1760203, 0x81C, 0x1780203, 0x81C, 0x17A0203, 0x81C, 0x17C0203,
     0x81C, 0x17E0203, 0x90000005, 0, 0x40000000, 0, 0x81C, 0xFB000203, 0x81C, 0xFA020203, 0x81C,
     0xF9040203, 0x81C, 0xF8060203, 0x81C, 0xF7080203, 0x81C, 0xF60A0203, 0x81C, 0xF50C0203,
     0x81C, 0xF40E0203, 0x81C, 0xF3100203, 0x81C, 0xF2120203, 0x81C, 0xF1140203, 0x81C,
     0xF0160203, 0x81C, 0xEF180203, 0x81C, 0xEE1A0203, 0x81C, 0xED1C0203, 0x81C, 0xEC1E0203,
     0x81C, 0xEB200203, 0x81C, 0xEA220203, 0x81C, 0xE9240203, 0x81C, 0xE8260203, 0x81C,
     0xE7280203, 0x81C, 0xE62A0203, 0x81C, 0xE52C0203, 0x81C, 0xE42E0203, 0x81C, 0xE3300203,
     0x81C, 0xE2320203, 0x81C, 0xE1340203, 0x81C, 0xA5360203, 0x81C, 0xA4380203, 0x81C,
     0xA33A0203, 0x81C, 0xA23C0203, 0x81C, 0x843E0203, 0x81C, 0x83400203, 0x81C, 0x82420203,
     0x81C, 0x81440203, 0x81C, 0x64460203, 0x81C, 0x63480203, 0x81C, 0x624A0203, 0x81C,
     0x614C0203, 0x81C, 0x474E0203, 0x81C, 0x46500203, 0x81C, 0x45520203, 0x81C, 0x44540203,
     0x81C, 0x43560203, 0x81C, 0x25580203, 0x81C, 0x245A0203, 0x81C, 0x235C0203, 0x81C, 0x75E0203,
     0x81C, 0x6600203, 0x81C, 0x5620203, 0x81C, 0x4640203, 0x81C, 0x3660203, 0x81C, 0x2680203,
     0x81C, 0x16A0203, 0x81C, 0x16C0203, 0x81C, 0x16E0203, 0x81C, 0x1700203, 0x81C, 0x1720203,
     0x81C, 0x1740203, 0x81C, 0x1760203, 0x81C, 0x1780203, 0x81C, 0x17A0203, 0x81C, 0x17C0203,
     0x81C, 0x17E0203, 0x90000006, 0, 0x40000000, 0, 0x81C, 0xFC000203, 0x81C, 0xFB020203, 0x81C,
     0xFA040203, 0x81C, 0xF9060203, 0x81C, 0xF8080203, 0x81C, 0xF70A0203, 0x81C, 0xF60C0203,
     0x81C, 0xF50E0203, 0x81C, 0xF4100203, 0x81C, 0xF3120203, 0x81C, 0xF2140203, 0x81C,
     0xF1160203, 0x81C, 0xF0180203, 0x81C, 0xEF1A0203, 0x81C, 0xEE1C0203, 0x81C, 0xED1E0203,
     0x81C, 0xEC200203, 0x81C, 0xEB220203, 0x81C, 0xEA240203, 0x81C, 0xE9260203, 0x81C,
     0xE8280203, 0x81C, 0xE72A0203, 0x81C, 0xE62C0203, 0x81C, 0xE52E0203, 0x81C, 0xE4300203,
     0x81C, 0xE3320203, 0x81C, 0xE2340203, 0x81C, 0xE1360203, 0x81C, 0xA5380203, 0x81C,
     0xA43A0203, 0x81C, 0xA33C0203, 0x81C, 0x853E0203, 0x81C, 0x84400203, 0x81C, 0x83420203,
     0x81C, 0x82440203, 0x81C, 0x81460203, 0x81C, 0x64480203, 0x81C, 0x634A0203, 0x81C,
     0x624C0203, 0x81C, 0x614E0203]"

lemma chk_array_mp_8814a_agc_tab_13: "chk_run bb_entry (KIn (Some [0x81C, 0x81C, 0x81C, 0x81C, 0x81C, 0x81C, 0x81C, 0x81C, 0x81C, 0x81C, 0x81C, 0x81C, 0x81C, 0x81C, 0x81C, 0x81C, 0x81C, 0x81C, 0x81C, 0x81C, 0x81C, 0x81C, 0x81C, 0x81C, 0x81C, 0x81C, 0x81C, 0x81C, 0x81C, 0x81C, 0x81C, 0x81C, 0x81C, 0x81C, 0x81C, 0x81C, 0x81C, 0x81C, 0x81C, 0x81C, 0x81C, 0x81C, 0x81C, 0x81C, 0x81C, 0x81C, 0x81C, 0x81C, 0x81C, 0x81C, 0x81C, 0x81C, 0x81C, 0x81C, 0x81C, 0x81C, 0x81C, 0x81C, 0x81C, 0x81C, 0x81C, 0x81C, 0x81C, 0x81C]) [0x81C, 0x81C, 0x81C, 0x81C, 0x81C, 0x81C, 0x81C, 0x81C, 0x81C, 0x81C, 0x81C, 0x81C, 0x81C, 0x81C, 0x81C, 0x81C, 0x81C, 0x81C, 0x81C, 0x81C, 0x81C, 0x81C, 0x81C, 0x81C, 0x81C]) array_mp_8814a_agc_tab_13 =
  Some (KIn (Some [0x81C, 0x81C, 0x81C, 0x81C, 0x81C, 0x81C, 0x81C, 0x81C, 0x81C, 0x81C, 0x81C, 0x81C, 0x81C, 0x81C, 0x81C, 0x81C, 0x81C, 0x81C, 0x81C, 0x81C, 0x81C, 0x81C, 0x81C, 0x81C, 0x81C, 0x81C, 0x81C, 0x81C, 0x81C, 0x81C, 0x81C, 0x81C, 0x81C, 0x81C, 0x81C, 0x81C, 0x81C, 0x81C, 0x81C, 0x81C, 0x81C, 0x81C, 0x81C, 0x81C, 0x81C, 0x81C, 0x81C, 0x81C, 0x81C, 0x81C, 0x81C, 0x81C, 0x81C, 0x81C, 0x81C, 0x81C, 0x81C, 0x81C, 0x81C, 0x81C, 0x81C, 0x81C, 0x81C, 0x81C]) [0x81C, 0x81C, 0x81C, 0x81C, 0x81C, 0x81C, 0x81C, 0x81C, 0x81C, 0x81C, 0x81C, 0x81C, 0x81C, 0x81C, 0x81C, 0x81C, 0x81C, 0x81C, 0x81C, 0x81C, 0x81C, 0x81C, 0x81C, 0x81C, 0x81C, 0x81C, 0x81C, 0x81C, 0x81C, 0x81C, 0x81C, 0x81C, 0x81C, 0x81C, 0x81C, 0x81C, 0x81C, 0x81C, 0x81C, 0x81C])"
  by code_simp

definition array_mp_8814a_agc_tab_14 :: "u32 list" where
  "array_mp_8814a_agc_tab_14 =
    [0x81C, 0x46500203, 0x81C, 0x45520203, 0x81C, 0x44540203, 0x81C, 0x43560203, 0x81C,
     0x25580203, 0x81C, 0x245A0203, 0x81C, 0x235C0203, 0x81C, 0x75E0203, 0x81C, 0x6600203, 0x81C,
     0x5620203, 0x81C, 0x4640203, 0x81C, 0x3660203, 0x81C, 0x2680203, 0x81C, 0x16A0203, 0x81C,
     0x16C0203, 0x81C, 0x16E0203, 0x81C, 0x1700203, 0x81C, 0x1720203, 0x81C, 0x1740203, 0x81C,
     0x1760203, 0x81C, 0x1780203, 0x81C, 0x17A0203, 0x81C, 0x17C0203, 0x81C, 0x17E0203,
     0x90000007, 0, 0x40000000, 0, 0x81C, 0xFF000203, 0x81C, 0xFF020203, 0x81C, 0xFE040203, 0x81C,
     0xFD060203, 0x81C, 0xFC080203, 0x81C, 0xFB0A0203, 0x81C, 0xFA0C0203, 0x81C, 0xF90E0203,
     0x81C, 0xF8100203, 0x81C, 0xF7120203, 0x81C, 0xF6140203, 0x81C, 0xF5160203, 0x81C,
     0xF4180203, 0x81C, 0xF31A0203, 0x81C, 0xF21C0203, 0x81C, 0xF11E0203, 0x81C, 0xF0200203,
     0x81C, 0xEF220203, 0x81C, 0xEE240203, 0x81C, 0xED260203, 0x81C, 0xEC280203, 0x81C,
     0xEB2A0203, 0x81C, 0xEA2C0203, 0x81C, 0xE92E0203, 0x81C, 0xE8300203, 0x81C, 0xE7320203,
     0x81C, 0xE6340203, 0x81C, 0xE5360203, 0x81C, 0xE4380203, 0x81C, 0xE33A0203, 0x81C,
     0xE23C0203, 0x81C, 0xE13E0203, 0x81C, 0xA4400203, 0x81C, 0xA3420203, 0x81C, 0xA2440203,
     0x81C, 0xA1460203, 0x81C, 0x84480203, 0x81C, 0x834A0203, 0x81C, 0x824C0203, 0x81C,
     0x814E0203, 0x81C, 0x64500203, 0x81C, 0x63520203, 0x81C, 0x62540203, 0x81C, 0x61560203,
     0x81C, 0x45580203, 0x81C, 0x445A0203, 0x81C, 0x435C0203, 0x81C, 0x425E0203, 0x81C,
     0x24600203, 0x81C, 0x23620203, 0x81C, 0x7640203, 0x81C, 0x6660203, 0x81C, 0x5680203, 0x81C,
     0x46A0203, 0x81C, 0x36C0203, 0x81C, 0x26E0203, 0x81C, 0x1700203, 0x81C, 0x1720203, 0x81C,
     0x1740203, 0x81C, 0x1760203, 0x81C, 0x1780203, 0x81C, 0x17A0203, 0x81C, 0x17C0203, 0x81C,
     0x17E0203, 0x90000008, 0, 0x40000000, 0, 0x81C, 0xF7000203, 0x81C, 0xF6020203, 0x81C,
     0xF5040203, 0x81C, 0xF4060203, 0x81C, 0xF3080203, 0x81C, 0xF20A0203, 0x81C, 0xF10C0203,
     0x81C, 0xF00E0203, 0x81C, 0xEF100203, 0x81C, 0xEE120203, 0x81C, 0xED140203, 0x81C,
     0xEC160203, 0x81C, 0xEB180203, 0x81C, 0xEA1A0203, 0x81C, 0xE91C0203, 0x81C, 0xE81E0203,
     0x81C, 0xE7200203, 0x81C, 0xE6220203, 0x81C, 0xE5240203, 0x81C, 0xE4260203, 0x81C,
     0xE3280203, 0x81C, 0xE22A0203, 0x81C, 0xA62C0203, 0x81C, 0xA52E0203, 0x81C, 0xA4300203,
     0x81C, 0xA3320203, 0x81C, 0xA2340203, 0x81C, 0xA1360203, 0x81C, 0x86380203, 0x81C,
     0x853A0203, 0x81C, 0x843C0203, 0x81C, 0x833E0203, 0x81C, 0x65400203, 0x81C, 0x64420203,
     0x81C, 0x63440203, 0x81C, 0x46460203, 0x81C, 0x45480203, 0x81C, 0x444A0203, 0x81C,
     0x434C0203, 0x81C, 0x264E0203, 0x81C, 0x25500203, 0x81C, 0x24520203, 0x81C, 0x8540203, 0x81C,
     0x7560203, 0x81C, 0x6580203, 0x81C, 0x55A0203, 0x81C, 0x45C0203, 0x81C, 0x35E0203, 0x81C,
     0x2600203, 0x81C, 0x1620203, 0x81C, 0x1640203, 0x81C, 0x1660203, 0x81C, 0x1680203, 0x81C,
     0x16A0203, 0x81C, 0x16C0203]"

lemma chk_array_mp_8814a_agc_tab_14: "chk_run bb_entry (KIn (Some [0x81C, 0x81C, 0x81C, 0x81C, 0x81C, 0x81C, 0x81C, 0x81C, 0x81C, 0x81C, 0x81C, 0x81C, 0x81C, 0x81C, 0x81C, 0x81C, 0x81C, 0x81C, 0x81C, 0x81C, 0x81C, 0x81C, 0x81C, 0x81C, 0x81C, 0x81C, 0x81C, 0x81C, 0x81C, 0x81C, 0x81C, 0x81C, 0x81C, 0x81C, 0x81C, 0x81C, 0x81C, 0x81C, 0x81C, 0x81C, 0x81C, 0x81C, 0x81C, 0x81C, 0x81C, 0x81C, 0x81C, 0x81C, 0x81C, 0x81C, 0x81C, 0x81C, 0x81C, 0x81C, 0x81C, 0x81C, 0x81C, 0x81C, 0x81C, 0x81C, 0x81C, 0x81C, 0x81C, 0x81C]) [0x81C, 0x81C, 0x81C, 0x81C, 0x81C, 0x81C, 0x81C, 0x81C, 0x81C, 0x81C, 0x81C, 0x81C, 0x81C, 0x81C, 0x81C, 0x81C, 0x81C, 0x81C, 0x81C, 0x81C, 0x81C, 0x81C, 0x81C, 0x81C, 0x81C, 0x81C, 0x81C, 0x81C, 0x81C, 0x81C, 0x81C, 0x81C, 0x81C, 0x81C, 0x81C, 0x81C, 0x81C, 0x81C, 0x81C, 0x81C]) array_mp_8814a_agc_tab_14 =
  Some (KIn (Some [0x81C, 0x81C, 0x81C, 0x81C, 0x81C, 0x81C, 0x81C, 0x81C, 0x81C, 0x81C, 0x81C, 0x81C, 0x81C, 0x81C, 0x81C, 0x81C, 0x81C, 0x81C, 0x81C, 0x81C, 0x81C, 0x81C, 0x81C, 0x81C, 0x81C, 0x81C, 0x81C, 0x81C, 0x81C, 0x81C, 0x81C, 0x81C, 0x81C, 0x81C, 0x81C, 0x81C, 0x81C, 0x81C, 0x81C, 0x81C, 0x81C, 0x81C, 0x81C, 0x81C, 0x81C, 0x81C, 0x81C, 0x81C, 0x81C, 0x81C, 0x81C, 0x81C, 0x81C, 0x81C, 0x81C, 0x81C, 0x81C, 0x81C, 0x81C, 0x81C, 0x81C, 0x81C, 0x81C, 0x81C]) [0x81C, 0x81C, 0x81C, 0x81C, 0x81C, 0x81C, 0x81C, 0x81C, 0x81C, 0x81C, 0x81C, 0x81C, 0x81C, 0x81C, 0x81C, 0x81C, 0x81C, 0x81C, 0x81C, 0x81C, 0x81C, 0x81C, 0x81C, 0x81C, 0x81C, 0x81C, 0x81C, 0x81C, 0x81C, 0x81C, 0x81C, 0x81C, 0x81C, 0x81C, 0x81C, 0x81C, 0x81C, 0x81C, 0x81C, 0x81C, 0x81C, 0x81C, 0x81C, 0x81C, 0x81C, 0x81C, 0x81C, 0x81C, 0x81C, 0x81C, 0x81C, 0x81C, 0x81C, 0x81C, 0x81C])"
  by code_simp

definition array_mp_8814a_agc_tab_15 :: "u32 list" where
  "array_mp_8814a_agc_tab_15 =
    [0x81C, 0x16E0203, 0x81C, 0x1700203, 0x81C, 0x1720203, 0x81C, 0x1740203, 0x81C, 0x1760203,
     0x81C, 0x1780203, 0x81C, 0x17A0203, 0x81C, 0x17C0203, 0x81C, 0x17E0203, 0x90000009, 0,
     0x40000000, 0, 0x81C, 0xFF000203, 0x81C, 0xFF020203, 0x81C, 0xFE040203, 0x81C, 0xFD060203,
     0x81C, 0xFC080203, 0x81C, 0xFB0A0203, 0x81C, 0xFA0C0203, 0x81C, 0xF90E0203, 0x81C,
     0xF8100203, 0x81C, 0xF7120203, 0x81C, 0xF6140203, 0x81C, 0xF5160203, 0x81C, 0xF4180203,
     0x81C, 0xF31A0203, 0x81C, 0xF21C0203, 0x81C, 0xF11E0203, 0x81C, 0xF0200203, 0x81C,
     0xEF220203, 0x81C, 0xEE240203, 0x81C, 0xED260203, 0x81C, 0xEC280203, 0x81C, 0xEB2A0203,
     0x81C, 0xEA2C0203, 0x81C, 0xE92E0203, 0x81C, 0xE8300203, 0x81C, 0xE7320203, 0x81C,
     0xE6340203, 0x81C, 0xE5360203, 0x81C, 0xE4380203, 0x81C, 0xE33A0203, 0x81C, 0xE23C0203,
     0x81C, 0xE13E0203, 0x81C, 0xA4400203, 0x81C, 0xA3420203, 0x81C, 0xA2440203, 0x81C,
     0xA1460203, 0x81C, 0x84480203, 0x81C, 0x834A0203, 0x81C, 0x824C0203, 0x81C, 0x814E0203,
     0x81C, 0x64500203, 0x81C, 0x63520203, 0x81C, 0x62540203, 0x81C, 0x61560203, 0x81C,
     0x45580203, 0x81C, 0x445A0203, 0x81C, 0x435C0203, 0x81C, 0x425E0203, 0x81C, 0x24600203,
     0x81C, 0x23620203, 0x81C, 0x7640203, 0x81C, 0x6660203, 0x81C, 0x5680203, 0x81C, 0x46A0203,
     0x81C, 0x36C0203, 0x81C, 0x26E0203, 0x81C, 0x1700203, 0x81C, 0x1720203, 0x81C, 0x1740203,
     0x81C, 0x1760203, 0x81C, 0x1780203, 0x81C, 0x17A0203, 0x81C, 0x17C0203, 0x81C, 0x17E0203,
     0x9000000A, 0, 0x40000000, 0, 0x81C, 0xF8000203, 0x81C, 0xF7020203, 0x81C, 0xF6040203, 0x81C,
     0xF5060203, 0x81C, 0xF4080203, 0x81C, 0xF30A0203, 0x81C, 0xF20C0203, 0x81C, 0xF10E0203,
     0x81C, 0xF0100203, 0x81C, 0xEF120203, 0x81C, 0xEE140203, 0x81C, 0xED160203, 0x81C,
     0xEC180203, 0x81C, 0xEB1A0203, 0x81C, 0xEA1C0203, 0x81C, 0xE91E0203, 0x81C, 0xE8200203,
     0x81C, 0xE7220203, 0x81C, 0xE6240203, 0x81C, 0xE5260203, 0x81C, 0xE4280203, 0x81C,
     0xE32A0203, 0x81C, 0xE22C0203, 0x81C, 0xE12E0203, 0x81C, 0xA6300203, 0x81C, 0xA5320203,
     0x81C, 0xA4340203, 0x81C, 0xA3360203, 0x81C, 0xA2380203, 0x81C, 0xA13A0203, 0x81C,
     0x843C0203, 0x81C, 0x833E0203, 0x81C, 0x82400203, 0x81C, 0x81420203, 0x81C, 0x64440203,
     0x81C, 0x63460203, 0x81C, 0x62480203, 0x81C, 0x614A0203, 0x81C, 0x444C0203, 0x81C,
     0x434E0203, 0x81C, 0x42500203, 0x81C, 0x41520203, 0x81C, 0x25540203, 0x81C, 0x24560203,
     0x81C, 0x23580203, 0x81C, 0x65A0203, 0x81C, 0x55C0203, 0x81C, 0x45E0203, 0x81C, 0x3600203,
     0x81C, 0x2620203, 0x81C, 0x1640203, 0x81C, 0x1660203, 0x81C, 0x1680203, 0x81C, 0x16A0203,
     0x81C, 0x16C0203, 0x81C, 0x16E0203, 0x81C, 0x1700203, 0x81C, 0x1720203, 0x81C, 0x1740203,
     0x81C, 0x1760203, 0x81C, 0x1780203, 0x81C, 0x17A0203, 0x81C, 0x17C0203, 0x81C, 0x17E0203,
     0x9000000B, 0, 0x40000000, 0, 0x81C, 0xF9000203, 0x81C, 0xF8020203, 0x81C, 0xF7040203, 0x81C,
     0xF6060203, 0x81C, 0xF5080203]"

lemma chk_array_mp_8814a_agc_tab_15: "chk_run bb_entry (KIn (Some [0x81C, 0x81C, 0x81C, 0x81C, 0x81C, 0x81C, 0x81C, 0x81C, 0x81C, 0x81C, 0x81C, 0x81C, 0x81C, 0x81C, 0x81C, 0x81C, 0x81C, 0x81C, 0x81C, 0x81C, 0x81C, 0x81C, 0x81C, 0x81C, 0x81C, 0x81C, 0x81C, 0x81C, 0x81C, 0x81C, 0x81C, 0x81C, 0x81C, 0x81C, 0x81C, 0x81C, 0x81C, 0x81C, 0x81C, 0x81C, 0x81C, 0x81C, 0x81C, 0x81C, 0x81C, 0x81C, 0x81C, 0x81C, 0x81C, 0x81C, 0x81C, 0x81C, 0x81C, 0x81C, 0x81C, 0x81C, 0x81C, 0x81C, 0x81C, 0x81C, 0x81C, 0x81C, 0x81C, 0x81C]) [0x81C, 0x81C, 0x81C, 0x81C, 0x81C, 0x81C, 0x81C, 0x81C, 0x81C, 0x81C, 0x81C, 0x81C, 0x81C, 0x81C, 0x81C, 0x81C, 0x81C, 0x81C, 0x81C, 0x81C, 0x81C, 0x81C, 0x81C, 0x81C, 0x81C, 0x81C, 0x81C, 0x81C, 0x81C, 0x81C, 0x81C, 0x81C, 0x81C, 0x81C, 0x81C, 0x81C, 0x81C, 0x81C, 0x81C, 0x81C, 0x81C, 0x81C, 0x81C, 0x81C, 0x81C, 0x81C, 0x81C, 0x81C, 0x81C, 0x81C, 0x81C, 0x81C, 0x81C, 0x81C, 0x81C]) array_mp_8814a_agc_tab_15 =
  Some (KIn (Some [0x81C, 0x81C, 0x81C, 0x81C, 0x81C, 0x81C, 0x81C, 0x81C, 0x81C, 0x81C, 0x81C, 0x81C, 0x81C, 0x81C, 0x81C, 0x81C, 0x81C, 0x81C, 0x81C, 0x81C, 0x81C, 0x81C, 0x81C, 0x81C, 0x81C, 0x81C, 0x81C, 0x81C, 0x81C, 0x81C, 0x81C, 0x81C, 0x81C, 0x81C, 0x81C, 0x81C, 0x81C, 0x81C, 0x81C, 0x81C, 0x81C, 0x81C, 0x81C, 0x81C, 0x81C, 0x81C, 0x81C, 0x81C, 0x81C, 0x81C, 0x81C, 0x81C, 0x81C, 0x81C, 0x81C, 0x81C, 0x81C, 0x81C, 0x81C, 0x81C, 0x81C, 0x81C, 0x81C, 0x81C]) [0x81C, 0x81C, 0x81C, 0x81C, 0x81C])"
  by code_simp

definition array_mp_8814a_agc_tab_16 :: "u32 list" where
  "array_mp_8814a_agc_tab_16 =
    [0x81C, 0xF40A0203, 0x81C, 0xF30C0203, 0x81C, 0xF20E0203, 0x81C, 0xF1100203, 0x81C,
     0xF0120203, 0x81C, 0xEF140203, 0x81C, 0xCE160203, 0x81C, 0xCD180203, 0x81C, 0xCC1A0203,
     0x81C, 0xCB1C0203, 0x81C, 0xCA1E0203, 0x81C, 0xC9200203, 0x81C, 0xC8220203, 0x81C,
     0xC7240203, 0x81C, 0xC6260203, 0x81C, 0xC5280203, 0x81C, 0xC42A0203, 0x81C, 0xC32C0203,
     0x81C, 0xC22E0203, 0x81C, 0xC1300203, 0x81C, 0xA5320203, 0x81C, 0xA4340203, 0x81C,
     0xA3360203, 0x81C, 0xA2380203, 0x81C, 0xA13A0203, 0x81C, 0x853C0203, 0x81C, 0x843E0203,
     0x81C, 0x83400203, 0x81C, 0x82420203, 0x81C, 0x81440203, 0x81C, 0x64460203, 0x81C,
     0x63480203, 0x81C, 0x624A0203, 0x81C, 0x614C0203, 0x81C, 0x444E0203, 0x81C, 0x43500203,
     0x81C, 0x42520203, 0x81C, 0x41540203, 0x81C, 0x24560203, 0x81C, 0x23580203, 0x81C, 0x75A0203,
     0x81C, 0x65C0203, 0x81C, 0x55E0203, 0x81C, 0x4600203, 0x81C, 0x3620203, 0x81C, 0x2640203,
     0x81C, 0x1660203, 0x81C, 0x1680203, 0x81C, 0x16A0203, 0x81C, 0x16C0203, 0x81C, 0x16E0203,
     0x81C, 0x1700203, 0x81C, 0x1720203, 0x81C, 0x1740203, 0x81C, 0x1760203, 0x81C, 0x1780203,
     0x81C, 0x17A0203, 0x81C, 0x17C0203, 0x81C, 0x17E0203, 0xA0000000, 0, 0x81C, 0xFF000203,
     0x81C, 0xFF020203, 0x81C, 0xFE040203, 0x81C, 0xFD060203, 0x81C, 0xFC080203, 0x81C,
     0xFB0A0203, 0x81C, 0xFA0C0203, 0x81C, 0xF90E0203, 0x81C, 0xF8100203, 0x81C, 0xF7120203,
     0x81C, 0xF6140203, 0x81C, 0xF5160203, 0x81C, 0xF4180203, 0x81C, 0xF31A0203, 0x81C,
     0xF21C0203, 0x81C, 0xF11E0203, 0x81C, 0xF0200203, 0x81C, 0xEF220203, 0x81C, 0xEE240203,
     0x81C, 0xED260203, 0x81C, 0xEC280203, 0x81C, 0xEB2A0203, 0x81C, 0xEA2C0203, 0x81C,
     0xE92E0203, 0x81C, 0xE8300203, 0x81C, 0xE7320203, 0x81C, 0xE6340203, 0x81C, 0xE5360203,
     0x81C, 0xE4380203, 0x81C, 0xE33A0203, 0x81C, 0xE23C0203, 0x81C, 0xE13E0203, 0x81C,
     0xA4400203, 0x81C, 0xA3420203, 0x81C, 0xA2440203, 0x81C, 0xA1460203, 0x81C, 0x85480203,
     0x81C, 0x844A0203, 0x81C, 0x834C0203, 0x81C, 0x824E0203, 0x81C, 0x81500203, 0x81C,
     0x64520203, 0x81C, 0x63540203, 0x81C, 0x62560203, 0x81C, 0x61580203, 0x81C, 0x445A0203,
     0x81C, 0x435C0203, 0x81C, 0x425E0203, 0x81C, 0x25600203, 0x81C, 0x24620203, 0x81C, 0x6640203,
     0x81C, 0x5660203, 0x81C, 0x4680203, 0x81C, 0x36A0203, 0x81C, 0x26C0203, 0x81C, 0x16E0203,
     0x81C, 0x1700203, 0x81C, 0x1720203, 0x81C, 0x1740203, 0x81C, 0x1760203, 0x81C, 0x1780203,
     0x81C, 0x17A0203, 0x81C, 0x17C0203, 0x81C, 0x17E0203, 0xB0000000, 0, 0x80000001, 0,
     0x40000000, 0, 0x81C, 0xF8000303, 0x81C, 0xF7020303, 0x81C, 0xF6040303, 0x81C, 0xF5060303,
     0x81C, 0xF4080303, 0x81C, 0xF30A0303, 0x81C, 0xF20C0303, 0x81C, 0xF10E0303, 0x81C,
     0xF0100303, 0x81C, 0xEF120303, 0x81C, 0xEE140303, 0x81C, 0xED160303, 0x81C, 0xEC180303,
     0x81C, 0xEB1A0303, 0x81C, 0xEA1C0303, 0x81C, 0xE91E0303, 0x81C, 0xE8200303, 0x81C,
     0xE7220303, 0x81C, 0xE6240303]"

lemma chk_array_mp_8814a_agc_tab_16: "chk_run bb_entry (KIn (Some [0x81C, 0x81C, 0x81C, 0x81C, 0x81C, 0x81C, 0x81C, 0x81C, 0x81C, 0x81C, 0x81C, 0x81C, 0x81C, 0x81C, 0x81C, 0x81C, 0x81C, 0x81C, 0x81C, 0x81C, 0x81C, 0x81C, 0x81C, 0x81C, 0x81C, 0x81C, 0x81C, 0x81C, 0x81C, 0x81C, 0x81C, 0x81C, 0x81C, 0x81C, 0x81C, 0x81C, 0x81C, 0x81C, 0x81C, 0x81C, 0x81C, 0x81C, 0x81C, 0x81C, 0x81C, 0x81C, 0x81C, 0x81C, 0x81C, 0x81C, 0x81C, 0x81C, 0x81C, 0x81C, 0x81C, 0x81C, 0x81C, 0x81C, 0x81C, 0x81C, 0x81C, 0x81C, 0x81C, 0x81C]) [0x81C, 0x81C, 0x81C, 0x81C, 0x81C]) array_mp_8814a_agc_tab_16 =
  Some (KIn None [0x81C, 0x81C, 0x81C, 0x81C, 0x81C, 0x81C, 0x81C, 0x81C, 0x81C, 0x81C, 0x81C, 0x81C, 0x81C, 0x81C, 0x81C, 0x81C, 0x81C, 0x81C, 0x81C])"
  by code_simp

definition array_mp_8814a_agc_tab_17 :: "u32 list" where
  "array_mp_8814a_agc_tab_17 =
    [0x81C, 0xE5260303, 0x81C, 0xE4280303, 0x81C, 0xE32A0303, 0x81C, 0xE22C0303, 0x81C,
     0xE12E0303, 0x81C, 0xA6300303, 0x81C, 0xA5320303, 0x81C, 0xA4340303, 0x81C, 0xA3360303,
     0x81C, 0xA2380303, 0x81C, 0xA13A0303, 0x81C, 0x843C0303, 0x81C, 0x833E0303, 0x81C,
     0x82400303, 0x81C, 0x81420303, 0x81C, 0x64440303, 0x81C, 0x63460303, 0x81C, 0x62480303,
     0x81C, 0x614A0303, 0x81C, 0x454C0303, 0x81C, 0x444E0303, 0x81C, 0x43500303, 0x81C,
     0x42520303, 0x81C, 0x41540303, 0x81C, 0x24560303, 0x81C, 0x23580303, 0x81C, 0x65A0303, 0x81C,
     0x55C0303, 0x81C, 0x45E0303, 0x81C, 0x3600303, 0x81C, 0x2620303, 0x81C, 0x1640303, 0x81C,
     0x1660303, 0x81C, 0x1680303, 0x81C, 0x16A0303, 0x81C, 0x16C0303, 0x81C, 0x16E0303, 0x81C,
     0x1700303, 0x81C, 0x1720303, 0x81C, 0x1740303, 0x81C, 0x1760303, 0x81C, 0x1780303, 0x81C,
     0x17A0303, 0x81C, 0x17C0303, 0x81C, 0x17E0303, 0x90000002, 0, 0x40000000, 0, 0x81C,
     0xF7000303, 0x81C, 0xF6020303, 0x81C, 0xF5040303, 0x81C, 0xF4060303, 0x81C, 0xF3080303,
     0x81C, 0xF20A0303, 0x81C, 0xF10C0303, 0x81C, 0xF00E0303, 0x81C, 0xEF100303, 0x81C,
     0xEE120303, 0x81C, 0xED140303, 0x81C, 0xEC160303, 0x81C, 0xEB180303, 0x81C, 0xEA1A0303,
     0x81C, 0xE91C0303, 0x81C, 0xE81E0303, 0x81C, 0xE7200303, 0x81C, 0xE6220303, 0x81C,
     0xE5240303, 0x81C, 0xE4260303, 0x81C, 0xE3280303, 0x81C, 0xC32A0303, 0x81C, 0xC22C0303,
     0x81C, 0xC12E0303, 0x81C, 0xA5300303, 0x81C, 0xA4320303, 0x81C, 0xA3340303, 0x81C,
     0xA2360303, 0x81C, 0xA1380303, 0x81C, 0x853A0303, 0x81C, 0x843C0303, 0x81C, 0x833E0303,
     0x81C, 0x82400303, 0x81C, 0x81420303, 0x81C, 0x64440303, 0x81C, 0x63460303, 0x81C,
     0x62480303, 0x81C, 0x614A0303, 0x81C, 0x454C0303, 0x81C, 0x444E0303, 0x81C, 0x43500303,
     0x81C, 0x25520303, 0x81C, 0x24540303, 0x81C, 0x23560303, 0x81C, 0x6580303, 0x81C, 0x55A0303,
     0x81C, 0x45C0303, 0x81C, 0x35E0303, 0x81C, 0x2600303, 0x81C, 0x1620303, 0x81C, 0x1640303,
     0x81C, 0x1660303, 0x81C, 0x1680303, 0x81C, 0x16A0303, 0x81C, 0x16C0303, 0x81C, 0x16E0303,
     0x81C, 0x1700303, 0x81C, 0x1720303, 0x81C, 0x1740303, 0x81C, 0x1760303, 0x81C, 0x1780303,
     0x81C, 0x17A0303, 0x81C, 0x17C0303, 0x81C, 0x17E0303, 0x90000003, 0, 0x40000000, 0, 0x81C,
     0xF9000303, 0x81C, 0xF8020303, 0x81C, 0xF7040303, 0x81C, 0xF6060303, 0x81C, 0xF5080303,
     0x81C, 0xF40A0303, 0x81C, 0xF30C0303, 0x81C, 0xF20E0303, 0x81C, 0xF1100303, 0x81C,
     0xF0120303, 0x81C, 0xEF140303, 0x81C, 0xEE160303, 0x81C, 0xED180303, 0x81C, 0xEC1A0303,
     0x81C, 0xEB1C0303, 0x81C, 0xEA1E0303, 0x81C, 0xE9200303, 0x81C, 0xE8220303, 0x81C,
     0xE7240303, 0x81C, 0xE6260303, 0x81C, 0xE5280303, 0x81C, 0xE42A0303, 0x81C, 0xE32C0303,
     0x81C, 0xE22E0303, 0x81C, 0xE1300303, 0x81C, 0xA4320303, 0x81C, 0xA3340303, 0x81C,
     0xA2360303, 0x81C, 0xA1380303, 0x81C, 0x853A0303, 0x81C, 0x843C0303, 0x81C, 0x833E0303,
     0x81C, 0x82400303, 0x81C, 0x81420303]"

lemma chk_array_mp_8814a_agc_tab_17: "chk_run bb_entry (KIn None [0x81C, 0x81C, 0x81C, 0x81C, 0x81C, 0x81C, 0x81C, 0x81C, 0x81C, 0x81C, 0x81C, 0x81C, 0x81C, 0x81C, 0x81C, 0x81C, 0x81C, 0x81C, 0x81C]) array_mp_8814a_agc_tab_17 =
  Some (KIn (Some [0x81C, 0x81C, 0x81C, 0x81C, 0x81C, 0x81C, 0x81C, 0x81C, 0x81C, 0x81C, 0x81C, 0x81C, 0x81C, 0x81C, 0x81C, 0x81C, 0x81C, 0x81C, 0x81C, 0x81C, 0x81C, 0x81C, 0x81C, 0x81C, 0x81C, 0x81C, 0x81C, 0x81C, 0x81C, 0x81C, 0x81C, 0x81C, 0x81C, 0x81C, 0x81C, 0x81C, 0x81C, 0x81C, 0x81C, 0x81C, 0x81C, 0x81C, 0x81C, 0x81C, 0x81C, 0x81C, 0x81C, 0x81C, 0x81C, 0x81C, 0x81C, 0x81C, 0x81C, 0x81C, 0x81C, 0x81C, 0x81C, 0x81C, 0x81C, 0x81C, 0x81C, 0x81C, 0x81C, 0x81C]) [0x81C, 0x81C, 0x81C, 0x81C, 0x81C, 0x81C, 0x81C, 0x81C, 0x81C, 0x81C, 0x81C, 0x81C, 0x81C, 0x81C, 0x81C, 0x81C, 0x81C, 0x81C, 0x81C, 0x81C, 0x81C, 0x81C, 0x81C, 0x81C, 0x81C, 0x81C, 0x81C, 0x81C, 0x81C, 0x81C, 0x81C, 0x81C, 0x81C, 0x81C])"
  by code_simp

definition array_mp_8814a_agc_tab_18 :: "u32 list" where
  "array_mp_8814a_agc_tab_18 =
    [0x81C, 0x64440303, 0x81C, 0x63460303, 0x81C, 0x62480303, 0x81C, 0x614A0303, 0x81C,
     0x444C0303, 0x81C, 0x434E0303, 0x81C, 0x42500303, 0x81C, 0x25520303, 0x81C, 0x24540303,
     0x81C, 0x23560303, 0x81C, 0x7580303, 0x81C, 0x65A0303, 0x81C, 0x55C0303, 0x81C, 0x45E0303,
     0x81C, 0x3600303, 0x81C, 0x2620303, 0x81C, 0x1640303, 0x81C, 0x1660303, 0x81C, 0x1680303,
     0x81C, 0x16A0303, 0x81C, 0x16C0303, 0x81C, 0x16E0303, 0x81C, 0x1700303, 0x81C, 0x1720303,
     0x81C, 0x1740303, 0x81C, 0x1760303, 0x81C, 0x1780303, 0x81C, 0x17A0303, 0x81C, 0x17C0303,
     0x81C, 0x17E0303, 0x90000004, 0, 0x40000000, 0, 0x81C, 0xF7000303, 0x81C, 0xF6020303, 0x81C,
     0xF5040303, 0x81C, 0xF4060303, 0x81C, 0xF3080303, 0x81C, 0xF20A0303, 0x81C, 0xF10C0303,
     0x81C, 0xF00E0303, 0x81C, 0xEF100303, 0x81C, 0xEE120303, 0x81C, 0xED140303, 0x81C,
     0xEC160303, 0x81C, 0xEB180303, 0x81C, 0xEA1A0303, 0x81C, 0xE91C0303, 0x81C, 0xE81E0303,
     0x81C, 0xE7200303, 0x81C, 0xE6220303, 0x81C, 0xE5240303, 0x81C, 0xE4260303, 0x81C,
     0xE3280303, 0x81C, 0xE22A0303, 0x81C, 0xE12C0303, 0x81C, 0xA72E0303, 0x81C, 0xA6300303,
     0x81C, 0xA5320303, 0x81C, 0xA4340303, 0x81C, 0xA3360303, 0x81C, 0xA2380303, 0x81C,
     0xA13A0303, 0x81C, 0x843C0303, 0x81C, 0x833E0303, 0x81C, 0x82400303, 0x81C, 0x81420303,
     0x81C, 0x64440303, 0x81C, 0x63460303, 0x81C, 0x62480303, 0x81C, 0x614A0303, 0x81C,
     0x454C0303, 0x81C, 0x444E0303, 0x81C, 0x43500303, 0x81C, 0x42520303, 0x81C, 0x41540303,
     0x81C, 0x24560303, 0x81C, 0x23580303, 0x81C, 0x65A0303, 0x81C, 0x55C0303, 0x81C, 0x45E0303,
     0x81C, 0x3600303, 0x81C, 0x2620303, 0x81C, 0x1640303, 0x81C, 0x1660303, 0x81C, 0x1680303,
     0x81C, 0x16A0303, 0x81C, 0x16C0303, 0x81C, 0x16E0303, 0x81C, 0x1700303, 0x81C, 0x1720303,
     0x81C, 0x1740303, 0x81C, 0x1760303, 0x81C, 0x1780303, 0x81C, 0x17A0303, 0x81C, 0x17C0303,
     0x81C, 0x17E0303, 0x90000005, 0, 0x40000000, 0, 0x81C, 0xFB000303, 0x81C, 0xFA020303, 0x81C,
     0xF9040303, 0x81C, 0xF8060303, 0x81C, 0xF7080303, 0x81C, 0xF60A0303, 0x81C, 0xF50C0303,
     0x81C, 0xF40E0303, 0x81C, 0xF3100303, 0x81C, 0xF2120303, 0x81C, 0xF1140303, 0x81C,
     0xF0160303, 0x81C, 0xEF180303, 0x81C, 0xEE1A0303, 0x81C, 0xED1C0303, 0x81C, 0xEC1E0303,
     0x81C, 0xEB200303, 0x81C, 0xEA220303, 0x81C, 0xE9240303, 0x81C, 0xE8260303, 0x81C,
     0xE7280303, 0x81C, 0xE62A0303, 0x81C, 0xE52C0303, 0x81C, 0xE42E0303, 0x81C, 0xE3300303,
     0x81C, 0xE2320303, 0x81C, 0xE1340303, 0x81C, 0xC2360303, 0x81C, 0xC1380303, 0x81C,
     0xA33A0303, 0x81C, 0xA23C0303, 0x81C, 0x853E0303, 0x81C, 0x84400303, 0x81C, 0x83420303,
     0x81C, 0x66440303, 0x81C, 0x65460303, 0x81C, 0x64480303, 0x81C, 0x634A0303, 0x81C,
     0x624C0303, 0x81C, 0x614E0303, 0x81C, 0x45500303, 0x81C, 0x44520303, 0x81C, 0x43540303,
     0x81C, 0x42560303, 0x81C, 0x25580303, 0x81C, 0x245A0303, 0x81C, 0x235C0303, 0x81C, 0x65E0303,
     0x81C, 0x5600303]"

lemma chk_array_mp_8814a_agc_tab_18: "chk_run bb_entry (KIn (Some [0x81C, 0x81C, 0x81C, 0x81C, 0x81C, 0x81C, 0x81C, 0x81C, 0x81C, 0x81C, 0x81C, 0x81C, 0x81C, 0x81C, 0x81C, 0x81C, 0x81C, 0x81C, 0x81C, 0x81C, 0x81C, 0x81C, 0x81C, 0x81C, 0x81C, 0x81C, 0x81C, 0x81C, 0x81C, 0x81C, 0x81C, 0x81C, 0x81C, 0x81C, 0x81C, 0x81C, 0x81C, 0x81C, 0x81C, 0x81C, 0x81C, 0x81C, 0x81C, 0x81C, 0x81C, 0x81C, 0x81C, 0x81C, 0x81C, 0x81C, 0x81C, 0x81C, 0x81C, 0x81C, 0x81C, 0x81C, 0x81C, 0x81C, 0x81C, 0x81C, 0x81C, 0x81C, 0x81C, 0x81C]) [0x81C, 0x81C, 0x81C, 0x81C, 0x81C, 0x81C, 0x81C, 0x81C, 0x81C, 0x81C, 0x81C, 0x81C, 0x81C, 0x81C, 0x81C, 0x81C, 0x81C, 0x81C, 0x81C, 0x81C, 0x81C, 0x81C, 0x81C, 0x81C, 0x81C, 0x81C, 0x81C, 0x81C, 0x81C, 0x81C, 0x81C, 0x81C, 0x81C, 0x81C]) array_mp_8814a_agc_tab_18 =
  Some (KIn (Some [0x81C, 0x81C, 0x81C, 0x81C, 0x81C, 0x81C, 0x81C, 0x81C, 0x81C, 0x81C, 0x81C, 0x81C, 0x81C, 0x81C, 0x81C, 0x81C, 0x81C, 0x81C, 0x81C, 0x81C, 0x81C, 0x81C, 0x81C, 0x81C, 0x81C, 0x81C, 0x81C, 0x81C, 0x81C, 0x81C, 0x81C, 0x81C, 0x81C, 0x81C, 0x81C, 0x81C, 0x81C, 0x81C, 0x81C, 0x81C, 0x81C, 0x81C, 0x81C, 0x81C, 0x81C, 0x81C, 0x81C, 0x81C, 0x81C, 0x81C, 0x81C, 0x81C, 0x81C, 0x81C, 0x81C, 0x81C, 0x81C, 0x81C, 0x81C, 0x81C, 0x81C, 0x81C, 0x81C, 0x81C]) [0x81C, 0x81C, 0x81C, 0x81C, 0x81C, 0x81C, 0x81C, 0x81C, 0x81C, 0x81C, 0x81C, 0x81C, 0x81C, 0x81C, 0x81C, 0x81C, 0x81C, 0x81C, 0x81C, 0x81C, 0x81C, 0x81C, 0x81C, 0x81C, 0x81C, 0x81C, 0x81C, 0x81C, 0x81C, 0x81C, 0x81C, 0x81C, 0x81C, 0x81C, 0x81C, 0x81C, 0x81C, 0x81C, 0x81C, 0x81C, 0x81C, 0x81C, 0x81C, 0x81C, 0x81C, 0x81C, 0x81C, 0x81C, 0x81C])"
  by code_simp

definition array_mp_8814a_agc_tab_19 :: "u32 list" where
  "array_mp_8814a_agc_tab_19 =
    [0x81C, 0x4620303, 0x81C, 0x3640303, 0x81C, 0x2660303, 0x81C, 0x1680303, 0x81C, 0x16A0303,
     0x81C, 0x16C0303, 0x81C, 0x16E0303, 0x81C, 0x1700303, 0x81C, 0x1720303, 0x81C, 0x1740303,
     0x81C, 0x1760303, 0x81C, 0x1780303, 0x81C, 0x17A0303, 0x81C, 0x17C0303, 0x81C, 0x17E0303,
     0x90000006, 0, 0x40000000, 0, 0x81C, 0xF9000303, 0x81C, 0xF8020303, 0x81C, 0xF7040303, 0x81C,
     0xF6060303, 0x81C, 0xF5080303, 0x81C, 0xF40A0303, 0x81C, 0xF30C0303, 0x81C, 0xF20E0303,
     0x81C, 0xF1100303, 0x81C, 0xF0120303, 0x81C, 0xEF140303, 0x81C, 0xEE160303, 0x81C,
     0xED180303, 0x81C, 0xEC1A0303, 0x81C, 0xEB1C0303, 0x81C, 0xEA1E0303, 0x81C, 0xE9200303,
     0x81C, 0xE8220303, 0x81C, 0xE7240303, 0x81C, 0xE6260303, 0x81C, 0xE5280303, 0x81C,
     0xE42A0303, 0x81C, 0xE32C0303, 0x81C, 0xE22E0303, 0x81C, 0xE1300303, 0x81C, 0xA6320303,
     0x81C, 0xA5340303, 0x81C, 0xA4360303, 0x81C, 0xA3380303, 0x81C, 0xA23A0303, 0x81C,
     0xA13C0303, 0x81C, 0x853E0303, 0x81C, 0x84400303, 0x81C, 0x83420303, 0x81C, 0x82440303,
     0x81C, 0x81460303, 0x81C, 0x64480303, 0x81C, 0x634A0303, 0x81C, 0x624C0303, 0x81C,
     0x614E0303, 0x81C, 0x44500303, 0x81C, 0x43520303, 0x81C, 0x42540303, 0x81C, 0x41560303,
     0x81C, 0x25580303, 0x81C, 0x245A0303, 0x81C, 0x235C0303, 0x81C, 0x55E0303, 0x81C, 0x4600303,
     0x81C, 0x3620303, 0x81C, 0x2640303, 0x81C, 0x1660303, 0x81C, 0x1680303, 0x81C, 0x16A0303,
     0x81C, 0x16C0303, 0x81C, 0x16E0303, 0x81C, 0x1700303, 0x81C, 0x1720303, 0x81C, 0x1740303,
     0x81C, 0x1760303, 0x81C, 0x1780303, 0x81C, 0x17A0303, 0x81C, 0x17C0303, 0x81C, 0x17E0303,
     0x90000007, 0, 0x40000000, 0, 0x81C, 0xFE000303, 0x81C, 0xFD020303, 0x81C, 0xFC040303, 0x81C,
     0xFB060303, 0x81C, 0xFA080303, 0x81C, 0xF90A0303, 0x81C, 0xF80C0303, 0x81C, 0xF70E0303,
     0x81C, 0xF6100303, 0x81C, 0xF5120303, 0x81C, 0xF4140303, 0x81C, 0xF3160303, 0x81C,
     0xF2180303, 0x81C, 0xF11A0303, 0x81C, 0xF01C0303, 0x81C, 0xEF1E0303, 0x81C, 0xEE200303,
     0x81C, 0xED220303, 0x81C, 0xEC240303, 0x81C, 0xEB260303, 0x81C, 0xEA280303, 0x81C,
     0xE92A0303, 0x81C, 0xE82C0303, 0x81C, 0xE72E0303, 0x81C, 0xE6300303, 0x81C, 0xE5320303,
     0x81C, 0xE4340303, 0x81C, 0xE3360303, 0x81C, 0xC3380303, 0x81C, 0xC23A0303, 0x81C,
     0xC13C0303, 0x81C, 0xA43E0303, 0x81C, 0xA3400303, 0x81C, 0xA2420303, 0x81C, 0xA1440303,
     0x81C, 0x85460303, 0x81C, 0x84480303, 0x81C, 0x834A0303, 0x81C, 0x824C0303, 0x81C,
     0x814E0303, 0x81C, 0x64500303, 0x81C, 0x63520303, 0x81C, 0x62540303, 0x81C, 0x61560303,
     0x81C, 0x44580303, 0x81C, 0x435A0303, 0x81C, 0x425C0303, 0x81C, 0x265E0303, 0x81C,
     0x25600303, 0x81C, 0x24620303, 0x81C, 0x6640303, 0x81C, 0x5660303, 0x81C, 0x4680303, 0x81C,
     0x36A0303, 0x81C, 0x26C0303, 0x81C, 0x16E0303, 0x81C, 0x1700303, 0x81C, 0x1720303, 0x81C,
     0x1740303, 0x81C, 0x1760303, 0x81C, 0x1780303, 0x81C, 0x17A0303, 0x81C, 0x17C0303, 0x81C,
     0x17E0303]"

lemma chk_array_mp_8814a_agc_tab_19: "chk_run bb_entry (KIn (Some [0x81C, 0x81C, 0x81C, 0x81C, 0x81C, 0x81C, 0x81C, 0x81C, 0x81C, 0x81C, 0x81C, 0x81C, 0x81C, 0x81C, 0x81C, 0x81C, 0x81C, 0x81C, 0x81C, 0x81C, 0x81C, 0x81C, 0x81C, 0x81C, 0x81C, 0x81C, 0x81C, 0x81C, 0x81C, 0x81C, 0x81C, 0x81C, 0x81C, 0x81C, 0x81C, 0x81C, 0x81C, 0x81C, 0x81C, 0x81C, 0x81C, 0x81C, 0x81C, 0x81C, 0x81C, 0x81C, 0x81C, 0x81C, 0x81C, 0x81C, 0x81C, 0x81C, 0x81C, 0x81C, 0x81C, 0x81C, 0x81C, 0x81C, 0x81C, 0x81C, 0x81C, 0x81C, 0x81C, 0x81C]) [0x81C, 0x81C, 0x81C, 0x81C, 0x81C, 0x81C, 0x81C, 0x81C, 0x81C, 0x81C, 0x81C, 0x81C, 0x81C, 0x81C, 0x81C, 0x81C, 0x81C, 0x81C, 0x81C, 0x81C, 0x81C, 0x81C, 0x81C, 0x81C, 0x81C, 0x81C, 0x81C, 0x81C, 0x81C, 0x81C, 0x81C, 0x81C, 0x81C, 0x81C, 0x81C, 0x81C, 0x81C, 0x81C, 0x81C, 0x81C, 0x81C, 0x81C, 0x81C, 0x81C, 0x81C, 0x81C, 0x81C, 0x81C, 0x81C]) array_mp_8814a_agc_tab_19 =
  Some (KIn (Some [0x81C, 0x81C, 0x81C, 0x81C, 0x81C, 0x81C, 0x81C, 0x81C, 0x81C, 0x81C, 0x81C, 0x81C, 0x81C, 0x81C, 0x81C, 0x81C, 0x81C, 0x81C, 0x81C, 0x81C, 0x81C, 0x81C, 0x81C, 0x81C, 0x81C, 0x81C, 0x81C, 0x81C, 0x81C, 0x81C, 0x81C, 0x81C, 0x81C, 0x81C, 0x81C, 0x81C, 0x81C, 0x81C, 0x81C, 0x81C, 0x81C, 0x81C, 0x81C, 0x81C, 0x81C, 0x81C, 0x81C, 0x81C, 0x81C, 0x81C, 0x81C, 0x81C, 0x81C, 0x81C, 0x81C, 0x81C, 0x81C, 0x81C, 0x81C, 0x81C, 0x81C, 0x81C, 0x81C, 0x81C]) [0x81C, 0x81C, 0x81C, 0x81C, 0x81C, 0x81C, 0x81C, 0x81C, 0x81C, 0x81C, 0x81C, 0x81C, 0x81C, 0x81C, 0x81C, 0x81C, 0x81C, 0x81C, 0x81C, 0x81C, 0x81C, 0x81C, 0x81C, 0x81C, 0x81C, 0x81C, 0x81C, 0x81C, 0x81C, 0x81C, 0x81C, 0x81C, 0x81C, 0x81C, 0x81C, 0x81C, 0x81C, 0x81C, 0x81C, 0x81C, 0x81C, 0x81C, 0x81C, 0x81C, 0x81C, 0x81C, 0x81C, 0x81C, 0x81C, 0x81C, 0x81C, 0x81C, 0x81C, 0x81C, 0x81C, 0x81C, 0x81C, 0x81C, 0x81C, 0x81C, 0x81C, 0x81C, 0x81C, 0x81C])"
  by code_simp

definition array_mp_8814a_agc_tab_20 :: "u32 list" where
  "array_mp_8814a_agc_tab_20 =
    [0x90000008, 0, 0x40000000, 0, 0x81C, 0xF7000303, 0x81C, 0xF6020303, 0x81C, 0xF5040303, 0x81C,
     0xF4060303, 0x81C, 0xF3080303, 0x81C, 0xF20A0303, 0x81C, 0xF10C0303, 0x81C, 0xF00E0303,
     0x81C, 0xEF100303, 0x81C, 0xEE120303, 0x81C, 0xED140303, 0x81C, 0xEC160303, 0x81C,
     0xEB180303, 0x81C, 0xEA1A0303, 0x81C, 0xE91C0303, 0x81C, 0xE81E0303, 0x81C, 0xE7200303,
     0x81C, 0xE6220303, 0x81C, 0xE5240303, 0x81C, 0xE4260303, 0x81C, 0xE3280303, 0x81C,
     0xE22A0303, 0x81C, 0xA62C0303, 0x81C, 0xA52E0303, 0x81C, 0xA4300303, 0x81C, 0xA3320303,
     0x81C, 0xA2340303, 0x81C, 0x87360303, 0x81C, 0x86380303, 0x81C, 0x853A0303, 0x81C,
     0x843C0303, 0x81C, 0x833E0303, 0x81C, 0x66400303, 0x81C, 0x65420303, 0x81C, 0x64440303,
     0x81C, 0x45460303, 0x81C, 0x44480303, 0x81C, 0x434A0303, 0x81C, 0x274C0303, 0x81C,
     0x264E0303, 0x81C, 0x25500303, 0x81C, 0x24520303, 0x81C, 0x23540303, 0x81C, 0x8560303, 0x81C,
     0x7580303, 0x81C, 0x65A0303, 0x81C, 0x55C0303, 0x81C, 0x45E0303, 0x81C, 0x3600303, 0x81C,
     0x2620303, 0x81C, 0x1640303, 0x81C, 0x1660303, 0x81C, 0x1680303, 0x81C, 0x16A0303, 0x81C,
     0x16C0303, 0x81C, 0x16E0303, 0x81C, 0x1700303, 0x81C, 0x1720303, 0x81C, 0x1740303, 0x81C,
     0x1760303, 0x81C, 0x1780303, 0x81C, 0x17A0303, 0x81C, 0x17C0303, 0x81C, 0x17E0303,
     0x90000009, 0, 0x40000000, 0, 0x81C, 0xFE000303, 0x81C, 0xFD020303, 0x81C, 0xFC040303, 0x81C,
     0xFB060303, 0x81C, 0xFA080303, 0x81C, 0xF90A0303, 0x81C, 0xF80C0303, 0x81C, 0xF70E0303,
     0x81C, 0xF6100303, 0x81C, 0xF5120303, 0x81C, 0xF4140303, 0x81C, 0xF3160303, 0x81C,
     0xF2180303, 0x81C, 0xF11A0303, 0x81C, 0xF01C0303, 0x81C, 0xEF1E0303, 0x81C, 0xEE200303,
     0x81C, 0xED220303, 0x81C, 0xEC240303, 0x81C, 0xEB260303, 0x81C, 0xEA280303, 0x81C,
     0xE92A0303, 0x81C, 0xE82C0303, 0x81C, 0xE72E0303, 0x81C, 0xE6300303, 0x81C, 0xE5320303,
     0x81C, 0xE4340303, 0x81C, 0xE3360303, 0x81C, 0xC3380303, 0x81C, 0xC23A0303, 0x81C,
     0xC13C0303, 0x81C, 0xA43E0303, 0x81C, 0xA3400303, 0x81C, 0xA2420303, 0x81C, 0xA1440303,
     0x81C, 0x85460303, 0x81C, 0x84480303, 0x81C, 0x834A0303, 0x81C, 0x824C0303, 0x81C,
     0x814E0303, 0x81C, 0x64500303, 0x81C, 0x63520303, 0x81C, 0x62540303, 0x81C, 0x61560303,
     0x81C, 0x44580303, 0x81C, 0x435A0303, 0x81C, 0x425C0303, 0x81C, 0x265E0303, 0x81C,
     0x25600303, 0x81C, 0x24620303, 0x81C, 0x6640303, 0x81C, 0x5660303, 0x81C, 0x4680303, 0x81C,
     0x36A0303, 0x81C, 0x26C0303, 0x81C, 0x16E0303, 0x81C, 0x1700303, 0x81C, 0x1720303, 0x81C,
     0x1740303, 0x81C, 0x1760303, 0x81C, 0x1780303, 0x81C, 0x17A0303, 0x81C, 0x17C0303, 0x81C,
     0x17E0303, 0x9000000A, 0, 0x40000000, 0, 0x81C, 0xF7000303, 0x81C, 0xF6020303, 0x81C,
     0xF5040303, 0x81C, 0xF4060303, 0x81C, 0xF3080303, 0x81C, 0xF20A0303, 0x81C, 0xF10C0303,
     0x81C, 0xF00E0303, 0x81C, 0xEF100303, 0x81C, 0xEE120303, 0x81C, 0xED140303, 0x81C,
     0xEC160303, 0x81C, 0xEB180303, 0x81C, 0xEA1A0303]"

lemma chk_array_mp_8814a_agc_tab_20: "chk_run bb_entry (KIn (Some [0x81C, 0x81C, 0x81C, 0x81C, 0x81C, 0x81C, 0x81C, 0x81C, 0x81C, 0x81C, 0x81C, 0x81C, 0x81C, 0x81C, 0x81C, 0x81C, 0x81C, 0x81C, 0x81C, 0x81C, 0x81C, 0x81C, 0x81C, 0x81C, 0x81C, 0x81C, 0x81C, 0x81C, 0x81C, 0x81C, 0x81C, 0x81C, 0x81C, 0x81C, 0x81C, 0x81C, 0x81C, 0x81C, 0x81C, 0x81C, 0x81C, 0x81C, 0x81C, 0x81C, 0x81C, 0x81C, 0x81C, 0x81C, 0x81C, 0x81C, 0x81C, 0x81C, 0x81C, 0x81C, 0x81C, 0x81C, 0x81C, 0x81C, 0x81C, 0x81C, 0x81C, 0x81C, 0x81C, 0x81C]) [0x81C, 0x81C, 0x81C, 0x81C, 0x81C, 0x81C, 0x81C, 0x81C, 0x81C, 0x81C, 0x81C, 0x81C, 0x81C, 0x81C, 0x81C, 0x81C, 0x81C, 0x81C, 0x81C, 0x81C, 0x81C, 0x81C, 0x81C, 0x81C, 0x81C, 0x81C, 0x81C, 0x81C, 0x81C, 0x81C, 0x81C, 0x81C, 0x81C, 0x81C, 0x81C, 0x81C, 0x81C, 0x81C, 0x81C, 0x81C, 0x81C, 0x81C, 0x81C, 0x81C, 0x81C, 0x81C, 0x81C, 0x81C, 0x81C, 0x81C, 0x81C, 0x81C, 0x81C, 0x81C, 0x81C, 0x81C, 0x81C, 0x81C, 0x81C, 0x81C, 0x81C, 0x81C, 0x81C, 0x81C]) array_mp_8814a_agc_tab_20 =
  Some (KIn (Some [0x81C, 0x81C, 0x81C, 0x81C, 0x81C, 0x81C, 0x81C, 0x81C, 0x81C, 0x81C, 0x81C, 0x81C, 0x81C, 0x81C, 0x81C, 0x81C, 0x81C, 0x81C, 0x81C, 0x81C, 0x81C, 0x81C, 0x81C, 0x81C, 0x81C, 0x81C, 0x81C, 0x81C, 0x81C, 0x81C, 0x81C, 0x81C, 0x81C, 0x81C, 0x81C, 0x81C, 0x81C, 0x81C, 0x81C, 0x81C, 0x81C, 0x81C, 0x81C, 0x81C, 0x81C, 0x81C, 0x81C, 0x81C, 0x81C, 0x81C, 0x81C, 0x81C, 0x81C, 0x81C, 0x81C, 0x81C, 0x81C, 0x81C, 0x81C, 0x81C, 0x81C, 0x81C, 0x81C, 0x81C]) [0x81C, 0x81C, 0x81C, 0x81C, 0x81C, 0x81C, 0x81C, 0x81C, 0x81C, 0x81C, 0x81C, 0x81C, 0x81C, 0x81C])"
  by code_simp

definition array_mp_8814a_agc_tab_21 :: "u32 list" where
  "array_mp_8814a_agc_tab_21 =
    [0x81C, 0xE91C0303, 0x81C, 0xE81E0303, 0x81C, 0xE7200303, 0x81C, 0xE6220303, 0x81C,
     0xE5240303, 0x81C, 0xE4260303, 0x81C, 0xE3280303, 0x81C, 0xE22A0303, 0x81C, 0xE12C0303,
     0x81C, 0xA72E0303, 0x81C, 0xA6300303, 0x81C, 0xA5320303, 0x81C, 0xA4340303, 0x81C,
     0xA3360303, 0x81C, 0xA2380303, 0x81C, 0xA13A0303, 0x81C, 0x843C0303, 0x81C, 0x833E0303,
     0x81C, 0x82400303, 0x81C, 0x81420303, 0x81C, 0x64440303, 0x81C, 0x63460303, 0x81C,
     0x62480303, 0x81C, 0x614A0303, 0x81C, 0x454C0303, 0x81C, 0x444E0303, 0x81C, 0x43500303,
     0x81C, 0x42520303, 0x81C, 0x41540303, 0x81C, 0x24560303, 0x81C, 0x23580303, 0x81C, 0x65A0303,
     0x81C, 0x55C0303, 0x81C, 0x45E0303, 0x81C, 0x3600303, 0x81C, 0x2620303, 0x81C, 0x1640303,
     0x81C, 0x1660303, 0x81C, 0x1680303, 0x81C, 0x16A0303, 0x81C, 0x16C0303, 0x81C, 0x16E0303,
     0x81C, 0x1700303, 0x81C, 0x1720303, 0x81C, 0x1740303, 0x81C, 0x1760303, 0x81C, 0x1780303,
     0x81C, 0x17A0303, 0x81C, 0x17C0303, 0x81C, 0x17E0303, 0x9000000B, 0, 0x40000000, 0, 0x81C,
     0xF7000303, 0x81C, 0xF6020303, 0x81C, 0xF5040303, 0x81C, 0xF4060303, 0x81C, 0xF3080303,
     0x81C, 0xF20A0303, 0x81C, 0xF10C0303, 0x81C, 0xF00E0303, 0x81C, 0xEF100303, 0x81C,
     0xEE120303, 0x81C, 0xED140303, 0x81C, 0xEC160303, 0x81C, 0xEB180303, 0x81C, 0xEA1A0303,
     0x81C, 0xAF1C0303, 0x81C, 0xAE1E0303, 0x81C, 0xAD200303, 0x81C, 0xAC220303, 0x81C,
     0xAB240303, 0x81C, 0xAA260303, 0x81C, 0xC5280303, 0x81C, 0xC42A0303, 0x81C, 0xC32C0303,
     0x81C, 0xC22E0303, 0x81C, 0xA5300303, 0x81C, 0xA4320303, 0x81C, 0xA3340303, 0x81C,
     0xA2360303, 0x81C, 0xA1380303, 0x81C, 0x853A0303, 0x81C, 0x843C0303, 0x81C, 0x833E0303,
     0x81C, 0x82400303, 0x81C, 0x81420303, 0x81C, 0x64440303, 0x81C, 0x63460303, 0x81C,
     0x62480303, 0x81C, 0x614A0303, 0x81C, 0x444C0303, 0x81C, 0x434E0303, 0x81C, 0x42500303,
     0x81C, 0x41520303, 0x81C, 0x25540303, 0x81C, 0x24560303, 0x81C, 0x6580303, 0x81C, 0x55A0303,
     0x81C, 0x45C0303, 0x81C, 0x35E0303, 0x81C, 0x2600303, 0x81C, 0x1620303, 0x81C, 0x1640303,
     0x81C, 0x1660303, 0x81C, 0x1680303, 0x81C, 0x16A0303, 0x81C, 0x16C0303, 0x81C, 0x16E0303,
     0x81C, 0x1700303, 0x81C, 0x1720303, 0x81C, 0x1740303, 0x81C, 0x1760303, 0x81C, 0x1780303,
     0x81C, 0x17A0303, 0x81C, 0x17C0303, 0x81C, 0x17E0303, 0xA0000000, 0, 0x81C, 0xFD000303,
     0x81C, 0xFC020303, 0x81C, 0xFB040303, 0x81C, 0xFA060303, 0x81C, 0xF9080303, 0x81C,
     0xF80A0303, 0x81C, 0xF70C0303, 0x81C, 0xF60E0303, 0x81C, 0xF5100303, 0x81C, 0xF4120303,
     0x81C, 0xF3140303, 0x81C, 0xF2160303, 0x81C, 0xF1180303, 0x81C, 0xF01A0303, 0x81C,
     0xEF1C0303, 0x81C, 0xEE1E0303, 0x81C, 0xED200303, 0x81C, 0xEC220303, 0x81C, 0xEB240303,
     0x81C, 0xEA260303, 0x81C, 0xE9280303, 0x81C, 0xE82A0303, 0x81C, 0xE72C0303, 0x81C,
     0xE62E0303, 0x81C, 0xE5300303, 0x81C, 0xE4320303, 0x81C, 0xE3340303, 0x81C, 0xE2360303,
     0x81C, 0xE1380303]"

lemma chk_array_mp_8814a_agc_tab_21: "chk_run bb_entry (KIn (Some [0x81C, 0x81C, 0x81C, 0x81C, 0x81C, 0x81C, 0x81C, 0x81C, 0x81C, 0x81C, 0x81C, 0x81C, 0x81C, 0x81C, 0x81C, 0x81C, 0x81C, 0x81C, 0x81C, 0x81C, 0x81C, 0x81C, 0x81C, 0x81C, 0x81C, 0x81C, 0x81C, 0x81C, 0x81C, 0x81C, 0x81C, 0x81C, 0x81C, 0x81C, 0x81C, 0x81C, 0x81C, 0x81C, 0x81C, 0x81C, 0x81C, 0x81C, 0x81C, 0x81C, 0x81C, 0x81C, 0x81C, 0x81C, 0x81C, 0x81C, 0x81C, 0x81C, 0x81C, 0x81C, 0x81C, 0x81C, 0x81C, 0x81C, 0x81C, 0x81C, 0x81C, 0x81C, 0x81C, 0x81C]) [0x81C, 0x81C, 0x81C, 0x81C, 0x81C, 0x81C, 0x81C, 0x81C, 0x81C, 0x81C, 0x81C, 0x81C, 0x81C, 0x81C]) array_mp_8814a_agc_tab_21 =
  Some (KElse [0x81C, 0x81C, 0x81C, 0x81C, 0x81C, 0x81C, 0x81C, 0x81C, 0x81C, 0x81C, 0x81C, 0x81C, 0x81C, 0x81C, 0x81C, 0x81C, 0x81C, 0x81C, 0x81C, 0x81C, 0x81C, 0x81C, 0x81C, 0x81C, 0x81C, 0x81C, 0x81C, 0x81C, 0x81C, 0x81C, 0x81C, 0x81C, 0x81C, 0x81C, 0x81C, 0x81C, 0x81C, 0x81C, 0x81C, 0x81C, 0x81C, 0x81C, 0x81C, 0x81C, 0x81C, 0x81C, 0x81C, 0x81C, 0x81C, 0x81C, 0x81C, 0x81C, 0x81C, 0x81C, 0x81C, 0x81C, 0x81C, 0x81C, 0x81C, 0x81C, 0x81C, 0x81C, 0x81C, 0x81C] [0x81C, 0x81C, 0x81C, 0x81C, 0x81C, 0x81C, 0x81C, 0x81C, 0x81C, 0x81C, 0x81C, 0x81C, 0x81C, 0x81C, 0x81C, 0x81C, 0x81C, 0x81C, 0x81C, 0x81C, 0x81C, 0x81C, 0x81C, 0x81C, 0x81C, 0x81C, 0x81C, 0x81C, 0x81C])"
  by code_simp

definition array_mp_8814a_agc_tab_22 :: "u32 list" where
  "array_mp_8814a_agc_tab_22 =
    [0x81C, 0xA53A0303, 0x81C, 0xA43C0303, 0x81C, 0xA33E0303, 0x81C, 0xA2400303, 0x81C,
     0xA1420303, 0x81C, 0x87440303, 0x81C, 0x86460303, 0x81C, 0x85480303, 0x81C, 0x844A0303,
     0x81C, 0x834C0303, 0x81C, 0x824E0303, 0x81C, 0x81500303, 0x81C, 0x64520303, 0x81C,
     0x63540303, 0x81C, 0x62560303, 0x81C, 0x61580303, 0x81C, 0x435A0303, 0x81C, 0x425C0303,
     0x81C, 0x415E0303, 0x81C, 0x7600303, 0x81C, 0x6620303, 0x81C, 0x5640303, 0x81C, 0x4660303,
     0x81C, 0x3680303, 0x81C, 0x26A0303, 0x81C, 0x16C0303, 0x81C, 0x16E0303, 0x81C, 0x1700303,
     0x81C, 0x1720303, 0x81C, 0x1740303, 0x81C, 0x1760303, 0x81C, 0x1780303, 0x81C, 0x17A0303,
     0x81C, 0x17C0303, 0x81C, 0x17E0303, 0xB0000000, 0, 0xC50, 0x22, 0xC50, 0x20, 0xE50, 0x22,
     0xE50, 0x20, 0x1850, 0x22, 0x1850, 0x20, 0x1A50, 0x22, 0x1A50, 0x20]"

lemma chk_array_mp_8814a_agc_tab_22: "chk_run bb_entry (KElse [0x81C, 0x81C, 0x81C, 0x81C, 0x81C, 0x81C, 0x81C, 0x81C, 0x81C, 0x81C, 0x81C, 0x81C, 0x81C, 0x81C, 0x81C, 0x81C, 0x81C, 0x81C, 0x81C, 0x81C, 0x81C, 0x81C, 0x81C, 0x81C, 0x81C, 0x81C, 0x81C, 0x81C, 0x81C, 0x81C, 0x81C, 0x81C, 0x81C, 0x81C, 0x81C, 0x81C, 0x81C, 0x81C, 0x81C, 0x81C, 0x81C, 0x81C, 0x81C, 0x81C, 0x81C, 0x81C, 0x81C, 0x81C, 0x81C, 0x81C, 0x81C, 0x81C, 0x81C, 0x81C, 0x81C, 0x81C, 0x81C, 0x81C, 0x81C, 0x81C, 0x81C, 0x81C, 0x81C, 0x81C] [0x81C, 0x81C, 0x81C, 0x81C, 0x81C, 0x81C, 0x81C, 0x81C, 0x81C, 0x81C, 0x81C, 0x81C, 0x81C, 0x81C, 0x81C, 0x81C, 0x81C, 0x81C, 0x81C, 0x81C, 0x81C, 0x81C, 0x81C, 0x81C, 0x81C, 0x81C, 0x81C, 0x81C, 0x81C]) array_mp_8814a_agc_tab_22 =
  Some KTop"
  by code_simp

definition array_mp_8814a_agc_tab :: "u32 list" where
  "array_mp_8814a_agc_tab =
    array_mp_8814a_agc_tab_1 @ array_mp_8814a_agc_tab_2 @ array_mp_8814a_agc_tab_3 @ array_mp_8814a_agc_tab_4 @
    array_mp_8814a_agc_tab_5 @ array_mp_8814a_agc_tab_6 @ array_mp_8814a_agc_tab_7 @ array_mp_8814a_agc_tab_8 @
    array_mp_8814a_agc_tab_9 @ array_mp_8814a_agc_tab_10 @ array_mp_8814a_agc_tab_11 @ array_mp_8814a_agc_tab_12 @
    array_mp_8814a_agc_tab_13 @ array_mp_8814a_agc_tab_14 @ array_mp_8814a_agc_tab_15 @ array_mp_8814a_agc_tab_16 @
    array_mp_8814a_agc_tab_17 @ array_mp_8814a_agc_tab_18 @ array_mp_8814a_agc_tab_19 @ array_mp_8814a_agc_tab_20 @
    array_mp_8814a_agc_tab_21 @ array_mp_8814a_agc_tab_22"

lemma chk_array_mp_8814a_agc_tab: "chk_run bb_entry KTop array_mp_8814a_agc_tab = Some KTop"
  unfolding array_mp_8814a_agc_tab_def append_assoc
  by (simp only: chk_run_append [OF chk_array_mp_8814a_agc_tab_1] chk_run_append [OF chk_array_mp_8814a_agc_tab_2] chk_run_append [OF chk_array_mp_8814a_agc_tab_3] chk_run_append [OF chk_array_mp_8814a_agc_tab_4] chk_run_append [OF chk_array_mp_8814a_agc_tab_5] chk_run_append [OF chk_array_mp_8814a_agc_tab_6] chk_run_append [OF chk_array_mp_8814a_agc_tab_7] chk_run_append [OF chk_array_mp_8814a_agc_tab_8] chk_run_append [OF chk_array_mp_8814a_agc_tab_9] chk_run_append [OF chk_array_mp_8814a_agc_tab_10] chk_run_append [OF chk_array_mp_8814a_agc_tab_11] chk_run_append [OF chk_array_mp_8814a_agc_tab_12] chk_run_append [OF chk_array_mp_8814a_agc_tab_13] chk_run_append [OF chk_array_mp_8814a_agc_tab_14] chk_run_append [OF chk_array_mp_8814a_agc_tab_15] chk_run_append [OF chk_array_mp_8814a_agc_tab_16] chk_run_append [OF chk_array_mp_8814a_agc_tab_17] chk_run_append [OF chk_array_mp_8814a_agc_tab_18] chk_run_append [OF chk_array_mp_8814a_agc_tab_19] chk_run_append [OF chk_array_mp_8814a_agc_tab_20] chk_run_append [OF chk_array_mp_8814a_agc_tab_21] chk_array_mp_8814a_agc_tab_22)

end
