(* ===== verification/PhyReg8821.thy ===== *)
theory PhyReg8821
  imports PhyTable
begin

text \<open>
  The MAC, baseband and AGC tables of the RTL8821A, hal/Hal8821PhyReg.h, in pieces of at most 150
  source lines, each with the state the table checker has behind it.
\<close>

definition array_mp_8821a_mac_reg :: "u32 list" where
  "array_mp_8821a_mac_reg =
    [0x421, 0xF, 0x428, 0xA, 0x429, 0x10, 0x430, 0, 0x431, 0, 0x432, 0, 0x433, 1, 0x434, 4, 0x435,
     5, 0x436, 7, 0x437, 8, 0x43C, 4, 0x43D, 5, 0x43E, 7, 0x43F, 8, 0x440, 0x5D, 0x441, 1, 0x442,
     0, 0x444, 0x10, 0x445, 0, 0x446, 0, 0x447, 0, 0x448, 0, 0x449, 0xF0, 0x44A, 0xF, 0x44B, 0x3E,
     0x44C, 0x10, 0x44D, 0, 0x44E, 0, 0x44F, 0, 0x450, 0, 0x451, 0xF0, 0x452, 0xF, 0x453, 0,
     0x456, 0x5E, 0x460, 0x66, 0x461, 0x66, 0x4C8, 0x3F, 0x4C9, 0xFF, 0x4CC, 0xFF, 0x4CD, 0xFF,
     0x4CE, 1, 0x500, 0x26, 0x501, 0xA2, 0x502, 0x2F, 0x503, 0, 0x504, 0x28, 0x505, 0xA3, 0x506,
     0x5E, 0x507, 0, 0x508, 0x2B, 0x509, 0xA4, 0x50A, 0x5E, 0x50B, 0, 0x50C, 0x4F, 0x50D, 0xA4,
     0x50E, 0, 0x50F, 0, 0x512, 0x1C, 0x514, 0xA, 0x516, 0xA, 0x525, 0x4F, 0x550, 0x10, 0x551,
     0x10, 0x559, 2, 0x55C, 0x50, 0x55D, 0xFF, 0x605, 0x30, 0x607, 7, 0x608, 0xE, 0x609, 0x2A,
     0x620, 0xFF, 0x621, 0xFF, 0x622, 0xFF, 0x623, 0xFF, 0x624, 0xFF, 0x625, 0xFF, 0x626, 0xFF,
     0x627, 0xFF, 0x638, 0x50, 0x63C, 0xA, 0x63D, 0xA, 0x63E, 0xE, 0x63F, 0xE, 0x640, 0x40, 0x642,
     0x40, 0x643, 0, 0x652, 0xC8, 0x66E, 5, 0x700, 0x21, 0x701, 0x43, 0x702, 0x65, 0x703, 0x87,
     0x708, 0x21, 0x709, 0x43, 0x70A, 0x65, 0x70B, 0x87, 0x718, 0x40]"

lemma chk_array_mp_8821a_mac_reg: "chk_run mac_entry KTop array_mp_8821a_mac_reg =
  Some KTop"
  by code_simp

definition array_mp_8821a_phy_reg_1 :: "u32 list" where
  "array_mp_8821a_phy_reg_1 =
    [0x800, 0x20D090, 0x804, 0x80112E0, 0x808, 0xE028211, 0x80C, 0x92131111, 0x810, 0x20101261,
     0x814, 0x20C3D10, 0x818, 0x3A00385, 0x820, 0, 0x824, 0x30FE0, 0x828, 0, 0x82C, 0x2081DD,
     0x830, 0x2AAAEEC8, 0x834, 0x37A706, 0x838, 0x6489B44, 0x83C, 0x95B, 0x840, 0xC0000001, 0x844,
     0x40003CDE, 0x848, 0x62103F8B, 0x84C, 0x6CFDFFB8, 0x850, 0x28874706, 0x854, 0x1520C, 0x858,
     0x8060E000, 0x85C, 0x74210168, 0x860, 0x6929C321, 0x864, 0x79727432, 0x868, 0x8CA7A314,
     0x86C, 0x888C2878, 0x870, 0x8888888, 0x874, 0x31612C2E, 0x878, 0x152, 0x87C, 0xFD000, 0x8A0,
     0x13, 0x8A4, 0x7F7F7F7F, 0x8A8, 0xA2000338, 0x8AC, 0xFF0FA0A, 0x8B4, 0xFC080, 0x8B8,
     0x6C10D7FF, 0x8BC, 0xCA52090, 0x8C0, 0x1BF00020, 0x8C4, 0, 0x8C8, 0x13169, 0x8CC, 0x8248492,
     0x8D4, 0x940008A0, 0x8D8, 0x290B5612, 0x8F8, 0x400002C0, 0x8FC, 0, 0x900, 0x700, 0x90C, 0,
     0x910, 0xFC00, 0x914, 0x404, 0x918, 0x1C1028C0, 0x91C, 0x64B11A1C, 0x920, 0xE0767233, 0x924,
     0x55AA500, 0x928, 4, 0x92C, 0xFFFE0000, 0x930, 0xFFFFFFFE, 0x934, 0x1FFFFF, 0x960, 0, 0x964,
     0, 0x968, 0, 0x96C, 0, 0x970, 0x801FFFFF, 0x974, 0x3FF, 0x978, 0, 0x97C, 0, 0x980, 0, 0x984,
     0, 0x988, 0, 0x990, 0x27100000, 0x994, 0xFFFF0100, 0x998, 0xFFFFFF5C, 0x99C, 0xFFFFFFFF,
     0x9A0, 0xFF, 0x9A4, 0x480080, 0x9A8, 0, 0x9AC, 0, 0x9B0, 0x81081008, 0x9B4, 0x1081008, 0x9B8,
     0x1081008, 0x9BC, 0x1081008, 0x9D0, 0, 0x9D4, 0, 0x9D8, 0, 0x9DC, 0, 0x9E0, 0x5D00, 0x9E4, 3,
     0x9E8, 1, 0xA00, 0xD047C8, 0xA04, 0x1FF800C, 0xA08, 0x8C8A8300, 0xA0C, 0x2E68000F, 0xA10,
     0x9500BB78, 0xA14, 0x11144028, 0xA18, 0x881117, 0xA1C, 0x89140F00, 0xA20, 0x1A1B0000, 0xA24,
     0x90E1317, 0xA28, 0x204, 0xA2C, 0x900000, 0xA70, 0x101FFF00, 0xA74, 8, 0xA78, 0x900, 0xA7C,
     0x225B0606, 0xA80, 0x21805490, 0xA84, 0x1F0000, 0xB00, 0x3100040, 0xB04, 0xB000, 0xB08,
     0xAE0201EB, 0xB0C, 0x1003207, 0xB10, 0x9807, 0xB14, 0x1000000, 0xB18, 2, 0xB1C, 2, 0xB20,
     0x1F, 0xB24, 0x3020100, 0xB28, 0x7060504, 0xB2C, 0xB0A0908, 0xB30, 0xF0E0D0C, 0xB34,
     0x13121110, 0xB38, 0x17161514, 0xB3C, 0x3A, 0xB40, 0, 0xB44, 0, 0xB48, 0x13000032, 0xB4C,
     0x48080000, 0xB50, 0, 0xB54, 0, 0xB58, 0, 0xB5C, 0, 0xC00, 7, 0xC04, 0x42020, 0xC08,
     0x80410231, 0xC0C, 0, 0xC10, 0x100, 0xC14, 0x1000000, 0xC1C, 0x40000003, 0xC20, 0x2C2C2C2C,
     0xC24, 0x30303030, 0xC28, 0x30303030, 0xC2C, 0x2C2C2C2C, 0xC30, 0x2C2C2C2C, 0xC34,
     0x2C2C2C2C, 0xC38, 0x2C2C2C2C]"

lemma chk_array_mp_8821a_phy_reg_1: "chk_run bb_entry KTop array_mp_8821a_phy_reg_1 =
  Some KTop"
  by code_simp

definition array_mp_8821a_phy_reg_2 :: "u32 list" where
  "array_mp_8821a_phy_reg_2 =
    [0xC3C, 0x2A2A2A2A, 0xC40, 0x2A2A2A2A, 0xC44, 0x2A2A2A2A, 0xC48, 0x2A2A2A2A, 0xC4C,
     0x2A2A2A2A, 0xC50, 0x20, 0xC54, 0x1C1208, 0xC58, 0x30000C1C, 0xC5C, 0x58, 0xC60, 0x34344443,
     0xC64, 0x7003333, 0xC68, 0x19791979, 0xC6C, 0x19791979, 0xC70, 0x19791979, 0xC74, 0x19791979,
     0xC78, 0x19791979, 0xC7C, 0x19791979, 0xC80, 0x19791979, 0xC84, 0x19791979, 0xC94, 0x100005C,
     0xC98, 0, 0xC9C, 0, 0xCA0, 0x29, 0xCA4, 0x8040201, 0xCA8, 0x80402010, 0xCB0, 0x77775747,
     0xCB4, 0x10000077, 0xCB8, 0x508240]"

lemma chk_array_mp_8821a_phy_reg_2: "chk_run bb_entry KTop array_mp_8821a_phy_reg_2 =
  Some KTop"
  by code_simp

definition array_mp_8821a_phy_reg :: "u32 list" where
  "array_mp_8821a_phy_reg =
    array_mp_8821a_phy_reg_1 @ array_mp_8821a_phy_reg_2"

lemma chk_array_mp_8821a_phy_reg: "chk_run bb_entry KTop array_mp_8821a_phy_reg = Some KTop"
  unfolding array_mp_8821a_phy_reg_def append_assoc
  by (simp only: chk_run_append [OF chk_array_mp_8821a_phy_reg_1] chk_array_mp_8821a_phy_reg_2)

definition array_mp_8821a_agc_tab_1 :: "u32 list" where
  "array_mp_8821a_agc_tab_1 =
    [0x81C, 0xBF000001, 0x81C, 0xBF020001, 0x81C, 0xBF040001, 0x81C, 0xBF060001, 0x81C,
     0xBE080001, 0x81C, 0xBD0A0001, 0x81C, 0xBC0C0001, 0x81C, 0xBA0E0001, 0x81C, 0xB9100001,
     0x81C, 0xB8120001, 0x81C, 0xB7140001, 0x81C, 0xB6160001, 0x81C, 0xB5180001, 0x81C,
     0xB41A0001, 0x81C, 0xB31C0001, 0x81C, 0xB21E0001, 0x81C, 0xB1200001, 0x81C, 0xB0220001,
     0x81C, 0xAF240001, 0x81C, 0xAE260001, 0x81C, 0xAD280001, 0x81C, 0xAC2A0001, 0x81C,
     0xAB2C0001, 0x81C, 0xAA2E0001, 0x81C, 0xA9300001, 0x81C, 0xA8320001, 0x81C, 0xA7340001,
     0x81C, 0xA6360001, 0x81C, 0xA5380001, 0x81C, 0xA43A0001, 0x81C, 0x683C0001, 0x81C,
     0x673E0001, 0x81C, 0x66400001, 0x81C, 0x65420001, 0x81C, 0x64440001, 0x81C, 0x63460001,
     0x81C, 0x62480001, 0x81C, 0x614A0001, 0x81C, 0x474C0001, 0x81C, 0x464E0001, 0x81C,
     0x45500001, 0x81C, 0x44520001, 0x81C, 0x43540001, 0x81C, 0x42560001, 0x81C, 0x41580001,
     0x81C, 0x285A0001, 0x81C, 0x275C0001, 0x81C, 0x265E0001, 0x81C, 0x25600001, 0x81C,
     0x24620001, 0x81C, 0xA640001, 0x81C, 0x9660001, 0x81C, 0x8680001, 0x81C, 0x76A0001, 0x81C,
     0x66C0001, 0x81C, 0x56E0001, 0x81C, 0x4700001, 0x81C, 0x3720001, 0x81C, 0x2740001, 0x81C,
     0x1760001, 0x81C, 0x1780001, 0x81C, 0x17A0001, 0x81C, 0x17C0001, 0x81C, 0x17E0001,
     0x8000020C, 0, 0x40000000, 0, 0x81C, 0xFB000101, 0x81C, 0xFA020101, 0x81C, 0xF9040101, 0x81C,
     0xF8060101, 0x81C, 0xF7080101, 0x81C, 0xF60A0101, 0x81C, 0xF50C0101, 0x81C, 0xF40E0101,
     0x81C, 0xF3100101, 0x81C, 0xF2120101, 0x81C, 0xF1140101, 0x81C, 0xF0160101, 0x81C,
     0xEF180101, 0x81C, 0xEE1A0101, 0x81C, 0xED1C0101, 0x81C, 0xEC1E0101, 0x81C, 0xEB200101,
     0x81C, 0xEA220101, 0x81C, 0xE9240101, 0x81C, 0xE8260101, 0x81C, 0xE7280101, 0x81C,
     0xE62A0101, 0x81C, 0xE52C0101, 0x81C, 0xE42E0101, 0x81C, 0xE3300101, 0x81C, 0xA5320101,
     0x81C, 0xA4340101, 0x81C, 0xA3360101, 0x81C, 0x87380101, 0x81C, 0x863A0101, 0x81C,
     0x853C0101, 0x81C, 0x843E0101, 0x81C, 0x69400101, 0x81C, 0x68420101, 0x81C, 0x67440101,
     0x81C, 0x66460101, 0x81C, 0x49480101, 0x81C, 0x484A0101, 0x81C, 0x474C0101, 0x81C,
     0x2A4E0101, 0x81C, 0x29500101, 0x81C, 0x28520101, 0x81C, 0x27540101, 0x81C, 0x26560101,
     0x81C, 0x25580101, 0x81C, 0x245A0101, 0x81C, 0x235C0101, 0x81C, 0x55E0101, 0x81C, 0x4600101,
     0x81C, 0x3620101, 0x81C, 0x2640101, 0x81C, 0x1660101, 0x81C, 0x1680101, 0x81C, 0x16A0101,
     0x81C, 0x16C0101, 0x81C, 0x16E0101, 0x81C, 0x1700101, 0x81C, 0x1720101, 0x9000040C, 0,
     0x40000000, 0, 0x81C, 0xFB000101, 0x81C, 0xFA020101, 0x81C, 0xF9040101, 0x81C, 0xF8060101,
     0x81C, 0xF7080101, 0x81C, 0xF60A0101, 0x81C, 0xF50C0101, 0x81C, 0xF40E0101, 0x81C,
     0xF3100101, 0x81C, 0xF2120101, 0x81C, 0xF1140101, 0x81C, 0xF0160101, 0x81C, 0xEF180101,
     0x81C, 0xEE1A0101, 0x81C, 0xED1C0101, 0x81C, 0xEC1E0101, 0x81C, 0xEB200101, 0x81C,
     0xEA220101, 0x81C, 0xE9240101, 0x81C, 0xE8260101]"

lemma chk_array_mp_8821a_agc_tab_1: "chk_run bb_entry KTop array_mp_8821a_agc_tab_1 =
  Some (KIn (Some [0x81C, 0x81C, 0x81C, 0x81C, 0x81C, 0x81C, 0x81C, 0x81C, 0x81C, 0x81C, 0x81C, 0x81C, 0x81C, 0x81C, 0x81C, 0x81C, 0x81C, 0x81C, 0x81C, 0x81C, 0x81C, 0x81C, 0x81C, 0x81C, 0x81C, 0x81C, 0x81C, 0x81C, 0x81C, 0x81C, 0x81C, 0x81C, 0x81C, 0x81C, 0x81C, 0x81C, 0x81C, 0x81C, 0x81C, 0x81C, 0x81C, 0x81C, 0x81C, 0x81C, 0x81C, 0x81C, 0x81C, 0x81C, 0x81C, 0x81C, 0x81C, 0x81C, 0x81C, 0x81C, 0x81C, 0x81C, 0x81C, 0x81C]) [0x81C, 0x81C, 0x81C, 0x81C, 0x81C, 0x81C, 0x81C, 0x81C, 0x81C, 0x81C, 0x81C, 0x81C, 0x81C, 0x81C, 0x81C, 0x81C, 0x81C, 0x81C, 0x81C, 0x81C])"
  by code_simp

definition array_mp_8821a_agc_tab_2 :: "u32 list" where
  "array_mp_8821a_agc_tab_2 =
    [0x81C, 0xE7280101, 0x81C, 0xE62A0101, 0x81C, 0xE52C0101, 0x81C, 0xE42E0101, 0x81C,
     0xE3300101, 0x81C, 0xA5320101, 0x81C, 0xA4340101, 0x81C, 0xA3360101, 0x81C, 0x87380101,
     0x81C, 0x863A0101, 0x81C, 0x853C0101, 0x81C, 0x843E0101, 0x81C, 0x69400101, 0x81C,
     0x68420101, 0x81C, 0x67440101, 0x81C, 0x66460101, 0x81C, 0x49480101, 0x81C, 0x484A0101,
     0x81C, 0x474C0101, 0x81C, 0x2A4E0101, 0x81C, 0x29500101, 0x81C, 0x28520101, 0x81C,
     0x27540101, 0x81C, 0x26560101, 0x81C, 0x25580101, 0x81C, 0x245A0101, 0x81C, 0x235C0101,
     0x81C, 0x55E0101, 0x81C, 0x4600101, 0x81C, 0x3620101, 0x81C, 0x2640101, 0x81C, 0x1660101,
     0x81C, 0x1680101, 0x81C, 0x16A0101, 0x81C, 0x16C0101, 0x81C, 0x16E0101, 0x81C, 0x1700101,
     0x81C, 0x1720101, 0xA0000000, 0, 0x81C, 0xFF000101, 0x81C, 0xFF020101, 0x81C, 0xFE040101,
     0x81C, 0xFD060101, 0x81C, 0xFC080101, 0x81C, 0xFD0A0101, 0x81C, 0xFC0C0101, 0x81C,
     0xFB0E0101, 0x81C, 0xFA100101, 0x81C, 0xF9120101, 0x81C, 0xF8140101, 0x81C, 0xF7160101,
     0x81C, 0xF6180101, 0x81C, 0xF51A0101, 0x81C, 0xF41C0101, 0x81C, 0xF31E0101, 0x81C,
     0xF2200101, 0x81C, 0xF1220101, 0x81C, 0xF0240101, 0x81C, 0xEF260101, 0x81C, 0xEE280101,
     0x81C, 0xED2A0101, 0x81C, 0xEC2C0101, 0x81C, 0xEB2E0101, 0x81C, 0xEA300101, 0x81C,
     0xE9320101, 0x81C, 0xE8340101, 0x81C, 0xE7360101, 0x81C, 0xE6380101, 0x81C, 0xE53A0101,
     0x81C, 0xE43C0101, 0x81C, 0xE33E0101, 0x81C, 0xA5400101, 0x81C, 0xA4420101, 0x81C,
     0xA3440101, 0x81C, 0x87460101, 0x81C, 0x86480101, 0x81C, 0x854A0101, 0x81C, 0x844C0101,
     0x81C, 0x694E0101, 0x81C, 0x68500101, 0x81C, 0x67520101, 0x81C, 0x66540101, 0x81C,
     0x49560101, 0x81C, 0x48580101, 0x81C, 0x475A0101, 0x81C, 0x2A5C0101, 0x81C, 0x295E0101,
     0x81C, 0x28600101, 0x81C, 0x27620101, 0x81C, 0x26640101, 0x81C, 0x25660101, 0x81C,
     0x24680101, 0x81C, 0x236A0101, 0x81C, 0x56C0101, 0x81C, 0x46E0101, 0x81C, 0x3700101, 0x81C,
     0x2720101, 0xB0000000, 0, 0x81C, 0x1740101, 0x81C, 0x1760101, 0x81C, 0x1780101, 0x81C,
     0x17A0101, 0x81C, 0x17C0101, 0x81C, 0x17E0101, 0xC50, 0x22, 0xC50, 0x20]"

lemma chk_array_mp_8821a_agc_tab_2: "chk_run bb_entry (KIn (Some [0x81C, 0x81C, 0x81C, 0x81C, 0x81C, 0x81C, 0x81C, 0x81C, 0x81C, 0x81C, 0x81C, 0x81C, 0x81C, 0x81C, 0x81C, 0x81C, 0x81C, 0x81C, 0x81C, 0x81C, 0x81C, 0x81C, 0x81C, 0x81C, 0x81C, 0x81C, 0x81C, 0x81C, 0x81C, 0x81C, 0x81C, 0x81C, 0x81C, 0x81C, 0x81C, 0x81C, 0x81C, 0x81C, 0x81C, 0x81C, 0x81C, 0x81C, 0x81C, 0x81C, 0x81C, 0x81C, 0x81C, 0x81C, 0x81C, 0x81C, 0x81C, 0x81C, 0x81C, 0x81C, 0x81C, 0x81C, 0x81C, 0x81C]) [0x81C, 0x81C, 0x81C, 0x81C, 0x81C, 0x81C, 0x81C, 0x81C, 0x81C, 0x81C, 0x81C, 0x81C, 0x81C, 0x81C, 0x81C, 0x81C, 0x81C, 0x81C, 0x81C, 0x81C]) array_mp_8821a_agc_tab_2 =
  Some KTop"
  by code_simp

definition array_mp_8821a_agc_tab :: "u32 list" where
  "array_mp_8821a_agc_tab =
    array_mp_8821a_agc_tab_1 @ array_mp_8821a_agc_tab_2"

lemma chk_array_mp_8821a_agc_tab: "chk_run bb_entry KTop array_mp_8821a_agc_tab = Some KTop"
  unfolding array_mp_8821a_agc_tab_def append_assoc
  by (simp only: chk_run_append [OF chk_array_mp_8821a_agc_tab_1] chk_array_mp_8821a_agc_tab_2)

end
