(* ===== verification/PhyConfig.thy ===== *)
theory PhyConfig
  imports RegIo PhyReg8814 PhyAgc8814 PhyReg8821
begin

text \<open>
  The procedures of src/HalModule.cpp that load the MAC, baseband and AGC tables of the RTL8814A and
  the RTL8821A, on the register access of RegIo.
\<close>

section \<open>Loading the tables\<close>

definition odm_config_bb_phy_8812a ::
    "'h usb \<Rightarrow> u32 \<Rightarrow> u32 \<Rightarrow> u32 \<Rightarrow> 'h \<Rightarrow> (usb_error + unit) \<times> 'h" where
  "odm_config_bb_phy_8812a dev addr bitmask data h =
    (if addr = 0xfe then (Inr (), sleep_us dev 50000 h)
     else if addr = 0xfd then (Inr (), sleep_us dev 5000 h)
     else if addr = 0xfc then (Inr (), sleep_us dev 1000 h)
     else if addr = 0xfb then (Inr (), sleep_us dev 50 h)
     else if addr = 0xfa then (Inr (), sleep_us dev 5 h)
     else if addr = 0xf9 then (Inr (), sleep_us dev 1 h)
     else case PHY_SetBBReg8812 dev (ucast addr) bitmask data h of
       (Inl e, h') \<Rightarrow> (Inl e, h')
     | (Inr _, h') \<Rightarrow> (Inr (), sleep_us dev 1 h'))"

definition odm_config_bb_agc_8812a ::
    "'h usb \<Rightarrow> u32 \<Rightarrow> u32 \<Rightarrow> u32 \<Rightarrow> 'h \<Rightarrow> (usb_error + unit) \<times> 'h" where
  "odm_config_bb_agc_8812a dev addr bitmask data h =
    (case PHY_SetBBReg8812 dev (ucast addr) bitmask data h of
       (Inl e, h') \<Rightarrow> (Inl e, h')
     | (Inr _, h') \<Rightarrow> (Inr (), sleep_us dev 1 h'))"

definition mac_writer :: "'h usb \<Rightarrow> u32 \<Rightarrow> u32 \<Rightarrow> 'h \<Rightarrow> (usb_error + unit) \<times> 'h" where
  "mac_writer dev addr value h = (Inr (), snd (rtw_write8 dev (ucast addr) (ucast value) h))"

text \<open>The writer is called for each entry in turn; an exception leaves the rest of the table.\<close>

fun run_writer ::
    "(u32 \<Rightarrow> u32 \<Rightarrow> 'h \<Rightarrow> (usb_error + unit) \<times> 'h) \<Rightarrow> (u32 \<times> u32) list \<Rightarrow> 'h \<Rightarrow> (usb_error + unit) \<times> 'h" where
  "run_writer w [] h = (Inr (), h)"
| "run_writer w ((a, v) # es) h =
    (case w a v h of (Inl e, h') \<Rightarrow> (Inl e, h') | (Inr _, h') \<Rightarrow> run_writer w es h')"

definition odm_read_and_config_mp_8814a_mac_reg ::
    "JaguarPhyContext \<Rightarrow> 'h usb \<Rightarrow> 'h \<Rightarrow> (usb_error + unit) \<times> 'h" where
  "odm_read_and_config_mp_8814a_mac_reg ctx dev = run_writer (mac_writer dev) (Load array_mp_8814a_mac_reg ctx)"

definition odm_read_and_config_mp_8814a_phy_reg ::
    "JaguarPhyContext \<Rightarrow> 'h usb \<Rightarrow> 'h \<Rightarrow> (usb_error + unit) \<times> 'h" where
  "odm_read_and_config_mp_8814a_phy_reg ctx dev =
    run_writer (\<lambda>a v. odm_config_bb_phy_8812a dev a 0xFFFFFFFF v) (Load array_mp_8814a_phy_reg ctx)"

definition odm_read_and_config_mp_8814a_agc_tab ::
    "JaguarPhyContext \<Rightarrow> 'h usb \<Rightarrow> 'h \<Rightarrow> (usb_error + unit) \<times> 'h" where
  "odm_read_and_config_mp_8814a_agc_tab ctx dev =
    run_writer (\<lambda>a v. odm_config_bb_agc_8812a dev a 0xFFFFFFFF v) (Load array_mp_8814a_agc_tab ctx)"

definition phy_BB8814_Config_ParaFile ::
    "JaguarPhyContext \<Rightarrow> 'h usb \<Rightarrow> 'h \<Rightarrow> (usb_error + bool) \<times> 'h" where
  "phy_BB8814_Config_ParaFile ctx dev h =
    (case odm_read_and_config_mp_8814a_phy_reg ctx dev h of
       (Inl e, h') \<Rightarrow> (Inl e, h')
     | (Inr _, h') \<Rightarrow> apfst (map_sum id (\<lambda>_. True)) (odm_read_and_config_mp_8814a_agc_tab ctx dev h'))"

definition odm_read_and_config_mp_8821a_mac_reg ::
    "JaguarPhyContext \<Rightarrow> 'h usb \<Rightarrow> 'h \<Rightarrow> (usb_error + unit) \<times> 'h" where
  "odm_read_and_config_mp_8821a_mac_reg ctx dev = run_writer (mac_writer dev) (Load array_mp_8821a_mac_reg ctx)"

definition odm_read_and_config_mp_8821a_phy_reg ::
    "JaguarPhyContext \<Rightarrow> 'h usb \<Rightarrow> 'h \<Rightarrow> (usb_error + unit) \<times> 'h" where
  "odm_read_and_config_mp_8821a_phy_reg ctx dev =
    run_writer (\<lambda>a v. odm_config_bb_phy_8812a dev a 0xFFFFFFFF v) (Load array_mp_8821a_phy_reg ctx)"

definition odm_read_and_config_mp_8821a_agc_tab ::
    "JaguarPhyContext \<Rightarrow> 'h usb \<Rightarrow> 'h \<Rightarrow> (usb_error + unit) \<times> 'h" where
  "odm_read_and_config_mp_8821a_agc_tab ctx dev =
    run_writer (\<lambda>a v. odm_config_bb_agc_8812a dev a 0xFFFFFFFF v) (Load array_mp_8821a_agc_tab ctx)"

definition phy_BB8821_Config_ParaFile ::
    "JaguarPhyContext \<Rightarrow> 'h usb \<Rightarrow> 'h \<Rightarrow> (usb_error + bool) \<times> 'h" where
  "phy_BB8821_Config_ParaFile ctx dev h =
    (case odm_read_and_config_mp_8821a_phy_reg ctx dev h of
       (Inl e, h') \<Rightarrow> (Inl e, h')
     | (Inr _, h') \<Rightarrow> apfst (map_sum id (\<lambda>_. True)) (odm_read_and_config_mp_8821a_agc_tab ctx dev h'))"

section \<open>What loading a table sends\<close>

definition bb_write :: "u32 \<times> u32 \<Rightarrow> u16 \<times> bytes" where
  "bb_write e = (ucast (fst e), le_bytes 4 (snd e))"

definition mac_write :: "u32 \<times> u32 \<Rightarrow> u16 \<times> bytes" where
  "mac_write e = (ucast (fst e), [ucast (snd e)])"

lemma run_mac_log:
  "\<exists>h'. run_writer (mac_writer (log_writes dev)) es (h, l) = (Inr (), (h', l @ map mac_write es))"
proof (induction es arbitrary: h l)
  case (Cons e es)
  obtain a v where e: "e = (a, v)" by (cases e)
  let ?x = "snd (rtw_write8 (log_writes dev) (ucast a) (ucast v) (h, l))"
  have l: "snd ?x = l @ [mac_write e]" by (simp add: rtw_write8_def mac_write_def e)
  obtain h' where "run_writer (mac_writer (log_writes dev)) es (fst ?x, snd ?x) =
      (Inr (), (h', snd ?x @ map mac_write es))" using Cons [of "fst ?x" "snd ?x"] by blast
  then have "run_writer (mac_writer (log_writes dev)) es ?x = (Inr (), (h', snd ?x @ map mac_write es))"
    unfolding prod.collapse .
  moreover have "mac_writer (log_writes dev) a v (h, l) = (Inr (), ?x)" by (simp add: mac_writer_def)
  ultimately show ?case unfolding l by (simp add: e)
qed simp

lemma set_bb_log:
  "\<exists>h'. PHY_SetBBReg8812 (log_writes dev) (ucast a) 0xFFFFFFFF v (h, l) = (Inr (), (h', l @ [bb_write (a, v)]))"
proof -
  let ?x = "snd (rtw_write32 (log_writes dev) (ucast a) v (h, l))"
  obtain hx lx where x: "?x = (hx, lx)" by (cases ?x)
  then have "lx = l @ [bb_write (a, v)]"
    using log_write32 [of dev "ucast a" v "(h, l)"] by (simp add: bb_write_def)
  moreover have "PHY_SetBBReg8812 (log_writes dev) (ucast a) 0xFFFFFFFF v (h, l) = (Inr (), ?x)"
    by (simp add: PHY_SetBBReg8812_def)
  ultimately show ?thesis unfolding x by blast
qed

lemma run_bb_log:
  assumes "\<And>a v h l. (a, v) \<in> set es \<Longrightarrow>
    \<exists>h'. w a v (h, l) = (Inr (), (h', l @ [bb_write (a, v)]))"
  shows "\<exists>h'. run_writer w es (h, l) = (Inr (), (h', l @ map bb_write es))"
  using assms
proof (induction es arbitrary: h l)
  case (Cons e es)
  obtain a v where e: "e = (a, v)" by (cases e)
  obtain h1 where h1: "w a v (h, l) = (Inr (), (h1, l @ [bb_write (a, v)]))" using Cons.prems e by fastforce
  have "\<exists>h'. run_writer w es (h1, l @ [bb_write (a, v)]) =
      (Inr (), (h', (l @ [bb_write (a, v)]) @ map bb_write es))"
    by (rule Cons.IH) (use Cons.prems in auto)
  then show ?case by (simp add: e h1)
qed simp

lemma agc_log:
  "\<exists>h'. odm_config_bb_agc_8812a (log_writes dev) a 0xFFFFFFFF v (h, l) = (Inr (), (h', l @ [bb_write (a, v)]))"
proof -
  obtain h1 where h1: "PHY_SetBBReg8812 (log_writes dev) (ucast a) 0xFFFFFFFF v (h, l) =
      (Inr (), (h1, l @ [bb_write (a, v)]))" using set_bb_log [of dev a v h l] by blast
  have "snd (sleep_us (log_writes dev) 1 (h1, l @ [bb_write (a, v)])) = l @ [bb_write (a, v)]" by simp
  then obtain h2 where "sleep_us (log_writes dev) 1 (h1, l @ [bb_write (a, v)]) = (h2, l @ [bb_write (a, v)])"
    by (metis prod.collapse)
  then show ?thesis by (simp add: odm_config_bb_agc_8812a_def h1)
qed

lemma phy_log:
  assumes "bb_entry a v"
  shows "\<exists>h'. odm_config_bb_phy_8812a (log_writes dev) a 0xFFFFFFFF v (h, l) = (Inr (), (h', l @ [bb_write (a, v)]))"
proof -
  have "a \<notin> {0xfe, 0xfd, 0xfc, 0xfb, 0xfa, 0xf9}" using assms by (auto simp: bb_entry_def)
  then have "odm_config_bb_phy_8812a (log_writes dev) a 0xFFFFFFFF v (h, l) =
      odm_config_bb_agc_8812a (log_writes dev) a 0xFFFFFFFF v (h, l)"
    by (simp add: odm_config_bb_phy_8812a_def odm_config_bb_agc_8812a_def)
  then show ?thesis using agc_log by simp
qed

lemma run_phy_log:
  assumes "list_all (\<lambda>(a, v). bb_entry a v) es"
  shows "\<exists>h'. run_writer (\<lambda>a v. odm_config_bb_phy_8812a (log_writes dev) a 0xFFFFFFFF v) es (h, l) =
    (Inr (), (h', l @ map bb_write es))"
  by (rule run_bb_log) (use assms in \<open>auto simp: list_all_iff intro!: phy_log\<close>)

lemma run_agc_log:
  "\<exists>h'. run_writer (\<lambda>a v. odm_config_bb_agc_8812a (log_writes dev) a 0xFFFFFFFF v) es (h, l) =
    (Inr (), (h', l @ map bb_write es))"
  by (rule run_bb_log) (rule agc_log)

text \<open>
  The baseband of an RTL8814A is configured completely, whatever board it sits on. For every
  chip context the configuration succeeds and sends, in order, one four-byte write for every entry
  that the baseband table and then the AGC table select for the context; none of them is a delay
  address, all are aligned registers of the 16-bit space, and the sequence of registers is the
  same for any other context: the conditions of the tables choose values, never registers.
\<close>

theorem BB8814_config_writes:
  "(\<exists>h'. phy_BB8814_Config_ParaFile ctx (log_writes dev) (h, l) =
      (Inr True, (h', l @ map bb_write (Load array_mp_8814a_phy_reg ctx @ Load array_mp_8814a_agc_tab ctx)))) \<and>
   map fst (Load array_mp_8814a_phy_reg ctx @ Load array_mp_8814a_agc_tab ctx) =
   map fst (Load array_mp_8814a_phy_reg ctx' @ Load array_mp_8814a_agc_tab ctx') \<and>
   list_all (\<lambda>(a, v). bb_entry a v) (Load array_mp_8814a_phy_reg ctx @ Load array_mp_8814a_agc_tab ctx)"
proof -
  note phy = chk_run_Load [OF chk_array_mp_8814a_phy_reg, of ctx ctx']
  note agc = chk_run_Load [OF chk_array_mp_8814a_agc_tab, of ctx ctx']
  obtain h1 where h1: "odm_read_and_config_mp_8814a_phy_reg ctx (log_writes dev) (h, l) =
      (Inr (), (h1, l @ map bb_write (Load array_mp_8814a_phy_reg ctx)))"
    using run_phy_log phy by (metis odm_read_and_config_mp_8814a_phy_reg_def)
  obtain h2 where h2: "odm_read_and_config_mp_8814a_agc_tab ctx (log_writes dev)
      (h1, l @ map bb_write (Load array_mp_8814a_phy_reg ctx)) =
      (Inr (), (h2, (l @ map bb_write (Load array_mp_8814a_phy_reg ctx)) @
        map bb_write (Load array_mp_8814a_agc_tab ctx)))"
    using run_agc_log by (metis odm_read_and_config_mp_8814a_agc_tab_def)
  show ?thesis using phy agc by (simp add: phy_BB8814_Config_ParaFile_def h1 h2)
qed

text \<open>
  The same for the single-chain RTL8821A.
\<close>

theorem BB8821_config_writes:
  "(\<exists>h'. phy_BB8821_Config_ParaFile ctx (log_writes dev) (h, l) =
      (Inr True, (h', l @ map bb_write (Load array_mp_8821a_phy_reg ctx @ Load array_mp_8821a_agc_tab ctx)))) \<and>
   map fst (Load array_mp_8821a_phy_reg ctx @ Load array_mp_8821a_agc_tab ctx) =
   map fst (Load array_mp_8821a_phy_reg ctx' @ Load array_mp_8821a_agc_tab ctx') \<and>
   list_all (\<lambda>(a, v). bb_entry a v) (Load array_mp_8821a_phy_reg ctx @ Load array_mp_8821a_agc_tab ctx)"
proof -
  note phy = chk_run_Load [OF chk_array_mp_8821a_phy_reg, of ctx ctx']
  note agc = chk_run_Load [OF chk_array_mp_8821a_agc_tab, of ctx ctx']
  obtain h1 where h1: "odm_read_and_config_mp_8821a_phy_reg ctx (log_writes dev) (h, l) =
      (Inr (), (h1, l @ map bb_write (Load array_mp_8821a_phy_reg ctx)))"
    using run_phy_log phy by (metis odm_read_and_config_mp_8821a_phy_reg_def)
  obtain h2 where h2: "odm_read_and_config_mp_8821a_agc_tab ctx (log_writes dev)
      (h1, l @ map bb_write (Load array_mp_8821a_phy_reg ctx)) =
      (Inr (), (h2, (l @ map bb_write (Load array_mp_8821a_phy_reg ctx)) @
        map bb_write (Load array_mp_8821a_agc_tab ctx)))"
    using run_agc_log by (metis odm_read_and_config_mp_8821a_agc_tab_def)
  show ?thesis using phy agc by (simp add: phy_BB8821_Config_ParaFile_def h1 h2)
qed

text \<open>
  The MAC tables fit their writer. For both chips and every context the load sends one
  single-byte write per selected entry, and narrowing the entry to a 16-bit address and an
  eight-bit value loses nothing.
\<close>

theorem MAC_config_writes:
  "(\<exists>h'. odm_read_and_config_mp_8814a_mac_reg ctx (log_writes dev) (h, l) =
      (Inr (), (h', l @ map mac_write (Load array_mp_8814a_mac_reg ctx)))) \<and>
   (\<exists>h'. odm_read_and_config_mp_8821a_mac_reg ctx (log_writes dev) (h, l) =
      (Inr (), (h', l @ map mac_write (Load array_mp_8821a_mac_reg ctx)))) \<and>
   list_all (\<lambda>(a, v). ucast (ucast a :: u16) = a \<and> ucast (ucast v :: u8) = v)
     (Load array_mp_8814a_mac_reg ctx @ Load array_mp_8821a_mac_reg ctx)"
proof -
  have "ucast (ucast a :: u16) = a \<and> ucast (ucast v :: u8) = v" if "mac_entry a v" for a v
    using that
    by (simp add: mac_entry_def word_less_nat_alt word_unat_eq_iff unsigned_ucast_eq unsigned_take_bit_eq
        take_bit_nat_eq_self)
  then show ?thesis
    using chk_run_Load [OF chk_array_mp_8814a_mac_reg, of ctx ctx]
      chk_run_Load [OF chk_array_mp_8821a_mac_reg, of ctx ctx] run_mac_log
    by (fastforce simp: odm_read_and_config_mp_8814a_mac_reg_def odm_read_and_config_mp_8821a_mac_reg_def
        list_all_iff)
qed

end
