(* ===== verification/Aes.thy ===== *)
theory Aes
  imports Prelude
begin

text \<open>
  The AES-128 block cipher of src/crypto/AesCcm.cpp: key expansion, encryption, and the decryption
  that key unwrapping uses, with its inverse S-box table and its carry-less multiplication. Blocks
  and round keys are byte lists; that decryption inverts encryption is proved, not assumed.
\<close>

section \<open>Key expansion and encryption\<close>

definition S :: "u8 list" where
  "S =
    [0x63, 0x7C, 0x77, 0x7B, 0xF2, 0x6B, 0x6F, 0xC5, 0x30, 1, 0x67, 0x2B, 0xFE, 0xD7, 0xAB, 0x76,
     0xCA, 0x82, 0xC9, 0x7D, 0xFA, 0x59, 0x47, 0xF0, 0xAD, 0xD4, 0xA2, 0xAF, 0x9C, 0xA4, 0x72, 0xC0,
     0xB7, 0xFD, 0x93, 0x26, 0x36, 0x3F, 0xF7, 0xCC, 0x34, 0xA5, 0xE5, 0xF1, 0x71, 0xD8, 0x31, 0x15,
     4, 0xC7, 0x23, 0xC3, 0x18, 0x96, 5, 0x9A, 7, 0x12, 0x80, 0xE2, 0xEB, 0x27, 0xB2, 0x75,
     9, 0x83, 0x2C, 0x1A, 0x1B, 0x6E, 0x5A, 0xA0, 0x52, 0x3B, 0xD6, 0xB3, 0x29, 0xE3, 0x2F, 0x84,
     0x53, 0xD1, 0, 0xED, 0x20, 0xFC, 0xB1, 0x5B, 0x6A, 0xCB, 0xBE, 0x39, 0x4A, 0x4C, 0x58, 0xCF,
     0xD0, 0xEF, 0xAA, 0xFB, 0x43, 0x4D, 0x33, 0x85, 0x45, 0xF9, 2, 0x7F, 0x50, 0x3C, 0x9F, 0xA8,
     0x51, 0xA3, 0x40, 0x8F, 0x92, 0x9D, 0x38, 0xF5, 0xBC, 0xB6, 0xDA, 0x21, 0x10, 0xFF, 0xF3, 0xD2,
     0xCD, 0x0C, 0x13, 0xEC, 0x5F, 0x97, 0x44, 0x17, 0xC4, 0xA7, 0x7E, 0x3D, 0x64, 0x5D, 0x19, 0x73,
     0x60, 0x81, 0x4F, 0xDC, 0x22, 0x2A, 0x90, 0x88, 0x46, 0xEE, 0xB8, 0x14, 0xDE, 0x5E, 0x0B, 0xDB,
     0xE0, 0x32, 0x3A, 0x0A, 0x49, 6, 0x24, 0x5C, 0xC2, 0xD3, 0xAC, 0x62, 0x91, 0x95, 0xE4, 0x79,
     0xE7, 0xC8, 0x37, 0x6D, 0x8D, 0xD5, 0x4E, 0xA9, 0x6C, 0x56, 0xF4, 0xEA, 0x65, 0x7A, 0xAE, 8,
     0xBA, 0x78, 0x25, 0x2E, 0x1C, 0xA6, 0xB4, 0xC6, 0xE8, 0xDD, 0x74, 0x1F, 0x4B, 0xBD, 0x8B, 0x8A,
     0x70, 0x3E, 0xB5, 0x66, 0x48, 3, 0xF6, 0x0E, 0x61, 0x35, 0x57, 0xB9, 0x86, 0xC1, 0x1D, 0x9E,
     0xE1, 0xF8, 0x98, 0x11, 0x69, 0xD9, 0x8E, 0x94, 0x9B, 0x1E, 0x87, 0xE9, 0xCE, 0x55, 0x28, 0xDF,
     0x8C, 0xA1, 0x89, 0x0D, 0xBF, 0xE6, 0x42, 0x68, 0x41, 0x99, 0x2D, 0x0F, 0xB0, 0x54, 0xBB, 0x16]"

definition sbox :: "u8 \<Rightarrow> u8" where
  "sbox x = S ! unat x"

definition xt :: "u8 \<Rightarrow> u8" where
  "xt x = push_bit 1 x XOR (drop_bit 7 x * 0x1B)"

definition key_step :: "nat \<Rightarrow> bytes \<times> u8 \<Rightarrow> bytes \<times> u8" where
  "key_step i st = (case st of (rk, rc) \<Rightarrow>
    let t = slice (i - 4) 4 rk;
        t' = (if i mod 16 = 0 then [sbox (t ! 1) XOR rc, sbox (t ! 2), sbox (t ! 3), sbox (t ! 0)] else t);
        rc' = (if i mod 16 = 0 then xt rc else rc)
    in (rk @ xor_bytes (slice (i - 16) 4 rk) t', rc'))"

definition aes_key :: "bytes \<Rightarrow> bytes" where
  "aes_key k = fst (fold key_step (map (\<lambda>n. 16 + 4 * n) [0..<40]) (k, 1))"

definition sub_bytes :: "bytes \<Rightarrow> bytes" where
  "sub_bytes s = map sbox s"

definition shift_rows :: "bytes \<Rightarrow> bytes" where
  "shift_rows t = map (\<lambda>i. t ! i) [0, 5, 10, 15, 4, 9, 14, 3, 8, 13, 2, 7, 12, 1, 6, 11]"

definition mix_col :: "u8 \<Rightarrow> u8 \<Rightarrow> u8 \<Rightarrow> u8 \<Rightarrow> bytes" where
  "mix_col a0 a1 a2 a3 =
    [xt a0 XOR (xt a1 XOR a1) XOR a2 XOR a3,
     a0 XOR xt a1 XOR (xt a2 XOR a2) XOR a3,
     a0 XOR a1 XOR xt a2 XOR (xt a3 XOR a3),
     (xt a0 XOR a0) XOR a1 XOR a2 XOR xt a3]"

text \<open>The loop over the four columns, for either direction.\<close>

definition columns :: "(u8 \<Rightarrow> u8 \<Rightarrow> u8 \<Rightarrow> u8 \<Rightarrow> bytes) \<Rightarrow> bytes \<Rightarrow> bytes" where
  "columns f u = concat (map (\<lambda>c. f (u ! (4 * c)) (u ! (4 * c + 1)) (u ! (4 * c + 2)) (u ! (4 * c + 3))) [0, 1, 2, 3])"

definition round_key :: "bytes \<Rightarrow> nat \<Rightarrow> bytes" where
  "round_key rk r = slice (16 * r) 16 rk"

definition enc_round :: "bytes \<Rightarrow> nat \<Rightarrow> bytes \<Rightarrow> bytes" where
  "enc_round rk r s = xor_bytes (columns mix_col (shift_rows (sub_bytes s))) (round_key rk r)"

definition aes_enc :: "bytes \<Rightarrow> bytes \<Rightarrow> bytes" where
  "aes_enc rk b =
    (let s = fold (enc_round rk) [1..<10] (xor_bytes b (round_key rk 0)) in
     xor_bytes (shift_rows (sub_bytes s)) (round_key rk 10))"

definition aes128_ecb_encrypt :: "bytes \<Rightarrow> bytes \<Rightarrow> bytes" where
  "aes128_ecb_encrypt key b = aes_enc (aes_key key) b"

section \<open>Decryption\<close>

definition ISB :: "u8 list" where
  "ISB = fold (\<lambda>i tab. tab[unat (S ! i) := of_nat i]) [0..<256] (replicate 256 0)"

fun mul_loop :: "nat \<Rightarrow> u8 \<Rightarrow> u8 \<Rightarrow> u8 \<Rightarrow> u8" where
  "mul_loop 0 a b p = p"
| "mul_loop (Suc n) a b p =
    (let p' = (if b AND 1 \<noteq> 0 then p XOR a else p); hi = a AND 0x80;
         a' = (if hi \<noteq> 0 then push_bit 1 a XOR 0x1B else push_bit 1 a)
     in mul_loop n a' (drop_bit 1 b) p')"

definition mul :: "u8 \<Rightarrow> u8 \<Rightarrow> u8" where
  "mul a b = mul_loop 8 a b 0"

definition inv_shift_rows :: "bytes \<Rightarrow> bytes" where
  "inv_shift_rows s = map (\<lambda>i. s ! i) [0, 13, 10, 7, 4, 1, 14, 11, 8, 5, 2, 15, 12, 9, 6, 3]"

definition inv_sub_bytes :: "bytes \<Rightarrow> bytes" where
  "inv_sub_bytes t = map (\<lambda>x. ISB ! unat x) t"

definition inv_mix_col :: "u8 \<Rightarrow> u8 \<Rightarrow> u8 \<Rightarrow> u8 \<Rightarrow> bytes" where
  "inv_mix_col a0 a1 a2 a3 =
    [mul a0 14 XOR mul a1 11 XOR mul a2 13 XOR mul a3 9,
     mul a0 9 XOR mul a1 14 XOR mul a2 11 XOR mul a3 13,
     mul a0 13 XOR mul a1 9 XOR mul a2 14 XOR mul a3 11,
     mul a0 11 XOR mul a1 13 XOR mul a2 9 XOR mul a3 14]"

definition dec_round :: "bytes \<Rightarrow> nat \<Rightarrow> bytes \<Rightarrow> bytes" where
  "dec_round rk r s =
    columns inv_mix_col (xor_bytes (inv_sub_bytes (inv_shift_rows s)) (round_key rk r))"

definition aes128_ecb_decrypt :: "bytes \<Rightarrow> bytes \<Rightarrow> bytes" where
  "aes128_ecb_decrypt key b =
    (let rk = aes_key key;
         s = fold (dec_round rk) (rev [1..<10]) (xor_bytes b (round_key rk 10)) in
     xor_bytes (inv_sub_bytes (inv_shift_rows s)) (round_key rk 0))"

section \<open>The S-box and its inverse\<close>

lemma length_S [simp]: "length S = 256"
  by (simp add: S_def)

lemma unat_S: "map unat S =
  [99, 124, 119, 123, 242, 107, 111, 197, 48, 1, 103, 43, 254, 215, 171, 118, 202, 130, 201, 125,
   250, 89, 71, 240, 173, 212, 162, 175, 156, 164, 114, 192, 183, 253, 147, 38, 54, 63, 247, 204,
   52, 165, 229, 241, 113, 216, 49, 21, 4, 199, 35, 195, 24, 150, 5, 154, 7, 18, 128, 226,
   235, 39, 178, 117, 9, 131, 44, 26, 27, 110, 90, 160, 82, 59, 214, 179, 41, 227, 47, 132,
   83, 209, 0, 237, 32, 252, 177, 91, 106, 203, 190, 57, 74, 76, 88, 207, 208, 239, 170, 251,
   67, 77, 51, 133, 69, 249, 2, 127, 80, 60, 159, 168, 81, 163, 64, 143, 146, 157, 56, 245,
   188, 182, 218, 33, 16, 255, 243, 210, 205, 12, 19, 236, 95, 151, 68, 23, 196, 167, 126, 61,
   100, 93, 25, 115, 96, 129, 79, 220, 34, 42, 144, 136, 70, 238, 184, 20, 222, 94, 11, 219,
   224, 50, 58, 10, 73, 6, 36, 92, 194, 211, 172, 98, 145, 149, 228, 121, 231, 200, 55, 109,
   141, 213, 78, 169, 108, 86, 244, 234, 101, 122, 174, 8, 186, 120, 37, 46, 28, 166, 180, 198,
   232, 221, 116, 31, 75, 189, 139, 138, 112, 62, 181, 102, 72, 3, 246, 14, 97, 53, 87, 185,
   134, 193, 29, 158, 225, 248, 152, 17, 105, 217, 142, 148, 155, 30, 135, 233, 206, 85, 40, 223,
   140, 161, 137, 13, 191, 230, 66, 104, 65, 153, 45, 15, 176, 84, 187, 22]"
  by (simp add: S_def)

lemma distinct_S: "distinct (map unat S)"
  unfolding unat_S by simp

lemma nth_fold_update:
  "distinct (map f is) \<Longrightarrow> i \<in> set is \<Longrightarrow> (\<forall>j\<in>set is. f j < length tab) \<Longrightarrow>
   fold (\<lambda>i tab. tab[f i := g i]) is tab ! f i = g i"
proof (induction "is" arbitrary: tab)
  case (Cons j js)
  show ?case
  proof (cases "i \<in> set js")
    case True
    then show ?thesis using Cons by simp
  next
    case False
    have keep: "fold (\<lambda>i tab. tab[f i := g i]) ks t ! f i = t ! f i" if "f i \<notin> f ` set ks" for ks t
      using that by (induction ks arbitrary: t) auto
    have "i = j" "f i \<notin> f ` set js" using False Cons.prems by auto
    then show ?thesis using keep [of js] Cons.prems by simp
  qed
qed simp

lemma ISB_sbox [simp]: "ISB ! unat (sbox x) = x"
proof -
  have u: "unat x < 256" using unat_lt [of x] by simp
  have "distinct (map (\<lambda>i. unat (S ! i)) [0..<256])"
    using distinct_S by (simp add: distinct_conv_nth)
  then have "ISB ! unat (S ! unat x) = of_nat (unat x)"
    unfolding ISB_def using u unat_lt [where 'a = 8]
    by (intro nth_fold_update [where f = "\<lambda>i. unat (S ! i)"]) auto
  then show ?thesis by (simp add: sbox_def)
qed

lemma inv_sub_sub [simp]: "inv_sub_bytes (sub_bytes s) = s"
  by (simp add: inv_sub_bytes_def sub_bytes_def comp_def)

lemma list16: "length s = 16 \<Longrightarrow> s = map (\<lambda>i. s ! i) [0, 1, 2, 3, 4, 5, 6, 7, 8, 9, 10, 11, 12, 13, 14, 15]"
  by (rule nth_equalityI) (auto simp: less_Suc_eq numeral_eq_Suc)

lemma inv_shift_shift [simp]: "length s = 16 \<Longrightarrow> inv_shift_rows (shift_rows s) = s"
  by (subst (2) list16) (simp_all add: inv_shift_rows_def shift_rows_def)

section \<open>The columns\<close>

lemma xt_bit: "xt x = push_bit 1 x XOR (if bit x 7 then 0x1B else 0)"
proof -
  have "drop_bit 7 x = of_bool (bit x 7)"
  proof (rule bit_word_eqI)
    fix n assume "n < LENGTH(8)"
    show "bit (drop_bit 7 x) n = bit (of_bool (bit x 7) :: u8) n"
      by (cases n) (auto simp: bit_simps dest: bit_imp_le_length)
  qed
  then show ?thesis by (simp add: xt_def)
qed

lemma xt_xor: "xt (x XOR y) = xt x XOR xt y"
  by (simp add: xt_bit bit_simps push_bit_xor ac_simps)

lemma mul_consts:
  "mul a 9 = xt (xt (xt a)) XOR a"
  "mul a 11 = xt (xt (xt a)) XOR xt a XOR a"
  "mul a 13 = xt (xt (xt a)) XOR xt (xt a) XOR a"
  "mul a 14 = xt (xt (xt a)) XOR xt (xt a) XOR xt a"
proof -
  have hi: "(if a AND 0x80 \<noteq> 0 then push_bit 1 a XOR 0x1B else push_bit 1 a) = xt a" for a :: u8
    using and_exp_eq_0_iff_not_bit [of a 7] by (simp add: xt_bit)
  have m: "mul_loop (Suc n) a b p = mul_loop n (xt a) (drop_bit 1 b) (if b AND 1 \<noteq> 0 then p XOR a else p)"
    for n a b p by (simp only: mul_loop.simps Let_def hi)
  have e8: "(8 :: nat) = Suc (Suc (Suc (Suc (Suc (Suc (Suc (Suc 0)))))))" by simp
  have z: "mul_loop n a 0 p = p" for n a p by (induction n arbitrary: a) (simp_all only: m mul_loop.simps, simp_all)
  have d: "drop_bit 1 9 = (4 :: u8)" "drop_bit 1 4 = (2 :: u8)" "drop_bit 1 2 = (1 :: u8)"
    "drop_bit 1 1 = (0 :: u8)" "drop_bit 1 11 = (5 :: u8)" "drop_bit 1 5 = (2 :: u8)"
    "drop_bit 1 13 = (6 :: u8)" "drop_bit 1 6 = (3 :: u8)" "drop_bit 1 3 = (1 :: u8)"
    "drop_bit 1 14 = (7 :: u8)" "drop_bit 1 7 = (3 :: u8)"
    by code_simp+
  have o: "((9 :: u8) AND 1 \<noteq> 0) = True" "((4 :: u8) AND 1 \<noteq> 0) = False" "((2 :: u8) AND 1 \<noteq> 0) = False"
    "((1 :: u8) AND 1 \<noteq> 0) = True" "((11 :: u8) AND 1 \<noteq> 0) = True" "((5 :: u8) AND 1 \<noteq> 0) = True"
    "((13 :: u8) AND 1 \<noteq> 0) = True" "((6 :: u8) AND 1 \<noteq> 0) = False" "((3 :: u8) AND 1 \<noteq> 0) = True"
    "((14 :: u8) AND 1 \<noteq> 0) = False" "((7 :: u8) AND 1 \<noteq> 0) = True"
    by simp_all
  note c = mul_def e8 m d o z if_True if_False
  show "mul a 9 = xt (xt (xt a)) XOR a" by (simp only: c) (simp add: ac_simps)
  show "mul a 11 = xt (xt (xt a)) XOR xt a XOR a" by (simp only: c) (simp add: ac_simps)
  show "mul a 13 = xt (xt (xt a)) XOR xt (xt a) XOR a" by (simp only: c) (simp add: ac_simps)
  show "mul a 14 = xt (xt (xt a)) XOR xt (xt a) XOR xt a" by (simp only: c) (simp add: ac_simps)
qed

lemma inv_mix_mix:
  "inv_mix_col (mix_col a0 a1 a2 a3 ! 0) (mix_col a0 a1 a2 a3 ! 1) (mix_col a0 a1 a2 a3 ! 2) (mix_col a0 a1 a2 a3 ! 3)
   = [a0, a1, a2, a3]"
  by (simp add: inv_mix_col_def mix_col_def mul_consts xt_xor xor.assoc xor.commute xor.left_commute)


lemma length_columns [simp]: "(\<And>a b c d. length (f a b c d) = 4) \<Longrightarrow> length (columns f u) = 16"
  by (simp add: columns_def)

lemma length_mix_col [simp]: "length (mix_col a b c d) = 4" "length (inv_mix_col a b c d) = 4"
  by (simp_all add: mix_col_def inv_mix_col_def)

lemma columns_inverse:
  assumes "length u = 16"
  shows "columns inv_mix_col (columns mix_col u) = u"
proof -
  have nth: "columns mix_col u ! (4 * c + k) =
      mix_col (u ! (4 * c)) (u ! (4 * c + 1)) (u ! (4 * c + 2)) (u ! (4 * c + 3)) ! k"
    if "c < 4" "k < 4" for c k
  proof -
    from that have "c = 0 \<or> c = 1 \<or> c = 2 \<or> c = 3" "k = 0 \<or> k = 1 \<or> k = 2 \<or> k = 3" by linarith+
    then show ?thesis by (elim disjE) (simp_all add: columns_def mix_col_def)
  qed
  have nth0: "columns mix_col u ! (4 * c) =
      mix_col (u ! (4 * c)) (u ! (4 * c + 1)) (u ! (4 * c + 2)) (u ! (4 * c + 3)) ! 0" if "c < 4" for c
    using nth [OF that, of 0] by simp
  have "columns inv_mix_col (columns mix_col u) =
      concat (map (\<lambda>c. [u ! (4 * c), u ! (4 * c + 1), u ! (4 * c + 2), u ! (4 * c + 3)]) [0, 1, 2, 3])"
    unfolding columns_def [of inv_mix_col]
    by (intro arg_cong [where f = concat] map_cong refl)
       (auto simp only: nth nth0 inv_mix_mix list.set insert_iff empty_iff)
  also have "\<dots> = u"
    using list16 [OF assms] by (simp add: numeral_2_eq_2)
  finally show ?thesis .
qed

section \<open>Decryption inverts encryption\<close>

lemma length_key_step:
  "length rk = i \<Longrightarrow> 16 \<le> i \<Longrightarrow> length (fst (key_step i (rk, rc))) = i + 4"
  by (simp add: key_step_def Let_def)

lemma length_key_fold:
  assumes "length k = 16"
  shows "length (fst (fold key_step (map (\<lambda>n. 16 + 4 * n) [0..<m]) (k, rc))) = 16 + 4 * m"
proof (induction m)
  case (Suc m)
  obtain rk c where st: "fold key_step (map (\<lambda>n. 16 + 4 * n) [0..<m]) (k, rc) = (rk, c)" by fastforce
  then show ?case using Suc length_key_step [of rk "16 + 4 * m" c] by simp
qed (simp add: assms)

lemma length_aes_key [simp]: "length k = 16 \<Longrightarrow> length (aes_key k) = 176"
  using length_key_fold [of k 40 1] by (simp add: aes_key_def)

lemma length_round_key [simp]: "length rk = 176 \<Longrightarrow> r \<le> 10 \<Longrightarrow> length (round_key rk r) = 16"
  by (simp add: round_key_def)

lemma length_sub_shift [simp]: "length (sub_bytes s) = length s" "length (shift_rows s) = 16"
  "length (inv_sub_bytes s) = length s" "length (inv_shift_rows s) = 16"
  by (simp_all add: sub_bytes_def shift_rows_def inv_sub_bytes_def inv_shift_rows_def)

lemma length_enc_round [simp]: "length rk = 176 \<Longrightarrow> r \<le> 10 \<Longrightarrow> length (enc_round rk r s) = 16"
  by (simp add: enc_round_def)

lemma dec_enc_round:
  assumes "length rk = 176" "r \<le> 10" "length s = 16"
  shows "dec_round rk r (shift_rows (sub_bytes (enc_round rk r s))) = shift_rows (sub_bytes s)"
proof -
  have "inv_sub_bytes (inv_shift_rows (shift_rows (sub_bytes (enc_round rk r s)))) = enc_round rk r s"
    using assms by simp
  then show ?thesis
    using assms by (simp add: dec_round_def) (simp add: enc_round_def xor_bytes_cancel columns_inverse)
qed

lemma dec_enc_rounds:
  assumes "length rk = 176"
  shows "list_all (\<lambda>r. r \<le> 10) rs \<Longrightarrow> length s = 16 \<Longrightarrow>
    fold (dec_round rk) (rev rs) (shift_rows (sub_bytes (fold (enc_round rk) rs s))) = shift_rows (sub_bytes s)"
proof (induction rs arbitrary: s)
  case (Cons r rs)
  then show ?case using assms by (simp add: dec_enc_round)
qed simp

lemma length_aes_enc [simp]: "length rk = 176 \<Longrightarrow> length (aes_enc rk b) = 16"
  by (simp add: aes_enc_def Let_def)

lemma length_rounds:
  "length rk = 176 \<Longrightarrow> list_all (\<lambda>r. r \<le> 10) rs \<Longrightarrow> length s = 16 \<Longrightarrow>
   length (fold (enc_round rk) rs s) = 16"
  by (induction rs arbitrary: s) simp_all

lemma aes_dec_enc:
  assumes "length key = 16" and "length b = 16"
  shows "aes128_ecb_decrypt key (aes128_ecb_encrypt key b) = b"
proof -
  let ?rk = "aes_key key"
  let ?u = "xor_bytes b (round_key ?rk 0)"
  let ?t = "fold (enc_round ?rk) [1..<10] ?u"
  have rk: "length ?rk = 176" using assms(1) by simp
  have l0: "length ?u = 16" using assms rk by simp
  have ls: "length (shift_rows (sub_bytes ?t)) = 16" by (rule length_sub_shift(2))
  have "xor_bytes (aes128_ecb_encrypt key b) (round_key ?rk 10) = shift_rows (sub_bytes ?t)"
    using rk ls by (simp only: aes128_ecb_encrypt_def aes_enc_def Let_def xor_bytes_cancel length_round_key le_refl)
  moreover have "fold (dec_round ?rk) (rev [1..<10]) (shift_rows (sub_bytes ?t)) = shift_rows (sub_bytes ?u)"
    by (rule dec_enc_rounds [OF rk _ l0]) (simp add: list_all_iff)
  ultimately have "aes128_ecb_decrypt key (aes128_ecb_encrypt key b) =
      xor_bytes (inv_sub_bytes (inv_shift_rows (shift_rows (sub_bytes ?u)))) (round_key ?rk 0)"
    by (simp only: aes128_ecb_decrypt_def Let_def)
  then show ?thesis using l0 rk assms by (simp add: xor_bytes_cancel)
qed

section \<open>Block ciphers\<close>

text \<open>
  What the modes of operation rely on: a block for every block, and a decryption that inverts
  encryption. Since there are finitely many blocks, encryption then inverts decryption as well.
\<close>

locale block_cipher =
  fixes E :: "'k \<Rightarrow> bytes \<Rightarrow> bytes"
    and D :: "'k \<Rightarrow> bytes \<Rightarrow> bytes"
    and key_ok :: "'k \<Rightarrow> bool"
  assumes length_E: "key_ok k \<Longrightarrow> length (E k b) = 16"
    and D_E: "key_ok k \<Longrightarrow> length b = 16 \<Longrightarrow> D k (E k b) = b"
begin

lemma E_D:
  assumes "key_ok k" and "length b = 16"
  shows "E k (D k b) = b \<and> length (D k b) = 16"
proof -
  let ?B = "{b :: bytes. length b = 16}"
  have "finite ?B" using finite_lists_length_eq [of "UNIV :: u8 set" 16] by simp
  moreover have "inj_on (E k) ?B" by (rule inj_on_inverseI [where g = "D k"]) (simp add: D_E [OF assms(1)])
  moreover have "E k ` ?B \<subseteq> ?B" using length_E [OF assms(1)] by auto
  ultimately have "E k ` ?B = ?B" by (intro endo_inj_surj)
  moreover have "b \<in> ?B" using assms(2) by simp
  ultimately have "b \<in> E k ` ?B" by simp
  then obtain c where "b = E k c" "length c = 16" by blast
  then show ?thesis using D_E [OF assms(1)] by simp
qed

end

interpretation aes: block_cipher aes128_ecb_encrypt aes128_ecb_decrypt "\<lambda>k. length k = 16"
  by unfold_locales (simp_all add: aes_dec_enc, simp add: aes128_ecb_encrypt_def)

text \<open>
  C23: AES decryption inverts encryption. For every 16-byte key and every 16-byte block the
  table-based decryption, with its generated inverse S-box and its bitwise multiplication, returns
  the block that was encrypted.
\<close>

theorem aes128_decrypt_encrypt:
  assumes "length key = 16" and "length b = 16"
  shows "aes128_ecb_decrypt key (aes128_ecb_encrypt key b) = b \<and> length (aes128_ecb_encrypt key b) = 16"
  using aes_dec_enc [OF assms] assms by (simp add: aes128_ecb_encrypt_def)

theorem aes128_decrypt_encrypt_witness:
  "aes128_ecb_decrypt (replicate 16 0x2B) (aes128_ecb_encrypt (replicate 16 0x2B) (replicate 16 0x5A)) =
     replicate 16 0x5A"
  using aes128_decrypt_encrypt [of "replicate 16 0x2B" "replicate 16 0x5A"] by simp

section \<open>A known answer\<close>

lemma sbox_vals:
  "sbox 0 = 99" "sbox 1 = 124" "sbox 2 = 119" "sbox 3 = 123" "sbox 4 = 242"
  "sbox 5 = 107" "sbox 6 = 111" "sbox 7 = 197" "sbox 8 = 48" "sbox 9 = 1"
  "sbox 10 = 103" "sbox 11 = 43" "sbox 12 = 254" "sbox 13 = 215" "sbox 14 = 171"
  "sbox 15 = 118" "sbox 16 = 202" "sbox 17 = 130" "sbox 18 = 201" "sbox 19 = 125"
  "sbox 20 = 250" "sbox 21 = 89" "sbox 22 = 71" "sbox 23 = 240" "sbox 24 = 173"
  "sbox 25 = 212" "sbox 26 = 162" "sbox 27 = 175" "sbox 28 = 156" "sbox 29 = 164"
  "sbox 30 = 114" "sbox 31 = 192" "sbox 32 = 183" "sbox 33 = 253" "sbox 34 = 147"
  "sbox 35 = 38" "sbox 36 = 54" "sbox 37 = 63" "sbox 38 = 247" "sbox 39 = 204"
  "sbox 40 = 52" "sbox 41 = 165" "sbox 42 = 229" "sbox 43 = 241" "sbox 44 = 113"
  "sbox 45 = 216" "sbox 46 = 49" "sbox 47 = 21" "sbox 48 = 4" "sbox 49 = 199"
  "sbox 50 = 35" "sbox 51 = 195" "sbox 52 = 24" "sbox 53 = 150" "sbox 54 = 5"
  "sbox 55 = 154" "sbox 56 = 7" "sbox 57 = 18" "sbox 58 = 128" "sbox 59 = 226"
  "sbox 60 = 235" "sbox 61 = 39" "sbox 62 = 178" "sbox 63 = 117" "sbox 64 = 9"
  "sbox 65 = 131" "sbox 66 = 44" "sbox 67 = 26" "sbox 68 = 27" "sbox 69 = 110"
  "sbox 70 = 90" "sbox 71 = 160" "sbox 72 = 82" "sbox 73 = 59" "sbox 74 = 214"
  "sbox 75 = 179" "sbox 76 = 41" "sbox 77 = 227" "sbox 78 = 47" "sbox 79 = 132"
  "sbox 80 = 83" "sbox 81 = 209" "sbox 82 = 0" "sbox 83 = 237" "sbox 84 = 32"
  "sbox 85 = 252" "sbox 86 = 177" "sbox 87 = 91" "sbox 88 = 106" "sbox 89 = 203"
  "sbox 90 = 190" "sbox 91 = 57" "sbox 92 = 74" "sbox 93 = 76" "sbox 94 = 88"
  "sbox 95 = 207" "sbox 96 = 208" "sbox 97 = 239" "sbox 98 = 170" "sbox 99 = 251"
  "sbox 100 = 67" "sbox 101 = 77" "sbox 102 = 51" "sbox 103 = 133" "sbox 104 = 69"
  "sbox 105 = 249" "sbox 106 = 2" "sbox 107 = 127" "sbox 108 = 80" "sbox 109 = 60"
  "sbox 110 = 159" "sbox 111 = 168" "sbox 112 = 81" "sbox 113 = 163" "sbox 114 = 64"
  "sbox 115 = 143" "sbox 116 = 146" "sbox 117 = 157" "sbox 118 = 56" "sbox 119 = 245"
  "sbox 120 = 188" "sbox 121 = 182" "sbox 122 = 218" "sbox 123 = 33" "sbox 124 = 16"
  "sbox 125 = 255" "sbox 126 = 243" "sbox 127 = 210" "sbox 128 = 205" "sbox 129 = 12"
  "sbox 130 = 19" "sbox 131 = 236" "sbox 132 = 95" "sbox 133 = 151" "sbox 134 = 68"
  "sbox 135 = 23" "sbox 136 = 196" "sbox 137 = 167" "sbox 138 = 126" "sbox 139 = 61"
  "sbox 140 = 100" "sbox 141 = 93" "sbox 142 = 25" "sbox 143 = 115" "sbox 144 = 96"
  "sbox 145 = 129" "sbox 146 = 79" "sbox 147 = 220" "sbox 148 = 34" "sbox 149 = 42"
  "sbox 150 = 144" "sbox 151 = 136" "sbox 152 = 70" "sbox 153 = 238" "sbox 154 = 184"
  "sbox 155 = 20" "sbox 156 = 222" "sbox 157 = 94" "sbox 158 = 11" "sbox 159 = 219"
  "sbox 160 = 224" "sbox 161 = 50" "sbox 162 = 58" "sbox 163 = 10" "sbox 164 = 73"
  "sbox 165 = 6" "sbox 166 = 36" "sbox 167 = 92" "sbox 168 = 194" "sbox 169 = 211"
  "sbox 170 = 172" "sbox 171 = 98" "sbox 172 = 145" "sbox 173 = 149" "sbox 174 = 228"
  "sbox 175 = 121" "sbox 176 = 231" "sbox 177 = 200" "sbox 178 = 55" "sbox 179 = 109"
  "sbox 180 = 141" "sbox 181 = 213" "sbox 182 = 78" "sbox 183 = 169" "sbox 184 = 108"
  "sbox 185 = 86" "sbox 186 = 244" "sbox 187 = 234" "sbox 188 = 101" "sbox 189 = 122"
  "sbox 190 = 174" "sbox 191 = 8" "sbox 192 = 186" "sbox 193 = 120" "sbox 194 = 37"
  "sbox 195 = 46" "sbox 196 = 28" "sbox 197 = 166" "sbox 198 = 180" "sbox 199 = 198"
  "sbox 200 = 232" "sbox 201 = 221" "sbox 202 = 116" "sbox 203 = 31" "sbox 204 = 75"
  "sbox 205 = 189" "sbox 206 = 139" "sbox 207 = 138" "sbox 208 = 112" "sbox 209 = 62"
  "sbox 210 = 181" "sbox 211 = 102" "sbox 212 = 72" "sbox 213 = 3" "sbox 214 = 246"
  "sbox 215 = 14" "sbox 216 = 97" "sbox 217 = 53" "sbox 218 = 87" "sbox 219 = 185"
  "sbox 220 = 134" "sbox 221 = 193" "sbox 222 = 29" "sbox 223 = 158" "sbox 224 = 225"
  "sbox 225 = 248" "sbox 226 = 152" "sbox 227 = 17" "sbox 228 = 105" "sbox 229 = 217"
  "sbox 230 = 142" "sbox 231 = 148" "sbox 232 = 155" "sbox 233 = 30" "sbox 234 = 135"
  "sbox 235 = 233" "sbox 236 = 206" "sbox 237 = 85" "sbox 238 = 40" "sbox 239 = 223"
  "sbox 240 = 140" "sbox 241 = 161" "sbox 242 = 137" "sbox 243 = 13" "sbox 244 = 191"
  "sbox 245 = 230" "sbox 246 = 66" "sbox 247 = 104" "sbox 248 = 65" "sbox 249 = 153"
  "sbox 250 = 45" "sbox 251 = 15" "sbox 252 = 176" "sbox 253 = 84" "sbox 254 = 187"
  "sbox 255 = 22"
  by (simp_all add: sbox_def S_def)

lemma xt_vals:
  "xt 0 = 0" "xt 1 = 2" "xt 2 = 4" "xt 3 = 6" "xt 4 = 8" "xt 5 = 10"
  "xt 6 = 12" "xt 7 = 14" "xt 8 = 16" "xt 9 = 18" "xt 10 = 20" "xt 11 = 22"
  "xt 12 = 24" "xt 13 = 26" "xt 14 = 28" "xt 15 = 30" "xt 16 = 32" "xt 17 = 34"
  "xt 18 = 36" "xt 19 = 38" "xt 20 = 40" "xt 21 = 42" "xt 22 = 44" "xt 23 = 46"
  "xt 24 = 48" "xt 25 = 50" "xt 26 = 52" "xt 27 = 54" "xt 28 = 56" "xt 29 = 58"
  "xt 30 = 60" "xt 31 = 62" "xt 32 = 64" "xt 33 = 66" "xt 34 = 68" "xt 35 = 70"
  "xt 36 = 72" "xt 37 = 74" "xt 38 = 76" "xt 39 = 78" "xt 40 = 80" "xt 41 = 82"
  "xt 42 = 84" "xt 43 = 86" "xt 44 = 88" "xt 45 = 90" "xt 46 = 92" "xt 47 = 94"
  "xt 48 = 96" "xt 49 = 98" "xt 50 = 100" "xt 51 = 102" "xt 52 = 104" "xt 53 = 106"
  "xt 54 = 108" "xt 55 = 110" "xt 56 = 112" "xt 57 = 114" "xt 58 = 116" "xt 59 = 118"
  "xt 60 = 120" "xt 61 = 122" "xt 62 = 124" "xt 63 = 126" "xt 64 = 128" "xt 65 = 130"
  "xt 66 = 132" "xt 67 = 134" "xt 68 = 136" "xt 69 = 138" "xt 70 = 140" "xt 71 = 142"
  "xt 72 = 144" "xt 73 = 146" "xt 74 = 148" "xt 75 = 150" "xt 76 = 152" "xt 77 = 154"
  "xt 78 = 156" "xt 79 = 158" "xt 80 = 160" "xt 81 = 162" "xt 82 = 164" "xt 83 = 166"
  "xt 84 = 168" "xt 85 = 170" "xt 86 = 172" "xt 87 = 174" "xt 88 = 176" "xt 89 = 178"
  "xt 90 = 180" "xt 91 = 182" "xt 92 = 184" "xt 93 = 186" "xt 94 = 188" "xt 95 = 190"
  "xt 96 = 192" "xt 97 = 194" "xt 98 = 196" "xt 99 = 198" "xt 100 = 200" "xt 101 = 202"
  "xt 102 = 204" "xt 103 = 206" "xt 104 = 208" "xt 105 = 210" "xt 106 = 212" "xt 107 = 214"
  "xt 108 = 216" "xt 109 = 218" "xt 110 = 220" "xt 111 = 222" "xt 112 = 224" "xt 113 = 226"
  "xt 114 = 228" "xt 115 = 230" "xt 116 = 232" "xt 117 = 234" "xt 118 = 236" "xt 119 = 238"
  "xt 120 = 240" "xt 121 = 242" "xt 122 = 244" "xt 123 = 246" "xt 124 = 248" "xt 125 = 250"
  "xt 126 = 252" "xt 127 = 254" "xt 128 = 27" "xt 129 = 25" "xt 130 = 31" "xt 131 = 29"
  "xt 132 = 19" "xt 133 = 17" "xt 134 = 23" "xt 135 = 21" "xt 136 = 11" "xt 137 = 9"
  "xt 138 = 15" "xt 139 = 13" "xt 140 = 3" "xt 141 = 1" "xt 142 = 7" "xt 143 = 5"
  "xt 144 = 59" "xt 145 = 57" "xt 146 = 63" "xt 147 = 61" "xt 148 = 51" "xt 149 = 49"
  "xt 150 = 55" "xt 151 = 53" "xt 152 = 43" "xt 153 = 41" "xt 154 = 47" "xt 155 = 45"
  "xt 156 = 35" "xt 157 = 33" "xt 158 = 39" "xt 159 = 37" "xt 160 = 91" "xt 161 = 89"
  "xt 162 = 95" "xt 163 = 93" "xt 164 = 83" "xt 165 = 81" "xt 166 = 87" "xt 167 = 85"
  "xt 168 = 75" "xt 169 = 73" "xt 170 = 79" "xt 171 = 77" "xt 172 = 67" "xt 173 = 65"
  "xt 174 = 71" "xt 175 = 69" "xt 176 = 123" "xt 177 = 121" "xt 178 = 127" "xt 179 = 125"
  "xt 180 = 115" "xt 181 = 113" "xt 182 = 119" "xt 183 = 117" "xt 184 = 107" "xt 185 = 105"
  "xt 186 = 111" "xt 187 = 109" "xt 188 = 99" "xt 189 = 97" "xt 190 = 103" "xt 191 = 101"
  "xt 192 = 155" "xt 193 = 153" "xt 194 = 159" "xt 195 = 157" "xt 196 = 147" "xt 197 = 145"
  "xt 198 = 151" "xt 199 = 149" "xt 200 = 139" "xt 201 = 137" "xt 202 = 143" "xt 203 = 141"
  "xt 204 = 131" "xt 205 = 129" "xt 206 = 135" "xt 207 = 133" "xt 208 = 187" "xt 209 = 185"
  "xt 210 = 191" "xt 211 = 189" "xt 212 = 179" "xt 213 = 177" "xt 214 = 183" "xt 215 = 181"
  "xt 216 = 171" "xt 217 = 169" "xt 218 = 175" "xt 219 = 173" "xt 220 = 163" "xt 221 = 161"
  "xt 222 = 167" "xt 223 = 165" "xt 224 = 219" "xt 225 = 217" "xt 226 = 223" "xt 227 = 221"
  "xt 228 = 211" "xt 229 = 209" "xt 230 = 215" "xt 231 = 213" "xt 232 = 203" "xt 233 = 201"
  "xt 234 = 207" "xt 235 = 205" "xt 236 = 195" "xt 237 = 193" "xt 238 = 199" "xt 239 = 197"
  "xt 240 = 251" "xt 241 = 249" "xt 242 = 255" "xt 243 = 253" "xt 244 = 243" "xt 245 = 241"
  "xt 246 = 247" "xt 247 = 245" "xt 248 = 235" "xt 249 = 233" "xt 250 = 239" "xt 251 = 237"
  "xt 252 = 227" "xt 253 = 225" "xt 254 = 231" "xt 255 = 229"
  by (simp_all add: xt_bit)

definition fips_key :: bytes where
  "fips_key = [0x2B, 0x7E, 0x15, 0x16, 0x28, 0xAE, 0xD2, 0xA6, 0xAB, 0xF7, 0x15, 0x88, 9, 0xCF, 0x4F, 0x3C]"

lemmas aes_eval = aes_enc_def enc_round_def round_key_def columns_def mix_col_def shift_rows_def
  sub_bytes_def key_step_def xor_bytes_def slice_def Let_def xt_vals sbox_vals upt_rec

lemma fips_round_keys: "aes_key fips_key =
  [0x2B, 0x7E, 0x15, 0x16, 0x28, 0xAE, 0xD2, 0xA6, 0xAB, 0xF7, 0x15, 0x88, 9, 0xCF, 0x4F, 0x3C,
  0xA0, 0xFA, 0xFE, 0x17, 0x88, 0x54, 0x2C, 0xB1, 0x23, 0xA3, 0x39, 0x39, 0x2A, 0x6C, 0x76, 5,
  0xF2, 0xC2, 0x95, 0xF2, 0x7A, 0x96, 0xB9, 0x43, 0x59, 0x35, 0x80, 0x7A, 0x73, 0x59, 0xF6, 0x7F,
  0x3D, 0x80, 0x47, 0x7D, 0x47, 0x16, 0xFE, 0x3E, 0x1E, 0x23, 0x7E, 0x44, 0x6D, 0x7A, 0x88, 0x3B,
  0xEF, 0x44, 0xA5, 0x41, 0xA8, 0x52, 0x5B, 0x7F, 0xB6, 0x71, 0x25, 0x3B, 0xDB, 0xB, 0xAD, 0,
  0xD4, 0xD1, 0xC6, 0xF8, 0x7C, 0x83, 0x9D, 0x87, 0xCA, 0xF2, 0xB8, 0xBC, 0x11, 0xF9, 0x15, 0xBC,
  0x6D, 0x88, 0xA3, 0x7A, 0x11, 0xB, 0x3E, 0xFD, 0xDB, 0xF9, 0x86, 0x41, 0xCA, 0, 0x93, 0xFD,
  0x4E, 0x54, 0xF7, 0xE, 0x5F, 0x5F, 0xC9, 0xF3, 0x84, 0xA6, 0x4F, 0xB2, 0x4E, 0xA6, 0xDC, 0x4F,
  0xEA, 0xD2, 0x73, 0x21, 0xB5, 0x8D, 0xBA, 0xD2, 0x31, 0x2B, 0xF5, 0x60, 0x7F, 0x8D, 0x29, 0x2F,
  0xAC, 0x77, 0x66, 0xF3, 0x19, 0xFA, 0xDC, 0x21, 0x28, 0xD1, 0x29, 0x41, 0x57, 0x5C, 0, 0x6E,
  0xD0, 0x14, 0xF9, 0xA8, 0xC9, 0xEE, 0x25, 0x89, 0xE1, 0x3F, 0xC, 0xC8, 0xB6, 0x63, 0xC, 0xA6]"
  by (simp add: aes_key_def fips_key_def aes_eval)

text \<open>
  The cipher is AES: the example vector of FIPS 197, appendix B.
\<close>

theorem aes128_fips197:
  "aes128_ecb_encrypt fips_key
     [0x32, 0x43, 0xF6, 0xA8, 0x88, 0x5A, 0x30, 0x8D, 0x31, 0x31, 0x98, 0xA2, 0xE0, 0x37, 7, 0x34] =
   [0x39, 0x25, 0x84, 0x1D, 2, 0xDC, 9, 0xFB, 0xDC, 0x11, 0x85, 0x97, 0x19, 0x6A, 0xB, 0x32]"
  by (simp add: aes128_ecb_encrypt_def fips_round_keys aes_eval)

end
