(* ===== verification/KeyWrap.thy ===== *)
theory KeyWrap
  imports Aes
begin

text \<open>
  Key wrapping of src/crypto/AesCcm.cpp (RFC 3394): \<open>aes_key_wrap\<close>, with which an access point
  delivers the group key, and \<open>aes_key_unwrap\<close>, with which the supplicant receives it. The output
  buffer is a byte list; a failed integrity check is \<open>None\<close>.
\<close>

definition kw_iv :: bytes where
  "kw_iv = replicate 8 0xA6"

definition kw_counter :: "nat \<Rightarrow> nat \<Rightarrow> nat \<Rightarrow> bytes" where
  "kw_counter n j i = be_bytes 8 (of_nat (n * j + i) :: u64)"

text \<open>The bodies of the two inner loops, on the register \<open>A\<close> and the blocks \<open>R\<close>.\<close>

definition wrap_step :: "(bytes \<Rightarrow> bytes) \<Rightarrow> nat \<Rightarrow> nat \<times> nat \<Rightarrow> bytes \<times> bytes \<Rightarrow> bytes \<times> bytes" where
  "wrap_step enc n ji st = (case ji of (j, i) \<Rightarrow> case st of (A, R) \<Rightarrow>
    let b = enc (A @ slice ((i - 1) * 8) 8 R) in
    (xor_bytes (take 8 b) (kw_counter n j i), set_slice ((i - 1) * 8) (drop 8 b) R))"

definition unwrap_step :: "(bytes \<Rightarrow> bytes) \<Rightarrow> nat \<Rightarrow> nat \<times> nat \<Rightarrow> bytes \<times> bytes \<Rightarrow> bytes \<times> bytes" where
  "unwrap_step dec n ji st = (case ji of (j, i) \<Rightarrow> case st of (A, R) \<Rightarrow>
    let b = dec (xor_bytes A (kw_counter n j i) @ slice ((i - 1) * 8) 8 R) in
    (take 8 b, set_slice ((i - 1) * 8) (drop 8 b) R))"

text \<open>The order of the rounds: \<open>j\<close> outermost.\<close>

definition kw_rounds :: "nat \<Rightarrow> (nat \<times> nat) list" where
  "kw_rounds n = concat (map (\<lambda>j. map (\<lambda>i. (j, i)) [1..<n + 1]) [0..<6])"

definition kw_rounds_down :: "nat \<Rightarrow> (nat \<times> nat) list" where
  "kw_rounds_down n = concat (map (\<lambda>j. map (\<lambda>i. (j, i)) (rev [1..<n + 1])) (rev [0..<6]))"

definition aes_key_wrap :: "bytes \<Rightarrow> bytes \<Rightarrow> bytes" where
  "aes_key_wrap kek plain =
    (let n = length plain div 8;
         (A, R) = fold (wrap_step (aes128_ecb_encrypt kek) n) (kw_rounds n) (kw_iv, plain)
     in A @ R)"

definition aes_key_unwrap :: "bytes \<Rightarrow> bytes \<Rightarrow> bytes option" where
  "aes_key_unwrap kek wrapped =
    (if length wrapped < 16 \<or> length wrapped mod 8 \<noteq> 0 then None
     else
       let n = length wrapped div 8 - 1;
           (A, R) = fold (unwrap_step (aes128_ecb_decrypt kek) n) (kw_rounds_down n)
                      (take 8 wrapped, slice 8 (n * 8) wrapped)
       in if A = kw_iv then Some R else None)"

section \<open>Unwrapping inverts wrapping\<close>

lemma rounds_rev: "kw_rounds_down n = rev (kw_rounds n)"
  by (simp add: kw_rounds_def kw_rounds_down_def rev_concat rev_map comp_def)

lemma rounds_range: "ji \<in> set (kw_rounds n) \<Longrightarrow> 1 \<le> snd ji \<and> snd ji \<le> n"
  by (auto simp: kw_rounds_def)

definition kw_state :: "nat \<Rightarrow> bytes \<times> bytes \<Rightarrow> bool" where
  "kw_state n st \<longleftrightarrow> length (fst st) = 8 \<and> length (snd st) = n * 8"

lemma length_counter [simp]: "length (kw_counter n j i) = 8"
  by (simp add: kw_counter_def)

text \<open>Folding inverse steps in reverse order undoes a fold.\<close>

lemma fold_undo:
  assumes "\<And>x s. x \<in> set xs \<Longrightarrow> Q s \<Longrightarrow> Q (f x s) \<and> g x (f x s) = s"
  shows "Q s \<Longrightarrow> Q (fold f xs s) \<and> fold g (rev xs) (fold f xs s) = s"
  using assms
proof (induction xs arbitrary: s)
  case (Cons x xs)
  then have "Q (f x s)" "g x (f x s) = s" by auto
  then show ?case using Cons.IH [of "f x s"] Cons.prems(2) by auto
qed simp

context block_cipher
begin

lemma unwrap_wrap_step:
  assumes "key_ok k" "kw_state n st" "1 \<le> snd ji" "snd ji \<le> n"
  shows "kw_state n (wrap_step (E k) n ji st) \<and> unwrap_step (D k) n ji (wrap_step (E k) n ji st) = st"
proof -
  obtain j i where ji: "ji = (j, i)" by (cases ji)
  obtain A R where st: "st = (A, R)" by (cases st)
  have l: "length A = 8" "length R = n * 8" "(i - 1) * 8 + 8 \<le> length R"
    using assms by (auto simp: kw_state_def st ji)
  let ?b = "E k (A @ slice ((i - 1) * 8) 8 R)"
  have b: "length ?b = 16" using length_E [OF assms(1)] by simp
  have lb: "length (A @ slice ((i - 1) * 8) 8 R) = 16" using l by simp
  have s: "slice ((i - 1) * 8) 8 (set_slice ((i - 1) * 8) (drop 8 ?b) R) = drop 8 ?b"
    using slice_set_slice [of "(i - 1) * 8" R "drop 8 ?b"] l b by simp
  have "take 8 ?b @ drop 8 ?b = ?b" by simp
  then have "unwrap_step (D k) n ji (wrap_step (E k) n ji st) = st"
    using l b D_E [OF assms(1) lb]
    by (simp add: unwrap_step_def wrap_step_def ji st Let_def s xor_bytes_cancel del: One_nat_def)
  then show ?thesis using l b by (simp add: kw_state_def wrap_step_def ji st Let_def)
qed

lemma wrap_unwrap_step:
  assumes "key_ok k" "kw_state n st" "1 \<le> snd ji" "snd ji \<le> n"
  shows "kw_state n (unwrap_step (D k) n ji st) \<and> wrap_step (E k) n ji (unwrap_step (D k) n ji st) = st"
proof -
  obtain j i where ji: "ji = (j, i)" by (cases ji)
  obtain A R where st: "st = (A, R)" by (cases st)
  have l: "length A = 8" "length R = n * 8" "(i - 1) * 8 + 8 \<le> length R"
    using assms by (auto simp: kw_state_def st ji)
  let ?c = "xor_bytes A (kw_counter n j i) @ slice ((i - 1) * 8) 8 R"
  have c: "length ?c = 16" using l by simp
  have d: "E k (D k ?c) = ?c" "length (D k ?c) = 16" using E_D [OF assms(1) c] by simp_all
  have s: "slice ((i - 1) * 8) 8 (set_slice ((i - 1) * 8) (drop 8 (D k ?c)) R) = drop 8 (D k ?c)"
    using slice_set_slice [of "(i - 1) * 8" R "drop 8 (D k ?c)"] l d by simp
  have "wrap_step (E k) n ji (unwrap_step (D k) n ji st) = st"
    using l d by (simp add: unwrap_step_def wrap_step_def ji st Let_def s xor_bytes_cancel del: One_nat_def)
  then show ?thesis using l d by (simp add: kw_state_def unwrap_step_def ji st Let_def)
qed

lemma unwrap_wrap_rounds:
  assumes "key_ok k" "kw_state n st"
  shows "kw_state n (fold (wrap_step (E k) n) (kw_rounds n) st) \<and>
    fold (unwrap_step (D k) n) (kw_rounds_down n) (fold (wrap_step (E k) n) (kw_rounds n) st) = st"
  unfolding rounds_rev
  by (rule fold_undo [where Q = "kw_state n", OF _ assms(2)]) (use unwrap_wrap_step [OF assms(1)] rounds_range in blast)

lemma wrap_unwrap_rounds:
  assumes "key_ok k" "kw_state n st"
  shows "kw_state n (fold (unwrap_step (D k) n) (kw_rounds_down n) st) \<and>
    fold (wrap_step (E k) n) (kw_rounds n) (fold (unwrap_step (D k) n) (kw_rounds_down n) st) = st"
proof -
  have "kw_state n (fold (unwrap_step (D k) n) (kw_rounds_down n) st) \<and>
    fold (wrap_step (E k) n) (rev (kw_rounds_down n)) (fold (unwrap_step (D k) n) (kw_rounds_down n) st) = st"
    by (rule fold_undo [where Q = "kw_state n", OF _ assms(2)]) (use wrap_unwrap_step [OF assms(1)] rounds_range in \<open>auto simp: rounds_rev\<close>)
  then show ?thesis by (simp add: rounds_rev)
qed

end

lemma key_unwrap_Some:
  assumes "length kek = 16" and u: "aes_key_unwrap kek w = Some p"
  shows "w = aes_key_wrap kek p \<and> length p mod 8 = 0 \<and> p \<noteq> [] \<and> length w = length p + 8"
proof -
  define n where "n = length w div 8 - 1"
  have w: "16 \<le> length w" "length w mod 8 = 0"
    using u by (simp_all add: aes_key_unwrap_def Let_def split: if_splits)
  then have lw: "length w = 8 + n * 8" by (auto simp: n_def)
  let ?st = "(take 8 w, slice 8 (n * 8) w)"
  have st: "kw_state n ?st" using lw by (simp add: kw_state_def)
  have f: "fold (unwrap_step (aes128_ecb_decrypt kek) n) (kw_rounds_down n) ?st = (kw_iv, p)"
    using u w by (simp add: aes_key_unwrap_def n_def Let_def split: prod.splits if_splits)
  have "kw_state n (kw_iv, p)" "fold (wrap_step (aes128_ecb_encrypt kek) n) (kw_rounds n) (kw_iv, p) = ?st"
    using aes.wrap_unwrap_rounds [OF assms(1) st] by (simp_all add: f)
  moreover from this have lp: "length p = n * 8" by (simp add: kw_state_def)
  moreover have "take 8 w @ slice 8 (n * 8) w = w" using lw by (simp add: slice_def)
  moreover have "0 < n" using w lw by simp
  ultimately show ?thesis
    using lw by (auto simp: aes_key_wrap_def)
qed

lemma key_unwrap_wrap:
  assumes "length kek = 16" and *: "length p mod 8 = 0" "p \<noteq> []"
  shows "aes_key_unwrap kek (aes_key_wrap kek p) = Some p \<and> length (aes_key_wrap kek p) = length p + 8"
proof -
  define n where "n = length p div 8"
  have lp: "length p = n * 8" using * by (auto simp: n_def)
  then have "0 < n" using * by (cases n) auto
  have st: "kw_state n (kw_iv, p)" using lp by (simp add: kw_state_def kw_iv_def)
  obtain A R where f: "fold (wrap_step (aes128_ecb_encrypt kek) n) (kw_rounds n) (kw_iv, p) = (A, R)"
    by fastforce
  have r: "kw_state n (A, R)" "fold (unwrap_step (aes128_ecb_decrypt kek) n) (kw_rounds_down n) (A, R) = (kw_iv, p)"
    using aes.unwrap_wrap_rounds [OF assms(1) st] by (simp_all add: f)
  then have "aes_key_wrap kek p = A @ R" "length A = 8" "length R = n * 8"
    using * f by (simp_all add: aes_key_wrap_def n_def [symmetric] kw_state_def)
  then show ?thesis
    using r(2) \<open>0 < n\<close> lp by (simp add: aes_key_unwrap_def Let_def slice_def)
qed

text \<open>
  C22: a wrapped key is recovered, and nothing else is accepted. For every 16-byte key-encryption
  key and every input, unwrapping succeeds with \<open>p\<close> exactly when \<open>p\<close> is a non-empty sequence of
  8-byte blocks and the input is the wrapping of \<open>p\<close>.
\<close>

theorem aes_key_unwrap_iff:
  assumes "length kek = 16"
  shows "aes_key_unwrap kek w = Some p \<longleftrightarrow>
    w = aes_key_wrap kek p \<and> length p mod 8 = 0 \<and> p \<noteq> []"
  using key_unwrap_Some [OF assms, of w p] key_unwrap_wrap [OF assms, of p] by metis

theorem aes_key_unwrap_iff_witness:
  "aes_key_unwrap (replicate 16 0x11) (aes_key_wrap (replicate 16 0x11) (replicate 24 0x42)) = Some (replicate 24 0x42)"
  by (subst aes_key_unwrap_iff) simp_all

end
