(* ===== verification/Ccm.thy ===== *)
theory Ccm
  imports Aes
begin

text \<open>
  CCM as CCMP uses it (8-byte MIC, 13-byte nonce, two-byte length): \<open>ccm_core\<close>, encryption and the
  two decryption routines of src/crypto/AesCcm.cpp, and the dispatch of src/Wpa2Crypto.cpp. The
  routines take the block function, which is the software cipher or that of the processor; the
  processor's is not part of the repository. A failed decryption is \<open>None\<close>: what it leaves in the
  output buffer is not modelled.
\<close>

section \<open>CBC-MAC and counter mode\<close>

definition pad16 :: "bytes \<Rightarrow> bytes" where
  "pad16 b = b @ replicate (16 - length b) 0"

function cbc_loop :: "(bytes \<Rightarrow> bytes) \<Rightarrow> bytes \<Rightarrow> bytes \<Rightarrow> bytes" where
  "cbc_loop E X d = (if d = [] then X else cbc_loop E (E (xor_bytes X (pad16 (take 16 d)))) (drop 16 d))"
  by pat_completeness auto
termination by (relation "measure (\<lambda>(E, X, d). length d)") auto

declare cbc_loop.simps [simp del]

text \<open>The additional data: its first block starts with its length.\<close>

definition aad_mac :: "(bytes \<Rightarrow> bytes) \<Rightarrow> bytes \<Rightarrow> bytes \<Rightarrow> bytes" where
  "aad_mac E X aad =
    (if aad = [] then X
     else
       let hdr = [of_nat (length aad div 256), of_nat (length aad)] @ take 14 aad in
       cbc_loop E (E (xor_bytes X (pad16 hdr))) (drop 14 aad))"

definition ctr_block :: "bytes \<Rightarrow> u16 \<Rightarrow> bytes" where
  "ctr_block nonce ctr =
    (let A = set_slice 1 nonce ((replicate 16 0)[0 := 1])
     in A[14 := ucast (drop_bit 8 ctr), 15 := ucast ctr])"

function ctr_loop :: "(bytes \<Rightarrow> bytes) \<Rightarrow> bytes \<Rightarrow> u16 \<Rightarrow> bytes \<Rightarrow> bytes" where
  "ctr_loop E nonce ctr d =
    (if d = [] then []
     else xor_bytes (take 16 d) (E (ctr_block nonce ctr)) @ ctr_loop E nonce (ctr + 1) (drop 16 d))"
  by pat_completeness auto
termination by (relation "measure (\<lambda>(E, nonce, ctr, d). length d)") auto

declare ctr_loop.simps [simp del]

definition ccm_mic :: "(bytes \<Rightarrow> bytes) \<Rightarrow> bytes \<Rightarrow> bytes \<Rightarrow> bytes \<Rightarrow> bytes" where
  "ccm_mic E nonce aad d =
    (let flags = (if aad \<noteq> [] then 0x40 else 0) OR push_bit 3 3 OR 1;
         B = set_slice 1 nonce ((replicate 16 0)[0 := flags]);
         B' = B[14 := of_nat (length d div 256), 15 := of_nat (length d)];
         X = cbc_loop E (aad_mac E (E B') aad) d
     in take 8 (xor_bytes X (E (ctr_block nonce 0))))"

text \<open>\<open>ccm_core\<close> returns the output and the MIC of its input.\<close>

definition ccm_core :: "(bytes \<Rightarrow> bytes) \<Rightarrow> bytes \<Rightarrow> bytes \<Rightarrow> bytes \<Rightarrow> bytes \<times> bytes" where
  "ccm_core E nonce aad d = (ctr_loop E nonce 1 d, ccm_mic E nonce aad d)"

section \<open>The routines\<close>

definition aes_ccm_encrypt :: "bytes \<Rightarrow> bytes \<Rightarrow> bytes \<Rightarrow> bytes \<Rightarrow> bytes" where
  "aes_ccm_encrypt key nonce aad pt =
    (let (out, mic) = ccm_core (aes_enc (aes_key key)) nonce aad pt in out @ mic)"

definition aes_ccm_decrypt :: "bytes \<Rightarrow> bytes \<Rightarrow> bytes \<Rightarrow> bytes \<Rightarrow> bytes option" where
  "aes_ccm_decrypt key nonce aad ct =
    (if length ct < 8 then None
     else
       let ptlen = length ct - 8; E = aes_enc (aes_key key);
           out = ctr_loop E nonce 1 (take ptlen ct) in
       if ptlen > 2048 then None
       else if snd (ccm_core E nonce aad out) = drop ptlen ct then Some out else None)"

text \<open>The variant on the processor's block function; it has no bound on the length.\<close>

definition aes_ccm_decrypt_ce :: "(bytes \<Rightarrow> bytes \<Rightarrow> bytes) \<Rightarrow> bytes \<Rightarrow> bytes \<Rightarrow> bytes \<Rightarrow> bytes \<Rightarrow> bytes option" where
  "aes_ccm_decrypt_ce hw key nonce aad ct =
    (if length ct < 8 then None
     else
       let ptlen = length ct - 8; out = ctr_loop (hw key) nonce 1 (take ptlen ct) in
       if ccm_mic (hw key) nonce aad out = drop ptlen ct then Some out else None)"

text \<open>
  The backend: the processor's cipher first where there is one, then the software. The cached key
  expansion of the code is the expansion of the key it is asked for.
\<close>

definition ccmp_decrypt_impl ::
    "(bytes \<Rightarrow> bytes \<Rightarrow> bytes) option \<Rightarrow> bytes \<Rightarrow> bytes \<Rightarrow> bytes \<Rightarrow> bytes \<Rightarrow> bytes option" where
  "ccmp_decrypt_impl hw tk nonce ct aad =
    (case Option.bind hw (\<lambda>h. aes_ccm_decrypt_ce h tk nonce aad ct) of
       Some p \<Rightarrow> Some p
     | None \<Rightarrow> aes_ccm_decrypt tk nonce aad ct)"

definition ccmp_encrypt_impl :: "bytes \<Rightarrow> bytes \<Rightarrow> bytes \<Rightarrow> bytes \<Rightarrow> bytes" where
  "ccmp_encrypt_impl tk nonce pt aad = aes_ccm_encrypt tk nonce aad pt"

section \<open>Counter mode is an involution\<close>

lemma xor_bytes_append:
  "length xs = length us \<Longrightarrow> xor_bytes (xs @ ys) (us @ vs) = xor_bytes xs us @ xor_bytes ys vs"
  by (simp add: xor_bytes_def)

context block_cipher
begin

lemma length_ctr_loop:
  "key_ok k \<Longrightarrow> length (ctr_loop (E k) nonce ctr d) = length d"
proof (induction "E k" nonce ctr d rule: ctr_loop.induct)
  case (1 nonce ctr d)
  then show ?case by (subst ctr_loop.simps) (auto simp: length_E)
qed

lemma ctr_loop_involution:
  "key_ok k \<Longrightarrow> ctr_loop (E k) nonce ctr (ctr_loop (E k) nonce ctr d) = d"
proof (induction "E k" nonce ctr d rule: ctr_loop.induct)
  case (1 nonce ctr d)
  show ?case
  proof (cases "d = []")
    case True
    then show ?thesis by (simp add: ctr_loop.simps)
  next
    case False
    let ?S = "E k (ctr_block nonce ctr)"
    let ?x = "xor_bytes (take 16 d) ?S"
    let ?r = "ctr_loop (E k) nonce (ctr + 1) (drop 16 d)"
    have e: "ctr_loop (E k) nonce ctr d = ?x @ ?r" using False by (subst ctr_loop.simps) simp
    have S: "length ?S = 16" using length_E "1.prems" by simp
    have t: "take 16 (?x @ ?r) = ?x" "drop 16 (?x @ ?r) = ?r"
      using S length_ctr_loop [OF "1.prems", of nonce "ctr + 1" "drop 16 d"]
      by (cases "length d < 16"; simp)+
    have "length ?x = min (length d) 16" using S by simp
    then have "length ?x \<noteq> 0" using False by (simp only: min_def) simp
    then have ne: "?x @ ?r \<noteq> []" by (metis append_is_Nil_conv list.size(3))
    have "ctr_loop (E k) nonce ctr (?x @ ?r) =
        xor_bytes ?x ?S @ ctr_loop (E k) nonce (ctr + 1) ?r"
      by (subst ctr_loop.simps) (simp only: ne t if_False)
    also have "\<dots> = take 16 d @ drop 16 d"
      using "1.hyps" [OF False "1.prems"] S by (simp add: xor_bytes_cancel)
    finally show ?thesis by (simp add: e)
  qed
qed

end

lemma aes_block: "aes_enc (aes_key k) = aes128_ecb_encrypt k"
  by (rule ext) (simp add: aes128_ecb_encrypt_def)

lemma length_cbc_loop:
  "\<forall>b. length (E b) = 16 \<Longrightarrow> length X = 16 \<Longrightarrow> length (cbc_loop E X d) = 16"
proof (induction E X d rule: cbc_loop.induct)
  case (1 E X d)
  then show ?case by (subst cbc_loop.simps) simp
qed

lemma length_ccm_mic:
  assumes "\<forall>b. length (E b) = 16"
  shows "length (ccm_mic E nonce aad d) = 8"
proof -
  have "length (aad_mac E (E b) aad) = 16" for b
    using assms length_cbc_loop [OF assms] by (simp add: aad_mac_def Let_def)
  then show ?thesis using assms length_cbc_loop [OF assms] by (simp add: ccm_mic_def Let_def)
qed

text \<open>What decryption accepts, for either block function.\<close>

lemma ccm_accepts:
  assumes "length key = 16" and "8 \<le> length ct"
  shows "(ccm_mic (aes128_ecb_encrypt key) nonce aad p = drop (length ct - 8) ct \<and>
      p = ctr_loop (aes128_ecb_encrypt key) nonce 1 (take (length ct - 8) ct)) \<longleftrightarrow>
    ct = aes_ccm_encrypt key nonce aad p"
proof -
  have E: "\<forall>b. length (aes128_ecb_encrypt key b) = 16" using aes.length_E [OF assms(1)] by simp
  have inv: "ctr_loop (aes128_ecb_encrypt key) nonce 1 (ctr_loop (aes128_ecb_encrypt key) nonce 1 d) = d" for d
    by (rule aes.ctr_loop_involution [OF assms(1)])
  have len: "length (ctr_loop (aes128_ecb_encrypt key) nonce 1 d) = length d" for d
    by (rule aes.length_ctr_loop [OF assms(1)])
  show ?thesis
  proof
    assume *: "ccm_mic (aes128_ecb_encrypt key) nonce aad p = drop (length ct - 8) ct \<and>
      p = ctr_loop (aes128_ecb_encrypt key) nonce 1 (take (length ct - 8) ct)"
    then have "ctr_loop (aes128_ecb_encrypt key) nonce 1 p = take (length ct - 8) ct" using inv by simp
    moreover have "ccm_mic (aes128_ecb_encrypt key) nonce aad p = drop (length ct - 8) ct" using * ..
    ultimately show "ct = aes_ccm_encrypt key nonce aad p"
      by (simp add: aes_ccm_encrypt_def ccm_core_def aes_block)
  next
    assume ct: "ct = aes_ccm_encrypt key nonce aad p"
    then have "ct = ctr_loop (aes128_ecb_encrypt key) nonce 1 p @ ccm_mic (aes128_ecb_encrypt key) nonce aad p"
      by (simp add: aes_ccm_encrypt_def ccm_core_def aes_block)
    then show "ccm_mic (aes128_ecb_encrypt key) nonce aad p = drop (length ct - 8) ct \<and>
      p = ctr_loop (aes128_ecb_encrypt key) nonce 1 (take (length ct - 8) ct)"
      using inv len length_ccm_mic [OF E] by simp
  qed
qed

lemma length_ccm_encrypt:
  "length key = 16 \<Longrightarrow> length (aes_ccm_encrypt key nonce aad p) = length p + 8"
  using aes.length_E [of key] aes.length_ctr_loop [of key nonce 1 p]
  by (simp add: aes_ccm_encrypt_def ccm_core_def aes_block length_ccm_mic)

lemma ccm_decrypt_Some:
  assumes "length key = 16"
  shows "aes_ccm_decrypt key nonce aad ct = Some p \<longleftrightarrow>
    length p \<le> 2048 \<and> ct = aes_ccm_encrypt key nonce aad p"
proof (cases "8 \<le> length ct")
  case True
  have "aes_ccm_decrypt key nonce aad ct = Some p \<longleftrightarrow>
      length ct - 8 \<le> 2048 \<and>
      ccm_mic (aes128_ecb_encrypt key) nonce aad p = drop (length ct - 8) ct \<and>
      p = ctr_loop (aes128_ecb_encrypt key) nonce 1 (take (length ct - 8) ct)"
    using True by (auto simp: aes_ccm_decrypt_def Let_def ccm_core_def aes_block)
  then show ?thesis
    using ccm_accepts [OF assms True, of nonce aad p] length_ccm_encrypt [OF assms, of nonce aad p] by auto
next
  case False
  then show ?thesis
    using length_ccm_encrypt [OF assms, of nonce aad p] by (auto simp: aes_ccm_decrypt_def)
qed

lemma ccm_decrypt_ce_Some:
  assumes "length key = 16" and "\<And>b. hw key b = aes128_ecb_encrypt key b"
  shows "aes_ccm_decrypt_ce hw key nonce aad ct = Some p \<longleftrightarrow> ct = aes_ccm_encrypt key nonce aad p"
proof (cases "8 \<le> length ct")
  case True
  have hw: "hw key = aes128_ecb_encrypt key" by (rule ext) (rule assms(2))
  show ?thesis
    using True ccm_accepts [OF assms(1) True, of nonce aad p]
    by (auto simp: aes_ccm_decrypt_ce_def Let_def hw)
next
  case False
  then show ?thesis
    using length_ccm_encrypt [OF assms(1), of nonce aad p] by (auto simp: aes_ccm_decrypt_ce_def)
qed

text \<open>
  C20: CCM decryption accepts exactly what encryption produces. For every 16-byte key, every nonce
  and every additional data, the software decryption returns \<open>p\<close> precisely when the input is the
  encryption of \<open>p\<close> under them and \<open>p\<close> has at most 2048 bytes, the size of its scratch buffer: a
  flipped bit, a cut or a wrong key is never accepted with a different text.
\<close>

theorem ccm_decrypt_iff:
  assumes "length key = 16"
  shows "aes_ccm_decrypt key nonce aad ct = Some p \<longleftrightarrow>
    length p \<le> 2048 \<and> ct = aes_ccm_encrypt key nonce aad p"
  by (rule ccm_decrypt_Some [OF assms])

theorem ccm_decrypt_iff_witness:
  "aes_ccm_decrypt (replicate 16 7) (replicate 13 1) [1, 2, 3] (aes_ccm_encrypt (replicate 16 7) (replicate 13 1) [1, 2, 3]
     (replicate 40 0x33)) = Some (replicate 40 0x33)"
  by (subst ccm_decrypt_iff) simp_all

text \<open>
  The accelerated path decrypts the same. With a processor cipher that computes AES, the
  backend accepts exactly the encryptions, of any length; without it, those of at most 2048 bytes;
  so the two agree on every input of at most 2056 bytes.
\<close>

theorem ccmp_hw_agrees:
  assumes "length tk = 16" and "\<And>b. hw tk b = aes128_ecb_encrypt tk b"
  shows "(ccmp_decrypt_impl (Some hw) tk nonce ct aad = Some p \<longleftrightarrow> ct = ccmp_encrypt_impl tk nonce p aad) \<and>
    (length ct \<le> 2056 \<longrightarrow> ccmp_decrypt_impl (Some hw) tk nonce ct aad = ccmp_decrypt_impl None tk nonce ct aad)"
proof -
  note ce = ccm_decrypt_ce_Some [of tk hw nonce aad ct, OF assms]
  note sw = ccm_decrypt_Some [OF assms(1), of nonce aad ct]
  have 1: "ccmp_decrypt_impl (Some hw) tk nonce ct aad = Some q \<longleftrightarrow> ct = aes_ccm_encrypt tk nonce aad q" for q
    using ce sw
    by (cases "aes_ccm_decrypt_ce hw tk nonce aad ct") (auto simp: ccmp_decrypt_impl_def)
  have "ccmp_decrypt_impl (Some hw) tk nonce ct aad = ccmp_decrypt_impl None tk nonce ct aad"
    if "length ct \<le> 2056"
  proof (rule option.expand)
    have "ccmp_decrypt_impl (Some hw) tk nonce ct aad = Some q \<longleftrightarrow> ccmp_decrypt_impl None tk nonce ct aad = Some q"
      for q using 1 [of q] sw [of q] length_ccm_encrypt [OF assms(1), of nonce aad q] that
      by (auto simp: ccmp_decrypt_impl_def)
    then show "(ccmp_decrypt_impl (Some hw) tk nonce ct aad = None) =
        (ccmp_decrypt_impl None tk nonce ct aad = None)"
      and "the (ccmp_decrypt_impl (Some hw) tk nonce ct aad) = the (ccmp_decrypt_impl None tk nonce ct aad)"
      by (metis not_Some_eq)+
  qed
  with 1 show ?thesis by (simp add: ccmp_encrypt_impl_def)
qed

theorem ccmp_hw_agrees_witness:
  "ccmp_decrypt_impl (Some aes128_ecb_encrypt) (replicate 16 7) (replicate 13 1)
     (ccmp_encrypt_impl (replicate 16 7) (replicate 13 1) (replicate 3000 5) []) [] = Some (replicate 3000 5)"
proof -
  have "length (replicate 16 (7 :: u8)) = 16" by simp
  from ccmp_hw_agrees [of _ aes128_ecb_encrypt, OF this refl] show ?thesis by blast
qed

end
