(* ===== verification/Cmac.thy ===== *)
theory Cmac
  imports Aes
begin

text \<open>
  AES-CMAC and its truncation BIP-CMAC-128 (src/crypto/AesCmac.cpp), which authenticates protected
  broadcast management frames, and the reference definition of RFC 4493 they are compared with.
\<close>

section \<open>The routine\<close>

definition lshift1_step :: "bytes \<Rightarrow> nat \<Rightarrow> bytes \<times> u16 \<Rightarrow> bytes \<times> u16" where
  "lshift1_step src i = (\<lambda>(out, carry).
     let v = push_bit 1 (ucast (src ! i)) OR carry :: u16
     in (out[i := ucast v], drop_bit 8 v AND 1))"

definition lshift1 :: "bytes \<Rightarrow> bytes" where
  "lshift1 src = fst (fold (lshift1_step src) (rev [0..<16]) (replicate 16 0, 0))"

definition cmac_subkey :: "bytes \<Rightarrow> bytes" where
  "cmac_subkey L =
    (let K = lshift1 L in if (L ! 0) AND 0x80 \<noteq> 0 then K[15 := (K ! 15) XOR 0x87] else K)"

text \<open>The number of blocks, the last of them with its subkey, and the loop over the others.\<close>

definition cmac_blocks :: "nat \<Rightarrow> nat" where
  "cmac_blocks len = (let n = (len + 15) div 16 in if n = 0 then 1 else n)"

definition cmac_last :: "bytes \<Rightarrow> bytes \<Rightarrow> bytes \<Rightarrow> bytes" where
  "cmac_last K1 K2 msg =
    (let last = drop ((cmac_blocks (length msg) - 1) * 16) msg;
         complete = (length msg + 15) div 16 \<noteq> 0 \<and> length msg mod 16 = 0;
         rem = length msg mod 16
     in if complete then xor_bytes (take 16 last) K1
        else xor_bytes ((set_slice 0 (take rem last) (replicate 16 0))[rem := 0x80]) K2)"

definition cmac_chain :: "(bytes \<Rightarrow> bytes) \<Rightarrow> bytes \<Rightarrow> bytes \<Rightarrow> bytes" where
  "cmac_chain E X msg =
    fold (\<lambda>i X. E (xor_bytes X (slice (i * 16) 16 msg))) [0..<cmac_blocks (length msg) - 1] X"

definition aes128_cmac :: "bytes \<Rightarrow> bytes \<Rightarrow> bytes" where
  "aes128_cmac key msg =
    (let L = aes128_ecb_encrypt key (replicate 16 0);
         K1 = cmac_subkey L;
         K2 = cmac_subkey K1;
         Mlast = cmac_last K1 K2 msg;
         X = cmac_chain (aes128_ecb_encrypt key) (replicate 16 0) msg
     in aes128_ecb_encrypt key (xor_bytes Mlast X))"

definition bip_cmac_128 :: "bytes \<Rightarrow> bytes \<Rightarrow> bytes" where
  "bip_cmac_128 igtk msg = take 8 (aes128_cmac igtk msg)"

definition aes_cmac_selftest :: bool where
  "aes_cmac_selftest \<longleftrightarrow>
    (let key = [0x2b,0x7e,0x15,0x16,0x28,0xae,0xd2,0xa6,0xab,0xf7,0x15,0x88,0x09,0xcf,0x4f,0x3c];
         exp0 = [0xbb,0x1d,0x69,0x29,0xe9,0x59,0x37,0x28,0x7f,0xa3,0x7d,0x12,0x9b,0x75,0x67,0x46];
         m16 = [0x6b,0xc1,0xbe,0xe2,0x2e,0x40,0x9f,0x96,0xe9,0x3d,0x7e,0x11,0x73,0x93,0x17,0x2a];
         exp16 = [0x07,0x0a,0x16,0xb4,0x6b,0x4d,0x41,0x44,0xf7,0x9b,0xdd,0x9d,0xd0,0x4a,0x28,0x7c]
     in aes128_cmac key [] = exp0 \<and> aes128_cmac key m16 = exp16)"

section \<open>RFC 4493\<close>

text \<open>Doubling in the field of \<open>2^128\<close> elements, on the number a block stands for.\<close>

definition dbl :: "128 word \<Rightarrow> 128 word" where
  "dbl x = push_bit 1 x XOR (if bit x 127 then 0x87 else 0)"

definition rfc_subkey :: "bytes \<Rightarrow> bytes" where
  "rfc_subkey b = be_bytes 16 (dbl (be_word b))"

function rfc_mac :: "(bytes \<Rightarrow> bytes) \<Rightarrow> bytes \<Rightarrow> bytes \<Rightarrow> bytes \<Rightarrow> bytes" where
  "rfc_mac E K X m =
    (if length m < 16 then E (xor_bytes (xor_bytes (m @ [0x80] @ replicate (15 - length m) 0) (rfc_subkey K)) X)
     else if length m = 16 then E (xor_bytes (xor_bytes m K) X)
     else rfc_mac E K (E (xor_bytes X (take 16 m))) (drop 16 m))"
  by pat_completeness auto
termination by (relation "measure (\<lambda>(E, K, X, m). length m)") auto

declare rfc_mac.simps [simp del]

definition rfc_cmac :: "(bytes \<Rightarrow> bytes) \<Rightarrow> bytes \<Rightarrow> bytes" where
  "rfc_cmac E m = rfc_mac E (rfc_subkey (E (replicate 16 0))) (replicate 16 0) m"

section \<open>The subkeys\<close>

lemma lshift1_step_eq:
  "lshift1_step src i (out, c) = (out[i := push_bit 1 (src ! i) OR ucast c], (if bit (src ! i) 7 then 1 else drop_bit 8 c AND 1))"
  if "c = 0 \<or> c = 1"
proof -
  have "ucast (push_bit 1 (ucast (src ! i)) OR c :: u16) = push_bit 1 (src ! i) OR (ucast c :: u8)"
    by (rule bit_word_eqI) (auto simp: bit_simps simp del: push_bit_Suc)
  moreover have "drop_bit 8 (push_bit 1 (ucast (src ! i)) OR c :: u16) AND 1 = (if bit (src ! i) 7 then 1 else drop_bit 8 c AND 1)"
    by (rule bit_word_eqI) (use that in \<open>auto simp: bit_simps simp del: push_bit_Suc\<close>)
  ultimately show ?thesis by (simp add: lshift1_step_def Let_def)
qed

lemma lshift1_step_01:
  "lshift1_step src i (out, 0) = (out[i := push_bit 1 (src ! i)], if bit (src ! i) 7 then 1 else 0)"
  "lshift1_step src i (out, 1) = (out[i := push_bit 1 (src ! i) OR 1], if bit (src ! i) 7 then 1 else 0)"
  using lshift1_step_eq [of 0 src i out] lshift1_step_eq [of 1 src i out] by simp_all

lemma replicate_Suc_snoc: "replicate (Suc n) x = replicate n x @ [x]"
  by (simp add: replicate_append_same)

text \<open>Byte \<open>i\<close> of the result is byte \<open>i\<close> doubled, with the carry of the byte behind it.\<close>

lemma lshift1_fold:
  "i \<le> 16 \<Longrightarrow> length src = 16 \<Longrightarrow>
   fold (lshift1_step src) (rev [i..<16]) (replicate 16 0, 0) =
     (replicate i 0 @ map (\<lambda>j. push_bit 1 (src ! j) OR (if Suc j < 16 \<and> bit (src ! Suc j) 7 then 1 else 0)) [i..<16],
      if i < 16 \<and> bit (src ! i) 7 then 1 else 0)"
proof (induction "16 - i" arbitrary: i)
  case 0
  then show ?case by simp
next
  case (Suc n)
  then have i: "i < 16" "n = 16 - Suc i" by simp_all
  have e: "rev [i..<16] = rev [Suc i..<16] @ [i]" using i by (simp add: upt_conv_Cons)
  have r: "(replicate (Suc i) 0 @ xs)[i := v] = replicate i 0 @ v # xs" for v :: u8 and xs
    by (simp only: replicate_Suc_snoc append.assoc) (simp add: list_update_append)
  show ?case
    using Suc.hyps(1) [of "Suc i"] Suc.prems i
    by (simp add: e lshift1_step_01 r upt_conv_Cons del: replicate_Suc)
qed

lemma lshift1_eq:
  "length src = 16 \<Longrightarrow>
   lshift1 src = map (\<lambda>j. push_bit 1 (src ! j) OR (if Suc j < 16 \<and> bit (src ! Suc j) 7 then 1 else 0)) [0..<16]"
  using lshift1_fold [of 0 src] by (simp add: lshift1_def)

lemma bit_be_word:
  "length bs = 16 \<Longrightarrow> bit (be_word bs :: 128 word) n \<longleftrightarrow> n < 128 \<and> bit (bs ! (15 - n div 8)) (n mod 8)"
  by (auto simp: be_word_def bit_le_word rev_nth)

lemma be_bytes_16:
  "be_bytes 16 (w :: 128 word) = map (\<lambda>j. ucast (drop_bit (8 * (15 - j)) w)) [0..<16]"
  by (simp add: be_bytes_def le_bytes_conv rev_map upt_rec)

lemma bit_0x87: "bit (0x87 :: 'a::len word) n \<longleftrightarrow> n < LENGTH('a) \<and> n \<in> {0, 1, 2, 7}"
proof -
  have "(135 :: nat) div 2 ^ n = 0" if "8 \<le> n"
    using power_increasing [OF that, of "2 :: nat"] by simp
  then have "n < 8" if "bit (135 :: nat) n" using that by (force simp: bit_iff_odd)
  moreover have "bit (135 :: nat) n \<longleftrightarrow> n \<in> {0, 1, 2, 7}" if "n < 8"
  proof -
    have "n = 0 \<or> n = 1 \<or> n = 2 \<or> n = 3 \<or> n = 4 \<or> n = 5 \<or> n = 6 \<or> n = 7" using that by arith
    then show ?thesis by (elim disjE) (simp_all add: bit_iff_odd)
  qed
  ultimately have "bit (135 :: nat) n \<longleftrightarrow> n \<in> {0, 1, 2, 7}" by auto
  moreover have "bit (of_nat v :: 'a word) n \<longleftrightarrow> n < LENGTH('a) \<and> bit v n" for v :: nat
    by (simp add: bit_simps)
  ultimately show ?thesis by (metis of_nat_numeral)
qed

text \<open>The code's subkey is the doubled block.\<close>

lemma cmac_subkey_rfc:
  assumes "length L = 16"
  shows "cmac_subkey L = rfc_subkey L"
proof (rule nth_equalityI)
  show "length (cmac_subkey L) = length (rfc_subkey L)"
    using assms by (simp add: cmac_subkey_def rfc_subkey_def Let_def lshift1_eq)
  fix j assume "j < length (cmac_subkey L)"
  then have j: "j < 16" using assms by (simp add: cmac_subkey_def Let_def lshift1_eq split: if_splits)
  have top: "(L ! 0) AND 0x80 \<noteq> 0 \<longleftrightarrow> bit (L ! 0) 7"
    using and_exp_eq_0_iff_not_bit [of "L ! 0" 7] by simp
  have sub: "cmac_subkey L ! j =
      (push_bit 1 (L ! j) OR (if Suc j < 16 \<and> bit (L ! Suc j) 7 then 1 else 0)) XOR
      (if j = 15 \<and> bit (L ! 0) 7 then 0x87 else 0)"
    using j assms by (simp add: cmac_subkey_def Let_def lshift1_eq top nth_list_update)
  show "cmac_subkey L ! j = rfc_subkey L ! j"
  proof (rule bit_word_eqI)
    fix k assume k: "k < LENGTH(8)"
    let ?m = "8 * (15 - j) + k"
    have r: "bit (rfc_subkey L ! j) k \<longleftrightarrow> bit (dbl (be_word L)) ?m"
      using j k by (simp add: rfc_subkey_def be_bytes_16 bit_simps)
    have c: "bit (0x87 :: 128 word) ?m \<longleftrightarrow> j = 15 \<and> bit (0x87 :: u8) k"
      unfolding bit_0x87 using j k by (cases "j = 15") auto
    have "bit (dbl (be_word L)) ?m \<longleftrightarrow>
        (0 < ?m \<and> bit (L ! (15 - (?m - 1) div 8)) ((?m - 1) mod 8)) \<noteq> (bit (L ! 0) 7 \<and> j = 15 \<and> bit (0x87 :: u8) k)"
      using j k c assms by (auto simp: dbl_def bit_be_word bit_simps simp del: push_bit_Suc)
    moreover have "0 < ?m \<and> bit (L ! (15 - (?m - 1) div 8)) ((?m - 1) mod 8) \<longleftrightarrow>
        (if k = 0 then j < 15 \<and> bit (L ! Suc j) 7 else bit (L ! j) (k - 1))"
    proof (cases k)
      case 0
      show ?thesis
      proof (cases "j = 15")
        case False
        then have "?m - 1 = 7 + 8 * (14 - j)" and j': "j < 15" "15 - (14 - j) = Suc j" using j 0 by simp_all
        then have "(?m - 1) div 8 = 14 - j" "(?m - 1) mod 8 = 7" by simp_all
        then show ?thesis using 0 j' by simp
      qed (use 0 in simp)
    next
      case (Suc i)
      then have "?m - 1 = i + 8 * (15 - j)" "i < 8" and j': "15 - (15 - j) = j" using j k by simp_all
      then have "(?m - 1) div 8 = 15 - j" "(?m - 1) mod 8 = i" by simp_all
      then show ?thesis using Suc j' by simp
    qed
    ultimately show "bit (cmac_subkey L ! j) k \<longleftrightarrow> bit (rfc_subkey L ! j) k"
      using j k unfolding r sub by (auto simp: bit_simps simp del: push_bit_Suc)
  qed
qed

lemma length_rfc_subkey [simp]: "length (rfc_subkey b) = 16"
  by (simp add: rfc_subkey_def)

section \<open>The loop over the blocks\<close>

lemma cmac_blocks_small: "n \<le> 16 \<Longrightarrow> cmac_blocks n = 1"
proof -
  assume "n \<le> 16"
  then have "(n + 15) div 16 \<le> 1" by simp
  then show ?thesis by (auto simp: cmac_blocks_def Let_def)
qed

lemma cmac_blocks_step: "16 < n \<Longrightarrow> cmac_blocks n = Suc (cmac_blocks (n - 16)) \<and> 0 < cmac_blocks (n - 16)"
proof -
  assume "16 < n"
  then obtain m where "n = 17 + m" using le_Suc_ex [of 17 n] by auto
  moreover have "(2 * 16 + m) div 16 = 2 + m div 16" by (rule div_mult_self3) simp
  moreover have "(1 * 16 + m) div 16 = 1 + m div 16" by (rule div_mult_self3) simp
  ultimately show ?thesis by (simp add: cmac_blocks_def Let_def)
qed

lemma cmac_last_small:
  "length m < 16 \<Longrightarrow> cmac_last K1 K2 m = xor_bytes (m @ [0x80] @ replicate (15 - length m) 0) K2"
  "length m = 16 \<Longrightarrow> cmac_last K1 K2 m = xor_bytes m K1"
proof -
  assume l: "length m < 16"
  have "(set_slice 0 m (replicate 16 0))[length m := 0x80] = m @ [0x80] @ replicate (15 - length m) 0"
    using l by (simp add: set_slice_def list_update_append Suc_diff_le [symmetric] replicate_Suc [symmetric] del: replicate_Suc)
       (cases "16 - length m"; simp)
  then show "cmac_last K1 K2 m = xor_bytes (m @ [0x80] @ replicate (15 - length m) 0) K2"
    using l by (cases "m = []") (simp_all add: cmac_last_def cmac_blocks_small Let_def)
qed (simp add: cmac_last_def cmac_blocks_small)

lemma cmac_last_step: "16 < length m \<Longrightarrow> cmac_last K1 K2 m = cmac_last K1 K2 (drop 16 m)"
proof -
  assume l: "16 < length m"
  have "(length m - 16) mod 16 = length m mod 16" using l by (simp add: mod_if [of "length m"] le_mod_geq)
  moreover have "(length m + 15) div 16 \<noteq> 0" "(length m - Suc 0) div 16 \<noteq> 0"
    using l by (auto simp: div_eq_0_iff)
  ultimately show ?thesis
    using cmac_blocks_step [OF l]
    by (cases "cmac_blocks (length m - 16)") (simp_all add: cmac_last_def Let_def add.commute)
qed

lemma cmac_chain_step:
  "16 < length m \<Longrightarrow> cmac_chain E X m = cmac_chain E (E (xor_bytes X (take 16 m))) (drop 16 m)"
proof -
  assume l: "16 < length m"
  obtain k where k: "cmac_blocks (length m - 16) = Suc k" "cmac_blocks (length m) = Suc (Suc k)"
    using cmac_blocks_step [OF l] by (cases "cmac_blocks (length m - 16)") auto
  have "[0..<Suc k] = 0 # map Suc [0..<k]" by (simp add: upt_conv_Cons map_Suc_upt)
  then show ?thesis
    using k by (simp add: cmac_chain_def fold_map comp_def slice_def add.commute del: upt_Suc)
qed

lemma rfc_mac_chain:
  "rfc_mac E K X m = E (xor_bytes (cmac_last K (rfc_subkey K) m) (cmac_chain E X m))"
proof (induction E K X m rule: rfc_mac.induct)
  case (1 E K X m)
  consider "length m < 16" | "length m = 16" | "16 < length m" by linarith
  then show ?case
  proof cases
    case 3
    then show ?thesis
      using 1 by (subst rfc_mac.simps) (simp add: cmac_last_step [OF 3] cmac_chain_step [OF 3])
  qed (subst rfc_mac.simps, simp add: cmac_last_small cmac_chain_def cmac_blocks_small)+
qed

text \<open>
  C24: the code computes AES-CMAC. For every 16-byte key and every message, of any length including
  none, \<open>aes128_cmac\<close> gives what RFC 4493 defines: the chaining of the message's blocks, the last
  one completed with the bits 10...0 where it is short, and the subkeys the doubles of the
  encrypted zero block in the field with \<open>2^128\<close> elements.
\<close>

theorem aes128_cmac_rfc4493:
  assumes "length key = 16"
  shows "aes128_cmac key msg = rfc_cmac (aes128_ecb_encrypt key) msg"
proof -
  have "length (aes128_ecb_encrypt key (replicate 16 0)) = 16" by (rule aes.length_E [OF assms])
  then show ?thesis
    by (simp add: aes128_cmac_def rfc_cmac_def Let_def rfc_mac_chain cmac_subkey_rfc length_rfc_subkey)
qed

theorem aes128_cmac_rfc4493_witness:
  "aes128_cmac (replicate 16 3) (replicate 41 9) = rfc_cmac (aes128_ecb_encrypt (replicate 16 3)) (replicate 41 9)"
  by (rule aes128_cmac_rfc4493) simp

section \<open>The self test\<close>

lemma fips_key_L: "aes128_ecb_encrypt fips_key (replicate 16 0) =
  [0x7D, 0xF7, 0x6B, 0xC, 0x1A, 0xB8, 0x99, 0xB3, 0x3E, 0x42, 0xF0, 0x47, 0xB9, 0x1B, 0x54, 0x6F]"
  by (simp add: aes128_ecb_encrypt_def fips_round_keys aes_eval)

lemma fips_subkeys:
  "cmac_subkey [0x7D, 0xF7, 0x6B, 0xC, 0x1A, 0xB8, 0x99, 0xB3, 0x3E, 0x42, 0xF0, 0x47, 0xB9, 0x1B, 0x54, 0x6F] =
    [0xFB, 0xEE, 0xD6, 0x18, 0x35, 0x71, 0x33, 0x66, 0x7C, 0x85, 0xE0, 0x8F, 0x72, 0x36, 0xA8, 0xDE]"
  "cmac_subkey [0xFB, 0xEE, 0xD6, 0x18, 0x35, 0x71, 0x33, 0x66, 0x7C, 0x85, 0xE0, 0x8F, 0x72, 0x36, 0xA8, 0xDE] =
    [0xF7, 0xDD, 0xAC, 0x30, 0x6A, 0xE2, 0x66, 0xCC, 0xF9, 0xB, 0xC1, 0x1E, 0xE4, 0x6D, 0x51, 0x3B]"
  by (simp_all add: cmac_subkey_def lshift1_eq Let_def upt_rec bit_simps)

text \<open>
  The self test of the code passes: on the empty message and on one full block the routine
  gives the first two example values of RFC 4493.
\<close>

theorem aes_cmac_selftest_passes: "aes_cmac_selftest"
proof -
  have "aes128_cmac fips_key [] = [0xbb,0x1d,0x69,0x29,0xe9,0x59,0x37,0x28,0x7f,0xa3,0x7d,0x12,0x9b,0x75,0x67,0x46]"
    by (simp add: aes128_cmac_def fips_key_L fips_subkeys cmac_last_small cmac_chain_def cmac_blocks_small)
       (simp add: aes128_ecb_encrypt_def fips_round_keys aes_eval)
  moreover have "aes128_cmac fips_key [0x6b,0xc1,0xbe,0xe2,0x2e,0x40,0x9f,0x96,0xe9,0x3d,0x7e,0x11,0x73,0x93,0x17,0x2a] =
      [0x07,0x0a,0x16,0xb4,0x6b,0x4d,0x41,0x44,0xf7,0x9b,0xdd,0x9d,0xd0,0x4a,0x28,0x7c]"
    by (simp add: aes128_cmac_def fips_key_L fips_subkeys cmac_last_small cmac_chain_def cmac_blocks_small)
       (simp add: aes128_ecb_encrypt_def fips_round_keys aes_eval)
  ultimately show ?thesis
    by (simp add: aes_cmac_selftest_def Let_def fips_key_def)
qed

end
