(* ===== verification/Sha1.thy ===== *)
theory Sha1
  imports Prelude "HOL-Library.Monad_Syntax"
begin

text \<open>
  SHA-1, HMAC and PBKDF2 of src/crypto/Sha1Hmac.cpp and the functions of src/Wpa2Crypto.cpp built on
  them. The loops whose end the code does not show are \<open>partial_function\<close>s: \<open>None\<close> is a loop that
  does not end or, in \<open>pbkdf2_sha1\<close>, a write outside the scratch buffer.
\<close>

section \<open>The compression function\<close>

definition rol :: "u32 \<Rightarrow> nat \<Rightarrow> u32" where
  "rol v b = push_bit b v OR drop_bit (32 - b) v"

definition sha1_schedule :: "bytes \<Rightarrow> u32 list" where
  "sha1_schedule p =
    fold (\<lambda>i w. w @ [rol (w ! (i - 3) XOR w ! (i - 8) XOR w ! (i - 14) XOR w ! (i - 16)) 1]) [16..<80]
      (map (\<lambda>i. be_word (slice (4 * i) 4 p)) [0..<16])"

type_synonym sha1_vars = "u32 \<times> u32 \<times> u32 \<times> u32 \<times> u32"

definition sha1_round :: "u32 list \<Rightarrow> nat \<Rightarrow> sha1_vars \<Rightarrow> sha1_vars" where
  "sha1_round w i = (\<lambda>(a, b, d, e, f).
    let (k, t) =
          (if i < 20 then (0x5A827999, (b AND d) OR (NOT b AND e))
           else if i < 40 then (0x6ED9EBA1, b XOR d XOR e)
           else if i < 60 then (0x8F1BBCDC, (b AND d) OR (b AND e) OR (d AND e))
           else (0xCA62C1D6, b XOR d XOR e));
        tmp = rol a 5 + t + f + k + w ! i
    in (tmp, a, rol b 30, d, e))"

record sha1_ctx =
  sha_h :: "u32 list"
  sha_len :: u64
  sha_buf :: bytes
  sha_n :: nat

definition sha1_init :: sha1_ctx where
  "sha1_init = \<lparr>sha_h = [0x67452301, 0xEFCDAB89, 0x98BADCFE, 0x10325476, 0xC3D2E1F0],
     sha_len = 0, sha_buf = replicate 64 0, sha_n = 0\<rparr>"

definition sha1_block :: "u32 list \<Rightarrow> bytes \<Rightarrow> u32 list" where
  "sha1_block h p =
    (let w = sha1_schedule p;
         (a, b, d, e, f) = fold (sha1_round w) [0..<80] (h ! 0, h ! 1, h ! 2, h ! 3, h ! 4)
     in [h ! 0 + a, h ! 1 + b, h ! 2 + d, h ! 3 + e, h ! 4 + f])"

section \<open>The streaming interface\<close>

definition sha1_put :: "sha1_ctx \<Rightarrow> bytes \<Rightarrow> sha1_ctx" where
  "sha1_put c part =
    (let c = c\<lparr>sha_buf := set_slice (sha_n c) part (sha_buf c), sha_n := sha_n c + length part\<rparr>
     in if sha_n c = 64 then c\<lparr>sha_h := sha1_block (sha_h c) (sha_buf c), sha_n := 0\<rparr> else c)"

partial_function (option) sha1_loop :: "sha1_ctx \<Rightarrow> bytes \<Rightarrow> sha1_ctx option" where
  "sha1_loop c p =
    (if p = [] then Some c
     else let k = min (64 - sha_n c) (length p) in sha1_loop (sha1_put c (take k p)) (drop k p))"

definition sha1_update :: "sha1_ctx \<Rightarrow> bytes \<Rightarrow> sha1_ctx option" where
  "sha1_update c p = sha1_loop (c\<lparr>sha_len := sha_len c + of_nat (length p)\<rparr>) p"

partial_function (option) sha1_zeros :: "sha1_ctx \<Rightarrow> sha1_ctx option" where
  "sha1_zeros c =
    (if sha_n c = 56 then Some c else Option.bind (sha1_update c [0]) sha1_zeros)"

definition sha1_digest :: "u32 list \<Rightarrow> bytes" where
  "sha1_digest h = concat (map (\<lambda>i. map (\<lambda>s. ucast (drop_bit s (h ! i))) [24, 16, 8, 0]) [0..<5])"

definition sha1_final :: "sha1_ctx \<Rightarrow> bytes option" where
  "sha1_final c =
    (let bits = sha_len c * 8 in
     do {
       c \<leftarrow> sha1_update c [0x80];
       c \<leftarrow> sha1_zeros c;
       c \<leftarrow> sha1_update c (map (\<lambda>i. ucast (drop_bit (56 - i * 8) bits)) [0..<8]);
       Some (sha1_digest (sha_h c))
     })"

definition sha1 :: "bytes \<Rightarrow> bytes option" where
  "sha1 d = Option.bind (sha1_update sha1_init d) sha1_final"

definition hmac_sha1 :: "bytes \<Rightarrow> bytes \<Rightarrow> bytes option" where
  "hmac_sha1 key msg =
    do {
      k \<leftarrow> (if length key > 64 then map_option (\<lambda>h. set_slice 0 h (replicate 64 0)) (sha1 key)
           else Some (set_slice 0 key (replicate 64 0)));
      let ip = map (\<lambda>b. b XOR 0x36) k;
      let op = map (\<lambda>b. b XOR 0x5c) k;
      c \<leftarrow> sha1_update sha1_init ip;
      c \<leftarrow> sha1_update c msg;
      ih \<leftarrow> sha1_final c;
      c \<leftarrow> sha1_update sha1_init op;
      c \<leftarrow> sha1_update c ih;
      sha1_final c
    }"

section \<open>Key derivation\<close>

text \<open>The block \<open>t\<close>: the exclusive or of the chain of \<open>u\<close>.\<close>

primrec pbkdf2_iter :: "bytes \<Rightarrow> nat \<Rightarrow> bytes \<Rightarrow> bytes \<Rightarrow> bytes option" where
  "pbkdf2_iter pw 0 u t = Some t"
| "pbkdf2_iter pw (Suc n) u t = Option.bind (hmac_sha1 pw u) (\<lambda>u. pbkdf2_iter pw n u (xor_bytes t u))"

text \<open>The scratch buffer \<open>s2\<close> has 256 bytes and the salt and the block number go into it unchecked.\<close>

function pbkdf2_loop :: "bytes \<Rightarrow> bytes \<Rightarrow> nat \<Rightarrow> nat \<Rightarrow> u32 \<Rightarrow> bytes option" where
  "pbkdf2_loop pw salt iters outlen block =
    (if outlen = 0 then Some []
     else if length salt + 4 > 256 then None
     else
       let k = min outlen 20 in
       do {
         u \<leftarrow> hmac_sha1 pw (salt @ be_bytes 4 block);
         t \<leftarrow> pbkdf2_iter pw (iters - 1) u u;
         out \<leftarrow> pbkdf2_loop pw salt iters (outlen - k) (block + 1);
         Some (take k t @ out)
       })"
  by pat_completeness auto
termination by (relation "measure (\<lambda>(pw, salt, iters, outlen, block). outlen)") auto

declare pbkdf2_loop.simps [simp del]

text \<open>The pass phrase is a C string: it ends before its first zero.\<close>

definition pbkdf2_sha1 :: "bytes \<Rightarrow> bytes \<Rightarrow> nat \<Rightarrow> nat \<Rightarrow> bytes option" where
  "pbkdf2_sha1 pass salt iters outlen = pbkdf2_loop (takeWhile (\<lambda>b. b \<noteq> 0) pass) salt iters outlen 1"

definition pbkdf2_pmk_impl :: "bytes \<Rightarrow> bytes \<Rightarrow> bytes option" where
  "pbkdf2_pmk_impl pass ssid = pbkdf2_sha1 pass ssid 4096 32"

partial_function (option) prf_loop :: "bytes \<Rightarrow> bytes \<Rightarrow> bytes \<Rightarrow> nat \<Rightarrow> u8 \<Rightarrow> bytes \<Rightarrow> bytes option" where
  "prf_loop key label data outLen i out =
    (if length out < outLen
     then Option.bind (hmac_sha1 key (label @ [0] @ data @ [i])) (\<lambda>mac. prf_loop key label data outLen (i + 1) (out @ mac))
     else Some out)"

definition prf_impl :: "bytes \<Rightarrow> bytes \<Rightarrow> bytes \<Rightarrow> nat \<Rightarrow> bytes option" where
  "prf_impl key label data outLen = map_option (take outLen) (prf_loop key label data outLen 0 [])"

definition eapol_mic_impl :: "bytes \<Rightarrow> bytes \<Rightarrow> bytes option" where
  "eapol_mic_impl kck msg = map_option (take 16) (hmac_sha1 kck msg)"

section \<open>The reference definitions\<close>

text \<open>FIPS 180-4: the padded message in blocks of 64 bytes, compressed one after the other.\<close>

definition sha1_pad :: "bytes \<Rightarrow> bytes" where
  "sha1_pad m = m @ [0x80] @ replicate ((119 - length m mod 64) mod 64) 0 @ be_bytes 8 (of_nat (8 * length m) :: u64)"

function blocks64 :: "bytes \<Rightarrow> bytes list" where
  "blocks64 m = (if length m < 64 then [] else take 64 m # blocks64 (drop 64 m))"
  by pat_completeness auto
termination by (relation "measure length") auto

declare blocks64.simps [simp del]

definition sha1_spec :: "bytes \<Rightarrow> bytes" where
  "sha1_spec m = concat (map (be_bytes 4) (foldl sha1_block (sha_h sha1_init) (blocks64 (sha1_pad m))))"

text \<open>RFC 2104 and RFC 2898.\<close>

definition hmac_key :: "bytes \<Rightarrow> bytes" where
  "hmac_key key = (let k = (if length key > 64 then sha1_spec key else key) in k @ replicate (64 - length k) 0)"

definition hmac_spec :: "bytes \<Rightarrow> bytes \<Rightarrow> bytes" where
  "hmac_spec key msg =
    sha1_spec (xor_bytes (hmac_key key) (replicate 64 0x5c) @
      sha1_spec (xor_bytes (hmac_key key) (replicate 64 0x36) @ msg))"

primrec pbkdf2_u :: "bytes \<Rightarrow> bytes \<Rightarrow> nat \<Rightarrow> bytes" where
  "pbkdf2_u pw s 0 = hmac_spec pw s"
| "pbkdf2_u pw s (Suc n) = hmac_spec pw (pbkdf2_u pw s n)"

definition pbkdf2_f :: "bytes \<Rightarrow> bytes \<Rightarrow> nat \<Rightarrow> bytes" where
  "pbkdf2_f pw s iters = foldl xor_bytes (pbkdf2_u pw s 0) (map (pbkdf2_u pw s) [1..<iters])"

section \<open>The context stands for the message so far\<close>

definition sha_rep :: "sha1_ctx \<Rightarrow> bytes \<Rightarrow> bool" where
  "sha_rep c m \<longleftrightarrow> (\<exists>bs t. m = concat bs @ t \<and> (\<forall>b\<in>set bs. length b = 64) \<and> length t < 64 \<and>
     sha_h c = foldl sha1_block (sha_h sha1_init) bs \<and> sha_n c = length t \<and>
     length (sha_buf c) = 64 \<and> take (length t) (sha_buf c) = t)"

lemma sha_rep_init: "sha_rep sha1_init []"
  unfolding sha_rep_def by (rule exI [of _ "[]"]) (simp add: sha1_init_def)

lemma sha_rep_n: "sha_rep c m \<Longrightarrow> sha_n c = length m mod 64 \<and> sha_n c < 64"
proof -
  assume "sha_rep c m"
  then obtain bs t where m: "m = concat bs @ t" "\<forall>b\<in>set bs. length b = 64" "length t < 64" "sha_n c = length t"
    by (auto simp: sha_rep_def)
  have "length (concat bs) = 64 * length bs" using m(2) by (induction bs) auto
  then show ?thesis using m by simp
qed

lemma sha_rep_len [simp]: "sha_rep (c\<lparr>sha_len := l\<rparr>) m = sha_rep c m"
  by (simp add: sha_rep_def)

lemma sha_rep_put:
  assumes "sha_rep c m" and "length part \<le> 64 - sha_n c" and "part \<noteq> []"
  shows "sha_rep (sha1_put c part) (m @ part) \<and> sha_len (sha1_put c part) = sha_len c"
proof -
  obtain bs t where m: "m = concat bs @ t" "\<forall>b\<in>set bs. length b = 64" "length t < 64"
      "sha_h c = foldl sha1_block (sha_h sha1_init) bs" "sha_n c = length t"
      "length (sha_buf c) = 64" "take (length t) (sha_buf c) = t"
    using assms(1) by (auto simp: sha_rep_def)
  have buf: "take (length t + length part) (set_slice (length t) part (sha_buf c)) = t @ part"
    "length (set_slice (length t) part (sha_buf c)) = 64"
    using m assms(2) by (simp_all add: set_slice_def)
  show ?thesis
  proof (cases "length t + length part = 64")
    case True
    then have "set_slice (length t) part (sha_buf c) = t @ part" using buf by simp
    then show ?thesis
      using m True by (auto simp: sha1_put_def Let_def sha_rep_def intro!: exI [of _ "bs @ [t @ part]"])
  next
    case False
    then have "length t + length part < 64" using m assms(2) by simp
    then show ?thesis
      using m buf False by (auto simp: sha1_put_def Let_def sha_rep_def intro!: exI [of _ bs] exI [of _ "t @ part"])
  qed
qed

lemma sha1_loop_rep:
  "sha_rep c m \<Longrightarrow> \<exists>c'. sha1_loop c p = Some c' \<and> sha_rep c' (m @ p) \<and> sha_len c' = sha_len c"
proof (induction p arbitrary: c m rule: length_induct)
  case (1 p)
  show ?case
  proof (cases "p = []")
    case False
    let ?k = "min (64 - sha_n c) (length p)"
    have k: "0 < ?k" "?k \<le> 64 - sha_n c" "?k \<le> length p" using sha_rep_n [OF "1.prems"] False by auto
    have step: "sha_rep (sha1_put c (take ?k p)) (m @ take ?k p)" "sha_len (sha1_put c (take ?k p)) = sha_len c"
      using sha_rep_put [OF "1.prems", of "take ?k p"] k False by auto
    have "length (drop ?k p) < length p" using k by simp
    then obtain c' where "sha1_loop (sha1_put c (take ?k p)) (drop ?k p) = Some c'"
        "sha_rep c' ((m @ take ?k p) @ drop ?k p)" "sha_len c' = sha_len c"
      using "1.IH" step by metis
    then show ?thesis using False by (subst sha1_loop.simps) (simp add: Let_def)
  qed (use "1.prems" in \<open>simp add: sha1_loop.simps\<close>)
qed

text \<open>Updating appends.\<close>

lemma sha1_update_rep:
  assumes "sha_rep c m" and "sha_len c = of_nat (length m)"
  obtains c' where "sha1_update c p = Some c'" "sha_rep c' (m @ p)" "sha_len c' = of_nat (length (m @ p))"
  using sha1_loop_rep [of "c\<lparr>sha_len := sha_len c + of_nat (length p)\<rparr>" m p] assms that
  by (auto simp: sha1_update_def)

lemma sha1_zeros_rep:
  "sha_rep c m \<Longrightarrow> sha_len c = of_nat (length m) \<Longrightarrow> (length m + z) mod 64 = 56 \<Longrightarrow>
   \<forall>y<z. (length m + y) mod 64 \<noteq> 56 \<Longrightarrow>
   \<exists>c'. sha1_zeros c = Some c' \<and> sha_rep c' (m @ replicate z 0) \<and> sha_len c' = of_nat (length m + z)"
proof (induction z arbitrary: c m)
  case 0
  then show ?case using sha_rep_n [of c m] by (simp add: sha1_zeros.simps)
next
  case (Suc z)
  then have ne: "sha_n c \<noteq> 56" using sha_rep_n [of c m] by (metis add_0_right zero_less_Suc)
  obtain c1 where c1: "sha1_update c [0] = Some c1" "sha_rep c1 (m @ [0])" "sha_len c1 = of_nat (length (m @ [0]))"
    using sha1_update_rep Suc.prems(1,2) by blast
  have "\<forall>y<z. (length (m @ [0]) + y) mod 64 \<noteq> 56" using Suc.prems(4) by auto
  moreover have "(length (m @ [0]) + z) mod 64 = 56" using Suc.prems(3) by simp
  ultimately obtain c' where "sha1_zeros c1 = Some c'" "sha_rep c' ((m @ [0]) @ replicate z 0)"
      "sha_len c' = of_nat (length (m @ [0]) + z)"
    using Suc.IH [OF c1(2,3)] by metis
  then show ?case using ne c1 by (subst sha1_zeros.simps) (simp add: replicate_append_same)
qed

section \<open>The digest\<close>

lemma blocks64_concat: "\<forall>b\<in>set bs. length b = 64 \<Longrightarrow> length t < 64 \<Longrightarrow> blocks64 (concat bs @ t) = bs"
  by (induction bs) (simp_all add: blocks64.simps)

lemma length_sha1_block: "length (sha1_block h b) = 5"
  by (simp add: sha1_block_def Let_def split: prod.splits)

lemma length_sha_h: "length (foldl sha1_block (sha_h sha1_init) bs) = 5"
  by (rule foldl_invariant) (simp_all add: length_sha1_block sha1_init_def)

lemma sha1_digest:
  assumes "length h = 5"
  shows "sha1_digest h = concat (map (be_bytes 4) h)"
proof -
  have h: "map ((!) h) [0..<5] = h" using map_nth [of h] assms by simp
  have "be_bytes 4 w = map (\<lambda>s. ucast (drop_bit s w)) [24, 16, 8, 0]" for w :: u32
    by (simp add: be_bytes_def le_bytes_conv upt_rec)
  then have "sha1_digest h = concat (map (be_bytes 4) (map ((!) h) [0..<5]))"
    by (simp add: sha1_digest_def comp_def)
  then show ?thesis by (simp only: h)
qed

lemma be_bytes_8: "map (\<lambda>i. ucast (drop_bit (56 - i * 8) w)) [0..<8] = be_bytes 8 (w :: u64)"
  by (simp add: be_bytes_def le_bytes_conv upt_rec)

lemma padding:
  fixes n :: nat
  defines "z \<equiv> (119 - n mod 64) mod 64"
  shows "(Suc n + z) mod 64 = 56" and "y < z \<Longrightarrow> (Suc n + y) mod 64 \<noteq> 56"
proof -
  define r where "r = n mod 64"
  have r: "r < 64" by (simp add: r_def)
  have m: "(Suc n + y) mod 64 = (Suc r + y) mod 64" for y
    unfolding r_def by (metis add_Suc mod_Suc_eq mod_add_left_eq)
  have z: "z = (if r \<le> 55 then 55 - r else 119 - r)"
  proof (cases "r \<le> 55")
    case True
    then have "119 - r = (55 - r) + 64" by simp
    then have "(119 - r) mod 64 = (55 - r) mod 64" by (metis mod_add_self2)
    then show ?thesis using True by (simp add: z_def r_def [symmetric])
  qed (use r in \<open>simp add: z_def r_def [symmetric]\<close>)
  have "Suc r + z = 56 \<or> Suc r + z = 56 + 64" using r by (simp add: z)
  then show "(Suc n + z) mod 64 = 56" unfolding m by (elim disjE) simp_all
  assume y: "y < z"
  show "(Suc n + y) mod 64 \<noteq> 56"
  proof (cases "Suc r + y < 64")
    case True
    then show ?thesis unfolding m using y z by (auto split: if_splits)
  next
    case False
    then have "Suc r + y < 120" using y z r by (auto split: if_splits)
    moreover have "(Suc r + y) mod 64 = Suc r + y - 64" using False calculation by (simp add: le_mod_geq)
    ultimately show ?thesis unfolding m by simp
  qed
qed

lemma sha1_final_rep:
  assumes "sha_rep c m" and "sha_len c = of_nat (length m)"
  shows "sha1_final c = Some (sha1_spec m)"
proof -
  let ?z = "(119 - length m mod 64) mod 64"
  let ?bits = "sha_len c * 8"
  obtain c1 where c1: "sha1_update c [0x80] = Some c1" "sha_rep c1 (m @ [0x80])" "sha_len c1 = of_nat (length (m @ [0x80]))"
    using sha1_update_rep assms by blast
  have "(length (m @ [0x80]) + ?z) mod 64 = 56" "\<forall>y<?z. (length (m @ [0x80]) + y) mod 64 \<noteq> 56"
    using padding(1) [of "length m"] padding(2) [of _ "length m"] by simp_all
  then obtain c2 where c2: "sha1_zeros c1 = Some c2" "sha_rep c2 ((m @ [0x80]) @ replicate ?z 0)"
      "sha_len c2 = of_nat (length ((m @ [0x80]) @ replicate ?z 0))"
    using sha1_zeros_rep [OF c1(2,3), of ?z] by (auto simp only: length_append length_replicate)
  obtain c3 where c3: "sha1_update c2 (be_bytes 8 ?bits) = Some c3"
      "sha_rep c3 (((m @ [0x80]) @ replicate ?z 0) @ be_bytes 8 ?bits)"
    using sha1_update_rep [OF c2(2,3)] by blast
  have pad: "((m @ [0x80]) @ replicate ?z 0) @ be_bytes 8 ?bits = sha1_pad m"
    by (simp add: sha1_pad_def assms(2) mult.commute)
  obtain bs t where bt: "sha1_pad m = concat bs @ t" "\<forall>b\<in>set bs. length b = 64" "length t < 64"
      "sha_h c3 = foldl sha1_block (sha_h sha1_init) bs"
    using c3(2) unfolding pad by (auto simp: sha_rep_def)
  then have "sha_h c3 = foldl sha1_block (sha_h sha1_init) (blocks64 (sha1_pad m))"
    by (simp add: blocks64_concat)
  then show ?thesis
    using c1 c2 c3 by (simp add: sha1_final_def Let_def be_bytes_8 sha1_digest length_sha_h sha1_spec_def)
qed

lemma sha1_init_len: "sha_len sha1_init = of_nat (length [])"
  by (simp add: sha1_init_def)

lemma length_sha1_spec [simp]: "length (sha1_spec m) = 20"
proof -
  have "length (concat (map (be_bytes 4) h)) = 4 * length h" for h :: "u32 list" by (induction h) simp_all
  then show ?thesis by (simp add: sha1_spec_def length_sha_h)
qed

lemma sha1_total: "sha1 d = Some (sha1_spec d)"
proof -
  obtain c where "sha1_update sha1_init d = Some c" "sha_rep c ([] @ d)" "sha_len c = of_nat (length ([] @ d))"
    using sha1_update_rep [OF sha_rep_init sha1_init_len] by blast
  then show ?thesis by (simp add: sha1_def sha1_final_rep)
qed

text \<open>
  C25: the streaming hash is SHA-1's construction. Every message is hashed, that is, the loops of
  update and of the padding end, and the result is the compression of the padded message block by
  block, however the message falls on the context's buffer.
\<close>

theorem sha1_is_spec: "sha1 d = Some (sha1_spec d)"
  by (rule sha1_total)

lemma sha1_two_parts:
  "Option.bind (sha1_update sha1_init a) (\<lambda>c. Option.bind (sha1_update c b) sha1_final) = Some (sha1_spec (a @ b))"
proof -
  obtain c where c: "sha1_update sha1_init a = Some c" "sha_rep c ([] @ a)" "sha_len c = of_nat (length ([] @ a))"
    using sha1_update_rep [OF sha_rep_init sha1_init_len] by blast
  obtain c' where "sha1_update c b = Some c'" "sha_rep c' (([] @ a) @ b)" "sha_len c' = of_nat (length (([] @ a) @ b))"
    using sha1_update_rep [OF c(2,3)] by blast
  then show ?thesis using c by (simp add: sha1_final_rep)
qed

section \<open>HMAC and the key derivations\<close>

lemma map_xor_replicate: "length k = n \<Longrightarrow> map (\<lambda>b. b XOR c) k = xor_bytes k (replicate n c)"
  by (rule nth_equalityI) (simp_all add: xor_bytes_def)

lemma hmac_key_slice:
  "\<not> length key > 64 \<Longrightarrow> set_slice 0 key (replicate 64 0) = hmac_key key"
  "length key > 64 \<Longrightarrow> set_slice 0 (sha1_spec key) (replicate 64 0) = hmac_key key"
  by (simp_all add: set_slice_def hmac_key_def Let_def)

lemma length_hmac_key [simp]: "length (hmac_key key) = 64"
  by (simp add: hmac_key_def Let_def)

text \<open>
  Keyed hashing is HMAC. For every key, shorter or longer than a block, and every message,
  \<open>hmac_sha1\<close> returns what RFC 2104 defines.
\<close>

theorem hmac_sha1_total: "hmac_sha1 key msg = Some (hmac_spec key msg)"
proof -
  have k: "(if length key > 64 then map_option (\<lambda>h. set_slice 0 h (replicate 64 0)) (sha1 key)
      else Some (set_slice 0 key (replicate 64 0))) = Some (hmac_key key)"
    using hmac_key_slice [of key] by (simp add: sha1_total)
  show ?thesis
    unfolding hmac_sha1_def k
    using sha1_two_parts [of "xor_bytes (hmac_key key) (replicate 64 0x36)" msg]
      sha1_two_parts [of "xor_bytes (hmac_key key) (replicate 64 0x5c)"]
    by (auto simp: map_xor_replicate [of "hmac_key key" 64] hmac_spec_def Let_def bind_eq_Some_conv)
qed

lemma length_hmac_spec [simp]: "length (hmac_spec key msg) = 20"
  by (simp add: hmac_spec_def)

lemma pbkdf2_iter_spec:
  "pbkdf2_iter pw n (pbkdf2_u pw s j) t = Some (foldl xor_bytes t (map (pbkdf2_u pw s) [Suc j..<Suc j + n]))"
proof (induction n arbitrary: j t)
  case (Suc n)
  have "[Suc j..<Suc j + Suc n] = Suc j # [Suc (Suc j)..<Suc (Suc j) + n]" by (simp add: upt_conv_Cons)
  then show ?case
    using Suc [of "Suc j"] by (simp add: hmac_sha1_total del: upt_Suc)
qed simp

lemma length_pbkdf2_u [simp]: "length (pbkdf2_u pw s n) = 20"
  by (cases n) simp_all

lemma length_pbkdf2_f [simp]: "length (pbkdf2_f pw s n) = 20"
  unfolding pbkdf2_f_def by (rule foldl_invariant) auto

text \<open>The blocks of the derived key.\<close>

fun pbkdf2_blocks :: "bytes \<Rightarrow> bytes \<Rightarrow> nat \<Rightarrow> u32 \<Rightarrow> nat \<Rightarrow> bytes" where
  "pbkdf2_blocks pw salt iters block 0 = []"
| "pbkdf2_blocks pw salt iters block (Suc n) =
     pbkdf2_f pw (salt @ be_bytes 4 block) iters @ pbkdf2_blocks pw salt iters (block + 1) n"

lemma pbkdf2_loop_spec:
  assumes "length salt \<le> 252"
  shows "outlen \<le> 20 * n \<Longrightarrow> pbkdf2_loop pw salt iters outlen block = Some (take outlen (pbkdf2_blocks pw salt iters block n))"
proof (induction n arbitrary: outlen block)
  case 0
  then show ?case by (subst pbkdf2_loop.simps) simp
next
  case (Suc n)
  let ?s = "salt @ be_bytes 4 block"
  have it: "pbkdf2_iter pw (iters - 1) (hmac_spec pw ?s) (hmac_spec pw ?s) = Some (pbkdf2_f pw ?s iters)"
    using pbkdf2_iter_spec [of pw "iters - 1" ?s 0 "hmac_spec pw ?s"]
    by (cases iters) (simp_all add: pbkdf2_f_def del: upt_Suc)
  show ?case
  proof (cases "outlen = 0")
    case True
    then show ?thesis by (subst pbkdf2_loop.simps) simp
  next
    case False
    have "outlen - min outlen 20 \<le> 20 * n" using Suc.prems by simp
    from Suc.IH [OF this] show ?thesis
      using False assms
      by (subst pbkdf2_loop.simps) (simp add: hmac_sha1_total it [simplified] Let_def min_def)
  qed
qed

text \<open>
  The pairwise master key is PBKDF2. For every passphrase without a zero byte and every SSID,
  the 4096 rounds over the two blocks give the first 32 bytes of RFC 2898's derivation.
\<close>

theorem pbkdf2_pmk_is_spec:
  assumes "0 \<notin> set pass" and "length ssid \<le> 32"
  shows "pbkdf2_pmk_impl pass ssid =
    Some (pbkdf2_f pass (ssid @ [0, 0, 0, 1]) 4096 @ take 12 (pbkdf2_f pass (ssid @ [0, 0, 0, 2]) 4096))"
proof -
  have "takeWhile (\<lambda>b. b \<noteq> 0) pass = pass" using assms(1) by (simp add: takeWhile_eq_all_conv) metis
  then have "pbkdf2_pmk_impl pass ssid = pbkdf2_loop pass ssid 4096 32 1"
    by (simp only: pbkdf2_pmk_impl_def pbkdf2_sha1_def)
  moreover have "be_bytes 4 (1 :: u32) = [0, 0, 0, 1]" "be_bytes 4 (2 :: u32) = [0, 0, 0, 2]"
    by (simp_all add: be_bytes_def le_bytes_conv upt_rec)
  ultimately show ?thesis
    using pbkdf2_loop_spec [of ssid 32 "Suc (Suc 0)" pass 4096 1] assms(2) by simp
qed

theorem pbkdf2_pmk_is_spec_witness:
  "pbkdf2_pmk_impl [0x70, 0x77] [0x61, 0x70] =
    Some (pbkdf2_f [0x70, 0x77] [0x61, 0x70, 0, 0, 0, 1] 4096 @ take 12 (pbkdf2_f [0x70, 0x77] [0x61, 0x70, 0, 0, 0, 2] 4096))"
  by (subst pbkdf2_pmk_is_spec) simp_all

abbreviation prf_block :: "bytes \<Rightarrow> bytes \<Rightarrow> bytes \<Rightarrow> nat \<Rightarrow> bytes" where
  "prf_block key label data i \<equiv> hmac_spec key (label @ [0] @ data @ [of_nat i])"

lemma prf_loop_spec:
  "outLen \<le> length out + 20 * n \<Longrightarrow>
   \<exists>r. prf_loop key label data outLen (of_nat i) out = Some r \<and>
     take outLen r = take outLen (out @ concat (map (prf_block key label data) [i..<i + n]))"
proof (induction n arbitrary: i out)
  case (Suc n)
  show ?case
  proof (cases "length out < outLen")
    case True
    have "outLen \<le> length (out @ prf_block key label data i) + 20 * n" using Suc.prems by simp
    from Suc.IH [OF this, of "Suc i"] show ?thesis
      using True by (subst prf_loop.simps) (simp add: hmac_sha1_total add.commute [of _ 1] upt_conv_Cons del: upt_Suc)
  qed (simp add: prf_loop.simps)
qed (simp add: prf_loop.simps)

lemma prf_total:
  "prf_impl key label data outLen =
    Some (take outLen (concat (map (prf_block key label data) [0..<(outLen + 19) div 20])))"
proof -
  have "outLen \<le> length ([] :: bytes) + 20 * ((outLen + 19) div 20)" by simp
  from prf_loop_spec [OF this, of key label data 0] show ?thesis by (auto simp: prf_impl_def)
qed

text \<open>
  The key expansion is the PRF of 802.11i: for every key, label and data it returns exactly the
  requested number of bytes, the prefix of the HMACs of label, zero, data and a running counter.
\<close>

theorem prf_is_spec:
  "prf_impl key label data outLen =
    Some (take outLen (concat (map (prf_block key label data) [0..<(outLen + 19) div 20])))"
  by (rule prf_total)

section \<open>A known answer\<close>

definition abc_block :: bytes where
  "abc_block = [0x61, 0x62, 0x63, 0x80, 0, 0, 0, 0, 0, 0, 0, 0, 0, 0, 0, 0, 0, 0, 0, 0, 0, 0, 0, 0, 0, 0,
    0, 0, 0, 0, 0, 0, 0, 0, 0, 0, 0, 0, 0, 0, 0, 0, 0, 0, 0, 0, 0, 0, 0, 0, 0, 0, 0, 0, 0, 0, 0,
    0, 0, 0, 0, 0, 0, 0x18]"

lemmas sha_eval = sha1_round_def rol_def Let_def upt_rec

lemma abc_schedule: "sha1_schedule abc_block =
    [0x61626380, 0, 0, 0, 0, 0, 0, 0, 0, 0, 0, 0, 0, 0, 0, 0x18, 0xC2C4C700, 0, 0x30,
    0x85898E01, 0, 0x60, 0xB131C03, 0x30, 0x85898EC1, 0x16263806, 0, 0x180, 0x2C4C700C, 0xF0,
    0x93AFB507, 0x5898E048, 0x8E9A9202, 0x600, 0xB131C0F0, 0x16263BC6, 0x4EBED41E, 0x626380A1,
    0x16263806, 0x18C0, 0xD2E138C4, 0xF00, 0x3AFB5079, 0x898E04E5, 0xE2BA3C2B, 0x60C0,
    0x53A37CD, 0x74458547, 0xDA9415ED, 0x26380A16, 0x626383A1, 0x4EBF54DE, 0x3835B44B, 0xF600,
    0x1E84C7A3, 0x98E04D98, 0x651D16A0, 0x62658CA1, 0x458544D6, 0x44584CB7, 0x7BA06619,
    0x6380AEA2, 0xAE55269, 0x627B49A1, 0x7CD45C9D, 0xF0000, 0xFB50753A, 0xEC6765E8, 0xBA3C2BE2,
    0x60C000, 0x3A37CD05, 0x458546F4, 0xB8599DD6, 0x380A1A26, 0x1E02203, 0xE7CC3456, 0xE6E60B69,
    0xF60A00, 0x5795EF4F, 0x822E0879]"
  by (simp add: sha1_schedule_def abc_block_def be_word_def le_word_def slice_def rol_def upt_rec)

lemma abc_rounds_0: "fold (sha1_round [0x61626380, 0, 0, 0, 0, 0, 0, 0, 0, 0, 0, 0, 0, 0, 0, 0x18, 0xC2C4C700, 0, 0x30,
    0x85898E01, 0, 0x60, 0xB131C03, 0x30, 0x85898EC1, 0x16263806, 0, 0x180, 0x2C4C700C, 0xF0,
    0x93AFB507, 0x5898E048, 0x8E9A9202, 0x600, 0xB131C0F0, 0x16263BC6, 0x4EBED41E, 0x626380A1,
    0x16263806, 0x18C0, 0xD2E138C4, 0xF00, 0x3AFB5079, 0x898E04E5, 0xE2BA3C2B, 0x60C0,
    0x53A37CD, 0x74458547, 0xDA9415ED, 0x26380A16, 0x626383A1, 0x4EBF54DE, 0x3835B44B, 0xF600,
    0x1E84C7A3, 0x98E04D98, 0x651D16A0, 0x62658CA1, 0x458544D6, 0x44584CB7, 0x7BA06619,
    0x6380AEA2, 0xAE55269, 0x627B49A1, 0x7CD45C9D, 0xF0000, 0xFB50753A, 0xEC6765E8, 0xBA3C2BE2,
    0x60C000, 0x3A37CD05, 0x458546F4, 0xB8599DD6, 0x380A1A26, 0x1E02203, 0xE7CC3456, 0xE6E60B69,
    0xF60A00, 0x5795EF4F, 0x822E0879])
    [0..<20] (0x67452301, 0xEFCDAB89, 0x98BADCFE, 0x10325476, 0xC3D2E1F0) = (0xFD9E1D7D, 0xDC64901D, 0x20AA99CA, 0xD3A49608, 0xC82F758B)"
  by (simp add: sha_eval)

lemma abc_rounds_1: "fold (sha1_round [0x61626380, 0, 0, 0, 0, 0, 0, 0, 0, 0, 0, 0, 0, 0, 0, 0x18, 0xC2C4C700, 0, 0x30,
    0x85898E01, 0, 0x60, 0xB131C03, 0x30, 0x85898EC1, 0x16263806, 0, 0x180, 0x2C4C700C, 0xF0,
    0x93AFB507, 0x5898E048, 0x8E9A9202, 0x600, 0xB131C0F0, 0x16263BC6, 0x4EBED41E, 0x626380A1,
    0x16263806, 0x18C0, 0xD2E138C4, 0xF00, 0x3AFB5079, 0x898E04E5, 0xE2BA3C2B, 0x60C0,
    0x53A37CD, 0x74458547, 0xDA9415ED, 0x26380A16, 0x626383A1, 0x4EBF54DE, 0x3835B44B, 0xF600,
    0x1E84C7A3, 0x98E04D98, 0x651D16A0, 0x62658CA1, 0x458544D6, 0x44584CB7, 0x7BA06619,
    0x6380AEA2, 0xAE55269, 0x627B49A1, 0x7CD45C9D, 0xF0000, 0xFB50753A, 0xEC6765E8, 0xBA3C2BE2,
    0x60C000, 0x3A37CD05, 0x458546F4, 0xB8599DD6, 0x380A1A26, 0x1E02203, 0xE7CC3456, 0xE6E60B69,
    0xF60A00, 0x5795EF4F, 0x822E0879])
    [20..<40] (0xFD9E1D7D, 0xDC64901D, 0x20AA99CA, 0xD3A49608, 0xC82F758B) = (0x32DE1CBA, 0x4C986405, 0xF718E5CF, 0x3D447F6, 0xF72EEC32)"
  by (simp add: sha_eval)

lemma abc_rounds_2: "fold (sha1_round [0x61626380, 0, 0, 0, 0, 0, 0, 0, 0, 0, 0, 0, 0, 0, 0, 0x18, 0xC2C4C700, 0, 0x30,
    0x85898E01, 0, 0x60, 0xB131C03, 0x30, 0x85898EC1, 0x16263806, 0, 0x180, 0x2C4C700C, 0xF0,
    0x93AFB507, 0x5898E048, 0x8E9A9202, 0x600, 0xB131C0F0, 0x16263BC6, 0x4EBED41E, 0x626380A1,
    0x16263806, 0x18C0, 0xD2E138C4, 0xF00, 0x3AFB5079, 0x898E04E5, 0xE2BA3C2B, 0x60C0,
    0x53A37CD, 0x74458547, 0xDA9415ED, 0x26380A16, 0x626383A1, 0x4EBF54DE, 0x3835B44B, 0xF600,
    0x1E84C7A3, 0x98E04D98, 0x651D16A0, 0x62658CA1, 0x458544D6, 0x44584CB7, 0x7BA06619,
    0x6380AEA2, 0xAE55269, 0x627B49A1, 0x7CD45C9D, 0xF0000, 0xFB50753A, 0xEC6765E8, 0xBA3C2BE2,
    0x60C000, 0x3A37CD05, 0x458546F4, 0xB8599DD6, 0x380A1A26, 0x1E02203, 0xE7CC3456, 0xE6E60B69,
    0xF60A00, 0x5795EF4F, 0x822E0879])
    [40..<60] (0x32DE1CBA, 0x4C986405, 0xF718E5CF, 0x3D447F6, 0xF72EEC32) = (0x3F52DE5A, 0x9D785FD, 0x3498BFD4, 0xF211824F, 0xD79915AB)"
  by (simp add: sha_eval)

lemma abc_rounds_3: "fold (sha1_round [0x61626380, 0, 0, 0, 0, 0, 0, 0, 0, 0, 0, 0, 0, 0, 0, 0x18, 0xC2C4C700, 0, 0x30,
    0x85898E01, 0, 0x60, 0xB131C03, 0x30, 0x85898EC1, 0x16263806, 0, 0x180, 0x2C4C700C, 0xF0,
    0x93AFB507, 0x5898E048, 0x8E9A9202, 0x600, 0xB131C0F0, 0x16263BC6, 0x4EBED41E, 0x626380A1,
    0x16263806, 0x18C0, 0xD2E138C4, 0xF00, 0x3AFB5079, 0x898E04E5, 0xE2BA3C2B, 0x60C0,
    0x53A37CD, 0x74458547, 0xDA9415ED, 0x26380A16, 0x626383A1, 0x4EBF54DE, 0x3835B44B, 0xF600,
    0x1E84C7A3, 0x98E04D98, 0x651D16A0, 0x62658CA1, 0x458544D6, 0x44584CB7, 0x7BA06619,
    0x6380AEA2, 0xAE55269, 0x627B49A1, 0x7CD45C9D, 0xF0000, 0xFB50753A, 0xEC6765E8, 0xBA3C2BE2,
    0x60C000, 0x3A37CD05, 0x458546F4, 0xB8599DD6, 0x380A1A26, 0x1E02203, 0xE7CC3456, 0xE6E60B69,
    0xF60A00, 0x5795EF4F, 0x822E0879])
    [60..<80] (0x3F52DE5A, 0x9D785FD, 0x3498BFD4, 0xF211824F, 0xD79915AB) = (0x42541B35, 0x5738D5E1, 0x21834873, 0x681E6DF6, 0xD8FDF6AD)"
  by (simp add: sha_eval)

lemma abc_digest: "sha1_block (sha_h sha1_init) abc_block =
    [0xA9993E36, 0x4706816A, 0xBA3E2571, 0x7850C26C, 0x9CD0D89D]"
proof -
  have "[0..<80] = [0..<20] @ [20..<40] @ [40..<60] @ [60..<80]"
    by (simp add: upt_add_eq_append [of 0 20 60, simplified] upt_add_eq_append [of 20 20 40, simplified]
        upt_add_eq_append [of 40 20 20, simplified])
  then show ?thesis
    by (simp only: sha1_block_def abc_schedule Let_def fold_append comp_apply sha1_init_def sha1_ctx.simps)
       (simp add: abc_rounds_0 abc_rounds_1 abc_rounds_2 abc_rounds_3 del: upt_rec_numeral upt_Suc)
qed

text \<open>
  The hash is SHA-1: the example of FIPS 180, the digest of \<open>abc\<close>.
\<close>

theorem sha1_fips180: "sha1 [0x61, 0x62, 0x63] = Some
    [0xA9, 0x99, 0x3E, 0x36, 0x47, 6, 0x81, 0x6A, 0xBA, 0x3E, 0x25, 0x71, 0x78, 0x50, 0xC2,
    0x6C, 0x9C, 0xD0, 0xD8, 0x9D]"
proof -
  have "replicate 52 (0 :: u8) = [0, 0, 0, 0, 0, 0, 0, 0, 0, 0, 0, 0, 0, 0, 0, 0, 0, 0, 0, 0, 0, 0, 0, 0, 0, 0,
      0, 0, 0, 0, 0, 0, 0, 0, 0, 0, 0, 0, 0, 0, 0, 0, 0, 0, 0, 0, 0, 0, 0, 0, 0, 0]"
    by (simp add: numeral_eq_Suc)
  then have "sha1_pad [0x61, 0x62, 0x63] = abc_block"
    by (simp add: sha1_pad_def abc_block_def be_bytes_def le_bytes_conv upt_rec)
  then have "blocks64 (sha1_pad [0x61, 0x62, 0x63]) = [abc_block]"
    by (simp add: blocks64.simps abc_block_def)
  then show ?thesis
    by (simp add: sha1_total sha1_spec_def abc_digest be_bytes_def le_bytes_conv upt_rec)
qed

end
