(* ===== verification/PnWindow.thy ===== *)
theory PnWindow
  imports Prelude
begin

text \<open>
  The receive replay filter of src/Wpa2Supplicant.h: the highest packet number seen and a bitmap
  of those at and below it. The bitmap is an array of \<open>PN_WIN_WORDS\<close> words that the code updates
  in place; it is a list here, and its indices are those of the code.
\<close>

section \<open>The window\<close>

abbreviation (input) PN_WIN_WORDS :: nat where "PN_WIN_WORDS \<equiv> 1"

definition winClear :: "u64 list \<Rightarrow> u64 list" where
  "winClear w = fold (\<lambda>i w. w[i := 0]) [0..<PN_WIN_WORDS] w"

definition winTest :: "u64 list \<Rightarrow> nat \<Rightarrow> bool" where
  "winTest w b = bit (w ! (b div 64)) (b mod 64)"

definition winSet :: "u64 list \<Rightarrow> nat \<Rightarrow> u64 list" where
  "winSet w b = w[b div 64 := w ! (b div 64) OR push_bit (b mod 64) 1]"

text \<open>The loop goes down the array, so that every word is read before it is overwritten.\<close>

definition winShift :: "u64 list \<Rightarrow> u64 \<Rightarrow> u64 list" where
  "winShift w n =
    (if unat n \<ge> PN_WIN_WORDS * 64 then winClear w
     else
       let words = unat n div 64; bits = unat n mod 64 in
       fold (\<lambda>i w.
           let v = (if i \<ge> words then w ! (i - words) else 0);
               lo = (if bits \<noteq> 0 \<and> i \<ge> words + 1 then drop_bit (64 - bits) (w ! (i - words - 1)) else 0)
           in w[i := (if bits \<noteq> 0 then push_bit bits v else v) OR lo])
         (rev [0..<PN_WIN_WORDS]) w)"

type_synonym pn_state = "u64 \<times> u64 list"

definition pn_init :: pn_state where
  "pn_init = (0, replicate PN_WIN_WORDS 0)"

definition pnWindowCheck :: "pn_state \<Rightarrow> u64 \<Rightarrow> bool \<times> pn_state" where
  "pnWindowCheck s p = (case s of (highest, win) \<Rightarrow>
     if highest = 0 \<and> list_all (\<lambda>x. x = 0) win then (True, (p, winSet win 0))
     else if p > highest then (True, (p, winSet (winShift win (p - highest)) 0))
     else
       let diff = unat (highest - p) in
       if diff \<ge> PN_WIN_WORDS * 64 then (False, s)
       else if winTest win diff then (False, s)
       else (True, (highest, winSet win diff)))"

section \<open>Replay filters\<close>

text \<open>
  The contract of a replay filter: \<open>rel s A\<close> says that state \<open>s\<close> stands for the set \<open>A\<close> of accepted
  numbers. What is accepted was not in it and is added; what is rejected leaves it. A filter that
  also accepts every number within a distance of the newest is the receive window of a link that
  reorders.
\<close>

locale replay_filter =
  fixes check :: "'s \<Rightarrow> 'p \<Rightarrow> bool \<times> 's"
    and init :: 's
    and rel :: "'s \<Rightarrow> 'p set \<Rightarrow> bool"
  assumes rel_init: "rel init {}"
    and accept: "rel s A \<Longrightarrow> check s p = (True, s') \<Longrightarrow> p \<notin> A \<and> rel s' (insert p A)"
    and reject: "rel s A \<Longrightarrow> check s p = (False, s') \<Longrightarrow> rel s' A"
begin

text \<open>The numbers that pass, in their order of arrival.\<close>

primrec passed :: "'s \<Rightarrow> 'p list \<Rightarrow> 'p list" where
  "passed s [] = []"
| "passed s (p # ps) = (case check s p of (ok, s') \<Rightarrow> (if ok then [p] else []) @ passed s' ps)"

primrec final :: "'s \<Rightarrow> 'p list \<Rightarrow> 's" where
  "final s [] = s"
| "final s (p # ps) = final (snd (check s p)) ps"

lemma passed_fresh: "rel s A \<Longrightarrow> distinct (passed s ps) \<and> set (passed s ps) \<inter> A = {}"
proof (induction ps arbitrary: s A)
  case (Cons p ps)
  obtain ok s' where c: "check s p = (ok, s')" by (cases "check s p")
  show ?case
  proof (cases ok)
    case True
    then have "p \<notin> A" "rel s' (insert p A)" using accept Cons.prems c by simp_all
    then show ?thesis using Cons.IH [of s' "insert p A"] c True by auto
  next
    case False
    then have "rel s' A" using reject Cons.prems c by simp
    then show ?thesis using Cons.IH [of s' A] c False by simp
  qed
qed simp

lemma final_rel: "rel s A \<Longrightarrow> rel (final s ps) (A \<union> set (passed s ps))"
proof (induction ps arbitrary: s A)
  case (Cons p ps)
  obtain ok s' where c: "check s p = (ok, s')" by (cases "check s p")
  show ?case
  proof (cases ok)
    case True
    then have "rel s' (insert p A)" using accept Cons.prems c by simp
    then show ?thesis using Cons.IH [of s' "insert p A"] c True by simp
  next
    case False
    then have "rel s' A" using reject Cons.prems c by simp
    then show ?thesis using Cons.IH [of s' A] c False by simp
  qed
qed simp

lemma no_replay: "distinct (passed init ps)"
  using passed_fresh [OF rel_init] by simp

end

section \<open>The window is a replay filter\<close>

text \<open>The numbers accepted so far, as far as the window still knows them.\<close>

definition pn_rel :: "pn_state \<Rightarrow> u64 set \<Rightarrow> bool" where
  "pn_rel s A = (case s of (highest, win) \<Rightarrow> length win = PN_WIN_WORDS \<and>
    (if A = {} then highest = 0 \<and> win = replicate PN_WIN_WORDS 0
     else highest \<in> A \<and> (\<forall>q\<in>A. q \<le> highest) \<and>
       (\<forall>i<64. winTest win i \<longleftrightarrow> i \<le> unat highest \<and> highest - of_nat i \<in> A)))"

lemma winShift_1: "winShift [x] n = [if unat n \<ge> 64 then 0 else push_bit (unat n) x]"
  by (simp add: winShift_def winClear_def Let_def)

lemma winSet_1: "b < 64 \<Longrightarrow> winSet [x] b = [x OR push_bit b 1]"
  by (simp add: winSet_def)

lemma winTest_1: "b < 64 \<Longrightarrow> winTest [x] b = bit x b"
  by (simp add: winTest_def)

lemma pn_rel_1:
  "pn_rel (h, w) A \<longleftrightarrow> (\<exists>x. w = [x] \<and>
    (if A = {} then h = 0 \<and> x = 0
     else h \<in> A \<and> (\<forall>q\<in>A. q \<le> h) \<and> (\<forall>i<64. bit x i \<longleftrightarrow> i \<le> unat h \<and> h - of_nat i \<in> A)))"
  by (cases w) (auto simp: pn_rel_def winTest_1)

lemma pn_word_nonzero:
  assumes "A \<noteq> {}" "pn_rel (h, [x]) A"
  shows "x \<noteq> 0"
proof
  assume "x = 0"
  moreover have "bit x 0" using assms by (simp add: pn_rel_1)
  ultimately show False by simp
qed

text \<open>What the check decides, in terms of the accepted numbers.\<close>

lemma pn_check_spec:
  assumes "pn_rel (h, w) A"
  shows "(fst (pnWindowCheck (h, w) p) \<longleftrightarrow> p \<notin> A \<and> (A = {} \<or> h < p \<or> unat h - unat p < 64)) \<and>
    pn_rel (snd (pnWindowCheck (h, w) p)) (if fst (pnWindowCheck (h, w) p) then insert p A else A)"
proof (cases "A = {}")
  case True
  then have e: "h = 0" "w = [0]" using assms by (auto simp: pn_rel_1)
  have "p = p - of_nat i \<longleftrightarrow> i = 0" if "i < 64" for i
    using that by (auto simp: word_of_nat_eq_0_iff dest: nat_dvd_not_less)
  then show ?thesis
    using True e by (auto simp: pnWindowCheck_def pn_rel_1 winSet_1 bit_simps)
next
  case ne: False
  obtain x where w: "w = [x]" using assms by (auto simp: pn_rel_1)
  have h: "h \<in> A" "\<And>q. q \<in> A \<Longrightarrow> q \<le> h"
    and bits: "\<And>i. i < 64 \<Longrightarrow> bit x i \<longleftrightarrow> i \<le> unat h \<and> h - of_nat i \<in> A"
    using assms ne w by (auto simp: pn_rel_1)
  have x: "x \<noteq> 0" using pn_word_nonzero ne assms w by blast
  show ?thesis
  proof (cases "h < p")
    case True
    have "p \<notin> A" using True h(2) [of p] by auto
    define n where "n = unat (p - h)"
    have un: "unat p = unat h + n" using True by (simp add: n_def unat_sub_if' word_less_nat_alt)
    have n0: "0 < n" using True un by (simp add: word_less_nat_alt)
    have pn: "p = h + of_nat n" by (simp add: n_def)
    have sh: "winShift [x] (p - h) = [if n \<ge> 64 then 0 else push_bit n x]"
      by (simp add: winShift_1 n_def)
    have key: "bit (winShift [x] (p - h) ! 0 OR 1) i \<longleftrightarrow> i \<le> unat p \<and> p - of_nat i \<in> insert p A"
      if i: "i < 64" for i
    proof (cases "i = 0")
      case False
      have ne': "p - of_nat i \<noteq> p" using i False by (auto simp: word_of_nat_eq_0_iff dest: nat_dvd_not_less)
      show ?thesis
      proof (cases "n \<le> i")
        case True
        then have e: "p - of_nat i = h - of_nat (i - n)" by (simp add: pn)
        have "n \<le> i" by (rule True)
        then show ?thesis
          using False i ne' bits [of "i - n"] un
          unfolding sh e by (auto simp: bit_simps)
      next
        case lt: False
        have "unat p - i > unat h" using lt un by simp
        then have "p - of_nat i \<notin> A" if "i \<le> unat p"
        proof -
          have "unat (p - of_nat i) = unat p - i"
            using that i by (simp add: unat_sub_if' unat_of_nat)
          then show ?thesis using \<open>unat p - i > unat h\<close> h(2) by (force simp: word_le_nat_alt)
        qed
        then show ?thesis
          using lt False i ne' unfolding sh by (auto simp: bit_simps)
      qed
    qed (simp add: bit_simps)
    have "pnWindowCheck (h, w) p = (True, (p, [winShift [x] (p - h) ! 0 OR 1]))"
      using True x by (simp add: pnWindowCheck_def w winShift_1 winSet_1)
    moreover have "pn_rel (p, [winShift [x] (p - h) ! 0 OR 1]) (insert p A)"
      using key order.trans [OF h(2) less_imp_le [OF True]] by (auto simp: pn_rel_1)
    ultimately show ?thesis using True \<open>p \<notin> A\<close> by simp
  next
    case le: False
    then have ph: "unat p \<le> unat h" by (simp add: word_less_nat_alt)
    then have d: "unat (h - p) = unat h - unat p" by (simp add: unat_sub_if' word_le_nat_alt)
    have hp: "h - of_nat (unat h - unat p) = p"
      using ph by (simp add: of_nat_diff)
    show ?thesis
    proof (cases "unat h - unat p < 64")
      case False
      then show ?thesis using le x assms ne by (simp add: pnWindowCheck_def w Let_def d)
    next
      case near: True
      let ?d = "unat h - unat p"
      have t: "winTest [x] ?d \<longleftrightarrow> p \<in> A"
        using bits [OF near] hp by (simp add: winTest_1 near)
      show ?thesis
      proof (cases "p \<in> A")
        case True
        then show ?thesis using le near x t assms by (simp add: pnWindowCheck_def w Let_def d)
      next
        case False
        have "pnWindowCheck (h, w) p = (True, (h, [x OR push_bit ?d 1]))"
          using le near x t False by (simp add: pnWindowCheck_def w Let_def d winSet_1)
        moreover have "bit (x OR push_bit ?d 1) i \<longleftrightarrow> i \<le> unat h \<and> h - of_nat i \<in> insert p A"
          if i: "i < 64" for i
        proof -
          have "h - of_nat i = p \<longleftrightarrow> i = ?d" if "i \<le> unat h"
          proof
            assume "h - of_nat i = p"
            then have "unat p = unat h - i" using that i by (auto simp: unat_sub_if' unat_of_nat)
            then show "i = ?d" using that by simp
          qed (use hp in simp)
          then show ?thesis using i near bits [OF i] by (auto simp: bit_simps)
        qed
        ultimately show ?thesis
          using le near False h ph by (auto simp: pn_rel_1 word_le_nat_alt)
      qed
    qed
  qed
qed

interpretation pn: replay_filter pnWindowCheck pn_init pn_rel
proof unfold_locales
  show "pn_rel pn_init {}" by (simp add: pn_rel_def pn_init_def)
next
  fix s A p s' assume "pn_rel s A" "pnWindowCheck s p = (True, s')"
  then show "p \<notin> A \<and> pn_rel s' (insert p A)"
    using pn_check_spec [of "fst s" "snd s" A p] by simp
next
  fix s A p s' assume "pn_rel s A" "pnWindowCheck s p = (False, s')"
  then show "pn_rel s' A" using pn_check_spec [of "fst s" "snd s" A p] by simp
qed


text \<open>
  No packet number passes the receive filter twice. For every sequence of packet numbers that
  arrives at a fresh window, the accepted ones are pairwise different.
\<close>

theorem pnWindow_no_replay: "distinct (pn.passed pn_init ps)"
  by (rule pn.no_replay)

text \<open>
  The filter loses no fresh frame inside the window. After any sequence of arrivals, the next
  number is accepted exactly when it has not been accepted before and is newer than the newest
  accepted one or fewer than 64 below it.
\<close>

theorem pnWindow_accepts_reordered:
  "fst (pnWindowCheck (pn.final pn_init ps) p) \<longleftrightarrow>
    (let A = set (pn.passed pn_init ps); newest = fst (pn.final pn_init ps) in
     p \<notin> A \<and> (A = {} \<or> newest < p \<or> unat newest - unat p < 64))"
proof -
  have "pn_rel (pn.final pn_init ps) (set (pn.passed pn_init ps))"
    using pn.final_rel [OF pn.rel_init, of ps] by simp
  then show ?thesis
    using pn_check_spec [of "fst (pn.final pn_init ps)" "snd (pn.final pn_init ps)"] by (simp add: Let_def)
qed

end
