(* ===== verification/Dot11Frames.thy ===== *)
theory Dot11Frames
  imports Prelude
begin

text \<open>
  The 802.11 management and EAPOL frames the driver sends (src/Dot11Frames.cpp) and the parser of
  received beacons (src/ScanProbe.cpp). A hardware address is a list of six bytes; an SSID is the
  list of its bytes.
\<close>

section \<open>Frame builders\<close>

definition put_le16 :: "u16 \<Rightarrow> bytes" where
  "put_le16 v = [ucast (v AND 0xFF), ucast (drop_bit 8 v)]"

definition put_hdr :: "u16 \<Rightarrow> bytes \<Rightarrow> bytes \<Rightarrow> bytes \<Rightarrow> u16 \<Rightarrow> bytes" where
  "put_hdr fc a1 a2 a3 seq = put_le16 fc @ [0, 0] @ a1 @ a2 @ a3 @ put_le16 (push_bit 4 seq)"

definition FC_MGMT :: u16 where "FC_MGMT = 0x0000"
definition FC_SUB_ASSOC_REQ :: u16 where "FC_SUB_ASSOC_REQ = 0x0000"
definition FC_SUB_AUTH :: u16 where "FC_SUB_AUTH = 0x00B0"
definition FC_SUB_BEACON :: u16 where "FC_SUB_BEACON = 0x0080"
definition FC_DATA :: u16 where "FC_DATA = 0x0008"
definition FC_TODS :: u16 where "FC_TODS = 0x0100"
definition FC_FROMDS :: u16 where "FC_FROMDS = 0x0200"

lemmas fc_defs = FC_MGMT_def FC_SUB_ASSOC_REQ_def FC_SUB_AUTH_def FC_SUB_BEACON_def FC_DATA_def
  FC_TODS_def FC_FROMDS_def

definition BuildAuthOpenSeq1 :: "bytes \<Rightarrow> bytes \<Rightarrow> bytes" where
  "BuildAuthOpenSeq1 self bssid =
    put_hdr (FC_MGMT OR FC_SUB_AUTH) bssid self bssid 0 @ put_le16 0 @ put_le16 1 @ put_le16 0"

definition rsnIe :: bytes where
  "rsnIe = [0x30,0x14, 0x01,0x00, 0x00,0x0f,0xac,0x04,
     0x01,0x00, 0x00,0x0f,0xac,0x04, 0x01,0x00, 0x00,0x0f,0xac,0x02, 0x00,0x00]"

definition appendRsnIe :: "bytes \<Rightarrow> bytes" where
  "appendRsnIe f = f @ rsnIe"

definition basic_rates :: bytes where
  "basic_rates = [0x82,0x84,0x8b,0x96,0x0c,0x12,0x18,0x24]"

text \<open>An information element; the length goes into one byte.\<close>

definition put_ie :: "u8 \<Rightarrow> bytes \<Rightarrow> bytes" where
  "put_ie i d = i # of_nat (length d) # d"

definition BuildBeacon :: "bytes \<Rightarrow> bytes \<Rightarrow> u8 \<Rightarrow> bool \<Rightarrow> bytes" where
  "BuildBeacon self ssid channel wpa2 =
    (let f = put_hdr (FC_MGMT OR FC_SUB_BEACON) (replicate 6 0xFF) self self 0 @ replicate 8 0 @
           put_le16 100 @ put_le16 (if wpa2 then 0x0011 else 0x0001) @
           put_ie 0x00 ssid @ put_ie 0x01 basic_rates @ put_ie 0x03 [channel]
     in if wpa2 then appendRsnIe f else f)"

definition BuildAuthResp :: "bytes \<Rightarrow> bytes \<Rightarrow> bytes" where
  "BuildAuthResp ap sta =
    put_hdr (FC_MGMT OR FC_SUB_AUTH) sta ap ap 0 @ put_le16 0 @ put_le16 2 @ put_le16 0"

definition BuildAssocResp :: "bytes \<Rightarrow> bytes \<Rightarrow> u16 \<Rightarrow> bytes" where
  "BuildAssocResp ap sta aid =
    put_hdr (FC_MGMT OR 0x0010) sta ap ap 0 @ put_le16 0x0011 @ put_le16 0 @
    put_le16 (0xC000 OR (aid AND 0x3FFF)) @ put_ie 0x01 basic_rates"

definition BuildProbeResp :: "bytes \<Rightarrow> bytes \<Rightarrow> bytes \<Rightarrow> u8 \<Rightarrow> bool \<Rightarrow> bytes" where
  "BuildProbeResp ap sta ssid channel wpa2 =
    (let f = put_hdr (FC_MGMT OR 0x0050) sta ap ap 0 @ replicate 8 0 @
           put_le16 100 @ put_le16 (if wpa2 then 0x0011 else 0x0001) @
           put_ie 0x00 ssid @ put_ie 0x01 basic_rates @ put_ie 0x03 [channel]
     in if wpa2 then appendRsnIe f else f)"

text \<open>The elements after the RSN element: WMM, HT and VHT capabilities, operating mode, extended capabilities.\<close>

definition assoc_tail :: bytes where
  "assoc_tail = [
     0xdd,0x07, 0x00,0x50,0xf2,0x02,0x00,0x01,0x00,
     0x2d,0x1a, 0x2c,0x19,0x13,0xff,0xff,
       0x00,0x00,0x00,0x00,0x00,0x00,0x00,0x00,0x00,0x00,
       0x00,0x00,0x00,0x00,0x00,0x00,0x00,0x00,0x00,0x00,0x00,
     0xbf,0x0c, 0xa2,0x31,0xc0,0x03,0xfa,0xff,0x63,0x03,0xfa,0xff,0x63,0x03,
     0xc7,0x01, 0x12,
     0x7f,0x08, 0x00,0x00,0x00,0x00,0x00,0x00,0x00,0x40]"

text \<open>\<open>ofdm_rates\<close> is the environment variable \<open>DEVOURER_OFDM_RATES\<close>.\<close>

definition BuildAssocRequest :: "bool \<Rightarrow> bytes \<Rightarrow> bytes \<Rightarrow> bytes \<Rightarrow> u16 \<Rightarrow> bytes" where
  "BuildAssocRequest ofdm_rates self bssid ssid rsnCaps =
    put_hdr (FC_MGMT OR FC_SUB_ASSOC_REQ) bssid self bssid 0 @ put_le16 0x1531 @ put_le16 3 @
    put_ie 0x00 ssid @
    (if ofdm_rates then put_ie 0x01 [0x8c,0x12,0x98,0x24,0xb0,0x48,0x60,0x6c]
     else put_ie 0x01 basic_rates @ put_ie 0x32 [0x30,0x48,0x60,0x6c]) @
    (let f = put_ie 0x30 [0x01,0x00, 0x00,0x0f,0xac,0x04, 0x01,0x00, 0x00,0x0f,0xac,0x04,
           0x01,0x00, 0x00,0x0f,0xac,0x02, 0x00,0x00]
     in f[length f - 2 := ucast (rsnCaps AND 0xff), length f - 1 := ucast (drop_bit 8 rsnCaps)]) @
    assoc_tail"

text \<open>
  The variant for negotiated ciphers. The loop looks for the last byte \<open>0x30\<close> that has a byte
  behind it and cuts the frame before it.
\<close>

primrec cut_at :: "bytes \<Rightarrow> nat \<Rightarrow> bytes" where
  "cut_at f 0 = f"
| "cut_at f (Suc i) = (if f ! i = 0x30 \<and> i + 1 < length f then take i f else cut_at f i)"

definition BuildAssocRequest_negotiated :: "bool \<Rightarrow> bytes \<Rightarrow> bytes \<Rightarrow> bytes \<Rightarrow> u32 \<Rightarrow> u32 \<Rightarrow> u16 \<Rightarrow> bytes" where
  "BuildAssocRequest_negotiated ofdm_rates self bssid ssid pairwiseCipher groupCipher rsnCaps =
    (let f = BuildAssocRequest ofdm_rates self bssid ssid rsnCaps in
     if pairwiseCipher = 0x000FAC04 \<and> groupCipher = 0x000FAC04 then f
     else cut_at f (length f) @ [0x30, 20, 0x01, 0x00] @ be_bytes 4 groupCipher @ [0x01, 0x00] @
       be_bytes 4 pairwiseCipher @ [0x01, 0x00] @ be_bytes 4 (0x000FAC02 :: u32) @
       [ucast (rsnCaps AND 0xff), ucast (drop_bit 8 rsnCaps)])"

definition eapol_snap :: bytes where
  "eapol_snap = [0xaa,0xaa,0x03,0x00,0x00,0x00,0x88,0x8e]"

definition BuildEapolKey :: "bytes \<Rightarrow> bytes \<Rightarrow> bytes \<Rightarrow> bytes" where
  "BuildEapolKey self bssid keyBody = put_hdr (FC_DATA OR FC_TODS) bssid self bssid 0 @ eapol_snap @ keyBody"

definition BuildEapolKeyFromAp :: "bytes \<Rightarrow> bytes \<Rightarrow> bytes \<Rightarrow> bytes" where
  "BuildEapolKeyFromAp ap sta keyBody = put_hdr (FC_DATA OR FC_FROMDS) sta ap ap 0 @ eapol_snap @ keyBody"

section \<open>The beacon parser\<close>

record ApInfo =
  ap_bssid :: bytes
  ap_channel :: int
  ap_found :: bool
  ap_groupCipher :: u32
  ap_pairwise :: "u32 list"
  ap_akm :: "u32 list"
  ap_rsnPresent :: bool
  ap_rssi :: int

definition no_ap :: ApInfo where
  "no_ap = \<lparr>ap_bssid = replicate 6 0, ap_channel = 0, ap_found = False, ap_groupCipher = 0,
     ap_pairwise = [], ap_akm = [], ap_rsnPresent = False, ap_rssi = -127\<rparr>"

definition suite :: "bytes \<Rightarrow> u32" where
  "suite p = be_word (take 4 p)"

text \<open>At most \<open>k\<close> suites from the front, and what is behind them.\<close>

fun suites :: "nat \<Rightarrow> bytes \<Rightarrow> u32 list \<times> bytes" where
  "suites 0 d = ([], d)"
| "suites (Suc k) d =
    (if 4 \<le> length d then (let (ss, r) = suites k (drop 4 d) in (suite d # ss, r)) else ([], d))"

definition count16 :: "bytes \<Rightarrow> nat" where
  "count16 d = unat ((ucast (d ! 0) OR push_bit 8 (ucast (d ! 1))) :: u16)"

definition parse_rsn :: "bytes \<Rightarrow> ApInfo \<Rightarrow> ApInfo" where
  "parse_rsn d tmp =
    (let (pw, r) = suites (count16 (drop 6 d)) (drop 8 d);
         akm = (if 2 \<le> length r then fst (suites (count16 r) (drop 2 r)) else [])
     in tmp\<lparr>ap_rsnPresent := True, ap_groupCipher := suite (drop 2 d),
          ap_pairwise := ap_pairwise tmp @ pw, ap_akm := ap_akm tmp @ akm\<rparr>)"

type_synonym scan_state = "bytes \<times> int \<times> ApInfo"

definition parse_ie :: "u8 \<Rightarrow> bytes \<Rightarrow> scan_state \<Rightarrow> scan_state" where
  "parse_ie i d = (\<lambda>(foundSsid, channel, tmp).
     if i = 0 then (d, channel, tmp)
     else if i = 3 \<and> length d \<ge> 1 then (foundSsid, uint (d ! 0), tmp)
     else if i = 48 \<and> length d \<ge> 8 then (foundSsid, channel, parse_rsn d tmp)
     else (foundSsid, channel, tmp))"

fun parse_ies :: "bytes \<Rightarrow> scan_state \<Rightarrow> scan_state" where
  "parse_ies (i # l # r) st =
    (if unat l > length r then st else parse_ies (drop (unat l) r) (parse_ie i (take (unat l) r) st))"
| "parse_ies _ st = st"

definition parseAnyBeacon :: "bytes \<Rightarrow> (bytes \<times> ApInfo) option" where
  "parseAnyBeacon f =
    (if length f < 36 then None
     else
       let fc = ucast (f ! 0) OR push_bit 8 (ucast (f ! 1)) :: u16;
           sub = drop_bit 4 fc AND 0xF in
       if drop_bit 2 fc AND 0x3 \<noteq> 0 then None
       else if sub \<noteq> 0x8 \<and> sub \<noteq> 0x5 then None
       else
         let (foundSsid, channel, tmp) = parse_ies (drop 36 f) ([], 0, no_ap\<lparr>ap_bssid := slice 16 6 f\<rparr>)
         in Some (foundSsid, tmp\<lparr>ap_channel := channel, ap_found := True\<rparr>))"

definition parseBeacon :: "bytes \<Rightarrow> bytes \<Rightarrow> ApInfo option" where
  "parseBeacon f ssid =
    (case parseAnyBeacon f of None \<Rightarrow> None | Some (found, tmp) \<Rightarrow> if found \<noteq> ssid then None else Some tmp)"

definition chooseCipher :: "u32 list \<Rightarrow> u32" where
  "chooseCipher adv =
    (if 0x000FAC04 \<in> set adv then 0x000FAC04
     else if 0x000FAC09 \<in> set adv then 0x000FAC09
     else case List.find (\<lambda>s. s = 0x000FAC04 \<or> s = 0x000FAC0A) adv of
       Some s \<Rightarrow> s
     | None \<Rightarrow> (if adv = [] then 0x000FAC04 else hd adv))"

section \<open>What the parser reads from the builders\<close>

lemma length_put_le16 [simp]: "length (put_le16 v) = 2"
  by (simp add: put_le16_def)

lemma length_put_ie [simp]: "length (put_ie i d) = length d + 2"
  by (simp add: put_ie_def)

lemma parse_ies_put_ie [simp]:
  "length d < 256 \<Longrightarrow> parse_ies (put_ie i d @ r) st = parse_ies r (parse_ie i d st)"
  by (simp add: put_ie_def unat_of_nat)

lemma parse_rsnIe:
  "parse_ies rsnIe (s, c, no_ap\<lparr>ap_bssid := b\<rparr>) =
    (s, c, no_ap\<lparr>ap_bssid := b, ap_rsnPresent := True, ap_groupCipher := 0x000FAC04,
       ap_pairwise := [0x000FAC04], ap_akm := [0x000FAC02]\<rparr>)"
  by (simp add: rsnIe_def parse_ie_def parse_rsn_def suite_def count16_def no_ap_def be_word_def le_word_def)

lemma drop_both: "length xs = m \<Longrightarrow> length ys = n \<Longrightarrow> drop (m + n) (xs @ ys @ zs) = zs"
  by simp

lemma put_hdr_fc: "put_hdr fc a1 a2 a3 s = ucast (fc AND 0xFF) # ucast (drop_bit 8 fc) # 0 # 0 # a1 @ a2 @ a3 @ put_le16 (push_bit 4 s)"
  by (simp add: put_hdr_def put_le16_def)

text \<open>
  C35: what the access point advertises is what a station reads. For every address, every SSID of
  at most 255 bytes and every channel, the parser of received frames takes from a beacon built by
  \<open>BuildBeacon\<close> (and from a probe response) the sender as BSSID, the SSID and the channel and,
  with WPA2, CCMP as the group and only pairwise cipher and PSK as the only key management.
\<close>

theorem beacon_roundtrip:
  assumes "length self = 6" and "length sta = 6" and "length ssid < 256"
  shows "parseAnyBeacon (BuildBeacon self ssid ch wpa2) = parseAnyBeacon (BuildProbeResp self sta ssid ch wpa2) \<and>
    parseBeacon (BuildBeacon self ssid ch wpa2) ssid = Some (no_ap\<lparr>ap_bssid := self, ap_channel := uint ch,
       ap_found := True, ap_rsnPresent := wpa2, ap_groupCipher := (if wpa2 then 0x000FAC04 else 0),
       ap_pairwise := (if wpa2 then [0x000FAC04] else []), ap_akm := (if wpa2 then [0x000FAC02] else [])\<rparr>)"
proof -
  let ?out = "Some (ssid, no_ap\<lparr>ap_bssid := self, ap_channel := uint ch,
       ap_found := True, ap_rsnPresent := wpa2, ap_groupCipher := (if wpa2 then 0x000FAC04 else 0),
       ap_pairwise := (if wpa2 then [0x000FAC04] else []), ap_akm := (if wpa2 then [0x000FAC02] else [])\<rparr>)"
  let ?ies = "put_ie 0x00 ssid @ put_ie 0x01 basic_rates @ put_ie 0x03 [ch] @ (if wpa2 then rsnIe else [])"
  let ?fixed = "replicate 8 0 @ put_le16 100 @ put_le16 (if wpa2 then 0x0011 else 0x0001)"
  have ies: "parse_ies ?ies ([], 0, no_ap\<lparr>ap_bssid := self\<rparr>) =
      (ssid, uint ch, no_ap\<lparr>ap_bssid := self, ap_rsnPresent := wpa2, ap_groupCipher := (if wpa2 then 0x000FAC04 else 0),
         ap_pairwise := (if wpa2 then [0x000FAC04] else []), ap_akm := (if wpa2 then [0x000FAC02] else [])\<rparr>)"
    using assms(3) by (simp add: basic_rates_def parse_ie_def parse_rsnIe) (simp add: no_ap_def)
  have parse: "parseAnyBeacon (put_hdr fc a self self 0 @ ?fixed @ ?ies) = ?out"
    if "length a = 6" "fc = 0x0080 \<or> fc = 0x0050" for fc a
  proof -
    have l: "length (put_hdr fc a self self 0) = 24" "length ?fixed = 12"
      using that assms(1) by (simp_all add: put_hdr_fc)
    have "drop (24 + 12) (put_hdr fc a self self 0 @ ?fixed @ ?ies) = ?ies" by (rule drop_both [OF l])
    moreover have "24 + 12 = (36 :: nat)" by simp
    ultimately have d: "drop 36 (put_hdr fc a self self 0 @ ?fixed @ ?ies) = ?ies" by (simp only:)
    have b: "slice 16 6 (put_hdr fc a self self 0 @ r) = self" for r
      using that(1) assms(1) by (simp add: put_hdr_fc slice_def)
    have n: "\<not> length (put_hdr fc a self self 0 @ ?fixed @ ?ies) < 36" using l by simp
    have f: "(put_hdr fc a self self 0 @ r) ! 0 = ucast (fc AND 0xFF)" "(put_hdr fc a self self 0 @ r) ! 1 = 0" for r
      using that(2) by (auto simp: put_hdr_fc)
    show ?thesis
      unfolding parseAnyBeacon_def if_not_P [OF n] d b f ies using that(2) by (auto simp: Let_def no_ap_def)
  qed
  have "BuildBeacon self ssid ch wpa2 = put_hdr 0x0080 (replicate 6 0xFF) self self 0 @ ?fixed @ ?ies"
    "BuildProbeResp self sta ssid ch wpa2 = put_hdr 0x0050 sta self self 0 @ ?fixed @ ?ies"
    by (simp_all add: BuildBeacon_def BuildProbeResp_def fc_defs appendRsnIe_def Let_def)
  then show ?thesis
    using parse assms(2) by (simp add: parseBeacon_def)
qed

theorem beacon_roundtrip_witness:
  "parseBeacon (BuildBeacon [2, 0, 0, 0, 0, 1] [0x61, 0x70] 36 True) [0x61, 0x70] = Some (no_ap\<lparr>
     ap_bssid := [2, 0, 0, 0, 0, 1], ap_channel := 36, ap_found := True, ap_rsnPresent := True,
     ap_groupCipher := 0x000FAC04, ap_pairwise := [0x000FAC04], ap_akm := [0x000FAC02]\<rparr>)"
  using beacon_roundtrip [of "[2, 0, 0, 0, 0, 1]" "[4, 0, 0, 0, 0, 1]" "[0x61, 0x70]" 36 True] by simp

section \<open>The negotiated association request\<close>

lemma cut_at_last:
  assumes "0x30 \<notin> set r" and "r \<noteq> []"
  shows "k \<le> length r \<Longrightarrow> cut_at (h @ 0x30 # r) (length h + Suc k) = h"
proof (induction k)
  case 0
  then show ?case using assms(2) by simp
next
  case (Suc k)
  then have "r ! k \<noteq> 0x30" using assms(1) by (metis Suc_le_lessD nth_mem)
  then show ?case using Suc by (simp add: nth_append)
qed

text \<open>
  A request for other ciphers than CCMP loses the capabilities. Whatever the cipher suites
  are, when one of them is not CCMP (and no byte of the RSN capabilities is \<open>0x30\<close>), the frame that
  results is the one of the CCMP request up to its RSN element and then the new RSN element: the
  WMM, HT, VHT, operating mode and extended capability elements behind the old one are gone.
\<close>

theorem negotiated_request_drops_capabilities:
  assumes "\<not> (p = 0x000FAC04 \<and> g = 0x000FAC04)"
    and "ucast caps \<noteq> (0x30 :: u8)" and "ucast (drop_bit 8 caps) \<noteq> (0x30 :: u8)"
  shows "\<exists>head rsn. BuildAssocRequest ofdm self bssid ssid caps = head @ put_ie 0x30 rsn @ assoc_tail \<and>
    length rsn = 20 \<and>
    BuildAssocRequest_negotiated ofdm self bssid ssid p g caps =
      head @ put_ie 0x30 ([1, 0] @ be_bytes 4 g @ [1, 0] @ be_bytes 4 p @ [1, 0] @ be_bytes 4 (0x000FAC02 :: u32) @
        [ucast caps, ucast (drop_bit 8 caps)])"
proof -
  let ?rsn = "[0x01,0x00, 0x00,0x0f,0xac,0x04, 0x01,0x00, 0x00,0x0f,0xac,0x04,
    0x01,0x00, 0x00,0x0f,0xac,0x02, ucast caps, ucast (drop_bit 8 caps)] :: bytes"
  let ?head = "put_hdr (FC_MGMT OR FC_SUB_ASSOC_REQ) bssid self bssid 0 @ put_le16 0x1531 @ put_le16 3 @
    put_ie 0x00 ssid @
    (if ofdm then put_ie 0x01 [0x8c,0x12,0x98,0x24,0xb0,0x48,0x60,0x6c]
     else put_ie 0x01 basic_rates @ put_ie 0x32 [0x30,0x48,0x60,0x6c])"
  have m: "ucast (caps AND 0xff) = (ucast caps :: u8)"
  proof -
    have "(0xff :: u16) = mask 8" by (simp add: mask_eq_exp_minus_1)
    then have "caps AND 0xff = take_bit 8 caps" by (simp only: take_bit_eq_mask)
    then show ?thesis by (simp only:) (rule bit_word_eqI, simp add: bit_simps)
  qed
  have f: "BuildAssocRequest ofdm self bssid ssid caps = ?head @ put_ie 0x30 ?rsn @ assoc_tail"
    by (simp add: BuildAssocRequest_def put_ie_def m)
  let ?r = "20 # ?rsn @ assoc_tail"
  have "0x30 \<notin> set ?r" using assms(2,3) by (simp add: assoc_tail_def)
  then have "cut_at (?head @ 0x30 # ?r) (length ?head + Suc (length ?r)) = ?head"
    by (intro cut_at_last) simp_all
  moreover have "?head @ put_ie 0x30 ?rsn @ assoc_tail = ?head @ 0x30 # ?r"
    by (simp add: put_ie_def)
  moreover have "length ?head + Suc (length ?r) = length (?head @ 0x30 # ?r)" by simp
  ultimately have c: "cut_at (?head @ put_ie 0x30 ?rsn @ assoc_tail) (length (?head @ put_ie 0x30 ?rsn @ assoc_tail)) = ?head"
    by (simp only:)
  have "BuildAssocRequest_negotiated ofdm self bssid ssid p g caps =
      ?head @ put_ie 0x30 ([1, 0] @ be_bytes 4 g @ [1, 0] @ be_bytes 4 p @ [1, 0] @ be_bytes 4 (0x000FAC02 :: u32) @
        [ucast caps, ucast (drop_bit 8 caps)])"
    unfolding BuildAssocRequest_negotiated_def f Let_def if_not_P [OF assms(1)] c
    by (simp add: put_ie_def m)
  moreover have "length ?rsn = 20" by simp
  ultimately show ?thesis using f by blast
qed

theorem negotiated_request_drops_capabilities_witness:
  "\<exists>head rsn. BuildAssocRequest False (replicate 6 2) (replicate 6 4) [0x61] 0x80 = head @ put_ie 0x30 rsn @ assoc_tail \<and>
    length rsn = 20 \<and>
    BuildAssocRequest_negotiated False (replicate 6 2) (replicate 6 4) [0x61] 0x000FAC04 0x000FAC02 0x80 =
      head @ put_ie 0x30 ([1, 0] @ be_bytes 4 (0x000FAC02 :: u32) @ [1, 0] @ be_bytes 4 (0x000FAC04 :: u32) @ [1, 0] @
        be_bytes 4 (0x000FAC02 :: u32) @ [0x80, 0])"
  using negotiated_request_drops_capabilities [of "0x000FAC04" "0x000FAC02" "0x80" False "replicate 6 2" "replicate 6 4" "[0x61]"]
  by simp

end
