(* ===== verification/Wpa2.thy ===== *)
theory Wpa2
  imports KeyWrap Ccm Cmac Sha1 PnWindow Dot11Frames
begin

text \<open>
  The WPA2-PSK supplicant (src/Wpa2Supplicant.h, src/Wpa2Supplicant.cpp): the four-way and group
  handshakes, the keys, and the CCMP data path. The primitives come through the record \<open>crypto\<close>, as
  they do in the code, and \<open>MakeWpa2Crypto\<close> is the backend of src/Wpa2Crypto.cpp. The random bytes
  and the received frames are arguments; frames handed to the send callback are results (what the
  callback answers is only logged).
\<close>

section \<open>State\<close>

record crypto =
  c_pbkdf2_pmk :: "bytes \<Rightarrow> bytes \<Rightarrow> bytes option"
  c_prf :: "bytes \<Rightarrow> bytes \<Rightarrow> bytes \<Rightarrow> nat \<Rightarrow> bytes"
  c_eapol_mic :: "bytes \<Rightarrow> bytes \<Rightarrow> bytes"
  c_ccmp_decrypt :: "bytes \<Rightarrow> bytes \<Rightarrow> bytes \<Rightarrow> bytes \<Rightarrow> bytes option"
  c_ccmp_encrypt :: "bytes \<Rightarrow> bytes \<Rightarrow> bytes \<Rightarrow> bytes \<Rightarrow> bytes"

text \<open>\<open>hw\<close> is the cipher of the processor, where it has one.\<close>

definition MakeWpa2Crypto :: "(bytes \<Rightarrow> bytes \<Rightarrow> bytes) option \<Rightarrow> crypto" where
  "MakeWpa2Crypto hw =
    \<lparr>c_pbkdf2_pmk = pbkdf2_pmk_impl,
     c_prf = (\<lambda>k l d n. the (prf_impl k l d n)),
     c_eapol_mic = (\<lambda>k m. the (eapol_mic_impl k m)),
     c_ccmp_decrypt = ccmp_decrypt_impl hw,
     c_ccmp_encrypt = ccmp_encrypt_impl\<rparr>"

datatype wstate = Idle | WaitMsg1 | WaitMsg3 | Done

text \<open>The order of the phases is that of the numbers \<open>state()\<close> reports.\<close>

primrec state_no :: "wstate \<Rightarrow> nat" where
  "state_no Idle = 0"
| "state_no WaitMsg1 = 1"
| "state_no WaitMsg3 = 2"
| "state_no Done = 3"

instantiation wstate :: linorder
begin

definition less_eq_wstate :: "wstate \<Rightarrow> wstate \<Rightarrow> bool" where
  "less_eq_wstate a b \<longleftrightarrow> state_no a \<le> state_no b"

definition less_wstate :: "wstate \<Rightarrow> wstate \<Rightarrow> bool" where
  "less_wstate a b \<longleftrightarrow> state_no a < state_no b"

instance
proof
  fix a b :: wstate
  show "a \<le> b \<Longrightarrow> b \<le> a \<Longrightarrow> a = b"
    by (cases a; cases b) (simp_all add: less_eq_wstate_def)
qed (auto simp: less_eq_wstate_def less_wstate_def)

end

record supplicant =
  w_self :: bytes
  w_bssid :: bytes
  w_pmk :: bytes
  w_kck :: bytes
  w_kek :: bytes
  w_tk :: bytes
  w_gtk :: bytes
  w_gtkPrev :: bytes
  w_aNonce :: bytes
  w_sNonce :: bytes
  w_gtkKeyId :: u8
  w_gtkPrevId :: u8
  w_pmf :: int
  w_igtk :: bytes
  w_igtkKeyId :: u16
  w_igtkSet :: bool
  w_rxPnPair :: pn_state
  w_rxPnGtk :: "pn_state list"
  w_state :: wstate
  w_replay :: u64
  w_txPn :: u64
  w_replayCtr :: bytes

definition supplicant_init :: supplicant where
  "supplicant_init = \<lparr>w_self = replicate 6 0, w_bssid = replicate 6 0, w_pmk = replicate 32 0,
     w_kck = replicate 16 0, w_kek = replicate 16 0, w_tk = replicate 16 0, w_gtk = replicate 16 0,
     w_gtkPrev = replicate 16 0, w_aNonce = replicate 32 0, w_sNonce = replicate 32 0,
     w_gtkKeyId = 0xff, w_gtkPrevId = 0xff, w_pmf = 0, w_igtk = replicate 16 0, w_igtkKeyId = 0,
     w_igtkSet = False, w_rxPnPair = pn_init, w_rxPnGtk = replicate 4 pn_init, w_state = Idle,
     w_replay = 0, w_txPn = 1, w_replayCtr = replicate 8 0\<rparr>"

definition beginCached :: "bytes \<Rightarrow> bytes \<Rightarrow> bytes \<Rightarrow> supplicant \<Rightarrow> supplicant" where
  "beginCached pmk self bssid s =
    s\<lparr>w_self := self, w_bssid := bssid, w_pmk := pmk, w_state := WaitMsg1, w_replay := 0, w_txPn := 1,
      w_rxPnPair := (0, winClear (snd (w_rxPnPair s))),
      w_rxPnGtk := map (\<lambda>p. (0, winClear (snd p))) (w_rxPnGtk s),
      w_gtkKeyId := 0xff, w_gtkPrevId := 0xff\<rparr>"

definition wpa_begin :: "crypto \<Rightarrow> bytes \<Rightarrow> bytes \<Rightarrow> bytes \<Rightarrow> bytes \<Rightarrow> supplicant \<Rightarrow> supplicant option" where
  "wpa_begin c passphrase ssid self bssid s =
    map_option (\<lambda>pmk. s\<lparr>w_self := self, w_bssid := bssid, w_pmk := pmk, w_state := WaitMsg1, w_replay := 0,
      w_txPn := 1, w_rxPnPair := (0, winClear (snd (w_rxPnPair s))),
      w_rxPnGtk := map (\<lambda>p. (0, winClear (snd p))) (w_rxPnGtk s),
      w_gtkKeyId := 0xff, w_gtkPrevId := 0xff\<rparr>) (c_pbkdf2_pmk c passphrase ssid)"

definition ready :: "supplicant \<Rightarrow> bool" where
  "ready s \<longleftrightarrow> w_state s = Done"

definition pmfActive :: "supplicant \<Rightarrow> bool" where
  "pmfActive s \<longleftrightarrow> w_pmf s > 0 \<and> w_state s = Done"

section \<open>The handshakes\<close>

fun memcmp_less :: "bytes \<Rightarrow> bytes \<Rightarrow> bool" where
  "memcmp_less (x # xs) (y # ys) = (x < y \<or> (x = y \<and> memcmp_less xs ys))"
| "memcmp_less _ _ = False"

definition ptk_label :: bytes where
  "ptk_label = map (\<lambda>ch. of_nat (of_char ch)) ''Pairwise key expansion''"

definition derivePtk :: "crypto \<Rightarrow> bytes \<Rightarrow> bytes \<Rightarrow> supplicant \<Rightarrow> supplicant" where
  "derivePtk c rnd aNonce s =
    (let aaFirst = memcmp_less (w_bssid s) (w_self s);
         aFirst = memcmp_less aNonce rnd;
         data = (if aaFirst then w_bssid s else w_self s) @ (if aaFirst then w_self s else w_bssid s) @
           (if aFirst then aNonce else rnd) @ (if aFirst then rnd else aNonce);
         ptk = c_prf c (w_pmk s) ptk_label data 48
     in s\<lparr>w_aNonce := aNonce, w_sNonce := rnd, w_kck := slice 0 16 ptk, w_kek := slice 16 16 ptk,
          w_tk := slice 32 16 ptk\<rparr>)"

text \<open>The part the three replies share: header, key information, replay counter.\<close>

definition key_frame :: "nat \<Rightarrow> u16 \<Rightarrow> u8 \<Rightarrow> bytes \<Rightarrow> bytes" where
  "key_frame kdLen info keyLen replayCtr =
    (let kb = replicate (99 + kdLen) 0;
         bodyLen = of_nat (length kb - 4) :: u16;
         kb = kb[0 := 0x02, 1 := 0x03, 2 := ucast (drop_bit 8 bodyLen), 3 := ucast (bodyLen AND 0xFF),
                 4 := 0x02, 5 := ucast (drop_bit 8 info), 6 := ucast (info AND 0xFF), 8 := keyLen]
     in set_slice 9 replayCtr kb)"

definition put_mic :: "crypto \<Rightarrow> bytes \<Rightarrow> bytes \<Rightarrow> bytes" where
  "put_mic c kck kb = set_slice 81 (c_eapol_mic c kck kb) kb"

definition rsn_caps :: "int \<Rightarrow> u16" where
  "rsn_caps pmf = (if pmf \<ge> 1 then 0x0080 else 0) OR (if pmf \<ge> 2 then 0x0040 else 0)"

definition msg2_rsnIe :: bytes where
  "msg2_rsnIe = [0x30,0x14, 0x01,0x00, 0x00,0x0f,0xac,0x04,
     0x01,0x00, 0x00,0x0f,0xac,0x04, 0x01,0x00, 0x00,0x0f,0xac,0x02, 0x00,0x00]"

definition buildMsg2 :: "crypto \<Rightarrow> supplicant \<Rightarrow> bytes" where
  "buildMsg2 c s =
    (let kdLen = length msg2_rsnIe;
         kb = key_frame kdLen 0x010A 0x10 (w_replayCtr s);
         kb = set_slice 17 (w_sNonce s) kb;
         kb = kb[97 := of_nat (kdLen div 256), 98 := of_nat kdLen];
         kb = set_slice 99 msg2_rsnIe kb;
         caps = rsn_caps (w_pmf s);
         kb = kb[99 + kdLen - 2 := ucast (caps AND 0xff), 99 + kdLen - 1 := ucast (drop_bit 8 caps)]
     in BuildEapolKey (w_self s) (w_bssid s) (put_mic c (w_kck s) kb))"

definition buildMsg4 :: "crypto \<Rightarrow> supplicant \<Rightarrow> bytes" where
  "buildMsg4 c s =
    BuildEapolKey (w_self s) (w_bssid s) (put_mic c (w_kck s) (key_frame 0 0x030A 0x00 (w_replayCtr s)))"

definition buildGroupMsg2 :: "crypto \<Rightarrow> supplicant \<Rightarrow> bytes" where
  "buildGroupMsg2 c s =
    BuildEapolKey (w_self s) (w_bssid s) (put_mic c (w_kck s) (key_frame 0 0x0302 0x10 (w_replayCtr s)))"

text \<open>
  The elements of the unwrapped key data. \<open>kp\<close> has eight bytes more than the \<open>plen\<close> that hold
  key data, and every index below is inside it.
\<close>

definition install_gtk :: "bytes \<Rightarrow> nat \<Rightarrow> supplicant \<Rightarrow> supplicant" where
  "install_gtk kp i s =
    (let newId = (kp ! (i + 6)) AND 0x03;
         s = (if w_gtkKeyId s \<noteq> 0xff \<and> w_gtkKeyId s \<noteq> newId
              then s\<lparr>w_gtkPrev := w_gtk s, w_gtkPrevId := w_gtkKeyId s\<rparr> else s);
         slot = unat (newId AND 3)
     in s\<lparr>w_gtkKeyId := newId, w_gtk := slice (i + 8) 16 kp,
          w_rxPnGtk := (w_rxPnGtk s)[slot := (0, winClear (snd (w_rxPnGtk s ! slot)))]\<rparr>)"

definition install_igtk :: "bytes \<Rightarrow> nat \<Rightarrow> supplicant \<Rightarrow> supplicant" where
  "install_igtk kp i s =
    s\<lparr>w_igtkKeyId := ucast (kp ! (i + 6)) OR push_bit 8 (ucast (kp ! (i + 7))),
      w_igtk := slice (i + 14) 16 kp, w_igtkSet := True\<rparr>"

function install_kdes :: "bytes \<Rightarrow> nat \<Rightarrow> nat \<Rightarrow> bool \<Rightarrow> supplicant \<Rightarrow> bool \<times> supplicant" where
  "install_kdes kp plen i gotGtk s =
    (if i + 2 \<le> plen then
       let t = kp ! i; l = unat (kp ! (i + 1)) in
       if t = 0 \<or> l = 0 then (gotGtk, s)
       else if t = 0xdd \<and> i + 2 + l \<le> plen \<and> kp ! (i + 2) = 0x00 \<and> kp ! (i + 3) = 0x0f \<and> kp ! (i + 4) = 0xac then
         (if kp ! (i + 5) = 0x01 \<and> l \<ge> 22 then install_kdes kp plen (i + 2 + l) True (install_gtk kp i s)
          else if kp ! (i + 5) = 0x09 \<and> l \<ge> 24 then install_kdes kp plen (i + 2 + l) gotGtk (install_igtk kp i s)
          else install_kdes kp plen (i + 2 + l) gotGtk s)
       else install_kdes kp plen (i + 2 + l) gotGtk s
     else (gotGtk, s))"
  by pat_completeness auto
termination by (relation "measure (\<lambda>(kp, plen, i, gotGtk, s). plen - i)") auto

declare install_kdes.simps [simp del]

definition installGtkFromKeyData :: "bytes \<Rightarrow> supplicant \<Rightarrow> bool \<times> supplicant" where
  "installGtkFromKeyData body s =
    (let kdLen = (if length body \<ge> 99 then unat (push_bit 8 (ucast (body ! 97)) OR ucast (body ! 98) :: u16) else 0) in
     if kdLen < 24 \<or> kdLen mod 8 \<noteq> 0 \<or> length body < 99 + kdLen then (False, s)
     else case aes_key_unwrap (w_kek s) (slice 99 kdLen body) of
       None \<Rightarrow> (False, s)
     | Some p \<Rightarrow> install_kdes (set_slice 0 p (replicate kdLen 0)) (kdLen - 8) 0 False s)"

text \<open>The fields of a received frame, and the note taken of its replay counter.\<close>

definition eapol_info :: "bytes \<Rightarrow> u16" where
  "eapol_info body = push_bit 8 (ucast (body ! 5)) OR ucast (body ! 6)"

definition hasMic :: "bytes \<Rightarrow> bool" where
  "hasMic body \<longleftrightarrow> eapol_info body AND 0x0100 \<noteq> 0"

definition isPairwise :: "bytes \<Rightarrow> bool" where
  "isPairwise body \<longleftrightarrow> eapol_info body AND 0x0008 \<noteq> 0"

definition eapol_rc :: "bytes \<Rightarrow> u64" where
  "eapol_rc body = be_word (slice 9 8 body)"

definition note_rc :: "bytes \<Rightarrow> supplicant \<Rightarrow> supplicant" where
  "note_rc body s =
    (let rc = eapol_rc body; s = (if rc > w_replay s then s\<lparr>w_replay := rc\<rparr> else s)
     in s\<lparr>w_replayCtr := slice 9 8 body\<rparr>)"

text \<open>A received EAPOL-Key frame: the answer, the frames sent, the new state.\<close>

definition onEapolKey :: "crypto \<Rightarrow> bytes \<Rightarrow> bytes \<Rightarrow> supplicant \<Rightarrow> bool \<times> bytes list \<times> supplicant" where
  "onEapolKey c rnd body s =
    (if length body < 95 then (False, [], s)
     else if w_state s = Done \<and> eapol_rc body < w_replay s then (False, [], s)
     else
       let s = note_rc body s; nonce = slice 17 32 body in
       case w_state s of
         WaitMsg1 \<Rightarrow>
           if \<not> hasMic body \<and> isPairwise body then
             let s = derivePtk c rnd nonce s in (False, [buildMsg2 c s], s\<lparr>w_state := WaitMsg3\<rparr>)
           else (False, [], s)
       | WaitMsg3 \<Rightarrow>
           if hasMic body \<and> isPairwise body then
             let s = snd (installGtkFromKeyData body s) in (True, [buildMsg4 c s], s\<lparr>w_state := Done\<rparr>)
           else (False, [], s)
       | _ \<Rightarrow>
           if hasMic body \<and> \<not> isPairwise body then
             let (ok, s) = installGtkFromKeyData body s in (ok, [buildGroupMsg2 c s], s)
           else if \<not> hasMic body \<and> isPairwise body then
             let s = derivePtk c rnd nonce s;
                 s = s\<lparr>w_txPn := 1, w_rxPnPair := (0, winClear (snd (w_rxPnPair s)))\<rparr>
             in (False, [buildMsg2 c s], s\<lparr>w_state := WaitMsg3\<rparr>)
           else (False, [], s))"

section \<open>Protected management frames\<close>

text \<open>\<open>mgmt_mac_input\<close> is the masked header and the body with the MIC of its last element cleared.\<close>

definition mgmt_mac_input :: "bytes \<Rightarrow> bytes" where
  "mgmt_mac_input frame =
    (let mfc = (ucast (frame ! 0) OR push_bit 8 (ucast (frame ! 1)) :: u16) AND NOT 0x7800;
         buf = [ucast (mfc AND 0xff), ucast (drop_bit 8 mfc)] @ slice 4 12 frame @ drop 24 frame
     in set_slice (length buf - 8) (replicate 8 0) buf)"

definition verifyProtectedMgmt :: "bytes \<Rightarrow> supplicant \<Rightarrow> bool" where
  "verifyProtectedMgmt frame s =
    (if \<not> w_igtkSet s \<or> length frame < 24 + 18 then False
     else
       let mme = drop (length frame - 18) frame in
       if mme ! 0 \<noteq> 0x4c \<or> mme ! 1 \<noteq> 16 then False
       else if (ucast (mme ! 2) OR push_bit 8 (ucast (mme ! 3)) :: u16) \<noteq> w_igtkKeyId s then False
       else bip_cmac_128 (w_igtk s) (mgmt_mac_input frame) = slice 10 8 mme)"

section \<open>Data frames\<close>

definition ccmpAad :: "bytes \<Rightarrow> bool \<Rightarrow> bytes" where
  "ccmpAad hdr qos =
    (let fc = ucast (hdr ! 0) OR push_bit 8 (ucast (hdr ! 1)) :: u16;
         mfc = (fc AND NOT 0x3870) OR 0x4000
     in [ucast (mfc AND 0xff), ucast (drop_bit 8 mfc AND 0xff)] @ slice 4 18 hdr @
        [(hdr ! 22) AND 0x0f, 0x00] @ (if qos then [(hdr ! 24) AND 0x0f, 0x00] else []))"

text \<open>
  The outcome of a received data frame: the plain text, a rejection, or an access beyond the frame
  (the CCMP header is read behind its end and the length of the ciphertext wraps around).
\<close>

datatype received = Plain bytes | Rejected | Beyond

text \<open>The replay window a frame belongs to: that of a group key or of the pairwise key.\<close>

definition rx_window :: "bool \<Rightarrow> nat \<Rightarrow> supplicant \<Rightarrow> pn_state" where
  "rx_window grp kid s = (if grp then w_rxPnGtk s ! kid else w_rxPnPair s)"

definition set_rx_window :: "bool \<Rightarrow> nat \<Rightarrow> pn_state \<Rightarrow> supplicant \<Rightarrow> supplicant" where
  "set_rx_window grp kid p s =
    (if grp then s\<lparr>w_rxPnGtk := (w_rxPnGtk s)[kid := p]\<rparr> else s\<lparr>w_rxPnPair := p\<rparr>)"

definition rx_hdr :: "bytes \<Rightarrow> nat" where
  "rx_hdr frame = (if (ucast (frame ! 0) OR push_bit 8 (ucast (frame ! 1)) :: u16) AND 0x0080 \<noteq> 0 then 26 else 24)"

definition rx_pn :: "bytes \<Rightarrow> bytes" where
  "rx_pn frame = (let ccmp = drop (rx_hdr frame) frame in map (\<lambda>i. ccmp ! i) [7, 6, 5, 4, 1, 0])"

definition rx_kid :: "bytes \<Rightarrow> nat" where
  "rx_kid frame = unat (drop_bit 6 (drop (rx_hdr frame) frame ! 3) AND 0x03)"

definition rx_group :: "bytes \<Rightarrow> bool" where
  "rx_group frame \<longleftrightarrow> (frame ! 4) AND 0x01 \<noteq> 0"

definition rx_key :: "bytes \<Rightarrow> supplicant \<Rightarrow> bytes" where
  "rx_key frame s =
    (if rx_group frame then (if of_nat (rx_kid frame) = w_gtkPrevId s then w_gtkPrev s else w_gtk s) else w_tk s)"

text \<open>Decryption is tried without the last four bytes first: the frame check sequence.\<close>

definition rx_plain :: "crypto \<Rightarrow> bytes \<Rightarrow> supplicant \<Rightarrow> bytes option" where
  "rx_plain c frame s =
    (let qos = (rx_hdr frame = 26);
         nonce = [if qos then (frame ! 24) AND 0x0f else 0] @ slice 10 6 frame @ rx_pn frame;
         enc = drop (rx_hdr frame + 8) frame;
         encLen = length frame - rx_hdr frame - 8;
         aad = ccmpAad frame qos;
         key = rx_key frame s;
         first = (if encLen > 12 then c_ccmp_decrypt c key nonce (take (encLen - 4) enc) aad else None)
     in case first of Some p \<Rightarrow> Some p | None \<Rightarrow> c_ccmp_decrypt c key nonce enc aad)"

definition decryptData :: "crypto \<Rightarrow> bytes \<Rightarrow> supplicant \<Rightarrow> received \<times> supplicant" where
  "decryptData c frame s =
    (if w_state s \<noteq> Done then (Rejected, s)
     else if length frame < 24 + 8 then (Rejected, s)
     else if length frame < rx_hdr frame + 8 then (Beyond, s)
     else case rx_plain c frame s of
       None \<Rightarrow> (Rejected, s)
     | Some plain \<Rightarrow>
         (case pnWindowCheck (rx_window (rx_group frame) (rx_kid frame) s) (be_word (rx_pn frame)) of
            (ok, win) \<Rightarrow> if ok then (Plain plain, set_rx_window (rx_group frame) (rx_kid frame) win s)
              else (Rejected, s)))"

definition l2_destination :: "bytes \<Rightarrow> u16 \<Rightarrow> supplicant \<Rightarrow> bytes" where
  "l2_destination ip ethertype s =
    (if ethertype \<noteq> 0x0800 then replicate 6 0xff
     else if length ip \<ge> 20 \<and> ip ! 16 = 0xff \<and> ip ! 17 = 0xff \<and> ip ! 18 = 0xff \<and> ip ! 19 = 0xff then replicate 6 0xff
     else if length ip \<ge> 20 \<and> (ip ! 16) AND 0xf0 = 0xe0 then
       [0x01, 0x00, 0x5e, (ip ! 17) AND 0x7f, ip ! 18, ip ! 19]
     else w_bssid s)"

definition data_header :: "bytes \<Rightarrow> u16 \<Rightarrow> supplicant \<Rightarrow> bytes" where
  "data_header ip ethertype s =
    (let f = [0x08, 0x01, 0x00, 0x00] @ w_bssid s @ w_self s @ l2_destination ip ethertype s @ [0x00, 0x00]
     in f[1 := (f ! 1) OR 0x40])"

definition data_plain :: "bytes \<Rightarrow> u16 \<Rightarrow> bytes" where
  "data_plain ip ethertype =
    [0xaa, 0xaa, 0x03, 0x00, 0x00, 0x00, ucast (drop_bit 8 ethertype), ucast (ethertype AND 0xff)] @ ip"

text \<open>Byte \<open>i\<close> of the packet number, and the CCMP header.\<close>

definition pn_byte :: "u64 \<Rightarrow> nat \<Rightarrow> u8" where
  "pn_byte pn i = ucast (drop_bit (8 * i) pn AND 0xff)"

definition ccmp_header :: "u64 \<Rightarrow> bytes" where
  "ccmp_header pn = [pn_byte pn 0, pn_byte pn 1, 0x00, 0x20, pn_byte pn 2, pn_byte pn 3, pn_byte pn 4, pn_byte pn 5]"

definition buildEncryptedData :: "crypto \<Rightarrow> bytes \<Rightarrow> u16 \<Rightarrow> supplicant \<Rightarrow> bytes \<times> supplicant" where
  "buildEncryptedData c ip ethertype s =
    (if w_state s \<noteq> Done then ([], s)
     else
       let pn = w_txPn s; s = s\<lparr>w_txPn := pn + 1\<rparr>;
           f = data_header ip ethertype s @ ccmp_header pn;
           nonce = [0] @ w_self s @ map (pn_byte pn) [5, 4, 3, 2, 1, 0];
           aad = ccmpAad f False;
           enc = c_ccmp_encrypt c (w_tk s) nonce (data_plain ip ethertype) aad
       in (f @ enc, s))"

end
