(* ===== verification/WpaSafety.thy ===== *)
theory WpaSafety
  imports Wpa2
begin

text \<open>
  The supplicant as a transition system: every operation that changes its state is a step, with a
  history of what it sent and accepted, and the properties that hold in every reachable state.
\<close>

section \<open>Steps\<close>

text \<open>
  The history of a run. \<open>h_keys\<close> are the temporal keys that 802.11i prescribes for the first
  messages answered so far; \<open>h_sent\<close> has the key and the nonce that were handed to the cipher for
  every frame sent, \<open>h_opened\<close> those for every unicast frame delivered, and \<open>h_seen\<close> the packet
  numbers accepted by each receive window since the window was last reset.
\<close>

record history =
  h_keys :: "bytes list"
  h_sent :: "(bytes \<times> bytes) list"
  h_opened :: "(bytes \<times> bytes) list"
  h_seen :: "bool \<times> nat \<Rightarrow> u64 list"

definition history_init :: history where
  "history_init = \<lparr>h_keys = [], h_sent = [], h_opened = [], h_seen = (\<lambda>_. [])\<rparr>"

definition fresh_window :: pn_state where
  "fresh_window = (0, [0])"

text \<open>A window that a handshake message leaves fresh has accepted nothing.\<close>

definition seen_after :: "supplicant \<Rightarrow> history \<Rightarrow> bool \<times> nat \<Rightarrow> u64 list" where
  "seen_after s h slot = (if rx_window (fst slot) (snd slot) s = fresh_window then [] else h_seen h slot)"

definition pn_nonce :: "u64 \<Rightarrow> bytes" where
  "pn_nonce pn = map (pn_byte pn) [5, 4, 3, 2, 1, 0]"

definition rx_slot :: "bytes \<Rightarrow> bool \<times> nat" where
  "rx_slot frame = (if rx_group frame then (True, rx_kid frame) else (False, 0))"

text \<open>
  The key and the nonce an operation hands to the cipher are read off by running it with a cipher
  that answers with them: behind the two headers of the frame it builds, and as the plain text of
  the frame it opens.
\<close>

definition probe :: "crypto \<Rightarrow> crypto" where
  "probe c = c\<lparr>c_ccmp_encrypt := (\<lambda>k nonce p aad. k @ nonce), c_ccmp_decrypt := (\<lambda>k nonce ct aad. Some (k @ nonce))\<rparr>"

definition key_and_nonce :: "bytes \<Rightarrow> bytes \<times> bytes" where
  "key_and_nonce b = (take 16 b, drop 16 b)"

definition sealed_with :: "crypto \<Rightarrow> bytes \<Rightarrow> u16 \<Rightarrow> supplicant \<Rightarrow> bytes \<times> bytes" where
  "sealed_with c ip ethertype s = key_and_nonce (drop 32 (fst (buildEncryptedData (probe c) ip ethertype s)))"

definition opened_with :: "crypto \<Rightarrow> bytes \<Rightarrow> supplicant \<Rightarrow> bytes \<times> bytes" where
  "opened_with c frame s = key_and_nonce (the (rx_plain (probe c) frame s))"

text \<open>The comparisons of \<open>memcmp\<close> are those of the numbers the bytes stand for.\<close>

definition be_num :: "bytes \<Rightarrow> nat" where
  "be_num bs = le_nat (rev bs)"

definition lower :: "bytes \<Rightarrow> bytes \<Rightarrow> bytes" where
  "lower a b = (if be_num a < be_num b then a else b)"

definition upper :: "bytes \<Rightarrow> bytes \<Rightarrow> bytes" where
  "upper a b = (if be_num a < be_num b then b else a)"

text \<open>802.11i: the pairwise key of a session, from its master key, addresses and nonces.\<close>

definition ptk_of :: "crypto \<Rightarrow> bytes \<Rightarrow> bytes \<Rightarrow> bytes \<Rightarrow> bytes \<Rightarrow> bytes \<Rightarrow> bytes" where
  "ptk_of c pmk bssid self aNonce sNonce = c_prf c pmk ptk_label
     (lower bssid self @ upper bssid self @ lower aNonce sNonce @ upper aNonce sNonce) 48"

definition ptk_spec :: "crypto \<Rightarrow> supplicant \<Rightarrow> bytes" where
  "ptk_spec c s = ptk_of c (w_pmk s) (w_bssid s) (w_self s) (w_aNonce s) (w_sNonce s)"

text \<open>A first message of the handshake that was answered, and the temporal key that belongs to it.\<close>

definition keys_after :: "crypto \<Rightarrow> bytes \<Rightarrow> bytes \<Rightarrow> bytes list \<Rightarrow> supplicant \<Rightarrow> bytes list \<Rightarrow> bytes list" where
  "keys_after c rnd body out s keys =
    (if out \<noteq> [] \<and> \<not> hasMic body \<and> isPairwise body
     then keys @ [slice 32 16 (ptk_of c (w_pmk s) (w_bssid s) (w_self s) (slice 17 32 body) rnd)] else keys)"

text \<open>The lengths are those of the arrays in the code's types.\<close>

inductive wpa_step :: "crypto \<Rightarrow> supplicant \<times> history \<Rightarrow> supplicant \<times> history \<Rightarrow> bool" for c where
  step_begin: "wpa_begin c passphrase ssid self bssid s = Some s' \<Longrightarrow> length self = 6 \<Longrightarrow> length bssid = 6 \<Longrightarrow>
    wpa_step c (s, h) (s', h\<lparr>h_seen := seen_after s' h\<rparr>)"
| step_beginCached: "s' = beginCached pmk self bssid s \<Longrightarrow> length pmk = 32 \<Longrightarrow> length self = 6 \<Longrightarrow>
    length bssid = 6 \<Longrightarrow> wpa_step c (s, h) (s', h\<lparr>h_seen := seen_after s' h\<rparr>)"
| step_pmf: "wpa_step c (s, h) (s\<lparr>w_pmf := p\<rparr>, h)"
| step_eapol: "onEapolKey c rnd body s = (ok, out, s') \<Longrightarrow> length rnd = 32 \<Longrightarrow>
    h' = h\<lparr>h_keys := keys_after c rnd body out s (h_keys h), h_seen := seen_after s' h\<rparr> \<Longrightarrow>
    wpa_step c (s, h) (s', h')"
| step_accept: "decryptData c frame s = (Plain p, s') \<Longrightarrow>
    h' = h\<lparr>h_opened := (if rx_group frame then h_opened h else opened_with c frame s # h_opened h),
      h_seen := (h_seen h)(rx_slot frame := h_seen h (rx_slot frame) @ [be_word (rx_pn frame)])\<rparr> \<Longrightarrow>
    wpa_step c (s, h) (s', h')"
| step_reject: "decryptData c frame s = (Rejected, s') \<Longrightarrow> wpa_step c (s, h) (s', h)"
| step_send: "buildEncryptedData c ip ethertype s = (f, s') \<Longrightarrow>
    h' = (if f \<noteq> [] then h\<lparr>h_sent := sealed_with c ip ethertype s # h_sent h\<rparr> else h) \<Longrightarrow>
    wpa_step c (s, h) (s', h')"

inductive reachable :: "crypto \<Rightarrow> supplicant \<Rightarrow> history \<Rightarrow> bool" for c where
  reach_init: "reachable c supplicant_init history_init"
| reach_step: "reachable c s h \<Longrightarrow> wpa_step c (s, h) (s', h') \<Longrightarrow> reachable c s' h'"

inductive_cases wpa_stepE: "wpa_step c (s, h) (s', h')"

section \<open>Crypto backends\<close>

text \<open>What the supplicant relies on: the sizes of the derived keys and MICs, and authenticated decryption.\<close>

locale wpa_crypto =
  fixes c :: crypto
  assumes length_pmk: "c_pbkdf2_pmk c pass ssid = Some pmk \<Longrightarrow> length pmk = 32"
    and length_prf: "length (c_prf c k label d n) = n"
    and length_mic: "length (c_eapol_mic c k m) = 16"
    and length_ccmp: "length k = 16 \<Longrightarrow> length (c_ccmp_encrypt c k nonce p aad) = length p + 8"
    and decrypt_encrypt: "length k = 16 \<Longrightarrow> length p \<le> 2048 \<Longrightarrow>
      c_ccmp_decrypt c k nonce (c_ccmp_encrypt c k nonce p aad) aad = Some p"
    and authentic: "length k = 16 \<Longrightarrow> c_ccmp_decrypt c k nonce ct aad = Some p \<Longrightarrow>
      ct = c_ccmp_encrypt c k nonce p aad"

lemma length_prf_blocks: "length (concat (map (prf_block key label data) xs)) = 20 * length xs"
  by (induction xs) simp_all

lemma length_prf_impl: "length (the (prf_impl key label data n)) = n"
proof -
  have "n \<le> 20 * ((n + 19) div 20)" by simp
  then show ?thesis
    by (simp add: prf_total length_prf_blocks del: append.simps)
qed

lemma length_pbkdf2_pmk: "pbkdf2_pmk_impl pass ssid = Some pmk \<Longrightarrow> length pmk = 32"
proof (cases "length ssid \<le> 252")
  case True
  have "length (pbkdf2_blocks pw salt iters block n) = 20 * n" for pw salt iters block n
    by (induction n arbitrary: block) simp_all
  moreover assume "pbkdf2_pmk_impl pass ssid = Some pmk"
  ultimately show ?thesis
    using pbkdf2_loop_spec [OF True, of 32 "Suc (Suc 0)"] by (auto simp: pbkdf2_pmk_impl_def pbkdf2_sha1_def)
next
  case False
  moreover assume "pbkdf2_pmk_impl pass ssid = Some pmk"
  ultimately show ?thesis by (simp add: pbkdf2_pmk_impl_def pbkdf2_sha1_def pbkdf2_loop.simps)
qed

interpretation software: wpa_crypto "MakeWpa2Crypto None"
proof unfold_locales
  show "length (c_ccmp_encrypt (MakeWpa2Crypto None) k nonce p aad) = length p + 8" if "length k = 16" for k nonce p aad
    using that by (simp add: MakeWpa2Crypto_def ccmp_encrypt_impl_def length_ccm_encrypt)
  show "c_ccmp_decrypt (MakeWpa2Crypto None) k nonce (c_ccmp_encrypt (MakeWpa2Crypto None) k nonce p aad) aad = Some p"
    if "length k = 16" "length p \<le> 2048" for k nonce p aad
    using ccm_decrypt_Some [OF that(1), of nonce aad "aes_ccm_encrypt k nonce aad p" p] that(2)
    by (simp add: MakeWpa2Crypto_def ccmp_encrypt_impl_def ccmp_decrypt_impl_def)
  show "ct = c_ccmp_encrypt (MakeWpa2Crypto None) k nonce p aad"
    if "length k = 16" "c_ccmp_decrypt (MakeWpa2Crypto None) k nonce ct aad = Some p" for k nonce ct p aad
    using ccm_decrypt_Some [OF that(1), of nonce aad ct p] that(2)
    by (simp add: MakeWpa2Crypto_def ccmp_encrypt_impl_def ccmp_decrypt_impl_def)
qed (simp_all add: MakeWpa2Crypto_def length_prf_impl length_pbkdf2_pmk eapol_mic_impl_def hmac_sha1_total)

section \<open>What a handshake message changes\<close>

definition windows_ok :: "supplicant \<Rightarrow> bool" where
  "windows_ok s \<longleftrightarrow> length (w_rxPnGtk s) = 4 \<and> (\<forall>p\<in>set (w_rxPnGtk s). length (snd p) = 1) \<and>
     length (snd (w_rxPnPair s)) = 1"

text \<open>
  Installing group keys leaves the session alone: only the group keys, their windows and the key of
  the management frames may differ, a window only by being reset.
\<close>

definition session where
  "session s = (w_self s, w_bssid s, w_pmk s, w_kck s, w_kek s, w_tk s, w_aNonce s, w_sNonce s, w_pmf s,
     w_rxPnPair s, w_state s, w_replay s, w_txPn s, w_replayCtr s)"

definition group_upd :: "supplicant \<Rightarrow> supplicant \<Rightarrow> bool" where
  "group_upd s s' \<longleftrightarrow> session s' = session s \<and>
    (windows_ok s \<longrightarrow> windows_ok s' \<and>
      (\<forall>k<4. w_rxPnGtk s' ! k = w_rxPnGtk s ! k \<or> w_rxPnGtk s' ! k = fresh_window)) \<and>
    (length (w_gtk s) = 16 \<and> length (w_gtkPrev s) = 16 \<longrightarrow> length (w_gtk s') = 16 \<and> length (w_gtkPrev s') = 16) \<and>
    (length (w_igtk s) = 16 \<longrightarrow> length (w_igtk s') = 16)"

lemma group_upd_refl: "group_upd s s"
  by (simp add: group_upd_def)

lemma group_upd_trans: "group_upd s s' \<Longrightarrow> group_upd s' s'' \<Longrightarrow> group_upd s s''"
  unfolding group_upd_def by metis

lemma winClear_1 [simp]: "length w = 1 \<Longrightarrow> winClear w = [0]"
  by (cases w) (simp_all add: winClear_def)

lemma unat_and_3: "unat ((x :: u8) AND 3) < 4"
proof -
  have "x AND 3 = take_bit 2 x" by (simp add: take_bit_eq_mask mask_eq_exp_minus_1)
  then show ?thesis using take_bit_nat_less_exp [of 2 "unat x"] by (simp add: unsigned_take_bit_eq)
qed

lemma group_upd_install_gtk:
  assumes "i + 24 \<le> length kp"
  shows "group_upd s (install_gtk kp i s)"
proof -
  let ?k = "unat ((kp ! (i + 6) AND 3) AND 3)"
  have "?k < 4" by (rule unat_and_3)
  then show ?thesis
    using assms by (auto simp: group_upd_def install_gtk_def session_def windows_ok_def Let_def fresh_window_def
        nth_list_update dest: set_update_subset_insert [THEN subsetD])
qed

lemma group_upd_install_igtk: "i + 30 \<le> length kp \<Longrightarrow> group_upd s (install_igtk kp i s)"
  by (simp add: group_upd_def install_igtk_def windows_ok_def session_def)

lemma install_kdes_upd:
  "plen + 8 \<le> length kp \<Longrightarrow> group_upd s (snd (install_kdes kp plen i got s))"
proof (induction kp plen i got s rule: install_kdes.induct)
  case (1 kp plen i got s)
  let ?l = "unat (kp ! (i + 1))"
  show ?case
  proof (cases "i + 2 \<le> plen \<and> kp ! i \<noteq> 0 \<and> ?l \<noteq> 0")
    case False
    then show ?thesis by (subst install_kdes.simps) (auto simp: Let_def group_upd_refl)
  next
    case walk: True
    let ?kde = "kp ! i = 0xdd \<and> i + 2 + ?l \<le> plen \<and> kp ! (i + 2) = 0x00 \<and> kp ! (i + 3) = 0x0f \<and> kp ! (i + 4) = 0xac"
    consider (gtk) "?kde" "kp ! (i + 5) = 0x01 \<and> ?l \<ge> 22"
      | (igtk) "?kde" "\<not> (kp ! (i + 5) = 0x01 \<and> ?l \<ge> 22)" "kp ! (i + 5) = 0x09 \<and> ?l \<ge> 24"
      | (other) "\<not> ?kde \<or> \<not> (kp ! (i + 5) = 0x01 \<and> ?l \<ge> 22) \<and> \<not> (kp ! (i + 5) = 0x09 \<and> ?l \<ge> 24)"
      by blast
    then show ?thesis
    proof cases
      case gtk
      then have "group_upd s (install_gtk kp i s)" using "1.prems" by (intro group_upd_install_gtk) simp
      from group_upd_trans [OF this] show ?thesis
        using walk gtk "1.IH"(1) "1.prems"
        by (subst install_kdes.simps) auto
    next
      case igtk
      then have "group_upd s (install_igtk kp i s)" using "1.prems" by (intro group_upd_install_igtk) simp
      from group_upd_trans [OF this] show ?thesis
        using walk igtk "1.IH"(2) "1.prems"
        by (subst install_kdes.simps) auto
    next
      case other
      then show ?thesis
        using walk "1.IH"(3,4) "1.prems" by (subst install_kdes.simps) (auto simp: Let_def)
    qed
  qed
qed

lemma installGtk_upd:
  assumes "length (w_kek s) = 16"
  shows "group_upd s (snd (installGtkFromKeyData body s))"
proof -
  have "group_upd s (snd (install_kdes (set_slice 0 p (replicate kd 0)) (kd - 8) 0 False s))"
    if "aes_key_unwrap (w_kek s) (slice 99 kd body) = Some p" "24 \<le> kd" "99 + kd \<le> length body" for p kd
  proof (rule install_kdes_upd)
    have "length p + 8 = length (slice 99 kd body)" using key_unwrap_Some [OF assms that(1)] by metis
    then show "kd - 8 + 8 \<le> length (set_slice 0 p (replicate kd 0))" using that(2,3) by simp
  qed
  then show ?thesis
    by (simp add: installGtkFromKeyData_def Let_def group_upd_refl split: option.split)
qed

lemma decryptData_Plain:
  "decryptData c frame s = (Plain p, s') \<longleftrightarrow>
    w_state s = Done \<and> 32 \<le> length frame \<and> rx_hdr frame + 8 \<le> length frame \<and> rx_plain c frame s = Some p \<and>
    (\<exists>win. pnWindowCheck (rx_window (rx_group frame) (rx_kid frame) s) (be_word (rx_pn frame)) = (True, win) \<and>
      s' = set_rx_window (rx_group frame) (rx_kid frame) win s)"
  by (auto simp: decryptData_def not_less split: option.splits prod.splits if_splits)

lemma decryptData_other: "decryptData c frame s = (r, s') \<Longrightarrow> (\<exists>p. r = Plain p) \<or> s' = s"
  by (auto simp: decryptData_def split: option.splits prod.splits if_splits)

lemma rx_kid_4: "rx_kid frame < 4"
  unfolding rx_kid_def by (rule unat_and_3)

section \<open>Sizes\<close>

definition supplicant_ok :: "supplicant \<Rightarrow> bool" where
  "supplicant_ok s \<longleftrightarrow> length (w_self s) = 6 \<and> length (w_bssid s) = 6 \<and> length (w_pmk s) = 32 \<and>
    length (w_kck s) = 16 \<and> length (w_kek s) = 16 \<and> length (w_tk s) = 16 \<and> length (w_gtk s) = 16 \<and>
    length (w_gtkPrev s) = 16 \<and> length (w_aNonce s) = 32 \<and> length (w_sNonce s) = 32 \<and>
    length (w_igtk s) = 16 \<and> length (w_replayCtr s) = 8 \<and> windows_ok s"

lemma supplicant_ok_init: "supplicant_ok supplicant_init"
  by (simp add: supplicant_ok_def supplicant_init_def windows_ok_def pn_init_def)

lemma supplicant_ok_group:
  "supplicant_ok s \<Longrightarrow> group_upd s s' \<Longrightarrow> supplicant_ok s'"
  by (simp add: supplicant_ok_def group_upd_def session_def)

lemma windows_ok_begin:
  "windows_ok s \<Longrightarrow> map (\<lambda>p. (0, winClear (snd p))) (w_rxPnGtk s) = replicate 4 fresh_window \<and>
     (0, winClear (snd (w_rxPnPair s))) = fresh_window"
  by (auto simp: windows_ok_def fresh_window_def list_eq_iff_nth_eq)

text \<open>The replies do not depend on the phase.\<close>

lemma replies_state [simp]:
  "buildMsg2 c (s\<lparr>w_state := st\<rparr>) = buildMsg2 c s" "buildMsg4 c (s\<lparr>w_state := st\<rparr>) = buildMsg4 c s"
  by (simp_all add: buildMsg2_def buildMsg4_def)

text \<open>The ways a frame is processed and the state each leaves.\<close>

lemma onEapolKey_cases:
  assumes "onEapolKey c rnd body s = (ok, out, s')"
  obtains (dropped) "s' = s" "out = []"
  | (ignored) "95 \<le> length body" "s' = note_rc body s" "out = []"
  | (group) "95 \<le> length body" "w_state s = Done \<or> w_state s = Idle"
      "installGtkFromKeyData body (note_rc body s) = (ok, s')" "hasMic body" "\<not> isPairwise body"
      "out = [buildGroupMsg2 c s']"
  | (m1) "95 \<le> length body" "w_state s = WaitMsg1" "\<not> hasMic body" "isPairwise body"
      "s' = (derivePtk c rnd (slice 17 32 body) (note_rc body s))\<lparr>w_state := WaitMsg3\<rparr>" "out = [buildMsg2 c s']"
  | (rekey) "95 \<le> length body" "w_state s = Done \<or> w_state s = Idle" "\<not> hasMic body" "isPairwise body"
      "s' = (derivePtk c rnd (slice 17 32 body) (note_rc body s))\<lparr>w_txPn := 1,
         w_rxPnPair := (0, winClear (snd (w_rxPnPair s))), w_state := WaitMsg3\<rparr>" "out = [buildMsg2 c s']"
  | (m3) "95 \<le> length body" "w_state s = WaitMsg3" "hasMic body" "isPairwise body" "ok"
      "s' = (snd (installGtkFromKeyData body (note_rc body s)))\<lparr>w_state := Done\<rparr>"
      "out = [buildMsg4 c s']"
proof -
  have n: "w_state (note_rc body s) = w_state s" "w_rxPnPair (note_rc body s) = w_rxPnPair s"
    by (simp_all add: note_rc_def Let_def)
  have d: "w_rxPnPair (derivePtk c rnd nonce t) = w_rxPnPair t" for nonce t
    by (simp add: derivePtk_def Let_def)
  show thesis
    using assms n
    by (cases "w_state s")
       (auto simp: onEapolKey_def Let_def d split: if_splits prod.splits
         intro: dropped ignored group m1 rekey m3)
qed

lemma note_rc_ok: "supplicant_ok s \<Longrightarrow> 95 \<le> length body \<Longrightarrow> supplicant_ok (note_rc body s)"
  by (simp add: supplicant_ok_def windows_ok_def note_rc_def Let_def)

lemma installGtk_ok: "supplicant_ok s \<Longrightarrow> supplicant_ok (snd (installGtkFromKeyData body s))"
  by (rule supplicant_ok_group [OF _ installGtk_upd]) (simp_all add: supplicant_ok_def)

lemma supplicant_ok_upd:
  "supplicant_ok s \<Longrightarrow> supplicant_ok (s\<lparr>w_state := st\<rparr>)"
  "supplicant_ok s \<Longrightarrow> supplicant_ok (s\<lparr>w_txPn := pn\<rparr>)"
  "supplicant_ok s \<Longrightarrow> length (snd w) = 1 \<Longrightarrow> supplicant_ok (s\<lparr>w_rxPnPair := w\<rparr>)"
  by (simp_all add: supplicant_ok_def windows_ok_def)

lemma length_check: "length w = 1 \<Longrightarrow> length (snd (snd (pnWindowCheck (hi, w) p))) = 1"
  by (cases w) (auto simp: pnWindowCheck_def winSet_1 winShift_1 Let_def winSet_def split: if_splits)

lemma window_length: "supplicant_ok s \<Longrightarrow> k < 4 \<Longrightarrow> length (snd (rx_window g k s)) = 1"
  by (simp add: supplicant_ok_def windows_ok_def rx_window_def)

lemma set_window_ok:
  "supplicant_ok s \<Longrightarrow> length (snd w) = 1 \<Longrightarrow> supplicant_ok (set_rx_window g k w s)"
  by (auto simp: supplicant_ok_def windows_ok_def set_rx_window_def dest: set_update_subset_insert [THEN subsetD])

lemma decryptData_ok:
  assumes "supplicant_ok s" and "decryptData c frame s = (r, s')"
  shows "supplicant_ok s'"
proof -
  let ?w = "rx_window (rx_group frame) (rx_kid frame) s"
  have "length (snd win) = 1" if "pnWindowCheck ?w (be_word (rx_pn frame)) = (True, win)" for win
    using length_check [OF window_length [OF assms(1) rx_kid_4 [of frame], of "rx_group frame"], of "fst ?w"] that
    by (metis prod.collapse snd_conv)
  then show ?thesis
    using decryptData_other [OF assms(2)] decryptData_Plain [of c frame s _ s'] assms
    by (metis set_window_ok)
qed

context wpa_crypto
begin

lemma derivePtk_ok:
  "supplicant_ok s \<Longrightarrow> length nonce = 32 \<Longrightarrow> length rnd = 32 \<Longrightarrow> supplicant_ok (derivePtk c rnd nonce s)"
  by (simp add: supplicant_ok_def windows_ok_def derivePtk_def Let_def length_prf)

lemma onEapolKey_ok:
  assumes "onEapolKey c rnd body s = (ok, out, s')" and s: "supplicant_ok s" and "length rnd = 32"
  shows "supplicant_ok s'"
  using assms(1)
proof (cases rule: onEapolKey_cases)
  case group
  then show ?thesis using installGtk_ok [OF note_rc_ok [OF s group(1)], of body] by simp
next
  case rekey
  have "length (snd (w_rxPnPair s)) = 1" using s by (simp add: supplicant_ok_def windows_ok_def)
  then show ?thesis
    using rekey derivePtk_ok [OF note_rc_ok [OF s], of body "slice 17 32 body" rnd] assms(3)
    by (auto intro!: supplicant_ok_upd)
qed (use s derivePtk_ok [OF note_rc_ok [OF s], of body "slice 17 32 body" rnd] installGtk_ok note_rc_ok assms(3) in
    \<open>auto intro!: supplicant_ok_upd\<close>)

lemma step_ok: "wpa_step c (s, h) (s', h') \<Longrightarrow> supplicant_ok s \<Longrightarrow> supplicant_ok s'"
proof (erule wpa_stepE)
  assume s: "supplicant_ok s"
  note b = windows_ok_begin [of s]
  have w: "windows_ok s" using s by (simp add: supplicant_ok_def)
  show "supplicant_ok s'" if "wpa_begin c passphrase ssid self bssid s = Some s'" "length self = 6" "length bssid = 6"
    for passphrase ssid self bssid
    using that s b w by (auto simp: wpa_begin_def supplicant_ok_def windows_ok_def fresh_window_def length_pmk)
  show "supplicant_ok s'" if "s' = beginCached pmk self bssid s" "length pmk = 32" "length self = 6" "length bssid = 6"
    for pmk self bssid
    using that s b w by (auto simp: beginCached_def supplicant_ok_def windows_ok_def fresh_window_def)
  show "supplicant_ok s'" if "s' = s\<lparr>w_pmf := p\<rparr>" for p
    using that s by (simp add: supplicant_ok_def windows_ok_def)
  show "supplicant_ok s'" if "onEapolKey c rnd body s = (ok, out, s')" "length rnd = 32" for rnd body ok out
    using onEapolKey_ok [OF that(1) s that(2)] .
  show "supplicant_ok s'" if "decryptData c frame s = (Plain p, s')" for frame p
    using decryptData_ok [OF s that] .
  show "supplicant_ok s'" if "decryptData c frame s = (Rejected, s')" for frame
    using decryptData_ok [OF s that] .
  show "supplicant_ok s'" if "buildEncryptedData c ip ethertype s = (f, s')" for ip ethertype f
    using that s by (auto simp: buildEncryptedData_def Let_def supplicant_ok_upd split: if_splits)
qed

lemma reachable_ok: "reachable c s h \<Longrightarrow> supplicant_ok s"
  by (induction rule: reachable.induct) (auto intro: step_ok supplicant_ok_init)

end

section \<open>The pairwise key\<close>

lemma le_nat_append: "le_nat (xs @ ys) = le_nat xs + 256 ^ length xs * le_nat ys"
  by (induction xs) (simp_all add: algebra_simps)

lemma be_num_Cons: "be_num (x # xs) = unat x * 256 ^ length xs + be_num xs"
  by (simp add: be_num_def le_nat_append)

lemma be_num_less: "be_num bs < 256 ^ length bs"
  using le_nat_less [of "rev bs"] by (simp add: be_num_def)

lemma memcmp_less_num: "length xs = length ys \<Longrightarrow> memcmp_less xs ys \<longleftrightarrow> be_num xs < be_num ys"
proof (induction xs ys rule: memcmp_less.induct)
  case (1 x xs y ys)
  then have l: "length xs = length ys" by simp
  have less: "a * n + u < b * n + v" if "a < b" "u < n" for a b n u v :: nat
  proof -
    have "a * n + u < Suc a * n" using that(2) by simp
    also have "\<dots> \<le> b * n" using that(1) by (intro mult_le_mono1) simp
    finally show ?thesis by simp
  qed
  consider "unat x < unat y" | "unat x = unat y" | "unat y < unat x" by linarith
  then show ?case
  proof cases
    case 1
    then show ?thesis
      using less [OF 1 be_num_less [of xs], of "be_num ys"] l by (simp add: be_num_Cons word_less_nat_alt)
  next
    case 2
    then have "x = y" by (simp add: word_unat_eq_iff)
    then show ?thesis using "1.IH" l by (simp add: be_num_Cons)
  next
    case 3
    then show ?thesis
      using less [OF 3 be_num_less [of ys], of "be_num xs"] l by (auto simp: be_num_Cons word_less_nat_alt)
  qed
qed (simp_all add: be_num_def)

definition keys_inv :: "crypto \<Rightarrow> supplicant \<Rightarrow> bool" where
  "keys_inv c s \<longleftrightarrow> (WaitMsg3 \<le> w_state s \<longrightarrow> w_kck s @ w_kek s @ w_tk s = ptk_spec c s)"

lemma wstate_ge [simp]:
  "WaitMsg3 \<le> x \<longleftrightarrow> x = WaitMsg3 \<or> x = Done" for x
  by (cases x) (simp_all add: less_eq_wstate_def)

lemma keys_inv_cong:
  "session s' = session s \<Longrightarrow> keys_inv c s' = keys_inv c s"
  by (simp add: session_def keys_inv_def ptk_spec_def)

context wpa_crypto
begin

lemma derivePtk_keys:
  assumes "supplicant_ok s" and "length nonce = 32" and "length rnd = 32"
  shows "keys_inv c ((derivePtk c rnd nonce s)\<lparr>w_state := st\<rparr>)"
    and "keys_inv c ((derivePtk c rnd nonce s)\<lparr>w_txPn := pn, w_rxPnPair := w, w_state := st\<rparr>)"
    and "w_tk (derivePtk c rnd nonce s) = slice 32 16 (ptk_of c (w_pmk s) (w_bssid s) (w_self s) nonce rnd)"
proof -
  have "slice 0 16 p @ slice 16 16 p @ slice 32 16 p = p" if "length p = 48" for p :: bytes
    using that by (auto simp: list_eq_iff_nth_eq nth_append slice_def)
  moreover have "length (w_bssid s) = length (w_self s)" "length nonce = length rnd"
    using assms by (simp_all add: supplicant_ok_def)
  ultimately show "keys_inv c ((derivePtk c rnd nonce s)\<lparr>w_state := st\<rparr>)"
    and "keys_inv c ((derivePtk c rnd nonce s)\<lparr>w_txPn := pn, w_rxPnPair := w, w_state := st\<rparr>)"
    and "w_tk (derivePtk c rnd nonce s) = slice 32 16 (ptk_of c (w_pmk s) (w_bssid s) (w_self s) nonce rnd)"
    using length_prf by (simp_all add: keys_inv_def ptk_spec_def ptk_of_def derivePtk_def Let_def memcmp_less_num lower_def upper_def)
qed

lemma keys_inv_upd [simp]:
  "keys_inv c (note_rc body s) = keys_inv c s"
  "keys_inv c (s\<lparr>w_txPn := pn\<rparr>) = keys_inv c s"
  "keys_inv c (s\<lparr>w_pmf := q\<rparr>) = keys_inv c s"
  "keys_inv c (set_rx_window g k w s) = keys_inv c s"
  by (simp_all add: keys_inv_def ptk_spec_def note_rc_def set_rx_window_def Let_def)

lemma keys_inv_WaitMsg1: "w_state s = WaitMsg1 \<Longrightarrow> keys_inv c s"
  by (simp add: keys_inv_def)

lemma keys_inv_Done: "keys_inv c s \<Longrightarrow> w_state s = WaitMsg3 \<Longrightarrow> keys_inv c (s\<lparr>w_state := Done\<rparr>)"
  by (simp add: keys_inv_def ptk_spec_def)

lemma onEapolKey_keys:
  assumes "onEapolKey c rnd body s = (ok, out, s')" and s: "supplicant_ok s" and "length rnd = 32"
    and k: "keys_inv c s"
  shows "keys_inv c s'"
proof -
  have upd: "group_upd (note_rc body s) (snd (installGtkFromKeyData body (note_rc body s)))" if "95 \<le> length body"
    using note_rc_ok [OF s that] by (intro installGtk_upd) (simp add: supplicant_ok_def)
  from assms(1) show ?thesis
  proof (cases rule: onEapolKey_cases)
    case group
    then show ?thesis using upd k keys_inv_cong [of s' "note_rc body s"] by (simp add: group_upd_def)
  next
    case m3
    let ?t = "snd (installGtkFromKeyData body (note_rc body s))"
    have "session ?t = session (note_rc body s)" using upd m3(1) by (simp add: group_upd_def)
    moreover from this have "w_state ?t = WaitMsg3" using m3(2) by (simp add: session_def note_rc_def Let_def)
    ultimately show ?thesis using m3 k keys_inv_cong [of ?t "note_rc body s"] by (simp add: keys_inv_Done)
  qed (use k derivePtk_keys [OF note_rc_ok [OF s]] assms(3) in auto)
qed

lemma step_keys:
  assumes "wpa_step c (s, h) (s', h')" and "supplicant_ok s" and "keys_inv c s"
  shows "keys_inv c s'"
  using assms
  by (elim wpa_stepE)
    (auto simp: wpa_begin_def beginCached_def keys_inv_WaitMsg1 decryptData_Plain buildEncryptedData_def Let_def
      dest: decryptData_other onEapolKey_keys split: if_splits)

lemma reachable_keys: "reachable c s h \<Longrightarrow> keys_inv c s"
proof (induction rule: reachable.induct)
  case reach_init
  then show ?case by (simp add: keys_inv_def supplicant_init_def)
next
  case (reach_step s h s' h')
  then show ?case using step_keys reachable_ok by blast
qed

end

text \<open>
  C19: the keys in use belong to the session. Whenever the supplicant waits for the third message
  or is connected, after any history of reconnects, handshakes and rekeys, the confirmation,
  encryption and temporal keys are the three parts of the 802.11i derivation from the current
  master key, the two addresses and the two nonces, each pair in numeric order.
\<close>

theorem session_keys_derived:
  assumes "reachable (MakeWpa2Crypto None) s h" and "WaitMsg3 \<le> w_state s"
  shows "w_kck s @ w_kek s @ w_tk s = ptk_spec (MakeWpa2Crypto None) s"
  using software.reachable_keys [OF assms(1)] assms(2) unfolding keys_inv_def by blast

text \<open>The first and third message as a received frame.\<close>

lemma m1_reply:
  assumes "w_state s = WaitMsg1" and "95 \<le> length body" and "\<not> hasMic body" and "isPairwise body"
  shows "onEapolKey c rnd body s =
    (let s' = derivePtk c rnd (slice 17 32 body) (note_rc body s) in (False, [buildMsg2 c s'], s'\<lparr>w_state := WaitMsg3\<rparr>))"
  using assms by (simp add: onEapolKey_def note_rc_def Let_def)

definition m1_example :: bytes where
  "m1_example = replicate 5 0 @ [0x00, 0x8A] @ replicate 92 0"

lemma m1_example: "95 \<le> length m1_example" "\<not> hasMic m1_example" "isPairwise m1_example"
  by (simp_all add: m1_example_def hasMic_def isPairwise_def eapol_info_def nth_append)

definition connecting :: supplicant where
  "connecting = beginCached (replicate 32 7) (replicate 6 1) (replicate 6 2) supplicant_init"

lemma reachable_connecting: "reachable c connecting (history_init\<lparr>h_seen := seen_after connecting history_init\<rparr>)"
  unfolding connecting_def by (rule reach_step [OF reach_init step_beginCached [OF refl]]) simp_all

lemma connecting_m1:
  fixes c :: crypto
  defines "s \<equiv> snd (snd (onEapolKey c (replicate 32 3) m1_example connecting))"
  shows "\<exists>h. reachable c s h" and "w_state s = WaitMsg3"
proof -
  have m: "w_state connecting = WaitMsg1" by (simp add: connecting_def beginCached_def)
  obtain ok out s' where e: "onEapolKey c (replicate 32 3) m1_example connecting = (ok, out, s')"
    by (cases "onEapolKey c (replicate 32 3) m1_example connecting")
  have "\<exists>h. reachable c s' h" using reach_step [OF reachable_connecting step_eapol [OF e _ refl]] by auto
  then show "\<exists>h. reachable c s h" using e by (auto simp: s_def)
  show "w_state s = WaitMsg3" by (simp add: s_def m1_reply [OF m m1_example] Let_def)
qed

theorem session_keys_derived_witness:
  "let s = snd (snd (onEapolKey (MakeWpa2Crypto None) (replicate 32 3) m1_example connecting)) in
   w_kck s @ w_kek s @ w_tk s = ptk_spec (MakeWpa2Crypto None) s"
  using session_keys_derived connecting_m1 [of "MakeWpa2Crypto None"] unfolding Let_def wstate_ge by blast

section \<open>Packet numbers sent\<close>

lemma pn_byte_ucast: "pn_byte pn i = ucast (drop_bit (8 * i) pn)"
proof -
  have "(0xff :: u64) = mask 8" by (simp add: mask_eq_exp_minus_1)
  then have "drop_bit (8 * i) pn AND 0xff = take_bit 8 (drop_bit (8 * i) pn)" by (simp only: take_bit_eq_mask)
  then show ?thesis unfolding pn_byte_def by (simp only:) (rule bit_word_eqI, simp add: bit_simps)
qed

lemma pn_nonce_be: "pn_nonce pn = be_bytes 6 pn"
  by (simp add: pn_nonce_def pn_byte_ucast be_bytes_def le_bytes_conv upt_rec)

lemma be_word_pn_nonce:
  assumes "unat pn < 2 ^ 48"
  shows "be_word (pn_nonce pn) = pn"
proof -
  have "be_word (pn_nonce pn) = (of_nat (unat pn mod 256 ^ 6) :: u64)"
    by (simp add: pn_nonce_be be_word_def be_bytes_def le_word_def le_bytes_def le_nat_nat_le)
  also have "unat pn mod 256 ^ 6 = unat pn" using assms by simp
  finally show ?thesis by simp
qed

lemma pn_nonce_inj: "pn_nonce p = pn_nonce q \<Longrightarrow> unat p < 2 ^ 48 \<Longrightarrow> unat q < 2 ^ 48 \<Longrightarrow> p = q"
  using be_word_pn_nonce by metis

lemma data_header_length: "length (w_bssid s) = 6 \<Longrightarrow> length (w_self s) = 6 \<Longrightarrow> length (data_header ip et s) = 24"
  by (simp add: data_header_def l2_destination_def)

lemma sealed_with:
  assumes "supplicant_ok s" and "w_state s = Done"
  shows "sealed_with c ip et s = (w_tk s, [0] @ w_self s @ pn_nonce (w_txPn s))"
proof -
  have l: "length (w_tk s) = 16" "length (data_header ip et (s\<lparr>w_txPn := w_txPn s + 1\<rparr>)) = 24"
    using assms(1) data_header_length [of "s\<lparr>w_txPn := w_txPn s + 1\<rparr>"] by (simp_all add: supplicant_ok_def)
  then show ?thesis
    using assms(2) by (simp add: sealed_with_def key_and_nonce_def buildEncryptedData_def probe_def pn_nonce_def ccmp_header_def Let_def)
qed

lemma built_nonempty: "buildEncryptedData c ip et s = (f, s') \<Longrightarrow> f \<noteq> [] \<longleftrightarrow> w_state s = Done"
  by (auto simp: buildEncryptedData_def ccmp_header_def Let_def split: if_splits)

text \<open>The key in use is the last one derived.\<close>

definition key_inv :: "supplicant \<Rightarrow> history \<Rightarrow> bool" where
  "key_inv s h \<longleftrightarrow> fst ` set (h_sent h) \<subseteq> set (h_keys h) \<and> fst ` set (h_opened h) \<subseteq> set (h_keys h) \<and>
    (WaitMsg3 \<le> w_state s \<longrightarrow> h_keys h \<noteq> [] \<and> w_tk s = last (h_keys h))"

definition tx_inv :: "supplicant \<Rightarrow> history \<Rightarrow> bool" where
  "tx_inv s h \<longleftrightarrow> unat (w_txPn s) \<le> length (h_sent h) + 1 \<and>
    (distinct (h_keys h) \<longrightarrow> distinct (h_sent h) \<and> (WaitMsg3 \<le> w_state s \<longrightarrow>
      (\<forall>b. (w_tk s, b) \<in> set (h_sent h) \<longrightarrow> (\<exists>p<w_txPn s. b = [0] @ w_self s @ pn_nonce p))))"

lemma tx_inv_send:
  assumes "tx_inv s h" and "w_state s = Done" and "length (h_sent h) + 1 < 2 ^ 48"
  shows "tx_inv (s\<lparr>w_txPn := w_txPn s + 1\<rparr>) (h\<lparr>h_sent := (w_tk s, [0] @ w_self s @ pn_nonce (w_txPn s)) # h_sent h\<rparr>)"
proof -
  let ?pn = "w_txPn s" and ?n = "\<lambda>p. [0] @ w_self s @ pn_nonce p"
  have b: "unat ?pn < 2 ^ 48" using assms(1,3) by (simp add: tx_inv_def)
  then have nowrap: "unat (?pn + 1) = unat ?pn + 1" by (simp add: unat_word_ariths)
  have old: "\<exists>p<?pn. b = ?n p" if "(w_tk s, b) \<in> set (h_sent h)" "distinct (h_keys h)" for b
    using assms(1,2) that by (simp add: tx_inv_def)
  have "(w_tk s, ?n ?pn) \<notin> set (h_sent h)" if "distinct (h_keys h)"
  proof
    assume "(w_tk s, ?n ?pn) \<in> set (h_sent h)"
    from old [OF this that] obtain p where "p < ?pn" "pn_nonce ?pn = pn_nonce p" by auto
    moreover from this have "unat p < 2 ^ 48" using b by (simp add: word_less_nat_alt)
    ultimately show False using pn_nonce_inj b by blast
  qed
  moreover have "\<exists>p<?pn + 1. b = ?n p"
    if "b = ?n ?pn \<or> (w_tk s, b) \<in> set (h_sent h)" "distinct (h_keys h)" for b
  proof -
    have "p < ?pn + 1" if "p \<le> ?pn" for p using that nowrap by (simp add: word_less_nat_alt word_le_nat_alt)
    then show ?thesis using that old [of b] by (metis order.refl less_imp_le)
  qed
  ultimately show ?thesis using assms(1) nowrap by (auto simp: tx_inv_def)
qed

lemma tx_inv_cong:
  "tx_inv s h \<Longrightarrow> w_txPn s' = w_txPn s \<Longrightarrow> w_state s' = w_state s \<or> w_state s' = Done \<and> w_state s = WaitMsg3 \<Longrightarrow>
   w_tk s' = w_tk s \<Longrightarrow> w_self s' = w_self s \<Longrightarrow> h_sent h' = h_sent h \<Longrightarrow> h_keys h' = h_keys h \<Longrightarrow> tx_inv s' h'"
  by (auto simp: tx_inv_def)

lemma key_inv_cong:
  "key_inv s h \<Longrightarrow> w_state s' = w_state s \<or> w_state s' = Done \<and> w_state s = WaitMsg3 \<Longrightarrow> w_tk s' = w_tk s \<Longrightarrow>
   h_sent h' = h_sent h \<Longrightarrow> h_opened h' = h_opened h \<Longrightarrow> h_keys h' = h_keys h \<Longrightarrow> key_inv s' h'"
  by (auto simp: key_inv_def)

text \<open>A new key, and a connect, may start the numbers again.\<close>

lemma tx_inv_rekey:
  assumes "tx_inv s h" and "key_inv s h" and "h_sent h' = h_sent h" and "h_keys h' = h_keys h @ [w_tk s']"
    and "w_txPn s' = w_txPn s \<or> w_txPn s' = 1"
  shows "tx_inv s' h'"
proof -
  have "(w_tk s', b) \<notin> set (h_sent h)" if "distinct (h_keys h')" for b
    using that assms(2,4) by (force simp: key_inv_def)
  then show ?thesis using assms by (auto simp: tx_inv_def)
qed

lemma key_inv_rekey:
  "key_inv s h \<Longrightarrow> h_sent h' = h_sent h \<Longrightarrow> h_opened h' = h_opened h \<Longrightarrow> h_keys h' = h_keys h @ [w_tk s'] \<Longrightarrow> key_inv s' h'"
  by (auto simp: key_inv_def)

lemma tx_inv_begin:
  "tx_inv s h \<Longrightarrow> h_sent h' = h_sent h \<Longrightarrow> h_keys h' = h_keys h \<Longrightarrow> w_txPn s' = 1 \<Longrightarrow> w_state s' = WaitMsg1 \<Longrightarrow> tx_inv s' h'"
  by (auto simp: tx_inv_def)

lemma key_inv_begin:
  "key_inv s h \<Longrightarrow> h_sent h' = h_sent h \<Longrightarrow> h_opened h' = h_opened h \<Longrightarrow> h_keys h' = h_keys h \<Longrightarrow> w_state s' = WaitMsg1 \<Longrightarrow> key_inv s' h'"
  by (auto simp: key_inv_def)

text \<open>A handshake frame leaves the pairwise key and its numbers alone, or derives a new key.\<close>

lemma note_rc_keeps [simp]:
  "w_txPn (note_rc body s) = w_txPn s" "w_tk (note_rc body s) = w_tk s" "w_self (note_rc body s) = w_self s"
  "w_bssid (note_rc body s) = w_bssid s" "w_pmk (note_rc body s) = w_pmk s" "w_state (note_rc body s) = w_state s"
  "w_rxPnPair (note_rc body s) = w_rxPnPair s" "w_kek (note_rc body s) = w_kek s" "w_rxPnGtk (note_rc body s) = w_rxPnGtk s"
  by (simp_all add: note_rc_def Let_def)

lemma derivePtk_keeps [simp]:
  "w_txPn (derivePtk c rnd nonce s) = w_txPn s" "w_rxPnPair (derivePtk c rnd nonce s) = w_rxPnPair s"
  "w_rxPnGtk (derivePtk c rnd nonce s) = w_rxPnGtk s"
  by (simp_all add: derivePtk_def Let_def)

lemma group_upd_fields:
  "group_upd s s' \<Longrightarrow> w_txPn s' = w_txPn s \<and> w_state s' = w_state s \<and> w_rxPnPair s' = w_rxPnPair s \<and> w_tk s' = w_tk s \<and> w_self s' = w_self s"
  by (simp add: group_upd_def session_def)

context wpa_crypto
begin

lemma eapol_key:
  assumes "onEapolKey c rnd body s = (ok, out, s')" and "supplicant_ok s" and "length rnd = 32"
  obtains (same) "keys_after c rnd body out s keys = keys" "w_txPn s' = w_txPn s" "w_tk s' = w_tk s" "w_self s' = w_self s"
      "w_state s' = w_state s \<or> w_state s' = Done \<and> w_state s = WaitMsg3" "w_rxPnPair s' = w_rxPnPair s"
  | (new) "keys_after c rnd body out s keys = keys @ [w_tk s']" "w_txPn s' = w_txPn s \<or> w_txPn s' = 1"
proof -
  have upd: "group_upd (note_rc body s) (snd (installGtkFromKeyData body (note_rc body s)))"
    using assms(2) by (intro installGtk_upd) (simp add: supplicant_ok_def)
  note f = group_upd_fields [OF upd, simplified]
  have tk: "w_tk (derivePtk c rnd (slice 17 32 body) (note_rc body s)) =
      slice 32 16 (ptk_of c (w_pmk s) (w_bssid s) (w_self s) (slice 17 32 body) rnd)" if "95 \<le> length body"
    using derivePtk_keys(3) [OF note_rc_ok [OF assms(2) that] _ assms(3), of "slice 17 32 body"] that by simp
  from assms(1) show thesis
  proof (cases rule: onEapolKey_cases)
    case group
    then show ?thesis using f by (intro same) (simp_all add: keys_after_def)
  next
    case m1
    then show ?thesis using tk by (intro new) (auto simp: keys_after_def)
  next
    case rekey
    then show ?thesis using tk by (intro new) (auto simp: keys_after_def)
  next
    case m3
    then show ?thesis using f by (intro same) (simp_all add: keys_after_def)
  qed (auto intro!: same simp: keys_after_def)
qed

lemma opened_with:
  assumes "supplicant_ok s" and "decryptData c frame s = (Plain p, s')" and "\<not> rx_group frame"
  shows "\<exists>n. opened_with c frame s = (w_tk s, n) \<and> drop 7 n = rx_pn frame"
proof -
  let ?q = "rx_hdr frame = 26"
  let ?n = "[if ?q then (frame ! 24) AND 0x0f else 0] @ slice 10 6 frame @ rx_pn frame"
  have "32 \<le> length frame" using assms(2) by (simp add: decryptData_Plain)
  then have "length (slice 10 6 frame) = 6" by simp
  moreover have "length (w_tk s) = 16" using assms(1) by (simp add: supplicant_ok_def)
  moreover have "rx_plain (probe c) frame s = Some (rx_key frame s @ ?n)"
    by (simp add: rx_plain_def probe_def Let_def)
  ultimately show ?thesis
    using assms(3) by (simp add: opened_with_def key_and_nonce_def rx_key_def)
qed

lemma step_key:
  assumes "wpa_step c (s, h) (s', h')" and "supplicant_ok s" and "key_inv s h"
  shows "key_inv s' h'"
  using assms(1)
proof (rule wpa_stepE)
  fix rnd body ok out
  assume e: "onEapolKey c rnd body s = (ok, out, s')" "length rnd = 32"
    and h': "h' = h\<lparr>h_keys := keys_after c rnd body out s (h_keys h), h_seen := seen_after s' h\<rparr>"
  from e(1) assms(2) e(2) show "key_inv s' h'"
  proof (cases rule: eapol_key [where keys = "h_keys h"])
    case same
    then show ?thesis by (intro key_inv_cong [OF assms(3)]) (simp_all add: h')
  next
    case new
    then show ?thesis by (intro key_inv_rekey [OF assms(3)]) (simp_all add: h')
  qed
next
  fix frame p
  assume d: "decryptData c frame s = (Plain p, s')"
    and h': "h' = h\<lparr>h_opened := (if rx_group frame then h_opened h else opened_with c frame s # h_opened h),
      h_seen := (h_seen h)(rx_slot frame := h_seen h (rx_slot frame) @ [be_word (rx_pn frame)])\<rparr>"
  have f: "w_state s = Done" "w_state s' = Done" "w_tk s' = w_tk s"
    using d by (auto simp: decryptData_Plain set_rx_window_def)
  then have "w_tk s \<in> set (h_keys h)" using assms(3) by (simp add: key_inv_def)
  then have "rx_group frame \<or> fst (opened_with c frame s) \<in> set (h_keys h)"
    using opened_with [OF assms(2) d] by fastforce
  then show "key_inv s' h'" using assms(3) f by (auto simp: key_inv_def h')
next
  fix ip et f
  assume "buildEncryptedData c ip et s = (f, s')"
    and h': "h' = (if f \<noteq> [] then h\<lparr>h_sent := sealed_with c ip et s # h_sent h\<rparr> else h)"
  then show "key_inv s' h'"
    using sealed_with [OF assms(2), of c ip et] built_nonempty assms(3)
    by (auto simp: key_inv_def buildEncryptedData_def Let_def split: if_splits)
qed (use assms(3) in \<open>auto simp: wpa_begin_def beginCached_def
      intro: key_inv_begin [OF assms(3)] key_inv_cong [OF assms(3)] dest: decryptData_other\<close>)

lemma step_tx:
  assumes "wpa_step c (s, h) (s', h')" and "supplicant_ok s" and "key_inv s h"
    and "tx_inv s h" and "length (h_sent h') < 2 ^ 48"
  shows "tx_inv s' h'"
  using assms(1)
proof (rule wpa_stepE)
  fix rnd body ok out
  assume e: "onEapolKey c rnd body s = (ok, out, s')" "length rnd = 32"
    and h': "h' = h\<lparr>h_keys := keys_after c rnd body out s (h_keys h), h_seen := seen_after s' h\<rparr>"
  from e(1) assms(2) e(2) show "tx_inv s' h'"
  proof (cases rule: eapol_key [where keys = "h_keys h"])
    case same
    then show ?thesis by (intro tx_inv_cong [OF assms(4)]) (simp_all add: h')
  next
    case new
    then show ?thesis by (intro tx_inv_rekey [OF assms(4,3)]) (simp_all add: h')
  qed
next
  fix ip et f
  assume b: "buildEncryptedData c ip et s = (f, s')"
    and h': "h' = (if f \<noteq> [] then h\<lparr>h_sent := sealed_with c ip et s # h_sent h\<rparr> else h)"
  show "tx_inv s' h'"
  proof (cases "w_state s = Done")
    case True
    then have "s' = s\<lparr>w_txPn := w_txPn s + 1\<rparr>" using b by (auto simp: buildEncryptedData_def Let_def)
    then show ?thesis
      using tx_inv_send [OF assms(4) True] assms(5) h' built_nonempty [OF b] True sealed_with [OF assms(2) True] by simp
  next
    case False
    then show ?thesis using b h' assms(4) by (auto simp: buildEncryptedData_def)
  qed
next
  show "tx_inv s' h'" if "decryptData c frame s = (Plain p, s')"
    "h' = h\<lparr>h_opened := (if rx_group frame then h_opened h else opened_with c frame s # h_opened h),
      h_seen := (h_seen h)(rx_slot frame := h_seen h (rx_slot frame) @ [be_word (rx_pn frame)])\<rparr>" for frame p
    using that by (auto simp: decryptData_Plain set_rx_window_def intro!: tx_inv_cong [OF assms(4)])
qed (use assms(4) in \<open>auto simp: wpa_begin_def beginCached_def
      intro: tx_inv_begin [OF assms(4)] tx_inv_cong [OF assms(4)] dest: decryptData_other\<close>)

lemma sent_mono: "wpa_step c (s, h) (s', h') \<Longrightarrow> length (h_sent h) \<le> length (h_sent h')"
  by (elim wpa_stepE) auto

lemma reachable_key: "reachable c s h \<Longrightarrow> key_inv s h"
proof (induction rule: reachable.induct)
  case reach_init
  then show ?case by (simp add: key_inv_def supplicant_init_def history_init_def)
next
  case (reach_step s h s' h')
  then show ?case using step_key reachable_ok by blast
qed

lemma reachable_tx: "reachable c s h \<Longrightarrow> length (h_sent h) < 2 ^ 48 \<Longrightarrow> tx_inv s h"
proof (induction rule: reachable.induct)
  case reach_init
  then show ?case by (simp add: tx_inv_def supplicant_init_def history_init_def)
next
  case (reach_step s h s' h')
  then have "tx_inv s h" using sent_mono [OF reach_step(2)] by simp
  then show ?case using step_tx reach_step reachable_ok reachable_key by blast
qed

end

text \<open>
  C1: no nonce is used twice under one key. Whatever arrives - repeated, reordered or forged
  handshake messages, in any state, with reconnects in between - the pairs of the key and the nonce
  that the supplicant hands to the CCMP cipher for the frames it sends are all different, as long
  as fewer than \<open>2^48\<close> frames were sent and no two of the answered first messages have the same
  802.11i temporal key (the nonces in them are fresh): a repeated third message never starts the
  packet numbers again under a key in use, and every restart of the numbers comes with the new key.
\<close>

theorem tx_nonces_never_reused:
  assumes "reachable (MakeWpa2Crypto None) s h" and "length (h_sent h) < 2 ^ 48" and "distinct (h_keys h)"
  shows "distinct (h_sent h)"
  using software.reachable_tx [OF assms(1,2)] assms(3) by (simp add: tx_inv_def)

text \<open>A connected supplicant sends a frame.\<close>

definition m3_example :: bytes where
  "m3_example = replicate 5 0 @ [0x01, 0x8A] @ replicate 92 0"

lemma m3_example: "95 \<le> length m3_example" "hasMic m3_example" "isPairwise m3_example"
  by (simp_all add: m3_example_def hasMic_def isPairwise_def eapol_info_def nth_append)

definition connected :: "crypto \<Rightarrow> supplicant" where
  "connected c = snd (snd (onEapolKey c (replicate 32 5) m3_example
     (snd (snd (onEapolKey c (replicate 32 3) m1_example connecting)))))"

lemma reachable_eapol:
  assumes "reachable c s h" and "length rnd = 32"
  shows "\<exists>h'. reachable c (snd (snd (onEapolKey c rnd body s))) h' \<and> h_sent h' = h_sent h \<and> h_opened h' = h_opened h \<and>
    h_keys h' = keys_after c rnd body (fst (snd (onEapolKey c rnd body s))) s (h_keys h)"
proof -
  obtain ok out s' where e: "onEapolKey c rnd body s = (ok, out, s')" by (cases "onEapolKey c rnd body s")
  from reach_step [OF assms(1) step_eapol [OF e assms(2) refl]] show ?thesis using e by auto
qed

lemma m3_reply:
  assumes "w_state s = WaitMsg3" and "95 \<le> length body" and "hasMic body" and "isPairwise body"
  shows "onEapolKey c rnd body s =
    (let s' = snd (installGtkFromKeyData body (note_rc body s)) in (True, [buildMsg4 c s'], s'\<lparr>w_state := Done\<rparr>))"
  using assms by (simp add: onEapolKey_def Let_def)

lemma connected:
  shows "\<exists>h. reachable c (connected c) h \<and> h_sent h = [] \<and> length (h_keys h) = 1" and "w_state (connected c) = Done"
proof -
  let ?h = "history_init\<lparr>h_seen := seen_after connecting history_init\<rparr>"
  have h: "h_sent ?h = []" "h_keys ?h = []" by (simp_all add: history_init_def)
  have o: "fst (snd (onEapolKey c (replicate 32 3) m1_example connecting)) \<noteq> []"
    by (simp add: m1_reply [OF _ m1_example] connecting_def beginCached_def Let_def)
  obtain h1 where h1: "reachable c (snd (snd (onEapolKey c (replicate 32 3) m1_example connecting))) h1" "h_sent h1 = []" "length (h_keys h1) = 1"
    using reachable_eapol [OF reachable_connecting, of "replicate 32 3" c m1_example] h o m1_example by (auto simp: keys_after_def)
  then show "\<exists>h. reachable c (connected c) h \<and> h_sent h = [] \<and> length (h_keys h) = 1"
    using reachable_eapol [OF h1(1), of "replicate 32 5" m3_example] m3_example h1(2,3)
    by (fastforce simp: connected_def keys_after_def)
  show "w_state (connected c) = Done"
    by (simp add: connected_def m3_reply [OF connecting_m1(2) m3_example] Let_def)
qed

lemma distinct_1: "length xs = 1 \<Longrightarrow> distinct xs"
  by (cases xs) simp_all

theorem tx_nonces_never_reused_witness:
  "\<exists>s h. reachable (MakeWpa2Crypto None) s h \<and> length (h_sent h) = 2 \<and> distinct (h_sent h)"
proof -
  let ?c = "MakeWpa2Crypto None"
  obtain h where h: "reachable ?c (connected ?c) h" "h_sent h = []" "length (h_keys h) = 1" using connected(1) by blast
  obtain f1 s1 where 1: "buildEncryptedData ?c [1] 0x0806 (connected ?c) = (f1, s1)" by fastforce
  have d1: "w_state s1 = Done" using 1 connected(2) [of ?c] by (auto simp: buildEncryptedData_def Let_def)
  obtain f2 s2 where 2: "buildEncryptedData ?c [2] 0x0806 s1 = (f2, s2)" by fastforce
  have "f1 \<noteq> []" "f2 \<noteq> []" using built_nonempty [OF 1] built_nonempty [OF 2] d1 connected(2) by simp_all
  with reach_step [OF reach_step [OF h(1) step_send [OF 1 refl]] step_send [OF 2 refl]]
  obtain h2 where "reachable ?c s2 h2" "length (h_sent h2) = 2" "distinct (h_keys h2)" using h(2) distinct_1 [OF h(3)] by auto
  with tx_nonces_never_reused [OF this(1)] show ?thesis by auto
qed

section \<open>Packet numbers received\<close>

definition slots :: "(bool \<times> nat) set" where
  "slots = insert (False, 0) ({True} \<times> {..<4})"

definition rx_inv :: "supplicant \<Rightarrow> history \<Rightarrow> bool" where
  "rx_inv s h \<longleftrightarrow> (\<forall>slot\<in>slots. distinct (h_seen h slot) \<and>
     pn_rel (rx_window (fst slot) (snd slot) s) (set (h_seen h slot)))"

text \<open>A handshake message or a connect leaves every window as it is or resets it.\<close>

definition windows_upd :: "supplicant \<Rightarrow> supplicant \<Rightarrow> bool" where
  "windows_upd s s' \<longleftrightarrow> (\<forall>(g, k)\<in>slots. rx_window g k s' = rx_window g k s \<or> rx_window g k s' = fresh_window)"

lemma rx_inv_seen: "rx_inv s h \<Longrightarrow> h_seen h' = h_seen h \<Longrightarrow> rx_inv s h'"
  by (simp add: rx_inv_def)

lemma fresh_rel: "pn_rel fresh_window {}"
  by (simp add: fresh_window_def pn_rel_1)

lemma rx_inv_upd:
  assumes "rx_inv s h" and "windows_upd s s'" and "h_seen h' = seen_after s' h"
  shows "rx_inv s' h'"
  unfolding rx_inv_def
proof
  fix slot assume slot: "slot \<in> slots"
  obtain g k where gk: "slot = (g, k)" by (cases slot)
  show "distinct (h_seen h' slot) \<and> pn_rel (rx_window (fst slot) (snd slot) s') (set (h_seen h' slot))"
  proof (cases "rx_window g k s' = fresh_window")
    case True
    then show ?thesis by (simp add: assms(3) seen_after_def gk fresh_rel)
  next
    case False
    then have "rx_window g k s' = rx_window g k s" using assms(2) slot gk by (auto simp: windows_upd_def)
    then show ?thesis using assms(1) slot False by (simp add: assms(3) seen_after_def gk rx_inv_def) force
  qed
qed

lemma windows_upd_begin:
  assumes "windows_ok s" and "w_rxPnPair s' = (0, winClear (snd (w_rxPnPair s)))"
    and "w_rxPnGtk s' = map (\<lambda>p. (0, winClear (snd p))) (w_rxPnGtk s)"
  shows "windows_upd s s'"
  using windows_ok_begin [OF assms(1)] by (auto simp: windows_upd_def slots_def rx_window_def assms(2,3))

lemma rx_slot_slots: "rx_slot frame \<in> slots"
  by (simp add: rx_slot_def slots_def rx_kid_4)

lemma rx_inv_accept:
  assumes "rx_inv s h" and "supplicant_ok s"
    and check: "pnWindowCheck (rx_window (rx_group frame) (rx_kid frame) s) pn = (True, win)"
  shows "rx_inv (set_rx_window (rx_group frame) (rx_kid frame) win s)
    (h\<lparr>h_seen := (h_seen h)(rx_slot frame := h_seen h (rx_slot frame) @ [pn])\<rparr>)"
  unfolding rx_inv_def
proof
  let ?s = "set_rx_window (rx_group frame) (rx_kid frame) win s"
  have w: "rx_window (fst (rx_slot frame)) (snd (rx_slot frame)) s = rx_window (rx_group frame) (rx_kid frame) s"
    by (simp add: rx_slot_def rx_window_def)
  have l: "length (w_rxPnGtk s) = 4" using assms(2) by (simp add: supplicant_ok_def windows_ok_def)
  fix slot assume slot: "slot \<in> slots"
  show "distinct (h_seen (h\<lparr>h_seen := (h_seen h)(rx_slot frame := h_seen h (rx_slot frame) @ [pn])\<rparr>) slot) \<and>
    pn_rel (rx_window (fst slot) (snd slot) ?s)
      (set (h_seen (h\<lparr>h_seen := (h_seen h)(rx_slot frame := h_seen h (rx_slot frame) @ [pn])\<rparr>) slot))"
  proof (cases "slot = rx_slot frame")
    case True
    have "distinct (h_seen h (rx_slot frame))" "pn_rel (rx_window (rx_group frame) (rx_kid frame) s) (set (h_seen h (rx_slot frame)))"
      using assms(1) rx_slot_slots [of frame] w by (auto simp: rx_inv_def)
    moreover from pn.accept [OF this(2) check]
    have "pn \<notin> set (h_seen h (rx_slot frame)) \<and> pn_rel win (insert pn (set (h_seen h (rx_slot frame))))" .
    moreover have "rx_window (fst slot) (snd slot) ?s = win"
      using rx_kid_4 [of frame] l by (simp add: True rx_slot_def rx_window_def set_rx_window_def)
    ultimately show ?thesis using True by simp
  next
    case False
    then have "rx_window (fst slot) (snd slot) ?s = rx_window (fst slot) (snd slot) s"
      using slot l by (auto simp: rx_slot_def rx_window_def set_rx_window_def slots_def nth_list_update rx_kid_4 split: if_splits)
    then show ?thesis using False assms(1) slot by (simp add: rx_inv_def)
  qed
qed

context wpa_crypto
begin

lemma windows_upd_eapol:
  assumes "onEapolKey c rnd body s = (ok, out, s')" and "supplicant_ok s"
  shows "windows_upd s s'"
proof -
  let ?i = "snd (installGtkFromKeyData body (note_rc body s))"
  have "group_upd (note_rc body s) ?i"
    using assms(2) by (intro installGtk_upd) (simp add: supplicant_ok_def)
  moreover have "windows_ok (note_rc body s)" "windows_ok s" using assms(2) by (simp_all add: supplicant_ok_def windows_ok_def)
  ultimately have "w_rxPnPair ?i = w_rxPnPair s"
    "\<forall>k<4. w_rxPnGtk ?i ! k = w_rxPnGtk s ! k \<or> w_rxPnGtk ?i ! k = fresh_window"
    and p: "(0, winClear (snd (w_rxPnPair s))) = fresh_window"
    using windows_ok_begin [of s] by (auto simp: group_upd_def session_def)
  then have i: "windows_upd s ?i" "windows_upd s (?i\<lparr>w_state := Done\<rparr>)"
    by (auto simp: windows_upd_def slots_def rx_window_def)
  from assms(1) show ?thesis
  proof (cases rule: onEapolKey_cases)
    case group
    then show ?thesis using i by simp
  next
    case m3
    then show ?thesis using i by simp
  qed (auto simp: windows_upd_def slots_def rx_window_def p)
qed

lemma step_rx:
  assumes "wpa_step c (s, h) (s', h')" and ok: "supplicant_ok s" and "rx_inv s h"
  shows "rx_inv s' h'"
  using assms(1)
proof (rule wpa_stepE)
  have w: "windows_ok s" using ok by (simp add: supplicant_ok_def)
  show "rx_inv s' h'" if "wpa_begin c passphrase ssid self bssid s = Some s'" "h' = h\<lparr>h_seen := seen_after s' h\<rparr>"
    for passphrase ssid self bssid
    using that by (intro rx_inv_upd [OF assms(3) windows_upd_begin [OF w]]) (auto simp: wpa_begin_def)
  show "rx_inv s' h'" if "s' = beginCached pmk self bssid s"
    "h' = h\<lparr>h_seen := seen_after (beginCached pmk self bssid s) h\<rparr>" for pmk self bssid
    using that by (intro rx_inv_upd [OF assms(3) windows_upd_begin [OF w]]) (auto simp: beginCached_def)
  show "rx_inv s' h'" if "onEapolKey c rnd body s = (ok', out, s')"
    "h' = h\<lparr>h_keys := keys_after c rnd body out s (h_keys h), h_seen := seen_after s' h\<rparr>" for rnd body ok' out
    by (rule rx_inv_upd [OF assms(3) windows_upd_eapol [OF that(1) ok]]) (simp add: that(2))
  show "rx_inv s' h'" if "decryptData c frame s = (Plain p, s')"
    "h' = h\<lparr>h_opened := (if rx_group frame then h_opened h else opened_with c frame s # h_opened h),
      h_seen := (h_seen h)(rx_slot frame := h_seen h (rx_slot frame) @ [be_word (rx_pn frame)])\<rparr>" for frame p
    using that rx_inv_accept [OF assms(3) ok, of frame "be_word (rx_pn frame)"] by (auto simp: decryptData_Plain intro: rx_inv_seen)
  show "rx_inv s' h'" if "decryptData c frame s = (Rejected, s')" "h' = h" for frame
    using that assms(3) by (auto dest: decryptData_other)
  show "rx_inv s' h'" if "buildEncryptedData c ip ethertype s = (f, s')"
    "h' = (if f \<noteq> [] then h\<lparr>h_sent := sealed_with c ip ethertype s # h_sent h\<rparr> else h)" for ip ethertype f
    using that assms(3) by (auto simp: buildEncryptedData_def Let_def rx_inv_def rx_window_def split: if_splits)
qed (use assms(3) in \<open>auto simp: rx_inv_def rx_window_def\<close>)

lemma reachable_rx: "reachable c s h \<Longrightarrow> rx_inv s h"
proof (induction rule: reachable.induct)
  case reach_init
  then show ?case
    using fresh_rel by (auto simp: rx_inv_def supplicant_init_def history_init_def slots_def rx_window_def pn_init_def fresh_window_def)
next
  case (reach_step s h s' h')
  then show ?case using step_rx reachable_ok by blast
qed

end

text \<open>The unicast frames delivered under the key in use are in its window.\<close>

definition op_inv :: "supplicant \<Rightarrow> history \<Rightarrow> bool" where
  "op_inv s h \<longleftrightarrow> (distinct (h_keys h) \<longrightarrow> distinct (h_opened h) \<and> (WaitMsg3 \<le> w_state s \<longrightarrow>
      (\<forall>b. (w_tk s, b) \<in> set (h_opened h) \<longrightarrow> be_word (drop 7 b) \<in> set (h_seen h (False, 0)))))"

lemma op_inv_cong:
  "op_inv s h \<Longrightarrow> w_state s' = w_state s \<or> w_state s' = Done \<and> w_state s = WaitMsg3 \<Longrightarrow> w_tk s' = w_tk s \<Longrightarrow>
   h_opened h' = h_opened h \<Longrightarrow> h_keys h' = h_keys h \<Longrightarrow> set (h_seen h' (False, 0)) = set (h_seen h (False, 0)) \<Longrightarrow> op_inv s' h'"
  by (elim disjE) (simp_all add: op_inv_def)

lemma op_inv_rekey:
  assumes "op_inv s h" and "key_inv s h" and "h_opened h' = h_opened h" and "h_keys h' = h_keys h @ [w_tk s']"
  shows "op_inv s' h'"
proof -
  have "(w_tk s', b) \<notin> set (h_opened h)" if "distinct (h_keys h')" for b
    using that assms(2,4) by (force simp: key_inv_def)
  then show ?thesis using assms by (auto simp: op_inv_def)
qed

lemma op_inv_begin:
  "op_inv s h \<Longrightarrow> h_opened h' = h_opened h \<Longrightarrow> h_keys h' = h_keys h \<Longrightarrow> w_state s' = WaitMsg1 \<Longrightarrow> op_inv s' h'"
  by (auto simp: op_inv_def)

text \<open>A window that is left as it is has the same numbers behind it, also when it is fresh.\<close>

lemma seen_after_same:
  assumes "rx_inv s h" and "w_rxPnPair s' = w_rxPnPair s"
  shows "set (seen_after s' h (False, 0)) = set (h_seen h (False, 0))"
proof -
  have "pn_rel (w_rxPnPair s) (set (h_seen h (False, 0)))" using assms(1) by (auto simp: rx_inv_def slots_def rx_window_def)
  then have "h_seen h (False, 0) = []" if "w_rxPnPair s = fresh_window"
    using pn_word_nonzero [of "set (h_seen h (False, 0))" 0 0] that unfolding fresh_window_def by fastforce
  then show ?thesis using assms(2) by (simp add: seen_after_def rx_window_def)
qed

context wpa_crypto
begin

lemma op_inv_accept:
  assumes d: "decryptData c frame s = (Plain p, s')" and "\<not> rx_group frame"
    and "supplicant_ok s" and "rx_inv s h" and "op_inv s h"
  shows "op_inv s' (h\<lparr>h_opened := opened_with c frame s # h_opened h,
      h_seen := (h_seen h)(rx_slot frame := h_seen h (rx_slot frame) @ [be_word (rx_pn frame)])\<rparr>)"
proof -
  obtain n where n: "opened_with c frame s = (w_tk s, n)" "drop 7 n = rx_pn frame"
    using opened_with [OF assms(3) d assms(2)] by blast
  have slot: "rx_slot frame = (False, 0)" using assms(2) by (simp add: rx_slot_def)
  have f: "w_state s = Done" "w_state s' = Done" "w_tk s' = w_tk s"
    using d by (auto simp: decryptData_Plain set_rx_window_def)
  from d assms(2) obtain win where "pnWindowCheck (rx_window False 0 s) (be_word (rx_pn frame)) = (True, win)"
    by (auto simp: decryptData_Plain rx_window_def)
  moreover have "pn_rel (rx_window False 0 s) (set (h_seen h (False, 0)))" using assms(4) by (auto simp: rx_inv_def slots_def)
  ultimately have "be_word (rx_pn frame) \<notin> set (h_seen h (False, 0))" using pn.accept by blast
  then have "opened_with c frame s \<notin> set (h_opened h)" if "distinct (h_keys h)"
    using assms(5) that f(1) n by (auto simp: op_inv_def)
  then show ?thesis using assms(5) f n slot by (auto simp: op_inv_def)
qed

lemma step_op:
  assumes "wpa_step c (s, h) (s', h')" and "supplicant_ok s" and "key_inv s h" and "rx_inv s h" and "op_inv s h"
  shows "op_inv s' h'"
  using assms(1)
proof (rule wpa_stepE)
  fix rnd body ok out
  assume e: "onEapolKey c rnd body s = (ok, out, s')" "length rnd = 32"
    and h': "h' = h\<lparr>h_keys := keys_after c rnd body out s (h_keys h), h_seen := seen_after s' h\<rparr>"
  from e(1) assms(2) e(2) show "op_inv s' h'"
  proof (cases rule: eapol_key [where keys = "h_keys h"])
    case same
    then show ?thesis using seen_after_same [OF assms(4)] by (intro op_inv_cong [OF assms(5)]) (simp_all add: h')
  next
    case new
    then show ?thesis by (intro op_inv_rekey [OF assms(5,3)]) (simp_all add: h')
  qed
next
  fix frame p
  assume d: "decryptData c frame s = (Plain p, s')"
    and h': "h' = h\<lparr>h_opened := (if rx_group frame then h_opened h else opened_with c frame s # h_opened h),
      h_seen := (h_seen h)(rx_slot frame := h_seen h (rx_slot frame) @ [be_word (rx_pn frame)])\<rparr>"
  show "op_inv s' h'"
  proof (cases "rx_group frame")
    case True
    then show ?thesis
      using d by (auto simp: h' decryptData_Plain set_rx_window_def rx_slot_def intro!: op_inv_cong [OF assms(5)])
  next
    case False
    then show ?thesis using op_inv_accept [OF d False assms(2,4,5)] by (simp add: h')
  qed
next
  show "op_inv s' h'" if "buildEncryptedData c ip ethertype s = (f, s')"
    "h' = (if f \<noteq> [] then h\<lparr>h_sent := sealed_with c ip ethertype s # h_sent h\<rparr> else h)" for ip ethertype f
    using that by (auto simp: buildEncryptedData_def Let_def split: if_splits intro!: op_inv_cong [OF assms(5)])
qed (use assms(5) in \<open>auto simp: wpa_begin_def beginCached_def
      intro: op_inv_begin [OF assms(5)] op_inv_cong [OF assms(5)] dest: decryptData_other\<close>)

lemma reachable_op: "reachable c s h \<Longrightarrow> op_inv s h"
proof (induction rule: reachable.induct)
  case reach_init
  then show ?case by (simp add: op_inv_def supplicant_init_def history_init_def)
next
  case (reach_step s h s' h')
  then show ?case using step_op reachable_ok reachable_key reachable_rx by blast
qed

end

text \<open>
  C2: no unicast frame is delivered twice under one pairwise key. In every reachable state, if no
  two of the answered first messages have the same 802.11i temporal key, the pairs of the key and
  the nonce the supplicant hands to the CCMP cipher for the unicast frames it delivers are all
  different, over all connects and rekeys: what an attacker repeats or reorders is dropped. For
  group frames the promise is one per window only: of each of the four windows, which the key
  number in the frame selects, the packet numbers delivered since its last reset are all different.
\<close>

theorem no_data_frame_replayed:
  assumes "reachable (MakeWpa2Crypto None) s h" and "distinct (h_keys h)"
  shows "distinct (h_opened h) \<and> (\<forall>kid<4. distinct (h_seen h (True, kid)))"
  using software.reachable_rx [OF assms(1)] software.reachable_op [OF assms(1)] assms(2)
  by (auto simp: rx_inv_def op_inv_def slots_def)

theorem no_data_frame_replayed_witness:
  "\<exists>h. reachable (MakeWpa2Crypto None) (connected (MakeWpa2Crypto None)) h \<and> length (h_keys h) = 1 \<and>
    distinct (h_opened h) \<and> (\<forall>kid<4. distinct (h_seen h (True, kid)))"
  using connected(1) no_data_frame_replayed distinct_1 by blast

end
