(* ===== verification/WpaExchange.thy ===== *)
theory WpaExchange
  imports WpaSafety
begin

text \<open>
  The exchanges of the supplicant with its access point: the handshake and the group rekey with a
  wrapped key, the replies, and the encrypted data frames end to end.
\<close>

section \<open>Group keys in the key data\<close>

text \<open>The element of 802.11i that carries a group key.\<close>

definition gtk_kde :: "u8 \<Rightarrow> bytes \<Rightarrow> bytes" where
  "gtk_kde kid gtk = [0xdd, 22, 0x00, 0x0f, 0xac, 0x01, kid, 0] @ gtk"

text \<open>A frame that carries it, wrapped with the key-encryption key of the session.\<close>

definition carries_gtk :: "bytes \<Rightarrow> bytes \<Rightarrow> u8 \<Rightarrow> bytes \<Rightarrow> bool" where
  "carries_gtk kek body kid gtk \<longleftrightarrow> length body = 131 \<and> length gtk = 16 \<and> body ! 97 = 0 \<and> body ! 98 = 32 \<and>
     slice 99 32 body = aes_key_wrap kek (gtk_kde kid gtk)"

lemma install_kdes_gtk:
  assumes "length gtk = 16"
  shows "install_kdes (set_slice 0 (gtk_kde kid gtk) (replicate 32 0)) 24 0 False s =
    (True, install_gtk (gtk_kde kid gtk @ replicate 8 0) 0 s)"
proof -
  have kp: "set_slice 0 (gtk_kde kid gtk) (replicate 32 0) = gtk_kde kid gtk @ replicate 8 0"
    using assms by (simp add: set_slice_def gtk_kde_def)
  show ?thesis
    unfolding kp by (subst install_kdes.simps) (simp add: gtk_kde_def install_kdes.simps)
qed

lemma install_carried:
  assumes "carries_gtk (w_kek s) body kid gtk" and "length (w_kek s) = 16"
  shows "installGtkFromKeyData body s = (True, install_gtk (gtk_kde kid gtk @ replicate 8 0) 0 s)"
proof -
  have l: "length gtk = 16" "length body = 131" using assms(1) by (simp_all add: carries_gtk_def)
  have "aes_key_unwrap (w_kek s) (aes_key_wrap (w_kek s) (gtk_kde kid gtk)) = Some (gtk_kde kid gtk)"
    using key_unwrap_wrap [OF assms(2), of "gtk_kde kid gtk"] l by (simp add: gtk_kde_def)
  then show ?thesis
    using assms(1) install_kdes_gtk [OF l(1)] by (simp add: installGtkFromKeyData_def carries_gtk_def Let_def)
qed

lemma installed_gtk:
  fixes s :: supplicant and kid :: u8
  assumes "length gtk = 16"
  defines "s' \<equiv> install_gtk (gtk_kde kid gtk @ replicate 8 0) 0 s"
  shows "w_gtk s' = gtk" and "w_gtkKeyId s' = kid AND 3" and "w_tk s' = w_tk s" and "w_kek s' = w_kek s"
    and "w_state s' = w_state s" and "w_replay s' = w_replay s" and "w_replayCtr s' = w_replayCtr s"
    and "windows_ok s \<Longrightarrow> w_rxPnGtk s' ! unat (kid AND 3) = fresh_window"
    and "w_gtkKeyId s = kid AND 3 \<Longrightarrow> w_gtkPrev s' = w_gtkPrev s \<and> w_gtkPrevId s' = w_gtkPrevId s"
  using assms(1) unat_and_3 [of kid]
  by (auto simp: s'_def install_gtk_def gtk_kde_def slice_def Let_def windows_ok_def fresh_window_def)

section \<open>Key data with other elements\<close>

text \<open>
  The key data of a real third message: elements before and behind that of the group key (the RSN
  element of the beacon, the key of the management frames, others), and the padding to a multiple
  of eight bytes.
\<close>

definition element :: "u8 \<times> bytes \<Rightarrow> bytes" where
  "element e = [fst e, of_nat (length (snd e))] @ snd e"

definition other_element :: "u8 \<times> bytes \<Rightarrow> bool" where
  "other_element e \<longleftrightarrow> fst e \<noteq> 0 \<and> snd e \<noteq> [] \<and> length (snd e) < 256 \<and>
    \<not> (fst e = 0xdd \<and> take 4 (snd e) = [0x00, 0x0f, 0xac, 0x01])"

definition padding :: "bytes \<Rightarrow> bool" where
  "padding pad \<longleftrightarrow> pad = [] \<or> pad = 0xdd # replicate (length pad - 1) 0"

definition key_data :: "(u8 \<times> bytes) list \<Rightarrow> u8 \<Rightarrow> bytes \<Rightarrow> (u8 \<times> bytes) list \<Rightarrow> bytes \<Rightarrow> bytes" where
  "key_data pre kid gtk post pad = concat (map element pre) @ gtk_kde kid gtk @ concat (map element post) @ pad"

text \<open>A frame that carries key data, wrapped with the key-encryption key of the session.\<close>

definition carries :: "bytes \<Rightarrow> bytes \<Rightarrow> bytes \<Rightarrow> bool" where
  "carries kek body kd \<longleftrightarrow> length kd mod 8 = 0 \<and> length kd + 8 < 65536 \<and> 107 + length kd \<le> length body \<and>
     body ! 97 = of_nat ((length kd + 8) div 256) \<and> body ! 98 = of_nat (length kd + 8) \<and>
     slice 99 (length kd + 8) body = aes_key_wrap kek kd"

text \<open>Other elements change at most the key of the management frames.\<close>

definition igtk_upd :: "supplicant \<Rightarrow> supplicant \<Rightarrow> bool" where
  "igtk_upd s s' \<longleftrightarrow> (\<exists>a b c. s' = s\<lparr>w_igtkKeyId := a, w_igtk := b, w_igtkSet := c\<rparr>)"

lemma igtk_upd_refl: "igtk_upd s s"
  unfolding igtk_upd_def by (intro exI [of _ "w_igtkKeyId s"] exI [of _ "w_igtk s"] exI [of _ "w_igtkSet s"]) simp

lemma igtk_upd_trans: "igtk_upd s t \<Longrightarrow> igtk_upd t u \<Longrightarrow> igtk_upd s u"
  by (auto simp: igtk_upd_def) blast

lemma igtk_upd_install: "igtk_upd s (install_igtk kp i s)"
  by (auto simp: igtk_upd_def install_igtk_def)

lemma igtk_upd_fields:
  assumes "igtk_upd s s'"
  shows "session s' = session s" "w_gtk s' = w_gtk s" "w_gtkKeyId s' = w_gtkKeyId s" "w_rxPnGtk s' = w_rxPnGtk s"
    "w_gtkPrev s' = w_gtkPrev s" "w_gtkPrevId s' = w_gtkPrevId s"
  using assms by (auto simp: igtk_upd_def session_def)

lemma walk_other:
  assumes "other_element e" and kp: "kp = A @ element e @ B" and plen: "length A + length (element e) \<le> plen"
  shows "\<exists>s1. install_kdes kp plen (length A) got s = install_kdes kp plen (length A + length (element e)) got s1 \<and> igtk_upd s s1"
proof -
  let ?i = "length A" and ?l = "length (snd e)"
  have l: "unat (of_nat ?l :: u8) = ?l" using assms(1) by (simp add: other_element_def unsigned_of_nat take_bit_nat_eq_self)
  have el: "?i + length (element e) = ?i + 2 + ?l" by (simp add: element_def)
  have at: "kp ! ?i = fst e" "kp ! (?i + 1) = of_nat ?l" by (simp_all add: kp element_def nth_append)
  have val: "kp ! j = snd e ! (j - (?i + 2))" if "?i + 2 \<le> j" "j < ?i + 2 + ?l" for j
  proof -
    have "(P @ v @ Q) ! j = v ! (j - length P)" if "length P \<le> j" "j < length P + length v" for P v Q :: bytes and j
      using that by (auto simp: nth_append)
    from this [of "A @ [fst e, of_nat ?l]" j "snd e" B] show ?thesis using that by (simp add: kp element_def)
  qed
  have go: "fst e \<noteq> 0" "?l \<noteq> 0" using assms(1) by (simp_all add: other_element_def)
  have no_gtk: "\<not> (fst e = 0xdd \<and> kp ! (?i + 2) = 0x00 \<and> kp ! (?i + 3) = 0x0f \<and> kp ! (?i + 4) = 0xac \<and> kp ! (?i + 5) = 0x01 \<and> 22 \<le> ?l)"
  proof
    assume a: "fst e = 0xdd \<and> kp ! (?i + 2) = 0x00 \<and> kp ! (?i + 3) = 0x0f \<and> kp ! (?i + 4) = 0xac \<and> kp ! (?i + 5) = 0x01 \<and> 22 \<le> ?l"
    then have "snd e ! 0 = 0x00" "snd e ! 1 = 0x0f" "snd e ! 2 = 0xac" "snd e ! 3 = 0x01"
      using val [of "?i + 2"] val [of "?i + 3"] val [of "?i + 4"] val [of "?i + 5"] go(2) by simp_all
    then have "take 4 (snd e) = [0x00, 0x0f, 0xac, 0x01]"
      using a by (intro nth_equalityI) (auto simp: less_Suc_eq numeral_eq_Suc)
    then show False using assms(1) a by (simp add: other_element_def)
  qed
  let ?kde = "fst e = 0xdd \<and> kp ! (?i + 2) = 0x00 \<and> kp ! (?i + 3) = 0x0f \<and> kp ! (?i + 4) = 0xac"
  define s1 where "s1 = (if ?kde \<and> kp ! (?i + 5) = 0x09 \<and> 24 \<le> ?l then install_igtk kp ?i s else s)"
  have "?i + 2 \<le> plen" "?i + 2 + ?l \<le> plen" using plen el by simp_all
  then have "install_kdes kp plen ?i got s = install_kdes kp plen (?i + 2 + ?l) got s1"
    unfolding s1_def using go no_gtk by (subst install_kdes.simps) (simp only: Let_def at l if_True, auto)
  moreover have "igtk_upd s s1" by (simp add: s1_def igtk_upd_refl igtk_upd_install)
  ultimately show ?thesis unfolding el by blast
qed

lemma walk_others:
  assumes "\<forall>e \<in> set es. other_element e" and "kp = A @ concat (map element es) @ B"
    and "length A + length (concat (map element es)) \<le> plen"
  shows "\<exists>s1. install_kdes kp plen (length A) got s = install_kdes kp plen (length A + length (concat (map element es))) got s1 \<and> igtk_upd s s1"
  using assms
proof (induction es arbitrary: A s)
  case Nil
  then show ?case using igtk_upd_refl by auto
next
  case (Cons e es)
  obtain s1 where 1: "install_kdes kp plen (length A) got s = install_kdes kp plen (length (A @ element e)) got s1" "igtk_upd s s1"
    using walk_other [of e kp A "concat (map element es) @ B" plen got s] Cons.prems by auto
  obtain s2 where "install_kdes kp plen (length (A @ element e)) got s1 =
      install_kdes kp plen (length (A @ element e) + length (concat (map element es))) got s2" "igtk_upd s1 s2"
    using Cons.IH [of "A @ element e" s1] Cons.prems by auto
  then show ?case using 1 igtk_upd_trans by (auto simp: add.assoc)
qed

lemma walk_gtk:
  assumes "length gtk = 16" and kp: "kp = A @ gtk_kde kid gtk @ B" and plen: "length A + 24 \<le> plen"
  shows "install_kdes kp plen (length A) got s = install_kdes kp plen (length A + 24) True (install_gtk (gtk_kde kid gtk @ replicate 8 0) 0 s)"
proof -
  let ?i = "length A"
  have at: "kp ! (?i + j) = gtk_kde kid gtk ! j" if "j < 24" for j
  proof -
    have "length (gtk_kde kid gtk) = 24" using assms(1) by (simp add: gtk_kde_def)
    then show ?thesis using that by (simp add: kp nth_append)
  qed
  have h: "kp ! ?i = 0xdd" "kp ! Suc ?i = 22" "kp ! (?i + 2) = 0x00" "kp ! (?i + 3) = 0x0f" "kp ! (?i + 4) = 0xac" "kp ! (?i + 5) = 0x01"
    using at [of 0] at [of 1] at [of 2] at [of 3] at [of 4] at [of 5] by (simp_all add: gtk_kde_def)
  have l22: "unat (kp ! Suc ?i) = 22" by (simp add: h(2))
  have h2: "kp ! Suc (Suc ?i) = 0x00" using h(3) by (simp only: add_2_eq_Suc')
  have "slice (?i + 8) 16 kp = gtk" "kp ! (?i + 6) = kid"
    using assms(1) at [of 6] by (simp_all add: kp gtk_kde_def slice_def)
  moreover have "slice 8 16 (gtk_kde kid gtk @ replicate 8 0) = gtk" "(gtk_kde kid gtk @ replicate 8 0) ! 6 = kid"
    using assms(1) by (simp_all add: gtk_kde_def slice_def)
  ultimately have "install_gtk kp ?i s = install_gtk (gtk_kde kid gtk @ replicate 8 0) 0 s"
    by (simp add: install_gtk_def)
  then show ?thesis
    using plen by (subst install_kdes.simps) (simp add: h(1,3-6) h2 l22 Let_def add.commute [of 24])
qed

lemma walk_padding:
  assumes "padding pad" and "kp = A @ pad @ B" and "plen = length A + length pad"
  shows "install_kdes kp plen (length A) got s = (got, s)"
proof (cases "length pad < 2")
  case True
  then show ?thesis using assms(3) by (subst install_kdes.simps) simp
next
  case False
  then obtain m where "pad = 0xdd # 0 # replicate m 0"
    using assms(1) by (cases "length pad - 1") (auto simp: padding_def)
  then have "kp ! Suc (length A) = 0" by (simp add: assms(2) nth_append)
  then show ?thesis by (subst install_kdes.simps) (simp add: Let_def)
qed

lemma count16_split:
  assumes "m < 65536"
  shows "unat (push_bit 8 (ucast (of_nat (m div 256) :: u8)) OR ucast (of_nat m :: u8) :: u16) = m"
proof -
  have d: "m div 256 = drop_bit 8 m" by (simp add: drop_bit_eq_div)
  have "(push_bit 8 (ucast (of_nat (m div 256) :: u8)) OR ucast (of_nat m :: u8) :: u16) = of_nat m"
    unfolding d by (rule bit_word_eqI) (auto simp: bit_simps)
  then show ?thesis using assms by (simp add: unsigned_of_nat take_bit_nat_eq_self)
qed

lemma install_key_data:
  assumes "carries (w_kek s) body (key_data pre kid gtk post pad)" and "length (w_kek s) = 16" and "length gtk = 16"
    and "\<forall>e \<in> set pre \<union> set post. other_element e" and "padding pad"
  shows "\<exists>s1 s2. installGtkFromKeyData body s = (True, s2) \<and> igtk_upd s s1 \<and>
    igtk_upd (install_gtk (gtk_kde kid gtk @ replicate 8 0) 0 s1) s2"
proof -
  let ?kd = "key_data pre kid gtk post pad" and ?i = "install_gtk (gtk_kde kid gtk @ replicate 8 0) 0"
  let ?A = "concat (map element pre)" and ?C = "concat (map element post)"
  define kp where "kp = ?kd @ replicate 8 0"
  have g: "length (gtk_kde kid gtk) = 24" using assms(3) by (simp add: gtk_kde_def)
  have n: "length ?kd = length ?A + 24 + length ?C + length pad" by (simp add: key_data_def g)
  have kp1: "kp = ?A @ gtk_kde kid gtk @ ?C @ pad @ replicate 8 0" by (simp add: kp_def key_data_def)
  have kp2: "kp = (?A @ gtk_kde kid gtk) @ ?C @ pad @ replicate 8 0" "kp = (?A @ gtk_kde kid gtk @ ?C) @ pad @ replicate 8 0"
    by (simp_all add: kp1)
  obtain s1 where 1: "install_kdes kp (length ?kd) 0 False s = install_kdes kp (length ?kd) (length ?A) False s1" "igtk_upd s s1"
    using walk_others [of pre kp "[]" "gtk_kde kid gtk @ ?C @ pad @ replicate 8 0" "length ?kd" False s] assms(4) kp1 n by auto
  have 2: "install_kdes kp (length ?kd) (length ?A) False s1 = install_kdes kp (length ?kd) (length ?A + 24) True (?i s1)"
    using n by (intro walk_gtk [OF assms(3) kp1]) simp
  obtain s2 where 3: "install_kdes kp (length ?kd) (length (?A @ gtk_kde kid gtk)) True (?i s1) =
      install_kdes kp (length ?kd) (length (?A @ gtk_kde kid gtk @ ?C)) True s2" "igtk_upd (?i s1) s2"
    using walk_others [OF _ kp2(1), of "length ?kd" True "?i s1"] assms(4) n g by (auto simp: add.assoc)
  have 4: "install_kdes kp (length ?kd) (length (?A @ gtk_kde kid gtk @ ?C)) True s2 = (True, s2)"
    using n g by (intro walk_padding [OF assms(5) kp2(2)]) simp
  have w: "install_kdes kp (length ?kd) 0 False s = (True, s2)" using 1 2 3 4 g by simp
  have ne: "?kd \<noteq> []" using n by auto
  have c: "length ?kd mod 8 = 0" "length ?kd + 8 < 65536" "107 + length ?kd \<le> length body"
    "body ! 97 = of_nat ((length ?kd + 8) div 256)" "body ! 98 = of_nat (length ?kd + 8)"
    "slice 99 (length ?kd + 8) body = aes_key_wrap (w_kek s) ?kd" using assms(1) by (simp_all add: carries_def)
  have field: "unat (push_bit 8 (ucast (body ! 97)) OR ucast (body ! 98) :: u16) = length ?kd + 8"
    unfolding c(4,5) using c(2) by (rule count16_split)
  have u: "aes_key_unwrap (w_kek s) (aes_key_wrap (w_kek s) ?kd) = Some ?kd" using key_unwrap_wrap [OF assms(2) c(1) ne] by simp
  have "set_slice 0 ?kd (replicate (length ?kd + 8) 0) = kp" by (simp add: kp_def set_slice_def)
  moreover have "\<not> length ?kd + 8 < 24" "\<not> length body < 99 + (length ?kd + 8)" using n c(3) by linarith+
  moreover have "(length ?kd + 8) mod 8 = 0" using c(1) by presburger
  ultimately have "installGtkFromKeyData body s = (True, s2)"
    using w by (simp add: installGtkFromKeyData_def field c(6) u)
  then show ?thesis using 1(2) 3(2) by blast
qed

section \<open>The four-way handshake\<close>

context wpa_crypto
begin

lemma handshake:
  assumes s: "supplicant_ok s" "w_state s = WaitMsg1" and "length rnd = 32"
    and m1: "95 \<le> length m1" "\<not> hasMic m1" "isPairwise m1"
    and r1: "onEapolKey c rnd m1 s = (ok1, out1, s1)"
    and m3: "hasMic m3" "isPairwise m3" "carries (w_kek s1) m3 (key_data pre kid gtk post pad)"
      "length gtk = 16" "\<forall>e \<in> set pre \<union> set post. other_element e" "padding pad"
    and r3: "onEapolKey c rnd' m3 s1 = (ok3, out3, s3)"
  shows "out1 = [buildMsg2 c s1] \<and> ok3 \<and> out3 = [buildMsg4 c s3] \<and> ready s3 \<and>
    w_kck s3 @ w_kek s3 @ w_tk s3 = ptk_spec c s3 \<and> w_gtk s3 = gtk \<and> w_gtkKeyId s3 = kid AND 3 \<and>
    w_aNonce s3 = slice 17 32 m1 \<and> w_sNonce s3 = rnd"
proof -
  let ?p = "derivePtk c rnd (slice 17 32 m1) (note_rc m1 s)"
  have s1: "s1 = ?p\<lparr>w_state := WaitMsg3\<rparr>" and o1: "out1 = [buildMsg2 c ?p]"
    using r1 m1_reply [OF s(2) m1, of c rnd] by (auto simp: Let_def)
  have ok1: "supplicant_ok s1" using onEapolKey_ok [OF r1 s(1) assms(3)] .
  have k1: "keys_inv c s1" using onEapolKey_keys [OF r1 s(1) assms(3) keys_inv_WaitMsg1 [OF s(2)]] .
  let ?g = "gtk_kde kid gtk @ replicate 8 0"
  have l: "95 \<le> length m3" using m3(3) by (simp add: carries_def)
  have kek: "length (w_kek (note_rc m3 s1)) = 16" using ok1 by (simp add: supplicant_ok_def)
  obtain t q where i: "installGtkFromKeyData m3 (note_rc m3 s1) = (True, q)" and t: "igtk_upd (note_rc m3 s1) t"
    and q: "igtk_upd (install_gtk ?g 0 t) q"
    using install_key_data [OF _ kek m3(4-6), of m3 kid] m3(3) by auto
  have st: "w_state s1 = WaitMsg3" by (simp add: s1)
  then have s3: "s3 = q\<lparr>w_state := Done\<rparr>" and o3: "ok3" "out3 = [buildMsg4 c q]"
    using r3 m3_reply [OF _ l m3(1,2), of s1 c rnd'] i by (auto simp: Let_def)
  have "session (install_gtk ?g 0 t) = session t" using m3(4) group_upd_install_gtk [of 0 ?g]
    by (simp add: group_upd_def gtk_kde_def)
  then have ses: "session q = session (note_rc m3 s1)" using igtk_upd_fields(1) [OF t] igtk_upd_fields(1) [OF q] by simp
  have same: "w_aNonce q = w_aNonce s1" "w_sNonce q = w_sNonce s1" "w_state q = WaitMsg3" "keys_inv c q"
    using ses st k1 keys_inv_cong [OF ses] by (simp_all add: session_def) (simp_all add: note_rc_def Let_def)
  have "keys_inv c s3" using onEapolKey_keys [OF r3 ok1 _ k1] same(3,4) by (simp add: s3 keys_inv_Done)
  then have "w_kck s3 @ w_kek s3 @ w_tk s3 = ptk_spec c s3" by (simp add: keys_inv_def s3)
  moreover have "buildMsg2 c ?p = buildMsg2 c s1" "buildMsg4 c q = buildMsg4 c s3"
    by (simp_all add: s1 s3 buildMsg2_def buildMsg4_def)
  ultimately show ?thesis
    using o1 o3 installed_gtk(1,2) [OF m3(4), of kid t] igtk_upd_fields(2,3) [OF q] same(1,2)
    by (simp add: s3 ready_def) (simp add: s1 derivePtk_def Let_def)
qed

end

text \<open>
  C3: the handshake completes. A supplicant that waits for the first message answers one with the
  second message, and a third message whose key data carries a group key, wrapped for this session,
  with the fourth; the key data may hold any other elements before and behind it (the RSN element,
  the key of the management frames) and padding. Then the supplicant is connected, with the
  pairwise key of the access point's nonce, its own and the master key, and with the group key and
  key number of the access point.
\<close>

theorem handshake_completes:
  assumes "supplicant_ok s" "w_state s = WaitMsg1" and "length rnd = 32"
    and "95 \<le> length m1" "\<not> hasMic m1" "isPairwise m1"
    and "onEapolKey (MakeWpa2Crypto None) rnd m1 s = (ok1, out1, s1)"
    and "hasMic m3" "isPairwise m3" "carries (w_kek s1) m3 (key_data pre kid gtk post pad)"
    and "length gtk = 16" "\<forall>e \<in> set pre \<union> set post. other_element e" "padding pad"
    and "onEapolKey (MakeWpa2Crypto None) rnd' m3 s1 = (ok3, out3, s3)"
  shows "out1 = [buildMsg2 (MakeWpa2Crypto None) s1] \<and> ok3 \<and> out3 = [buildMsg4 (MakeWpa2Crypto None) s3] \<and> ready s3 \<and>
    w_kck s3 @ w_kek s3 @ w_tk s3 = ptk_spec (MakeWpa2Crypto None) s3 \<and> w_gtk s3 = gtk \<and> w_gtkKeyId s3 = kid AND 3 \<and>
    w_aNonce s3 = slice 17 32 m1 \<and> w_sNonce s3 = rnd"
  by (rule software.handshake [OF assms])

text \<open>A frame with given flags and key data.\<close>

definition eapol_with :: "u8 \<Rightarrow> u8 \<Rightarrow> bytes \<Rightarrow> bytes" where
  "eapol_with i0 i1 kd = replicate 5 0 @ [i0, i1] @ replicate 91 0 @ [of_nat (length kd)] @ kd"

lemma eapol_with:
  assumes "length kd < 256"
  shows "length (eapol_with i0 i1 kd) = 99 + length kd" "eapol_with i0 i1 kd ! 5 = i0" "eapol_with i0 i1 kd ! 6 = i1"
    "eapol_with i0 i1 kd ! 97 = 0" "eapol_with i0 i1 kd ! 98 = of_nat (length kd)"
    "slice 99 (length kd) (eapol_with i0 i1 kd) = kd" "slice 9 8 (eapol_with i0 i1 kd) = replicate 8 0"
  by (simp_all add: eapol_with_def nth_append slice_def)

lemma eapol_with_gtk:
  assumes "length kek = 16" and "length gtk = 16"
  shows "carries_gtk kek (eapol_with i0 i1 (aes_key_wrap kek (gtk_kde kid gtk))) kid gtk"
proof -
  have "length (aes_key_wrap kek (gtk_kde kid gtk)) = 32"
    using key_unwrap_wrap [OF assms(1), of "gtk_kde kid gtk"] assms(2) by (simp add: gtk_kde_def)
  then show ?thesis
    using eapol_with [of "aes_key_wrap kek (gtk_kde kid gtk)" i0 i1] assms(2) by (simp add: carries_gtk_def)
qed

text \<open>The key data of a third message as access points send it: RSN element, group key, padding.\<close>

definition m3_key_data :: "bytes \<Rightarrow> bytes" where
  "m3_key_data gtk = key_data [(0x30, drop 2 msg2_rsnIe)] 1 gtk [] [0xdd, 0]"

lemma m3_elements: "other_element (0x30, drop 2 msg2_rsnIe)" "padding [0xdd, 0]"
  by (simp_all add: other_element_def msg2_rsnIe_def padding_def)

lemma m3_key_data:
  assumes "length kek = 16" and "length gtk = 16"
  shows "carries kek (eapol_with x y (aes_key_wrap kek (m3_key_data gtk))) (m3_key_data gtk)"
proof -
  have l: "length (m3_key_data gtk) = 48" using assms(2) by (simp add: m3_key_data_def key_data_def element_def gtk_kde_def msg2_rsnIe_def)
  then have "m3_key_data gtk \<noteq> []" by auto
  then have "length (aes_key_wrap kek (m3_key_data gtk)) = 56" using key_unwrap_wrap [OF assms(1), of "m3_key_data gtk"] l by simp
  then show "carries kek (eapol_with x y (aes_key_wrap kek (m3_key_data gtk))) (m3_key_data gtk)"
    using eapol_with [of "aes_key_wrap kek (m3_key_data gtk)" x y] l by (simp add: carries_def)
qed

theorem handshake_completes_witness:
  "let c = MakeWpa2Crypto None;
       s1 = snd (snd (onEapolKey c (replicate 32 3) m1_example connecting));
       m3 = eapol_with 0x01 0x8A (aes_key_wrap (w_kek s1) (m3_key_data (replicate 16 0x42)));
       (ok3, out3, s3) = onEapolKey c (replicate 32 5) m3 s1
   in ok3 \<and> ready s3 \<and> w_gtk s3 = replicate 16 0x42 \<and> w_gtkKeyId s3 = 1"
proof -
  let ?c = "MakeWpa2Crypto None"
  obtain ok1 out1 s1 where r1: "onEapolKey ?c (replicate 32 3) m1_example connecting = (ok1, out1, s1)"
    by (metis prod_cases3)
  have ok: "supplicant_ok connecting" using reachable_connecting by (rule software.reachable_ok)
  have "w_state connecting = WaitMsg1" by (simp add: connecting_def beginCached_def)
  moreover have "supplicant_ok s1" by (rule software.onEapolKey_ok [OF r1 ok]) simp
  then have kek: "length (w_kek s1) = 16" by (simp add: supplicant_ok_def)
  define m3 where "m3 = eapol_with 0x01 0x8A (aes_key_wrap (w_kek s1) (m3_key_data (replicate 16 0x42)))"
  note m3_elements m3_key_data [OF kek, where gtk = "replicate 16 0x42" and x = "0x01" and y = "0x8A", folded m3_def]
  moreover have "m3 ! 5 = 0x01" "m3 ! 6 = 0x8A" by (simp_all add: m3_def eapol_with_def nth_append)
  then have "hasMic m3" "isPairwise m3" by (simp_all add: hasMic_def isPairwise_def eapol_info_def)
  moreover obtain ok3 out3 s3 where r3: "onEapolKey ?c (replicate 32 5) m3 s1 = (ok3, out3, s3)"
    by (metis prod_cases3)
  ultimately show ?thesis
    using handshake_completes [OF ok _ _ m1_example r1, of m3 "[(0x30, drop 2 msg2_rsnIe)]" 1 "replicate 16 0x42" "[]" "[0xdd, 0]"
        "replicate 32 5" ok3 out3 s3] r1
    by (simp add: m3_def [symmetric] Let_def m3_key_data_def [symmetric])
qed

section \<open>Encrypted data end to end\<close>

lemma ccmpAad_append:
  assumes "24 \<le> length h"
  shows "ccmpAad (h @ r) False = ccmpAad h False"
proof -
  have "(h @ r) ! i = h ! i" if "i < 24" for i using assms that by (simp add: nth_append)
  moreover have "slice 4 18 (h @ r) = slice 4 18 h" using assms by simp
  ultimately show ?thesis by (simp add: ccmpAad_def)
qed

lemma length_ccmp_header [simp]: "length (ccmp_header pn) = 8"
  by (simp add: ccmp_header_def)

lemma data_header_parts:
  assumes "length (w_bssid s) = 6" and "length (w_self s) = 6"
  shows "length (data_header ip et s) = 24" and "data_header ip et s ! 0 = 0x08" and "data_header ip et s ! 1 = 0x41"
    and "data_header ip et s ! 4 = w_bssid s ! 0" and "slice 10 6 (data_header ip et s) = w_self s"
proof -
  have "length (l2_destination ip et s) = 6" using assms by (simp add: l2_destination_def)
  then show "length (data_header ip et s) = 24" "data_header ip et s ! 0 = 0x08" "data_header ip et s ! 1 = 0x41"
    "data_header ip et s ! 4 = w_bssid s ! 0" "slice 10 6 (data_header ip et s) = w_self s"
    using assms by (simp_all add: data_header_def slice_def nth_append)
qed

text \<open>What the receiver reads of a frame with the sender's header.\<close>

lemma rx_of_header:
  assumes "length h = 24" and "h ! 0 = 0x08" and "h ! 1 = 0x41"
  shows "rx_hdr (h @ ccmp_header pn @ r) = 24" and "rx_pn (h @ ccmp_header pn @ r) = pn_nonce pn"
    and "rx_group (h @ ccmp_header pn @ r) \<longleftrightarrow> (h ! 4) AND 1 \<noteq> 0"
proof -
  show h: "rx_hdr (h @ ccmp_header pn @ r) = 24" using assms by (simp add: rx_hdr_def nth_append)
  have d: "drop 24 (h @ x) = x" for x using assms(1) by simp
  show "rx_pn (h @ ccmp_header pn @ r) = pn_nonce pn"
    unfolding rx_pn_def h Let_def d by (simp add: pn_nonce_def ccmp_header_def)
qed (use assms in \<open>simp add: rx_group_def nth_append\<close>)

context wpa_crypto
begin

lemma data_roundtrip:
  assumes s: "supplicant_ok s" "w_state s = Done" "(w_bssid s ! 0) AND 1 = 0"
    and r: "supplicant_ok r" "w_state r = Done" "w_tk r = w_tk s"
    and fresh: "fst (pnWindowCheck (w_rxPnPair r) (be_word (pn_nonce (w_txPn s))))"
    and "length ip \<le> 2040" and "length fcs = 4"
  shows "fst (decryptData c (fst (buildEncryptedData c ip et s) @ fcs) r) = Plain (data_plain ip et)"
proof -
  define s1 where "s1 = s\<lparr>w_txPn := w_txPn s + 1\<rparr>"
  define h where "h = data_header ip et s1"
  let ?pn = "w_txPn s"
  let ?nonce = "[0] @ w_self s1 @ pn_nonce ?pn"
  let ?aad = "ccmpAad (h @ ccmp_header ?pn) False"
  define enc where "enc = c_ccmp_encrypt c (w_tk s1) ?nonce (data_plain ip et) ?aad"
  define F where "F = h @ ccmp_header ?pn @ enc @ fcs"
  have addr: "length (w_bssid s1) = 6" "length (w_self s1) = 6" using s(1) by (simp_all add: s1_def supplicant_ok_def)
  note hp = data_header_parts [OF addr, of ip et, folded h_def]
  have built: "fst (buildEncryptedData c ip et s) @ fcs = F"
    using s(2) by (simp add: buildEncryptedData_def Let_def F_def enc_def h_def s1_def pn_nonce_def)
  note rx = rx_of_header [OF hp(1,2,3), of ?pn "enc @ fcs", folded F_def]
  have tk: "length (w_tk s1) = 16" "w_tk r = w_tk s1" using s(1) r(3) by (simp_all add: s1_def supplicant_ok_def)
  have len: "length enc = length (data_plain ip et) + 8" "length (data_plain ip et) \<le> 2048"
    using length_ccmp [OF tk(1)] assms(8) by (simp_all add: enc_def data_plain_def)
  have drop: "drop (24 + 8) F = enc @ fcs"
    unfolding F_def by (rule drop_both) (simp_all add: hp)
  have lF: "length F = 32 + length enc + 4" using hp(1) assms(9) by (simp add: F_def)
  have aad: "ccmpAad F False = ?aad"
    using ccmpAad_append [of h "ccmp_header ?pn"] ccmpAad_append [of h "ccmp_header ?pn @ enc @ fcs"] hp(1) by (simp add: F_def)
  have nonce: "slice 10 6 F = w_self s1" using hp(1,5) by (simp add: F_def)
  have unicast: "\<not> rx_group F" using rx(3) hp(4) s(3) by (simp add: s1_def)
  have enc_len: "length F - 24 - 8 = length enc + 4" "12 < length enc + 4" using lF len by (simp_all add: data_plain_def)
  have first: "take (length enc + 4 - 4) (enc @ fcs) = enc" by simp
  have "rx_key F r = w_tk s1" using unicast tk(2) by (simp add: rx_key_def)
  moreover have "c_ccmp_decrypt c (w_tk s1) ?nonce enc ?aad = Some (data_plain ip et)"
    unfolding enc_def by (rule decrypt_encrypt [OF tk(1) len(2)])
  ultimately have "rx_plain c F r = Some (data_plain ip et)"
    unfolding rx_plain_def rx(1,2) Let_def drop aad nonce enc_len(1) first using enc_len(2) aad by simp
  then show ?thesis
    using fresh r(2) lF rx(1,2) unicast unfolding built
    by (auto simp: decryptData_def rx_window_def split: prod.split)
qed

end

text \<open>
  C4: an encrypted frame arrives. For every payload of at most 2040 bytes and every pair of
  connected stations that share the temporal key, the frame one builds, with any frame check
  sequence behind it, is decrypted by the other to exactly the payload behind its LLC header,
  when the frame's packet number is fresh in the receive window: header masking, nonce, additional
  data, CCMP header and the length without the check sequence fit together.
\<close>

theorem data_frame_roundtrip:
  assumes "supplicant_ok s" "w_state s = Done" "(w_bssid s ! 0) AND 1 = 0"
    and "supplicant_ok r" "w_state r = Done" "w_tk r = w_tk s"
    and "fst (pnWindowCheck (w_rxPnPair r) (be_word (pn_nonce (w_txPn s))))"
    and "length ip \<le> 2040" and "length fcs = 4"
  shows "fst (decryptData (MakeWpa2Crypto None) (fst (buildEncryptedData (MakeWpa2Crypto None) ip et s) @ fcs) r) =
    Plain (data_plain ip et)"
  by (rule software.data_roundtrip [OF assms])

lemma connected_eq:
  "connected c = (note_rc m3_example ((derivePtk c (replicate 32 3) (slice 17 32 m1_example)
     (note_rc m1_example connecting))\<lparr>w_state := WaitMsg3\<rparr>))\<lparr>w_state := Done\<rparr>"
proof -
  have 1: "w_state connecting = WaitMsg1" by (simp add: connecting_def beginCached_def)
  have "length m3_example = 99" "m3_example ! 97 = 0" "m3_example ! 98 = 0"
    by (simp_all add: m3_example_def nth_append)
  then have "installGtkFromKeyData m3_example s = (False, s)" for s by (simp add: installGtkFromKeyData_def Let_def)
  then show ?thesis
    by (simp add: connected_def m1_reply [OF 1 m1_example] m3_reply [OF _ m3_example] Let_def)
qed

lemma connected_fields: "w_bssid (connected c) = replicate 6 2" "w_rxPnPair (connected c) = fresh_window"
  by (simp_all add: connected_eq note_rc_def derivePtk_def connecting_def beginCached_def Let_def supplicant_init_def
      pn_init_def fresh_window_def)

theorem data_frame_roundtrip_witness:
  "let c = MakeWpa2Crypto None; s = connected c
   in fst (decryptData c (fst (buildEncryptedData c [0x45, 0, 0, 20] 0x0800 s) @ [1, 2, 3, 4]) s) =
      Plain (data_plain [0x45, 0, 0, 20] 0x0800)"
proof -
  let ?s = "connected (MakeWpa2Crypto None)"
  have "supplicant_ok ?s" using connected(1) software.reachable_ok by blast
  moreover have "fst (pnWindowCheck (w_rxPnPair ?s) p)" for p
    by (simp add: connected_fields pnWindowCheck_def fresh_window_def)
  ultimately show ?thesis
    using data_frame_roundtrip [of ?s ?s "[0x45, 0, 0, 20]" "[1, 2, 3, 4]" "0x0800"] connected(2)
    by (simp add: connected_fields Let_def)
qed

section \<open>What the supplicant does not check\<close>

text \<open>
  C38: the MIC of a handshake message is never checked. Replacing the 16 bytes of the MIC field of
  any received EAPOL-Key frame by any others changes nothing: the answer, the frames sent and the
  new state are the same, in every state. A third message with a made-up MIC completes the
  handshake.
\<close>

theorem eapol_mic_never_checked:
  assumes "length mic = 16" and "97 \<le> length body"
  shows "onEapolKey c rnd (set_slice 81 mic body) s = onEapolKey c rnd body s \<and>
    (w_state s = WaitMsg3 \<and> hasMic body \<and> isPairwise body \<longrightarrow>
      fst (onEapolKey c rnd (set_slice 81 mic body) s) \<and> ready (snd (snd (onEapolKey c rnd (set_slice 81 mic body) s))))"
proof -
  let ?b = "set_slice 81 mic body"
  have l: "length ?b = length body" using assms by simp
  have n: "?b ! i = body ! i" if "i < 81 \<or> 97 \<le> i" "i < length body" for i
    using assms that by (auto simp: set_slice_def nth_append)
  have before: "slice i n ?b = slice i n body" if "i + n \<le> 81" for i n
    using assms that by (intro nth_equalityI) (simp_all add: slice_def n)
  have "drop 99 ?b = drop 99 body" using assms by (simp add: set_slice_def)
  then have after: "slice 99 k ?b = slice 99 k body" for k by (simp add: slice_def)
  have f: "eapol_info ?b = eapol_info body" "eapol_rc ?b = eapol_rc body" "note_rc ?b = note_rc body"
    using assms by (simp_all add: eapol_info_def n eapol_rc_def note_rc_def before fun_eq_iff)
  have g: "hasMic ?b = hasMic body" "isPairwise ?b = isPairwise body"
    by (simp_all add: hasMic_def isPairwise_def f)
  have inst: "installGtkFromKeyData ?b t = installGtkFromKeyData body t" for t
    by (simp add: installGtkFromKeyData_def l n after cong: if_cong)
  then have e: "onEapolKey c rnd ?b s = onEapolKey c rnd body s"
    using before [of 17 32] by (simp only: onEapolKey_def l f g inst Let_def)
  then show ?thesis
    using m3_reply [of s body c rnd] assms(2) by (simp add: e Let_def ready_def)
qed

theorem eapol_mic_never_checked_witness:
  "let c = MakeWpa2Crypto None; s = snd (snd (onEapolKey c (replicate 32 3) m1_example connecting))
   in ready (snd (snd (onEapolKey c [] (set_slice 81 (replicate 16 0xEE) m3_example) s)))"
proof -
  have "length (replicate 16 (0xEE :: u8)) = 16" "97 \<le> length m3_example" by (simp_all add: m3_example_def)
  from eapol_mic_never_checked [OF this] show ?thesis
    unfolding Let_def using connecting_m1(2) [of "MakeWpa2Crypto None"] m3_example(2,3) by blast
qed

text \<open>
  Only a short QoS frame is read beyond its end. Decryption looks behind a received frame (and
  takes a length that wrapped around) exactly when the supplicant is connected and the frame has
  the QoS bit and 32 or 33 bytes, two or one less than its headers: the length check knows only
  the header without QoS control.
\<close>

theorem decryptData_beyond_iff:
  "fst (decryptData c frame s) = Beyond \<longleftrightarrow>
    ready s \<and> (length frame = 32 \<or> length frame = 33) \<and> (frame ! 0) AND 0x80 \<noteq> 0"
proof -
  have "((ucast (frame ! 0) OR push_bit 8 (ucast (frame ! 1)) :: u16) AND 0x0080 \<noteq> 0) = ((frame ! 0) AND 0x80 \<noteq> 0)"
    (is "(?fc AND _ \<noteq> 0) = _")
  proof -
    have "?fc AND 0x80 \<noteq> 0 \<longleftrightarrow> bit ?fc 7" using and_exp_eq_0_iff_not_bit [of ?fc 7] by simp
    moreover have "bit ?fc 7 \<longleftrightarrow> bit (frame ! 0) 7" by (simp add: bit_simps)
    moreover have "(frame ! 0) AND 0x80 \<noteq> 0 \<longleftrightarrow> bit (frame ! 0) 7"
      using and_exp_eq_0_iff_not_bit [of "frame ! 0" 7] by simp
    ultimately show ?thesis by blast
  qed
  then have h: "rx_hdr frame = (if (frame ! 0) AND 0x80 \<noteq> 0 then 26 else 24)" by (simp add: rx_hdr_def)
  show ?thesis
    unfolding decryptData_def h ready_def by (auto split: option.split prod.split)
qed

text \<open>A group message that carries a key, to a connected supplicant.\<close>

lemma group_reply:
  assumes "w_state s = Done" and "\<not> eapol_rc body < w_replay s" and "hasMic body" and "\<not> isPairwise body"
    and "carries_gtk (w_kek s) body kid gtk" and "length (w_kek s) = 16"
  shows "onEapolKey c rnd body s =
    (let s' = install_gtk (gtk_kde kid gtk @ replicate 8 0) 0 (note_rc body s) in (True, [buildGroupMsg2 c s'], s'))"
proof -
  have "installGtkFromKeyData body (note_rc body s) = (True, install_gtk (gtk_kde kid gtk @ replicate 8 0) 0 (note_rc body s))"
    using assms by (intro install_carried) simp_all
  then show ?thesis using assms by (simp add: onEapolKey_def carries_gtk_def Let_def)
qed

lemma note_rc_twice:
  "\<not> eapol_rc body < w_replay s \<Longrightarrow> w_replay (note_rc body s) = eapol_rc body"
  by (auto simp: note_rc_def Let_def not_less)

lemma rx_plain_cong:
  assumes "w_tk s' = w_tk s" "w_gtk s' = w_gtk s" "w_gtkPrev s' = w_gtkPrev s" "w_gtkPrevId s' = w_gtkPrevId s"
  shows "rx_plain c frame s' = rx_plain c frame s"
proof -
  have "rx_key frame s' = rx_key frame s" using assms by (simp add: rx_key_def)
  then show ?thesis by (simp only: rx_plain_def)
qed

text \<open>
  C39: a repeated group message lets group frames be replayed. A connected supplicant that installed
  a group key from a message and delivered a frame under it takes the same message again (its
  replay counter is not below the highest), and then delivers the same frame a second time: the
  receive window of the key is reset though the key is the one in use.
\<close>

theorem group_message_replay_reopens_window:
  assumes "supplicant_ok s" "w_state s = Done" and "\<not> eapol_rc body < w_replay s"
    and "hasMic body" "\<not> isPairwise body" "carries_gtk (w_kek s) body kid gtk"
    and "onEapolKey c rnd body s = (True, out, s1)"
    and "decryptData c frame s1 = (Plain p, s2)" and "rx_group frame" "rx_kid frame = unat (kid AND 3)"
    and "onEapolKey c rnd' body s2 = (ok, out', s3)"
  shows "ok \<and> w_gtk s3 = w_gtk s1 \<and> fst (decryptData c frame s3) = Plain p"
proof -
  let ?i = "install_gtk (gtk_kde kid gtk @ replicate 8 0) 0"
  have l: "length gtk = 16" using assms(6) by (simp add: carries_gtk_def)
  have kek: "length (w_kek s) = 16" using assms(1) by (simp add: supplicant_ok_def)
  have s1: "s1 = ?i (note_rc body s)"
    using assms(7) group_reply [OF assms(2,3,4,5,6) kek, of c rnd] by (simp add: Let_def)
  note g1 = installed_gtk [OF l, where kid = kid and s = "note_rc body s", folded s1]
  from assms(8) obtain win where s2: "s2 = set_rx_window True (unat (kid AND 3)) win s1" and
    d: "32 \<le> length frame" "rx_hdr frame + 8 \<le> length frame" "rx_plain c frame s1 = Some p" "w_state s1 = Done"
    unfolding decryptData_Plain assms(10) using assms(9) by auto
  have f2: "w_kek s2 = w_kek s" "w_state s2 = Done" "w_replay s2 = eapol_rc body" "w_gtkKeyId s2 = kid AND 3"
    "w_tk s2 = w_tk s1" "w_gtk s2 = w_gtk s1" "w_gtkPrev s2 = w_gtkPrev s1" "w_gtkPrevId s2 = w_gtkPrevId s1"
    using g1 d(4) note_rc_twice [OF assms(3)] by (simp_all add: s2 set_rx_window_def)
  have s3: "ok" "s3 = ?i (note_rc body s2)"
    using assms(11) group_reply [of s2 body kid gtk c rnd'] f2 assms(4,5,6) kek by (simp_all add: Let_def)
  have "supplicant_ok s1"
    using installGtk_ok [OF note_rc_ok [OF assms(1)], of body body] install_carried [of "note_rc body s" body kid gtk]
      assms(6) kek by (simp add: s1 carries_gtk_def)
  then have "supplicant_ok s2" using decryptData_ok assms(8) by blast
  then have "windows_ok (note_rc body s2)" by (simp add: supplicant_ok_def windows_ok_def)
  note g3 = installed_gtk [OF l, where kid = kid and s = "note_rc body s2", folded s3(2)]
  have prev: "w_gtkPrev s3 = w_gtkPrev s1 \<and> w_gtkPrevId s3 = w_gtkPrevId s1"
    using g3(9) f2 by (simp add: note_rc_def Let_def)
  have "rx_plain c frame s3 = Some p"
    using d(3) rx_plain_cong [of s3 s1 c frame] g1(1) g3(1,3) f2 prev by simp
  moreover have "rx_window True (unat (kid AND 3)) s3 = fresh_window"
    using g3(8) \<open>windows_ok (note_rc body s2)\<close> by (simp add: rx_window_def)
  moreover have "fst (pnWindowCheck fresh_window n)" for n by (simp add: pnWindowCheck_def fresh_window_def)
  ultimately show ?thesis
    using s3(1) g1(1) g3(1,5) f2(2) d(1,2) assms(9,10)
    by (auto simp: decryptData_def split: prod.split) (metis fst_conv)
qed

text \<open>A broadcast frame under the group key number 1.\<close>

definition group_hdr :: bytes where
  "group_hdr = [0x08, 0x42, 0, 0] @ replicate 6 0xff @ replicate 6 2 @ replicate 6 9 @ [0, 0]"

definition group_frame :: "crypto \<Rightarrow> bytes \<Rightarrow> bytes" where
  "group_frame c gtk =
    group_hdr @ [1, 0, 0, 0x60, 0, 0, 0, 0] @
    c_ccmp_encrypt c gtk ([0] @ replicate 6 2 @ [0, 0, 0, 0, 0, 1]) (replicate 8 7) (ccmpAad group_hdr False) @ [0, 0, 0, 0]"

lemma group_frame_reads:
  "length group_hdr = 24" "rx_hdr (group_hdr @ r) = 24" "rx_group (group_hdr @ r)" "slice 10 6 (group_hdr @ r) = replicate 6 2"
  "rx_pn (group_hdr @ [1, 0, 0, 0x60, 0, 0, 0, 0] @ r) = [0, 0, 0, 0, 0, 1]" "rx_kid (group_hdr @ [1, 0, 0, 0x60, 0, 0, 0, 0] @ r) = 1"
proof -
  show l: "length group_hdr = 24" by (simp add: group_hdr_def)
  show h: "rx_hdr (group_hdr @ r) = 24" "rx_group (group_hdr @ r)" for r
    by (simp_all add: rx_hdr_def rx_group_def group_hdr_def nth_append)
  show "slice 10 6 (group_hdr @ r) = replicate 6 2" by (simp add: group_hdr_def slice_def numeral_eq_Suc)
  have d: "drop 24 (group_hdr @ x) = x" for x using l by simp
  show "rx_pn (group_hdr @ [1, 0, 0, 0x60, 0, 0, 0, 0] @ r) = [0, 0, 0, 0, 0, 1]"
    "rx_kid (group_hdr @ [1, 0, 0, 0x60, 0, 0, 0, 0] @ r) = 1"
    unfolding rx_pn_def rx_kid_def h Let_def d by simp_all
qed

context wpa_crypto
begin

lemma group_frame_plain:
  assumes "length gtk = 16" and "w_gtk s = gtk" and "w_gtkPrevId s \<noteq> 1"
  shows "rx_plain c (group_frame c gtk) s = Some (replicate 8 7)" and "length (group_frame c gtk) = 52"
proof -
  let ?nonce = "[0] @ replicate 6 2 @ [0, 0, 0, 0, 0, 1] :: bytes"
  define enc where "enc = c_ccmp_encrypt c gtk ?nonce (replicate 8 7) (ccmpAad group_hdr False)"
  have len: "length enc = 16" using length_ccmp [OF assms(1)] by (simp add: enc_def)
  have f: "group_frame c gtk = group_hdr @ [1, 0, 0, 0x60, 0, 0, 0, 0] @ enc @ [0, 0, 0, 0]"
    by (simp add: group_frame_def enc_def)
  have drop: "drop (24 + 8) (group_hdr @ [1, 0, 0, 0x60, 0, 0, 0, 0] @ enc @ [0, 0, 0, 0]) = enc @ [0, 0, 0, 0]"
    by (rule drop_both) (simp_all add: group_frame_reads)
  have l: "length (group_hdr @ [1, 0, 0, 0x60, 0, 0, 0, 0] @ enc @ [0, 0, 0, 0]) - 24 - 8 = 20"
    using len group_frame_reads(1) by simp
  have key: "rx_key (group_hdr @ [1, 0, 0, 0x60, 0, 0, 0, 0] @ enc @ [0, 0, 0, 0]) s = gtk"
    using assms(2,3) by (simp add: rx_key_def group_frame_reads(3,6) del: append.simps)
  have aad: "ccmpAad (group_hdr @ [1, 0, 0, 0x60, 0, 0, 0, 0] @ enc @ [0, 0, 0, 0]) False = ccmpAad group_hdr False"
    by (rule ccmpAad_append) (simp add: group_frame_reads(1))
  have first: "take (20 - 4) (enc @ [0, 0, 0, 0]) = enc" using len by simp
  have "c_ccmp_decrypt c gtk ?nonce enc (ccmpAad group_hdr False) = Some (replicate 8 7)"
    unfolding enc_def by (rule decrypt_encrypt [OF assms(1)]) simp
  then show "rx_plain c (group_frame c gtk) s = Some (replicate 8 7)"
    unfolding f rx_plain_def group_frame_reads(2,4,5) Let_def drop l key first using aad by simp
  show "length (group_frame c gtk) = 52" using len group_frame_reads(1) by (simp add: f)
qed

end

lemma connected_fields': "w_gtkKeyId (connected c) = 0xff" "w_gtkPrevId (connected c) = 0xff" "w_replay (connected c) = 0"
proof -
  have "eapol_rc m1_example = 0" "eapol_rc m3_example = 0"
    by (simp_all add: eapol_rc_def m1_example_def m3_example_def slice_def be_word_def le_word_def)
  then show "w_gtkKeyId (connected c) = 0xff" "w_gtkPrevId (connected c) = 0xff" "w_replay (connected c) = 0"
    by (simp_all add: connected_eq note_rc_def derivePtk_def connecting_def beginCached_def Let_def supplicant_init_def)
qed

text \<open>A connected supplicant with a group key from a group message, and a frame under it.\<close>

lemma group_session:
  fixes c :: crypto
  defines "c \<equiv> MakeWpa2Crypto None"
  defines "body \<equiv> eapol_with 0x03 0x02 (aes_key_wrap (w_kek (connected c)) (gtk_kde 1 (replicate 16 0x42)))"
    and "frame \<equiv> group_frame c (replicate 16 0x42)"
  obtains s1 where
    "supplicant_ok (connected c)" "hasMic body" "\<not> isPairwise body" "carries_gtk (w_kek (connected c)) body 1 (replicate 16 0x42)"
    "onEapolKey c [] body (connected c) = (True, [buildGroupMsg2 c s1], s1)" "supplicant_ok s1"
    "decryptData c frame s1 = (Plain (replicate 8 7), set_rx_window True 1 (1, [1]) s1)"
    "rx_group frame" "rx_kid frame = 1" "rx_hdr frame = 24" "be_word (rx_pn frame) = (1 :: u64)" "w_state s1 = Done"
    "w_gtkPrevId s1 = 0xff" "w_rxPnGtk s1 ! 2 = fresh_window" "rx_plain c frame s1 = Some (replicate 8 7)" "length frame = 52"
proof -
  let ?s = "connected c"
  let ?gtk = "replicate 16 0x42 :: bytes"
  have ok: "supplicant_ok ?s" using connected(1) [of c] software.reachable_ok unfolding c_def by blast
  then have kek: "length (w_kek ?s) = 16" by (simp add: supplicant_ok_def)
  have wrapped: "length (aes_key_wrap (w_kek ?s) (gtk_kde 1 ?gtk)) < 256"
    using key_unwrap_wrap [OF kek, of "gtk_kde 1 ?gtk"] by (simp add: gtk_kde_def)
  note e = eapol_with [OF wrapped, of "0x03" "0x02", folded body_def]
  have b: "hasMic body" "\<not> isPairwise body" using e(2,3) by (simp_all add: hasMic_def isPairwise_def eapol_info_def)
  have rc: "\<not> eapol_rc body < w_replay ?s" by (simp add: connected_fields')
  have carries: "carries_gtk (w_kek ?s) body 1 ?gtk" unfolding body_def by (rule eapol_with_gtk [OF kek]) simp
  define s1 where "s1 = install_gtk (gtk_kde 1 ?gtk @ replicate 8 0) 0 (note_rc body ?s)"
  have r1: "onEapolKey c [] body ?s = (True, [buildGroupMsg2 c s1], s1)"
    using group_reply [OF connected(2) rc b carries kek] by (simp add: Let_def s1_def)
  have "windows_ok (note_rc body ?s)" using ok by (simp add: supplicant_ok_def windows_ok_def)
  then have w1: "rx_window True 1 s1 = fresh_window"
    using installed_gtk(8) [of ?gtk "note_rc body ?s" 1] by (simp add: s1_def rx_window_def)
  have gtk1: "w_gtk s1 = ?gtk" "w_state s1 = Done"
    using installed_gtk(1,5) [of ?gtk 1 "note_rc body ?s"] connected(2) by (simp_all add: s1_def)
  have prev1: "w_gtkPrevId s1 = 0xff"
    using connected_fields' [of c] by (simp add: s1_def install_gtk_def note_rc_def Let_def)
  then have "w_gtkPrevId s1 \<noteq> 1" by simp
  note plain = software.group_frame_plain [OF _ gtk1(1) this, folded c_def, folded frame_def]
  have reads: "rx_group frame" "rx_kid frame = 1" "rx_hdr frame = 24" "be_word (rx_pn frame) = (1 :: u64)"
    unfolding frame_def group_frame_def group_frame_reads by (simp_all add: group_frame_reads(3) be_word_def le_word_def)
  have r2: "decryptData c frame s1 = (Plain (replicate 8 7), set_rx_window True 1 (1, [1]) s1)"
    using plain w1 gtk1(2) reads by (simp add: decryptData_def pnWindowCheck_def fresh_window_def winSet_1)
  have "w_rxPnGtk (note_rc body ?s) ! 2 = fresh_window"
    by (simp add: connected_eq) (simp add: derivePtk_def connecting_def beginCached_def Let_def supplicant_init_def pn_init_def fresh_window_def eval_nat_numeral)
  then have w2: "w_rxPnGtk s1 ! 2 = fresh_window"
    by (simp add: s1_def install_gtk_def gtk_kde_def Let_def)
  have "supplicant_ok s1"
    using installGtk_ok [OF note_rc_ok [OF ok], of body body] install_carried [of "note_rc body ?s" body 1 ?gtk]
      carries kek by (simp add: s1_def carries_gtk_def)
  from that [OF ok b carries r1 this r2 reads gtk1(2) prev1 w2] plain show thesis by simp
qed

theorem group_message_replay_reopens_window_witness:
  "let c = MakeWpa2Crypto None; s = connected c;
       body = eapol_with 0x03 0x02 (aes_key_wrap (w_kek s) (gtk_kde 1 (replicate 16 0x42)));
       frame = group_frame c (replicate 16 0x42);
       (ok1, out1, s1) = onEapolKey c [] body s;
       (r2, s2) = decryptData c frame s1;
       (ok3, out3, s3) = onEapolKey c [] body s2
   in r2 = Plain (replicate 8 7) \<and> fst (decryptData c frame s2) = Rejected \<and> fst (decryptData c frame s3) = Plain (replicate 8 7)"
proof -
  let ?c = "MakeWpa2Crypto None"
  let ?body = "eapol_with 0x03 0x02 (aes_key_wrap (w_kek (connected ?c)) (gtk_kde 1 (replicate 16 0x42)))"
  let ?frame = "group_frame ?c (replicate 16 0x42)"
  obtain s1 where ok: "supplicant_ok (connected ?c)" and b: "hasMic ?body" "\<not> isPairwise ?body"
    "carries_gtk (w_kek (connected ?c)) ?body 1 (replicate 16 0x42)"
    and r1: "onEapolKey ?c [] ?body (connected ?c) = (True, [buildGroupMsg2 ?c s1], s1)" and ok1: "supplicant_ok s1"
    and r2: "decryptData ?c ?frame s1 = (Plain (replicate 8 7), set_rx_window True 1 (1, [1]) s1)"
    and reads: "rx_group ?frame" "rx_kid ?frame = 1" "rx_hdr ?frame = 24" "be_word (rx_pn ?frame) = (1 :: u64)" and d: "w_state s1 = Done"
    and plain: "rx_plain ?c ?frame s1 = Some (replicate 8 7)" "length ?frame = 52"
    by (rule group_session) blast
  define s2 where "s2 = set_rx_window True 1 (1, [1]) s1"
  have rc: "\<not> eapol_rc ?body < w_replay (connected ?c)" by (simp add: connected_fields')
  obtain ok3 out3 s3 where r3: "onEapolKey ?c [] ?body s2 = (ok3, out3, s3)" by (metis prod_cases3)
  have "length (w_rxPnGtk s1) = 4" using ok1 by (simp add: supplicant_ok_def windows_ok_def)
  then have "rx_window True 1 s2 = (1, [1])" "rx_plain ?c ?frame s2 = Some (replicate 8 7)" "w_state s2 = Done"
    using plain(1) d rx_plain_cong [of s2 s1 ?c ?frame] by (simp_all add: s2_def rx_window_def set_rx_window_def)
  then have "fst (decryptData ?c ?frame s2) = Rejected"
    using reads by (simp add: decryptData_def pnWindowCheck_def winTest_1)
  moreover have "fst (decryptData ?c ?frame s3) = Plain (replicate 8 7)"
    using group_message_replay_reopens_window [OF ok connected(2) rc b r1 r2 [folded s2_def] reads(1) _ r3] reads(2) by simp
  ultimately show ?thesis using r1 r2 [folded s2_def] r3 by (simp add: Let_def)
qed

section \<open>A group frame under another key number\<close>

text \<open>The frame with another key number in its CCMP header.\<close>

definition with_kid :: "nat \<Rightarrow> bytes \<Rightarrow> bytes" where
  "with_kid kid frame = (let i = rx_hdr frame + 3 in frame[i := (frame ! i AND 0x3f) OR push_bit 6 (of_nat kid)])"

lemma slice_list_update [simp]: "i < off \<or> off + n \<le> i \<Longrightarrow> slice off n (xs[i := v]) = slice off n xs"
  by (intro nth_equalityI) (auto simp: slice_def nth_list_update)

lemma with_kid_reads:
  assumes "rx_hdr frame + 8 \<le> length frame" and "kid < 4"
  shows "rx_hdr (with_kid kid frame) = rx_hdr frame" "rx_group (with_kid kid frame) = rx_group frame"
    "rx_pn (with_kid kid frame) = rx_pn frame" "rx_kid (with_kid kid frame) = kid" "length (with_kid kid frame) = length frame"
    "ccmpAad (with_kid kid frame) qos = ccmpAad frame qos" "with_kid kid frame ! 24 = frame ! 24"
    "slice 10 6 (with_kid kid frame) = slice 10 6 frame"
    "drop (rx_hdr frame + 8) (with_kid kid frame) = drop (rx_hdr frame + 8) frame"
proof -
  let ?h = "rx_hdr frame" and ?f = "with_kid kid frame"
  have h: "24 \<le> ?h" by (simp add: rx_hdr_def)
  have n: "?f ! j = frame ! j" if "j \<noteq> ?h + 3" for j using that by (simp add: with_kid_def Let_def)
  show hdr: "rx_hdr ?f = ?h" using n [of 0] n [of 1] h by (simp add: rx_hdr_def)
  show "rx_group ?f = rx_group frame" "?f ! 24 = frame ! 24" using n [of 4] n [of 24] h by (simp_all add: rx_group_def)
  show l: "length ?f = length frame" by (simp add: with_kid_def Let_def)
  show "rx_pn ?f = rx_pn frame" using assms(1) by (simp add: rx_pn_def hdr Let_def nth_drop l n)
  show "slice 10 6 ?f = slice 10 6 frame" using h by (simp add: with_kid_def Let_def)
  show "drop (?h + 8) ?f = drop (?h + 8) frame" by (simp add: with_kid_def Let_def)
  have "slice 4 18 ?f = slice 4 18 frame" using h by (simp add: with_kid_def Let_def)
  then show "ccmpAad ?f qos = ccmpAad frame qos"
    using n [of 0] n [of 1] n [of 22] n [of 24] h by (simp add: ccmpAad_def)
  have "?f ! (?h + 3) = (frame ! (?h + 3) AND 0x3f) OR push_bit 6 (of_nat kid)"
    using assms(1) by (simp add: with_kid_def Let_def)
  moreover have w: "drop_bit 6 ((x AND 0x3f) OR push_bit 6 (of_nat kid)) AND 3 = (of_nat kid :: u8)" for x
  proof -
    have m: "(0x3f :: u8) = mask 6" "(3 :: u8) = mask 2" by (simp_all add: mask_eq_exp_minus_1)
    have "take_bit 2 kid = kid" using assms(2) by (simp add: take_bit_nat_eq_self)
    then have k: "of_nat kid = take_bit 2 (of_nat kid :: u8)" by (metis take_bit_of_nat)
    have "take_bit 2 (drop_bit 6 (take_bit 6 x OR push_bit 6 (take_bit 2 w))) = take_bit 2 w" for w :: u8
      by (rule bit_word_eqI) (auto simp: bit_simps)
    then show ?thesis by (metis k m take_bit_eq_mask)
  qed
  moreover have "drop ?h ?f ! 3 = ?f ! (?h + 3)" using assms(1) l by simp
  ultimately show "rx_kid ?f = kid"
    using assms(2) by (simp only: rx_kid_def hdr w) (simp add: unsigned_of_nat take_bit_nat_eq_self)
qed

text \<open>
  C40: a group frame is delivered once per key number. A group frame that the supplicant delivered
  is delivered again, with the same plain text, when only the key number in its CCMP header is
  changed to any number whose window accepts the packet number: the header is not authenticated,
  every number except that of the previous key selects the same group key, but each has a window
  of its own.
\<close>

theorem group_frame_replays_under_other_number:
  assumes "supplicant_ok s" and "decryptData c frame s = (Plain p, s1)" and "rx_group frame"
    and "kid < 4" "kid \<noteq> rx_kid frame" "of_nat kid \<noteq> w_gtkPrevId s" "of_nat (rx_kid frame) \<noteq> w_gtkPrevId s"
    and "fst (pnWindowCheck (w_rxPnGtk s ! kid) (be_word (rx_pn frame)))"
  shows "fst (decryptData c (with_kid kid frame) s1) = Plain p"
proof -
  from assms(2) have d: "w_state s = Done" "32 \<le> length frame" "rx_hdr frame + 8 \<le> length frame" "rx_plain c frame s = Some p"
    by (simp_all add: decryptData_Plain)
  from assms(2,3) obtain win where s1: "s1 = set_rx_window True (rx_kid frame) win s" by (auto simp: decryptData_Plain)
  note r = with_kid_reads [OF d(3) assms(4)]
  have key: "rx_key (with_kid kid frame) s1 = rx_key frame s"
    using assms(3,6,7) by (simp add: rx_key_def r s1 set_rx_window_def)
  have "rx_plain c (with_kid kid frame) s1 = rx_plain c frame s"
    unfolding rx_plain_def Let_def r key ..
  moreover have "rx_window True kid s1 = w_rxPnGtk s ! kid"
    using assms(5) by (simp add: s1 rx_window_def set_rx_window_def)
  ultimately show ?thesis
    using d assms(3,8) r by (auto simp: decryptData_def s1 set_rx_window_def rx_window_def split: prod.split)
qed

theorem group_frame_replays_under_other_number_witness:
  "let c = MakeWpa2Crypto None; s = connected c;
       body = eapol_with 0x03 0x02 (aes_key_wrap (w_kek s) (gtk_kde 1 (replicate 16 0x42)));
       frame = group_frame c (replicate 16 0x42);
       (ok1, out1, s1) = onEapolKey c [] body s;
       (r2, s2) = decryptData c frame s1
   in r2 = Plain (replicate 8 7) \<and> fst (decryptData c (with_kid 2 frame) s2) = Plain (replicate 8 7)"
proof -
  let ?c = "MakeWpa2Crypto None"
  let ?body = "eapol_with 0x03 0x02 (aes_key_wrap (w_kek (connected ?c)) (gtk_kde 1 (replicate 16 0x42)))"
  let ?frame = "group_frame ?c (replicate 16 0x42)"
  obtain s1 where r1: "onEapolKey ?c [] ?body (connected ?c) = (True, [buildGroupMsg2 ?c s1], s1)" and ok1: "supplicant_ok s1"
    and r2: "decryptData ?c ?frame s1 = (Plain (replicate 8 7), set_rx_window True 1 (1, [1]) s1)"
    and reads: "rx_group ?frame" "rx_kid ?frame = 1" and prev: "w_gtkPrevId s1 = 0xff" and w: "w_rxPnGtk s1 ! 2 = fresh_window"
    by (rule group_session) blast
  have "fst (pnWindowCheck fresh_window n)" for n by (simp add: pnWindowCheck_def fresh_window_def)
  then have "fst (decryptData ?c (with_kid 2 ?frame) (set_rx_window True 1 (1, [1]) s1)) = Plain (replicate 8 7)"
    using group_frame_replays_under_other_number [OF ok1 r2 reads(1), of 2] prev w reads(2) by simp
  then show ?thesis using r1 r2 by (simp add: Let_def)
qed

section \<open>The replies\<close>

text \<open>The key frame of a reply, behind the 802.11 and LLC headers.\<close>

definition reply_body :: "bytes \<Rightarrow> bytes" where
  "reply_body f = drop 32 f"

text \<open>What the access point checks: the echoed counter, and the MIC over the frame with the MIC field cleared.\<close>

definition verifies :: "crypto \<Rightarrow> bytes \<Rightarrow> bytes \<Rightarrow> bytes \<Rightarrow> bool" where
  "verifies c kck ctr kb \<longleftrightarrow> slice 9 8 kb = ctr \<and>
    slice 81 16 kb = c_eapol_mic c kck (set_slice 81 (replicate 16 0) kb)"

lemma length_key_frame [simp]: "length r = 8 \<Longrightarrow> length (key_frame kd info kl r) = 99 + kd"
  by (simp add: key_frame_def Let_def)

lemma slice_set_slice_disjoint:
  "off + length ys \<le> length xs \<Longrightarrow> o' + n \<le> off \<or> off + length ys \<le> o' \<Longrightarrow> slice o' n (set_slice off ys xs) = slice o' n xs"
  by (intro nth_equalityI) (auto simp: slice_def set_slice_def nth_append)

lemma key_frame_fields:
  assumes "length r = 8"
  shows "slice 9 8 (key_frame kd info kl r) = r" and "slice 81 16 (key_frame kd info kl r) = replicate 16 0"
proof -
  show "slice 9 8 (key_frame kd info kl r) = r"
    using assms slice_set_slice [of 9 _ r] by (simp add: key_frame_def Let_def)
  show "slice 81 16 (key_frame kd info kl r) = replicate 16 0"
    using assms by (simp add: key_frame_def Let_def slice_set_slice_disjoint) (simp add: slice_def)
qed

lemma reply_body_eapol:
  "length self = 6 \<Longrightarrow> length bssid = 6 \<Longrightarrow> reply_body (BuildEapolKey self bssid kb) = kb"
  by (simp add: reply_body_def BuildEapolKey_def put_hdr_fc eapol_snap_def)

lemma put_mic_verifies:
  assumes "length (c_eapol_mic c kck kb) = 16" and "97 \<le> length kb"
    and "slice 9 8 kb = ctr" and "slice 81 16 kb = replicate 16 0"
  shows "verifies c kck ctr (put_mic c kck kb)"
proof -
  have "set_slice 81 (replicate 16 0) kb = kb" using set_slice_slice [of 81 16 kb] assms(2,4) by simp
  moreover have "slice 81 16 (set_slice 81 (c_eapol_mic c kck kb) kb) = c_eapol_mic c kck kb"
    using slice_set_slice [of 81 kb "c_eapol_mic c kck kb"] assms(1,2) by simp
  ultimately show ?thesis
    using assms by (simp add: verifies_def put_mic_def slice_set_slice_disjoint)
qed

definition msg2_body :: "supplicant \<Rightarrow> bytes" where
  "msg2_body s = (set_slice 99 msg2_rsnIe ((set_slice 17 (w_sNonce s) (key_frame 22 0x010A 0x10 (w_replayCtr s)))
     [97 := 0, 98 := 22]))[119 := ucast (rsn_caps (w_pmf s) AND 0xff), 120 := ucast (drop_bit 8 (rsn_caps (w_pmf s)))]"

lemma buildMsg2_body:
  "supplicant_ok s \<Longrightarrow> reply_body (buildMsg2 c s) = put_mic c (w_kck s) (msg2_body s)"
proof -
  assume "supplicant_ok s"
  moreover have "length msg2_rsnIe = 22" by (simp add: msg2_rsnIe_def)
  ultimately show ?thesis
    by (simp add: buildMsg2_def msg2_body_def supplicant_ok_def reply_body_eapol Let_def)
qed

lemma msg2_body_fields:
  assumes "supplicant_ok s"
  shows "length (msg2_body s) = 121" and "slice 9 8 (msg2_body s) = w_replayCtr s"
    and "slice 81 16 (msg2_body s) = replicate 16 0" and "slice 17 32 (msg2_body s) = w_sNonce s"
    and "drop 99 (msg2_body s) = msg2_rsnIe[20 := ucast (rsn_caps (w_pmf s) AND 0xff), 21 := ucast (drop_bit 8 (rsn_caps (w_pmf s)))]"
proof -
  have l: "length (w_replayCtr s) = 8" "length (w_sNonce s) = 32" using assms by (simp_all add: supplicant_ok_def)
  have r: "length msg2_rsnIe = 22" by (simp add: msg2_rsnIe_def)
  show "length (msg2_body s) = 121" using l r by (simp add: msg2_body_def)
  show "slice 9 8 (msg2_body s) = w_replayCtr s" "slice 81 16 (msg2_body s) = replicate 16 0"
    using l r by (simp_all add: msg2_body_def slice_set_slice_disjoint key_frame_fields)
  show "slice 17 32 (msg2_body s) = w_sNonce s"
    using l r slice_set_slice [of 17 "key_frame 22 0x010A 0x10 (w_replayCtr s)" "w_sNonce s"]
    by (simp add: msg2_body_def slice_set_slice_disjoint)
  show "drop 99 (msg2_body s) = msg2_rsnIe[20 := ucast (rsn_caps (w_pmf s) AND 0xff), 21 := ucast (drop_bit 8 (rsn_caps (w_pmf s)))]"
    using l r by (simp add: msg2_body_def drop_update_swap) (simp add: set_slice_def)
qed

context wpa_crypto
begin

lemma replies:
  assumes "supplicant_ok s"
  shows "verifies c (w_kck s) (w_replayCtr s) (reply_body (buildMsg2 c s))"
    and "verifies c (w_kck s) (w_replayCtr s) (reply_body (buildMsg4 c s))"
    and "verifies c (w_kck s) (w_replayCtr s) (reply_body (buildGroupMsg2 c s))"
    and "slice 17 32 (reply_body (buildMsg2 c s)) = w_sNonce s"
    and "drop 99 (reply_body (buildMsg2 c s)) = drop 99 (msg2_body s)"
proof -
  have l: "length (w_self s) = 6" "length (w_bssid s) = 6" "length (w_replayCtr s) = 8"
    using assms by (simp_all add: supplicant_ok_def)
  note m = msg2_body_fields [OF assms]
  show "verifies c (w_kck s) (w_replayCtr s) (reply_body (buildMsg2 c s))"
    unfolding buildMsg2_body [OF assms] by (rule put_mic_verifies) (simp_all add: m length_mic)
  show "verifies c (w_kck s) (w_replayCtr s) (reply_body (buildMsg4 c s))"
    unfolding buildMsg4_def reply_body_eapol [OF l(1,2)]
    by (rule put_mic_verifies) (simp_all add: l length_mic key_frame_fields)
  show "verifies c (w_kck s) (w_replayCtr s) (reply_body (buildGroupMsg2 c s))"
    unfolding buildGroupMsg2_def reply_body_eapol [OF l(1,2)]
    by (rule put_mic_verifies) (simp_all add: l length_mic key_frame_fields)
  show "slice 17 32 (reply_body (buildMsg2 c s)) = w_sNonce s"
    unfolding buildMsg2_body [OF assms] put_mic_def using m length_mic by (simp add: slice_set_slice_disjoint)
  show "drop 99 (reply_body (buildMsg2 c s)) = drop 99 (msg2_body s)"
    unfolding buildMsg2_body [OF assms] put_mic_def using m length_mic by (simp add: set_slice_def)
qed

end

text \<open>
  C36: the access point can verify every reply. Whatever frame the supplicant answers, in whatever
  phase, the reply echoes the replay counter of that frame and its MIC is that of the reply with
  the MIC field cleared, under the confirmation key of the session after the frame; the answer to a
  first message brings the nonce that the key was derived from. Its RSN element is byte for byte
  that of the association request the station sends when both negotiated ciphers are CCMP (for
  other ciphers they differ).
\<close>

theorem replies_verify:
  assumes "supplicant_ok s" and "length rnd = 32" and "onEapolKey (MakeWpa2Crypto None) rnd body s = (ok, [f], s')"
  shows "verifies (MakeWpa2Crypto None) (w_kck s') (slice 9 8 body) (reply_body f) \<and>
    (hasMic body \<or> slice 17 32 (reply_body f) = rnd \<and>
      (\<exists>head. BuildAssocRequest_negotiated ofdm self bssid ssid 0x000FAC04 0x000FAC04 (rsn_caps (w_pmf s)) =
        head @ drop 99 (reply_body f) @ assoc_tail))"
proof -
  let ?c = "MakeWpa2Crypto None"
  have ok': "supplicant_ok s'" by (rule software.onEapolKey_ok [OF assms(3,1,2)])
  note r = software.replies [OF ok']
  have m2: ?thesis if "f = buildMsg2 ?c s'" "w_replayCtr s' = slice 9 8 body" "w_sNonce s' = rnd" "w_pmf s' = w_pmf s"
    using r(1,4,5) msg2_body_fields(5) [OF ok'] that
    by (auto simp: BuildAssocRequest_negotiated_def BuildAssocRequest_def put_ie_def msg2_rsnIe_def)
  have d: "w_replayCtr (derivePtk ?c rnd n t) = w_replayCtr t" "w_sNonce (derivePtk ?c rnd n t) = rnd"
    "w_pmf (derivePtk ?c rnd n (note_rc body s)) = w_pmf s" for n t by (simp_all add: derivePtk_def note_rc_def Let_def)
  have ctr: "w_replayCtr (note_rc body s) = slice 9 8 body" by (simp add: note_rc_def Let_def)
  have "session (snd (installGtkFromKeyData body (note_rc body s))) = session (note_rc body s)" 
    using installGtk_upd [of "note_rc body s" body] assms(1) by (simp add: group_upd_def supplicant_ok_def)
  then have ctr2: "w_replayCtr (snd (installGtkFromKeyData body (note_rc body s))) = slice 9 8 body"
    by (simp add: session_def ctr)
  from assms(3) show ?thesis
  proof (cases rule: onEapolKey_cases)
    case group
    then show ?thesis using r(3) ctr2 by simp
  next
    case m3
    have "w_replayCtr s' = slice 9 8 body" using ctr2 m3(6) by simp
    then show ?thesis using r(2) m3(3,7) by (simp only: list.inject simp_thms)
  next
    case m1
    then show ?thesis using ctr d by (intro m2) (simp_all only: list.inject, simp_all)
  next
    case rekey
    then show ?thesis using ctr d by (intro m2) (simp_all only: list.inject, simp_all)
  qed simp_all
qed

theorem replies_verify_witness:
  "let (ok, out, s') = onEapolKey (MakeWpa2Crypto None) (replicate 32 3) m1_example connecting
   in verifies (MakeWpa2Crypto None) (w_kck s') (replicate 8 0) (reply_body (hd out)) \<and>
     slice 17 32 (reply_body (hd out)) = replicate 32 3"
proof -
  let ?c = "MakeWpa2Crypto None"
  have ok: "supplicant_ok connecting" using reachable_connecting by (rule software.reachable_ok)
  obtain f s' where e: "onEapolKey ?c (replicate 32 3) m1_example connecting = (False, [f], s')"
    by (simp add: m1_reply [OF _ m1_example] connecting_def beginCached_def Let_def)
  have "slice 9 8 m1_example = replicate 8 0" by (simp add: m1_example_def slice_def)
  then show ?thesis using replies_verify [OF ok _ e] m1_example(2) by (simp add: e)
qed

end
