(* ===== verification/RfReg.thy ===== *)
theory RfReg
  imports RegIo
begin

text \<open>
  The registers of the radio chip behind the baseband: the serial access of
  src/RadioManagementModule.cpp (\<open>phy_RFSerialRead\<close>, \<open>phy_RFSerialWrite\<close>, \<open>phy_query_rf_reg\<close>,
  \<open>phy_set_rf_reg\<close>). A read selects the address in one baseband register and picks the value up in
  another; a write carries address and value in one word.
\<close>

datatype RfPath = RF_PATH_A | RF_PATH_B | RF_PATH_C | RF_PATH_D

abbreviation (input) rCCAonSec_Jaguar :: u16 where "rCCAonSec_Jaguar \<equiv> 0x838"
abbreviation (input) rHSSIRead_Jaguar :: u32 where "rHSSIRead_Jaguar \<equiv> 0x8b0"
abbreviation (input) bHSSIRead_addr_Jaguar :: u32 where "bHSSIRead_addr_Jaguar \<equiv> 0xff"
abbreviation (input) rRead_data_Jaguar :: u32 where "rRead_data_Jaguar \<equiv> 0xfffff"
abbreviation (input) bLSSIWrite_data_Jaguar :: u32 where "bLSSIWrite_data_Jaguar \<equiv> 0x000fffff"

record BbRegisterDefinition =
  Rf3WireOffset :: u32
  RfHSSIPara2 :: u32
  RfLSSIReadBack :: u16
  RfLSSIReadBackPi :: u16

primrec PhyRegDef :: "RfPath \<Rightarrow> BbRegisterDefinition" where
  "PhyRegDef RF_PATH_A = \<lparr>Rf3WireOffset = 0xc90, RfHSSIPara2 = rHSSIRead_Jaguar,
     RfLSSIReadBack = 0xd08, RfLSSIReadBackPi = 0xd04\<rparr>"
| "PhyRegDef RF_PATH_B = \<lparr>Rf3WireOffset = 0xe90, RfHSSIPara2 = rHSSIRead_Jaguar,
     RfLSSIReadBack = 0xd48, RfLSSIReadBackPi = 0xd44\<rparr>"
| "PhyRegDef RF_PATH_C = \<lparr>Rf3WireOffset = 0x1890, RfHSSIPara2 = rHSSIRead_Jaguar,
     RfLSSIReadBack = 0xd88, RfLSSIReadBackPi = 0xd84\<rparr>"
| "PhyRegDef RF_PATH_D = \<lparr>Rf3WireOffset = 0x1A90, RfHSSIPara2 = rHSSIRead_Jaguar,
     RfLSSIReadBack = 0xdC8, RfLSSIReadBackPi = 0xdC4\<rparr>"

text \<open>Whether the path answers in PI mode; the code asks for paths A and B only.\<close>

definition rf_pi_mode :: "'h usb \<Rightarrow> RfPath \<Rightarrow> ('h, bool) io" where
  "rf_pi_mode dev p =
    (if p = RF_PATH_A then io_bind (PHY_QueryBBReg8812 dev 0xC00 0x4) (\<lambda>v. io_return (v \<noteq> 0))
     else if p = RF_PATH_B then io_bind (PHY_QueryBBReg8812 dev 0xE00 0x4) (\<lambda>v. io_return (v \<noteq> 0))
     else io_return False)"

definition phy_RFSerialRead :: "'h usb \<Rightarrow> bool \<Rightarrow> RfPath \<Rightarrow> u32 \<Rightarrow> ('h, u32) io" where
  "phy_RFSerialRead dev c_cut p Offset =
    io_then (io_when (Offset \<noteq> 0 \<and> \<not> c_cut) (PHY_SetBBReg8812 dev rCCAonSec_Jaguar 0x8 1))
    (let Offset = Offset AND 0xff in
     io_bind (rf_pi_mode dev p) (\<lambda>bIsPIMode.
     io_then (PHY_SetBBReg8812 dev (ucast (RfHSSIPara2 (PhyRegDef p))) bHSSIRead_addr_Jaguar Offset)
     (io_then (io_when c_cut (pause_us dev 20000))
     (io_bind (PHY_QueryBBReg8812 dev
         (if bIsPIMode then RfLSSIReadBackPi (PhyRegDef p) else RfLSSIReadBack (PhyRegDef p))
         rRead_data_Jaguar) (\<lambda>retValue.
     io_then (io_when (Offset \<noteq> 0 \<and> \<not> c_cut) (PHY_SetBBReg8812 dev rCCAonSec_Jaguar 0x8 0))
       (io_return retValue))))))"

definition rf_data_and_addr :: "u32 \<Rightarrow> u32 \<Rightarrow> u32" where
  "rf_data_and_addr Offset Data =
    (push_bit 20 (Offset AND 0xff) OR (Data AND 0x000fffff)) AND 0x0fffffff"

definition phy_RFSerialWrite :: "'h usb \<Rightarrow> RfPath \<Rightarrow> u32 \<Rightarrow> u32 \<Rightarrow> ('h, unit) io" where
  "phy_RFSerialWrite dev p Offset Data =
    PHY_SetBBReg8812 dev (ucast (Rf3WireOffset (PhyRegDef p))) bMaskDWord (rf_data_and_addr Offset Data)"

definition phy_query_rf_reg :: "'h usb \<Rightarrow> bool \<Rightarrow> RfPath \<Rightarrow> u32 \<Rightarrow> u32 \<Rightarrow> ('h, u32) io" where
  "phy_query_rf_reg dev c_cut p RegAddr BitMask =
    io_bind (phy_RFSerialRead dev c_cut p RegAddr) (\<lambda>val.
      io_return (if BitMask \<noteq> 0 \<and> BitMask \<noteq> 0xFFFFFFFF
                 then drop_bit (PHY_CalculateBitShift BitMask) (val AND BitMask) else val))"

text \<open>The value is shifted to its field but not cut to the mask.\<close>

definition phy_set_rf_reg :: "'h usb \<Rightarrow> bool \<Rightarrow> RfPath \<Rightarrow> u16 \<Rightarrow> u32 \<Rightarrow> u32 \<Rightarrow> ('h, unit) io" where
  "phy_set_rf_reg dev c_cut p RegAddr BitMask Data =
    (if BitMask = 0 then io_return ()
     else if BitMask \<noteq> bLSSIWrite_data_Jaguar
     then io_bind (phy_RFSerialRead dev c_cut p (ucast RegAddr)) (\<lambda>Original_Value.
       phy_RFSerialWrite dev p (ucast RegAddr)
         ((Original_Value AND NOT BitMask) OR push_bit (PHY_CalculateBitShift BitMask) Data))
     else phy_RFSerialWrite dev p (ucast RegAddr) Data)"

section \<open>A chip with a radio\<close>

text \<open>
  The baseband is memory, except that the readback registers of paths A and B show the radio register
  whose number is in the low byte of \<open>rHSSIRead_Jaguar\<close>, and a word written to the serial port of a
  path goes to the radio register it names. Paths C and D are write-only, as src/HalModule.cpp and
  src/Iqk8814a.cpp say: their readback registers keep a value of their own, whatever the radio holds.
\<close>

record rf_chip =
  bb :: regs
  rf :: "RfPath \<Rightarrow> u8 \<Rightarrow> u32"

definition rf_selected :: "rf_chip \<Rightarrow> RfPath \<Rightarrow> u32" where
  "rf_selected s p = rf s p (bb s 0x8b0)"

definition rf_obs :: "rf_chip \<Rightarrow> regs" where
  "rf_obs s = fold (\<lambda>p r.
      store (RfLSSIReadBack (PhyRegDef p)) (le_bytes 4 (rf_selected s p))
        (store (RfLSSIReadBackPi (PhyRegDef p)) (le_bytes 4 (rf_selected s p)) r))
    [RF_PATH_A, RF_PATH_B] (bb s)"

text \<open>What a path answers when a register is read: the register, or the readback register itself.\<close>

definition readable :: "RfPath \<Rightarrow> bool" where
  "readable p \<longleftrightarrow> p = RF_PATH_A \<or> p = RF_PATH_B"

definition rf_answer :: "rf_chip \<Rightarrow> RfPath \<Rightarrow> u8 \<Rightarrow> u32" where
  "rf_answer s p a = (if readable p then rf s p a else reg32 (bb s) (RfLSSIReadBack (PhyRegDef p)))"

lemma rf_answer_AB [simp]: "rf_answer s RF_PATH_A = rf s RF_PATH_A" "rf_answer s RF_PATH_B = rf s RF_PATH_B"
  by (simp_all add: rf_answer_def readable_def fun_eq_iff)

definition rf_react :: "u16 \<Rightarrow> bytes \<Rightarrow> rf_chip \<Rightarrow> rf_chip" where
  "rf_react a bs s =
    (let s = s\<lparr>bb := store a bs (bb s)\<rparr> in
     case find (\<lambda>p. ucast (Rf3WireOffset (PhyRegDef p)) = a) [RF_PATH_A, RF_PATH_B, RF_PATH_C, RF_PATH_D] of
       None \<Rightarrow> s
     | Some p \<Rightarrow> (let v = le_word bs :: u32 in
         s\<lparr>rf := (rf s)(p := (rf s p)(ucast (drop_bit 20 v) := v AND 0xfffff))\<rparr>))"

lemma reg32_store_other [simp]:
  assumes "4 \<le> unat (a - b)" and "4 \<le> unat (b - a)"
  shows "reg32 (store b (le_bytes 4 v) r) a = reg32 r a"
proof -
  have "store b (le_bytes 4 v) r (a + of_nat i) = r (a + of_nat i)" if i: "i < 4" for i
  proof -
    have "\<not> unat (a + of_nat i - b) < 4"
    proof
      assume l: "unat (a + of_nat i - b) < 4"
      define d where "d = a - b"
      have e: "a + of_nat i - b = d + of_nat i" by (simp add: d_def)
      have "unat (d + of_nat i) = (unat d + i) mod 65536"
        using i by (simp add: unat_word_ariths unat_of_nat)
      moreover have "unat d < 65536" using unat_lt [of d] by simp
      ultimately have "unat d + i \<ge> 65536"
        using l i assms(1) e d_def by (metis add_lessD1 linorder_not_less mod_less)
      moreover have "unat (b - a) = 65536 - unat d"
        using assms(1) unat_lt [of a] unat_lt [of b] by (auto simp: d_def unat_sub_if' split: if_splits)
      ultimately show False using assms(2) i by simp
    qed
    then show ?thesis by (simp add: store_def)
  qed
  then show ?thesis by (auto simp: reg32_def intro!: arg_cong [where f = le_word])
qed

lemma rf_obs_readback [simp]:
  "reg32 (rf_obs s) (RfLSSIReadBack (PhyRegDef p)) = rf_answer s p (bb s 0x8b0)"
  by (cases p; simp add: rf_obs_def rf_selected_def rf_answer_def readable_def)

lemma rf_obs_readback_pi [simp]:
  "readable p \<Longrightarrow> reg32 (rf_obs s) (RfLSSIReadBackPi (PhyRegDef p)) = rf_answer s p (bb s 0x8b0)"
  by (cases p; simp add: rf_obs_def rf_selected_def rf_answer_def readable_def)

lemma rf_obs_bb [simp]: "reg32 (rf_obs s) 0x8b0 = reg32 (bb s) 0x8b0"
  by (simp add: rf_obs_def)

lemma rf_react_other [simp]:
  assumes "a \<notin> {0xc90, 0xe90, 0x1890, 0x1A90}"
  shows "rf_react a bs s = s\<lparr>bb := store a bs (bb s)\<rparr>"
  using assms by (simp add: rf_react_def Let_def)

lemma rf_react_port [simp]:
  "rf (rf_react (ucast (Rf3WireOffset (PhyRegDef p))) (le_bytes 4 v) s) =
    (rf s)(p := (rf s p)(ucast (drop_bit 20 v) := v AND 0xfffff))"
  by (cases p) (simp_all add: rf_react_def Let_def le_word_le_bytes)

lemma store_first: "store a (le_bytes 4 v) r a = (ucast v :: u8)"
  by (simp add: store_def le_bytes_conv)

lemma bit_shifts [simp]:
  "PHY_CalculateBitShift 0xFF = 0" "PHY_CalculateBitShift 0xFFFFF = 0" "PHY_CalculateBitShift 8 = 3"
  "PHY_CalculateBitShift 4 = 2"
  by code_simp+

lemma bit_FF: "bit (0xFF :: int) n \<longleftrightarrow> n < 8" "bit (0xFFFFF :: int) n \<longleftrightarrow> n < 20"
  "bit (0xFFFFFFF :: int) n \<longleftrightarrow> n < 28" "bit (0xFF00000 :: int) n \<longleftrightarrow> 20 \<le> n \<and> n < 28"
proof -
  have m: "(0xFF :: int) = mask 8" "(0xFFFFF :: int) = mask 20" "(0xFFFFFFF :: int) = mask 28"
    "(0xFF00000 :: int) = push_bit 20 (mask 8)" by (simp_all add: mask_eq_exp_minus_1 push_bit_eq_mult)
  show "bit (0xFF :: int) n \<longleftrightarrow> n < 8" unfolding m by (simp add: bit_mask_iff)
  show "bit (0xFFFFF :: int) n \<longleftrightarrow> n < 20" unfolding m by (simp add: bit_mask_iff)
  show "bit (0xFFFFFFF :: int) n \<longleftrightarrow> n < 28" unfolding m by (simp add: bit_mask_iff)
  show "bit (0xFF00000 :: int) n \<longleftrightarrow> 20 \<le> n \<and> n < 28"
    unfolding m(4) bit_push_bit_iff bit_mask_iff by auto
qed

lemma ucast_masked_low: "(ucast (masked x 0xFF off) :: u8) = ucast off"
  by (rule bit_word_eqI) (simp add: masked_def bit_simps bit_FF)

text \<open>A serial read touches two baseband registers only.\<close>

definition rf_frame :: "rf_chip \<Rightarrow> rf_chip \<Rightarrow> bool" where
  "rf_frame s s' \<longleftrightarrow> rf s' = rf s \<and>
    (\<forall>a. 4 \<le> unat (a - rCCAonSec_Jaguar) \<and> 4 \<le> unat (a - 0x8b0) \<longrightarrow> bb s' a = bb s a)"

lemma rf_frame_answer:
  assumes "rf_frame s s'"
  shows "rf_answer s' p a = rf_answer s p a"
  using assms by (cases p) (simp_all add: rf_answer_def readable_def rf_frame_def reg32_def upt_rec)

lemma rf_frame_refl [simp]: "rf_frame s s"
  by (simp add: rf_frame_def)

lemma rf_frame_store [simp]:
  "rf_frame s (s'\<lparr>bb := store 0x838 (le_bytes 4 v) r\<rparr>) = rf_frame s (s'\<lparr>bb := r\<rparr>)"
  "rf_frame s (s'\<lparr>bb := store 0x8b0 (le_bytes 4 v) r\<rparr>) = rf_frame s (s'\<lparr>bb := r\<rparr>)"
  by (auto simp: rf_frame_def store_def)

lemma rf_answer_store [simp]:
  "rf_answer (s\<lparr>bb := store 0x838 (le_bytes 4 v) (bb s)\<rparr>) = rf_answer s"
  "rf_answer (s\<lparr>bb := store 0x8b0 (le_bytes 4 v) (bb s)\<rparr>) = rf_answer s"
proof -
  have "rf_answer (s\<lparr>bb := store 0x838 (le_bytes 4 v) (bb s)\<rparr>) p a = rf_answer s p a"
    "rf_answer (s\<lparr>bb := store 0x8b0 (le_bytes 4 v) (bb s)\<rparr>) p a = rf_answer s p a" for p a
    by (cases p; simp add: rf_answer_def readable_def)+
  then show "rf_answer (s\<lparr>bb := store 0x838 (le_bytes 4 v) (bb s)\<rparr>) = rf_answer s"
    "rf_answer (s\<lparr>bb := store 0x8b0 (le_bytes 4 v) (bb s)\<rparr>) = rf_answer s" by blast+
qed

lemma ucast_via_u32 [simp]: "(ucast (ucast (a :: u16) :: u32) :: u8) = ucast a"
  by (rule bit_word_eqI) (auto simp: bit_simps)

text \<open>The readback registers of the write-only paths.\<close>

definition readbacks :: "rf_chip \<Rightarrow> u32 \<times> u32" where
  "readbacks s = (reg32 (bb s) 0xd88, reg32 (bb s) 0xdC8)"

lemma rf_frame_readbacks: "rf_frame s s' \<Longrightarrow> readbacks s' = readbacks s"
  by (simp add: readbacks_def rf_frame_def reg32_def upt_rec)

lemma readbacks_port: "readbacks (rf_react (ucast (Rf3WireOffset (PhyRegDef p))) (le_bytes 4 v) s) = readbacks s"
  by (cases p) (simp_all add: rf_react_def Let_def readbacks_def)

locale rf_device = chip dev st rf_obs rf_react
  for dev :: "'h usb" and st :: "'h \<Rightarrow> rf_chip"
begin

text \<open>A serial read returns what the path answers and leaves the radio as it was.\<close>

lemma rf_pi_mode_wp:
  assumes "\<And>b h'. st h' = st h \<Longrightarrow> (b \<longrightarrow> readable p) \<Longrightarrow> Q b h'"
  shows "wp (rf_pi_mode dev p) Q h"
  using assms by (auto simp: rf_pi_mode_def readable_def intro!: wp_computes [OF query_bb])

lemma RFSerialRead_wp:
  assumes "\<And>h'. rf_frame (st h) (st h') \<Longrightarrow> Q (rf_answer (st h) p (ucast Offset) AND 0xfffff) h'"
  shows "wp (phy_RFSerialRead dev c_cut p Offset) Q h"
proof -
  have hssi: "ucast (RfHSSIPara2 (PhyRegDef p)) = (0x8b0 :: u16)" by (cases p) simp_all
  have cut: "(ucast (Offset AND 0xff) :: u8) = ucast Offset"
    by (rule bit_word_eqI) (simp add: bit_simps bit_FF)
  have rest: "wp (io_bind (rf_pi_mode dev p) (\<lambda>bIsPIMode.
     io_then (PHY_SetBBReg8812 dev (ucast (RfHSSIPara2 (PhyRegDef p))) bHSSIRead_addr_Jaguar (Offset AND 0xff))
     (io_then (io_when c_cut (pause_us dev 20000))
     (io_bind (PHY_QueryBBReg8812 dev
         (if bIsPIMode then RfLSSIReadBackPi (PhyRegDef p) else RfLSSIReadBack (PhyRegDef p))
         rRead_data_Jaguar) (\<lambda>retValue.
     io_then (io_when (Offset AND 0xff \<noteq> 0 \<and> \<not> c_cut) (PHY_SetBBReg8812 dev rCCAonSec_Jaguar 0x8 0))
       (io_return retValue)))))) Q h1" if f: "rf_frame (st h) (st h1)" for h1
    using f assms rf_frame_answer [OF f]
    by (auto simp: wp_when hssi rf_selected_def store_first ucast_masked_low cut
        intro!: rf_pi_mode_wp wp_computes [OF set_bb] wp_computes [OF query_bb] wp_computes [OF pause])
  then show ?thesis
    by (auto simp: phy_RFSerialRead_def wp_when Let_def intro!: wp_computes [OF set_bb] simp del: wp_bind)
qed

lemma RFSerialWrite_wp:
  assumes "\<And>h'. rf (st h') = (rf (st h))(p := (rf (st h) p)(ucast Offset := Data AND 0xfffff)) \<Longrightarrow>
    readbacks (st h') = readbacks (st h) \<Longrightarrow> Q () h'"
  shows "wp (phy_RFSerialWrite dev p Offset Data) Q h"
proof -
  have "(ucast (drop_bit 20 (rf_data_and_addr Offset Data)) :: u8) = ucast Offset"
    by (rule bit_word_eqI) (auto simp: rf_data_and_addr_def bit_simps bit_FF)
  moreover have "rf_data_and_addr Offset Data AND 0xfffff = Data AND 0xfffff"
    by (rule bit_word_eqI) (auto simp: rf_data_and_addr_def bit_simps bit_FF)
  ultimately show ?thesis
    using assms by (auto simp: phy_RFSerialWrite_def readbacks_port intro!: wp_computes [OF set_bb])
qed

lemma set_rf_wp:
  assumes "m \<noteq> 0" and "m = 0xFFFFF \<longrightarrow> d AND 0xFFFFF = d"
    and "\<And>h'. rf (st h') = (rf (st h))(p := (rf (st h) p)(ucast a :=
      (((rf_answer (st h) p (ucast a) AND 0xFFFFF) AND NOT m) OR push_bit (PHY_CalculateBitShift m) d) AND 0xFFFFF)) \<Longrightarrow>
      readbacks (st h') = readbacks (st h) \<Longrightarrow> Q () h'"
  shows "wp (phy_set_rf_reg dev c_cut p a m d) Q h"
proof (cases "m = 0xFFFFF")
  case True
  have "((x AND 0xFFFFF) AND NOT 0xFFFFF) OR d = d" for x :: u32
    by (simp add: and.assoc)
  with True assms(2,3) show ?thesis
    by (auto simp: phy_set_rf_reg_def intro!: RFSerialWrite_wp)
next
  case False
  have keep: "Q () h2" if f: "rf_frame (st h) (st h1)" and w: "rf (st h2) = (rf (st h1))(p := (rf (st h1) p)(ucast a :=
      (((rf_answer (st h) p (ucast a) AND 0xFFFFF) AND NOT m) OR push_bit (PHY_CalculateBitShift m) d) AND 0xFFFFF))"
      and b: "readbacks (st h2) = readbacks (st h1)" for h1 h2
    using assms(3) f w b rf_frame_readbacks [OF f] by (simp add: rf_frame_def)
  show ?thesis using assms(1) False
    by (auto simp: phy_set_rf_reg_def intro!: RFSerialRead_wp RFSerialWrite_wp keep)
qed

lemma query_rf_wp:
  assumes "\<And>h'. rf_frame (st h) (st h') \<Longrightarrow>
    Q (drop_bit (PHY_CalculateBitShift m) (rf_answer (st h) p (ucast a) AND 0xfffff AND m)) h'"
    and "m AND NOT 0xfffff = 0" and "m \<noteq> 0"
  shows "wp (phy_query_rf_reg dev c_cut p a m) Q h"
proof -
  have "m \<noteq> 0xFFFFFFFF" using assms(2) by auto
  then show ?thesis
    using assms(1,3) by (auto simp: phy_query_rf_reg_def and.assoc intro!: RFSerialRead_wp)
qed

end

interpretation rf_chip: rf_device "chip_usb rf_obs rf_react" "\<lambda>s. s"
  by unfold_locales

lemma and_within:
  assumes "x AND NOT m = (0 :: 'a::len word)"
  shows "x AND m = x"
proof -
  have "x AND m = x AND (m OR NOT m)" using assms by (simp only: bit.conj_disj_distrib or.right_neutral)
  then show ?thesis by simp
qed

text \<open>
  C33: a field of a radio register is written alone and reads back. On a chip with a radio behind
  its baseband, for the two paths that can be read, every register, mask within the 20 data bits and value that fits the
  mask, the masked write ends, changes nothing but the field of that register of that path, and
  the query with the same mask returns the value.
\<close>

theorem rf_reg_roundtrip:
  assumes "chip_device dev st rf_obs rf_react" and "readable p"
    and "m \<noteq> 0" and "m AND NOT 0xFFFFF = 0"
    and "push_bit (PHY_CalculateBitShift m) d AND NOT m = 0"
    and "drop_bit (32 - PHY_CalculateBitShift m) d = 0"
  shows "\<exists>h'. phy_set_rf_reg dev c_cut p a m d h = (Inr (), h') \<and>
    fst (phy_query_rf_reg dev c_cut p (ucast a) m h') = Inr d \<and>
    rf (st h') = (rf (st h))(p := (rf (st h) p)
      (ucast a := masked (rf (st h) p (ucast a) AND 0xFFFFF) m d AND 0xFFFFF))"
proof -
  have dev: "rf_device dev st" using assms(1) by (simp add: rf_device_def chip_def)
  let ?s = "PHY_CalculateBitShift m" and ?o = "rf (st h) p (ucast a) AND 0xFFFFF"
  let ?v = "masked ?o m d AND 0xFFFFF"
  let ?st = "(rf (st h))(p := (rf (st h) p)(ucast a := ?v))"
  have ans: "rf_answer s p = rf s p" for s using assms(2) by (auto simp: readable_def)
  have cut: "push_bit ?s d AND m = push_bit ?s d"
    by (rule and_within [OF assms(5)])
  have full: "m = 0xFFFFF \<longrightarrow> d AND 0xFFFFF = d" using cut by auto
  have "wp (phy_set_rf_reg dev c_cut p a m d) (\<lambda>_ h'. rf (st h') = ?st) h"
    by (rule rf_device.set_rf_wp [OF dev assms(3) full]) (simp add: ans masked_def cut and.assoc)
  then obtain h' where h': "phy_set_rf_reg dev c_cut p a m d h = (Inr (), h')" "rf (st h') = ?st"
    by (auto simp: wp_def)
  have fm: "0xFFFFF AND m = m" using and_within [OF assms(4)] by (simp only: and.commute)
  have "?v AND 0xFFFFF AND m = masked ?o m d AND m" by (simp only: and.assoc fm)
  then have "drop_bit ?s (?v AND 0xFFFFF AND m) = d"
    using masked_same [OF assms(3,5,6), of ?o] by simp
  then have "wp (phy_query_rf_reg dev c_cut p (ucast a) m) (\<lambda>x _. x = d) h'"
    by (intro rf_device.query_rf_wp [OF dev _ assms(4,3)]) (simp add: h'(2) ans)
  then show ?thesis using h' by (auto simp: wp_def)
qed

text \<open>
  On the write-only paths of the RTL8814A a masked write loses the rest of the register. Whatever was
  written to a register of path C or D before, by a full or by a masked write, the next masked write to it leaves,
  outside the field it writes, the bits of the readback register of the path, so that the band
  bits of the channel register are gone once the channel number is written. The radio of the other paths is not touched.
\<close>

theorem masked_write_forgets:
  assumes "chip_device dev st rf_obs rf_react" and "\<not> readable p"
    and "m \<noteq> 0" and "m \<noteq> 0xFFFFF" and "m0 \<noteq> 0" and "m0 = 0xFFFFF \<longrightarrow> d0 AND 0xFFFFF = d0"
  shows "\<exists>h'. io_then (phy_set_rf_reg dev c_cut p a m0 d0) (phy_set_rf_reg dev c_cut p a m d) h = (Inr (), h') \<and>
    rf (st h') = (rf (st h))(p := (rf (st h) p)(ucast a :=
      (((reg32 (bb (st h)) (RfLSSIReadBack (PhyRegDef p)) AND 0xFFFFF) AND NOT m) OR push_bit (PHY_CalculateBitShift m) d) AND 0xFFFFF))"
proof -
  have dev: "rf_device dev st" using assms(1) by (simp add: rf_device_def chip_def)
  have ans: "rf_answer s p x = reg32 (bb (st h)) (RfLSSIReadBack (PhyRegDef p))" if "readbacks s = readbacks (st h)" for s x
    using assms(2) that by (cases p) (simp_all add: rf_answer_def readable_def readbacks_def)
  have "wp (io_then (phy_set_rf_reg dev c_cut p a m0 d0) (phy_set_rf_reg dev c_cut p a m d))
    (\<lambda>_ h'. rf (st h') = (rf (st h))(p := (rf (st h) p)(ucast a :=
      (((reg32 (bb (st h)) (RfLSSIReadBack (PhyRegDef p)) AND 0xFFFFF) AND NOT m) OR push_bit (PHY_CalculateBitShift m) d) AND 0xFFFFF))) h"
    unfolding wp_then
    by (intro rf_device.set_rf_wp [OF dev assms(5,6)] rf_device.set_rf_wp [OF dev assms(3)])
      (use assms(4) in \<open>simp_all add: ans\<close>)
  then show ?thesis by (auto simp: wp_def)
qed

theorem rf_reg_roundtrip_witness:
  "\<exists>s'. phy_set_rf_reg (chip_usb rf_obs rf_react) False RF_PATH_B 0x18 0xFF 36
      \<lparr>bb = \<lambda>_. 0, rf = \<lambda>_ _. 0x12345\<rparr> = (Inr (), s') \<and>
    fst (phy_query_rf_reg (chip_usb rf_obs rf_react) False RF_PATH_B 0x18 0xFF s') = Inr 36 \<and>
    rf s' RF_PATH_B 0x18 = 0x12324 \<and> rf s' RF_PATH_A 0x18 = 0x12345"
proof -
  let ?s = "\<lparr>bb = \<lambda>_. 0, rf = \<lambda>_ _. 0x12345\<rparr> :: rf_chip"
  obtain s' where s': "phy_set_rf_reg (chip_usb rf_obs rf_react) False RF_PATH_B 0x18 0xFF 36 ?s = (Inr (), s')"
    "fst (phy_query_rf_reg (chip_usb rf_obs rf_react) False RF_PATH_B (ucast (0x18 :: u16)) 0xFF s') = Inr 36"
    "rf s' = (rf ?s)(RF_PATH_B := (rf ?s RF_PATH_B)
      (ucast (0x18 :: u16) := masked (rf ?s RF_PATH_B (ucast (0x18 :: u16)) AND 0xFFFFF) 0xFF 36 AND 0xFFFFF))"
    using rf_reg_roundtrip [OF chip_chip_usb, of RF_PATH_B "0xFF" 36 False "0x18" ?s] by (auto simp: readable_def)
  have "masked (0x12345 AND 0xFFFFF) 0xFF 36 AND 0xFFFFF = (0x12324 :: u32)" by (simp add: masked_def)
  then show ?thesis using s' by simp
qed

theorem masked_write_forgets_witness:
  "\<exists>s'. io_then (phy_set_rf_reg (chip_usb rf_obs rf_react) False RF_PATH_C 0x18 0x70300 0x101)
        (phy_set_rf_reg (chip_usb rf_obs rf_react) False RF_PATH_C 0x18 0xFF 36)
      \<lparr>bb = \<lambda>_. 0, rf = \<lambda>_ _. 0x12345\<rparr> = (Inr (), s') \<and>
    rf s' RF_PATH_C 0x18 = 36 \<and> rf s' RF_PATH_A 0x18 = 0x12345"
proof -
  let ?s = "\<lparr>bb = \<lambda>_. 0, rf = \<lambda>_ _. 0x12345\<rparr> :: rf_chip"
  have z: "reg32 (\<lambda>_. 0) x = 0" for x by (simp add: reg32_def upt_rec le_word_def)
  show ?thesis
    using masked_write_forgets [OF chip_chip_usb, of RF_PATH_C "0xFF" "0x70300" "0x101" False "0x18" 36 ?s]
    by (auto simp: z readable_def)
qed

end
