(* ===== verification/PwrTrack.thy ===== *)
theory PwrTrack
  imports RfReg
begin

text \<open>
  Thermal compensation of the transmit power: src/PowerTracking8812a.cpp with the tables of
  hal/Hal8812a_TxPwrTrack.cpp. The loop reads the thermal meter of the radio, averages it, and moves
  the baseband scaling of both paths by a number of half-decibel steps. The pair components are the
  paths A and B; the signed bytes of the code are bytes read with \<open>sint\<close>.
\<close>

section \<open>Tables\<close>

definition kDeltaSwingTable2gaP :: bytes where
  "kDeltaSwingTable2gaP =
    [0, 1, 1, 2, 2, 2, 3, 3, 3, 4, 4, 4, 5, 5, 5, 6, 6, 6, 7, 7, 7, 7, 7, 7, 7, 7, 7, 7, 7,
     7]"

definition kDeltaSwingTable2gaN :: bytes where
  "kDeltaSwingTable2gaN =
    [0, 1, 1, 2, 2, 2, 3, 3, 3, 4, 4, 4, 5, 5, 5, 6, 6, 6, 7, 7, 7, 8, 8, 9, 10, 10, 10, 10,
     10, 10]"

definition kDeltaSwingTable2gbP :: bytes where
  "kDeltaSwingTable2gbP =
    [0, 1, 1, 2, 2, 2, 3, 3, 3, 4, 4, 4, 5, 5, 5, 6, 6, 7, 7, 7, 7, 7, 7, 7, 7, 7, 7, 7, 7,
     7]"

definition kDeltaSwingTable2gbN :: bytes where
  "kDeltaSwingTable2gbN =
    [0, 1, 1, 2, 2, 2, 3, 3, 3, 4, 4, 5, 5, 5, 6, 6, 7, 7, 8, 8, 9, 9, 10, 10, 11, 11, 11,
     11, 11, 11]"

definition kDeltaSwingTable5gaP :: "bytes list" where
  "kDeltaSwingTable5gaP =
    [[0, 1, 1, 2, 2, 3, 4, 5, 6, 7, 7, 8, 8, 9, 10, 11, 11, 11, 11, 11, 11, 11, 11, 11, 11,
      11, 11, 11, 11, 11],
     [0, 1, 1, 2, 3, 3, 4, 5, 6, 7, 7, 8, 8, 9, 10, 11, 11, 11, 11, 11, 11, 11, 11, 11, 11,
      11, 11, 11, 11, 11],
     [0, 1, 1, 2, 3, 3, 4, 5, 6, 7, 7, 8, 8, 9, 10, 11, 11, 12, 12, 11, 11, 11, 11, 11, 11,
      11, 11, 11, 11, 11]]"

definition kDeltaSwingTable5gaN :: "bytes list" where
  "kDeltaSwingTable5gaN =
    [[0, 1, 1, 2, 2, 3, 4, 5, 6, 6, 7, 7, 8, 8, 9, 9, 10, 10, 11, 11, 12, 12, 13, 13, 14, 15,
      15, 15, 15, 15],
     [0, 1, 1, 2, 2, 3, 4, 5, 6, 6, 7, 7, 8, 8, 9, 9, 10, 10, 11, 11, 12, 12, 13, 13, 14, 15,
      15, 15, 15, 15],
     [0, 1, 1, 2, 2, 3, 4, 5, 6, 6, 7, 7, 8, 8, 9, 9, 10, 10, 11, 11, 12, 12, 13, 13, 14, 15,
      15, 15, 15, 15]]"

definition kDeltaSwingTable5gbP :: "bytes list" where
  "kDeltaSwingTable5gbP =
    [[0, 1, 1, 2, 2, 3, 3, 4, 5, 6, 7, 7, 8, 8, 9, 9, 10, 10, 11, 11, 11, 11, 11, 11, 11, 11,
      11, 11, 11, 11],
     [0, 1, 1, 2, 3, 3, 4, 5, 5, 6, 7, 7, 8, 8, 9, 9, 10, 10, 11, 11, 11, 11, 11, 11, 11, 11,
      11, 11, 11, 11],
     [0, 1, 1, 2, 3, 3, 4, 5, 6, 7, 7, 8, 8, 9, 9, 10, 11, 11, 11, 11, 11, 11, 11, 11, 11,
      11, 11, 11, 11, 11]]"

definition kDeltaSwingTable5gbN :: "bytes list" where
  "kDeltaSwingTable5gbN =
    [[0, 1, 1, 2, 2, 3, 4, 5, 6, 6, 7, 7, 8, 8, 9, 9, 10, 10, 11, 11, 12, 12, 13, 13, 14, 14,
      14, 14, 14, 14],
     [0, 1, 1, 2, 2, 3, 4, 4, 6, 6, 7, 7, 8, 8, 9, 9, 10, 10, 11, 11, 12, 12, 13, 13, 14, 14,
      14, 14, 14, 14],
     [0, 1, 1, 2, 2, 3, 4, 5, 6, 6, 7, 8, 8, 9, 10, 10, 11, 11, 12, 12, 13, 13, 14, 14, 15,
      16, 16, 16, 16, 16]]"

definition kTxScalingTableJaguar :: "u32 list" where
  "kTxScalingTableJaguar =
    [0x081, 0x088, 0x090, 0x099, 0x0A2, 0x0AC, 0x0B6, 0x0C0, 0x0CC, 0x0D8, 0x0E5, 0x0F2,
     0x101, 0x110, 0x120, 0x131, 0x143, 0x156, 0x16A, 0x180, 0x197, 0x1AF, 0x1C8, 0x1E3,
     0x200, 0x21E, 0x23E, 0x261, 0x285, 0x2AB, 0x2D3, 0x2FE, 0x32B, 0x35C, 0x38E, 0x3C4,
     0x3FE]"

section \<open>State and operations\<close>

datatype BandType = BAND_ON_2_4G | BAND_ON_5G | BAND_ON_BOTH | BAND_MAX

abbreviation (input) kAvgThermalNum :: nat where "kAvgThermalNum \<equiv> 4"
abbreviation (input) kPwrTrackingLimit :: int where "kPwrTrackingLimit \<equiv> 26"
abbreviation (input) kTxScaleTableSize :: nat where "kTxScaleTableSize \<equiv> 37"
abbreviation (input) kDeltaSwingIdxSize :: u8 where "kDeltaSwingIdxSize \<equiv> 30"
abbreviation (input) rA_TxScale_Jaguar :: u16 where "rA_TxScale_Jaguar \<equiv> 0xc1c"
abbreviation (input) rB_TxScale_Jaguar :: u16 where "rB_TxScale_Jaguar \<equiv> 0xe1c"

record pwr_track =
  txPowerTrackControl :: bool
  pt_initialised :: bool
  defaultOfdmIndex :: u8
  thermalValue :: u8
  thermalValueIqk :: u8
  thermalValueAvgIndex :: u8
  thermalValueAvg :: bytes
  absoluteOfdmSwingIdx :: "u8 \<times> u8"
  deltaPowerIndex :: "u8 \<times> u8"
  deltaPowerIndexLast :: "u8 \<times> u8"

definition pwr_track_init :: pwr_track where
  "pwr_track_init = \<lparr>txPowerTrackControl = True, pt_initialised = False, defaultOfdmIndex = 24,
     thermalValue = 0, thermalValueIqk = 0, thermalValueAvgIndex = 0, thermalValueAvg = [0, 0, 0, 0],
     absoluteOfdmSwingIdx = (0, 0), deltaPowerIndex = (0, 0), deltaPowerIndexLast = (0, 0)\<rparr>"

definition swing_lookup :: "u32 \<Rightarrow> u8" where
  "swing_lookup bb_swing =
    (case find (\<lambda>i. bb_swing = kTxScalingTableJaguar ! i) [0..<kTxScaleTableSize] of
       Some i \<Rightarrow> of_nat i | None \<Rightarrow> of_nat kTxScaleTableSize)"

definition LookupSwingIndexFromBb :: "'h usb \<Rightarrow> ('h, u8) io" where
  "LookupSwingIndexFromBb dev =
    io_bind (PHY_QueryBBReg8812 dev rA_TxScale_Jaguar 0xFFE00000) (\<lambda>v. io_return (swing_lookup v))"

definition default_index :: "u8 \<Rightarrow> u8" where
  "default_index swing_idx = (if swing_idx \<ge> of_nat kTxScaleTableSize then 24 else swing_idx)"

definition clear_paths :: "u8 \<Rightarrow> pwr_track \<Rightarrow> pwr_track" where
  "clear_paths eeprom pt = pt\<lparr>thermalValue := eeprom, thermalValueAvgIndex := 0,
     thermalValueAvg := [0, 0, 0, 0], absoluteOfdmSwingIdx := (0, 0), deltaPowerIndex := (0, 0),
     deltaPowerIndexLast := (0, 0)\<rparr>"

definition PwrTrack_Init :: "'h usb \<Rightarrow> u8 \<Rightarrow> pwr_track \<Rightarrow> ('h, pwr_track) io" where
  "PwrTrack_Init dev eeprom pt =
    io_bind (LookupSwingIndexFromBb dev) (\<lambda>swing_idx. io_return
      ((clear_paths eeprom (pt\<lparr>defaultOfdmIndex := default_index swing_idx,
         txPowerTrackControl := (eeprom \<noteq> 0xff)\<rparr>))\<lparr>pt_initialised := True\<rparr>))"

definition ClearState :: "'h usb \<Rightarrow> u8 \<Rightarrow> pwr_track \<Rightarrow> ('h, pwr_track) io" where
  "ClearState dev eeprom pt =
    io_bind (LookupSwingIndexFromBb dev) (\<lambda>swing_idx. io_return
      ((clear_paths eeprom pt)\<lparr>defaultOfdmIndex := default_index swing_idx\<rparr>))"

definition swing_bucket :: "u8 \<Rightarrow> nat" where
  "swing_bucket channel =
    (if channel \<ge> 36 \<and> channel \<le> 64 then 0
     else if channel \<ge> 100 \<and> channel \<le> 144 then 1
     else if channel \<ge> 149 \<and> channel \<le> 177 then 2
     else 0)"

text \<open>The tables for a warmer and a cooler chip, of path A and of path B.\<close>

definition swing_tables :: "BandType \<Rightarrow> u8 \<Rightarrow> (bytes \<times> bytes) \<times> (bytes \<times> bytes)" where
  "swing_tables band channel =
    (if band = BAND_ON_2_4G
     then ((kDeltaSwingTable2gaP, kDeltaSwingTable2gaN), (kDeltaSwingTable2gbP, kDeltaSwingTable2gbN))
     else (let b = swing_bucket channel in
       ((kDeltaSwingTable5gaP ! b, kDeltaSwingTable5gaN ! b),
        (kDeltaSwingTable5gbP ! b, kDeltaSwingTable5gbN ! b))))"

definition swing_of :: "bool \<Rightarrow> u8 \<Rightarrow> bytes \<times> bytes \<Rightarrow> u8" where
  "swing_of warmer delta tabs =
    (if warmer then fst tabs ! unat delta else - (snd tabs ! unat delta))"

definition GetTrackingTable :: "BandType \<Rightarrow> u8 \<Rightarrow> u8 \<Rightarrow> u8 \<Rightarrow> u8 \<Rightarrow> pwr_track \<Rightarrow> pwr_track" where
  "GetTrackingTable band channel eeprom_thermal thermal_value delta pt =
    (let (tab_a, tab_b) = swing_tables band channel;
         warmer = thermal_value > eeprom_thermal;
         v = (swing_of warmer delta tab_a, swing_of warmer delta tab_b)
     in pt\<lparr>deltaPowerIndexLast := deltaPowerIndex pt, deltaPowerIndex := v, absoluteOfdmSwingIdx := v\<rparr>)"

definition idx_to_write :: "u8 \<Rightarrow> u8 \<Rightarrow> nat" where
  "idx_to_write dflt absolute =
    (let final_ofdm_swing_index = uint dflt + sint absolute in
     if final_ofdm_swing_index > kPwrTrackingLimit then nat kPwrTrackingLimit
     else if final_ofdm_swing_index \<le> 0 then 0
     else nat final_ofdm_swing_index)"

definition ApplySwingToBb :: "'h usb \<Rightarrow> pwr_track \<Rightarrow> ('h, unit) io" where
  "ApplySwingToBb dev pt =
    io_then (PHY_SetBBReg8812 dev rA_TxScale_Jaguar 0xFFE00000
      (kTxScalingTableJaguar ! idx_to_write (defaultOfdmIndex pt) (fst (absoluteOfdmSwingIdx pt))))
    (PHY_SetBBReg8812 dev rB_TxScale_Jaguar 0xFFE00000
      (kTxScalingTableJaguar ! idx_to_write (defaultOfdmIndex pt) (snd (absoluteOfdmSwingIdx pt))))"

text \<open>The average over the samples that are not zero.\<close>

definition thermal_avg :: "u8 \<Rightarrow> bytes \<Rightarrow> u8" where
  "thermal_avg thermal_value samples =
    (let nz = filter (\<lambda>v. v \<noteq> 0) samples in
     if length nz > 0 then of_nat (sum_list (map unat nz) div length nz) else thermal_value)"

definition abs_diff :: "u8 \<Rightarrow> u8 \<Rightarrow> u8" where
  "abs_diff x y = (if x > y then x - y else y - x)"

text \<open>What a sample does to the state, and whether the scaling has to be written.\<close>

definition thermal_sample :: "BandType \<Rightarrow> u8 \<Rightarrow> u8 \<Rightarrow> u8 \<Rightarrow> pwr_track \<Rightarrow> u8 \<times> bool \<times> pwr_track" where
  "thermal_sample band channel eeprom thermal_value pt =
    (let pt = pt\<lparr>thermalValueAvg := (thermalValueAvg pt)[unat (thermalValueAvgIndex pt) := thermal_value],
           thermalValueAvgIndex := (thermalValueAvgIndex pt + 1) mod of_nat kAvgThermalNum\<rparr>;
         avg = thermal_avg thermal_value (thermalValueAvg pt)
     in if abs_diff avg (thermalValue pt) > 0
        then (let delta = abs_diff avg eeprom;
                  delta = (if delta \<ge> kDeltaSwingIdxSize then kDeltaSwingIdxSize - 1 else delta);
                  pt = GetTrackingTable band channel eeprom avg delta pt
              in (avg, deltaPowerIndex pt \<noteq> deltaPowerIndexLast pt, pt))
        else (avg, False, pt))"

text \<open>
  \<open>iqk\<close> is the calibration that a large drift starts when the environment asks for it: pausing the
  receiver, \<open>RadioManagementModule::RunIQK\<close> and resuming.
\<close>

definition TickThermalMeter ::
    "'h usb \<Rightarrow> bool \<Rightarrow> ('h, unit) io option \<Rightarrow> BandType \<Rightarrow> u8 \<Rightarrow> u8 \<Rightarrow> pwr_track \<Rightarrow> ('h, pwr_track) io" where
  "TickThermalMeter dev c_cut iqk band channel eeprom pt =
    (if \<not> pt_initialised pt \<or> \<not> txPowerTrackControl pt then io_return pt
     else io_bind (phy_query_rf_reg dev c_cut RF_PATH_A 0x42 0xfc00) (\<lambda>rf_thermal.
       (let (avg, scale, pt) = thermal_sample band channel eeprom (ucast (rf_thermal AND 0x3F)) pt in
        io_then (io_when scale (ApplySwingToBb dev pt))
        (let pt = (if thermalValueIqk pt = 0 then pt\<lparr>thermalValueIqk := avg\<rparr> else pt) in
         case iqk of
           Some run \<Rightarrow> if abs_diff avg (thermalValueIqk pt) \<ge> 8
             then io_then run (io_return (pt\<lparr>thermalValueIqk := avg, thermalValue := avg\<rparr>))
             else io_return (pt\<lparr>thermalValue := avg\<rparr>)
         | None \<Rightarrow> io_return (pt\<lparr>thermalValue := avg\<rparr>)))))"

section \<open>What a tick does to the chip\<close>

text \<open>
  The reading of the meter, and the compensation in half-decibel steps that the tables prescribe
  for an average \<open>avg\<close>: towards more power on a warmer chip, towards less on a cooler one.
\<close>

definition thermal_meter :: "rf_chip \<Rightarrow> u8" where
  "thermal_meter s = ucast (take_bit 6 (drop_bit 10 (rf s RF_PATH_A 0x42)))"

definition compensation :: "bytes \<times> bytes \<Rightarrow> u8 \<Rightarrow> u8 \<Rightarrow> int" where
  "compensation tabs eeprom avg =
    (let k = min 29 (nat \<bar>uint avg - uint eeprom\<bar>) in
     if eeprom < avg then uint (fst tabs ! k) else - uint (snd tabs ! k))"

definition scale_entry :: "u8 \<Rightarrow> int \<Rightarrow> u32" where
  "scale_entry dflt steps = kTxScalingTableJaguar ! nat (max 0 (min 26 (uint dflt + steps)))"

definition pt_ok :: "pwr_track \<Rightarrow> bool" where
  "pt_ok pt \<longleftrightarrow> length (thermalValueAvg pt) = 4 \<and> thermalValueAvgIndex pt < 4"

definition swing_table_ok :: "bytes \<Rightarrow> bool" where
  "swing_table_ok t \<longleftrightarrow> length t = 30 \<and> list_all (\<lambda>v. v \<le> 16) t"

lemma swing_bucket_less: "swing_bucket channel < 3"
  by (simp add: swing_bucket_def)

lemma swing_tables_ok:
  "case swing_tables band channel of ((ua, da), (ub, db)) \<Rightarrow>
    swing_table_ok ua \<and> swing_table_ok da \<and> swing_table_ok ub \<and> swing_table_ok db"
proof -
  have "list_all swing_table_ok
      ([kDeltaSwingTable2gaP, kDeltaSwingTable2gaN, kDeltaSwingTable2gbP, kDeltaSwingTable2gbN] @
       kDeltaSwingTable5gaP @ kDeltaSwingTable5gaN @ kDeltaSwingTable5gbP @ kDeltaSwingTable5gbN)"
    by code_simp
  moreover have "length kDeltaSwingTable5gaP = 3" "length kDeltaSwingTable5gaN = 3"
    "length kDeltaSwingTable5gbP = 3" "length kDeltaSwingTable5gbN = 3"
    by code_simp+
  ultimately show ?thesis
    using swing_bucket_less [of channel] by (auto simp: swing_tables_def Let_def list_all_iff)
qed

lemma uint_abs_diff: "unat (abs_diff x y) = nat \<bar>uint x - uint y\<bar>"
proof -
  have *: "uint (b - a) = uint b - uint a" if "uint a \<le> uint b" for a b :: u8
    using that by (simp add: uint_sub_if')
  show ?thesis
  proof (cases "x > y")
    case True
    then show ?thesis using * [of y x] by (simp add: abs_diff_def word_less_alt unat_eq_nat_uint)
  next
    case False
    then show ?thesis using * [of x y] by (simp add: abs_diff_def word_less_alt unat_eq_nat_uint)
  qed
qed

lemma sint_small:
  assumes "v \<le> (16 :: u8)"
  shows "sint v = uint v" and "sint (- v) = - uint v"
proof -
  have "uint v \<le> 16" using assms by (simp add: word_le_def)
  then show "sint v = uint v" using signed_take_bit_int_eq_self [of 7 "uint v"] uint_ge_0 [of v] by (simp add: sint_uint)
  show "sint (- v) = - uint v"
    using \<open>uint v \<le> 16\<close> signed_take_bit_int_eq_self [of 7 "- uint v"] uint_ge_0 [of v]
      signed_take_bit_take_bit [of 7 8 "- uint v"]
    by (simp add: sint_uint uint_word_ariths take_bit_eq_mod)
qed

lemma swing_of_compensation:
  assumes "swing_table_ok (fst tabs)" and "swing_table_ok (snd tabs)"
    and "delta = (if abs_diff avg eeprom \<ge> 30 then 29 else abs_diff avg eeprom)"
  shows "sint (swing_of (avg > eeprom) delta tabs) = compensation tabs eeprom avg"
proof -
  let ?k = "min 29 (nat \<bar>uint avg - uint eeprom\<bar>)"
  have k: "unat delta = ?k"
    using uint_abs_diff [of avg eeprom] by (auto simp: assms(3) word_le_nat_alt)
  have "fst tabs ! ?k \<le> 16" "snd tabs ! ?k \<le> 16"
    using assms(1,2) by (auto simp: swing_table_ok_def list_all_length)
  then show ?thesis by (simp add: swing_of_def k compensation_def Let_def sint_small)
qed

lemma idx_to_write_entry:
  "kTxScalingTableJaguar ! idx_to_write dflt v = scale_entry dflt (sint v)"
  by (simp add: idx_to_write_def scale_entry_def Let_def)

lemma scale_entries_fit:
  "list_all (\<lambda>v. push_bit 21 v AND NOT 0xFFE00000 = 0 \<and> drop_bit 11 v = 0) kTxScalingTableJaguar"
  "length kTxScalingTableJaguar = 37"
  by code_simp+

lemma scale_entry_fits:
  "push_bit 21 (scale_entry d c) AND NOT 0xFFE00000 = 0" "drop_bit 11 (scale_entry d c) = 0"
  using scale_entries_fit by (auto simp: scale_entry_def list_all_length)

lemma scale_shift [simp]: "PHY_CalculateBitShift 0xFFE00000 = 21"
  by code_simp

lemma masked_scale:
  "drop_bit 21 (masked x 0xFFE00000 (scale_entry d c) AND 0xFFE00000) = scale_entry d c"
  using masked_same [of "0xFFE00000" "scale_entry d c" x] scale_entry_fits by simp

definition scale_fields :: "rf_chip \<Rightarrow> u32 \<times> u32" where
  "scale_fields s = (drop_bit 21 (reg32 (bb s) rA_TxScale_Jaguar AND 0xFFE00000),
     drop_bit 21 (reg32 (bb s) rB_TxScale_Jaguar AND 0xFFE00000))"

lemma rf_obs_scale [simp]:
  "reg32 (rf_obs s) 0xc1c = reg32 (bb s) 0xc1c" "reg32 (rf_obs s) 0xe1c = reg32 (bb s) 0xe1c"
  by (simp_all add: rf_obs_def)

lemma ApplySwing_wp:
  assumes "rf_device dev st"
    and "\<And>h'. rf (st h') = rf (st h) \<Longrightarrow> scale_fields (st h') =
      (scale_entry (defaultOfdmIndex pt) (sint (fst (absoluteOfdmSwingIdx pt))),
       scale_entry (defaultOfdmIndex pt) (sint (snd (absoluteOfdmSwingIdx pt)))) \<Longrightarrow> Q () h'"
  shows "wp (ApplySwingToBb dev pt) Q h"
proof -
  have c: "chip dev st rf_obs rf_react" using assms(1) by (simp add: rf_device_def)
  show ?thesis
    using assms(2) unfolding ApplySwingToBb_def wp_then idx_to_write_entry
    by (auto simp: scale_fields_def masked_scale [simplified] masked_scale
        intro!: wp_computes [OF chip.set_bb [OF c]])
qed

lemma meter_shift [simp]: "PHY_CalculateBitShift 0xFC00 = 10"
  by code_simp

lemma scale_fields_frame: "rf_frame s s' \<Longrightarrow> scale_fields s' = scale_fields s"
  by (simp add: rf_frame_def scale_fields_def reg32_def upt_2_4)

lemma thermal_meter_read:
  "ucast (drop_bit 10 (rf s RF_PATH_A 0x42) AND 0x3F) = thermal_meter s"
proof -
  have "(0x3F :: u32) = mask 6" by (simp add: mask_eq_exp_minus_1)
  then show ?thesis unfolding thermal_meter_def take_bit_eq_mask by (simp only:)
qed

text \<open>
  The registers carry the compensation of the temperature the loop last saw, on one channel.
\<close>

definition pt_inv :: "BandType \<Rightarrow> u8 \<Rightarrow> u8 \<Rightarrow> pwr_track \<Rightarrow> rf_chip \<Rightarrow> bool" where
  "pt_inv band channel eeprom pt s \<longleftrightarrow>
    pt_ok pt \<and> pt_initialised pt \<and> txPowerTrackControl pt \<and>
    deltaPowerIndex pt = absoluteOfdmSwingIdx pt \<and>
    sint (fst (absoluteOfdmSwingIdx pt)) = compensation (fst (swing_tables band channel)) eeprom (thermalValue pt) \<and>
    sint (snd (absoluteOfdmSwingIdx pt)) = compensation (snd (swing_tables band channel)) eeprom (thermalValue pt) \<and>
    scale_fields s =
      (scale_entry (defaultOfdmIndex pt) (compensation (fst (swing_tables band channel)) eeprom (thermalValue pt)),
       scale_entry (defaultOfdmIndex pt) (compensation (snd (swing_tables band channel)) eeprom (thermalValue pt)))"

definition next_avg :: "u8 \<Rightarrow> pwr_track \<Rightarrow> u8" where
  "next_avg t pt = thermal_avg t ((thermalValueAvg pt)[unat (thermalValueAvgIndex pt) := t])"

lemma abs_diff_pos: "0 < abs_diff x y \<longleftrightarrow> x \<noteq> y"
  by (auto simp: abs_diff_def word_gt_0)

lemma mod_4_less: "(x :: u8) mod 4 < 4"
  by (simp add: word_less_nat_alt unat_mod_distrib)

lemma thermal_sample_cases:
  assumes "thermal_sample band channel eeprom t pt = (avg, scale, pt')" and "pt_ok pt"
    and "deltaPowerIndex pt = absoluteOfdmSwingIdx pt"
    and "sint (fst (absoluteOfdmSwingIdx pt)) = compensation (fst (swing_tables band channel)) eeprom (thermalValue pt)"
    and "sint (snd (absoluteOfdmSwingIdx pt)) = compensation (snd (swing_tables band channel)) eeprom (thermalValue pt)"
  shows "avg = next_avg t pt \<and> pt_ok pt' \<and> pt_initialised pt' = pt_initialised pt \<and>
    txPowerTrackControl pt' = txPowerTrackControl pt \<and> defaultOfdmIndex pt' = defaultOfdmIndex pt \<and>
    deltaPowerIndex pt' = absoluteOfdmSwingIdx pt' \<and>
    thermalValueAvg pt' = (thermalValueAvg pt)[unat (thermalValueAvgIndex pt) := t] \<and>
    thermalValueAvgIndex pt' = (thermalValueAvgIndex pt + 1) mod 4 \<and>
    sint (fst (absoluteOfdmSwingIdx pt')) = compensation (fst (swing_tables band channel)) eeprom avg \<and>
    sint (snd (absoluteOfdmSwingIdx pt')) = compensation (snd (swing_tables band channel)) eeprom avg \<and>
    (scale \<or> absoluteOfdmSwingIdx pt' = absoluteOfdmSwingIdx pt)"
proof -
  obtain ua da ub db where t: "swing_tables band channel = ((ua, da), (ub, db))" by (metis prod.exhaust)
  then have ok: "swing_table_ok ua" "swing_table_ok da" "swing_table_ok ub" "swing_table_ok db"
    using swing_tables_ok [of band channel] by simp_all
  let ?avg = "next_avg t pt"
  let ?d = "if abs_diff ?avg eeprom \<ge> 30 then 29 else abs_diff ?avg eeprom"
  let ?v = "(swing_of (?avg > eeprom) ?d (ua, da), swing_of (?avg > eeprom) ?d (ub, db))"
  have v: "sint (fst ?v) = compensation (ua, da) eeprom ?avg" "sint (snd ?v) = compensation (ub, db) eeprom ?avg"
    using ok swing_of_compensation [of "(ua, da)" ?d ?avg eeprom]
      swing_of_compensation [of "(ub, db)" ?d ?avg eeprom] by simp_all
  show ?thesis
  proof (cases "?avg = thermalValue pt")
    case True
    then show ?thesis using assms
      by (auto simp: thermal_sample_def Let_def next_avg_def [symmetric] abs_diff_pos pt_ok_def mod_4_less)
  next
    case False
    then have "avg = ?avg" "scale = (?v \<noteq> deltaPowerIndex pt)"
      "pt' = pt\<lparr>thermalValueAvg := (thermalValueAvg pt)[unat (thermalValueAvgIndex pt) := t],
        thermalValueAvgIndex := (thermalValueAvgIndex pt + 1) mod 4,
        deltaPowerIndexLast := deltaPowerIndex pt, deltaPowerIndex := ?v, absoluteOfdmSwingIdx := ?v\<rparr>"
      using assms(1) by (auto simp: thermal_sample_def Let_def next_avg_def [symmetric] abs_diff_pos
          GetTrackingTable_def t)
    then show ?thesis using v assms(2,3) unfolding t by (simp add: pt_ok_def mod_4_less)
  qed
qed

text \<open>
  The ring of samples: rotated to its index it shows the last four readings, oldest first, with zeros for
  those not yet taken. \<open>recent_avg\<close> is the average over the readings among the last four that are not zero.
\<close>

definition recent :: "bytes \<Rightarrow> bytes" where
  "recent ts = drop (length ts) (replicate 4 0 @ ts)"

definition recent_avg :: "bytes \<Rightarrow> u8" where
  "recent_avg ts = (let nz = filter (\<lambda>v. v \<noteq> 0) (recent ts) in of_nat (sum_list (map unat nz) div length nz))"

definition ring_ok :: "bytes \<Rightarrow> pwr_track \<Rightarrow> bool" where
  "ring_ok ts pt \<longleftrightarrow> rotate (unat (thermalValueAvgIndex pt)) (thermalValueAvg pt) = recent ts"

lemma recent_Nil: "recent [] = [0, 0, 0, 0]"
  by (simp add: recent_def numeral_eq_Suc)

lemma recent_snoc: "recent (ts @ [t]) = tl (recent ts) @ [t]"
proof -
  have "drop (Suc (length ts)) (z @ [t]) = tl (drop (length ts) z) @ [t]" if "length z = length ts + 4" for z
    using that by (simp add: drop_Suc tl_drop)
  from this [of "replicate 4 0 @ ts"] show ?thesis by (simp add: recent_def)
qed

lemma upd_3: "[a, b, c, d][0 := t] = [t, b, c, d]" "[a, b, c, d][Suc 0 := t] = [a, t, c, d]"
  "[a, b, c, d][2 := t] = [a, b, t, d]" "[a, b, c, d][3 := t] = [a, b, c, t]"
  by (simp_all add: eval_nat_numeral)

lemma ring_step:
  assumes "pt_ok pt" and "ring_ok ts pt"
  shows "rotate (unat ((thermalValueAvgIndex pt + 1) mod 4)) ((thermalValueAvg pt)[unat (thermalValueAvgIndex pt) := t]) = recent (ts @ [t])"
proof -
  obtain a b c d where l: "thermalValueAvg pt = [a, b, c, d]"
    using assms(1) by (auto simp: pt_ok_def length_Suc_conv eval_nat_numeral)
  define k where "k = unat (thermalValueAvgIndex pt)"
  have "thermalValueAvgIndex pt < 4" using assms(1) by (simp add: pt_ok_def)
  then have k: "k < 4" by (simp add: k_def word_less_nat_alt)
  have n: "unat ((thermalValueAvgIndex pt + 1) mod 4) = (k + 1) mod 4"
    using k by (simp add: unat_mod_distrib unat_word_ariths k_def)
  have r: "recent ts = rotate k [a, b, c, d]" using assms(2) by (simp add: ring_ok_def l k_def)
  from k have "k = 0 \<or> k = 1 \<or> k = 2 \<or> k = 3" by linarith
  then show ?thesis
    unfolding recent_snoc n l r k_def [symmetric]
    by (elim disjE) (simp_all add: rotate_drop_take upd_3)
qed

lemma thermal_avg_rotate: "thermal_avg t (rotate k xs) = thermal_avg t xs"
proof -
  have "thermal_avg t (ys @ zs) = thermal_avg t (zs @ ys)" for ys zs
    by (simp add: thermal_avg_def Let_def add.commute)
  then show ?thesis by (metis append_take_drop_id rotate_drop_take)
qed

lemma next_avg_recent:
  assumes "pt_ok pt" and "ring_ok ts pt"
  shows "next_avg t pt = recent_avg (ts @ [t])"
proof -
  have "next_avg t pt = thermal_avg t (recent (ts @ [t]))"
    unfolding next_avg_def ring_step [OF assms, symmetric] thermal_avg_rotate ..
  also have "\<dots> = recent_avg (ts @ [t])"
    by (auto simp: thermal_avg_def recent_avg_def recent_snoc Let_def)
  finally show ?thesis .
qed

text \<open>A tick: the state follows the readings and the registers follow the state.\<close>

lemma tick_wp:
  assumes "rf_device dev st" and "pt_inv band channel eeprom pt (st h)" and "ring_ok ts pt"
    and "\<And>pt' h'. thermalValue pt' = recent_avg (ts @ [thermal_meter (st h)]) \<Longrightarrow> defaultOfdmIndex pt' = defaultOfdmIndex pt \<Longrightarrow>
      pt_inv band channel eeprom pt' (st h') \<Longrightarrow> ring_ok (ts @ [thermal_meter (st h)]) pt' \<Longrightarrow> Q pt' h'"
  shows "wp (TickThermalMeter dev c_cut None band channel eeprom pt) Q h"
proof -
  let ?t = "thermal_meter (st h)"
  obtain avg scale pt1 where ts: "thermal_sample band channel eeprom ?t pt = (avg, scale, pt1)"
    by (metis prod.exhaust)
  note inv = assms(2) [unfolded pt_inv_def]
  have ok: "pt_ok pt" using inv by simp
  have c: "avg = recent_avg (ts @ [?t])" "pt_ok pt1" "pt_initialised pt1" "txPowerTrackControl pt1"
      "defaultOfdmIndex pt1 = defaultOfdmIndex pt" "deltaPowerIndex pt1 = absoluteOfdmSwingIdx pt1"
      "ring_ok (ts @ [?t]) pt1"
      "sint (fst (absoluteOfdmSwingIdx pt1)) = compensation (fst (swing_tables band channel)) eeprom avg"
      "sint (snd (absoluteOfdmSwingIdx pt1)) = compensation (snd (swing_tables band channel)) eeprom avg"
      "scale \<or> absoluteOfdmSwingIdx pt1 = absoluteOfdmSwingIdx pt"
    using thermal_sample_cases [OF ts] inv next_avg_recent [OF ok assms(3)] ring_step [OF ok assms(3)]
    by (simp_all add: ring_ok_def)
  define pt2 where "pt2 = (if thermalValueIqk pt1 = 0 then pt1\<lparr>thermalValueIqk := avg\<rparr> else pt1)\<lparr>thermalValue := avg\<rparr>"
  have fin: "Q pt2 h2" if "scale_fields (st h2) =
      (scale_entry (defaultOfdmIndex pt) (sint (fst (absoluteOfdmSwingIdx pt1))),
       scale_entry (defaultOfdmIndex pt) (sint (snd (absoluteOfdmSwingIdx pt1))))" for h2
    by (rule assms(4)) (use c that in \<open>simp_all add: pt2_def pt_inv_def pt_ok_def ring_ok_def\<close>)
  have "wp (case thermal_sample band channel eeprom ?t pt of (avg, scale, pt) \<Rightarrow>
      io_then (io_when scale (ApplySwingToBb dev pt))
        (io_return ((if thermalValueIqk pt = 0 then pt\<lparr>thermalValueIqk := avg\<rparr> else pt)\<lparr>thermalValue := avg\<rparr>))) Q h1"
    if f: "rf_frame (st h) (st h1)" for h1
  proof (cases scale)
    case True
    then show ?thesis unfolding ts prod.case wp_then wp_when
      by (simp only: if_True) (rule ApplySwing_wp [OF assms(1)], simp add: fin c(5) flip: pt2_def)
  next
    case False
    then have "absoluteOfdmSwingIdx pt1 = absoluteOfdmSwingIdx pt" using c(10) by simp
    then show ?thesis using False fin [of h1] inv scale_fields_frame [OF f]
      by (simp add: ts wp_when flip: pt2_def)
  qed
  then show ?thesis
    using inv unfolding TickThermalMeter_def
    by (auto simp: Let_def thermal_meter_read simp del: wp_then intro!: rf_device.query_rf_wp [OF assms(1)])
qed

text \<open>
  The loop on one channel: before every tick the surroundings change the chip, its temperature
  above all. \<open>heats\<close> is a change that sets the reading of the meter and leaves the scaling alone.
\<close>

primrec thermal_run :: "'h usb \<Rightarrow> bool \<Rightarrow> BandType \<Rightarrow> u8 \<Rightarrow> u8 \<Rightarrow> ('h \<Rightarrow> 'h) list \<Rightarrow> pwr_track \<Rightarrow> ('h, pwr_track) io" where
  "thermal_run dev c_cut band channel eeprom [] pt = io_return pt"
| "thermal_run dev c_cut band channel eeprom (e # es) pt =
    io_bind (\<lambda>h. (Inr (), e h)) (\<lambda>_.
    io_bind (TickThermalMeter dev c_cut None band channel eeprom pt) (thermal_run dev c_cut band channel eeprom es))"

definition heats :: "('h \<Rightarrow> rf_chip) \<Rightarrow> ('h \<Rightarrow> 'h) \<Rightarrow> u8 \<Rightarrow> bool" where
  "heats st e t \<longleftrightarrow> (\<forall>h. thermal_meter (st (e h)) = t \<and> scale_fields (st (e h)) = scale_fields (st h))"

lemma environment_wp: "wp (\<lambda>h. (Inr x, e h)) Q h = Q x (e h)"
  by (simp add: wp_def)

lemma thermal_run_wp:
  assumes "rf_device dev st" and "list_all2 (heats st) es ts"
    and "pt_inv band channel eeprom pt (st h)" and "ring_ok ts0 pt"
    and "thermalValue pt = (if ts0 = [] then eeprom else recent_avg ts0)"
  shows "wp (thermal_run dev c_cut band channel eeprom es pt) (\<lambda>pt' h'.
    defaultOfdmIndex pt' = defaultOfdmIndex pt \<and> pt_inv band channel eeprom pt' (st h') \<and>
    thermalValue pt' = (if ts0 @ ts = [] then eeprom else recent_avg (ts0 @ ts))) h"
  using assms(2-)
proof (induction es ts arbitrary: pt h ts0 rule: list_all2_induct)
  case Nil
  then show ?case by simp
next
  case (Cons e es t ts)
  have e: "thermal_meter (st (e h)) = t" "scale_fields (st (e h)) = scale_fields (st h)"
    using Cons.hyps(1) by (simp_all add: heats_def)
  have inv: "pt_inv band channel eeprom pt (st (e h))"
    using Cons.prems(1) e(2) by (simp add: pt_inv_def)
  show ?case unfolding thermal_run.simps wp_bind environment_wp
  proof (rule tick_wp [OF assms(1) inv Cons.prems(2)], unfold e(1))
    fix pt1 h1
    assume 1: "thermalValue pt1 = recent_avg (ts0 @ [t])" "defaultOfdmIndex pt1 = defaultOfdmIndex pt"
      "pt_inv band channel eeprom pt1 (st h1)" "ring_ok (ts0 @ [t]) pt1"
    have "thermalValue pt1 = (if ts0 @ [t] = [] then eeprom else recent_avg (ts0 @ [t]))" using 1(1) by simp
    from Cons.IH [OF 1(3,4) this]
    show "wp (thermal_run dev c_cut band channel eeprom es pt1) (\<lambda>pt' h'.
        defaultOfdmIndex pt' = defaultOfdmIndex pt \<and> pt_inv band channel eeprom pt' (st h') \<and>
        thermalValue pt' = (if ts0 @ t # ts = [] then eeprom else recent_avg (ts0 @ t # ts))) h1"
      by (simp add: 1(2))
  qed
qed

text \<open>After the initialisation or a band change the loop starts with no compensation.\<close>

lemma swing_tables_zero:
  "fst (fst (swing_tables band channel)) ! 0 = 0 \<and> snd (fst (swing_tables band channel)) ! 0 = 0 \<and>
   fst (snd (swing_tables band channel)) ! 0 = 0 \<and> snd (snd (swing_tables band channel)) ! 0 = 0"
proof -
  have "list_all (\<lambda>t. t ! 0 = 0)
      ([kDeltaSwingTable2gaP, kDeltaSwingTable2gaN, kDeltaSwingTable2gbP, kDeltaSwingTable2gbN] @
       kDeltaSwingTable5gaP @ kDeltaSwingTable5gaN @ kDeltaSwingTable5gbP @ kDeltaSwingTable5gbN)"
    by code_simp
  moreover have "length kDeltaSwingTable5gaP = 3" "length kDeltaSwingTable5gaN = 3"
    "length kDeltaSwingTable5gbP = 3" "length kDeltaSwingTable5gbN = 3"
    by code_simp+
  ultimately show ?thesis
    using swing_bucket_less [of channel] by (auto simp: swing_tables_def Let_def list_all_iff)
qed

lemma compensation_zero: "compensation (fst (swing_tables band channel)) eeprom eeprom = 0"
  "compensation (snd (swing_tables band channel)) eeprom eeprom = 0"
  using swing_tables_zero [of band channel] by (simp_all add: compensation_def)

lemma swing_lookup_entry:
  assumes "d \<le> 26"
  shows "default_index (swing_lookup (kTxScalingTableJaguar ! d)) = of_nat d"
proof -
  have "list_all (\<lambda>d. default_index (swing_lookup (kTxScalingTableJaguar ! d)) = of_nat d) [0..<27]"
    by code_simp
  then show ?thesis using assms by (simp add: list_all_iff)
qed

lemma tracking_start_wp:
  assumes "rf_device dev st" and "scale_fields (st h) = (kTxScalingTableJaguar ! d, kTxScalingTableJaguar ! d)" and "d \<le> 26"
    and "start = PwrTrack_Init dev eeprom pt \<and> eeprom \<noteq> 0xff \<or>
      start = ClearState dev eeprom pt \<and> pt_initialised pt \<and> txPowerTrackControl pt"
  shows "wp start (\<lambda>pt' h'. pt_inv band channel eeprom pt' (st h') \<and> ring_ok [] pt' \<and> thermalValue pt' = eeprom \<and>
    defaultOfdmIndex pt' = of_nat d) h"
proof -
  have c: "chip dev st rf_obs rf_react" using assms(1) by (simp add: rf_device_def)
  have f: "drop_bit 21 (reg32 (rf_obs (st h)) 0xc1c AND 0xFFE00000) = kTxScalingTableJaguar ! d"
    using assms(2) by (simp add: scale_fields_def)
  have g: "default_index (swing_lookup (drop_bit 21 (reg32 (bb (st h)) 0xc1c) AND 0x7FF)) = of_nat d"
    using f swing_lookup_entry [OF assms(3)] by simp
  have e: "scale_entry (of_nat d) 0 = kTxScalingTableJaguar ! d"
    using assms(3) by (simp add: scale_entry_def uint_nat unat_of_nat)
  have inv: "pt_inv band channel eeprom pt' (st h') \<and> ring_ok [] pt'"
    if "pt_initialised pt'" "txPowerTrackControl pt'" "thermalValue pt' = eeprom" "thermalValueAvgIndex pt' = 0"
      "thermalValueAvg pt' = [0, 0, 0, 0]" "absoluteOfdmSwingIdx pt' = (0, 0)" "deltaPowerIndex pt' = (0, 0)"
      "defaultOfdmIndex pt' = of_nat d" "st h' = st h" for pt' h'
    using that assms(2) by (simp add: pt_inv_def pt_ok_def compensation_zero e ring_ok_def recent_Nil)
  show ?thesis
    using assms(4)
    by (auto simp: PwrTrack_Init_def ClearState_def LookupSwingIndexFromBb_def g clear_paths_def inv
        intro!: wp_computes [OF chip.query_bb [OF c]])
qed

text \<open>
  C32: The transmit power follows the temperature. On a chip with a radio whose two paths are scaled by one entry
  of the table, at most entry 26 (+1 dB), start the loop (the initialisation with a calibrated meter, or the
  clearing after a band change) and let it tick any number of times on one channel, with the calibration
  after a drift not asked for and everything but the scaling changing in between. Every tick returns, and
  afterwards the scaling of both paths is the entry that lies the tabulated number of steps for the band and channel
  above the start on a chip warmer than when calibrated and below it on a cooler one, cut to the entries 0 to 26, for the
  average of the nonzero ones among the last four readings (zero if there is none).
\<close>

theorem thermal_run_compensates:
  assumes "chip_device dev st rf_obs rf_react"
    and "scale_fields (st h) = (kTxScalingTableJaguar ! d, kTxScalingTableJaguar ! d)" and "d \<le> 26"
    and "start = PwrTrack_Init dev eeprom pt \<and> eeprom \<noteq> 0xff \<or>
      start = ClearState dev eeprom pt \<and> pt_initialised pt \<and> txPowerTrackControl pt"
    and "list_all2 (heats st) es ts" and "ts \<noteq> []"
  shows "\<exists>pt' h'. io_bind start (thermal_run dev c_cut band channel eeprom es) h = (Inr pt', h') \<and>
    scale_fields (st h') =
      (scale_entry (of_nat d) (compensation (fst (swing_tables band channel)) eeprom (recent_avg ts)),
       scale_entry (of_nat d) (compensation (snd (swing_tables band channel)) eeprom (recent_avg ts)))"
proof -
  have dev: "rf_device dev st" using assms(1) by (simp add: rf_device_def chip_def)
  have "wp (io_bind start (thermal_run dev c_cut band channel eeprom es)) (\<lambda>pt' h'.
      defaultOfdmIndex pt' = of_nat d \<and> pt_inv band channel eeprom pt' (st h') \<and> thermalValue pt' = recent_avg ts) h"
    unfolding wp_bind
  proof (rule wp_mono [OF tracking_start_wp [OF dev assms(2-4)]])
    fix pt1 h1
    assume "pt_inv band channel eeprom pt1 (st h1) \<and> ring_ok [] pt1 \<and> thermalValue pt1 = eeprom \<and> defaultOfdmIndex pt1 = of_nat d"
    then show "wp (thermal_run dev c_cut band channel eeprom es pt1) (\<lambda>pt' h'.
      defaultOfdmIndex pt' = of_nat d \<and> pt_inv band channel eeprom pt' (st h') \<and> thermalValue pt' = recent_avg ts) h1"
      using thermal_run_wp [OF dev assms(5), of band channel eeprom pt1 h1 "[]" c_cut] assms(6) by simp
  qed
  then show ?thesis by (auto simp: wp_def pt_inv_def)
qed

text \<open>
  A tick whose average is the last one leaves the scaling alone, whatever the band and channel it is given: after a change
  to a channel of another group of the 5 GHz tables the scaling stays that of the old channel until the average moves.
\<close>

theorem unchanged_average_keeps_scaling:
  assumes "chip_device dev st rf_obs rf_react" and "next_avg (thermal_meter (st h)) pt = thermalValue pt"
  shows "\<exists>pt' h'. TickThermalMeter dev c_cut None band channel eeprom pt h = (Inr pt', h') \<and>
    scale_fields (st h') = scale_fields (st h)"
proof -
  have dev: "rf_device dev st" using assms(1) by (simp add: rf_device_def chip_def)
  obtain pt1 where ts: "thermal_sample band channel eeprom (thermal_meter (st h)) pt = (thermalValue pt, False, pt1)"
    using assms(2) by (simp add: thermal_sample_def Let_def next_avg_def abs_diff_pos)
  have "wp (case thermal_sample band channel eeprom (thermal_meter (st h)) pt of (avg, scale, pt) \<Rightarrow>
      io_then (io_when scale (ApplySwingToBb dev pt))
        (io_return ((if thermalValueIqk pt = 0 then pt\<lparr>thermalValueIqk := avg\<rparr> else pt)\<lparr>thermalValue := avg\<rparr>)))
      (\<lambda>_ h'. scale_fields (st h') = scale_fields (st h)) h1"
    if f: "rf_frame (st h) (st h1)" for h1
    using scale_fields_frame [OF f] by (simp add: ts wp_when)
  then have "wp (TickThermalMeter dev c_cut None band channel eeprom pt) (\<lambda>_ h'. scale_fields (st h') = scale_fields (st h)) h"
    unfolding TickThermalMeter_def
    by (auto simp: Let_def thermal_meter_read simp del: wp_then intro!: rf_device.query_rf_wp [OF dev])
  then show ?thesis by (auto simp: wp_def)
qed

text \<open>
  A chip at 26 of its meter when calibrated, with both paths at 0 dB: 28, then 30 is read, on channel 6. And a
  5 GHz chip that has settled four steps above the calibration, whose loop goes on with channel 100 after
  channel 36.
\<close>

definition warm_chip :: rf_chip where
  "warm_chip = \<lparr>bb = (\<lambda>_. 0)(0xc1f := 0x40, 0xe1f := 0x40), rf = \<lambda>_ _. 0x7000\<rparr>"

definition heat :: "u8 \<Rightarrow> rf_chip \<Rightarrow> rf_chip" where
  "heat t s = s\<lparr>rf := \<lambda>_ _. push_bit 10 (ucast t)\<rparr>"

lemma heats_heat:
  assumes "t < 64"
  shows "heats (\<lambda>s. s) (heat t) t"
proof -
  have "bit t n \<longrightarrow> n < 6" for n
  proof
    assume b: "bit t n"
    have "unat t < 2 ^ 6" using assms by (simp add: word_less_nat_alt)
    then have "take_bit 6 t = t" by (simp add: word_unat_eq_iff unsigned_take_bit_eq take_bit_nat_eq_self)
    then show "n < 6" using b by (metis bit_take_bit_iff)
  qed
  then have "ucast (take_bit 6 (drop_bit 10 (push_bit 10 (ucast t :: u32)))) = t"
    by (intro bit_word_eqI) (auto simp: bit_simps)
  then show ?thesis by (simp add: heats_def heat_def thermal_meter_def scale_fields_def)
qed

lemma warm_fields: "scale_fields warm_chip = (0x200, 0x200)"
  by (simp add: scale_fields_def warm_chip_def reg32_def upt_2_4 le_word_def)

theorem thermal_run_compensates_witness:
  "\<exists>pt' s'. io_bind (PwrTrack_Init (chip_usb rf_obs rf_react) 26 pwr_track_init)
      (thermal_run (chip_usb rf_obs rf_react) False BAND_ON_2_4G 6 26 [heat 28, heat 30]) warm_chip = (Inr pt', s') \<and>
    scale_fields s' = (0x23E, 0x23E)"
proof -
  have h: "list_all2 (heats (\<lambda>s. s)) [heat 28, heat 30] [28, 30]" by (simp add: heats_heat)
  have "recent [28, 30] = [0, 0, 28, 30]"
    using recent_snoc [of "[28]" 30] recent_snoc [of "[]" 28] by (simp add: recent_Nil)
  then have a: "recent_avg [28, 30] = 29" by (simp add: recent_avg_def Let_def flip: numeral_2_eq_2)
  have c: "compensation (fst (swing_tables BAND_ON_2_4G 6)) 26 29 = 2"
    "compensation (snd (swing_tables BAND_ON_2_4G 6)) 26 29 = 2" "scale_entry (of_nat 24) 2 = 0x23E"
    "kTxScalingTableJaguar ! 24 = 0x200"
    by (simp_all add: compensation_def swing_tables_def kDeltaSwingTable2gaP_def kDeltaSwingTable2gbP_def scale_entry_def
        kTxScalingTableJaguar_def)
  show ?thesis
    using thermal_run_compensates [OF chip_chip_usb _ _ _ h, of warm_chip 24 "PwrTrack_Init (chip_usb rf_obs rf_react) 26 pwr_track_init" 26
        pwr_track_init False BAND_ON_2_4G 6]
    by (auto simp: warm_fields a c simp del: of_nat_numeral)
qed

theorem unchanged_average_keeps_scaling_witness:
  "\<exists>pt' s'. TickThermalMeter (chip_usb rf_obs rf_react) False None BAND_ON_5G 100 24
      (pwr_track_init\<lparr>pt_initialised := True, defaultOfdmIndex := 22, thermalValue := 28, absoluteOfdmSwingIdx := (2, 2), deltaPowerIndex := (2, 2)\<rparr>)
      warm_chip = (Inr pt', s') \<and>
    scale_fields s' = (scale_entry 22 (compensation (fst (swing_tables BAND_ON_5G 36)) 24 28),
      scale_entry 22 (compensation (snd (swing_tables BAND_ON_5G 36)) 24 28)) \<and>
    scale_fields s' \<noteq> (scale_entry 22 (compensation (fst (swing_tables BAND_ON_5G 100)) 24 28),
      scale_entry 22 (compensation (snd (swing_tables BAND_ON_5G 100)) 24 28))"
proof -
  let ?pt = "pwr_track_init\<lparr>pt_initialised := True, defaultOfdmIndex := 22, thermalValue := 28, absoluteOfdmSwingIdx := (2, 2), deltaPowerIndex := (2, 2)\<rparr>"
  have c: "compensation (fst (swing_tables BAND_ON_5G 36)) 24 28 = 2" "compensation (snd (swing_tables BAND_ON_5G 36)) 24 28 = 2"
    "compensation (fst (swing_tables BAND_ON_5G 100)) 24 28 = 3" "scale_entry 22 2 = 0x200" "scale_entry 22 3 = 0x21E"
    by (simp_all add: compensation_def swing_tables_def swing_bucket_def kDeltaSwingTable5gaP_def kDeltaSwingTable5gbP_def scale_entry_def
        kTxScalingTableJaguar_def)
  have "next_avg (thermal_meter warm_chip) ?pt = thermalValue ?pt"
    by (simp add: thermal_meter_def warm_chip_def next_avg_def thermal_avg_def pwr_track_init_def Let_def)
  from unchanged_average_keeps_scaling [OF chip_chip_usb this, of False BAND_ON_5G 100 24]
  show ?thesis by (auto simp: warm_fields c)
qed

end
