(* ===== verification/Watchdog.thy ===== *)
theory Watchdog
  imports PwrTrack RxFrame
begin

text \<open>
  The dynamic tuning of src/PhydmWatchdog.cpp, which runs every two seconds: false-alarm counters,
  the receive gain (DIG), the noisy-channel retry table, the thermal loop of PwrTrack, and the
  crystal-cap loop that follows the carrier offset. The static variables of the class and its
  fields are one record; the packet counters are words, and the atomic sums of carrier offsets integers that wrap
  around at 32 bits (\<open>int32\<close>), as \<open>fetch_add\<close> does. The few sums of plain integers that could overflow in the
  averaging, where C++ leaves the result open, wrap here as well.
\<close>

record FaCnt =
  cnt_ofdm_fail :: u32
  cnt_cck_fail :: u32
  cnt_ofdm_cca :: u32
  cnt_cck_cca :: u32
  cnt_ht_crc32_error :: u32
  cnt_ht_crc32_ok :: u32
  cnt_vht_crc32_error :: u32
  cnt_vht_crc32_ok :: u32
  cnt_ofdm_crc32_error :: u32
  cnt_ofdm_crc32_ok :: u32
  cnt_cck_crc32_error :: u32
  cnt_cck_crc32_ok :: u32
  cnt_all :: u32
  cnt_cca_all :: u32

record watchdog =
  s_linked :: bool
  s_rssiDbm :: int
  s_uplinkRate :: int
  s_cfo_sum :: "int \<times> int"
  s_cfo_cnt :: "u32 \<times> u32"
  s_cfo_pkt :: u32
  cfo_pkt_pre :: u32
  cfo_inited :: bool
  cfo_is_adjust :: bool
  crystal_cap :: u8
  crystal_cap_def :: u8
  noisyDecisionSmooth :: u32
  noisyDecision :: int
  preNoisy :: int
  digInitialised :: bool
  cur_ig_value :: u8
  dm_dig_max :: u8
  dm_dig_min :: u8
  dig_max_of_min :: u8
  rx_gain_range_max :: u8
  rx_gain_range_min :: u8

definition watchdog_init :: watchdog where
  "watchdog_init = \<lparr>s_linked = False, s_rssiDbm = -128, s_uplinkRate = -1, s_cfo_sum = (0, 0),
     s_cfo_cnt = (0, 0), s_cfo_pkt = 0, cfo_pkt_pre = 0, cfo_inited = False, cfo_is_adjust = False,
     crystal_cap = 0, crystal_cap_def = 0, noisyDecisionSmooth = 0, noisyDecision = 0, preNoisy = -1,
     digInitialised = False, cur_ig_value = 0x20, dm_dig_max = 0x26, dm_dig_min = 0x1c,
     dig_max_of_min = 0x2a, rx_gain_range_max = 0x2a, rx_gain_range_min = 0x1c\<rparr>"

section \<open>What the other parts tell the watchdog\<close>

definition SetLinkRssi :: "int \<Rightarrow> watchdog \<Rightarrow> watchdog" where
  "SetLinkRssi rssi_dbm w = w\<lparr>s_rssiDbm := rssi_dbm, s_linked := True\<rparr>"

definition SetUnlinked :: "watchdog \<Rightarrow> watchdog" where
  "SetUnlinked w = w\<lparr>s_linked := False, s_uplinkRate := -1\<rparr>"

definition wd_OnUplinkRate :: "u8 \<Rightarrow> watchdog \<Rightarrow> watchdog" where
  "wd_OnUplinkRate rate_idx w = w\<lparr>s_uplinkRate := uint rate_idx\<rparr>"

definition UplinkRate :: "watchdog \<Rightarrow> u8" where
  "UplinkRate w = (if s_uplinkRate w < 0 then 0xff else of_int (s_uplinkRate w))"

abbreviation (input) int32 :: "int \<Rightarrow> int" where "int32 \<equiv> signed_take_bit 31"

definition wd_AddCfo :: "int \<Rightarrow> int \<Rightarrow> watchdog \<Rightarrow> watchdog" where
  "wd_AddCfo cfo_a cfo_b w =
    w\<lparr>s_cfo_sum := (int32 (fst (s_cfo_sum w) + cfo_a), int32 (snd (s_cfo_sum w) + cfo_b)),
      s_cfo_cnt := (fst (s_cfo_cnt w) + 1, snd (s_cfo_cnt w) + 1), s_cfo_pkt := s_cfo_pkt w + 1\<rparr>"

text \<open>The calls of the receive path, as RxFrame records them.\<close>

primrec rx_feed :: "rx_event \<Rightarrow> watchdog \<Rightarrow> watchdog" where
  "rx_feed (AddCfo a b) w = wd_AddCfo (sint a) (sint b) w"
| "rx_feed (OnUplinkRate r) w = wd_OnUplinkRate r w"

section \<open>False-alarm counters\<close>

abbreviation (input) hi16 :: "u32 \<Rightarrow> u32" where "hi16 v \<equiv> drop_bit 16 (v AND 0xffff0000)"
abbreviation (input) lo16 :: "u32 \<Rightarrow> u32" where "lo16 v \<equiv> v AND 0xffff"

definition ReadFaCountersAc :: "'h usb \<Rightarrow> ('h, FaCnt) io" where
  "ReadFaCountersAc dev =
    (let q = PHY_QueryBBReg8812 dev; full = (\<lambda>a. q a 0xFFFFFFFF) in
     io_then (full 0xFCC) (io_then (full 0xFD0) (io_then (full 0xFBC) (io_then (full 0xFC0)
     (io_then (full 0xFC4) (io_then (full 0xFC8)
     (io_bind (q 0xF48 0xFFFF) (\<lambda>ofdm_fail. io_bind (q 0xA5C 0xFFFF) (\<lambda>cck_fail.
      io_bind (full 0xF08) (\<lambda>cca. io_bind (full 0xF04) (\<lambda>cck_crc. io_bind (full 0xF14) (\<lambda>ofdm_crc.
      io_bind (full 0xF10) (\<lambda>ht_crc. io_bind (full 0xF0c) (\<lambda>vht_crc. io_bind (q 0x808 0x10000000) (\<lambda>cck_enable.
      io_return \<lparr>cnt_ofdm_fail = ofdm_fail, cnt_cck_fail = cck_fail, cnt_ofdm_cca = hi16 cca,
        cnt_cck_cca = lo16 cca, cnt_ht_crc32_error = hi16 ht_crc, cnt_ht_crc32_ok = lo16 ht_crc,
        cnt_vht_crc32_error = hi16 vht_crc, cnt_vht_crc32_ok = lo16 vht_crc,
        cnt_ofdm_crc32_error = hi16 ofdm_crc, cnt_ofdm_crc32_ok = lo16 ofdm_crc,
        cnt_cck_crc32_error = hi16 cck_crc, cnt_cck_crc32_ok = lo16 cck_crc,
        cnt_all = (if cck_enable \<noteq> 0 then ofdm_fail + cck_fail else ofdm_fail),
        cnt_cca_all = (if cck_enable \<noteq> 0 then hi16 cca + lo16 cca else hi16 cca)\<rparr>)))))))))))))))"

definition ResetFaCountersAc :: "'h usb \<Rightarrow> ('h, unit) io" where
  "ResetFaCountersAc dev =
    io_seq [PHY_SetBBReg8812 dev 0x9a4 0x20000 1, PHY_SetBBReg8812 dev 0x9a4 0x20000 0,
            PHY_SetBBReg8812 dev 0xa2c 0x8000 0, PHY_SetBBReg8812 dev 0xa2c 0x8000 1,
            PHY_SetBBReg8812 dev 0xb58 0x1 1, PHY_SetBBReg8812 dev 0xb58 0x1 0]"

section \<open>Receive gain\<close>

definition DigInit :: "'h usb \<Rightarrow> watchdog \<Rightarrow> ('h, watchdog) io" where
  "DigInit dev w =
    io_bind (PHY_QueryBBReg8812 dev 0xc50 0xff) (\<lambda>v. io_return
      (w\<lparr>cur_ig_value := ucast v, rx_gain_range_max := dig_max_of_min w, rx_gain_range_min := dm_dig_min w\<rparr>))"

definition DigWriteIgi :: "'h usb \<Rightarrow> u8 \<Rightarrow> ('h, unit) io" where
  "DigWriteIgi dev igi =
    io_seq [PHY_SetBBReg8812 dev 0xc50 0xff (ucast igi), PHY_SetBBReg8812 dev 0xe50 0xff (ucast igi),
            PHY_SetBBReg8812 dev 0x1850 0xff (ucast igi), PHY_SetBBReg8812 dev 0x1a50 0xff (ucast igi)]"

abbreviation (input) kStrongFloorCap :: int where "kStrongFloorCap \<equiv> 0x38"

text \<open>The bounds of this tick, from the link state.\<close>

definition dig_bounds :: "watchdog \<Rightarrow> watchdog" where
  "dig_bounds w =
    (if s_linked w then
       (let w = w\<lparr>dm_dig_max := 0x3e, dm_dig_min := 0x20\<rparr>;
            rssi_val = s_rssiDbm w + 100;
            rssi_val = (if rssi_val < uint (dm_dig_min w) then uint (dm_dig_min w) else rssi_val);
            strongCapped = (rssi_val > kStrongFloorCap);
            rssi_val = (if strongCapped then kStrongFloorCap else rssi_val)
        in w\<lparr>rx_gain_range_min := of_int rssi_val,
             rx_gain_range_max := (if strongCapped then of_int kStrongFloorCap else dm_dig_max w)\<rparr>)
     else (let w = w\<lparr>dm_dig_max := 0x26, dm_dig_min := 0x1c\<rparr> in
        w\<lparr>rx_gain_range_max := dig_max_of_min w, rx_gain_range_min := dm_dig_min w\<rparr>))"

definition igi_step :: "u32 \<Rightarrow> u8 \<Rightarrow> u8" where
  "igi_step fa_cnt igi =
    (if fa_cnt > 750 then igi + 2
     else if fa_cnt > 500 then igi + 1
     else if fa_cnt < 250 then (if igi \<ge> 2 then igi - 2 else 0)
     else igi)"

definition igi_clamp :: "watchdog \<Rightarrow> u8 \<Rightarrow> u8" where
  "igi_clamp w igi =
    (let igi = (if igi < rx_gain_range_min w then rx_gain_range_min w else igi) in
     if igi > rx_gain_range_max w then rx_gain_range_max w else igi)"

definition DigTick :: "'h usb \<Rightarrow> u32 \<Rightarrow> watchdog \<Rightarrow> ('h, watchdog) io" where
  "DigTick dev fa_cnt w =
    (let w = dig_bounds w; new_igi = igi_clamp w (igi_step fa_cnt (cur_ig_value w)) in
     if new_igi \<noteq> cur_ig_value w
     then io_then (DigWriteIgi dev new_igi) (io_return (w\<lparr>cur_ig_value := new_igi\<rparr>))
     else io_then (DigWriteIgi dev new_igi) (io_return w))"

section \<open>Noisy channels\<close>

definition noisy_score :: "u32 \<Rightarrow> u32 \<Rightarrow> u32" where
  "noisy_score fa cca =
    (case find (\<lambda>i. unat fa * 16 \<ge> unat cca * (16 - i)) [0..<17] of
       Some i \<Rightarrow> of_nat (16 - i) | None \<Rightarrow> 0)"

definition noisy_update :: "FaCnt \<Rightarrow> watchdog \<Rightarrow> watchdog" where
  "noisy_update fa w =
    (let smooth = drop_bit 1 (noisyDecisionSmooth w) + push_bit 2 (noisy_score (cnt_all fa) (cnt_cca_all fa));
         scoreSmooth = (if cnt_cca_all fa \<ge> 300 then drop_bit 3 (smooth + 3) else 0)
     in w\<lparr>noisyDecisionSmooth := smooth, noisyDecision := (if scoreSmooth \<ge> 3 then 1 else 0)\<rparr>)"

definition noisy_tick :: "'h usb \<Rightarrow> FaCnt \<Rightarrow> watchdog \<Rightarrow> ('h, watchdog) io" where
  "noisy_tick dev fa w =
    (let w = noisy_update fa w in
     if noisyDecision w \<noteq> preNoisy w
     then io_then (if noisyDecision w \<noteq> 0
                   then io_then (wr32 dev 0x430 0) (wr32 dev 0x434 0x04030201)
                   else io_then (wr32 dev 0x430 0x01000000) (wr32 dev 0x434 0x06050402))
            (io_return (w\<lparr>preNoisy := noisyDecision w\<rparr>))
     else io_return w)"

section \<open>Carrier offset\<close>

definition cap_word :: "u32 \<Rightarrow> u8 \<Rightarrow> u32" where
  "cap_word v cap = (v AND NOT 0x7FF80000) OR (push_bit 25 (ucast cap) OR push_bit 19 (ucast cap))"

definition SetCrystalCap :: "'h usb \<Rightarrow> u8 \<Rightarrow> watchdog \<Rightarrow> ('h, watchdog) io" where
  "SetCrystalCap dev cap w =
    (let cap = cap AND 0x3f in
     io_bind (rtw_read32 dev 0x2c) (\<lambda>v.
     io_then (wr32 dev 0x2c (cap_word v cap)) (io_return (w\<lparr>crystal_cap := cap\<rparr>))))"

text \<open>Average offset of a path in kHz, with C's division towards zero, and of the valid paths.\<close>

definition c_div :: "int \<Rightarrow> int \<Rightarrow> int" where
  "c_div x y = sgn x * sgn y * (\<bar>x\<bar> div \<bar>y\<bar>)"

definition cfo_khz :: "int \<Rightarrow> u32 \<Rightarrow> int" where
  "cfo_khz offsets cnt =
    (let a = int32 \<bar>offsets\<bar>; khz = c_div (int32 (int32 (a * 2) + a div 2)) (sint cnt)
     in if offsets < 0 then int32 (- khz) else khz)"

definition cfo_average :: "watchdog \<Rightarrow> int option" where
  "cfo_average w =
    (let paths = filter (\<lambda>(s, n). n \<noteq> 0)
           [(fst (s_cfo_sum w), fst (s_cfo_cnt w)), (snd (s_cfo_sum w), snd (s_cfo_cnt w))];
         path_sum = fold (\<lambda>(s, n) acc. int32 (acc + cfo_khz s n)) paths 0;
         valid = int (length paths)
     in if valid = 0 then None
        else Some (if valid \<ge> 2 then c_div path_sum valid else path_sum))"

definition cfo_hysteresis :: "int \<Rightarrow> watchdog \<Rightarrow> watchdog" where
  "cfo_hysteresis avg w =
    (if \<not> cfo_is_adjust w
     then (if avg > 20 \<or> avg < -20 then w\<lparr>cfo_is_adjust := True\<rparr> else w)
     else (if avg < 10 \<and> avg > -10 then w\<lparr>cfo_is_adjust := False\<rparr> else w))"

definition cfo_new_cap :: "int \<Rightarrow> u8 \<Rightarrow> int" where
  "cfo_new_cap avg cap =
    (let a = \<bar>avg\<bar>; step = (if a > 60 then 8 else if a > 30 then 4 else if a > 15 then 2 else 1);
         c = (if avg > 10 then uint cap + step else if avg < -10 then uint cap - step else uint cap);
         c = (if c > 0x3f then 0x3f else c)
     in if c < 0 then 0 else c)"

definition CfoTick :: "'h usb \<Rightarrow> watchdog \<Rightarrow> ('h, watchdog) io" where
  "CfoTick dev w =
    io_bind (if cfo_inited w then io_return w
             else io_bind (rtw_read32 dev 0x2c) (\<lambda>v. let cap = ucast (drop_bit 25 v AND 0x3f) in
               io_return (w\<lparr>crystal_cap := cap, crystal_cap_def := cap, cfo_inited := True\<rparr>)))
    (\<lambda>w. if \<not> s_linked w \<or> s_cfo_pkt w = cfo_pkt_pre w then io_return w
      else (let avg = cfo_average w;
                w = w\<lparr>cfo_pkt_pre := s_cfo_pkt w, s_cfo_cnt := (0, 0), s_cfo_sum := (0, 0)\<rparr>
        in case avg of None \<Rightarrow> io_return w
           | Some cfo_avg \<Rightarrow>
             (let w = cfo_hysteresis cfo_avg w in
              if cfo_is_adjust w \<and> of_int (cfo_new_cap cfo_avg (crystal_cap w)) \<noteq> crystal_cap w
              then SetCrystalCap dev (of_int (cfo_new_cap cfo_avg (crystal_cap w))) w
              else io_return w)))"

section \<open>A tick\<close>

text \<open>
  The environment variables read by a tick, and what it needs of the radio module: cut, band,
  channel, thermal meter of the efuse, and the calibration of the thermal loop.
\<close>

record 'h tick_env =
  no_rainfo :: bool
  no_pwrtrack :: bool
  cfo_track :: bool
  te_c_cut :: bool
  te_iqk :: "('h, unit) io option"
  te_band :: BandType
  te_channel :: u8
  te_eeprom_thermal :: u8

definition TickOnce :: "'h usb \<Rightarrow> 'h tick_env \<Rightarrow> watchdog \<times> pwr_track \<Rightarrow> ('h, watchdog \<times> pwr_track) io" where
  "TickOnce dev e state =
    (let (w, pt) = state in
     io_bind (ReadFaCountersAc dev) (\<lambda>fa.
     io_then (ResetFaCountersAc dev)
     (io_bind (if digInitialised w then io_return w
               else io_bind (DigInit dev w) (\<lambda>w. io_return (w\<lparr>digInitialised := True\<rparr>))) (\<lambda>w.
      io_bind (DigTick dev (cnt_all fa) w) (\<lambda>w.
      io_bind (if no_rainfo e then io_return w else noisy_tick dev fa w) (\<lambda>w.
      io_bind (if no_pwrtrack e then io_return pt
               else TickThermalMeter dev (te_c_cut e) (te_iqk e) (te_band e) (te_channel e)
                      (te_eeprom_thermal e) pt) (\<lambda>pt.
      io_bind (if cfo_track e then CfoTick dev w else io_return w) (\<lambda>w.
      io_return (w, pt)))))))))"

section \<open>The bounds hold in every state\<close>

text \<open>
  The states the watchdog goes through: ticks, the calls of the other threads, and any use of the
  device by others in between. A tick that throws ends the watchdog thread.
\<close>

inductive wd_step ::
    "'h usb \<Rightarrow> ((watchdog \<times> pwr_track) \<times> 'h) \<Rightarrow> ((watchdog \<times> pwr_track) \<times> 'h) \<Rightarrow> bool" for dev where
  tick: "TickOnce dev e s h = (Inr s', h') \<Longrightarrow> wd_step dev (s, h) (s', h')"
| link: "wd_step dev ((w, pt), h) ((SetLinkRssi rssi w, pt), h)"
| unlink: "wd_step dev ((w, pt), h) ((SetUnlinked w, pt), h)"
| feed: "wd_step dev ((w, pt), h) ((rx_feed ev w, pt), h)"
| other: "wd_step dev (s, h) (s, h')"

inductive wd_reachable :: "'h usb \<Rightarrow> ((watchdog \<times> pwr_track) \<times> 'h) \<Rightarrow> bool" for dev where
  start: "wd_reachable dev ((watchdog_init, pt), h)"
| step: "wd_reachable dev x \<Longrightarrow> wd_step dev x y \<Longrightarrow> wd_reachable dev y"

inductive_simps wd_step_pair: "wd_step dev ((w, pt), h) y"

definition dig_ok :: "watchdog \<Rightarrow> bool" where
  "dig_ok w \<longleftrightarrow> 0x1c \<le> rx_gain_range_min w \<and> rx_gain_range_min w \<le> cur_ig_value w \<and>
    cur_ig_value w \<le> rx_gain_range_max w \<and> rx_gain_range_max w \<le> 0x3e"

definition tuning_ok :: "watchdog \<Rightarrow> bool" where
  "tuning_ok w \<longleftrightarrow> crystal_cap w \<le> 0x3f \<and> noisyDecisionSmooth w \<le> 127 \<and>
    noisyDecision w \<in> {0, 1} \<and> preNoisy w \<in> {-1, 0, 1} \<and> dig_max_of_min w = 0x2a"

lemma io_bind_Inr:
  "io_bind m k h = (Inr y, h') \<longleftrightarrow> (\<exists>x h1. m h = (Inr x, h1) \<and> k x h1 = (Inr y, h'))"
  by (auto simp: io_bind_def split: prod.splits sum.splits)

lemma io_return_Inr [simp]: "io_return x h = (Inr y, h') \<longleftrightarrow> y = x \<and> h' = h"
  by (auto simp: io_return_def)

lemmas io_Inr = io_then_def io_bind_Inr

definition dig_next :: "u32 \<Rightarrow> watchdog \<Rightarrow> watchdog" where
  "dig_next fa_cnt w = (let w = dig_bounds w in w\<lparr>cur_ig_value := igi_clamp w (igi_step fa_cnt (cur_ig_value w))\<rparr>)"

lemma DigTick_next:
  "DigTick dev fa_cnt w =
    io_then (DigWriteIgi dev (cur_ig_value (dig_next fa_cnt w))) (io_return (dig_next fa_cnt w))"
  by (simp add: DigTick_def dig_next_def Let_def)

lemma dig_bounds_range:
  assumes "dig_max_of_min w = 0x2a"
  shows "0x1c \<le> rx_gain_range_min (dig_bounds w)"
    and "rx_gain_range_min (dig_bounds w) \<le> rx_gain_range_max (dig_bounds w)"
    and "rx_gain_range_max (dig_bounds w) \<le> 0x3e"
proof -
  have r: "uint (of_int v :: u8) = v" if "0 \<le> v" "v \<le> 0x38" for v :: int
    using that by (simp add: word_of_int_uint uint_word_of_int)
  show "0x1c \<le> rx_gain_range_min (dig_bounds w)"
    "rx_gain_range_min (dig_bounds w) \<le> rx_gain_range_max (dig_bounds w)"
    "rx_gain_range_max (dig_bounds w) \<le> 0x3e"
    using assms r by (auto simp: dig_bounds_def Let_def word_le_def)
qed

lemma igi_clamp_range:
  "rx_gain_range_min w \<le> rx_gain_range_max w \<Longrightarrow>
    rx_gain_range_min w \<le> igi_clamp w x \<and> igi_clamp w x \<le> rx_gain_range_max w"
  by (auto simp: igi_clamp_def Let_def not_less)

lemma tuning_dig_max: "tuning_ok w \<Longrightarrow> dig_max_of_min w = 0x2a"
  by (simp add: tuning_ok_def)

lemma dig_next_ok: "dig_max_of_min w = 0x2a \<Longrightarrow> dig_ok (dig_next fa_cnt w)"
  using dig_bounds_range [of w] igi_clamp_range [of "dig_bounds w"]
  by (simp add: dig_ok_def dig_next_def Let_def)

lemma dig_bounds_other [simp]:
  "crystal_cap (dig_bounds w) = crystal_cap w" "noisyDecisionSmooth (dig_bounds w) = noisyDecisionSmooth w"
  "noisyDecision (dig_bounds w) = noisyDecision w" "preNoisy (dig_bounds w) = preNoisy w"
  "dig_max_of_min (dig_bounds w) = dig_max_of_min w" "digInitialised (dig_bounds w) = digInitialised w"
  "cur_ig_value (dig_bounds w) = cur_ig_value w" "s_linked (dig_bounds w) = s_linked w"
  "s_rssiDbm (dig_bounds w) = s_rssiDbm w"
  by (simp_all add: dig_bounds_def Let_def)

lemma noisy_score_le: "noisy_score fa cca \<le> 16"
proof -
  have "of_nat (16 - i) \<le> (16 :: u32)" for i
    by (simp add: word_le_nat_alt unat_of_nat le_trans [OF mod_less_eq_dividend])
  then show ?thesis by (simp add: noisy_score_def split: option.split)
qed

lemma noisy_smooth_le:
  assumes "s \<le> (127 :: u32)" "n \<le> (16 :: u32)"
  shows "drop_bit 1 s + push_bit 2 n \<le> 127"
proof -
  have "unat s \<le> 127" "unat n \<le> 16" using assms by (simp_all add: word_le_nat_alt)
  moreover from this have "unat (drop_bit 1 s + push_bit 2 n) = unat s div 2 + unat n * 4"
    by (simp add: unat_drop_bit_eq drop_bit_eq_div push_bit_eq_mult unat_word_ariths)
  ultimately show ?thesis by (simp add: word_le_nat_alt)
qed

lemma tuning_ok_dig [simp]: "tuning_ok (dig_next fa_cnt w) = tuning_ok w"
  by (simp add: tuning_ok_def dig_next_def Let_def)

lemma tuning_ok_noisy: "tuning_ok w \<Longrightarrow> tuning_ok (noisy_update fa w)"
  by (simp add: tuning_ok_def noisy_update_def Let_def noisy_smooth_le [simplified] noisy_score_le)

lemma cap_le [simp]: "(v :: u8) AND 0x3f \<le> 0x3f" by (rule word_and_le1)

lemma dig_ok_dig [simp]:
  "dig_ok (noisy_update fa w) = dig_ok w" "digInitialised (noisy_update fa w) = digInitialised w"
  "dig_ok (w\<lparr>preNoisy := n\<rparr>) = dig_ok w" "dig_ok (cfo_hysteresis avg w) = dig_ok w"
  "digInitialised (cfo_hysteresis avg w) = digInitialised w" "tuning_ok (cfo_hysteresis avg w) = tuning_ok w"
  "digInitialised (dig_next fa_cnt w) = digInitialised w"
  by (simp_all add: dig_ok_def tuning_ok_def noisy_update_def cfo_hysteresis_def dig_next_def Let_def)

text \<open>What a state that the gain loop left says of the state; the other loops keep it.\<close>

definition tuned :: "watchdog \<Rightarrow> bool" where
  "tuned w \<longleftrightarrow> tuning_ok w \<and> (digInitialised w \<longrightarrow> dig_ok w)"

text \<open>
  \<open>yields m Q\<close>: whatever the device does, a result that \<open>m\<close> returns satisfies \<open>Q\<close>.
\<close>

definition yields :: "('h, 'a) io \<Rightarrow> ('a \<Rightarrow> bool) \<Rightarrow> bool" where
  "yields m Q \<longleftrightarrow> (\<forall>h x h'. m h = (Inr x, h') \<longrightarrow> Q x)"

lemma yields_return [simp]: "yields (io_return x) Q = Q x"
  by (simp add: yields_def)

lemma yields_bind: "yields m P \<Longrightarrow> (\<And>x. P x \<Longrightarrow> yields (k x) Q) \<Longrightarrow> yields (io_bind m k) Q"
  unfolding yields_def io_bind_Inr by blast

lemma yields_any: "(\<And>x. yields (k x) Q) \<Longrightarrow> yields (io_bind m k) Q"
  unfolding yields_def io_bind_Inr by blast

lemma yields_then: "yields n Q \<Longrightarrow> yields (io_then m n) Q"
  unfolding io_then_def by (rule yields_any)

lemma yields_if: "(b \<Longrightarrow> yields m Q) \<Longrightarrow> (\<not> b \<Longrightarrow> yields n Q) \<Longrightarrow> yields (if b then m else n) Q"
  by simp

abbreviation (input) tuned_as :: "watchdog \<Rightarrow> watchdog \<Rightarrow> bool" where
  "tuned_as w w' \<equiv> tuned w' \<and> digInitialised w' = digInitialised w"

lemma noisy_tick_keeps:
  assumes "tuned w"
  shows "yields (noisy_tick dev fa w) (tuned_as w)"
proof -
  let ?n = "noisy_update fa w"
  have ok: "tuning_ok ?n" using assms by (simp add: tuned_def tuning_ok_noisy)
  then have "tuning_ok (?n\<lparr>preNoisy := noisyDecision ?n\<rparr>)" by (auto simp: tuning_ok_def)
  with ok assms show ?thesis
    by (auto simp: noisy_tick_def Let_def tuned_def intro!: yields_then)
qed

lemma SetCrystalCap_yields:
  "yields (SetCrystalCap dev cap w) Q" if "Q (w\<lparr>crystal_cap := cap AND 0x3f\<rparr>)"
  using that by (simp add: SetCrystalCap_def Let_def yields_any yields_then)

lemma ucast_field_le: "(ucast (x AND 0x3f :: u32) :: u8) \<le> 0x3f"
proof -
  have "(ucast (x AND 0x3f) :: u8) = ucast x AND 0x3f"
    by (rule bit_word_eqI) (auto simp: bit_and_iff bit_ucast_iff)
  then show ?thesis by simp
qed

lemma tuned_cfo:
  "c \<le> 0x3f \<Longrightarrow> tuned w \<Longrightarrow> tuned (w\<lparr>crystal_cap := c, crystal_cap_def := c', cfo_inited := b\<rparr>)"
  "c \<le> 0x3f \<Longrightarrow> tuned w \<Longrightarrow> tuned (w\<lparr>crystal_cap := c\<rparr>)"
  "tuned (w\<lparr>cfo_pkt_pre := p, s_cfo_cnt := q, s_cfo_sum := r\<rparr>) = tuned w"
  "tuned (cfo_hysteresis a w) = tuned w"
  by (auto simp: tuned_def) (auto simp: tuning_ok_def dig_ok_def)

lemma CfoTick_keeps:
  assumes "tuned w"
  shows "yields (CfoTick dev w) (tuned_as w)"
  unfolding CfoTick_def
proof (rule yields_bind [where P = "tuned_as w"])
  show "yields (if cfo_inited w then io_return w
      else io_bind (rtw_read32 dev 0x2c) (\<lambda>v. let cap = ucast (drop_bit 25 v AND 0x3f) in
        io_return (w\<lparr>crystal_cap := cap, crystal_cap_def := cap, cfo_inited := True\<rparr>))) (tuned_as w)"
    using assms by (auto intro!: yields_any simp: Let_def tuned_cfo ucast_field_le)
qed (auto simp: Let_def tuned_cfo split: option.split intro!: SetCrystalCap_yields)

lemma DigTick_yields: "yields (DigTick dev n w) Q" if "Q (dig_next n w)"
  using that by (simp add: DigTick_next yields_then)

lemma TickOnce_tuned:
  assumes "tuned w"
  shows "yields (TickOnce dev e (w, pt)) (\<lambda>(w', _). tuned w' \<and> digInitialised w')"
  unfolding TickOnce_def Let_def prod.case
proof (rule yields_any, rule yields_then, rule yields_bind)
  show "yields (if digInitialised w then io_return w
      else io_bind (DigInit dev w) (\<lambda>w. io_return (w\<lparr>digInitialised := True\<rparr>)))
      (\<lambda>w'. tuning_ok w' \<and> digInitialised w')"
  proof (cases "digInitialised w")
    case False
    have "yields (DigInit dev w) tuning_ok"
      unfolding DigInit_def using assms by (auto simp: tuned_def tuning_ok_def intro: yields_any)
    then have "yields (io_bind (DigInit dev w) (\<lambda>w. io_return (w\<lparr>digInitialised := True\<rparr>)))
        (\<lambda>w'. tuning_ok w' \<and> digInitialised w')"
      by (rule yields_bind) (simp add: tuning_ok_def)
    with False show ?thesis by simp
  qed (use assms in \<open>simp add: tuned_def\<close>)
next
  fix fa w1 assume w1: "tuning_ok w1 \<and> digInitialised w1"
  then have w2: "tuned (dig_next n w1)" "digInitialised (dig_next n w1)" for n
    using w1 by (auto simp: tuned_def dig_next_ok tuning_dig_max)
  show "yields (io_bind (DigTick dev (cnt_all fa) w1) (\<lambda>w.
      io_bind (if no_rainfo e then io_return w else noisy_tick dev fa w) (\<lambda>w.
      io_bind (if no_pwrtrack e then io_return pt
               else TickThermalMeter dev (te_c_cut e) (te_iqk e) (te_band e) (te_channel e)
                      (te_eeprom_thermal e) pt) (\<lambda>pt.
      io_bind (if cfo_track e then CfoTick dev w else io_return w) (\<lambda>w. io_return (w, pt))))))
    (\<lambda>(w', _). tuned w' \<and> digInitialised w')"
  proof (rule yields_bind)
    show "yields (DigTick dev (cnt_all fa) w1) (\<lambda>w'. tuned w' \<and> digInitialised w')"
      by (rule DigTick_yields) (simp only: w2 simp_thms)
  next
    fix w assume w: "tuned w \<and> digInitialised w"
    show "yields (io_bind (if no_rainfo e then io_return w else noisy_tick dev fa w) (\<lambda>w.
      io_bind (if no_pwrtrack e then io_return pt
               else TickThermalMeter dev (te_c_cut e) (te_iqk e) (te_band e) (te_channel e)
                      (te_eeprom_thermal e) pt) (\<lambda>pt.
      io_bind (if cfo_track e then CfoTick dev w else io_return w) (\<lambda>w. io_return (w, pt)))))
      (\<lambda>(w', _). tuned w' \<and> digInitialised w')"
    proof (rule yields_bind)
      show "yields (if no_rainfo e then io_return w else noisy_tick dev fa w) (tuned_as w)"
        using noisy_tick_keeps [of w dev fa] w by simp
    next
      fix w3 assume w3: "tuned_as w w3"
      have "yields (if cfo_track e then CfoTick dev w3 else io_return w3) (tuned_as w3)"
        using CfoTick_keeps [of w3 dev] w3 by simp
      then show "yields (io_bind (if no_pwrtrack e then io_return pt
               else TickThermalMeter dev (te_c_cut e) (te_iqk e) (te_band e) (te_channel e)
                      (te_eeprom_thermal e) pt) (\<lambda>pt.
        io_bind (if cfo_track e then CfoTick dev w3 else io_return w3) (\<lambda>w. io_return (w, pt))))
        (\<lambda>(w', _). tuned w' \<and> digInitialised w')"
        by - (rule yields_any, erule yields_bind, use w w3 in auto)
    qed
  qed
qed

text \<open>
  C31: Whatever the registers answer and whoever uses the device in between, in every state the watchdog
  reaches the receive gain is within the bounds of its tick and these within 0x1c..0x3e once a tick has run,
  the crystal cap fits its six bits and the noisy-channel average stays below 128.
\<close>

theorem watchdog_in_bounds:
  assumes "wd_reachable dev ((w, pt), h)"
  shows "tuning_ok w \<and> (digInitialised w \<longrightarrow> dig_ok w)"
proof -
  have one: "tuned (fst (fst y))" if "tuned (fst (fst x))" "wd_step dev x y" for x y
    using that(2)
  proof cases
    case (tick e s h s' h')
    then show ?thesis
      using TickOnce_tuned [of "fst s" dev e "snd s"] that(1)
      by (cases s') (auto simp: yields_def)
  next
    case (feed w pt h ev)
    then show ?thesis
      using that(1) by (cases ev) (auto simp: tuned_def tuning_ok_def dig_ok_def wd_AddCfo_def wd_OnUplinkRate_def)
  qed (use that(1) in \<open>auto simp: tuned_def tuning_ok_def dig_ok_def SetLinkRssi_def SetUnlinked_def\<close>)
  have "tuned (fst (fst x))" if "wd_reachable dev x" for x
    using that
  proof induction
    case (start pt h)
    then show ?case by (simp add: tuned_def tuning_ok_def watchdog_init_def)
  next
    case (step x y)
    then show ?case using one by blast
  qed
  from this [OF assms] show ?thesis by (simp add: tuned_def)
qed

section \<open>The gain loop settles\<close>

text \<open>A masked write of the low byte of a register is the write of that byte.\<close>

lemma store_low_byte:
  "store a (le_bytes 4 (masked (reg32 r a) 0xFF (ucast (v :: u8)))) r = r(a := v)"
proof
  fix x
  let ?m = "masked (reg32 r a) 0xFF (ucast v :: u32)"
  have byte: "(ucast (drop_bit (8 * i) ?m) :: u8) = (if i = 0 then v else r (a + of_nat i))" if i: "i < 4" for i
  proof (rule bit_word_eqI)
    fix n assume n: "n < LENGTH(8)"
    then have "8 * i + n < 32" "(8 * i + n) div 8 = i" "(8 * i + n) mod 8 = n" using i by auto
    then show "bit (ucast (drop_bit (8 * i) ?m) :: u8) n = bit (if i = 0 then v else r (a + of_nat i)) n"
      using n i by (auto simp: masked_def bit_simps bit_FF reg32_def bit_le_word)
  qed
  show "store a (le_bytes 4 ?m) r x = (r(a := v)) x"
  proof (cases "unat (x - a) < 4")
    case True
    have "a + (x - a) = x" by simp
    then have "r (a + of_nat (unat (x - a))) = r x" by simp
    then show ?thesis using True byte [OF True] by (auto simp: store_def le_bytes_conv unat_eq_0)
  qed (auto simp: store_def)
qed

definition dig_floor :: "watchdog \<Rightarrow> int" where
  "dig_floor w = (if s_linked w then max 0x20 (min 0x38 (s_rssiDbm w + 100)) else 0x1c)"

lemma dig_bounds_floor: "uint (rx_gain_range_min (dig_bounds w)) = dig_floor w"
proof -
  have r: "uint (of_int v :: u8) = v" if "0 \<le> v" "v \<le> 0x38" for v :: int
    using that by (simp add: word_of_int_uint uint_word_of_int)
  show ?thesis using r by (auto simp: dig_bounds_def dig_floor_def Let_def max_def min_def)
qed

text \<open>On a quiet channel a tick lowers the gain by two, down to the floor.\<close>

lemma dig_next_quiet:
  assumes "fa_cnt < 250" and "dig_max_of_min w = 0x2a"
  shows "uint (cur_ig_value (dig_next fa_cnt w)) =
    min (uint (rx_gain_range_max (dig_bounds w))) (max (dig_floor w) (uint (cur_ig_value w) - 2))"
proof -
  have "\<not> fa_cnt > 750" "\<not> fa_cnt > 500" using assms(1) by (simp_all add: word_less_nat_alt)
  then have "uint (igi_step fa_cnt (cur_ig_value w)) = max 0 (uint (cur_ig_value w) - 2)"
    using assms(1) by (auto simp: igi_step_def uint_sub_if' word_le_def)
  moreover have "uint (igi_clamp v x) = min (uint (rx_gain_range_max v)) (max (uint (rx_gain_range_min v)) (uint x))"
    for v x by (auto simp: igi_clamp_def Let_def word_less_def)
  ultimately show ?thesis
    by (simp add: dig_next_def Let_def dig_bounds_floor) (auto simp: dig_floor_def max_def)
qed

fun dig_run :: "'h usb \<Rightarrow> u32 list \<Rightarrow> watchdog \<Rightarrow> ('h, watchdog) io" where
  "dig_run dev [] w = io_return w"
| "dig_run dev (fa_cnt # fas) w = io_bind (DigTick dev fa_cnt w) (dig_run dev fas)"

lemma dig_next_same [simp]:
  "dig_floor (dig_next n w) = dig_floor w" "dig_max_of_min (dig_next n w) = dig_max_of_min w"
  "rx_gain_range_max (dig_bounds (dig_next n w)) = rx_gain_range_max (dig_bounds w)"
  by (simp_all add: dig_next_def Let_def dig_floor_def) (simp add: dig_bounds_def Let_def)

lemma dig_top:
  assumes "dig_max_of_min w = 0x2a"
  shows "uint (rx_gain_range_max (dig_bounds w)) \<le> dig_floor w + 30"
    and "dig_floor w \<le> uint (rx_gain_range_max (dig_bounds w))"
  using assms dig_bounds_range(2,3) [OF assms] dig_bounds_floor [of w]
  by (auto simp: word_le_def dig_bounds_def Let_def dig_floor_def)

lemma quiet_run:
  assumes "list_all (\<lambda>n. n < 250) fas" and "fas \<noteq> []" and "dig_max_of_min w = 0x2a"
  shows "dig_floor w \<le> uint (cur_ig_value (fold dig_next fas w)) \<and>
    uint (cur_ig_value (fold dig_next fas w)) \<le>
      max (dig_floor w) (uint (rx_gain_range_max (dig_bounds w)) + 2 - 2 * int (length fas))"
  using assms
proof (induction fas rule: rev_induct)
  case (snoc n fas)
  let ?v = "fold dig_next fas w"
  have same: "dig_floor ?v = dig_floor w \<and> dig_max_of_min ?v = dig_max_of_min w \<and>
      rx_gain_range_max (dig_bounds ?v) = rx_gain_range_max (dig_bounds w)"
    by (induction fas arbitrary: w) simp_all
  note q = dig_next_quiet [of n ?v] and t = dig_top [OF snoc.prems(3)]
  show ?case
  proof (cases "fas = []")
    case True
    then show ?thesis using q t snoc.prems by simp
  next
    case False
    then show ?thesis using q t same snoc by auto
  qed
qed simp

abbreviation (input) igi_regs :: "u16 list" where "igi_regs \<equiv> [0xc50, 0xe50, 0x1850, 0x1a50]"

lemma DigWriteIgi_computes:
  assumes "sync_device dev reg store"
  shows "computes reg (DigWriteIgi dev igi) (\<lambda>r. ((), fold (\<lambda>a r. r(a := igi)) igi_regs r))"
proof -
  have c: "chip dev reg (\<lambda>r. r) store" using assms by (simp add: chip_def sync_device_chip)
  have "computes reg (PHY_SetBBReg8812 dev a 0xFF (ucast igi)) (\<lambda>r. ((), r(a := igi)))" for a
    using chip.set_bb [OF c, of a "0xFF" "ucast igi"] by (simp add: store_low_byte)
  then have "list_all2 (computes reg) (map (\<lambda>a. PHY_SetBBReg8812 dev a 0xFF (ucast igi)) igi_regs)
      (map (\<lambda>a r. ((), r(a := igi))) igi_regs)"
    by simp
  from computes_seq [OF this] show ?thesis by (simp add: DigWriteIgi_def)
qed

lemma dig_run_wp:
  assumes "sync_device dev reg store"
  shows "wp (dig_run dev fas w) (\<lambda>w' h'. w' = fold dig_next fas w \<and>
      reg h' = (if fas = [] then reg h else fold (\<lambda>a r. r(a := cur_ig_value w')) igi_regs (reg h))) h"
proof (induction fas arbitrary: w h)
  case Nil
  then show ?case by simp
next
  case (Cons n fas)
  show ?case
    unfolding dig_run.simps wp_bind DigTick_next wp_then wp_return
  proof (rule wp_computes [OF DigWriteIgi_computes [OF assms]])
    fix h1 assume "reg h1 = snd ((), fold (\<lambda>a r. r(a := cur_ig_value (dig_next n w))) igi_regs (reg h))"
    then show "wp (dig_run dev fas (dig_next n w)) (\<lambda>w' h'. w' = fold dig_next (n # fas) w \<and>
      reg h' = (if n # fas = [] then reg h else fold (\<lambda>a r. r(a := cur_ig_value w')) igi_regs (reg h))) h1"
      by (intro wp_mono [OF Cons.IH]) (cases fas; simp add: fun_eq_iff)
  qed
qed

text \<open>
  On a quiet channel the receiver becomes as sensitive as the link allows, and stays there. After
  sixteen or more ticks with fewer than 250 false alarms each, whatever the gain was, the gain is the floor of
  the link state (0x1c without a link; the signal strength plus 100 within 0x20..0x38 with one) and the four
  gain registers show it; no other register changed.
\<close>

theorem gain_settles_at_floor:
  assumes "sync_device dev reg store" and "list_all (\<lambda>n. n < 250) fas" and "16 \<le> length fas"
    and "dig_max_of_min w = 0x2a"
  shows "\<exists>w' h'. dig_run dev fas w h = (Inr w', h') \<and> uint (cur_ig_value w') = dig_floor w \<and>
    (\<forall>a\<in>{0xc50, 0xe50, 0x1850, 0x1a50}. uint (reg h' a) = dig_floor w) \<and>
    (\<forall>a. a \<notin> {0xc50, 0xe50, 0x1850, 0x1a50} \<longrightarrow> reg h' a = reg h a)"
proof -
  have ne: "fas \<noteq> []" using assms(3) by auto
  have "uint (cur_ig_value (fold dig_next fas w)) = dig_floor w"
    using quiet_run [OF assms(2) ne assms(4)] dig_top [OF assms(4)] assms(3) by auto
  then show ?thesis
    using dig_run_wp [OF assms(1), of fas w h] ne by (auto simp: wp_def)
qed

text \<open>A link at -60 dBm: from 0x3e the gain comes down to 40 = 0x28.\<close>

theorem gain_settles_at_floor_witness:
  "\<exists>w' r'. dig_run (reg_file store) (replicate 16 0) (SetLinkRssi (-60) (watchdog_init\<lparr>cur_ig_value := 0x3e\<rparr>)) (\<lambda>_. 7) =
      (Inr w', r') \<and> uint (cur_ig_value w') = 40 \<and> uint (r' 0xc50) = 40 \<and> r' 0xc51 = 7"
proof -
  let ?w = "SetLinkRssi (-60) (watchdog_init\<lparr>cur_ig_value := 0x3e\<rparr>)"
  have w: "dig_max_of_min ?w = 0x2a" "dig_floor ?w = 40"
    by (simp_all add: SetLinkRssi_def watchdog_init_def dig_floor_def)
  have "list_all (\<lambda>n. n < 250) (replicate 16 (0 :: u32))" by (simp add: list_all_iff)
  from gain_settles_at_floor [OF sync_reg_file this _ w(1), of "\<lambda>_. 7"] w(2) show ?thesis by auto
qed

section \<open>The crystal cap\<close>

lemma cap_word_fields:
  assumes "cap \<le> 0x3f"
  shows cap_masked: "cap AND 0x3f = cap" and "drop_bit 25 (cap_word v cap) AND 0x3f = ucast cap" "drop_bit 19 (cap_word v cap) AND 0x3f = ucast cap"
    "cap_word v cap AND NOT 0x7FF80000 = v AND NOT 0x7FF80000"
proof -
  have m: "(0x7FF80000 :: u32) = push_bit 19 (mask 12)" "(0x3f :: u32) = mask 6" "(0x3f :: u8) = mask 6"
    by (simp_all add: mask_eq_exp_minus_1 push_bit_eq_mult)
  have b: "bit (0x7FF80000 :: u32) n \<longleftrightarrow> 19 \<le> n \<and> n < 31" "bit (0x3f :: u32) n \<longleftrightarrow> n < 6"
    "bit (0x3f :: u8) n \<longleftrightarrow> n < 6" for n
    unfolding m by (auto simp: bit_mask_iff bit_push_bit_iff)
  have z: "bit (0x3f :: int) n \<longleftrightarrow> n < 6" for n
    using bit_mask_iff [of 6 n, where 'a = int] by (simp add: mask_eq_exp_minus_1)
  have "unat cap < 2 ^ 6" using assms by (simp add: word_le_nat_alt)
  then have "unat (take_bit 6 cap) = unat cap" by (simp add: unsigned_take_bit_eq take_bit_nat_eq_self)
  then have c: "bit cap n \<Longrightarrow> n < 6" for n by (metis bit_take_bit_iff word_unat_eq_iff)
  have w: "bit (cap_word v cap) n = (if 19 \<le> n \<and> n < 31 then bit cap (n - 19) \<or> 25 \<le> n \<and> bit cap (n - 25)
      else n < 32 \<and> bit v n)" for n
    unfolding cap_word_def bit_or_iff bit_and_iff bit_not_iff bit_push_bit_iff bit_ucast_iff b
    by (auto dest: c bit_imp_le_length)
  show "cap AND 0x3f = cap"
    by (rule bit_word_eqI) (use c in \<open>auto simp only: bit_and_iff b\<close>)
  show "drop_bit 25 (cap_word v cap) AND 0x3f = ucast cap"
    by (rule bit_word_eqI) (auto simp: bit_and_iff bit_drop_bit_eq bit_ucast_iff z w dest: c)
  show "drop_bit 19 (cap_word v cap) AND 0x3f = ucast cap"
    by (rule bit_word_eqI) (auto simp: bit_and_iff bit_drop_bit_eq bit_ucast_iff z w dest: c)
  show "cap_word v cap AND NOT 0x7FF80000 = v AND NOT 0x7FF80000"
    by (rule bit_word_eqI, unfold bit_and_iff bit_not_iff b w) (auto dest: bit_imp_le_length)
qed

lemma io_bind_return [simp]: "io_bind (io_return x) k = k x"
  by (rule ext) (simp add: io_bind_def io_return_def)

lemma cfo_new_cap_range: "0 \<le> cfo_new_cap avg cap" "cfo_new_cap avg cap \<le> 0x3f"
  by (simp_all add: cfo_new_cap_def Let_def)

lemma uint_cfo_new_cap: "uint (of_int (cfo_new_cap avg cap) :: u8) = cfo_new_cap avg cap"
  using cfo_new_cap_range [of avg cap] by (simp add: word_of_int_uint uint_word_of_int)

lemma cfo_new_cap_le: "(of_int (cfo_new_cap avg cap) :: u8) \<le> 0x3f"
  using cfo_new_cap_range [of avg cap] by (simp add: word_le_def uint_cfo_new_cap)

text \<open>
  The crystal follows the carrier. With a link and packets since the last tick, an average offset of more
  than 20 kHz moves the cap towards the offset by a step of at least two, up to the ends 0 and 63 of its range,
  both cap fields of register 0x2c show the new cap whenever it moved, the other bits of the register and
  every other register keep their value, and the sums start again.
\<close>

theorem cfo_tick_follows_offset:
  assumes "sync_device dev reg store" and "cfo_inited w" and "s_linked w" and "s_cfo_pkt w \<noteq> cfo_pkt_pre w"
    and "cfo_average w = Some avg" and "20 < \<bar>avg\<bar>" and "crystal_cap w \<le> 0x3f"
  shows "\<exists>w' h'. CfoTick dev w h = (Inr w', h') \<and>
    (if 0 < avg then uint (crystal_cap w') \<ge> min 63 (uint (crystal_cap w) + 2)
     else uint (crystal_cap w') \<le> max 0 (uint (crystal_cap w) - 2)) \<and> crystal_cap w' \<le> 0x3f \<and>
    s_cfo_sum w' = (0, 0) \<and> s_cfo_cnt w' = (0, 0) \<and> cfo_pkt_pre w' = s_cfo_pkt w \<and>
    (crystal_cap w' \<noteq> crystal_cap w \<longrightarrow>
      drop_bit 25 (reg32 (reg h') 0x2c) AND 0x3f = ucast (crystal_cap w') \<and>
      drop_bit 19 (reg32 (reg h') 0x2c) AND 0x3f = ucast (crystal_cap w')) \<and>
    reg32 (reg h') 0x2c AND NOT 0x7FF80000 = reg32 (reg h) 0x2c AND NOT 0x7FF80000 \<and>
    (\<forall>a. 4 \<le> unat (a - 0x2c) \<longrightarrow> reg h' a = reg h a)"
proof -
  have c: "chip dev reg (\<lambda>r. r) store" using assms(1) by (simp add: chip_def sync_device_chip)
  let ?new = "of_int (cfo_new_cap avg (crystal_cap w)) :: u8"
  let ?w = "cfo_hysteresis avg (w\<lparr>cfo_pkt_pre := s_cfo_pkt w, s_cfo_cnt := (0, 0), s_cfo_sum := (0, 0)\<rparr>)"
  have adj: "cfo_is_adjust ?w" "crystal_cap ?w = crystal_cap w" "s_cfo_sum ?w = (0, 0)" "s_cfo_cnt ?w = (0, 0)"
    "cfo_pkt_pre ?w = s_cfo_pkt w"
    using assms(6) by (auto simp: cfo_hysteresis_def)
  have tick: "CfoTick dev w = (if ?new \<noteq> crystal_cap w then SetCrystalCap dev ?new ?w else io_return ?w)"
    using assms(2-5) adj by (simp add: CfoTick_def Let_def)
  have moves: "if 0 < avg then uint ?new \<ge> min 63 (uint (crystal_cap w) + 2)
      else uint ?new \<le> max 0 (uint (crystal_cap w) - 2)"
    unfolding uint_cfo_new_cap using assms(6,7) by (auto simp: cfo_new_cap_def Let_def word_le_def)
  have new: "?new AND 0x3f = ?new" by (rule cap_masked [OF cfo_new_cap_le])
  show ?thesis
  proof (cases "?new = crystal_cap w")
    case True
    then show ?thesis using moves [unfolded True] adj assms(7) by (simp add: tick io_return_def)
  next
    case False
    have "wp (SetCrystalCap dev ?new ?w) (\<lambda>w' h'. w' = ?w\<lparr>crystal_cap := ?new\<rparr> \<and>
        reg h' = store 0x2c (le_bytes 4 (cap_word (reg32 (reg h) 0x2c) ?new)) (reg h)) h"
      by (auto simp: SetCrystalCap_def Let_def new intro!: wp_computes [OF chip.read32 [OF c]]
          wp_computes [OF chip.write32 [OF c]])
    then obtain h' where "SetCrystalCap dev ?new ?w h = (Inr (?w\<lparr>crystal_cap := ?new\<rparr>), h')"
      "reg h' = store 0x2c (le_bytes 4 (cap_word (reg32 (reg h) 0x2c) ?new)) (reg h)"
      by (auto simp: wp_def)
    then show ?thesis
      using False moves adj cfo_new_cap_le cap_word_fields(2-) [OF cfo_new_cap_le]
      by (simp add: tick) (simp add: store_def)
  qed
qed

text \<open>An offset of 40 kHz over two packets, a crystal at 32: the cap moves by four.\<close>

definition drifting :: watchdog where
  "drifting = SetLinkRssi (-50) (watchdog_init\<lparr>cfo_inited := True, crystal_cap := 32,
     s_cfo_sum := (32, 32), s_cfo_cnt := (2, 2), s_cfo_pkt := 2\<rparr>)"

theorem cfo_tick_follows_offset_witness:
  "\<exists>w' r'. CfoTick (reg_file store) drifting (\<lambda>_. 0) = (Inr w', r') \<and> uint (crystal_cap w') \<ge> 34 \<and>
    drop_bit 25 (reg32 r' 0x2c) AND 0x3f = ucast (crystal_cap w')"
proof -
  have d: "cfo_inited drifting" "s_linked drifting" "s_cfo_pkt drifting \<noteq> cfo_pkt_pre drifting"
    "cfo_average drifting = Some 40" "crystal_cap drifting = 32"
    by (simp_all add: drifting_def SetLinkRssi_def watchdog_init_def cfo_average_def cfo_khz_def c_div_def)
  obtain w' r' where r: "CfoTick (reg_file store) drifting (\<lambda>_. 0) = (Inr w', r')"
    "uint (crystal_cap w') \<ge> 34" "crystal_cap w' \<noteq> 32 \<longrightarrow> drop_bit 25 (reg32 r' 0x2c) AND 0x3f = ucast (crystal_cap w')"
    using cfo_tick_follows_offset [OF sync_reg_file d(1-4), of "\<lambda>_. 0"] d(5) by auto
  then have "crystal_cap w' \<noteq> 32" by auto
  with r show ?thesis by blast
qed

text \<open>The first tick after a fresh start, as a reachable state.\<close>

theorem watchdog_in_bounds_witness:
  "wd_reachable (reg_file store) ((SetLinkRssi (-60) watchdog_init, pwr_track_init), \<lambda>_. 0) \<and>
    tuning_ok (SetLinkRssi (-60) watchdog_init)"
proof -
  have r: "wd_reachable (reg_file store) ((SetLinkRssi (-60) watchdog_init, pwr_track_init), \<lambda>_. 0)"
    by (rule wd_reachable.step [OF wd_reachable.start [of _ _ "\<lambda>_. 0"] wd_step.link])
  then show ?thesis using watchdog_in_bounds [OF r] by blast
qed

end
