(* ===== verification/StationRegs.thy ===== *)
theory StationRegs
  imports RfReg PowerOn
begin

text \<open>
  The register side of station mode: \<open>arm\<close>, \<open>becomeStation\<close> and \<open>sendStationH2C\<close> of src/StationMode.cpp,
  and the receive filters of src/RadioManagementModule.cpp. The environment variables that switch
  parts off are the record \<open>sta_env\<close>; tuning the radio with its calibration is an argument.
\<close>

section \<open>Receive filters\<close>

abbreviation (input) MSR :: u16 where "MSR \<equiv> 0x0102"
abbreviation (input) REG_RCR :: u16 where "REG_RCR \<equiv> 0x0608"
abbreviation (input) REG_MACID :: u16 where "REG_MACID \<equiv> 0x0610"
abbreviation (input) REG_BSSID :: u16 where "REG_BSSID \<equiv> 0x0618"
abbreviation (input) REG_RXFLTMAP0 :: u16 where "REG_RXFLTMAP0 \<equiv> 0x06A0"
abbreviation (input) REG_RXFLTMAP1 :: u16 where "REG_RXFLTMAP1 \<equiv> 0x06A2"
abbreviation (input) REG_RXFLTMAP2 :: u16 where "REG_RXFLTMAP2 \<equiv> 0x06A4"

abbreviation (input) rcr_bit :: "nat \<Rightarrow> u32" where "rcr_bit n \<equiv> push_bit n 1"

definition RCR_AAP :: u32 where "RCR_AAP = rcr_bit 0"
definition RCR_APM :: u32 where "RCR_APM = rcr_bit 1"
definition RCR_AM :: u32 where "RCR_AM = rcr_bit 2"
definition RCR_AB :: u32 where "RCR_AB = rcr_bit 3"
definition RCR_APWRMGT :: u32 where "RCR_APWRMGT = rcr_bit 5"
definition RCR_CBSSID_DATA :: u32 where "RCR_CBSSID_DATA = rcr_bit 6"
definition RCR_CBSSID_BCN :: u32 where "RCR_CBSSID_BCN = rcr_bit 7"
definition RCR_ADF :: u32 where "RCR_ADF = rcr_bit 11"
definition RCR_ACF :: u32 where "RCR_ACF = rcr_bit 12"
definition RCR_AMF :: u32 where "RCR_AMF = rcr_bit 13"
definition RCR_HTC_LOC_CTRL :: u32 where "RCR_HTC_LOC_CTRL = rcr_bit 14"
definition RCR_VHT_DACK :: u32 where "RCR_VHT_DACK = rcr_bit 26"
definition FORCEACK :: u32 where "FORCEACK = rcr_bit 26"
definition RCR_APP_PHYST_RXFF :: u32 where "RCR_APP_PHYST_RXFF = rcr_bit 28"
definition RCR_APP_ICV :: u32 where "RCR_APP_ICV = rcr_bit 29"
definition RCR_APP_MIC :: u32 where "RCR_APP_MIC = rcr_bit 30"
definition RCR_APPFCS :: u32 where "RCR_APPFCS = rcr_bit 31"

lemmas rcr_bits = RCR_AAP_def RCR_APM_def RCR_AM_def RCR_AB_def RCR_APWRMGT_def RCR_CBSSID_DATA_def
  RCR_CBSSID_BCN_def RCR_ADF_def RCR_ACF_def RCR_AMF_def RCR_HTC_LOC_CTRL_def RCR_VHT_DACK_def
  FORCEACK_def RCR_APP_PHYST_RXFF_def RCR_APP_ICV_def RCR_APP_MIC_def RCR_APPFCS_def

datatype HwPort = HW_PORT0 | HW_PORT1

definition rtw_hal_set_msr :: "'h usb \<Rightarrow> HwPort \<Rightarrow> u8 \<Rightarrow> ('h, unit) io" where
  "rtw_hal_set_msr dev port net_type =
    io_bind (rtw_read8 dev MSR) (\<lambda>v.
      case port of
        HW_PORT0 \<Rightarrow> wr8 dev MSR (v AND 0x0C OR net_type)
      | HW_PORT1 \<Rightarrow> wr8 dev MSR (v AND 0x03 OR push_bit 2 net_type))"

definition hw_var_rcr_config :: "'h usb \<Rightarrow> u32 \<Rightarrow> ('h, unit) io" where
  "hw_var_rcr_config dev rcr = wr32 dev REG_RCR rcr"

definition monitor_rcr :: u32 where
  "monitor_rcr = RCR_AAP OR RCR_APM OR RCR_AM OR RCR_AB OR RCR_APWRMGT OR
     RCR_ADF OR RCR_ACF OR RCR_AMF OR RCR_APP_PHYST_RXFF OR RCR_APPFCS"

definition hw_var_set_monitor :: "'h usb \<Rightarrow> ('h, unit) io" where
  "hw_var_set_monitor dev = io_seq [hw_var_rcr_config dev monitor_rcr, wr16 dev REG_RXFLTMAP2 0xFFFF]"

definition SetMonitorMode :: "'h usb \<Rightarrow> HwPort \<Rightarrow> ('h, unit) io" where
  "SetMonitorMode dev port = io_seq [rtw_hal_set_msr dev port 0, hw_var_set_monitor dev]"

record sta_env =
  skip_join_iqk :: bool
  skip_msr :: bool
  auth_nolink :: bool
  skip_rcr :: bool
  skip_tsf :: bool
  skip_edca :: bool
  skip_txpause :: bool
  try_rfe :: bool
  auth_sta :: bool
  skip_h2c :: bool
  skip_macidcfg :: bool
  ra_old :: bool
  ra_conservative :: bool
  mediastatus :: bool
  skip_rssi :: bool
  no_station_ack :: bool
  rcr_windows :: bool
  rcr_aap :: bool
  rcr_app :: bool
  t2_kflt :: bool

definition no_env :: sta_env where
  "no_env = \<lparr>skip_join_iqk = False, skip_msr = False, auth_nolink = False, skip_rcr = False,
     skip_tsf = False, skip_edca = False, skip_txpause = False, try_rfe = False, auth_sta = False,
     skip_h2c = False, skip_macidcfg = False, ra_old = False, ra_conservative = False,
     mediastatus = False, skip_rssi = False, no_station_ack = False, rcr_windows = False,
     rcr_aap = False, rcr_app = False, t2_kflt = False\<rparr>"

definition station_rcr :: "sta_env \<Rightarrow> u32" where
  "station_rcr e =
    (if rcr_windows e then 0x3f6b00f4
     else if rcr_aap e then RCR_AAP OR RCR_APM OR RCR_AM OR RCR_AB OR RCR_APWRMGT OR
       RCR_ADF OR RCR_ACF OR RCR_AMF OR RCR_APP_PHYST_RXFF OR RCR_APPFCS OR FORCEACK
     else RCR_APM OR RCR_AM OR RCR_AB OR RCR_CBSSID_DATA OR RCR_CBSSID_BCN OR
       RCR_HTC_LOC_CTRL OR RCR_AMF OR RCR_APP_PHYST_RXFF OR RCR_APPFCS OR FORCEACK OR RCR_VHT_DACK OR
       (if rcr_app e then rcr_bit 30 OR rcr_bit 29 else 0))"

definition SetStationRxFilter :: "'h usb \<Rightarrow> sta_env \<Rightarrow> ('h, unit) io" where
  "SetStationRxFilter dev e =
    io_then (hw_var_rcr_config dev (station_rcr e))
    (io_then
      (if t2_kflt e then io_seq [wr16 dev REG_RXFLTMAP2 0xFFFF, wr16 dev REG_RXFLTMAP1 0x0500]
       else io_seq [wr16 dev REG_RXFLTMAP0 0xFFFF, wr16 dev REG_RXFLTMAP2 0xFFFF,
                    wr16 dev REG_RXFLTMAP1 0x0700])
      (io_bind (rtw_read32 dev REG_RCR) (\<lambda>_. io_return ())))"

section \<open>Registering the peer with the firmware\<close>

text \<open>A command to the firmware as a program; the mailbox index is threaded through.\<close>

definition h2c :: "'h usb \<Rightarrow> u8 \<Rightarrow> bytes \<Rightarrow> u8 \<Rightarrow> ('h, bool \<times> u8) io" where
  "h2c dev element buf box h =
    (case fillH2CCmd dev element (length buf) (Some buf) box h of (ok, box', h') \<Rightarrow> (Inr (ok, box'), h'))"

definition macidCfg :: "sta_env \<Rightarrow> u8 \<Rightarrow> bytes" where
  "macidCfg e macid =
    (if ra_old e then
       (let rate_id = 9; init_ra_lv = 1; sgi = 1; bw_mode = 2; vht_en = 1; ldpc_en = 0; dis_pt = 0; dis_ra = 0;
            ra_mask = (if ra_conservative e then 0x3FFFFFFF else 0xfffff010 :: u32)
        in [macid,
            (rate_id AND 0x1f) OR push_bit 5 (init_ra_lv AND 0x3) OR push_bit 7 sgi,
            bw_mode OR push_bit 2 ldpc_en OR push_bit 4 vht_en OR push_bit 6 dis_pt OR push_bit 7 dis_ra,
            ucast (ra_mask AND 0xff), ucast (drop_bit 8 ra_mask AND 0xff),
            ucast (drop_bit 16 ra_mask AND 0xff), ucast (drop_bit 24 ra_mask AND 0xff)])
     else [macid, 0x89, 0x1a, 0x00, 0x80, 0xff, 0xff])"

definition sendStationH2C :: "'h usb \<Rightarrow> sta_env \<Rightarrow> u8 \<Rightarrow> u8 \<Rightarrow> ('h, u8) io" where
  "sendStationH2C dev e macid box =
    io_bind (if skip_macidcfg e then io_return (True, box) else h2c dev 0x40 (macidCfg e macid) box) (\<lambda>(h2cRa, box).
    io_bind (if mediastatus e then h2c dev 0x01 [0x21, macid, macid] box else io_return (True, box)) (\<lambda>(h2cMs, box).
    io_bind (if skip_rssi e then io_return (True, box)
             else if ra_old e then h2c dev 0x42 [macid, 0x00, 0x39, 0x06] box
             else h2c dev 0x42 [macid, 0x00, 0x2e] box) (\<lambda>(h2cRssi, box).
    io_then (wr8 dev 0x8c3 0x3F)
    (io_bind (rtw_read8 dev 0x0607) (\<lambda>tcr3. io_then (wr8 dev 0x0607 (tcr3 OR 0x07))
    (io_bind (rtw_read8 dev 0x837) (\<lambda>bw3. io_then (wr8 dev 0x837 (bw3 AND NOT 0x04))
    (io_return box))))))))"

section \<open>Arming\<close>

definition write_mac :: "'h usb \<Rightarrow> u16 \<Rightarrow> bytes \<Rightarrow> ('h, unit) io" where
  "write_mac dev a mac =
    io_then (io_seq (map (\<lambda>i. wr8 dev (a + of_nat i) (mac ! i)) [0..<4]))
      (wr16 dev (a + 4) (ucast (mac ! 4) OR push_bit 8 (ucast (mac ! 5))))"

definition set_msr :: "'h usb \<Rightarrow> u8 \<Rightarrow> ('h, unit) io" where
  "set_msr dev netType = io_bind (rtw_read8 dev MSR) (\<lambda>v. wr8 dev MSR (v AND 0x0C OR netType))"

abbreviation (input) HW_STATE_STATION :: u8 where "HW_STATE_STATION \<equiv> 0x02"

definition arm_rcr :: u32 where
  "arm_rcr = RCR_APM OR RCR_AM OR RCR_AB OR RCR_ADF OR RCR_ACF OR RCR_CBSSID_DATA OR RCR_CBSSID_BCN OR
     RCR_APP_ICV OR RCR_AMF OR RCR_HTC_LOC_CTRL OR RCR_APP_MIC OR RCR_APP_PHYST_RXFF OR RCR_APPFCS OR
     FORCEACK OR RCR_VHT_DACK"

definition arm :: "'h usb \<Rightarrow> sta_env \<Rightarrow> ('h, unit) io \<Rightarrow> bytes \<Rightarrow> bytes \<Rightarrow> u8 \<Rightarrow> ('h, u8) io" where
  "arm dev e join_iqk self bssid box =
    io_then (io_when (\<not> skip_join_iqk e) join_iqk)
    (io_then (write_mac dev REG_MACID self)
    (io_then (io_when (\<not> skip_msr e) (set_msr dev (if auth_nolink e then 0 else HW_STATE_STATION)))
    (io_then (write_mac dev REG_BSSID bssid)
    (io_then (io_when (\<not> skip_rcr e)
      (io_seq [wr32 dev REG_RCR arm_rcr, wr16 dev REG_RXFLTMAP0 0xFFFF, wr16 dev REG_RXFLTMAP2 0xFFFF]))
    (io_then (io_when (\<not> skip_tsf e)
      (io_bind (rtw_read8 dev 0x0550) (\<lambda>v. wr8 dev 0x0550 (v AND NOT 0x10))))
    (io_then (io_when (\<not> skip_edca e)
      (io_seq [wr32 dev 0x0500 0x002f3222, wr32 dev 0x0504 0x005e4322, wr32 dev 0x0508 0x005ea42b,
               wr32 dev 0x050c 0x0000a44f, wr8 dev 0x0607 0x07]))
    (io_then (io_when (\<not> skip_txpause e)
      (io_then (wr8 dev 0x0522 0x00) (io_bind (rtw_read8 dev 0x0522) (\<lambda>_. io_return ()))))
    (io_then (io_when (try_rfe e)
      (io_seq [PHY_SetBBReg8812 dev 0x82c 0x80000000 0, wr32 dev 0x0cb8 0x42825000, wr32 dev 0x0eb8 0x42825000]))
    (if auth_sta e \<and> \<not> skip_h2c e then sendStationH2C dev e 0 box else io_return box)))))))))"

definition becomeStation :: "'h usb \<Rightarrow> sta_env \<Rightarrow> u8 \<Rightarrow> ('h, u8) io" where
  "becomeStation dev e box =
    io_then (io_when (\<not> skip_msr e) (set_msr dev HW_STATE_STATION))
    (io_bind (if skip_h2c e then io_return box else sendStationH2C dev e 0 box) (\<lambda>box.
     io_then (io_when (\<not> no_station_ack e) (SetStationRxFilter dev e)) (io_return box)))"

section \<open>Calibration retries\<close>

definition readTxIqcX :: "'h usb \<Rightarrow> ('h, u32) io" where
  "readTxIqcX dev = io_catch
    (io_bind (rtw_read32 dev 0x082c) (\<lambda>pc.
     io_then (wr32 dev 0x082c (pc OR 0x80000000))
     (io_bind (rtw_read32 dev 0x0cd4) (\<lambda>x.
     io_then (wr32 dev 0x082c pc) (io_return (x AND 0x7ff)))))) 0x200"

primrec iqk_retry :: "'h usb \<Rightarrow> ('h, unit) io \<Rightarrow> nat \<Rightarrow> ('h, unit) io" where
  "iqk_retry dev run_iqk 0 = io_return ()"
| "iqk_retry dev run_iqk (Suc tries) =
    io_bind (readTxIqcX dev) (\<lambda>x.
      if x = 0x200
      then io_then (io_catch run_iqk ()) (io_bind (readTxIqcX dev) (\<lambda>_. iqk_retry dev run_iqk tries))
      else io_return ())"

text \<open>
  The scope of the guard in \<open>runProbe\<close>: reception is paused, the chip armed and calibrated, and
  reception resumed on every exit.
\<close>

definition with_rx_paused :: "('h \<Rightarrow> 'h) \<Rightarrow> ('h \<Rightarrow> 'h) \<Rightarrow> ('h, 'a) io \<Rightarrow> ('h, 'a) io" where
  "with_rx_paused pauseAsyncRx resumeAsyncRx m h = apsnd resumeAsyncRx (m (pauseAsyncRx h))"

definition arm_calibrated ::
    "'h usb \<Rightarrow> sta_env \<Rightarrow> ('h, unit) io \<Rightarrow> ('h, unit) io \<Rightarrow> nat \<Rightarrow> bytes \<Rightarrow> bytes \<Rightarrow> u8 \<Rightarrow> ('h, u8) io" where
  "arm_calibrated dev e join_iqk run_iqk iqkTries self bssid box =
    io_bind (arm dev e join_iqk self bssid box) (\<lambda>box.
    io_bind (readTxIqcX dev) (\<lambda>_. io_then (iqk_retry dev run_iqk iqkTries) (io_return box)))"

section \<open>What the chip holds when it is armed\<close>

lemma rcr_values: "arm_rcr = 0xF40078CE" "station_rcr no_env = 0x940060CE" "monitor_rcr = 0x9000382F"
  by (simp_all add: arm_rcr_def station_rcr_def monitor_rcr_def rcr_bits no_env_def push_bit_eq_mult)

lemma le_bytes_pair: "le_bytes 2 (ucast m OR push_bit 8 (ucast n) :: u16) = [m, n]"
proof -
  have "(ucast (ucast m OR push_bit 8 (ucast n) :: u16) :: u8) = m"
    by (rule bit_word_eqI) (auto simp: bit_simps)
  moreover have "(ucast (drop_bit 8 (ucast m OR push_bit 8 (ucast n) :: u16)) :: u8) = n"
    by (rule bit_word_eqI) (auto simp: bit_simps dest: bit_imp_le_length)
  ultimately show ?thesis by (simp add: le_bytes_conv upt_rec)
qed

lemma write_mac_computes:
  assumes "sync_device dev reg store" and "length mac = 6"
  shows "computes reg (write_mac dev a mac) (\<lambda>r. ((), store a mac r))"
proof -
  note acc = chip.accesses [OF sync_chip [OF assms(1)]]
  obtain m0 m1 m2 m3 m4 m5 where m: "mac = [m0, m1, m2, m3, m4, m5]"
    using assms(2) by (auto simp: eval_nat_numeral length_Suc_conv)
  have st: "store (a + 4) [m4, m5] (store (a + 3) [m3] (store (a + 2) [m2] (store (a + 1) [m1] (store a [m0] r)))) =
      store a mac r" for r
    using store_append [of "[m0]" "[m1]" a r] store_append [of "[m0, m1]" "[m2]" a r]
      store_append [of "[m0, m1, m2]" "[m3]" a r] store_append [of "[m0, m1, m2, m3]" "[m4, m5]" a r]
    by (simp add: m)
  have seq: "write_mac dev a mac = io_then (io_then (wr8 dev a m0) (io_then (wr8 dev (a + 1) m1)
      (io_then (wr8 dev (a + 2) m2) (io_then (wr8 dev (a + 3) m3) (io_return ())))))
      (wr16 dev (a + 4) (ucast m4 OR push_bit 8 (ucast m5)))"
    by (simp add: write_mac_def m upt_rec)
  show ?thesis
    unfolding seq
    by (rule computes_cong, (rule computes_rules acc)+) (simp add: st le_bytes_pair)
qed

definition armed :: "bytes \<Rightarrow> bytes \<Rightarrow> regs \<Rightarrow> regs" where
  "armed self bssid r =
    (let r = store REG_MACID self r;
         r = store MSR [r MSR AND 0x0C OR 2] r;
         r = store REG_BSSID bssid r;
         r = store REG_RXFLTMAP2 [0xFF, 0xFF] (store REG_RXFLTMAP0 [0xFF, 0xFF] (store REG_RCR (le_bytes 4 arm_rcr) r));
         r = store 0x0550 [r 0x0550 AND NOT 0x10] r;
         r = store 0x0500 (le_bytes 4 (0x002f3222 :: u32)) r;
         r = store 0x0504 (le_bytes 4 (0x005e4322 :: u32)) r;
         r = store 0x0508 (le_bytes 4 (0x005ea42b :: u32)) r;
         r = store 0x050c (le_bytes 4 (0x0000a44f :: u32)) r
     in store 0x0522 [0] (store 0x0607 [7] r))"

lemma le_bytes_FFFF: "le_bytes 2 (0xFFFF :: u16) = [0xFF, 0xFF]"
  by (simp add: le_bytes_conv upt_rec)

lemma arm_computes:
  assumes "sync_device dev reg store" and "computes reg join_iqk (\<lambda>r. ((), g r))"
    and "length self = 6" and "length bssid = 6"
  shows "computes reg (arm dev no_env join_iqk self bssid box) (\<lambda>r. (box, armed self bssid (g r)))"
proof -
  note c = sync_chip [OF assms(1)]
  note acc = chip.write8 [OF c] chip.write16 [OF c] chip.write32 [OF c] computes_update8 [OF assms(1)]
    write_mac_computes [OF assms(1) assms(3)] write_mac_computes [OF assms(1) assms(4)] assms(2)
  have read: "computes reg (io_bind (rtw_read8 dev a) (\<lambda>_. io_return ())) (\<lambda>r. ((), r))" for a
    by (rule computes_cong, rule computes_bind [OF chip.read8 [OF c] computes_return]) simp
  have ret: "computes reg (io_return x) (\<lambda>r. (x, r))" for x :: 'z by (rule computes_return)
  show ?thesis
    unfolding arm_def no_env_def io_when_def set_msr_def io_seq.simps sta_env.simps simp_thms if_True if_False
    by (rule computes_cong, (rule acc read computes_chain2 computes_chain ret)+)
      (simp only: armed_def Let_def le_bytes_FFFF)
qed

text \<open>
  C28: When \<open>arm\<close> returns, the chip is set up as a station of the access point: its own address and the
  BSSID in their registers, network type station with the other port untouched, the receive filter for
  frames of this BSSID with every management and data subtype accepted, the clock synchronised to beacons
  and no transmit queue paused, whatever the calibration before it did to the registers.
\<close>

theorem arm_sets_up_station:
  assumes "sync_device dev reg store" and "computes reg join_iqk (\<lambda>r. ((), g r))"
    and "length self = 6" and "length bssid = 6"
  shows "\<exists>h'. arm dev no_env join_iqk self bssid box h = (Inr box, h') \<and>
    map (\<lambda>i. reg h' (REG_MACID + of_nat i)) [0..<6] = self \<and>
    map (\<lambda>i. reg h' (REG_BSSID + of_nat i)) [0..<6] = bssid \<and>
    reg h' MSR = g (reg h) MSR AND 0x0C OR HW_STATE_STATION \<and>
    reg32 (reg h') REG_RCR = arm_rcr \<and>
    list_all (\<lambda>a. reg h' a = 0xFF) [REG_RXFLTMAP0, REG_RXFLTMAP0 + 1, REG_RXFLTMAP2, REG_RXFLTMAP2 + 1] \<and>
    reg h' 0x0550 AND 0x10 = 0 \<and> reg h' 0x0522 = 0"
proof -
  obtain h' where h': "arm dev no_env join_iqk self bssid box h = (Inr box, h')"
    "reg h' = armed self bssid (g (reg h))"
    using computesE [OF arm_computes [OF assms, of box], of h] by auto
  obtain s0 s1 s2 s3 s4 s5 where s: "self = [s0, s1, s2, s3, s4, s5]"
    using assms(3) by (auto simp: eval_nat_numeral length_Suc_conv)
  obtain b0 b1 b2 b3 b4 b5 where b: "bssid = [b0, b1, b2, b3, b4, b5]"
    using assms(4) by (auto simp: eval_nat_numeral length_Suc_conv)
  have n: "[0..<6] = [0, 1, 2, 3, 4, 5 :: nat]" by (simp add: upt_rec)
  have "(x AND - 17) AND 16 = (0 :: u8)" for x
    by (simp add: and.assoc)
  then show ?thesis
    using h' by (simp add: armed_def Let_def store_apply s b n reg32_store_apart)
qed

text \<open>An access point at 02:..:01, from a memory of which the calibration set the transmit pause.\<close>

theorem arm_sets_up_station_witness:
  "\<exists>r'. arm (reg_file store) no_env (wr8 (reg_file store) 0x0522 0x3f) [2, 0, 0, 0, 0, 7] [2, 0, 0, 0, 0, 1] 0 (\<lambda>_. 0xFF) =
      (Inr 0, r') \<and> r' 0x0522 = 0 \<and> r' MSR = 0x0E \<and> r' 0x0615 = 7 \<and> r' 0x061D = 1"
proof -
  have w: "computes id (wr8 (reg_file store) 0x0522 0x3f) (\<lambda>r. ((), store 0x0522 [0x3f] r))"
    by (rule chip.write8 [OF sync_chip [OF sync_reg_file]])
  from arm_sets_up_station [OF sync_reg_file this, of "[2, 0, 0, 0, 0, 7]" "[2, 0, 0, 0, 0, 1]" 0 "\<lambda>_. 0xFF"]
  show ?thesis by (auto simp: upt_rec store_apply)
qed

section \<open>What the chip holds as a connected station\<close>

lemma h2c_wait_sync:
  assumes "sync_device dev reg store"
  shows "\<exists>h'. h2c_wait n dev b h = (Inr (), h') \<and> reg h' = reg h"
proof (induction n arbitrary: h)
  case (Suc n)
  obtain h1 where h1: "rtw_read8 dev REG_HMETFR h = (Inr (reg h REG_HMETFR), h1)" "reg h1 = reg h"
    by (rule sync_read8 [OF assms])
  then show ?case
    using Suc [of "sleep_us dev 1000 h1"] sync_sleep [OF assms] by simp
qed simp

abbreviation (input) mailbox :: "u8 \<Rightarrow> u16" where "mailbox box \<equiv> of_nat (unat box mod 4 * 4)"

lemma h2c_wp:
  assumes "sync_device dev reg store" and "length buf \<le> 7"
    and "\<And>ok h'. reg h' = store (REG_HMEBOX_0 + mailbox box) (le_bytes 4 (fst (h2c_words el buf)))
      (store (REG_HMEBOX_EXT_0 + mailbox box) (le_bytes 4 (snd (h2c_words el buf))) (reg h)) \<Longrightarrow>
      Q (ok, of_nat ((unat box mod 4 + 1) mod 4)) h'"
  shows "wp (h2c dev el buf box) Q h"
proof -
  obtain h1 where "h2c_wait 100 dev (unat box mod 4) h = (Inr (), h1)" "reg h1 = reg h"
    using h2c_wait_sync [OF assms(1)] by blast
  then show ?thesis
    using assms(2,3) sync_write32 [OF assms(1)]
    by (auto simp: wp_def h2c_def fillH2CCmd_def Let_def split_beta)
qed

definition connected_regs :: "u8 \<Rightarrow> regs \<Rightarrow> regs" where
  "connected_regs box r =
    (let next_box = of_nat ((unat box mod 4 + 1) mod 4) :: u8;
         r = store MSR [r MSR AND 0x0C OR 2] r;
         r = store (REG_HMEBOX_0 + mailbox box) [0x40, 0, 0x89, 0x1a]
             (store (REG_HMEBOX_EXT_0 + mailbox box) [0x00, 0x80, 0xff, 0xff] r);
         r = store (REG_HMEBOX_0 + mailbox next_box) [0x42, 0, 0, 0x2e]
             (store (REG_HMEBOX_EXT_0 + mailbox next_box) [0, 0, 0, 0] r);
         r = store 0x8c3 [0x3F] r;
         r = store 0x0607 [r 0x0607 OR 7] r;
         r = store 0x837 [r 0x837 AND NOT 4] r
     in store REG_RXFLTMAP1 [0x00, 0x07] (store REG_RXFLTMAP2 [0xFF, 0xFF] (store REG_RXFLTMAP0 [0xFF, 0xFF]
        (store REG_RCR (le_bytes 4 (station_rcr no_env)) r))))"

lemma connected_words:
  "le_bytes 4 (fst (h2c_words 0x40 (macidCfg no_env 0))) = [0x40, 0, 0x89, 0x1a]"
  "le_bytes 4 (snd (h2c_words 0x40 (macidCfg no_env 0))) = [0x00, 0x80, 0xff, 0xff]"
  "le_bytes 4 (fst (h2c_words 0x42 [0, 0x00, 0x2e])) = [0x42, 0, 0, 0x2e]"
  "le_bytes 4 (snd (h2c_words 0x42 [0, 0x00, 0x2e])) = [0, 0, 0, 0]"
  by (simp_all add: h2c_words_def macidCfg_def no_env_def le_bytes_le_word) (simp add: eval_nat_numeral)

lemma update8_wp:
  assumes "sync_device dev reg store" and "\<And>h'. reg h' = store a [f (reg h a)] (reg h) \<Longrightarrow> Q () h'"
  shows "wp (rtw_read8 dev a) (\<lambda>v. wp (wr8 dev a (f v)) Q) h"
proof -
  have "wp (io_bind (rtw_read8 dev a) (\<lambda>v. wr8 dev a (f v))) Q h"
    by (rule wp_computes [OF computes_update8 [OF assms(1)]]) (use assms(2) in auto)
  then show ?thesis by simp
qed

lemma becomeStation_wp:
  assumes "sync_device dev reg store"
  shows "wp (becomeStation dev no_env box) (\<lambda>_ h'. reg h' = connected_regs box (reg h)) h"
proof -
  note c = sync_chip [OF assms]
  note acc = wp_computes [OF chip.write8 [OF c]] wp_computes [OF chip.write16 [OF c]]
    wp_computes [OF chip.write32 [OF c]] wp_computes [OF chip.read32 [OF c]]
    update8_wp [OF assms] h2c_wp [OF assms]
  have m7: "length (macidCfg no_env 0) \<le> 7" by (simp add: macidCfg_def no_env_def)
  have m3: "length [0, 0x00, 0x2e :: u8] \<le> 7" by simp
  have le: "le_bytes 2 (0x0700 :: u16) = [0x00, 0x07]" by (simp add: le_bytes_conv upt_rec)
  show ?thesis
    unfolding becomeStation_def no_env_def io_when_def set_msr_def io_seq.simps sendStationH2C_def
      SetStationRxFilter_def hw_var_rcr_config_def sta_env.simps simp_thms if_True if_False
    unfolding no_env_def [symmetric] wp_bind wp_then wp_return prod.case
    by ((rule acc m7 m3 | unfold case_prod_conv wp_bind wp_then wp_return)+)
      (simp only: connected_regs_def Let_def fst_conv snd_conv connected_words le le_bytes_FFFF)
qed

text \<open>
  C29: After \<open>becomeStation\<close> the chip is a connected station: network type station, the firmware has been told
  the rate table and the signal strength of peer 0 in two mailboxes in a row, every management and data
  subtype is let through, and the receive filter is the station filter. That filter does not accept data
  frames in general (\<open>RCR_ADF\<close>, which \<open>arm\<close> set because the key handshake needs it).
\<close>

theorem becomeStation_connects:
  assumes "sync_device dev reg store" and "box < 4"
  shows "\<exists>box' h'. becomeStation dev no_env box h = (Inr box', h') \<and>
    reg h' MSR = reg h MSR AND 0x0C OR HW_STATE_STATION \<and>
    map (\<lambda>i. reg h' (REG_HMEBOX_0 + 4 * ucast box + of_nat i)) [0..<4] @
      map (\<lambda>i. reg h' (REG_HMEBOX_EXT_0 + 4 * ucast box + of_nat i)) [0..<4] =
      0x40 # macidCfg no_env 0 \<and>
    map (\<lambda>i. reg h' (REG_HMEBOX_0 + 4 * ucast ((box + 1) mod 4) + of_nat i)) [0..<4] = [0x42, 0, 0, 0x2e] \<and>
    list_all (\<lambda>a. reg h' a = 0xFF) [REG_RXFLTMAP0, REG_RXFLTMAP0 + 1, REG_RXFLTMAP2, REG_RXFLTMAP2 + 1] \<and>
    reg32 (reg h') REG_RCR = station_rcr no_env \<and> reg32 (reg h') REG_RCR AND RCR_ADF = 0 \<and> arm_rcr AND RCR_ADF \<noteq> 0"
proof -
  obtain box' h' where h': "becomeStation dev no_env box h = (Inr box', h')" "reg h' = connected_regs box (reg h)"
    using becomeStation_wp [OF assms(1), of box h] by (auto simp: wp_def)
  have "unat box < 4" using assms(2) by (simp add: word_less_nat_alt)
  then have "unat box \<in> {0, 1, 2, 3}" by auto
  then have box: "box = 0 \<or> box = 1 \<or> box = 2 \<or> box = 3" by (simp add: word_unat_eq_iff)
  let ?c = "connected_regs box (reg h)"
  have m1: "unat (- 1 :: u16) = 65535" by (simp add: unsigned_minus_1_eq_mask mask_eq_exp_minus_1)
  note at = connected_regs_def Let_def store_apply
  have msr: "?c MSR = reg h MSR AND 0x0C OR HW_STATE_STATION"
    using box by (elim disjE; simp only: at) simp_all
  have rcr: "reg32 ?c REG_RCR = station_rcr no_env"
    using box by (elim disjE; simp only: connected_regs_def Let_def) (simp_all add: reg32_store_apart)
  have cmd: "map (\<lambda>i. ?c (REG_HMEBOX_0 + 4 * ucast box + of_nat i)) [0..<4] @
      map (\<lambda>i. ?c (REG_HMEBOX_EXT_0 + 4 * ucast box + of_nat i)) [0..<4] = 0x40 # macidCfg no_env 0"
    using box by (elim disjE; simp only: upt_2_4 list.map macidCfg_def no_env_def at) (simp_all add: m1)
  have rssi: "map (\<lambda>i. ?c (REG_HMEBOX_0 + 4 * ucast ((box + 1) mod 4) + of_nat i)) [0..<4] = [0x42, 0, 0, 0x2e]"
    using box by (elim disjE; simp only: upt_2_4 list.map at) (simp_all add: m1)
  have flt: "list_all (\<lambda>a. ?c a = 0xFF) [REG_RXFLTMAP0, REG_RXFLTMAP0 + 1, REG_RXFLTMAP2, REG_RXFLTMAP2 + 1]"
    by (simp add: at m1)
  have adf: "arm_rcr AND RCR_ADF \<noteq> 0" "station_rcr no_env AND RCR_ADF = 0"
    unfolding rcr_values RCR_ADF_def by (simp_all add: push_bit_eq_mult)
  show ?thesis
    using h' msr rcr cmd rssi flt adf by simp
qed

theorem becomeStation_connects_witness:
  "\<exists>box' r'. becomeStation (reg_file store) no_env 3 (\<lambda>_. 0xFF) = (Inr box', r') \<and> r' MSR = 0x0E \<and>
    map (\<lambda>i. r' (REG_HMEBOX_0 + of_nat i)) [0..<4] = [0x42, 0, 0, 0x2e]"
  using becomeStation_connects [OF sync_reg_file, of 3 "\<lambda>_. 0xFF"] by auto

end
