(* ===== verification/StationJoin.thy ===== *)
theory StationJoin
  imports Watchdog StationRegs SendPacket Dot11Frames
begin

text \<open>
  Joining a network: the frames, \<open>onMgmtFrame\<close> and \<open>runProbe\<close> of src/StationMode.cpp, and the scan before it.
  \<open>runProbe\<close> sleeps between its steps while other threads deliver frames, so it is a machine: a phase for
  every sleep, and events for the call, for a received management frame and for the end of a sleep. The code
  between two sleeps is one step.
\<close>

section \<open>The frames of a station\<close>

record mgmt_env =
  mgmt_rate :: "u8 option"
  mgmt_macid :: "u8 option"
  mgmt_raid :: "u8 option"
  auth_bmc :: bool
  skip_deauth :: bool
  ofdm_rates_only :: bool
  fw_ra_env :: bool

definition mgmtTxRate :: "mgmt_env \<Rightarrow> int \<Rightarrow> u8" where
  "mgmtTxRate e channel = (case mgmt_rate e of Some r \<Rightarrow> r | None \<Rightarrow> if channel > 14 then 0x04 else 0x00)"

definition mgmtMacId :: "mgmt_env \<Rightarrow> u8" where
  "mgmtMacId e = (case mgmt_macid e of Some m \<Rightarrow> m | None \<Rightarrow> 1)"

definition mgmtRaid :: "mgmt_env \<Rightarrow> int \<Rightarrow> u8" where
  "mgmtRaid e channel = (case mgmt_raid e of Some r \<Rightarrow> r | None \<Rightarrow> if channel > 14 then 7 else 8)"

definition mgmtKind :: "mgmt_env \<Rightarrow> StationFrameKind" where
  "mgmtKind e = (if auth_bmc e then BroadcastMgmt else Mgmt)"

definition mgmt_tx :: "mgmt_env \<Rightarrow> int \<Rightarrow> bytes \<Rightarrow> bytes option" where
  "mgmt_tx e channel mpdu =
    FillStationTxDesc (fw_ra_env e) (replicate TXDESC_SIZE 0 @ mpdu) (of_nat (length mpdu)) 40
      (mgmtMacId e) (mgmtKind e) (mgmtRaid e channel) (mgmtTxRate e channel)"

definition auth_frame :: "mgmt_env \<Rightarrow> int \<Rightarrow> bytes \<Rightarrow> bytes \<Rightarrow> bytes option" where
  "auth_frame e channel self bssid = mgmt_tx e channel (BuildAuthOpenSeq1 self bssid)"

definition assoc_rsnCaps :: "int \<Rightarrow> u16" where
  "assoc_rsnCaps pmf = (if pmf \<ge> 1 then 0x0080 else 0) OR (if pmf \<ge> 2 then 0x0040 else 0)"

definition assoc_frame ::
    "mgmt_env \<Rightarrow> int \<Rightarrow> bytes \<Rightarrow> bytes \<Rightarrow> bytes \<Rightarrow> u32 \<times> u32 \<times> int \<Rightarrow> bytes option" where
  "assoc_frame e channel self bssid ssid security =
    (case security of (pw, grp, pmf) \<Rightarrow>
      mgmt_tx e channel (BuildAssocRequest_negotiated (ofdm_rates_only e) self bssid ssid pw grp (assoc_rsnCaps pmf)))"

definition deauth_mpdu :: "bytes \<Rightarrow> bytes \<Rightarrow> bytes" where
  "deauth_mpdu self bssid = [0xC0, 0x00, 0x00, 0x00] @ bssid @ self @ bssid @ [0, 0] @ [0x03, 0x00]"

definition deauth_frame :: "mgmt_env \<Rightarrow> int \<Rightarrow> bytes \<Rightarrow> bytes \<Rightarrow> bytes option" where
  "deauth_frame e channel self bssid = mgmt_tx e channel (deauth_mpdu self bssid)"

section \<open>The joining machine\<close>

definition fc_type :: "u16 \<Rightarrow> u16" where "fc_type fc = drop_bit 2 fc AND 0x3"
definition fc_subtype :: "u16 \<Rightarrow> u16" where "fc_subtype fc = drop_bit 4 fc AND 0xF"

datatype Result = GO_LinkHeld | NOGO_Deauthed | NOGO_NoAssocResp | TXFAIL_NoAuthResp | Error | Thrown

datatype phase =
    Ready
  | DeauthSleep
  | RetrySleep nat
  | AuthSleep nat nat nat
  | AssocPause
  | AssocSleep nat
  | HoldSleep nat
  | Finished Result

datatype sta_out = Tx "bytes option" | OnPhase nat | Connected

record probe =
  expectSelf :: bytes
  expectBssid :: bytes
  gotAuthResp :: bool
  gotAssocOk :: bool
  gotDeauth :: bool
  pr_ssid :: bytes
  pr_hold :: nat
  pr_phase :: phase
  pr_now :: nat
  pr_out :: "sta_out list"

definition probe_init :: probe where
  "probe_init = \<lparr>expectSelf = replicate 6 0, expectBssid = replicate 6 0, gotAuthResp = False,
     gotAssocOk = False, gotDeauth = False, pr_ssid = [], pr_hold = 0, pr_phase = Ready, pr_now = 0, pr_out = []\<rparr>"

definition emit :: "sta_out \<Rightarrow> probe \<Rightarrow> probe" where
  "emit x p = p\<lparr>pr_out := pr_out p @ [x]\<rparr>"

definition goto :: "phase \<Rightarrow> probe \<Rightarrow> probe" where
  "goto ph p = p\<lparr>pr_phase := ph\<rparr>"

definition onMgmtFrame :: "u16 \<Rightarrow> bytes \<Rightarrow> bytes \<Rightarrow> probe \<Rightarrow> probe" where
  "onMgmtFrame fc a1 a2 p =
    (if fc_type fc \<noteq> 0 then p
     else if \<not> (a1 = expectSelf p \<and> a2 = expectBssid p) then p
     else if fc_subtype fc = 0xB then p\<lparr>gotAuthResp := True\<rparr>
     else if fc_subtype fc = 0x1 then p\<lparr>gotAssocOk := True\<rparr>
     else if fc_subtype fc = 0xC \<or> fc_subtype fc = 0xA then p\<lparr>gotDeauth := True\<rparr>
     else p)"

text \<open>Heads of the loops: either another sleep or what follows the loop.\<close>

definition hold_head :: "nat \<Rightarrow> probe \<Rightarrow> probe" where
  "hold_head h0 p =
    (if pr_now p - h0 < 1000 * pr_hold p
     then (if gotDeauth p then goto (Finished NOGO_Deauthed) p else goto (HoldSleep h0) p)
     else goto (Finished GO_LinkHeld) p)"

definition assoc_head :: "nat \<Rightarrow> probe \<Rightarrow> probe" where
  "assoc_head t1 p =
    (if \<not> gotAssocOk p \<and> \<not> gotDeauth p \<and> pr_now p - t1 < 3000 then goto (AssocSleep t1) p
     else if gotDeauth p then goto (Finished NOGO_Deauthed) p
     else if \<not> gotAssocOk p then goto (Finished NOGO_NoAssocResp) p
     else (let p = emit Connected p in hold_head (pr_now p) p))"

definition auth_head :: "nat \<Rightarrow> nat \<Rightarrow> nat \<Rightarrow> probe \<Rightarrow> probe" where
  "auth_head t0 lastTx retx p =
    (if \<not> gotAuthResp p \<and> \<not> gotDeauth p \<and> pr_now p - t0 < 3000 then goto (AuthSleep t0 lastTx retx) p
     else if \<not> gotAuthResp p then goto (Finished TXFAIL_NoAuthResp) p
     else goto AssocPause (emit (OnPhase 2) p))"

text \<open>
  The environment of a join: channel, negotiated security and the settings for frames. \<open>ok\<close> is what
  the send function returned.
\<close>

record join_env =
  je_mgmt :: mgmt_env
  je_channel :: int
  je_security :: "u32 \<times> u32 \<times> int"

definition send_auth :: "join_env \<Rightarrow> probe \<Rightarrow> probe" where
  "send_auth e p = emit (Tx (auth_frame (je_mgmt e) (je_channel e) (expectSelf p) (expectBssid p))) p"

definition auth_start :: "join_env \<Rightarrow> bool \<Rightarrow> probe \<Rightarrow> probe" where
  "auth_start e ok p =
    (let p = send_auth e (emit (OnPhase 1) p) in
     if ok then auth_head (pr_now p) (pr_now p) 0 p else goto (RetrySleep 0) p)"

definition runProbe_call ::
    "join_env \<Rightarrow> bytes \<Rightarrow> bytes \<Rightarrow> bytes \<Rightarrow> nat \<Rightarrow> bool \<Rightarrow> bool \<Rightarrow> probe \<Rightarrow> probe" where
  "runProbe_call e self bssid ssid holdSeconds arm_ok ok p =
    (let p = p\<lparr>expectSelf := self, expectBssid := bssid, pr_ssid := ssid, pr_hold := holdSeconds\<rparr> in
     if \<not> arm_ok then goto (Finished Thrown) p
     else if skip_deauth (je_mgmt e) then auth_start e ok p
     else goto DeauthSleep (emit (Tx (deauth_frame (je_mgmt e) (je_channel e) self bssid)) p))"

definition sleep_ms :: "phase \<Rightarrow> nat" where
  "sleep_ms ph = (case ph of
     DeauthSleep \<Rightarrow> 60 | RetrySleep i \<Rightarrow> 60 | AuthSleep t0 lastTx retx \<Rightarrow> 50 | AssocPause \<Rightarrow> 100
   | AssocSleep t1 \<Rightarrow> 50 | HoldSleep h0 \<Rightarrow> 100 | _ \<Rightarrow> 0)"

definition runProbe_wake :: "join_env \<Rightarrow> bool \<Rightarrow> probe \<Rightarrow> probe" where
  "runProbe_wake e ok p =
    (case pr_phase p of
       DeauthSleep \<Rightarrow> auth_start e ok p
     | RetrySleep i \<Rightarrow>
         (let p = send_auth e p in
          if \<not> ok \<and> i + 1 < 5 then goto (RetrySleep (i + 1)) p else auth_head (pr_now p) (pr_now p) 0 p)
     | AuthSleep t0 lastTx retx \<Rightarrow>
         if \<not> gotAuthResp p \<and> retx < 8 \<and> pr_now p - lastTx > 300
         then auth_head t0 (pr_now p) (retx + 1) (send_auth e p)
         else auth_head t0 lastTx retx p
     | AssocPause \<Rightarrow>
         (let p = emit (Tx (assoc_frame (je_mgmt e) (je_channel e) (expectSelf p) (expectBssid p) (pr_ssid p) (je_security e))) p in
          if \<not> ok then goto (Finished Error) p else assoc_head (pr_now p) p)
     | AssocSleep t1 \<Rightarrow> assoc_head t1 p
     | HoldSleep h0 \<Rightarrow> hold_head h0 p
     | _ \<Rightarrow> p)"

datatype event =
    Call bytes bytes bytes nat bool bool
  | Frame u16 bytes bytes
  | Wake nat bool

text \<open>A sleep lasts at least as long as asked for, here \<open>late\<close> milliseconds longer.\<close>

primrec probe_step :: "join_env \<Rightarrow> event \<Rightarrow> probe \<Rightarrow> probe" where
  "probe_step e (Call self bssid ssid holdSeconds arm_ok ok) p =
    (case pr_phase p of
       Ready \<Rightarrow> runProbe_call e self bssid ssid holdSeconds arm_ok ok p
     | Finished r \<Rightarrow> runProbe_call e self bssid ssid holdSeconds arm_ok ok p
     | _ \<Rightarrow> p)"
| "probe_step e (Frame fc a1 a2) p = onMgmtFrame fc a1 a2 p"
| "probe_step e (Wake late ok) p = runProbe_wake e ok (p\<lparr>pr_now := pr_now p + sleep_ms (pr_phase p) + late\<rparr>)"

definition probe_run :: "join_env \<Rightarrow> event list \<Rightarrow> probe \<Rightarrow> probe" where
  "probe_run e evs p = fold (probe_step e) evs p"

section \<open>Only an answer of the access point connects\<close>

definition answer :: "bytes \<Rightarrow> bytes \<Rightarrow> u16 set \<Rightarrow> event \<Rightarrow> bool" where
  "answer self bssid subs ev \<longleftrightarrow>
    (\<exists>fc. ev = Frame fc self bssid \<and> fc_type fc = 0 \<and> fc_subtype fc \<in> subs)"

definition heard :: "bytes \<Rightarrow> bytes \<Rightarrow> u16 set \<Rightarrow> event list \<Rightarrow> bool" where
  "heard self bssid subs evs \<longleftrightarrow> (\<exists>ev \<in> set evs. answer self bssid subs ev)"

primrec is_call :: "event \<Rightarrow> bool" where
  "is_call (Call self bssid ssid holdSeconds arm_ok ok) = True"
| "is_call (Frame fc a1 a2) = False"
| "is_call (Wake late ok) = False"

lemmas probe_moves = emit_def goto_def hold_head_def assoc_head_def auth_head_def send_auth_def auth_start_def

text \<open>What the flags say during one call on a fresh object.\<close>

definition joining :: "bytes \<Rightarrow> bytes \<Rightarrow> event list \<Rightarrow> probe \<Rightarrow> bool" where
  "joining self bssid evs p \<longleftrightarrow> expectSelf p = self \<and> expectBssid p = bssid \<and>
    gotAuthResp p = heard self bssid {0xB} evs \<and> gotAssocOk p = heard self bssid {0x1} evs \<and>
    gotDeauth p = heard self bssid {0xC, 0xA} evs \<and>
    (pr_phase p = AssocPause \<or> (\<exists>t. pr_phase p = AssocSleep t) \<longrightarrow> gotAuthResp p) \<and>
    pr_phase p \<noteq> Ready"

lemma heard_snoc: "heard self bssid subs (evs @ [ev]) \<longleftrightarrow> heard self bssid subs evs \<or> answer self bssid subs ev"
  by (auto simp: heard_def)

lemma joining_wake:
  assumes "joining self bssid evs p"
  shows "joining self bssid (evs @ [Wake late ok]) (probe_step e (Wake late ok) p)"
  using assms
  by (cases "pr_phase p")
    (auto simp: joining_def heard_snoc answer_def runProbe_wake_def probe_moves Let_def)

lemma joining_frame:
  assumes "joining self bssid evs p"
  shows "joining self bssid (evs @ [Frame fc a1 a2]) (probe_step e (Frame fc a1 a2) p)"
  using assms by (auto simp: joining_def heard_snoc answer_def onMgmtFrame_def)

lemma joining_call:
  "joining self bssid [] (probe_step e (Call self bssid ssid holdSeconds arm_ok ok) probe_init)"
  by (auto simp: joining_def probe_init_def runProbe_call_def probe_moves Let_def heard_def)

text \<open>A step that announces the connection has heard both answers and no rejection.\<close>

definition answered :: "bytes \<Rightarrow> bytes \<Rightarrow> event list \<Rightarrow> bool" where
  "answered self bssid evs \<longleftrightarrow> (\<exists>pre post. evs = pre @ post \<and> heard self bssid {0xB} pre \<and>
    heard self bssid {0x1} pre \<and> \<not> heard self bssid {0xC, 0xA} pre)"

definition connected_by :: "bytes \<Rightarrow> bytes \<Rightarrow> event list \<Rightarrow> probe \<Rightarrow> bool" where
  "connected_by self bssid evs p \<longleftrightarrow>
    (Connected \<in> set (pr_out p) \<longrightarrow> answered self bssid evs) \<and>
    (pr_phase p = Finished GO_LinkHeld \<or> (\<exists>h. pr_phase p = HoldSleep h) \<longrightarrow> Connected \<in> set (pr_out p))"

lemma answered_snoc: "answered self bssid evs \<Longrightarrow> answered self bssid (evs @ [ev])"
  unfolding answered_def by (metis append_assoc)

lemma answered_now:
  "heard self bssid {0xB} evs \<Longrightarrow> heard self bssid {0x1} evs \<Longrightarrow> \<not> heard self bssid {0xC, 0xA} evs \<Longrightarrow>
    answered self bssid (evs @ [ev])"
  unfolding answered_def by blast

lemma connected_by_wake:
  assumes "joining self bssid evs p" and "connected_by self bssid evs p"
  shows "connected_by self bssid (evs @ [Wake late ok]) (probe_step e (Wake late ok) p)"
proof -
  have now: "gotAuthResp p \<Longrightarrow> gotAssocOk p \<Longrightarrow> \<not> gotDeauth p \<Longrightarrow> answered self bssid (evs @ [Wake late ok])"
    using assms(1) by (intro answered_now) (simp_all add: joining_def)
  have old: "Connected \<in> set (pr_out p) \<Longrightarrow> answered self bssid (evs @ [Wake late ok])"
    using assms(2) answered_snoc by (simp add: connected_by_def)
  show ?thesis
    using assms now old
    by (cases "pr_phase p") (auto simp: connected_by_def joining_def runProbe_wake_def probe_moves Let_def)
qed

lemma connected_by_frame:
  assumes "connected_by self bssid evs p"
  shows "connected_by self bssid (evs @ [Frame fc a1 a2]) (probe_step e (Frame fc a1 a2) p)"
  using assms answered_snoc [of self bssid evs] by (auto simp: connected_by_def onMgmtFrame_def)

lemma joining_run:
  assumes "list_all (\<lambda>ev. \<not> is_call ev) evs"
  shows "joining self bssid evs (probe_run e (Call self bssid ssid holdSeconds arm_ok ok # evs) probe_init) \<and>
    connected_by self bssid evs (probe_run e (Call self bssid ssid holdSeconds arm_ok ok # evs) probe_init)"
  using assms
proof (induction evs rule: rev_induct)
  case Nil
  have "connected_by self bssid [] (probe_step e (Call self bssid ssid holdSeconds arm_ok ok) probe_init)"
    by (auto simp: connected_by_def probe_init_def runProbe_call_def probe_moves Let_def)
  with joining_call show ?case by (simp add: probe_run_def)
next
  case (snoc ev evs)
  let ?p = "probe_run e (Call self bssid ssid holdSeconds arm_ok ok # evs) probe_init"
  have step: "probe_run e (Call self bssid ssid holdSeconds arm_ok ok # evs @ [ev]) probe_init = probe_step e ev ?p"
    by (simp add: probe_run_def)
  have "joining self bssid evs ?p" "connected_by self bssid evs ?p" using snoc by simp_all
  with snoc.prems show ?case
    unfolding step
    by (cases ev) (auto simp del: probe_step.simps
        intro: joining_wake joining_frame connected_by_wake connected_by_frame)
qed

text \<open>
  C5: On a fresh object a join that reports the link as held, or that told the rest of the driver it is
  connected, had received an authentication and an association response of the access point it was called
  for, addressed to this station, and no deauthentication or disassociation of it up to then. Frames of other
  stations and of other access points do not count, in whatever order anything arrives.
\<close>

theorem held_link_was_answered:
  assumes "list_all (\<lambda>ev. \<not> is_call ev) evs"
    and "p = probe_run e (Call self bssid ssid holdSeconds arm_ok ok # evs) probe_init"
    and "pr_phase p = Finished GO_LinkHeld \<or> Connected \<in> set (pr_out p)"
  shows "\<exists>pre post. evs = pre @ post \<and> heard self bssid {0xB} pre \<and> heard self bssid {0x1} pre \<and>
    \<not> heard self bssid {0xC, 0xA} pre"
  using joining_run [OF assms(1), of self bssid e ssid holdSeconds arm_ok ok] assms(2,3)
  by (auto simp: connected_by_def answered_def)

section \<open>The call returns\<close>

text \<open>An upper bound for the number of sleeps still to come.\<close>

definition sleeps_left :: "probe \<Rightarrow> nat" where
  "sleeps_left p = (case pr_phase p of
     DeauthSleep \<Rightarrow> 130 + 10 * pr_hold p
   | RetrySleep i \<Rightarrow> 124 + (5 - i) + 10 * pr_hold p
   | AuthSleep t0 lastTx retx \<Rightarrow> 64 + (3000 - (pr_now p - t0) + 49) div 50 + 10 * pr_hold p
   | AssocPause \<Rightarrow> 63 + 10 * pr_hold p
   | AssocSleep t1 \<Rightarrow> 2 + (3000 - (pr_now p - t1) + 49) div 50 + 10 * pr_hold p
   | HoldSleep h0 \<Rightarrow> 1 + (1000 * pr_hold p - (pr_now p - h0) + 99) div 100
   | _ \<Rightarrow> 0)"

definition clock_ok :: "probe \<Rightarrow> bool" where
  "clock_ok p \<longleftrightarrow> (case pr_phase p of
     RetrySleep i \<Rightarrow> i < 5
   | AuthSleep t0 lastTx retx \<Rightarrow> t0 \<le> pr_now p \<and> pr_now p - t0 < 3000
   | AssocSleep t1 \<Rightarrow> t1 \<le> pr_now p \<and> pr_now p - t1 < 3000
   | HoldSleep h0 \<Rightarrow> h0 \<le> pr_now p \<and> pr_now p - h0 < 1000 * pr_hold p
   | _ \<Rightarrow> True)"

definition waiting :: "probe \<Rightarrow> bool" where
  "waiting p \<longleftrightarrow> (case pr_phase p of Ready \<Rightarrow> False | Finished r \<Rightarrow> False | _ \<Rightarrow> True)"

lemma div_50_less: "x + 50 \<le> y \<Longrightarrow> (x + 49) div 50 < (y + 49) div (50 :: nat)"
  by linarith

lemma div_100_less: "x + 100 \<le> y \<Longrightarrow> (x + 99) div 100 < (y + 99) div (100 :: nat)"
  by linarith

lemma waiting_iff: "waiting p \<longleftrightarrow> sleeps_left p > 0"
  by (auto simp: waiting_def sleeps_left_def split: phase.split)

lemma heads_left:
  "sleeps_left (hold_head (pr_now p) p) \<le> 1 + 10 * pr_hold p"
  "sleeps_left (assoc_head (pr_now p) p) \<le> 62 + 10 * pr_hold p"
  "sleeps_left (auth_head (pr_now p) l r p) \<le> 124 + 10 * pr_hold p"
  by (auto simp: sleeps_left_def probe_moves Let_def)

lemma heads_clock:
  "h0 \<le> pr_now p \<Longrightarrow> clock_ok (hold_head h0 p)"
  "t1 \<le> pr_now p \<Longrightarrow> clock_ok (assoc_head t1 p)"
  "t0 \<le> pr_now p \<Longrightarrow> clock_ok (auth_head t0 l r p)"
  by (auto simp: clock_ok_def probe_moves Let_def)

lemma heads_hold [simp]:
  "pr_hold (hold_head h0 p) = pr_hold p" "pr_hold (assoc_head t1 p) = pr_hold p"
  "pr_hold (auth_head t0 l r p) = pr_hold p" "pr_hold (send_auth e p) = pr_hold p"
  "pr_now (send_auth e p) = pr_now p" "pr_hold (emit x p) = pr_hold p" "pr_now (emit x p) = pr_now p"
  by (simp_all add: probe_moves Let_def)

lemma wake_left:
  assumes "clock_ok p"
  shows "clock_ok (probe_step e (Wake late ok) p) \<and>
    sleeps_left (probe_step e (Wake late ok) p) \<le> sleeps_left p - 1"
proof (cases "pr_phase p")
  case (AuthSleep t0 lastTx retx)
  let ?p = "p\<lparr>pr_now := pr_now p + 50 + late\<rparr>"
  have t: "t0 \<le> pr_now p" "pr_now p - t0 < 3000" using assms AuthSleep by (simp_all add: clock_ok_def)
  have go: "sleeps_left (auth_head t0 l r q) \<le> sleeps_left p - 1 \<and> clock_ok (auth_head t0 l r q)"
    if "pr_now q = pr_now p + 50 + late" "pr_hold q = pr_hold p" for l r q
    using t that AuthSleep div_50_less [of "3000 - (pr_now q - t0)" "3000 - (pr_now p - t0)"]
    by (auto simp: sleeps_left_def auth_head_def goto_def emit_def clock_ok_def)
  show ?thesis
    using go [of ?p] go [of "send_auth e ?p"] AuthSleep
    by (auto simp: runProbe_wake_def sleep_ms_def Let_def)
next
  case (AssocSleep t1)
  let ?p = "p\<lparr>pr_now := pr_now p + 50 + late\<rparr>"
  have t: "t1 \<le> pr_now p" "pr_now p - t1 < 3000" using assms AssocSleep by (simp_all add: clock_ok_def)
  then have "sleeps_left (assoc_head t1 ?p) < sleeps_left p"
    using AssocSleep div_50_less [of "3000 - (pr_now ?p - t1)" "3000 - (pr_now p - t1)"]
    by (auto simp: sleeps_left_def assoc_head_def hold_head_def goto_def emit_def Let_def)
  then show ?thesis
    using t AssocSleep heads_clock(2) [of t1 ?p] by (simp add: runProbe_wake_def sleep_ms_def)
next
  case (HoldSleep h0)
  let ?p = "p\<lparr>pr_now := pr_now p + 100 + late\<rparr>"
  have t: "h0 \<le> pr_now p" "pr_now p - h0 < 1000 * pr_hold p" using assms HoldSleep by (simp_all add: clock_ok_def)
  then have "sleeps_left (hold_head h0 ?p) < sleeps_left p"
    using HoldSleep div_100_less [of "1000 * pr_hold p - (pr_now ?p - h0)" "1000 * pr_hold p - (pr_now p - h0)"]
    by (auto simp: sleeps_left_def hold_head_def goto_def)
  then show ?thesis
    using t HoldSleep heads_clock(1) [of h0 ?p] by (simp add: runProbe_wake_def sleep_ms_def)
next
  case DeauthSleep
  let ?p = "send_auth e (emit (OnPhase 1) (p\<lparr>pr_now := pr_now p + 60 + late\<rparr>))"
  show ?thesis
    using DeauthSleep heads_left(3) [of ?p "pr_now ?p" 0] heads_clock(3) [of "pr_now ?p" ?p "pr_now ?p" 0]
    by (auto simp: runProbe_wake_def sleep_ms_def auth_start_def Let_def sleeps_left_def [of p])
      (simp_all add: sleeps_left_def clock_ok_def goto_def)
next
  case (RetrySleep i)
  let ?p = "send_auth e (p\<lparr>pr_now := pr_now p + 60 + late\<rparr>)"
  have "i < 5" using assms RetrySleep by (simp add: clock_ok_def)
  then show ?thesis
    using RetrySleep heads_left(3) [of ?p "pr_now ?p" 0] heads_clock(3) [of "pr_now ?p" ?p "pr_now ?p" 0]
    by (auto simp: runProbe_wake_def sleep_ms_def Let_def sleeps_left_def [of p])
      (simp_all add: sleeps_left_def clock_ok_def goto_def)
next
  case AssocPause
  let ?q = "p\<lparr>pr_now := pr_now p + 100 + late\<rparr>"
  let ?p = "emit (Tx (assoc_frame (je_mgmt e) (je_channel e) (expectSelf ?q) (expectBssid ?q) (pr_ssid ?q) (je_security e))) ?q"
  show ?thesis
    using AssocPause heads_left(2) [of ?p] heads_clock(2) [of "pr_now ?p" ?p]
    by (auto simp: runProbe_wake_def sleep_ms_def Let_def sleeps_left_def [of p])
      (simp_all add: sleeps_left_def clock_ok_def goto_def)
qed (simp_all add: runProbe_wake_def sleep_ms_def sleeps_left_def clock_ok_def)

primrec is_wake :: "event \<Rightarrow> bool" where
  "is_wake (Call self bssid ssid holdSeconds arm_ok ok) = False"
| "is_wake (Frame fc a1 a2) = False"
| "is_wake (Wake late ok) = True"

lemma frame_same [simp]:
  "pr_phase (onMgmtFrame fc a1 a2 p) = pr_phase p" "pr_now (onMgmtFrame fc a1 a2 p) = pr_now p"
  "pr_hold (onMgmtFrame fc a1 a2 p) = pr_hold p" "pr_out (onMgmtFrame fc a1 a2 p) = pr_out p"
  by (simp_all add: onMgmtFrame_def)

lemma run_left:
  assumes "list_all (\<lambda>ev. \<not> is_call ev) evs" and "clock_ok p"
  shows "sleeps_left (probe_run e evs p) \<le> sleeps_left p - length (filter is_wake evs)"
  using assms
proof (induction evs arbitrary: p)
  case (Cons ev evs)
  show ?case
  proof (cases ev)
    case (Wake late ok)
    then show ?thesis
      using wake_left [OF Cons.prems(2), of e late ok] Cons.IH [of "probe_step e ev p"] Cons.prems(1)
      by (simp add: probe_run_def del: probe_step.simps) linarith
  next
    case (Frame fc a1 a2)
    have "clock_ok (probe_step e ev p)" "sleeps_left (probe_step e ev p) = sleeps_left p"
      using Cons.prems(2) Frame by (simp_all add: clock_ok_def sleeps_left_def cong: phase.case_cong)
    then show ?thesis
      using Cons.IH [of "probe_step e ev p"] Cons.prems(1) Frame by (simp add: probe_run_def del: probe_step.simps)
  qed (use Cons.prems in simp)
qed (simp add: probe_run_def)

lemma call_finishes:
  assumes "\<not> waiting p" and "list_all (\<lambda>ev. \<not> is_call ev) evs"
    and "130 + 10 * holdSeconds \<le> length (filter is_wake evs)"
  shows "\<exists>r. pr_phase (probe_run e (Call self bssid ssid holdSeconds arm_ok ok # evs) p) = Finished r"
proof -
  let ?c = "Call self bssid ssid holdSeconds arm_ok ok"
  let ?p = "probe_step e ?c p"
  let ?q = "p\<lparr>expectSelf := self, expectBssid := bssid, pr_ssid := ssid, pr_hold := holdSeconds\<rparr>"
  let ?a = "send_auth e (emit (OnPhase 1) ?q)"
  have "pr_phase p = Ready \<or> (\<exists>r. pr_phase p = Finished r)"
    using assms(1) by (cases "pr_phase p") (simp_all add: waiting_def)
  then have call: "?p = runProbe_call e self bssid ssid holdSeconds arm_ok ok p" by auto
  have "clock_ok ?p \<and> sleeps_left ?p \<le> 130 + 10 * holdSeconds"
    using heads_clock(3) [of "pr_now ?a" ?a "pr_now ?a" 0] heads_left(3) [of ?a "pr_now ?a" 0]
    unfolding call runProbe_call_def auth_start_def Let_def
    by (auto simp: goto_def) (auto simp: clock_ok_def sleeps_left_def)
  then have "sleeps_left (probe_run e evs ?p) = 0"
    using run_left [OF assms(2), of ?p e] assms(3) by linarith
  then have "\<not> waiting (probe_run e evs ?p)" by (simp add: waiting_iff)
  moreover have "pr_phase (probe_run e evs ?p) \<noteq> Ready"
    using assms(2)
  proof (induction evs rule: rev_induct)
    case Nil
    then show ?case unfolding call by (auto simp: probe_run_def runProbe_call_def probe_moves Let_def)
  next
    case (snoc ev evs)
    then show ?case
      by (cases ev; cases "pr_phase (probe_run e evs ?p)")
        (auto simp: probe_run_def onMgmtFrame_def runProbe_wake_def probe_moves Let_def)
  qed
  ultimately show ?thesis
    by (cases "pr_phase (probe_run e evs ?p)") (auto simp: probe_run_def waiting_def simp del: probe_step.simps)
qed

text \<open>
  \<open>runProbe\<close> returns. Whatever the object went through before, whatever frames arrive and however the
  sends and the calibration turn out, after at most 130 sleeps and ten more for every second of the hold time
  the call is over with one of its results.
\<close>

theorem runProbe_returns:
  assumes "\<not> waiting p" and "list_all (\<lambda>ev. \<not> is_call ev) evs"
    and "130 + 10 * holdSeconds \<le> length (filter is_wake evs)"
  shows "\<exists>r. pr_phase (probe_run e (Call self bssid ssid holdSeconds arm_ok ok # evs) p) = Finished r"
  by (rule call_finishes [OF assms])

section \<open>Answers outlive the call they were meant for\<close>

text \<open>
  C30: The answers of an earlier join count for the next one. On an object whose last join held and that was
  not deauthenticated, a call for any other access point reports the link as held although not a single
  frame arrives, as long as the sends succeed: nothing clears the flags.
\<close>

theorem stale_answers_hold_link:
  assumes "\<not> waiting p" and "gotAuthResp p" and "gotAssocOk p" and "\<not> gotDeauth p"
    and "list_all (\<lambda>ev. \<exists>late. ev = Wake late True) evs" and "130 + 10 * holdSeconds \<le> length evs"
  shows "pr_phase (probe_run e (Call self bssid ssid holdSeconds True True # evs) p) = Finished GO_LinkHeld"
proof -
  let ?run = "\<lambda>evs. probe_run e (Call self bssid ssid holdSeconds True True # evs) p"
  have no_call: "list_all (\<lambda>ev. \<not> is_call ev) evs" "filter is_wake evs = evs"
    using assms(5) by (induction evs) auto
  have "gotAuthResp (?run evs) \<and> gotAssocOk (?run evs) \<and> \<not> gotDeauth (?run evs) \<and>
      pr_phase (?run evs) \<in> {DeauthSleep, AssocPause, Finished GO_LinkHeld} \<union> range HoldSleep"
    using assms(5)
  proof (induction evs rule: rev_induct)
    case Nil
    have "pr_phase p = Ready \<or> (\<exists>r. pr_phase p = Finished r)"
      using assms(1) by (cases "pr_phase p") (simp_all add: waiting_def)
    then have "?run [] = runProbe_call e self bssid ssid holdSeconds True True p"
      by (auto simp: probe_run_def)
    then show ?case
      using assms(2-4) by (simp add: runProbe_call_def probe_moves Let_def)
  next
    case (snoc ev evs)
    then obtain late where ev: "ev = Wake late True" by auto
    let ?q = "?run evs"
    have step: "?run (evs @ [ev]) = probe_step e ev ?q" by (simp add: probe_run_def)
    have q: "gotAuthResp ?q" "gotAssocOk ?q" "\<not> gotDeauth ?q"
      "pr_phase ?q \<in> {DeauthSleep, AssocPause, Finished GO_LinkHeld} \<union> range HoldSleep"
      using snoc by simp_all
    show ?case
      unfolding step using q ev by (auto simp: runProbe_wake_def probe_moves Let_def split: if_splits)
  qed
  moreover obtain r where "pr_phase (?run evs) = Finished r"
    using call_finishes [OF assms(1) no_call(1), of holdSeconds e self bssid ssid True True] assms(6) no_call(2) by auto
  ultimately show ?thesis by auto
qed

section \<open>Scanning\<close>

record scan =
  scanSsid :: bytes
  scanResult :: ApInfo
  lastBeaconRssi :: int

definition scan_init :: scan where
  "scan_init = \<lparr>scanSsid = [], scanResult = no_ap, lastBeaconRssi = 0\<rparr>"

definition onScanFrame :: "bytes \<Rightarrow> scan \<Rightarrow> scan" where
  "onScanFrame f s =
    (case parseBeacon f (scanSsid s) of
       None \<Rightarrow> s
     | Some info \<Rightarrow>
         s\<lparr>scanResult := (if \<not> ap_found (scanResult s) \<or> ap_rssi info > ap_rssi (scanResult s) then info else scanResult s),
           lastBeaconRssi := (if ap_rssi info > -127 then ap_rssi info else lastBeaconRssi s)\<rparr>)"

text \<open>The check in the polling loop of a channel.\<close>

definition scan_check :: "int \<Rightarrow> scan \<Rightarrow> ApInfo option" where
  "scan_check ch s =
    (if ap_found (scanResult s) \<and> (ap_channel (scanResult s) = ch \<or> ap_channel (scanResult s) = 0)
     then Some ((scanResult s)\<lparr>ap_channel := ch\<rparr>) else None)"

text \<open>
  What is on the air on a channel: the frames before the first check, between the checks, and after
  the last one before the time of the channel is over.
\<close>

fun scan_polls :: "int \<Rightarrow> bytes list list \<Rightarrow> scan \<Rightarrow> ApInfo option \<times> scan" where
  "scan_polls ch [] s = (None, s)"
| "scan_polls ch [b] s = (None, fold onScanFrame b s)"
| "scan_polls ch (b # bs) s =
    (let s = fold onScanFrame b s in
     case scan_check ch s of
       Some r \<Rightarrow> (Some r, s\<lparr>scanResult := r\<rparr>)
     | None \<Rightarrow> scan_polls ch bs s)"

fun scan_sweep :: "(int \<times> bytes list list) list \<Rightarrow> scan \<Rightarrow> ApInfo \<times> scan" where
  "scan_sweep [] s = (scanResult s, s)"
| "scan_sweep ((ch, air) # rest) s =
    (if ch \<le> 0 then scan_sweep rest s
     else (case scan_polls ch air (s\<lparr>scanResult := no_ap\<rparr>) of
             (Some r, s) \<Rightarrow> (r, s)
           | (None, s) \<Rightarrow> scan_sweep rest s))"

definition scan_list :: "int \<Rightarrow> int list" where
  "scan_list channelHint =
    [channelHint, 36, 40, 44, 48, 1, 6, 11, 52, 56, 60, 64, 149, 153, 157, 161, 165]"

definition scanForSsid ::
    "bytes \<Rightarrow> int \<Rightarrow> bytes list list list \<Rightarrow> scan \<times> watchdog \<Rightarrow> ApInfo \<times> scan \<times> watchdog" where
  "scanForSsid ssid channelHint airs = (\<lambda>(s, w).
    (let w = SetUnlinked w;
         (r, s) = scan_sweep (zip (scan_list channelHint) airs) (s\<lparr>scanSsid := ssid, scanResult := no_ap\<rparr>)
     in (r, s, w)))"

text \<open>The start of \<open>arm\<close>: the gain control is told how strong the beacon was.\<close>

definition arm_rssi :: "scan \<Rightarrow> watchdog \<Rightarrow> watchdog" where
  "arm_rssi s w = (if lastBeaconRssi s < 0 then SetLinkRssi (lastBeaconRssi s) w else w)"

lemma onScanFrame_ssid [simp]: "scanSsid (onScanFrame f s) = scanSsid s"
  by (simp add: onScanFrame_def split: option.split)

lemma fold_scan_ssid [simp]: "scanSsid (fold onScanFrame b s) = scanSsid s"
  by (induction b arbitrary: s) simp_all

definition from_air :: "bytes \<Rightarrow> bytes set \<Rightarrow> ApInfo \<Rightarrow> bool" where
  "from_air ssid fs info \<longleftrightarrow> (\<exists>f \<in> fs. parseBeacon f ssid = Some info)"

lemma fold_scan:
  assumes "ap_found (scanResult s) \<longrightarrow> from_air (scanSsid s) fs (scanResult s)" and "set b \<subseteq> fs"
  shows "ap_found (scanResult (fold onScanFrame b s)) \<longrightarrow> from_air (scanSsid s) fs (scanResult (fold onScanFrame b s))"
  using assms
proof (induction b arbitrary: s)
  case (Cons f b)
  have "ap_found (scanResult (onScanFrame f s)) \<longrightarrow> from_air (scanSsid s) fs (scanResult (onScanFrame f s))"
    using Cons.prems by (auto simp: onScanFrame_def from_air_def split: option.split)
  then show ?case using Cons.IH [of "onScanFrame f s"] Cons.prems(2) by simp
qed simp

lemma scan_polls_sound:
  assumes "ap_found (scanResult s) \<longrightarrow> from_air (scanSsid s) fs (scanResult s)" and "set (concat air) \<subseteq> fs"
    and "scan_polls ch air s = (res, s')"
  shows "scanSsid s' = scanSsid s \<and>
    (case res of
       Some r \<Rightarrow> \<exists>info. from_air (scanSsid s) fs info \<and> ap_channel info \<in> {ch, 0} \<and> r = info\<lparr>ap_channel := ch\<rparr>
     | None \<Rightarrow> ap_found (scanResult s') \<longrightarrow> from_air (scanSsid s) fs (scanResult s'))"
  using assms
proof (induction ch air s rule: scan_polls.induct)
  case (2 ch b s)
  then show ?case using fold_scan [of s fs b] by auto
next
  case (3 ch b b' bs s)
  let ?s = "fold onScanFrame b s"
  have s: "ap_found (scanResult ?s) \<longrightarrow> from_air (scanSsid s) fs (scanResult ?s)"
    using 3(2,3) fold_scan [of s fs b] by auto
  show ?case
  proof (cases "scan_check ch ?s")
    case None
    then show ?thesis using 3(1) [OF refl None] s 3(3,4) by (simp cong: option.case_cong)
  next
    case (Some r)
    then have r: "ap_found (scanResult ?s)" "ap_channel (scanResult ?s) \<in> {ch, 0}"
      "r = (scanResult ?s)\<lparr>ap_channel := ch\<rparr>"
      by (simp_all add: scan_check_def split: if_splits)
    have "res = Some r" "s' = ?s\<lparr>scanResult := r\<rparr>" using 3(4) Some by simp_all
    moreover have "from_air (scanSsid s) fs (scanResult ?s)" using r(1) s by simp
    ultimately show ?thesis using r(2,3) by auto
  qed
qed auto

lemma scan_sweep_sound:
  assumes "ap_found (scanResult s) \<longrightarrow> from_air (scanSsid s) fs (scanResult s)"
    and "\<forall>(ch, air) \<in> set plan. set (concat air) \<subseteq> fs" and "scan_sweep plan s = (r, s')" and "ap_found r"
  shows "(\<exists>ch info. ch > 0 \<and> ch \<in> fst ` set plan \<and> from_air (scanSsid s) fs info \<and>
      ap_channel info \<in> {ch, 0} \<and> r = info\<lparr>ap_channel := ch\<rparr>) \<or> from_air (scanSsid s) fs r"
  using assms
proof (induction plan s rule: scan_sweep.induct)
  case (2 ch air rest s)
  show ?case
  proof (cases "ch \<le> 0")
    case True
    then show ?thesis using 2(1) [OF True 2(3)] 2(4-6) by auto
  next
    case False
    obtain res s1 where polls: "scan_polls ch air (s\<lparr>scanResult := no_ap\<rparr>) = (res, s1)" by (metis surj_pair)
    have air: "set (concat air) \<subseteq> fs" using 2(4) by auto
    have sound: "scanSsid s1 = scanSsid s" "(case res of
        Some r \<Rightarrow> \<exists>info. from_air (scanSsid s) fs info \<and> ap_channel info \<in> {ch, 0} \<and> r = info\<lparr>ap_channel := ch\<rparr>
      | None \<Rightarrow> ap_found (scanResult s1) \<longrightarrow> from_air (scanSsid s) fs (scanResult s1))"
      using scan_polls_sound [OF _ air polls] by (simp_all add: no_ap_def cong: option.case_cong)
    show ?thesis
    proof (cases res)
      case None
      then show ?thesis using 2(2) [OF False polls [symmetric] None] sound 2(4-6) False polls by auto
    next
      case (Some a)
      then show ?thesis using sound 2(5) False polls by fastforce
    qed
  qed
qed auto

text \<open>
  What a scan reports was on the air. A result that is found comes from a beacon or probe response with
  the network name asked for, received during this scan; when the sweep stopped at it, it carries the channel
  the radio is tuned to, and the beacon named that channel or none.
\<close>

theorem scan_reports_beacons:
  assumes "scanForSsid ssid channelHint airs (s, w) = (r, s', w')" and "ap_found r"
  shows "(\<exists>ch info. ch > 0 \<and> ch \<in> set (scan_list channelHint) \<and> ap_channel info \<in> {ch, 0} \<and>
      from_air ssid (set (concat (concat airs))) info \<and> r = info\<lparr>ap_channel := ch\<rparr>) \<or>
    from_air ssid (set (concat (concat airs))) r"
proof -
  let ?plan = "zip (scan_list channelHint) airs" and ?s = "s\<lparr>scanSsid := ssid, scanResult := no_ap\<rparr>"
  have sweep: "scan_sweep ?plan ?s = (r, s')" using assms(1) by (simp add: scanForSsid_def split: prod.splits)
  have plan: "\<forall>(ch, air) \<in> set ?plan. set (concat air) \<subseteq> set (concat (concat airs))"
    by (auto dest: set_zip_rightD)
  have chans: "fst ` set ?plan \<subseteq> set (scan_list channelHint)" by (auto dest: set_zip_leftD)
  from scan_sweep_sound [OF _ plan sweep assms(2)] chans show ?thesis by (auto simp: no_ap_def)
qed

text \<open>
  The sweep also reports what it must not. When the last channel hears a beacon of another channel, the
  check rejects it on every poll, and the scan then returns it all the same: found, with the channel of the
  beacon, while the radio is tuned to channel 165.
\<close>

theorem scan_reports_rejected_beacon:
  assumes "parseBeacon f ssid = Some info" and "ap_channel info \<notin> {0, 165}" and "ap_found info"
  shows "\<exists>s' w'. scanForSsid ssid channelHint (replicate 16 [[], []] @ [[[f], []]]) (s, w) = (info, s', w')"
proof -
  have quiet: "scan_sweep ((ch, [[], []]) # rest) (v\<lparr>scanResult := no_ap\<rparr>) = scan_sweep rest (v\<lparr>scanResult := no_ap\<rparr>)"
    for ch rest v by (simp add: scan_check_def no_ap_def)
  have last: "fst (scan_sweep [(165, [[f], []])] (v\<lparr>scanResult := no_ap\<rparr>)) = info" if "scanSsid v = ssid" for v
    using assms that by (simp add: onScanFrame_def scan_check_def no_ap_def)
  have "16 = Suc (Suc (Suc (Suc (Suc (Suc (Suc (Suc (Suc (Suc (Suc (Suc (Suc (Suc (Suc (Suc 0)))))))))))))))" by simp
  then have "fst (scan_sweep (zip (scan_list channelHint) (replicate 16 [[], []] @ [[[f], []]]))
      (s\<lparr>scanSsid := ssid, scanResult := no_ap\<rparr>)) = info"
    using last [of "s\<lparr>scanSsid := ssid\<rparr>"] quiet [of _ _ "s\<lparr>scanSsid := ssid\<rparr>"]
    by (simp only: scan_list_def replicate.simps append.simps zip_Cons_Cons) simp
  then show ?thesis by (simp add: scanForSsid_def split_beta)
qed

section \<open>The signal strength is never learned\<close>

lemma parse_ies_rssi: "ap_rssi (snd (snd (parse_ies d st))) = ap_rssi (snd (snd st))"
proof (induction d st rule: parse_ies.induct)
  case (1 i l r st)
  have "ap_rssi (snd (snd (parse_ie i d st))) = ap_rssi (snd (snd st))" for d
    by (cases st) (simp add: parse_ie_def parse_rsn_def Let_def split_beta)
  then show ?case using 1 by simp
qed simp_all

lemma parseBeacon_rssi: "parseBeacon f ssid = Some info \<Longrightarrow> ap_rssi info = -127"
  using parse_ies_rssi [of "drop 36 f" "([], 0, no_ap\<lparr>ap_bssid := slice 16 6 f\<rparr>)"]
  by (auto simp: parseBeacon_def parseAnyBeacon_def Let_def no_ap_def split: if_splits prod.splits)

text \<open>
  The gain control never hears how strong the access point is. On an object that has not heard a beacon
  strength, whatever frames arrive \<open>arm\<close> leaves the link state of the watchdog alone: the beacon parser does
  not set the strength, so it keeps the value that stands for unknown.
\<close>

theorem arm_never_desensitizes:
  assumes "lastBeaconRssi s = 0"
  shows "arm_rssi (fold onScanFrame frames s) w = w"
proof -
  have "lastBeaconRssi (fold onScanFrame frames s) = lastBeaconRssi s"
  proof (induction frames arbitrary: s)
    case (Cons f frames)
    have "lastBeaconRssi (onScanFrame f s) = lastBeaconRssi s" for s
      by (simp add: onScanFrame_def parseBeacon_rssi split: option.split)
    with Cons show ?case by simp
  qed simp
  then show ?thesis using assms by (simp add: arm_rssi_def)
qed

section \<open>The frames on the bus\<close>

definition plain_env :: mgmt_env where
  "plain_env = \<lparr>mgmt_rate = None, mgmt_macid = None, mgmt_raid = None, auth_bmc = False, skip_deauth = False,
     ofdm_rates_only = False, fw_ra_env = True\<rparr>"

text \<open>
  A management frame goes to the device behind a descriptor that says what it is: its length and offset,
  peer 1, the management queue, an acknowledgement awaited with twelve retries, and a fixed basic rate of the
  band (1 Mb/s CCK below channel 15, 6 Mb/s OFDM above) with the rate set that contains it; the checksum
  verifies.
\<close>

theorem mgmt_frame_descriptor:
  assumes "length mpdu < 2 ^ 16"
  shows "\<exists>d. mgmt_tx plain_env channel mpdu = Some (d @ mpdu) \<and> length d = TXDESC_SIZE \<and> xor_halfwords d = 0 \<and>
    LE_BITS_TO_4BYTE d PKT_SIZE_8812 = of_nat (length mpdu) \<and> LE_BITS_TO_4BYTE d OFFSET_8812 = 40 \<and>
    LE_BITS_TO_4BYTE d MACID_8812 = 1 \<and> LE_BITS_TO_4BYTE d QUEUE_SEL_8812 = 0x12 \<and>
    LE_BITS_TO_4BYTE d BMC_8812 = 0 \<and> LE_BITS_TO_4BYTE d DATA_RETRY_LIMIT_8812 = 12 \<and>
    LE_BITS_TO_4BYTE d USE_RATE_8812 = 1 \<and>
    LE_BITS_TO_4BYTE d TX_RATE_8812 = (if channel > 14 then 4 else 0) \<and>
    LE_BITS_TO_4BYTE d RATE_ID_8812 = (if channel > 14 then 7 else 8)"
proof -
  let ?raid = "mgmtRaid plain_env channel" and ?rate = "mgmtTxRate plain_env channel"
  let ?z = "replicate TXDESC_SIZE 0 :: bytes"
  let ?sets = "station_sets True (of_nat (length mpdu)) 40 1 Mgmt ?raid ?rate"
  have z: "length ?z = TXDESC_SIZE" by simp
  have ok: "list_all (\<lambda>(f, v). field_ok TXDESC_SIZE f) ?sets"
    by (simp add: station_sets_def field_ok_def Let_def)
  obtain d where d: "FillStationTxDesc True ?z (of_nat (length mpdu)) 40 1 Mgmt ?raid ?rate = Some d"
    and f: "length d = TXDESC_SIZE" "xor_halfwords d = 0"
      "LE_BITS_TO_4BYTE d PKT_SIZE_8812 = ucast (of_nat (length mpdu) :: u16)"
      "LE_BITS_TO_4BYTE d OFFSET_8812 = ucast (40 :: u8)" "LE_BITS_TO_4BYTE d MACID_8812 = take_bit 7 (ucast (1 :: u8))"
      "LE_BITS_TO_4BYTE d BMC_8812 = of_bool (is_bmc Mgmt)" "LE_BITS_TO_4BYTE d QUEUE_SEL_8812 = queue_sel Mgmt"
      "LE_BITS_TO_4BYTE d USE_RATE_8812 = 1" "LE_BITS_TO_4BYTE d RATE_ID_8812 = take_bit 5 (ucast ?raid)"
      "LE_BITS_TO_4BYTE d TX_RATE_8812 = take_bit 7 (ucast ?rate)"
      "LE_BITS_TO_4BYTE d DATA_RETRY_LIMIT_8812 = (if is_bmc Mgmt then 0 else 12)"
    using station_descriptor [OF z, of True "of_nat (length mpdu)" 40 1 Mgmt ?raid ?rate] by auto
  obtain b where b: "run_sets ?sets ?z = Some b" "length b = TXDESC_SIZE"
    using run_sets_fold [OF ok z] tx.inv_puts [OF ok z] by blast
  have "rtl8812a_cal_txdesc_chksum b = Some d" using d b(1) by (simp add: FillStationTxDesc_def)
  then have "mgmt_tx plain_env channel mpdu = Some (d @ mpdu)"
    using run_sets_append [OF ok z, of mpdu] b chksum_append [OF b(2), of mpdu]
    by (simp add: mgmt_tx_def FillStationTxDesc_def mgmtMacId_def mgmtKind_def plain_env_def)
  moreover have "(ucast (of_nat (length mpdu) :: u16) :: u32) = of_nat (length mpdu)"
    using assms by (simp add: unat_of_nat unsigned_of_nat take_bit_nat_eq_self)
  ultimately show ?thesis
    using f by (auto simp: is_bmc_def queue_sel_def mgmtRaid_def mgmtTxRate_def plain_env_def)
qed

section \<open>Concrete joins\<close>

abbreviation (input) ap1 :: bytes where "ap1 \<equiv> [2, 0, 0, 0, 0, 1]"
abbreviation (input) ap2 :: bytes where "ap2 \<equiv> [2, 0, 0, 0, 0, 2]"
abbreviation (input) me :: bytes where "me \<equiv> [2, 0, 0, 0, 0, 7]"

definition on_36 :: join_env where
  "on_36 = \<lparr>je_mgmt = plain_env, je_channel = 36, je_security = (0x000FAC04, 0x000FAC04, 0)\<rparr>"

definition good_join :: "event list" where
  "good_join = [Wake 0 True, Frame 0x00B0 me ap2, Wake 3 True, Frame 0x00B0 me ap1, Wake 0 True, Wake 1 True,
     Frame 0x0010 me ap1, Wake 0 True, Wake 0 True]"

definition joined :: probe where
  "joined = probe_run on_36 (Call me ap1 [0x61] 0 True True # good_join) probe_init"

lemmas probe_eval = joined_def good_join_def on_36_def plain_env_def probe_run_def probe_init_def runProbe_call_def
  runProbe_wake_def probe_moves sleep_ms_def onMgmtFrame_def fc_type_def fc_subtype_def Let_def

lemma joined: "pr_phase joined = Finished GO_LinkHeld" "gotAuthResp joined" "gotAssocOk joined" "\<not> gotDeauth joined"
  by (simp_all add: probe_eval)

theorem held_link_was_answered_witness:
  "pr_phase joined = Finished GO_LinkHeld \<and> (\<exists>pre post. good_join = pre @ post \<and> heard me ap1 {0xB} pre)"
  using held_link_was_answered [OF _ joined_def] joined by (auto simp: good_join_def)

theorem runProbe_returns_witness:
  "\<exists>r. pr_phase (probe_run on_36 (Call me ap1 [0x61] 10 True False # replicate 230 (Wake 5 False)) probe_init) = Finished r"
  by (rule runProbe_returns) (simp_all add: waiting_def probe_init_def list_all_iff)

theorem stale_answers_hold_link_witness:
  "pr_phase (probe_run on_36 (Call me ap2 [0x62] 10 True True # replicate 230 (Wake 0 True)) joined) = Finished GO_LinkHeld"
  by (rule stale_answers_hold_link) (simp_all add: joined waiting_def list_all_iff)

text \<open>A beacon of the network "ab" on channel 161.\<close>

definition beacon_161 :: bytes where
  "beacon_161 = [0x80, 0] @ replicate 14 0 @ ap1 @ replicate 14 0 @ [0, 2, 0x61, 0x62, 3, 1, 161]"

lemma beacon_161: "parseBeacon beacon_161 [0x61, 0x62] = Some (no_ap\<lparr>ap_bssid := ap1, ap_channel := 161, ap_found := True\<rparr>)"
  by code_simp

theorem scan_reports_rejected_beacon_witness:
  "\<exists>s' w'. scanForSsid [0x61, 0x62] 0 (replicate 16 [[], []] @ [[[beacon_161], []]]) (scan_init, watchdog_init) =
    (no_ap\<lparr>ap_bssid := ap1, ap_channel := 161, ap_found := True\<rparr>, s', w')"
  by (rule scan_reports_rejected_beacon [OF beacon_161]) simp_all

theorem scan_reports_beacons_witness:
  "\<exists>s' w'. scanForSsid [0x61, 0x62] 161 [[[beacon_161], []]] (scan_init, watchdog_init) =
      (no_ap\<lparr>ap_bssid := ap1, ap_channel := 161, ap_found := True\<rparr>, s', w') \<and>
    from_air [0x61, 0x62] {beacon_161} (no_ap\<lparr>ap_bssid := ap1, ap_channel := 161, ap_found := True\<rparr>)"
proof -
  let ?r = "no_ap\<lparr>ap_bssid := ap1, ap_channel := 161, ap_found := True\<rparr>"
  have "scan_sweep (zip (scan_list 161) [[[beacon_161], []]]) (scan_init\<lparr>scanSsid := [0x61, 0x62], scanResult := no_ap\<rparr>) =
      (?r, (scan_init\<lparr>scanSsid := [0x61, 0x62]\<rparr>)\<lparr>scanResult := ?r\<rparr>)"
    by (simp add: scan_list_def onScanFrame_def scan_check_def beacon_161) (simp add: no_ap_def scan_init_def)
  then obtain s' w' where sc: "scanForSsid [0x61, 0x62] 161 [[[beacon_161], []]] (scan_init, watchdog_init) = (?r, s', w')"
    by (simp add: scanForSsid_def)
  from scan_reports_beacons [OF this] have "from_air [0x61, 0x62] {beacon_161} ?r"
    using beacon_161 by (auto simp: from_air_def)
  with sc show ?thesis by blast
qed

theorem arm_never_desensitizes_witness:
  "arm_rssi (onScanFrame beacon_161 (scan_init\<lparr>scanSsid := [0x61, 0x62]\<rparr>)) watchdog_init = watchdog_init"
  using arm_never_desensitizes [of "scan_init\<lparr>scanSsid := [0x61, 0x62]\<rparr>" "[beacon_161]" watchdog_init]
  by (simp add: scan_init_def)

theorem mgmt_frame_descriptor_witness:
  "\<exists>d. mgmt_tx plain_env 36 (BuildAuthOpenSeq1 me ap1) = Some (d @ BuildAuthOpenSeq1 me ap1) \<and>
    LE_BITS_TO_4BYTE d TX_RATE_8812 = 4 \<and> LE_BITS_TO_4BYTE d PKT_SIZE_8812 = 30"
proof -
  have l: "length (BuildAuthOpenSeq1 me ap1) = 30" by (simp add: BuildAuthOpenSeq1_def put_hdr_def)
  from mgmt_frame_descriptor [of "BuildAuthOpenSeq1 me ap1" 36] show ?thesis by (auto simp: l)
qed

end
