(* ===== verification/Firmware8812.thy ===== *)
theory Firmware8812
  imports RegIo PwrSeq
begin

text \<open>
  The firmware download of the RTL8812A and RTL8821A, src/FirmwareManager.cpp, and the reset of the
  8051 in src/RtlUsbAdapter.cpp. The image is an argument. Loops that end when the clock says so may
  not end at all: they are \<open>partial_function\<close>s over a clock \<open>now\<close>, in microseconds, that is read off
  the device state; \<open>None\<close> is a download that does not return.
\<close>

abbreviation (input) REG_MCUFWDL :: u16 where "REG_MCUFWDL \<equiv> 0x0080"
abbreviation (input) REG_RSV_CTRL :: u16 where "REG_RSV_CTRL \<equiv> 0x001C"
abbreviation (input) REG_SYS_FUNC_EN :: u16 where "REG_SYS_FUNC_EN \<equiv> 0x0002"
abbreviation (input) FW_HMETFR :: u16 where "FW_HMETFR \<equiv> 0x01CC"
abbreviation (input) FW_START_ADDRESS :: u16 where "FW_START_ADDRESS \<equiv> 0x1000"
abbreviation (input) MCUFWDL_RDY :: u32 where "MCUFWDL_RDY \<equiv> 0x02"
abbreviation (input) FWDL_ChkSum_rpt :: "'a::len word" where "FWDL_ChkSum_rpt \<equiv> 0x04"
abbreviation (input) WINTINI_RDY :: u32 where "WINTINI_RDY \<equiv> 0x40"

section \<open>Writing the image\<close>

definition WriteBytes :: "'h usb \<Rightarrow> u16 \<Rightarrow> bytes \<Rightarrow> 'h \<Rightarrow> bool \<times> 'h" where
  "WriteBytes dev reg_num bs h = (let (r, h') = ctrl_out dev reg_num bs h in (r = int (length bs), h'))"

definition wr_bytes :: "'h usb \<Rightarrow> u16 \<Rightarrow> bytes \<Rightarrow> ('h, unit) io" where
  "wr_bytes dev a bs h = (Inr (), snd (WriteBytes dev a bs h))"

definition write_blocks :: "'h usb \<Rightarrow> nat \<Rightarrow> nat \<Rightarrow> nat \<Rightarrow> bytes \<Rightarrow> ('h, unit) io" where
  "write_blocks dev offset blockSize n buffer =
    io_seq (map (\<lambda>i. wr_bytes dev (FW_START_ADDRESS + of_nat (offset + i * blockSize))
      (slice (offset + i * blockSize) blockSize buffer)) [0..<n])"

definition BlockWrite :: "'h usb \<Rightarrow> bytes \<Rightarrow> ('h, bool) io" where
  "BlockWrite dev buffer =
    (let blockSize_p1 = 196; blockSize_p2 = 8;
         blockCount_p1 = length buffer div blockSize_p1; remainSize_p1 = length buffer mod blockSize_p1;
         offset = blockCount_p1 * blockSize_p1;
         blockCount_p2 = remainSize_p1 div blockSize_p2; remainSize_p2 = remainSize_p1 mod blockSize_p2;
         offset3 = offset + blockCount_p2 * blockSize_p2
     in io_then (write_blocks dev 0 blockSize_p1 blockCount_p1 buffer)
        (io_then (write_blocks dev offset blockSize_p2 blockCount_p2 buffer)
        (io_then (io_seq (map (\<lambda>i. wr8 dev (FW_START_ADDRESS + of_nat (offset3 + i)) (buffer ! (offset3 + i)))
                   [0..<remainSize_p2]))
         (io_return True))))"

definition PageWrite_8812 :: "'h usb \<Rightarrow> nat \<Rightarrow> bytes \<Rightarrow> ('h, bool) io" where
  "PageWrite_8812 dev page buffer =
    io_bind (rtw_read8 dev (REG_MCUFWDL + 2)) (\<lambda>v.
    io_then (wr8 dev (REG_MCUFWDL + 2) (v AND 0xF8 OR (of_nat page AND 0x07)))
    (BlockWrite dev buffer))"

primrec write_pages :: "'h usb \<Rightarrow> (nat \<times> bytes) list \<Rightarrow> ('h, bool) io" where
  "write_pages dev [] = io_return True"
| "write_pages dev (p # ps) =
    io_bind (PageWrite_8812 dev (fst p) (snd p)) (\<lambda>ret. if ret then write_pages dev ps else io_return ret)"

definition fw_pages :: "bytes \<Rightarrow> (nat \<times> bytes) list" where
  "fw_pages buffer =
    (let pageNums = length buffer div 4096; remainSize = length buffer mod 4096 in
     map (\<lambda>page. (page, slice (page * 4096) 4096 buffer)) [0..<pageNums] @
     (if remainSize \<noteq> 0 then [(pageNums, slice (pageNums * 4096) remainSize buffer)] else []))"

definition WriteFW8812 :: "'h usb \<Rightarrow> bytes \<Rightarrow> ('h, bool) io" where
  "WriteFW8812 dev buffer = write_pages dev (fw_pages buffer)"

section \<open>The steps around it\<close>

definition u8051Reset8812 :: "'h usb \<Rightarrow> ('h, unit) io" where
  "u8051Reset8812 dev =
     io_then (update8 dev REG_RSV_CTRL (\<lambda>v. v AND NOT BIT1))
     (io_then (update8 dev (REG_RSV_CTRL + 1) (\<lambda>v. v AND NOT BIT3))
     (io_bind (rtw_read8 dev (REG_SYS_FUNC_EN + 1)) (\<lambda>u1bTmp.
      io_then (wr8 dev (REG_SYS_FUNC_EN + 1) (u1bTmp AND NOT BIT2))
      (io_then (update8 dev REG_RSV_CTRL (\<lambda>v. v AND NOT BIT1))
      (io_then (update8 dev (REG_RSV_CTRL + 1) (\<lambda>v. v OR BIT3))
       (wr8 dev (REG_SYS_FUNC_EN + 1) (u1bTmp OR BIT2)))))))"

definition FWDownloadEnable_8812 :: "'h usb \<Rightarrow> bool \<Rightarrow> ('h, unit) io" where
  "FWDownloadEnable_8812 dev enable =
    (if enable then io_then (update8 dev REG_MCUFWDL (\<lambda>tmp. tmp OR 0x01))
       (update8 dev (REG_MCUFWDL + 2) (\<lambda>tmp. tmp AND 0xf7))
     else update8 dev REG_MCUFWDL (\<lambda>tmp. tmp AND 0xfe))"

definition InitializeFirmwareVars8812 :: "'h usb \<Rightarrow> ('h, unit) io" where
  "InitializeFirmwareVars8812 dev = wr8 dev FW_HMETFR 0x0f"

definition jaguar_fw_header_present :: "bytes \<Rightarrow> ic_type \<Rightarrow> bool" where
  "jaguar_fw_header_present buf ic_type =
    (let signature = (le_word (slice 0 2 buf) :: u16) in
     case ic_type of
       CHIP_8814A \<Rightarrow> signature AND 0xFFF0 = 0x8810
     | CHIP_8821 \<Rightarrow> signature AND 0xFFF0 = 0x2100
     | CHIP_8812 \<Rightarrow> signature AND 0xFFF0 = 0x9500)"

section \<open>Loops on the clock\<close>

text \<open>A program that may not return, in sequence with others.\<close>

type_synonym ('h, 'a) run = "'h \<Rightarrow> ((usb_error + 'a) \<times> 'h) option"

definition run_io :: "('h, 'a) io \<Rightarrow> ('h, 'a) run" where
  "run_io m h = Some (m h)"

definition run_bind :: "('h, 'a) run \<Rightarrow> ('a \<Rightarrow> ('h, 'b) run) \<Rightarrow> ('h, 'b) run" where
  "run_bind m k h = Option.bind (m h) (\<lambda>(r, h'). case r of Inl e \<Rightarrow> Some (Inl e, h') | Inr x \<Rightarrow> k x h')"

definition elapsed_ms :: "('h \<Rightarrow> nat) \<Rightarrow> nat \<Rightarrow> 'h \<Rightarrow> nat" where
  "elapsed_ms now start h = (now h - start) div 1000"

partial_function (option) poll_fwdl ::
    "'h usb \<Rightarrow> ('h \<Rightarrow> nat) \<Rightarrow> (u32 \<Rightarrow> bool) \<Rightarrow> u32 \<Rightarrow> nat \<Rightarrow> nat \<Rightarrow> u32 \<Rightarrow> 'h \<Rightarrow>
      ((usb_error + bool) \<times> 'h) option" where
  "poll_fwdl dev now ready min_cnt timeout_ms start cnt h =
    (case rtw_read32 dev REG_MCUFWDL h of
       (Inl e, h') \<Rightarrow> Some (Inl e, h')
     | (Inr value32, h') \<Rightarrow>
         if ready value32 then Some (Inr True, h')
         else if elapsed_ms now start h' < timeout_ms \<or> cnt + 1 < min_cnt
         then poll_fwdl dev now ready min_cnt timeout_ms start (cnt + 1) h'
         else Some (Inr False, h'))"

definition polling_fwdl_chksum :: "'h usb \<Rightarrow> ('h \<Rightarrow> nat) \<Rightarrow> u32 \<Rightarrow> nat \<Rightarrow> ('h, bool) run" where
  "polling_fwdl_chksum dev now min_cnt timeout_ms h =
    poll_fwdl dev now (\<lambda>v. v AND FWDL_ChkSum_rpt \<noteq> 0) min_cnt timeout_ms (now h) 0 h"

definition fw_ready :: "ic_type \<Rightarrow> u32 \<Rightarrow> bool" where
  "fw_ready ic_type value32 =
    (if ic_type = CHIP_8814A then value32 AND 0x8000 \<noteq> 0 \<or> value32 AND 0xFF = 0x78
     else value32 AND WINTINI_RDY \<noteq> 0)"

definition FWFreeToGo8812 ::
    "'h usb \<Rightarrow> ('h \<Rightarrow> nat) \<Rightarrow> u32 \<Rightarrow> nat \<Rightarrow> ic_type \<Rightarrow> ('h, bool) run" where
  "FWFreeToGo8812 dev now min_cnt timeout_ms ic_type =
    run_bind (run_io (io_when (ic_type \<noteq> CHIP_8814A)
      (io_then (io_bind (rtw_read32 dev REG_MCUFWDL) (\<lambda>value32.
          wr32 dev REG_MCUFWDL ((value32 OR MCUFWDL_RDY) AND NOT WINTINI_RDY)))
        (u8051Reset8812 dev))))
    (\<lambda>_ h. poll_fwdl dev now (fw_ready ic_type) min_cnt timeout_ms (now h) 0 h)"

partial_function (option) fwdl_loop ::
    "'h usb \<Rightarrow> ('h \<Rightarrow> nat) \<Rightarrow> bytes \<Rightarrow> nat \<Rightarrow> u8 \<Rightarrow> bool \<Rightarrow> 'h \<Rightarrow>
      ((usb_error + bool) \<times> 'h) option" where
  "fwdl_loop dev now fw fwdl_start_time write_fw rtStatus h =
    (if write_fw < 3 \<or> elapsed_ms now fwdl_start_time h < 500 then
       (case io_then (update8 dev REG_MCUFWDL (\<lambda>v. v OR FWDL_ChkSum_rpt)) (WriteFW8812 dev fw) h of
          (Inl e, h1) \<Rightarrow> Some (Inl e, h1)
        | (Inr rtStatus, h1) \<Rightarrow>
            if \<not> rtStatus then fwdl_loop dev now fw fwdl_start_time (write_fw + 1) rtStatus h1
            else Option.bind (polling_fwdl_chksum dev now 5 50 h1) (\<lambda>r.
              case r of
                (Inl e, h2) \<Rightarrow> Some (Inl e, h2)
              | (Inr rtStatus, h2) \<Rightarrow>
                  if rtStatus then Some (Inr True, h2)
                  else fwdl_loop dev now fw fwdl_start_time (write_fw + 1) rtStatus h2))
     else Some (Inr rtStatus, h))"

definition FirmwareDownload_8812 :: "'h usb \<Rightarrow> ('h \<Rightarrow> nat) \<Rightarrow> ic_type \<Rightarrow> bytes \<Rightarrow> ('h, unit) run" where
  "FirmwareDownload_8812 dev now ic_type blob =
    (let fw = (if jaguar_fw_header_present blob ic_type then drop 32 blob else blob) in
     run_bind (run_io (io_then
       (io_bind (rtw_read8 dev REG_MCUFWDL) (\<lambda>v. io_when (v AND BIT7 \<noteq> 0)
         (io_then (wr8 dev REG_MCUFWDL 0x00) (u8051Reset8812 dev))))
       (FWDownloadEnable_8812 dev True)))
     (\<lambda>_. run_bind (\<lambda>h. fwdl_loop dev now fw (now h) 0 True h)
     (\<lambda>rtStatus. run_bind (run_io (FWDownloadEnable_8812 dev False))
     (\<lambda>_. if \<not> rtStatus then run_io (io_return ())
       else run_bind (FWFreeToGo8812 dev now 10 200 ic_type)
         (\<lambda>rtStatus. if \<not> rtStatus then run_io (io_return ())
           else run_io (InitializeFirmwareVars8812 dev))))))"

section \<open>The image window\<close>

text \<open>
  The chip as the download sees it: its registers, the firmware memory behind a 4 KiB window at
  0x1000 of which 0x82 selects the page, and the image the 8051 runs. The window takes bytes while
  the download is enabled; the checksum report (bit 2 of 0x80) tells whether the memory is \<open>good\<close>;
  the core starts when its enable (bit 2 of 0x03) rises with the image declared ready, and reports
  that it runs in bit 6 of 0x80.
\<close>

record fw_chip =
  fregs :: regs
  fmem :: "nat \<Rightarrow> u8"
  fbooted :: "(nat \<Rightarrow> u8) option"

definition upd_mem :: "nat \<Rightarrow> bytes \<Rightarrow> (nat \<Rightarrow> u8) \<Rightarrow> nat \<Rightarrow> u8" where
  "upd_mem k bs m = (\<lambda>i. if k \<le> i \<and> i < k + length bs then bs ! (i - k) else m i)"

definition fw_obs :: "((nat \<Rightarrow> u8) \<Rightarrow> bool) \<Rightarrow> fw_chip \<Rightarrow> regs" where
  "fw_obs good s a =
    (if a = 0x80 then fregs s 0x80 AND NOT 0x44 OR (if good (fmem s) then 0x04 else 0) OR
       (if fbooted s \<noteq> None then 0x40 else 0)
     else fregs s a)"

definition fw_react :: "u16 \<Rightarrow> bytes \<Rightarrow> fw_chip \<Rightarrow> fw_chip" where
  "fw_react a bs s =
    (if 0x1000 \<le> a \<and> a < 0x2000 then
       (if bit (fregs s 0x80) 0
        then s\<lparr>fmem := upd_mem (unat (fregs s 0x82 AND 7) * 4096 + unat (a - 0x1000)) bs (fmem s)\<rparr> else s)
     else let r = store a bs (fregs s) in
       s\<lparr>fregs := r, fbooted := (if \<not> bit (r 0x03) 2 then None
         else if \<not> bit (fregs s 0x03) 2 \<and> bit (r 0x80) 1 then Some (fmem s) else fbooted s)\<rparr>)"

abbreviation (input) dl_enabled :: "fw_chip \<Rightarrow> bool" where
  "dl_enabled s \<equiv> bit (fregs s 0x80) 0"

lemma slice_join: "slice off a xs @ slice (off + a) b xs = slice off (a + b) xs"
  by (simp add: slice_def take_add add.commute)

lemma slice_one: "i < length xs \<Longrightarrow> slice i 1 xs = [xs ! i]"
  by (simp add: slice_def take_Suc_conv_app_nth Cons_nth_drop_Suc [symmetric])

lemma upd_mem_Nil [simp]: "upd_mem k [] m = m"
  by (rule ext) (use le_less_trans in \<open>fastforce simp: upd_mem_def\<close>)

lemma upd_mem_append: "upd_mem (k + length bs) cs (upd_mem k bs m) = upd_mem k (bs @ cs) m"
  by (auto simp: upd_mem_def nth_append fun_eq_iff)

lemma fold_slices:
  assumes "off + n * sz \<le> length buf"
  shows "fold (\<lambda>i. upd_mem (k + i * sz) (slice (off + i * sz) sz buf)) [0..<n] m = upd_mem k (slice off (n * sz) buf) m"
  using assms
proof (induction n)
  case 0
  then show ?case by (simp add: slice_def)
next
  case (Suc n)
  have "length (slice off (n * sz) buf) = n * sz" using Suc.prems by simp
  then show ?case
    using Suc upd_mem_append [of k "slice off (n * sz) buf" "slice (off + n * sz) sz buf" m]
    by (simp add: slice_join add.commute)
qed

lemma fw_react_window:
  assumes "i < 4096" and "dl_enabled s"
  shows "fw_react (0x1000 + of_nat i) bs s =
    s\<lparr>fmem := upd_mem (unat (fregs s 0x82 AND 7) * 4096 + i) bs (fmem s)\<rparr>"
proof -
  have u: "unat (of_nat i :: u16) = i" using assms(1) by (simp add: unat_of_nat)
  then have v: "unat (0x1000 + of_nat i :: u16) = 4096 + i"
    using assms(1) by (simp add: unat_word_ariths)
  have "0x1000 \<le> (0x1000 + of_nat i :: u16)" "(0x1000 + of_nat i :: u16) < 0x2000"
    using assms(1) by (simp_all add: word_le_nat_alt word_less_nat_alt v)
  then show ?thesis using assms(2) u by (simp add: fw_react_def)
qed

lemma fold_react_window:
  assumes "dl_enabled s" and "off + n * sz \<le> 4096" and "off + n * sz \<le> length buf" and "0 < sz"
  shows "fold (\<lambda>i. fw_react (0x1000 + of_nat (off + i * sz)) (slice (off + i * sz) sz buf)) [0..<n] s =
    s\<lparr>fmem := upd_mem (unat (fregs s 0x82 AND 7) * 4096 + off) (slice off (n * sz) buf) (fmem s)\<rparr>"
proof -
  have "fold (\<lambda>i. fw_react (0x1000 + of_nat (off + i * sz)) (slice (off + i * sz) sz buf)) [0..<k] s =
      s\<lparr>fmem := fold (\<lambda>i. upd_mem (unat (fregs s 0x82 AND 7) * 4096 + off + i * sz) (slice (off + i * sz) sz buf)) [0..<k] (fmem s)\<rparr>"
    if "k \<le> n" for k
    using that
  proof (induction k)
    case (Suc k)
    have "Suc k * sz \<le> n * sz" using Suc.prems by (rule mult_le_mono1)
    then have "off + k * sz < 4096" using assms(2,4) by simp
    with Suc assms(1) show ?case
      by (simp add: fw_react_window add.assoc del: of_nat_add of_nat_mult)
  qed simp
  from this [of n] show ?thesis using fold_slices [OF assms(3)] by simp
qed

lemma BlockWrite_computes:
  assumes "chip_device dev st obs fw_react"
  shows "\<exists>g. computes st (BlockWrite dev buf) g \<and> (\<forall>s. dl_enabled s \<and> length buf \<le> 4096 \<longrightarrow>
    g s = (True, s\<lparr>fmem := upd_mem (unat (fregs s 0x82 AND 7) * 4096) buf (fmem s)\<rparr>))"
proof -
  have c: "chip dev st obs fw_react" using assms by (simp add: chip_def)
  have wr: "computes st (wr_bytes dev a bs) (\<lambda>s. ((), fw_react a bs s))" for a bs
    using assms by (intro computesI) (simp_all add: wr_bytes_def WriteBytes_def chip_device_def split_beta)
  define c1 c2 n3 where "c1 = length buf div 196" and "c2 = length buf mod 196 div 8"
    and "n3 = length buf mod 196 mod 8"
  note cs = c1_def c2_def n3_def
  let ?w = "\<lambda>off sz n. fold (\<lambda>i. fw_react (0x1000 + of_nat (off + i * sz)) (slice (off + i * sz) sz buf)) [0..<n]"
  let ?b = "fold (\<lambda>i. fw_react (0x1000 + of_nat (c1 * 196 + c2 * 8 + i)) [buf ! (c1 * 196 + c2 * 8 + i)]) [0..<n3]"
  have g: "computes st (BlockWrite dev buf) (\<lambda>s. (True, ?b (?w (c1 * 196) 8 c2 (?w 0 196 c1 s))))"
    unfolding BlockWrite_def Let_def write_blocks_def cs [symmetric]
    by (rule computes_cong, (rule computes_rules computes_list wr chip.write8 [OF c])+) simp
  have len: "length buf = c1 * 196 + c2 * 8 + n3"
    unfolding cs by (metis div_mult_mod_eq add.assoc)
  have "?b (?w (c1 * 196) 8 c2 (?w 0 196 c1 s)) =
      s\<lparr>fmem := upd_mem (unat (fregs s 0x82 AND 7) * 4096) buf (fmem s)\<rparr>"
    if "dl_enabled s" "length buf \<le> 4096" for s
  proof -
    have one: "?b = ?w (c1 * 196 + c2 * 8) 1 n3"
    proof (rule ext, rule fold_cong)
      fix i s assume "i \<in> set [0..<n3]"
      then have "c1 * 196 + c2 * 8 + i < length buf" using len by simp
      then show "fw_react (0x1000 + of_nat (c1 * 196 + c2 * 8 + i)) [buf ! (c1 * 196 + c2 * 8 + i)] =
          fw_react (0x1000 + of_nat (c1 * 196 + c2 * 8 + i * 1)) (slice (c1 * 196 + c2 * 8 + i * 1) 1 buf)"
        by (simp only: slice_one mult_1_right)
    qed simp_all
    have l1: "length (slice 0 (c1 * 196) buf) = c1 * 196" using len by simp
    have l2: "length (slice 0 (c1 * 196 + c2 * 8) buf) = c1 * 196 + c2 * 8" using len by simp
    have all: "slice 0 (c1 * 196 + c2 * 8 + n3) buf = buf" unfolding len [symmetric] by simp
    let ?P = "unat (fregs s 0x82 AND 7) * 4096"
    have w1: "?w 0 196 c1 s = s\<lparr>fmem := upd_mem ?P (slice 0 (c1 * 196) buf) (fmem s)\<rparr>"
      by (rule trans [OF fold_react_window]) (use that len in simp_all)
    have w2: "?w (c1 * 196) 8 c2 (s\<lparr>fmem := m\<rparr>) = s\<lparr>fmem := upd_mem (?P + c1 * 196) (slice (c1 * 196) (c2 * 8) buf) m\<rparr>" for m
      by (rule trans [OF fold_react_window]) (use that len in simp_all)
    have w3: "?w (c1 * 196 + c2 * 8) 1 n3 (s\<lparr>fmem := m\<rparr>) =
        s\<lparr>fmem := upd_mem (?P + (c1 * 196 + c2 * 8)) (slice (c1 * 196 + c2 * 8) n3 buf) m\<rparr>" for m
      by (rule trans [OF fold_react_window]) (use that len in simp_all)
    have j1: "upd_mem (?P + c1 * 196) (slice (c1 * 196) (c2 * 8) buf) (upd_mem ?P (slice 0 (c1 * 196) buf) m) =
        upd_mem ?P (slice 0 (c1 * 196 + c2 * 8) buf) m" for m
      using upd_mem_append [of ?P "slice 0 (c1 * 196) buf" _ m] slice_join [of 0 "c1 * 196" buf "c2 * 8"] l1 by simp
    have j2: "upd_mem (?P + (c1 * 196 + c2 * 8)) (slice (c1 * 196 + c2 * 8) n3 buf)
        (upd_mem ?P (slice 0 (c1 * 196 + c2 * 8) buf) m) = upd_mem ?P buf m" for m
      using upd_mem_append [of ?P "slice 0 (c1 * 196 + c2 * 8) buf" _ m] slice_join [of 0 "c1 * 196 + c2 * 8" buf n3]
      unfolding l2 all by simp
    show ?thesis unfolding one w1 w2 w3 j1 j2 by (rule refl)
  qed
  then show ?thesis using g by blast
qed


section \<open>The image arrives\<close>

text \<open>What the register writes of the download do to the chip.\<close>

lemma fw_react_reg:
  assumes "a < 0x1000"
  shows "fw_react a [v] s = s\<lparr>fregs := (fregs s)(a := v), fbooted := (if \<not> bit (((fregs s)(a := v)) 0x03) 2 then None
      else if \<not> bit (fregs s 0x03) 2 \<and> bit (((fregs s)(a := v)) 0x80) 1 then Some (fmem s) else fbooted s)\<rparr>"
proof -
  have "store a [v] (fregs s) = (fregs s)(a := v)"
    by (rule ext) (auto simp: store_apply unat_eq_zero)
  moreover have "\<not> 0x1000 \<le> a" using assms by simp
  ultimately show ?thesis by (simp add: fw_react_def Let_def)
qed

definition fw_step :: "fw_chip \<Rightarrow> bytes \<Rightarrow> nat \<Rightarrow> fw_chip \<Rightarrow> bool" where
  "fw_step s buf k s' \<longleftrightarrow> fmem s' = upd_mem k buf (fmem s) \<and> fbooted s' \<in> {fbooted s, None} \<and>
    (\<forall>x. x \<noteq> 0x82 \<longrightarrow> fregs s' x = fregs s x)"

lemma PageWrite_wp:
  assumes "chip_device dev st (fw_obs good) fw_react" and "dl_enabled (st h)"
    and "page < 8" and "length buf \<le> 4096"
  shows "wp (PageWrite_8812 dev page buf) (\<lambda>ret h'. ret \<and> fw_step (st h) buf (page * 4096) (st h')) h"
proof -
  have c: "chip dev st (fw_obs good) fw_react" using assms(1) by (simp add: chip_def)
  obtain g where g: "computes st (BlockWrite dev buf) g"
    "\<And>s. dl_enabled s \<Longrightarrow> g s = (True, s\<lparr>fmem := upd_mem (unat (fregs s 0x82 AND 7) * 4096) buf (fmem s)\<rparr>)"
    using BlockWrite_computes [OF assms(1), of buf] assms(4) by blast
  have comp: "computes st (PageWrite_8812 dev page buf)
      (\<lambda>s. g (fw_react 0x82 [fw_obs good s 0x82 AND 0xF8 OR (of_nat page AND 0x07)] s))"
    unfolding PageWrite_8812_def
    by (rule computes_cong, (rule computes_rules chip.read8 [OF c] chip.write8 [OF c] g(1))+) simp
  have pg: "unat ((x AND 0xF8 OR (of_nat page AND 7)) AND (7 :: u8)) = page" for x
  proof -
    have "(x AND 0xF8 OR (of_nat page AND 7)) AND (7 :: u8) = of_nat page AND 7"
      by (simp add: bit.conj_disj_distrib2 and.assoc)
    also have "\<dots> = of_nat page"
      using assms(3) by (auto simp: less_Suc_eq eval_nat_numeral)
    finally show ?thesis using assms(3) by (simp add: unat_of_nat)
  qed
  show ?thesis
    by (rule wp_computes [OF comp]) (use assms(2) in \<open>simp add: fw_react_reg g(2) fw_step_def pg\<close>)
qed

lemma write_pages_wp:
  assumes "chip_device dev st (fw_obs good) fw_react"
  shows "dl_enabled (st h) \<Longrightarrow> \<forall>(page, buf) \<in> set ps. page < 8 \<and> length buf \<le> 4096 \<Longrightarrow>
    wp (write_pages dev ps) (\<lambda>ret h'. ret \<and> (\<forall>x. x \<noteq> 0x82 \<longrightarrow> fregs (st h') x = fregs (st h) x) \<and>
      fbooted (st h') \<in> {fbooted (st h), None} \<and>
      fmem (st h') = fold (\<lambda>p. upd_mem (fst p * 4096) (snd p)) ps (fmem (st h))) h"
proof (induction ps arbitrary: h)
  case (Cons p ps)
  obtain page buf where p: "p = (page, buf)" by (cases p)
  have "wp (PageWrite_8812 dev page buf) (\<lambda>ret h'. ret \<and> fw_step (st h) buf (page * 4096) (st h')) h"
    using Cons.prems by (intro PageWrite_wp [OF assms]) (auto simp: p)
  then show ?case
    unfolding p write_pages.simps wp_bind fst_conv snd_conv
  proof (rule wp_mono)
    fix ret h'
    assume a: "ret \<and> fw_step (st h) buf (page * 4096) (st h')"
    then have "dl_enabled (st h')" using Cons.prems(1) by (simp add: fw_step_def)
    from Cons.IH [OF this] Cons.prems(2) a
    show "wp (if ret then write_pages dev ps else io_return ret) (\<lambda>ret h'. ret \<and> (\<forall>x. x \<noteq> 0x82 \<longrightarrow> fregs (st h') x = fregs (st h) x) \<and>
      fbooted (st h') \<in> {fbooted (st h), None} \<and>
        fmem (st h') = fold (\<lambda>p. upd_mem (fst p * 4096) (snd p)) ((page, buf) # ps) (fmem (st h))) h'"
      by (auto simp: fw_step_def p elim: wp_mono)
  qed
qed simp

lemma fw_pages_ok: "length buf \<le> 32768 \<Longrightarrow> \<forall>(page, b) \<in> set (fw_pages buf). page < 8 \<and> length b \<le> 4096"
proof -
  assume b: "length buf \<le> 32768"
  let ?n = "length buf div 4096"
  have "?n * 4096 + length buf mod 4096 = length buf" by simp
  then have "?n \<le> 8" "length buf mod 4096 \<noteq> 0 \<Longrightarrow> ?n < 8" using b by linarith+
  moreover have "length buf mod 4096 \<le> 4096" by (simp add: less_imp_le)
  ultimately show ?thesis by (auto simp: fw_pages_def Let_def)
qed

lemma fw_pages_fold: "fold (\<lambda>p. upd_mem (fst p * 4096) (snd p)) (fw_pages buf) m = upd_mem 0 buf m"
proof -
  let ?n = "length buf div 4096"
  have len: "?n * 4096 + length buf mod 4096 = length buf" by simp
  have all: "slice 0 (?n * 4096 + length buf mod 4096) buf = buf" unfolding len by simp
  have l: "length (slice 0 (?n * 4096) buf) = ?n * 4096" by simp
  have "fold (\<lambda>i. upd_mem (i * 4096) (slice (i * 4096) 4096 buf)) [0..<?n] m = upd_mem 0 (slice 0 (?n * 4096) buf) m"
    using fold_slices [of 0 ?n 4096 buf 0 m] by simp
  then have "fold (\<lambda>p. upd_mem (fst p * 4096) (snd p)) (fw_pages buf) m =
      upd_mem (?n * 4096) (slice (?n * 4096) (length buf mod 4096) buf) (upd_mem 0 (slice 0 (?n * 4096) buf) m)"
    by (simp add: fw_pages_def Let_def fold_map comp_def) (simp add: slice_def)
  then show ?thesis
    using upd_mem_append [of 0 "slice 0 (?n * 4096) buf" "slice (?n * 4096) (length buf mod 4096) buf" m]
      slice_join [of 0 "?n * 4096" buf "length buf mod 4096"]
    by (simp only: l all add_0)
qed

lemma WriteFW8812_wp:
  assumes "chip_device dev st (fw_obs good) fw_react" and "dl_enabled (st h)" and "length buf \<le> 32768"
  shows "wp (WriteFW8812 dev buf) (\<lambda>ret h'. ret \<and> fw_step (st h) buf 0 (st h')) h"
  unfolding WriteFW8812_def
  by (rule wp_mono [OF write_pages_wp [OF assms(1,2) fw_pages_ok [OF assms(3)]]]) (simp add: fw_step_def fw_pages_fold)


section \<open>Waiting\<close>

text \<open>
  The clock of a bus: a vendor read takes time, and nothing turns the clock back. A loop that reads
  in every turn then ends: \<open>clocked_induct\<close> is the induction over its remaining time and, once that
  is over, its remaining minimum count.
\<close>

definition clocked :: "'h usb \<Rightarrow> ('h \<Rightarrow> nat) \<Rightarrow> bool" where
  "clocked dev now \<longleftrightarrow> (\<forall>a n h. now h < now (snd (ctrl_in dev a n h))) \<and>
    (\<forall>a bs h. now h \<le> now (snd (ctrl_out dev a bs h))) \<and> (\<forall>n h. now h \<le> now (sleep_us dev n h))"

lemma clocked_induct [case_names turn]:
  fixes c :: "'a::len word"
  assumes "\<And>h c. (\<And>h'. now h < (now h' :: nat) \<Longrightarrow> elapsed_ms now start h' < timeout \<or> c + 1 < min_cnt \<Longrightarrow> P h' (c + 1)) \<Longrightarrow>
    P h (c :: 'a word)"
  shows "P h c"
proof -
  let ?left = "\<lambda>h. start + timeout * 1000 - now h"
  let ?R = "measures [\<lambda>(h, c). ?left h, \<lambda>(h, c :: 'a word). unat (min_cnt - 1 - c)]"
  have "case x of (h, c) \<Rightarrow> P h c" for x
  proof (induction x rule: wf_induct [of ?R])
    case (2 x)
    obtain h c where x: "x = (h, c)" by (cases x)
    have "P h' (c + 1)" if a: "now h < now h'" "elapsed_ms now start h' < timeout \<or> c + 1 < min_cnt" for h'
    proof -
      have "((h', c + 1), (h, c)) \<in> ?R"
      proof (cases "?left h = 0")
        case False
        then have "?left h' < ?left h" using a(1) by simp
        then show ?thesis by simp
      next
        case True
        then have l: "start + timeout * 1000 \<le> now h" by simp
        then have "timeout * 1000 \<le> now h' - start" using a(1) by linarith
        then have "c + 1 < min_cnt" using a(2) by (simp add: elapsed_ms_def div_less_iff_less_mult)
        then have "min_cnt - 1 - c \<noteq> 0" by (auto simp: algebra_simps)
        then have "unat (min_cnt - 1 - c - 1) < unat (min_cnt - 1 - c)" by (rule measure_unat)
        moreover have "min_cnt - 1 - (c + 1) = min_cnt - 1 - c - 1" by simp
        ultimately have "unat (min_cnt - 1 - (c + 1)) < unat (min_cnt - 1 - c)" by simp
        then show ?thesis using l a(1) by simp
      qed
      then show ?thesis using 2 x by blast
    qed
    then show ?case using assms x by simp
  qed simp
  from this [of "(h, c)"] show ?thesis by simp
qed


definition advances :: "('h \<Rightarrow> nat) \<Rightarrow> ('h, 'a) io \<Rightarrow> bool" where
  "advances now m \<longleftrightarrow> (\<forall>h. now h \<le> now (snd (m h)))"

lemma advances_return: "advances now (io_return x)"
  by (simp add: advances_def io_return_def)

lemma advances_bind:
  assumes "advances now m" and "\<And>x. advances now (k x)"
  shows "advances now (io_bind m k)"
  unfolding advances_def
proof
  fix h
  obtain r h1 where m: "m h = (r, h1)" by (cases "m h")
  then have "now h \<le> now h1" using assms(1) unfolding advances_def by (metis snd_conv)
  moreover have "now h1 \<le> now (snd (k x h1))" for x using assms(2) by (simp add: advances_def)
  ultimately have "now h \<le> now (snd (k x h1))" for x by (rule order_trans)
  with \<open>now h \<le> now h1\<close> show "now h \<le> now (snd (io_bind m k h))"
    by (cases r) (auto simp: io_bind_def m)
qed

lemma advances_then: "advances now m \<Longrightarrow> advances now n \<Longrightarrow> advances now (io_then m n)"
  unfolding io_then_def by (rule advances_bind)

lemma advances_when: "advances now m \<Longrightarrow> advances now (io_when b m)"
  by (simp add: io_when_def advances_return)

lemma advances_seq: "\<forall>m \<in> set ms. advances now m \<Longrightarrow> advances now (io_seq ms)"
  by (induction ms) (auto intro: advances_return advances_then)

locale clocked_bus =
  fixes dev :: "'h usb" and now :: "'h \<Rightarrow> nat"
  assumes clocked: "clocked dev now"
begin

lemma ctrl_in_later: "now h < now (snd (ctrl_in dev a n h))"
  using clocked by (simp add: clocked_def)

lemma sleep_later: "now h \<le> now (sleep_us dev n h)"
  using clocked by (simp add: clocked_def)

lemma read_attempts_later: "now h < now (snd (rtw_read_attempts (Suc k) dev a n h))"
proof (induction k arbitrary: h)
  case 0
  then show ?case using ctrl_in_later [of h a n] sleep_later [of _ 2000] 
    by (auto split: prod.split intro: less_le_trans)
next
  case (Suc k)
  obtain r bs h' where r: "ctrl_in dev a n h = ((r, bs), h')" by (metis surj_pair)
  have "now h < now h'" using ctrl_in_later [of h a n] r by simp
  moreover have "now h' < now (snd (rtw_read_attempts (Suc k) dev a n (sleep_us dev 2000 h')))"
    using Suc [of "sleep_us dev 2000 h'"] sleep_later [of h' 2000] by (rule le_less_trans [rotated])
  ultimately show ?case
    unfolding rtw_read_attempts.simps(2) [of "Suc k"] Let_def r by (auto simp del: rtw_read_attempts.simps)
qed

lemma read_later: "now h < now (snd (rtw_read dev a n h))"
proof -
  have "(4 :: nat) = Suc 3" by simp
  then show ?thesis unfolding rtw_read_def using read_attempts_later [of h 3 a n] by (simp only:)
qed

lemma read32_later: "now h < now (snd (rtw_read32 dev a h))"
  using read_later by (simp add: rtw_read32_def)

lemma read8_later: "now h < now (snd (rtw_read8 dev a h))"
  using read_later by (simp add: rtw_read8_def)

lemma ctrl_out_later: "now h \<le> now (snd (ctrl_out dev a bs h))"
  using clocked by (simp add: clocked_def)

lemma advances_access: "advances now (rtw_read8 dev a)" "advances now (rtw_read32 dev a)" "advances now (wr8 dev a v)"
    "advances now (wr32 dev a w)" "advances now (wr_bytes dev a bs)"
  using read8_later read32_later ctrl_out_later
  by (auto simp: advances_def less_imp_le wr8_def wr32_def wr_bytes_def WriteBytes_def rtw_write8_def rtw_write32_def
      rtw_write_def split_beta)

lemma advances_update8: "advances now (update8 dev a f)"
  unfolding update8_def by (intro advances_bind advances_access)

lemma advances_BlockWrite: "advances now (BlockWrite dev buf)"
  unfolding BlockWrite_def Let_def write_blocks_def
  by (intro advances_then advances_seq advances_return) (auto intro: advances_access)

lemma advances_write_pages: "advances now (write_pages dev ps)"
  by (induction ps) (auto simp: PageWrite_8812_def intro!: advances_return advances_bind advances_then advances_access advances_BlockWrite)

lemma advances_WriteFW: "advances now (WriteFW8812 dev buf)"
  unfolding WriteFW8812_def by (rule advances_write_pages)

lemma later_bind:
  assumes "\<And>h. now h < now (snd (m h))" and "\<And>x. advances now (k x)"
  shows "now h < now (snd (io_bind m k h))"
proof -
  obtain r h1 where m: "m h = (r, h1)" by (cases "m h")
  have "now h < now h1" using assms(1) [of h] m by simp
  moreover have "now h1 \<le> now (snd (k x h1))" for x using assms(2) by (simp add: advances_def)
  ultimately have "now h < now (snd (k x h1))" for x by (rule less_le_trans)
  with \<open>now h < now h1\<close> show ?thesis by (cases r) (auto simp: io_bind_def m)
qed

lemma update8_later: "now h < now (snd (update8 dev a f h))"
  unfolding update8_def by (rule later_bind) (rule read8_later, rule advances_access)

lemma poll_returns: "\<exists>r. poll_fwdl dev now ready min_cnt timeout_ms start cnt h = Some r \<and> now h < now (snd r)"
proof (induction rule: clocked_induct [of now start timeout_ms min_cnt])
  case (turn h c)
  obtain r h' where r: "rtw_read32 dev REG_MCUFWDL h = (r, h')" by (cases "rtw_read32 dev REG_MCUFWDL h")
  then have "now h < now h'" using read32_later [of h REG_MCUFWDL] by simp
  then show ?case
    using turn [of h'] by (subst poll_fwdl.simps) (auto simp: r split: sum.split intro: less_trans)
qed

lemma fwdl_loop_returns: "\<exists>r. fwdl_loop dev now fw start write_fw rtStatus h = Some r"
proof (induction arbitrary: rtStatus rule: clocked_induct [of now start 500 3])
  case (turn h c)
  have again: "\<exists>r. fwdl_loop dev now fw start (c + 1) rt h' = Some r" if "now h < now h'" for h' rt
  proof (cases "c + 1 < 3 \<or> elapsed_ms now start h' < 500")
    case True
    then show ?thesis using turn [of h' rt] that by blast
  next
    case False
    then show ?thesis by (subst fwdl_loop.simps) simp
  qed
  let ?m = "io_then (update8 dev REG_MCUFWDL (\<lambda>v. v OR FWDL_ChkSum_rpt)) (WriteFW8812 dev fw)"
  obtain r h1 where r: "?m h = (r, h1)" by (cases "?m h")
  have "now h < now (snd (?m h))"
    unfolding io_then_def by (rule later_bind [OF update8_later advances_WriteFW])
  then have l: "now h < now h1" by (simp add: r)
  obtain p where p: "polling_fwdl_chksum dev now 5 50 h1 = Some p" "now h < now (snd p)"
    using poll_returns [of _ 5 50 "now h1" 0 h1] l unfolding polling_fwdl_chksum_def by (meson less_trans)
  show ?case
    using again [OF l] again [OF p(2)]
    by (subst fwdl_loop.simps) (auto simp: r p(1) split: sum.split prod.split)
qed

end

definition returns :: "('h, 'a) run \<Rightarrow> bool" where
  "returns m \<longleftrightarrow> (\<forall>h. \<exists>r. m h = Some r)"

lemma returns_io: "returns (run_io m)"
  by (simp add: returns_def run_io_def)

lemma returns_bind: "returns m \<Longrightarrow> (\<And>x. returns (k x)) \<Longrightarrow> returns (run_bind m k)"
  unfolding returns_def
proof
  fix h
  assume "\<forall>h. \<exists>r. m h = Some r" and k: "\<And>x. \<forall>h. \<exists>r. k x h = Some r"
  then obtain r h1 where "m h = Some (r, h1)" by (metis surj_pair)
  then show "\<exists>r. run_bind m k h = Some r"
    using k by (cases r) (simp_all add: run_bind_def)
qed

lemma returns_if: "returns m \<Longrightarrow> returns n \<Longrightarrow> returns (if b then m else n)"
  by simp

text \<open>
  C17: The download returns. On a bus where every register read takes at least a microsecond and the
  clock never runs backwards, \<open>FirmwareDownload\<close> ends for every image and every chip, however it
  answers, with success, failure or the exception of a read.
\<close>

theorem FirmwareDownload_returns:
  assumes "clocked dev now"
  shows "\<exists>r. FirmwareDownload_8812 dev now ic_type blob h = Some r"
proof -
  have b: "clocked_bus dev now" using assms by (simp add: clocked_bus_def)
  have poll: "returns (\<lambda>h. poll_fwdl dev now ready c t (now h) 0 h)" for ready c t
    using clocked_bus.poll_returns [OF b] unfolding returns_def by blast
  have loop: "returns (\<lambda>h. fwdl_loop dev now fw (now h) 0 True h)" for fw
    using clocked_bus.fwdl_loop_returns [OF b] unfolding returns_def by blast
  have "returns (FirmwareDownload_8812 dev now ic_type blob)"
    unfolding FirmwareDownload_8812_def FWFreeToGo8812_def Let_def
    by (intro returns_bind returns_io returns_if poll loop)
  then show ?thesis by (simp add: returns_def)
qed


text \<open>A witness: the firmware chip behind a bus where every transfer takes 125 microseconds.\<close>

definition timed :: "'h usb \<Rightarrow> (nat \<times> 'h) usb" where
  "timed dev =
    \<lparr>ctrl_in = \<lambda>a n (t, h). (let (r, h') = ctrl_in dev a n h in (r, (t + 125, h'))),
     ctrl_out = \<lambda>a bs (t, h). (let (r, h') = ctrl_out dev a bs h in (r, (t + 125, h'))),
     sleep_us = \<lambda>n (t, h). (t + n, sleep_us dev n h)\<rparr>"

lemma clocked_timed: "clocked (timed dev) fst"
  by (simp add: clocked_def timed_def split: prod.split)

lemma chip_timed: "chip_device dev st obs react \<Longrightarrow> chip_device (timed dev) (\<lambda>h. st (snd h)) obs react"
  by (simp add: chip_device_def timed_def split_beta)

interpretation timed_bus: clocked_bus "timed dev" fst for dev
  by unfold_locales (rule clocked_timed)

theorem FirmwareDownload_returns_witness:
  "\<forall>s. \<exists>r. FirmwareDownload_8812 (timed (chip_usb (fw_obs (\<lambda>_. False)) fw_react)) fst CHIP_8812 [1, 2, 3] (0, s) = Some r"
  by (rule allI, rule FirmwareDownload_returns [OF clocked_timed])

section \<open>The image runs\<close>

lemma fw_obs_reg: "a \<noteq> 0x80 \<Longrightarrow> fw_obs good s a = fregs s a"
  by (simp add: fw_obs_def)

lemma fw_react_other:
  "a < 0x1000 \<Longrightarrow> a \<noteq> 0x03 \<Longrightarrow> fw_react a [v] s =
    s\<lparr>fregs := (fregs s)(a := v), fbooted := (if bit (fregs s 0x03) 2 then fbooted s else None)\<rparr>"
  by (simp add: fw_react_reg)

lemma fw_react_off:
  "\<not> bit v 2 \<Longrightarrow> fw_react 0x03 [v] s = s\<lparr>fregs := (fregs s)(0x03 := v), fbooted := None\<rparr>"
  by (simp add: fw_react_reg)

lemma fw_react_on:
  "bit v 2 \<Longrightarrow> fw_react 0x03 [v] s = s\<lparr>fregs := (fregs s)(0x03 := v),
    fbooted := (if \<not> bit (fregs s 0x03) 2 \<and> bit (fregs s 0x80) 1 then Some (fmem s) else fbooted s)\<rparr>"
  by (simp add: fw_react_reg)

lemma reset_computes:
  assumes "chip_device dev st (fw_obs good) fw_react"
  obtains F where "computes st (u8051Reset8812 dev) (\<lambda>s. ((), F s))"
    and "\<And>s. fmem (F s) = fmem s" and "\<And>s x. x \<notin> {0x1C, 0x1D, 0x03} \<Longrightarrow> fregs (F s) x = fregs s x"
    and "\<And>s. fbooted (F s) = (if bit (fregs s 0x80) 1 then Some (fmem s) else None)" and "\<And>s. bit (fregs (F s) 0x03) 2"
proof -
  have c: "chip dev st (fw_obs good) fw_react" using assms by (simp add: chip_def)
  define F where "F = (\<lambda>s. let s1 = fw_react 0x1C [fregs s 0x1C AND NOT BIT1] s;
    s2 = fw_react 0x1D [fregs s1 0x1D AND NOT BIT3] s1; s3 = fw_react 0x03 [fregs s2 0x03 AND NOT BIT2] s2;
    s4 = fw_react 0x1C [fregs s3 0x1C AND NOT BIT1] s3; s5 = fw_react 0x1D [fregs s4 0x1D OR BIT3] s4
    in fw_react 0x03 [fregs s2 0x03 OR BIT2] s5)"
  have "computes st (u8051Reset8812 dev) (\<lambda>s. ((), F s))"
    unfolding u8051Reset8812_def
    by (rule computes_cong, (rule computes_rules update8_chip [OF c] chip.read8 [OF c] chip.write8 [OF c])+)
      (simp add: F_def Let_def fw_obs_reg)
  moreover have b: "bit (x OR 4) 2" "\<not> bit (x AND - 5) 2" for x :: u8
    by (simp_all add: bit_simps)
  have "F s = s\<lparr>fregs := (fregs s)(0x1C := fregs s 0x1C AND NOT BIT1, 0x1D := fregs s 0x1D AND NOT BIT3 OR BIT3,
      0x03 := fregs s 0x03 OR BIT2), fbooted := (if bit (fregs s 0x80) 1 then Some (fmem s) else None)\<rparr>" for s
    by (simp add: F_def Let_def fw_react_other fw_react_off fw_react_on b fun_upd_twist)
  ultimately show ?thesis
    by (intro that [of F]) (simp_all add: b)
qed


lemma fw_flags: "bit (fw_obs good s 0x80) 0 = bit (fregs s 0x80) 0" "bit (fw_obs good s 0x80) 2 = good (fmem s)"
    "bit (fw_obs good s 0x80) 6 = (fbooted s \<noteq> None)"
  by (simp_all add: fw_obs_def bit_simps)

lemma byte_bits: "bit (x OR 1) 0" "\<not> bit (x AND 0xfe) 0" "bit (x OR 4) 0 = bit x 0" for x :: u8
  by (simp_all add: bit_simps)

text \<open>Putting the chip into download mode.\<close>

lemma enter_wp:
  assumes "chip_device dev st (fw_obs good) fw_react"
  shows "wp (io_then (io_bind (rtw_read8 dev REG_MCUFWDL) (\<lambda>v. io_when (v AND BIT7 \<noteq> 0)
         (io_then (wr8 dev REG_MCUFWDL 0x00) (u8051Reset8812 dev)))) (FWDownloadEnable_8812 dev True))
      (\<lambda>_ h'. dl_enabled (st h') \<and> fbooted (st h') \<in> {fbooted (st h), None}) h"
proof -
  have c: "chip dev st (fw_obs good) fw_react" using assms by (simp add: chip_def)
  obtain F where F: "computes st (u8051Reset8812 dev) (\<lambda>s. ((), F s))"
    "\<And>s. fbooted (F s) = (if bit (fregs s 0x80) 1 then Some (fmem s) else None)"
    by (rule reset_computes [OF assms]) blast
  have "wp (io_bind (rtw_read8 dev REG_MCUFWDL) (\<lambda>v. io_when (v AND BIT7 \<noteq> 0)
      (io_then (wr8 dev REG_MCUFWDL 0x00) (u8051Reset8812 dev)))) (\<lambda>_ h'. fbooted (st h') \<in> {fbooted (st h), None}) h"
    by (rule wp_computes, (rule computes_rules F(1) chip.read8 [OF c] chip.write8 [OF c])+)
      (auto simp: F(2) fw_react_other split: if_splits)
  then show ?thesis
    unfolding wp_then
  proof (rule wp_mono)
    fix h1
    assume 1: "fbooted (st h1) \<in> {fbooted (st h), None}"
    show "wp (FWDownloadEnable_8812 dev True) (\<lambda>_ h'. dl_enabled (st h') \<and> fbooted (st h') \<in> {fbooted (st h), None}) h1"
      unfolding FWDownloadEnable_8812_def if_True
      by (rule wp_computes, (rule computes_rules update8_chip [OF c])+) (use 1 in \<open>auto simp: fw_react_other byte_bits\<close>)
  qed
qed

lemma attempt_wp:
  assumes "chip_device dev st (fw_obs good) fw_react" and "dl_enabled (st h)" and "length fw \<le> 32768"
  shows "wp (io_then (update8 dev REG_MCUFWDL (\<lambda>v. v OR FWDL_ChkSum_rpt)) (WriteFW8812 dev fw))
    (\<lambda>ret h'. ret \<and> dl_enabled (st h') \<and> fmem (st h') = upd_mem 0 fw (fmem (st h)) \<and>
      fbooted (st h') \<in> {fbooted (st h), None}) h"
proof -
  have c: "chip dev st (fw_obs good) fw_react" using assms(1) by (simp add: chip_def)
  show ?thesis
    unfolding wp_then
  proof (rule wp_computes [OF update8_chip [OF c]])
    fix h1
    assume "st h1 = snd ((), fw_react REG_MCUFWDL [fw_obs good (st h) REG_MCUFWDL OR FWDL_ChkSum_rpt] (st h))"
    then have 1: "dl_enabled (st h1)" "fmem (st h1) = fmem (st h)" "fbooted (st h1) \<in> {fbooted (st h), None}"
      using assms(2) by (auto simp: fw_react_other byte_bits fw_flags)
    show "wp (WriteFW8812 dev fw) (\<lambda>ret h'. ret \<and> dl_enabled (st h') \<and> fmem (st h') = upd_mem 0 fw (fmem (st h)) \<and>
        fbooted (st h') \<in> {fbooted (st h), None}) h1"
      by (rule wp_mono [OF WriteFW8812_wp [OF assms(1) 1(1) assms(3)]]) (use 1 in \<open>auto simp: fw_step_def\<close>)
  qed
qed

lemma leave_wp:
  assumes "chip_device dev st (fw_obs good) fw_react"
  shows "wp (FWDownloadEnable_8812 dev False)
      (\<lambda>_ h'. \<not> dl_enabled (st h') \<and> fmem (st h') = fmem (st h) \<and> fbooted (st h') \<in> {fbooted (st h), None}) h"
proof -
  have c: "chip dev st (fw_obs good) fw_react" using assms(1) by (simp add: chip_def)
  show ?thesis
    unfolding FWDownloadEnable_8812_def if_False
    by (rule wp_computes [OF update8_chip [OF c]]) (auto simp: fw_react_other byte_bits)
qed

lemma poll_ready:
  assumes "chip dev st obs react" and "ready (reg32 (obs (st h)) 0x80)"
  shows "\<exists>h'. poll_fwdl dev now ready min_cnt timeout_ms start cnt h = Some (Inr True, h') \<and> st h' = st h"
proof -
  obtain h' where "rtw_read32 dev 0x80 h = (Inr (reg32 (obs (st h)) 0x80), h')" "st h' = st h"
    using computesE [OF chip.read32 [OF assms(1)]] by (metis fst_conv snd_conv)
  then show ?thesis using assms(2) by (subst poll_fwdl.simps) simp
qed

text \<open>Starting the core.\<close>

lemma start_wp:
  assumes "chip_device dev st (fw_obs good) fw_react" and "\<not> dl_enabled (st h)"
  shows "wp (io_then (io_bind (rtw_read32 dev REG_MCUFWDL) (\<lambda>value32.
          wr32 dev REG_MCUFWDL ((value32 OR MCUFWDL_RDY) AND NOT WINTINI_RDY))) (u8051Reset8812 dev))
      (\<lambda>_ h'. \<not> dl_enabled (st h') \<and> fbooted (st h') = Some (fmem (st h)) \<and> bit (fregs (st h') 0x03) 2) h"
proof -
  have c: "chip dev st (fw_obs good) fw_react" using assms(1) by (simp add: chip_def)
  obtain F where F: "computes st (u8051Reset8812 dev) (\<lambda>s. ((), F s))" "\<And>s x. x \<notin> {0x1C, 0x1D, 0x03} \<Longrightarrow> fregs (F s) x = fregs s x"
    "\<And>s. fbooted (F s) = (if bit (fregs s 0x80) 1 then Some (fmem s) else None)" "\<And>s. bit (fregs (F s) 0x03) 2"
    by (rule reset_computes [OF assms(1)]) blast
  have w: "store 0x80 (le_bytes 4 w) r 0x80 = ucast w" for r and w :: u32
    by (simp add: store_apply le_bytes_conv upt_rec)
  have bits: "bit (ucast ((reg32 (fw_obs good (st h)) 0x80 OR 2) AND - 65 :: u32) :: u8) 1"
    "\<not> bit (ucast ((reg32 (fw_obs good (st h)) 0x80 OR 2) AND - 65 :: u32) :: u8) 0"
    using assms(2) by (simp_all add: bit_simps bit_reg32_low fw_flags)
  show ?thesis
    by (rule wp_computes, (rule computes_rules F(1) chip.read32 [OF c] chip.write32 [OF c])+)
      (use bits in \<open>simp add: F(2,3,4) fw_react_def Let_def w\<close>)
qed

text \<open>
  C14: A download that the chip accepts runs the image. On a chip whose checksum agrees whenever its
  memory holds the image (the file without its header), the first attempt succeeds, the download
  returns without waiting for the clock, the core is started with exactly the bytes of the image at
  the start of its memory, the download window is closed and the command mailbox initialised. The
  image may be as long as the eight pages of the window.
\<close>

theorem FirmwareDownload_runs_image:
  assumes "chip_device dev st (fw_obs good) fw_react" and "ic_type \<noteq> CHIP_8814A"
    and "fw = (if jaguar_fw_header_present blob ic_type then drop 32 blob else blob)" and "length fw \<le> 32768"
    and "\<And>m. good (upd_mem 0 fw m)"
  shows "\<exists>h' m. FirmwareDownload_8812 dev now ic_type blob h = Some (Inr (), h') \<and>
    fbooted (st h') = Some m \<and> map m [0..<length fw] = fw \<and> \<not> dl_enabled (st h') \<and> fregs (st h') FW_HMETFR = 0x0f"
proof -
  have c: "chip dev st (fw_obs good) fw_react" using assms(1) by (simp add: chip_def)
  obtain h1 where 1: "io_then (io_bind (rtw_read8 dev REG_MCUFWDL) (\<lambda>v. io_when (v AND BIT7 \<noteq> 0)
      (io_then (wr8 dev REG_MCUFWDL 0x00) (u8051Reset8812 dev)))) (FWDownloadEnable_8812 dev True) h = (Inr (), h1)"
      "dl_enabled (st h1)"
    using enter_wp [OF assms(1), of h] unfolding wp_def by auto
  obtain h2 where 2: "io_then (update8 dev REG_MCUFWDL (\<lambda>v. v OR FWDL_ChkSum_rpt)) (WriteFW8812 dev fw) h1 = (Inr True, h2)"
      "fmem (st h2) = upd_mem 0 fw (fmem (st h1))"
    using attempt_wp [OF assms(1) 1(2) assms(4)] unfolding wp_def by auto
  have "reg32 (fw_obs good (st h2)) 0x80 AND FWDL_ChkSum_rpt \<noteq> 0"
  proof -
    have "bit (reg32 (fw_obs good (st h2)) 0x80 AND 4) 2"
      using assms(5) by (simp add: bit_simps bit_reg32_low fw_flags 2(2))
    then show ?thesis by auto
  qed
  from poll_ready [OF c, where ready = "\<lambda>v. v AND FWDL_ChkSum_rpt \<noteq> 0", OF this]
  obtain h3 where 3: "polling_fwdl_chksum dev now 5 50 h2 = Some (Inr True, h3)" "st h3 = st h2"
    unfolding polling_fwdl_chksum_def by blast
  have loop: "fwdl_loop dev now fw (now h1) 0 True h1 = Some (Inr True, h3)"
    by (subst fwdl_loop.simps) (simp add: 2(1) 3(1))
  obtain h4 where 4: "FWDownloadEnable_8812 dev False h3 = (Inr (), h4)" "\<not> dl_enabled (st h4)" "fmem (st h4) = fmem (st h2)"
    using leave_wp [OF assms(1), of h3] 3(2) unfolding wp_def by auto
  obtain h5 where 5: "io_then (io_bind (rtw_read32 dev REG_MCUFWDL) (\<lambda>value32.
      wr32 dev REG_MCUFWDL ((value32 OR MCUFWDL_RDY) AND NOT WINTINI_RDY))) (u8051Reset8812 dev) h4 = (Inr (), h5)"
      "\<not> dl_enabled (st h5)" "fbooted (st h5) = Some (fmem (st h2))" "bit (fregs (st h5) 0x03) 2"
    using start_wp [OF assms(1) 4(2)] 4(3) unfolding wp_def by auto
  have "fw_ready ic_type (reg32 (fw_obs good (st h5)) 0x80)"
  proof -
    have "bit (reg32 (fw_obs good (st h5)) 0x80 AND 0x40) 6"
      by (simp add: bit_simps bit_reg32_low fw_flags 5(3))
    then show ?thesis using assms(2) by (auto simp: fw_ready_def)
  qed
  from poll_ready [OF c, where ready = "fw_ready ic_type", OF this]
  obtain h6 where 6: "poll_fwdl dev now (fw_ready ic_type) 10 200 (now h5) 0 h5 = Some (Inr True, h6)" "st h6 = st h5"
    by blast
  obtain h7 where 7: "InitializeFirmwareVars8812 dev h6 = (Inr (), h7)" "st h7 = fw_react FW_HMETFR [0x0f] (st h6)"
    using computesE [OF chip.write8 [OF c]] unfolding InitializeFirmwareVars8812_def by (metis fst_conv snd_conv)
  have "FirmwareDownload_8812 dev now ic_type blob h = Some (Inr (), h7)"
    using 1(1) loop 4(1) 5(1) 6(1) 7(1) assms(2)
    by (simp add: FirmwareDownload_8812_def assms(3) [symmetric] run_bind_def run_io_def FWFreeToGo8812_def io_when_def)
  moreover have "fbooted (st h7) = Some (upd_mem 0 fw (fmem (st h1)))" "\<not> dl_enabled (st h7)" "fregs (st h7) FW_HMETFR = 0x0f"
    using 5 6(2) by (simp_all add: 7(2) fw_react_other 2(2))
  moreover have "map (upd_mem 0 fw (fmem (st h1))) [0..<length fw] = fw"
    by (rule nth_equalityI) (simp_all add: upd_mem_def)
  ultimately show ?thesis by blast
qed


text \<open>An image of three bytes behind its header, on a chip that knows their checksum.\<close>

theorem FirmwareDownload_runs_image_witness:
  "\<forall>s. \<exists>s' m. FirmwareDownload_8812 (chip_usb (fw_obs (\<lambda>m. m 0 = 7 \<and> m 1 = 8 \<and> m 2 = 9)) fw_react) (\<lambda>_. 0) CHIP_8812
      ([1, 0x95] @ replicate 30 0 @ [7, 8, 9]) s = Some (Inr (), s') \<and>
    fbooted s' = Some m \<and> map m [0..<length [7, 8, 9 :: u8]] = [7, 8, 9]"
proof
  fix s
  have hdr: "[7, 8, 9] = (if jaguar_fw_header_present ([1, 0x95] @ replicate 30 0 @ [7, 8, 9]) CHIP_8812
      then drop 32 ([1, 0x95] @ replicate 30 0 @ [7, 8, 9]) else [1, 0x95] @ replicate 30 0 @ [7, 8, 9 :: u8])"
    by (simp add: jaguar_fw_header_present_def slice_def le_word_def)
  show "\<exists>s' m. FirmwareDownload_8812 (chip_usb (fw_obs (\<lambda>m. m 0 = 7 \<and> m 1 = 8 \<and> m 2 = 9)) fw_react) (\<lambda>_. 0) CHIP_8812
      ([1, 0x95] @ replicate 30 0 @ [7, 8, 9]) s = Some (Inr (), s') \<and>
    fbooted s' = Some m \<and> map m [0..<length [7, 8, 9 :: u8]] = [7, 8, 9]"
    using FirmwareDownload_runs_image [OF chip_chip_usb _ hdr, of "\<lambda>m. m 0 = 7 \<and> m 1 = 8 \<and> m 2 = 9" "\<lambda>_. 0" s]
    by (simp add: upd_mem_def) blast
qed

text \<open>A chip that never reports a good checksum.\<close>

lemma poll_never:
  assumes "chip dev st obs react" and "clocked dev now" and "\<not> ready (reg32 (obs (st h)) 0x80)"
  shows "\<exists>h'. poll_fwdl dev now ready min_cnt timeout_ms start cnt h = Some (Inr False, h') \<and> st h' = st h \<and> now h < now h'"
proof -
  have b: "clocked_bus dev now" using assms(2) by (simp add: clocked_bus_def)
  have "\<not> ready (reg32 (obs (st h)) 0x80) \<longrightarrow>
      (\<exists>h'. poll_fwdl dev now ready min_cnt timeout_ms start cnt h = Some (Inr False, h') \<and> st h' = st h \<and> now h < now h')"
  proof (induction rule: clocked_induct [of now start timeout_ms min_cnt])
    case (turn h c)
    obtain h1 where h1: "rtw_read32 dev 0x80 h = (Inr (reg32 (obs (st h)) 0x80), h1)" "st h1 = st h"
      using computesE [OF chip.read32 [OF assms(1)]] by (metis fst_conv snd_conv)
    have l: "now h < now h1" using clocked_bus.read32_later [OF b, of h "0x80"] h1(1) by simp
    show ?case
      using turn [OF l] h1(2) l
      by (subst poll_fwdl.simps) (auto simp: h1(1) intro: less_trans)
  qed
  then show ?thesis using assms(3) by blast
qed

lemma fwdl_loop_rejected:
  assumes "chip_device dev st (fw_obs (\<lambda>_. False)) fw_react" and "clocked dev now" and "length fw \<le> 32768"
  shows "dl_enabled (st h) \<longrightarrow> write_fw < 3 \<or> elapsed_ms now start h < 500 \<or> \<not> rtStatus \<longrightarrow>
    (\<exists>h'. fwdl_loop dev now fw start write_fw rtStatus h = Some (Inr False, h') \<and>
      fbooted (st h') \<in> {fbooted (st h), None})"
proof (induction arbitrary: rtStatus rule: clocked_induct [of now start 500 3])
  case (turn h c)
  have b: "clocked_bus dev now" using assms(2) by (simp add: clocked_bus_def)
  have c: "chip dev st (fw_obs (\<lambda>_. False)) fw_react" using assms(1) by (simp add: chip_def)
  let ?m = "io_then (update8 dev REG_MCUFWDL (\<lambda>v. v OR FWDL_ChkSum_rpt)) (WriteFW8812 dev fw)"
  have again: "\<exists>h'. fwdl_loop dev now fw start (c + 1) False h2 = Some (Inr False, h') \<and> fbooted (st h') \<in> {fbooted (st h2), None}"
    if "now h < now h2" "dl_enabled (st h2)" for h2
  proof (cases "c + 1 < 3 \<or> elapsed_ms now start h2 < 500")
    case True
    then show ?thesis using turn [OF that(1), of False] that(2) by blast
  next
    case False
    then show ?thesis by (subst fwdl_loop.simps) simp
  qed
  show ?case
  proof (intro impI)
    assume e: "dl_enabled (st h)" and cond: "c < 3 \<or> elapsed_ms now start h < 500 \<or> \<not> rtStatus"
    obtain h1 where 1: "?m h = (Inr True, h1)" "dl_enabled (st h1)" "fbooted (st h1) \<in> {fbooted (st h), None}"
      using attempt_wp [OF assms(1) e assms(3)] unfolding wp_def by auto
    have "now h < now (snd (?m h))"
      unfolding io_then_def
      by (rule clocked_bus.later_bind [OF b clocked_bus.update8_later [OF b] clocked_bus.advances_WriteFW [OF b]])
    then have l1: "now h < now h1" by (simp add: 1(1))
    have "\<not> reg32 (fw_obs (\<lambda>_. False) (st h1)) 0x80 AND FWDL_ChkSum_rpt \<noteq> 0"
    proof -
      have "bit (reg32 (fw_obs (\<lambda>_. False) (st h1)) 0x80) 2 = False" by (simp add: bit_reg32_low fw_flags)
      then show ?thesis by (simp add: and_exp_eq_0_iff_not_bit [of _ 2, simplified])
    qed
    from poll_never [OF c assms(2), where ready = "\<lambda>v. v AND FWDL_ChkSum_rpt \<noteq> 0", OF this]
    obtain h2 where 2: "polling_fwdl_chksum dev now 5 50 h1 = Some (Inr False, h2)" "st h2 = st h1" "now h1 < now h2"
      unfolding polling_fwdl_chksum_def by blast
    obtain h3 where 3: "fwdl_loop dev now fw start (c + 1) False h2 = Some (Inr False, h3)"
        "fbooted (st h3) \<in> {fbooted (st h2), None}"
      using again [of h2] l1 2 1(2) by auto
    show "\<exists>h'. fwdl_loop dev now fw start c rtStatus h = Some (Inr False, h') \<and> fbooted (st h') \<in> {fbooted (st h), None}"
    proof (cases "c < 3 \<or> elapsed_ms now start h < 500")
      case True
      then show ?thesis using 3 1(3) by (subst fwdl_loop.simps) (auto simp: 1(1) 2(1,2))
    next
      case False
      then show ?thesis using cond by (subst fwdl_loop.simps) auto
    qed
  qed
qed

text \<open>
  C16: An image the chip rejects is never started. When the checksum never agrees, the download, on a
  bus whose clock runs, writes the image again until half a second is over, then closes the window
  and returns: the core runs what it ran before or nothing. \<open>FirmwareDownload\<close> itself
  returns as after a success; its caller is not told.
\<close>

theorem rejected_image_never_runs:
  assumes "chip_device dev st (fw_obs (\<lambda>_. False)) fw_react" and "clocked dev now"
    and "fw = (if jaguar_fw_header_present blob ic_type then drop 32 blob else blob)" and "length fw \<le> 32768"
  shows "\<exists>h'. FirmwareDownload_8812 dev now ic_type blob h = Some (Inr (), h') \<and>
    fbooted (st h') \<in> {fbooted (st h), None} \<and> \<not> dl_enabled (st h')"
proof -
  obtain h1 where 1: "io_then (io_bind (rtw_read8 dev REG_MCUFWDL) (\<lambda>v. io_when (v AND BIT7 \<noteq> 0)
      (io_then (wr8 dev REG_MCUFWDL 0x00) (u8051Reset8812 dev)))) (FWDownloadEnable_8812 dev True) h = (Inr (), h1)"
      "dl_enabled (st h1)" "fbooted (st h1) \<in> {fbooted (st h), None}"
    using enter_wp [OF assms(1), of h] unfolding wp_def by auto
  obtain h2 where 2: "fwdl_loop dev now fw (now h1) 0 True h1 = Some (Inr False, h2)" "fbooted (st h2) \<in> {fbooted (st h1), None}"
    using fwdl_loop_rejected [OF assms(1,2,4), of h1 0 "now h1" True] 1(2) by auto
  obtain h3 where 3: "FWDownloadEnable_8812 dev False h2 = (Inr (), h3)" "\<not> dl_enabled (st h3)" "fbooted (st h3) \<in> {fbooted (st h2), None}"
    using leave_wp [OF assms(1), of h2] unfolding wp_def by auto
  have "FirmwareDownload_8812 dev now ic_type blob h = Some (Inr (), h3)"
    using 1(1) 2(1) 3(1)
    by (simp add: FirmwareDownload_8812_def assms(3) [symmetric] run_bind_def run_io_def io_return_def)
  then show ?thesis using 1(3) 2(2) 3(2,3) by auto
qed

theorem rejected_image_never_runs_witness:
  "\<forall>s. \<exists>h'. FirmwareDownload_8812 (timed (chip_usb (fw_obs (\<lambda>_. False)) fw_react)) fst CHIP_8821 [1, 2, 3] (0, s) = Some (Inr (), h') \<and>
    fbooted (snd h') \<in> {fbooted s, None}"
proof
  fix s
  have hdr: "[1, 2, 3] = (if jaguar_fw_header_present [1, 2, 3] CHIP_8821 then drop 32 [1, 2, 3] else [1, 2, 3 :: u8])"
    by code_simp
  show "\<exists>h'. FirmwareDownload_8812 (timed (chip_usb (fw_obs (\<lambda>_. False)) fw_react)) fst CHIP_8821 [1, 2, 3] (0, s) = Some (Inr (), h') \<and>
    fbooted (snd h') \<in> {fbooted s, None}"
    using rejected_image_never_runs [OF chip_timed [OF chip_chip_usb] clocked_timed hdr, of "(0, s)"] by auto
qed

end
