(* ===== verification/Firmware8814.thy ===== *)
theory Firmware8814
  imports Firmware8812 TxDesc
begin

text \<open>
  The firmware download of the RTL8814A, src/FirmwareManager.cpp: the register sequence before it, the
  sections of the image as reserved-page packets (\<open>stream_section\<close>) that the direct memory access of
  the chip copies to its memories, and the start of the core. The bulk transfer is an argument; what
  \<open>bulk_send_sync\<close> of src/RtlUsbAdapter.cpp does around its first transfers is modelled, with its two
  once-only flags passed along.
\<close>

abbreviation (input) REG_DDMA_CH0SA_8814A :: u16 where "REG_DDMA_CH0SA_8814A \<equiv> 0x1200"
abbreviation (input) REG_DDMA_CH0DA_8814A :: u16 where "REG_DDMA_CH0DA_8814A \<equiv> 0x1204"
abbreviation (input) REG_DDMA_CH0CTRL_8814A :: u16 where "REG_DDMA_CH0CTRL_8814A \<equiv> 0x1208"
abbreviation (input) REG_FIFOPAGE_CTRL_2_8814A :: u16 where "REG_FIFOPAGE_CTRL_2_8814A \<equiv> 0x0204"
abbreviation (input) REG_CR_8814A :: u16 where "REG_CR_8814A \<equiv> 0x0100"
abbreviation (input) REG_BCN_CTRL :: u16 where "REG_BCN_CTRL \<equiv> 0x0550"
abbreviation (input) DDMA_LEN_MASK_8814A :: u32 where "DDMA_LEN_MASK_8814A \<equiv> 0x0001FFFF"
abbreviation (input) DDMA_CH_CHKSUM_CNT_8814A :: u32 where "DDMA_CH_CHKSUM_CNT_8814A \<equiv> 0x01000000"
abbreviation (input) DDMA_RST_CHKSUM_STS_8814A :: u32 where "DDMA_RST_CHKSUM_STS_8814A \<equiv> 0x02000000"
abbreviation (input) DDMA_CHKSUM_FAIL_8814A :: u32 where "DDMA_CHKSUM_FAIL_8814A \<equiv> 0x08000000"
abbreviation (input) DDMA_CHKSUM_EN_8814A :: u32 where "DDMA_CHKSUM_EN_8814A \<equiv> 0x20000000"
abbreviation (input) DDMA_CH_OWN_8814A :: u32 where "DDMA_CH_OWN_8814A \<equiv> 0x80000000"
abbreviation (input) OCPBASE_TXBUF_3081 :: u32 where "OCPBASE_TXBUF_3081 \<equiv> 0x18780000"
abbreviation (input) OCPBASE_DMEM_3081 :: u32 where "OCPBASE_DMEM_3081 \<equiv> 0x00200000"
abbreviation (input) OCPBASE_IMEM_3081 :: u32 where "OCPBASE_IMEM_3081 \<equiv> 0x00000000"
abbreviation (input) FW_CHKSUM_DUMMY_SZ_8814A :: u32 where "FW_CHKSUM_DUMMY_SZ_8814A \<equiv> 8"
abbreviation (input) TXDESC_OFFSET_8814A :: nat where "TXDESC_OFFSET_8814A \<equiv> 40"
abbreviation (input) FW_HEADER_SIZE_8814A :: nat where "FW_HEADER_SIZE_8814A \<equiv> 64"
abbreviation (input) MAX_RSVD_PAGE_CHUNK_SZ :: nat where "MAX_RSVD_PAGE_CHUNK_SZ \<equiv> 4096"

section \<open>The register sequence before the download\<close>

datatype reg_op = R8 u16 | R16 u16 | R32 u16 | W8 u16 u8 | W16 u16 u16 | W32 u16 u32

primrec run_op :: "'h usb \<Rightarrow> reg_op \<Rightarrow> ('h, unit) io" where
  "run_op dev (R8 a) = io_void (rtw_read8 dev a)"
| "run_op dev (R16 a) = io_void (rtw_read16 dev a)"
| "run_op dev (R32 a) = io_void (rtw_read32 dev a)"
| "run_op dev (W8 a v) = wr8 dev a v"
| "run_op dev (W16 a v) = wr16 dev a v"
| "run_op dev (W32 a v) = wr32 dev a v"

definition pre_fwdl_1 :: "reg_op list" where
  "pre_fwdl_1 =
   [R32 0x00F0, W8 0x001C 0x00, R32 0x0064, W32 0x0064 0x30200000, R32 0x004C,
    W32 0x004C 0x60228282, R32 0x0040, W32 0x0040 0x00000004, R8 0x0002, W8 0x0002 0x1C, R8 0x001F,
    W8 0x001F 0x00, R32 0x00EC, W32 0x00EC 0x30453F15, R8 0xFE58, R16 0x0080, R8 0x0100, R8 0xFE58,
    R16 0x0080, R8 0x0100, R8 0x0C00, W8 0x0C00 0x04, R8 0x0E00, W8 0x0E00 0x04, R8 0x1002,
    W8 0x1002 0xAC, R8 0x001F, W8 0x001F 0x00, R8 0x0007, W8 0x0007 0x28, R8 0x0008,
    W8 0x0008 0x21, R8 0x0066, W8 0x0066 0x20, R8 0x0041, W8 0x0041 0x00, R8 0x0042,
    W8 0x0042 0x00, R8 0x004E, W8 0x004E 0x22, R8 0x0041, W8 0x0041 0x00, R8 0x0005,
    W8 0x0005 0x02, R8 0x0005, R8 0x0005, R8 0x0003, W8 0x0003 0x72, R8 0x0080, W8 0x0080 0x01,
    R8 0x0081, W8 0x0081 0x30, R8 0x0045, W8 0x0045 0x00, R8 0x0046, W8 0x0046 0xFF, R8 0x0047,
    W8 0x0047 0x00, R8 0x0015, W8 0x0015 0xCF, R8 0x0015, W8 0x0015 0xEF, R8 0x0012,
    W8 0x0012 0x83, R8 0x0023, W8 0x0023 0x15, R8 0x0008, W8 0x0008 0x21, R8 0x0007,
    W8 0x0007 0x20, R8 0x001F, W8 0x001F 0x00, R8 0x0020, W8 0x0020 0x00, R8 0x0021,
    W8 0x0021 0x00, R8 0x0076, W8 0x0076 0x00, R8 0x0091, W8 0x0091 0xE1, R8 0x0070,
    W8 0x0070 0x08, R8 0x0005, W8 0x0005 0x08, W8 0x001C 0x00, R32 0x0064, W32 0x0064 0x31200000,
    R32 0x004C, W32 0x004C 0x60228282, R32 0x0040, W32 0x0040 0x00000004, R8 0x0002,
    W8 0x0002 0x1C, R8 0x001F, W8 0x001F 0x00, R32 0x00EC, W32 0x00EC 0x30453F15, R8 0xFE58,
    R16 0x0080, R8 0x0100, R8 0x10C2, W8 0x10C2 0x22, R8 0x0012, W8 0x0012 0xC3, R8 0x0015,
    W8 0x0015 0xCF, R8 0x0015, W8 0x0015 0x8F, R8 0x0023, W8 0x0023 0x05, R8 0x0046,
    W8 0x0046 0x00, R8 0x0062, W8 0x0062 0x00, R8 0x0005, W8 0x0005 0x00, R8 0x0005,
    W8 0x0005 0x00, R8 0x0006, R8 0x0005, W8 0x0005 0x00, R8 0x00F0, W8 0x00F0 0x35, R8 0x0081,
    W8 0x0081 0x20, R8 0x0005, W8 0x0005 0x01]"

definition pre_fwdl_2 :: "reg_op list" where
  "pre_fwdl_2 =
   [R32 0x1080, W32 0x1080 0xF7816D20, R8 0x0003, W8 0x0003 0xFE, R8 0x1103, W8 0x1103 0x0C,
    R32 0x0080, W8 0x01A0 0xFD, R8 0x0003, W8 0x0003 0xFA, R8 0x001D, W8 0x001D 0x08, R8 0x010D,
    W8 0x010D 0xC0, R8 0x0100, W8 0x0100 0x05, W32 0x1330 0x80000000, R16 0x0230, R32 0x022C,
    W16 0x0230 0x0200, W32 0x022C 0x80000000, R8 0x0550, W8 0x0550 0x14, R8 0x1082, W8 0x1082 0x80,
    R8 0x0009, W8 0x0009 0xBC, R8 0x1082, W8 0x1082 0x81, R8 0x0009, W8 0x0009 0xFC, R16 0x0080,
    W16 0x0080 0x2001, R32 0x1208, W32 0x1208 0x02000000, R8 0x0550, W16 0x0204 0x8000, R8 0x0101,
    W8 0x0101 0x01, W8 0x0550 0x14]"

primrec power_ready_poll :: "nat \<Rightarrow> 'h usb \<Rightarrow> ('h, unit) io" where
  "power_ready_poll 0 dev = io_return ()"
| "power_ready_poll (Suc n) dev = io_bind (rtw_read8 dev 0x0005) (\<lambda>v.
    if v AND 0x01 = 0 then io_return () else power_ready_poll n dev)"

definition pre_fwdl :: "'h usb \<Rightarrow> ('h, unit) io" where
  "pre_fwdl dev = io_then (io_seq (map (run_op dev) pre_fwdl_1))
    (io_then (power_ready_poll 75 dev) (io_seq (map (run_op dev) pre_fwdl_2)))"

section \<open>A reserved page\<close>

definition rsvd_packet :: "bytes \<Rightarrow> bytes option" where
  "rsvd_packet fw_chunk =
    Option.bind (run_sets [(PKT_SIZE_8812, of_nat (length fw_chunk)), (OFFSET_8812, of_nat TXDESC_OFFSET_8814A),
        (LAST_SEG_8812, 1), (QUEUE_SEL_8812, 0x10)] (replicate TXDESC_OFFSET_8814A 0)) (\<lambda>d.
    Option.bind (rtl8812a_cal_txdesc_chksum d) (\<lambda>d. Some (d @ fw_chunk)))"

text \<open>
  \<open>bulk p h\<close> is \<open>libusb_bulk_transfer\<close>: its return code and the number of bytes it transferred. The
  first call of \<open>bulk_send_sync\<close> dumps registers before the transfer, the first that succeeds after it.
\<close>

type_synonym 'h bulk_out = "bytes \<Rightarrow> 'h \<Rightarrow> (int \<times> int) \<times> 'h"

record tx_once =
  sta_first_dump :: bool
  sta_post_check :: bool

definition first_dump :: "'h usb \<Rightarrow> ('h, unit) io" where
  "first_dump dev = io_then (io_seq (map (run_op dev) [R16 0x0100, R8 0x0522, R32 0x0420, R16 0x010C, R8 0x0808,
      R32 0x0838, R8 0x0a07, R32 0x0604, R32 0x0c04, R32 0x0e04]))
    (io_bind (rtw_read32 dev 0x082c) (\<lambda>pc.
     io_then (wr32 dev 0x082c (pc AND NOT 0x80000000))
     (io_then (io_seq (map (run_op dev) [R32 0x0cb8, R32 0x0eb8])) (wr32 dev 0x082c pc))))"

definition post_check :: "'h usb \<Rightarrow> ('h, unit) io" where
  "post_check dev = io_seq [run_op dev (R16 0x041A), pause_us dev 8000, run_op dev (R16 0x041A), run_op dev (R32 0x00b4)]"

definition do_bulk :: "'h bulk_out \<Rightarrow> bytes \<Rightarrow> ('h, int \<times> int) io" where
  "do_bulk bulk p h = (case bulk p h of (r, h') \<Rightarrow> (Inr r, h'))"

definition bulk_send_sync :: "'h usb \<Rightarrow> 'h bulk_out \<Rightarrow> tx_once \<Rightarrow> bytes \<Rightarrow> ('h, int \<times> tx_once) io" where
  "bulk_send_sync dev bulk once p =
    io_then (io_when (sta_first_dump once) (io_catch (first_dump dev) ()))
    (io_bind (do_bulk bulk p) (\<lambda>(rc, actual).
      if rc \<noteq> 0 then io_return (rc, once\<lparr>sta_first_dump := False\<rparr>)
      else io_then (io_when (sta_post_check once) (io_catch (post_check dev) ()))
        (io_return (actual, once\<lparr>sta_first_dump := False, sta_post_check := False\<rparr>))))"

definition SetDownLoadFwRsvdPagePkt_8814A ::
    "'h usb \<Rightarrow> 'h bulk_out \<Rightarrow> tx_once \<Rightarrow> bytes \<Rightarrow> ('h, tx_once) io" where
  "SetDownLoadFwRsvdPagePkt_8814A dev bulk once fw_chunk =
    (case rsvd_packet fw_chunk of
       None \<Rightarrow> io_return once
     | Some p \<Rightarrow> io_bind (bulk_send_sync dev bulk once p) (\<lambda>(sent, once). io_return once))"

primrec ack_wait :: "nat \<Rightarrow> 'h usb \<Rightarrow> ('h, bool) io" where
  "ack_wait 0 dev = io_return False"
| "ack_wait (Suc n) dev = io_bind (rtw_read32 dev REG_FIFOPAGE_CTRL_2_8814A) (\<lambda>v.
    if v AND 0x8000 \<noteq> 0 then io_return True else io_then (pause_us dev 50) (ack_wait n dev))"

section \<open>Direct memory access\<close>

primrec ddma_wait :: "nat \<Rightarrow> 'h usb \<Rightarrow> ('h, bool) io" where
  "ddma_wait 0 dev = io_return False"
| "ddma_wait (Suc cnt) dev = io_bind (rtw_read32 dev REG_DDMA_CH0CTRL_8814A) (\<lambda>v.
    if v AND DDMA_CH_OWN_8814A = 0 then io_return True else io_then (pause_us dev 1000) (ddma_wait cnt dev))"

definition ch0ctrl :: "u32 \<Rightarrow> bool \<Rightarrow> u32" where
  "ch0ctrl len fs = (DDMA_CHKSUM_EN_8814A OR DDMA_CH_OWN_8814A) OR (len AND DDMA_LEN_MASK_8814A) OR
     (if \<not> fs then DDMA_CH_CHKSUM_CNT_8814A else 0)"

definition IDDMADownLoadFW_3081 :: "'h usb \<Rightarrow> u32 \<Rightarrow> u32 \<Rightarrow> u32 \<Rightarrow> bool \<Rightarrow> bool \<Rightarrow> ('h, bool) io" where
  "IDDMADownLoadFW_3081 dev source dest len fs ls =
    io_bind (ddma_wait 20 dev) (\<lambda>idle. if \<not> idle then io_return False else
    io_then (io_seq [wr32 dev REG_DDMA_CH0SA_8814A source, wr32 dev REG_DDMA_CH0DA_8814A dest,
      wr32 dev REG_DDMA_CH0CTRL_8814A (ch0ctrl len fs)])
    (io_bind (ddma_wait 20 dev) (\<lambda>completed. if \<not> completed then io_return False else
     if ls then io_bind (rtw_read32 dev REG_DDMA_CH0CTRL_8814A) (\<lambda>v.
       if v AND DDMA_CHKSUM_FAIL_8814A \<noteq> 0
       then io_bind (rtw_read32 dev REG_DDMA_CH0CTRL_8814A) (\<lambda>v.
         io_then (wr32 dev REG_DDMA_CH0CTRL_8814A (v OR DDMA_RST_CHKSUM_STS_8814A)) (io_return False))
       else io_return True)
     else io_return True)))"

section \<open>A section\<close>

text \<open>The next chunk, and whether it is the last: a rest that would fill whole USB packets is avoided.\<close>

definition next_chunk :: "nat \<Rightarrow> nat \<times> bool" where
  "next_chunk remaining =
    (if remaining > MAX_RSVD_PAGE_CHUNK_SZ then
       (let last_block = remaining - MAX_RSVD_PAGE_CHUNK_SZ in
        (if last_block < MAX_RSVD_PAGE_CHUNK_SZ \<and> (last_block + 40) mod 64 = 0
         then MAX_RSVD_PAGE_CHUNK_SZ - 4 else MAX_RSVD_PAGE_CHUNK_SZ, False))
     else (remaining, True))"

definition send_chunk ::
    "'h usb \<Rightarrow> 'h bulk_out \<Rightarrow> tx_once \<Rightarrow> bytes \<Rightarrow> u32 \<Rightarrow> nat \<Rightarrow> nat \<Rightarrow> bool \<Rightarrow> ('h, bool \<times> tx_once) io" where
  "send_chunk dev bulk once section ocp_dest pkt_offset chunk ls =
    io_bind (SetDownLoadFwRsvdPagePkt_8814A dev bulk once (slice pkt_offset chunk section)) (\<lambda>once.
    io_then (pause_us dev 100)
    (io_bind (ack_wait 200 dev) (\<lambda>got_ack.
     io_then (io_seq [wr16 dev REG_FIFOPAGE_CTRL_2_8814A 0x8000, wr8 dev REG_BCN_CTRL 0x14, wr8 dev (REG_CR_8814A + 1) 0x00])
     (io_bind (IDDMADownLoadFW_3081 dev (OCPBASE_TXBUF_3081 + of_nat TXDESC_OFFSET_8814A)
         (ocp_dest + of_nat pkt_offset) (of_nat chunk) (pkt_offset = 0) ls) (\<lambda>ok. io_return (ok, once))))))"

lemma next_chunk_bounds:
  "0 < remaining \<Longrightarrow> next_chunk remaining = (chunk, ls) \<Longrightarrow> 0 < chunk \<and> chunk \<le> remaining \<and> chunk \<le> 4096"
  by (auto simp: next_chunk_def Let_def split: if_splits)

lemma next_chunk_less: "0 < remaining \<Longrightarrow> (chunk, ls) = next_chunk remaining \<Longrightarrow> remaining - chunk < remaining"
  using next_chunk_bounds [of remaining chunk ls] by simp

function stream_section ::
    "'h usb \<Rightarrow> 'h bulk_out \<Rightarrow> bytes \<Rightarrow> u32 \<Rightarrow> nat \<Rightarrow> nat \<Rightarrow> tx_once \<Rightarrow> ('h, bool \<times> tx_once) io" where
  "stream_section dev bulk section ocp_dest remaining pkt_offset once =
    (if remaining = 0 then io_return (True, once)
     else let (chunk, ls) = next_chunk remaining in
       io_bind (send_chunk dev bulk once section ocp_dest pkt_offset chunk ls) (\<lambda>(ok, once).
         if \<not> ok then io_return (False, once)
         else io_then (io_when (remaining - chunk > 0)
             (io_seq [wr16 dev REG_FIFOPAGE_CTRL_2_8814A 0x8000, wr8 dev (REG_CR_8814A + 1) 0x01, wr8 dev REG_BCN_CTRL 0x14]))
           (stream_section dev bulk section ocp_dest (remaining - chunk) (pkt_offset + chunk) once)))"
  by pat_completeness auto

termination
  by (relation "measure (\<lambda>(_, _, _, _, remaining, _, _). remaining)") (auto intro: next_chunk_less)

section \<open>The download\<close>

definition FWDownloadEnable_8814A :: "'h usb \<Rightarrow> bool \<Rightarrow> ('h, unit) io" where
  "FWDownloadEnable_8814A dev enable =
    (if enable then io_bind (rtw_read16 dev REG_MCUFWDL) (\<lambda>u2Tmp.
       wr16 dev REG_MCUFWDL ((u2Tmp AND 0x3000) AND NOT 0x1000 OR 0x2000 OR 0x0001))
     else update8 dev REG_MCUFWDL (\<lambda>tmp. tmp AND 0xfe))"

definition u3081Disable8814A :: "'h usb \<Rightarrow> ('h, unit) io" where
  "u3081Disable8814A dev = update8 dev (REG_SYS_FUNC_EN + 1) (\<lambda>v. v AND NOT BIT2)"

definition u3081Enable8814A :: "'h usb \<Rightarrow> ('h, unit) io" where
  "u3081Enable8814A dev = update8 dev (REG_SYS_FUNC_EN + 1) (\<lambda>v. v OR BIT2)"

definition DDMAReset8814A :: "'h usb \<Rightarrow> ('h, unit) io" where
  "DDMAReset8814A dev = io_bind (rtw_read32 dev 0x1080) (\<lambda>v.
    io_then (wr32 dev 0x1080 (v AND NOT 0x00010000)) (wr32 dev 0x1080 (v OR 0x00010000)))"

primrec WaitDownLoadRSVDPageOK_3081 :: "nat \<Rightarrow> 'h usb \<Rightarrow> ('h, bool) io" where
  "WaitDownLoadRSVDPageOK_3081 0 dev = io_return False"
| "WaitDownLoadRSVDPageOK_3081 (Suc n) dev =
    io_bind (rtw_read8 dev (REG_FIFOPAGE_CTRL_2_8814A + 1)) (\<lambda>v.
      if v AND BIT7 \<noteq> 0 then io_then (wr8 dev (REG_FIFOPAGE_CTRL_2_8814A + 1) (v OR BIT7)) (io_return True)
      else io_then (pause_us dev 1000) (WaitDownLoadRSVDPageOK_3081 n dev))"

definition cpu_kick :: "reg_op list" where
  "cpu_kick = [W8 REG_MCUFWDL 0x79, W8 0x010d 0x00, W32 0x1330 0x80000000, W16 0x0230 0x0000, W32 0x022c 0x80000000,
    W8 REG_BCN_CTRL 0x14, W32 0x0210 0x00000004, W16 REG_MCUFWDL 0x6078, W8 0x001d 0x09, W8 0x0003 0xfe]"

definition stream_image :: "'h usb \<Rightarrow> 'h bulk_out \<Rightarrow> bytes \<Rightarrow> u32 \<Rightarrow> u32 \<Rightarrow> tx_once \<Rightarrow> ('h, bool \<times> tx_once) io" where
  "stream_image dev bulk fw dmem_size iram_size once =
    io_bind (stream_section dev bulk (drop FW_HEADER_SIZE_8814A fw) OCPBASE_DMEM_3081 (unat dmem_size) 0 once)
    (\<lambda>(rtStatus, once). if rtStatus
      then stream_section dev bulk (drop (FW_HEADER_SIZE_8814A + unat dmem_size) fw) OCPBASE_IMEM_3081 (unat iram_size) 0 once
      else io_return (False, once))"

definition FirmwareDownload_8814A ::
    "'h usb \<Rightarrow> ('h \<Rightarrow> nat) \<Rightarrow> 'h bulk_out \<Rightarrow> bytes \<Rightarrow> tx_once \<Rightarrow> ('h, tx_once) run" where
  "FirmwareDownload_8814A dev now bulk fw once =
    run_bind (run_io (rtw_read32 dev REG_MCUFWDL)) (\<lambda>mcufwdl_state.
    if mcufwdl_state AND 0xFF = 0x78 then run_io (io_return once)
    else run_bind (run_io (io_bind (rtw_read8 dev REG_MCUFWDL) (\<lambda>v. io_when (v AND BIT7 \<noteq> 0)
        (io_then (wr8 dev REG_MCUFWDL 0x00) (u8051Reset8812 dev))))) (\<lambda>_.
      let dmem_size = le_word (slice 36 4 fw) + FW_CHKSUM_DUMMY_SZ_8814A;
          iram_size = le_word (slice 48 4 fw) + FW_CHKSUM_DUMMY_SZ_8814A in
      if dmem_size + iram_size + of_nat FW_HEADER_SIZE_8814A \<noteq> of_nat (length fw) then run_io (io_return once)
      else run_bind (run_io (io_then (pre_fwdl dev) (stream_image dev bulk fw dmem_size iram_size once))) (\<lambda>(rtStatus, once).
        if \<not> rtStatus then run_io (io_then (u3081Enable8814A dev) (io_then (FWDownloadEnable_8814A dev False) (io_return once)))
        else run_bind (run_io (io_seq (map (run_op dev) cpu_kick))) (\<lambda>_.
          run_bind (FWFreeToGo8812 dev now 10 5000 CHIP_8814A) (\<lambda>rtStatus.
          if \<not> rtStatus then run_io (io_return once)
          else run_io (io_then (InitializeFirmwareVars8812 dev) (io_return once)))))))"

definition FirmwareDownload ::
    "'h usb \<Rightarrow> ('h \<Rightarrow> nat) \<Rightarrow> 'h bulk_out \<Rightarrow> (ic_type \<Rightarrow> bytes) \<Rightarrow> ic_type \<Rightarrow> tx_once \<Rightarrow> ('h, tx_once) run" where
  "FirmwareDownload dev now bulk PickFirmwareForChip ic_type once =
    (if ic_type = CHIP_8814A then FirmwareDownload_8814A dev now bulk (PickFirmwareForChip CHIP_8814A) once
     else run_bind (FirmwareDownload_8812 dev now ic_type (PickFirmwareForChip ic_type)) (\<lambda>_. run_io (io_return once)))"


section \<open>The chunks of a section\<close>

function chunk_sizes :: "nat \<Rightarrow> nat list" where
  "chunk_sizes remaining =
    (if remaining = 0 then [] else let (chunk, ls) = next_chunk remaining in chunk # chunk_sizes (remaining - chunk))"
  by pat_completeness auto

termination
  by (relation "measure id") (auto intro: next_chunk_less)

declare chunk_sizes.simps [simp del] stream_section.simps [simp del]

lemma sum_chunk_sizes: "sum_list (chunk_sizes n) = n"
proof (induction n rule: chunk_sizes.induct)
  case (1 n)
  then show ?case
    by (subst chunk_sizes.simps) (auto split: prod.split dest: next_chunk_bounds)
qed

text \<open>Every packet ends in a short one: the USB layer sees no packet that fills its last 64-byte block.\<close>

lemma chunk_short:
  assumes "4096 < n \<or> (n + 40) mod 64 \<noteq> 0"
  shows "\<forall>c \<in> set (chunk_sizes n). c \<le> 4096 \<and> (c + 40) mod 64 \<noteq> 0"
  using assms
proof (induction n rule: less_induct)
  case (less n)
  show ?case
  proof (cases "n \<le> 4096")
    case True
    have z: "chunk_sizes 0 = []" by (subst chunk_sizes.simps) simp
    show ?thesis using True less.prems
      by (subst chunk_sizes.simps) (auto simp: next_chunk_def z)
  next
    case False
    define m where "m = n - 4096"
    have m: "n = m + 4096" "0 < m" using False by (simp_all add: m_def)
    define b where "b \<longleftrightarrow> m < 4096 \<and> (m + 40) mod 64 = 0"
    have nc: "next_chunk n = (if b then 4092 else 4096, False)"
      using m(2) by (simp add: next_chunk_def Let_def b_def m(1))
    have "(m + 4 + 40) mod 64 \<noteq> 0" if b
    proof -
      have "(m + 40 + 4) mod 64 = ((m + 40) mod 64 + 4) mod 64" by (simp only: mod_add_left_eq)
      then have "(m + 40 + 4) mod 64 = 4" using that unfolding b_def by simp
      then show ?thesis by (simp add: add.commute add.left_commute)
    qed
    then have "4096 < n - 4092 \<or> (n - 4092 + 40) mod 64 \<noteq> 0" if b
      using that m(1) by simp
    moreover have "4096 < n - 4096 \<or> (n - 4096 + 40) mod 64 \<noteq> 0" if "\<not> b"
      using that m(1) unfolding b_def by (cases "m = 4096"; cases "m < 4096") simp_all
    moreover have "n - (if b then 4092 else 4096) < n" using False by simp
    ultimately have "\<forall>c \<in> set (chunk_sizes (n - (if b then 4092 else 4096))). c \<le> 4096 \<and> (c + 40) mod 64 \<noteq> 0"
      by (intro less.IH) (cases b; simp)+
    moreover have "chunk_sizes n = (if b then 4092 else 4096) # chunk_sizes (n - (if b then 4092 else 4096))"
      using False by (subst chunk_sizes.simps) (simp add: nc)
    ultimately show ?thesis by simp
  qed
qed

section \<open>The packet\<close>

lemma rsvd_packet_fields:
  assumes "length c < 2 ^ 16"
  shows "\<exists>d. rsvd_packet c = Some (d @ c) \<and> length d = 40 \<and> LE_BITS_TO_4BYTE d PKT_SIZE_8812 = of_nat (length c) \<and>
    LE_BITS_TO_4BYTE d OFFSET_8812 = 40 \<and> LE_BITS_TO_4BYTE d LAST_SEG_8812 = 1 \<and>
    LE_BITS_TO_4BYTE d QUEUE_SEL_8812 = 0x10 \<and> xor_halfwords d = 0"
proof -
  let ?fs = "[(PKT_SIZE_8812, of_nat (length c)), (OFFSET_8812, of_nat TXDESC_OFFSET_8814A), (LAST_SEG_8812, 1), (QUEUE_SEL_8812, 0x10)]
    :: (field \<times> u32) list"
  let ?z = "replicate 40 0 :: bytes"
  let ?b = "fold (\<lambda>(f, v). put_bits f v) ?fs ?z"
  have lz: "length ?z = TXDESC_SIZE" by simp
  have ok: "list_all (\<lambda>(f, v). field_ok TXDESC_SIZE f) ?fs" by (simp add: field_ok_def)
  have run: "run_sets ?fs ?z = Some ?b" by (rule run_sets_fold [OF ok lz])
  have lb: "length ?b = TXDESC_SIZE" by (rule tx.inv_puts [OF ok lz])
  obtain d where d: "rtl8812a_cal_txdesc_chksum ?b = Some d" "length d = TXDESC_SIZE" "xor_halfwords d = 0"
    using chksum_zero [OF lb] by blast
  have get: "LE_BITS_TO_4BYTE d f = LE_BITS_TO_4BYTE ?b f"
    if "field_ok TXDESC_SIZE f" "fdisj TX_CHECKSUM f" for f
    by (rule chksum_get [OF lb d(1) that])
  have len: "take_bit 16 (of_nat (length c) :: u32) = of_nat (length c)"
    using assms by (simp add: take_bit_of_nat take_bit_nat_eq_self)
  have f: "LE_BITS_TO_4BYTE d PKT_SIZE_8812 = of_nat (length c)" "LE_BITS_TO_4BYTE d OFFSET_8812 = 40"
    "LE_BITS_TO_4BYTE d LAST_SEG_8812 = 1" "LE_BITS_TO_4BYTE d QUEUE_SEL_8812 = 0x10"
    by (subst get, simp add: field_simps, simp add: field_simps, subst tx.get_puts; simp add: field_simps len)+
  have "rsvd_packet c = Some (d @ c)"
    unfolding rsvd_packet_def run using d(1) by simp
  then show ?thesis using d(2,3) f by blast
qed

section \<open>The chip\<close>

text \<open>
  The chip as this download sees it: registers, the transmit buffer at \<open>OCPBASE_TXBUF_3081\<close>, and the memory
  behind its internal bus. While the download is enabled (bit 0 of 0x80) a packet of the beacon queue lands in
  the buffer, descriptor included, and is acknowledged in bit 15 of 0x204; a write to that register clears the
  bit. The chip takes the packet only while the beacon queue is open (bit 0 of 0x101), the
  gate that the comments in \<open>FirmwareManager.cpp\<close> describe: closed for each transfer, and opened again for the next chunk. A control word with the ownership bit starts the
  transfer, which copies from the buffer and gives the ownership back. \<open>sent\<close> logs the lengths of the packets.
\<close>

record dma_chip =
  dregs :: regs
  txpage :: "nat \<Rightarrow> u8"
  ocp :: "u32 \<Rightarrow> u8"
  sent :: "nat list"

definition copy_ocp :: "u32 \<Rightarrow> nat \<Rightarrow> nat \<Rightarrow> dma_chip \<Rightarrow> u32 \<Rightarrow> u8" where
  "copy_ocp dst src n s = (\<lambda>x. if unat (x - dst) < n then txpage s (src + unat (x - dst)) else ocp s x)"

definition dma_react :: "u16 \<Rightarrow> bytes \<Rightarrow> dma_chip \<Rightarrow> dma_chip" where
  "dma_react a bs s =
    (let r = store a bs (dregs s) in
     if a = REG_DDMA_CH0CTRL_8814A \<and> bit (reg32 r REG_DDMA_CH0CTRL_8814A) 31 then
       s\<lparr>dregs := r(0x120B := r 0x120B AND 0x7F),
         ocp := copy_ocp (reg32 r REG_DDMA_CH0DA_8814A) (unat (reg32 r REG_DDMA_CH0SA_8814A - OCPBASE_TXBUF_3081))
           (unat (reg32 r REG_DDMA_CH0CTRL_8814A AND DDMA_LEN_MASK_8814A)) s\<rparr>
     else if a = REG_FIFOPAGE_CTRL_2_8814A then s\<lparr>dregs := r(0x205 := r 0x205 AND 0x7F)\<rparr>
     else s\<lparr>dregs := r\<rparr>)"

definition beacon_packet :: "bytes \<Rightarrow> bool" where
  "beacon_packet p \<longleftrightarrow> 40 \<le> length p \<and> LE_BITS_TO_4BYTE (take 40 p) QUEUE_SEL_8812 = 0x10 \<and>
    LE_BITS_TO_4BYTE (take 40 p) OFFSET_8812 = 40 \<and>
    LE_BITS_TO_4BYTE (take 40 p) PKT_SIZE_8812 = of_nat (length p - 40) \<and> xor_halfwords (take 40 p) = 0"

definition dma_packet :: "bytes \<Rightarrow> dma_chip \<Rightarrow> dma_chip" where
  "dma_packet p s =
    (let s = s\<lparr>sent := sent s @ [length p]\<rparr> in
     if bit (dregs s 0x80) 0 \<and> bit (dregs s 0x101) 0 \<and> beacon_packet p
     then s\<lparr>txpage := upd_mem 0 p (txpage s), dregs := (dregs s)(0x205 := dregs s 0x205 OR 0x80)\<rparr> else s)"

definition bulk_chip :: "'h bulk_out \<Rightarrow> ('h \<Rightarrow> dma_chip) \<Rightarrow> bool" where
  "bulk_chip bulk st \<longleftrightarrow>
    (\<forall>p h. fst (bulk p h) = (0, int (length p)) \<and> st (snd (bulk p h)) = dma_packet p (st h))"

lemma wp_bindI: "wp m P h \<Longrightarrow> (\<And>x h'. P x h' \<Longrightarrow> wp (k x) Q h') \<Longrightarrow> wp (io_bind m k) Q h"
  unfolding wp_bind by (rule wp_mono)

lemma wp_thenI: "wp m P h \<Longrightarrow> (\<And>x h'. P x h' \<Longrightarrow> wp n Q h') \<Longrightarrow> wp (io_then m n) Q h"
  unfolding wp_then by (rule wp_mono)

lemma store_byte: "store a [v] r = r(a := v)"
  by (rule ext) (auto simp: store_apply unat_eq_zero)

lemma store_pair: "store a [v, w] r = r(a := v, a + 1 := w)"
  using store_append [of "[v]" "[w]" a r] by (simp add: store_byte)

lemma store_self: "store a (le_bytes 4 (reg32 r a)) (store a (le_bytes 4 (v :: u32)) r) = r"
proof
  fix x
  have l: "le_bytes 4 (reg32 r a) = map (\<lambda>i. r (a + of_nat i)) [0..<4]"
    by (simp add: reg32_def le_bytes_le_word)
  define k where "k = unat (x - a)"
  have "a + of_nat k = x" by (simp add: k_def)
  then show "store a (le_bytes 4 (reg32 r a)) (store a (le_bytes 4 v) r) x = r x"
    by (simp add: store_apply l k_def [symmetric])
qed

definition dma_started :: "u32 \<Rightarrow> nat \<Rightarrow> bool \<Rightarrow> dma_chip \<Rightarrow> dma_chip" where
  "dma_started dst n fs s = dma_react REG_DDMA_CH0CTRL_8814A (le_bytes 4 (ch0ctrl (of_nat n) fs))
    (dma_react REG_DDMA_CH0DA_8814A (le_bytes 4 dst) (dma_react REG_DDMA_CH0SA_8814A (le_bytes 4 (OCPBASE_TXBUF_3081 + 40)) s))"

primrec op_effect :: "reg_op \<Rightarrow> dma_chip \<Rightarrow> dma_chip" where
  "op_effect (R8 a) s = s"
| "op_effect (R16 a) s = s"
| "op_effect (R32 a) s = s"
| "op_effect (W8 a v) s = dma_react a [v] s"
| "op_effect (W16 a v) s = dma_react a (le_bytes 2 v) s"
| "op_effect (W32 a v) s = dma_react a (le_bytes 4 v) s"

definition idle :: "dma_chip \<Rightarrow> bool" where
  "idle s \<longleftrightarrow> bit (dregs s 0x80) 0 \<and> \<not> bit (dregs s 0x120B) 7"

lemma store_quad: "store a [u, v, w, x] r = r(a := u, a + 1 := v, a + 2 := w, a + 3 := x)"
  using store_append [of "[u, v]" "[w, x]" a r] by (simp add: store_pair add.assoc)

lemma dma_react_other:
  "a \<noteq> 0x1208 \<Longrightarrow> a \<noteq> 0x204 \<Longrightarrow> dma_react a bs s = s\<lparr>dregs := store a bs (dregs s)\<rparr>"
  by (simp add: dma_react_def Let_def)

lemma kick_effect: "ocp (fold op_effect cpu_kick s) = ocp s" "dregs (fold op_effect cpu_kick s) 0x80 = 0x78"
proof -
  have o: "ocp (op_effect op s) = ocp s"
    if "op \<in> set cpu_kick" for op s
  proof -
    have plain: "ocp (dma_react a bs s) = ocp s" if "a \<noteq> 0x1208" for a bs
      using that by (simp add: dma_react_def Let_def)
    show ?thesis using that by (auto simp: cpu_kick_def plain)
  qed
  have "set ops \<subseteq> set cpu_kick \<Longrightarrow> ocp (fold op_effect ops s) = ocp s" for ops
    by (induction ops arbitrary: s) (simp_all add: o)
  then show "ocp (fold op_effect cpu_kick s) = ocp s" by blast
  have "cpu_kick = take 7 cpu_kick @ [W16 REG_MCUFWDL 0x6078, W8 0x001d 0x09, W8 0x0003 0xfe]"
    by (simp add: cpu_kick_def)
  then obtain xs where xs: "cpu_kick = xs @ [W16 REG_MCUFWDL 0x6078, W8 0x001d 0x09, W8 0x0003 0xfe]" by blast
  have "dregs (dma_react 0x0003 [0xfe] (dma_react 0x001d [0x09] (dma_react 0x80 (le_bytes 2 (0x6078 :: u16)) t))) 0x80 = 0x78" for t
    by (simp add: dma_react_other store_byte store_pair le_bytes_conv upt_rec)
  then show "dregs (fold op_effect cpu_kick s) 0x80 = 0x78"
    unfolding xs fold_append comp_def fold.simps id_def op_effect.simps by blast
qed

lemma pre_tail:
  "idle (dma_react 0x0550 [0x14] (dma_react 0x0101 [1] (dma_react 0x0204 (le_bytes 2 (0x8000 :: u16))
     (dma_react 0x1208 (le_bytes 4 (0x02000000 :: u32)) (dma_react 0x0080 (le_bytes 2 (0x2001 :: u16)) s)))))"
  "bit (dregs (dma_react 0x0550 [0x14] (dma_react 0x0101 [1] (dma_react 0x0204 (le_bytes 2 (0x8000 :: u16))
     (dma_react 0x1208 (le_bytes 4 (0x02000000 :: u32)) (dma_react 0x0080 (le_bytes 2 (0x2001 :: u16)) s))))) 0x101) 0"
  by (simp_all add: idle_def dma_react_def Let_def store_byte store_pair store_quad le_bytes_conv upt_rec)

definition put_ocp :: "u32 \<Rightarrow> bytes \<Rightarrow> (u32 \<Rightarrow> u8) \<Rightarrow> u32 \<Rightarrow> u8" where
  "put_ocp dst bs m = (\<lambda>x. if unat (x - dst) < length bs then bs ! unat (x - dst) else m x)"

lemma put_ocp_append:
  assumes "length bs + length cs < 2 ^ 32"
  shows "put_ocp (dst + of_nat (length bs)) cs (put_ocp dst bs m) = put_ocp dst (bs @ cs) m"
proof
  fix x
  have n: "unat (of_nat (length bs) :: u32) = length bs" using assms by (simp add: unat_of_nat)
  have d: "x - (dst + of_nat (length bs)) = (x - dst) - of_nat (length bs)" by simp
  have u: "unat (x - (dst + of_nat (length bs))) = (if length bs \<le> unat (x - dst)
      then unat (x - dst) - length bs else unat (x - dst) + 2 ^ 32 - length bs)"
    unfolding d unat_sub_if' n by simp
  show "put_ocp (dst + of_nat (length bs)) cs (put_ocp dst bs m) x = put_ocp dst (bs @ cs) m x"
    using assms by (auto simp: put_ocp_def u nth_append)
qed

lemma copy_accepted:
  assumes "bit (dregs s 0x80) 0" and "bit (dregs s 0x101) 0" and "beacon_packet (d @ c)" and "length d = 40"
  shows "copy_ocp dst 40 (length c) (dma_packet (d @ c) s) = put_ocp dst c (ocp s)"
  using assms by (simp add: copy_ocp_def put_ocp_def dma_packet_def Let_def upd_mem_def nth_append cong: if_cong)

text \<open>
  What streaming a section leaves: the queue closed, and the last chunk behind its descriptor in the transmit buffer.
\<close>

definition section_end :: "bytes \<Rightarrow> nat \<Rightarrow> nat \<Rightarrow> dma_chip \<Rightarrow> dma_chip \<Rightarrow> bool" where
  "section_end section off remaining s s' \<longleftrightarrow>
    (if remaining = 0 then s' = s
     else \<not> bit (dregs s' 0x101) 0 \<and> (let n = last (chunk_sizes remaining) in
       \<forall>i<n. txpage s' (40 + i) = section ! (off + remaining - n + i)))"

lemma section_end_Cons:
  assumes "chunk_sizes remaining = n # chunk_sizes (remaining - n)"
    and "section_end section (off + n) (remaining - n) (if remaining - n > 0 then t else s1) y"
    and "0 < n" and "n \<le> remaining" and "\<And>i. i < n \<Longrightarrow> txpage s1 (40 + i) = section ! (off + i)" and "dregs s1 0x101 = 0"
  shows "section_end section off remaining s y"
proof (cases "remaining - n = 0")
  case True
  have "chunk_sizes 0 = []" by (subst chunk_sizes.simps) simp
  then have "chunk_sizes remaining = [n]" "y = s1" "remaining = n" using assms(1-4) True by (simp_all add: section_end_def)
  then show ?thesis using assms(3,5,6) by (simp add: section_end_def)
next
  case False
  then have "chunk_sizes (remaining - n) \<noteq> []" by (subst chunk_sizes.simps) (simp split: prod.split)
  then have "last (chunk_sizes remaining) = last (chunk_sizes (remaining - n))" by (simp add: assms(1))
  moreover have "off + n + (remaining - n) = off + remaining" using assms(4) by simp
  ultimately show ?thesis using assms(2,3,4) False by (simp add: section_end_def)
qed

locale dma_device = chip dev st dregs dma_react for dev :: "'h usb" and st :: "'h \<Rightarrow> dma_chip" +
  fixes bulk :: "'h bulk_out"
  assumes bulk: "bulk_chip bulk st"
begin

lemma run_read: "run_op dev op = io_void m \<Longrightarrow> computes st m (\<lambda>s. (f s, s)) \<Longrightarrow> computes st (run_op dev op) (\<lambda>s. ((), s))"
  by (simp add: computes_void)

lemma reads_nothing:
  assumes "\<forall>op \<in> set ops. case op of R8 a \<Rightarrow> True | R16 a \<Rightarrow> True | R32 a \<Rightarrow> True | _ \<Rightarrow> False"
  shows "computes st (io_seq (map (run_op dev) ops)) (\<lambda>s. ((), s))"
  using assms
proof (induction ops)
  case (Cons op ops)
  have "computes st (run_op dev op) (\<lambda>s. ((), s))"
    using Cons.prems by (cases op) (auto intro: computes_void read8 read16 read32)
  then show ?case using Cons computes_then [of st _ "\<lambda>s. ((), s)"] by simp
qed (simp add: computes_return)

lemma first_dump_nothing: "computes st (first_dump dev) (\<lambda>s. ((), s))"
proof -
  have r: "computes st (io_seq (map (run_op dev) [R16 0x0100, R8 0x0522, R32 0x0420, R16 0x010C, R8 0x0808,
      R32 0x0838, R8 0x0a07, R32 0x0604, R32 0x0c04, R32 0x0e04])) (\<lambda>s. ((), s))"
    "computes st (io_seq (map (run_op dev) [R32 0x0cb8, R32 0x0eb8])) (\<lambda>s. ((), s))"
    by (rule reads_nothing, simp)+
  have "computes st (first_dump dev) (\<lambda>s. ((), dma_react 0x082c (le_bytes 4 (reg32 (dregs s) 0x082c))
      (dma_react 0x082c (le_bytes 4 (reg32 (dregs s) 0x082c AND NOT 0x80000000)) s)))"
    unfolding first_dump_def
    by (rule computes_cong, (rule r computes_then computes_bind read32 write32)+) simp
  then show ?thesis
    by (rule computes_cong) (simp add: dma_react_def Let_def store_self)
qed

lemma post_check_nothing: "computes st (post_check dev) (\<lambda>s. ((), s))"
  unfolding post_check_def io_seq.simps run_op.simps
  by (rule computes_cong, (rule computes_then computes_void read16 read32 pause computes_return)+) simp

lemma bulk_send_wp: "wp (bulk_send_sync dev bulk once p) (\<lambda>r h'. st h' = dma_packet p (st h)) h"
proof -
  have 1: "wp (io_when b (io_catch m ())) (\<lambda>_ h'. st h' = st h) h" if "computes st m (\<lambda>s. ((), s))" for b m h
    by (rule wp_computes [OF computes_when [OF computes_catch [OF that]]]) simp
  have 2: "wp (do_bulk bulk p) (\<lambda>x h'. fst x = 0 \<and> st h' = dma_packet p (st h)) h" for h
  proof -
    have "fst (bulk p h) = (0, int (length p))" "st (snd (bulk p h)) = dma_packet p (st h)"
      using bulk by (simp_all add: bulk_chip_def)
    then show ?thesis by (cases "bulk p h") (simp add: wp_def do_bulk_def)
  qed
  show ?thesis
    unfolding bulk_send_sync_def wp_then wp_bind
  proof (rule wp_mono [OF 1 [OF first_dump_nothing]])
    fix x h1
    assume h1: "st h1 = st h"
    show "wp (do_bulk bulk p) (\<lambda>x. wp (case x of (rc, actual) \<Rightarrow>
        if rc \<noteq> 0 then io_return (rc, once\<lparr>sta_first_dump := False\<rparr>)
        else io_then (io_when (sta_post_check once) (io_catch (post_check dev) ()))
          (io_return (actual, once\<lparr>sta_first_dump := False, sta_post_check := False\<rparr>)))
        (\<lambda>r h'. st h' = dma_packet p (st h))) h1"
    proof (rule wp_mono [OF 2])
      fix x :: "int \<times> int" and h2
      assume "fst x = 0 \<and> st h2 = dma_packet p (st h1)"
      then show "wp (case x of (rc, actual) \<Rightarrow>
        if rc \<noteq> 0 then io_return (rc, once\<lparr>sta_first_dump := False\<rparr>)
        else io_then (io_when (sta_post_check once) (io_catch (post_check dev) ()))
          (io_return (actual, once\<lparr>sta_first_dump := False, sta_post_check := False\<rparr>)))
        (\<lambda>r h'. st h' = dma_packet p (st h)) h2"
        using h1 by (cases x) (auto intro!: wp_mono [OF 1 [OF post_check_nothing]])
    qed
  qed
qed

lemma ack_wait_wp: "wp (ack_wait n dev) (\<lambda>_ h'. st h' = st h) h"
proof (induction n arbitrary: h)
  case (Suc n)
  have "wp (io_then (pause_us dev 50) (ack_wait n dev)) (\<lambda>_ h'. st h' = st h) h1" if "st h1 = st h" for h1
    unfolding wp_then by (rule wp_computes [OF pause], rule wp_mono [OF Suc]) (use that in simp)
  then show ?case unfolding ack_wait.simps wp_bind by (intro wp_computes [OF read32]) simp
qed simp

lemma ddma_wait_wp:
  assumes "\<not> bit (reg32 (dregs (st h)) REG_DDMA_CH0CTRL_8814A) 31"
  shows "wp (ddma_wait (Suc n) dev) (\<lambda>ok h'. ok \<and> st h' = st h) h"
proof -
  have "reg32 (dregs (st h)) REG_DDMA_CH0CTRL_8814A AND DDMA_CH_OWN_8814A = 0"
    using assms and_exp_eq_0_iff_not_bit [of "reg32 (dregs (st h)) REG_DDMA_CH0CTRL_8814A" 31] by simp
  then show ?thesis unfolding ddma_wait.simps wp_bind by (intro wp_computes [OF read32]) simp
qed

lemma bit_reg32_31: "bit (reg32 r a) 31 = bit (r (a + 3)) 7"
  by (simp add: reg32_def bit_le_word upt_2_4)

lemma ch0ctrl_bits: "bit (ch0ctrl l fs) 31" "\<not> bit (ch0ctrl l fs) 27"
  by (simp_all add: ch0ctrl_def bit_simps)

lemma ch0ctrl_len:
  assumes "n \<le> 4096"
  shows "unat (ch0ctrl (of_nat n) fs AND DDMA_LEN_MASK_8814A) = n"
proof -
  have m: "(0x0001FFFF :: u32) = mask 17" by (simp add: mask_eq_exp_minus_1)
  have "ch0ctrl (of_nat n) fs AND 0x0001FFFF = of_nat n AND 0x0001FFFF"
    by (simp add: ch0ctrl_def bit.conj_disj_distrib2 and.assoc)
  also have "\<dots> = of_nat n"
    unfolding m take_bit_eq_mask [symmetric] using assms by (simp add: take_bit_of_nat take_bit_nat_eq_self)
  finally show ?thesis using assms by (simp add: unat_of_nat)
qed

text \<open>The transfer itself.\<close>

lemma start_transfer:
  assumes "n \<le> 4096"
  shows "ocp (dma_started dst n fs s) = copy_ocp dst 40 n s" "txpage (dma_started dst n fs s) = txpage s"
    "\<not> bit (dregs (dma_started dst n fs s) 0x120B) 7" "\<not> bit (dregs (dma_started dst n fs s) 0x120B) 3"
    "x < 0x1200 \<Longrightarrow> dregs (dma_started dst n fs s) x = dregs s x" "sent (dma_started dst n fs s) = sent s"
proof -
  let ?c = "ch0ctrl (of_nat n) fs"
  define r where "r = store 0x1208 (le_bytes 4 ?c) (store 0x1204 (le_bytes 4 dst) (store 0x1200 (le_bytes 4 (OCPBASE_TXBUF_3081 + 40)) (dregs s)))"
  have ctl: "reg32 r 0x1208 = ?c" by (simp add: r_def)
  have apart: "list_all (\<lambda>i. 4 \<le> (0x1204 + i - 0x1208 :: u16)) [0, 1, 2, 3]"
    "list_all (\<lambda>i. 4 \<le> (0x1200 + i - 0x1208 :: u16)) [0, 1, 2, 3]"
    "list_all (\<lambda>i. 4 \<le> (0x1200 + i - 0x1204 :: u16)) [0, 1, 2, 3]"
    by simp_all
  have st: "reg32 (store b (le_bytes 4 v) q) a = reg32 q a"
    if "list_all (\<lambda>i. 4 \<le> (a + i - b :: u16)) [0, 1, 2, 3]" for a b q and v :: u32
    by (rule reg32_store_apart) (use that in \<open>simp add: word_le_nat_alt\<close>)
  have da: "reg32 r 0x1204 = dst" by (simp only: r_def st [OF apart(1)] reg32_store)
  have sa: "reg32 r 0x1200 = OCPBASE_TXBUF_3081 + 40" by (simp only: r_def st [OF apart(2)] st [OF apart(3)] reg32_store)
  have go: "dma_started dst n fs s = s\<lparr>dregs := r(0x120B := r 0x120B AND 0x7F), ocp := copy_ocp dst 40 n s\<rparr>"
  proof -
    have plain: "dma_react a bs t = t\<lparr>dregs := store a bs (dregs t)\<rparr>" if "a \<in> {0x1200, 0x1204}" for a bs t
      using that by (auto simp: dma_react_def Let_def)
    have s2: "dma_react 0x1204 (le_bytes 4 dst) (dma_react 0x1200 (le_bytes 4 (OCPBASE_TXBUF_3081 + 40)) s) =
        s\<lparr>dregs := store 0x1204 (le_bytes 4 dst) (store 0x1200 (le_bytes 4 (OCPBASE_TXBUF_3081 + 40)) (dregs s))\<rparr>" (is "_ = ?s2")
      by (simp add: plain)
    have "store 0x1208 (le_bytes 4 ?c) (dregs ?s2) = r" by (simp add: r_def)
    then have "dma_react 0x1208 (le_bytes 4 ?c) ?s2 = ?s2\<lparr>dregs := r(0x120B := r 0x120B AND 0x7F), ocp := copy_ocp dst 40 n ?s2\<rparr>"
      using ch0ctrl_bits(1) [of "of_nat n" fs] ctl da sa ch0ctrl_len [OF assms(1), of fs]
      by (simp only: dma_react_def Let_def) simp
    then show ?thesis unfolding dma_started_def s2 by (simp add: copy_ocp_def cong: if_cong)
  qed
  have "bit (r 0x120B) 3 = bit ?c 27"
    by (simp add: r_def store_apply le_bytes_conv upt_rec bit_simps)
  then have b3: "\<not> bit (r 0x120B) 3" using ch0ctrl_bits(2) by simp
  show "ocp (dma_started dst n fs s) = copy_ocp dst 40 n s" "txpage (dma_started dst n fs s) = txpage s" "\<not> bit (dregs (dma_started dst n fs s) 0x120B) 7" "\<not> bit (dregs (dma_started dst n fs s) 0x120B) 3"
    "sent (dma_started dst n fs s) = sent s"
    using b3 by (simp_all add: go bit_simps)
  show "dregs (dma_started dst n fs s) x = dregs s x" if "x < 0x1200"
  proof -
    have "unat x < 4608" using that by (simp add: word_less_nat_alt)
    then have "4 \<le> unat (x - 0x1200)" "4 \<le> unat (x - 0x1204)" "4 \<le> unat (x - 0x1208)"
      by (simp_all add: unat_sub_if')
    then show ?thesis using that by (simp add: go r_def store_apply) auto
  qed
qed

lemma dma_transfer_wp:
  assumes "idle (st h)" and "n \<le> 4096"
  shows "wp (IDDMADownLoadFW_3081 dev (OCPBASE_TXBUF_3081 + of_nat TXDESC_OFFSET_8814A) dst (of_nat n) fs ls)
    (\<lambda>ok h'. ok \<and> idle (st h') \<and> dregs (st h') 0x101 = dregs (st h) 0x101 \<and> txpage (st h') = txpage (st h) \<and> sent (st h') = sent (st h) \<and>
      ocp (st h') = copy_ocp dst 40 n (st h)) h"
proof -
  note go = start_transfer [OF assms(2), where s = "st h" and dst = dst and fs = fs]
  have own: "\<not> bit (reg32 (dregs (st h)) 0x1208) 31" "\<not> bit (reg32 (dregs (dma_started dst n fs (st h))) 0x1208) 31"
    using assms(1) go(3) by (simp_all add: idle_def bit_reg32_31)
  have fail: "reg32 (dregs (dma_started dst n fs (st h))) 0x1208 AND DDMA_CHKSUM_FAIL_8814A = 0"
  proof -
    have "bit (reg32 (dregs (dma_started dst n fs (st h))) 0x1208) 27 = bit (dregs (dma_started dst n fs (st h)) 0x120B) 3"
      by (simp add: reg32_def bit_le_word upt_2_4)
    then show ?thesis
      using go(4) and_exp_eq_0_iff_not_bit [of "reg32 (dregs (dma_started dst n fs (st h))) 0x1208" 27] by simp
  qed
  have idle: "idle (dma_started dst n fs (st h))" using assms(1) go(3,5) by (simp add: idle_def)
  have twenty: "(20 :: nat) = Suc 19" by simp
  have seq: "computes st (io_seq [wr32 dev 0x1200 0x18780028, wr32 dev 0x1204 dst,
      wr32 dev 0x1208 (ch0ctrl (of_nat n) fs)]) (\<lambda>s. ((), dma_started dst n fs s))"
    unfolding io_seq.simps dma_started_def by (rule computes_cong, (rule computes_then write32 computes_return)+) simp
  have go_wp: "wp (io_seq [wr32 dev 0x1200 0x18780028, wr32 dev 0x1204 dst, wr32 dev 0x1208 (ch0ctrl (of_nat n) fs)])
      (\<lambda>_ h'. st h' = dma_started dst n fs (st h)) h1" if "st h1 = st h" for h1
    by (rule wp_computes [OF seq]) (use that in simp)
  have done_wp: "wp (ddma_wait 20 dev) (\<lambda>ok h'. ok \<and> st h' = dma_started dst n fs (st h)) h1"
    if "st h1 = dma_started dst n fs (st h)" for h1
    unfolding twenty using ddma_wait_wp [of h1 19] own(2) that by simp
  have read_wp: "wp (rtw_read32 dev 0x1208) (\<lambda>v h'. v AND DDMA_CHKSUM_FAIL_8814A = 0 \<and> st h' = dma_started dst n fs (st h)) h1"
    if "st h1 = dma_started dst n fs (st h)" for h1
    by (rule wp_computes [OF read32]) (use that fail in simp)
  have idle_wp: "wp (ddma_wait 20 dev) (\<lambda>ok h'. ok \<and> st h' = st h) h"
    unfolding twenty by (rule ddma_wait_wp [OF own(1)])
  have src: "OCPBASE_TXBUF_3081 + of_nat TXDESC_OFFSET_8814A = 0x18780028" by simp
  have "wp (IDDMADownLoadFW_3081 dev (OCPBASE_TXBUF_3081 + of_nat TXDESC_OFFSET_8814A) dst (of_nat n) fs ls)
      (\<lambda>ok h'. ok \<and> st h' = dma_started dst n fs (st h)) h"
    unfolding IDDMADownLoadFW_3081_def src
    apply (rule wp_bindI [OF idle_wp])
    apply (clarsimp simp del: io_seq.simps wp_bind wp_then split del: if_split)
    apply (rule wp_thenI [OF go_wp])
     apply assumption
    apply (rule wp_bindI [OF done_wp])
     apply assumption
    apply (clarsimp simp del: io_seq.simps wp_bind wp_then)
    apply (rule wp_bindI [OF read_wp])
     apply assumption
    apply clarsimp
    done
  then show ?thesis
    by (rule wp_mono) (use idle go in simp)
qed

text \<open>A chunk: the packet is taken or not, and what the buffer then holds goes to the memory.\<close>

lemma send_packet_wp:
  assumes "length c < 2 ^ 16"
  shows "wp (SetDownLoadFwRsvdPagePkt_8814A dev bulk once c)
    (\<lambda>_ h'. \<exists>d. length d = 40 \<and> beacon_packet (d @ c) \<and> st h' = dma_packet (d @ c) (st h)) h"
proof -
  obtain d where d: "rsvd_packet c = Some (d @ c)" "length d = 40" "LE_BITS_TO_4BYTE d PKT_SIZE_8812 = of_nat (length c)"
      "LE_BITS_TO_4BYTE d OFFSET_8812 = 40" "LE_BITS_TO_4BYTE d QUEUE_SEL_8812 = 0x10" "xor_halfwords d = 0"
    using rsvd_packet_fields [OF assms] by blast
  then have "beacon_packet (d @ c)" by (simp add: beacon_packet_def)
  then show ?thesis
    unfolding SetDownLoadFwRsvdPagePkt_8814A_def d(1) option.case
    by (intro wp_bindI [OF bulk_send_wp]) (use d(2) in \<open>auto split: prod.split\<close>)
qed

definition close_queue :: "dma_chip \<Rightarrow> dma_chip" where
  "close_queue s = dma_react 0x0101 [0x00] (dma_react 0x0550 [0x14] (dma_react 0x0204 (le_bytes 2 (0x8000 :: u16)) s))"

lemma close_queue_fields: "txpage (close_queue s) = txpage s" "sent (close_queue s) = sent s" "ocp (close_queue s) = ocp s"
    "x \<notin> {0x101, 0x204, 0x205, 0x550} \<Longrightarrow> dregs (close_queue s) x = dregs s x" "dregs (close_queue s) 0x101 = 0"
  by (auto simp: close_queue_def dma_react_def Let_def store_byte store_pair le_bytes_conv upt_rec)

lemma send_chunk_wp:
  assumes "idle (st h)" and "n \<le> 4096" and "length (slice off n section) = n"
  shows "wp (send_chunk dev bulk once section dest off n ls)
    (\<lambda>r h'. fst r \<and> idle (st h') \<and> dregs (st h') 0x101 = 0 \<and> (\<exists>d s. length d = 40 \<and> beacon_packet (d @ slice off n section) \<and>
      s = dma_packet (d @ slice off n section) (st h) \<and>
      txpage (st h') = txpage s \<and> sent (st h') = sent s \<and> ocp (st h') = copy_ocp (dest + of_nat off) 40 n s)) h"
proof -
  have c: "computes st (io_seq [wr16 dev 0x0204 0x8000, wr8 dev 0x0550 0x14, wr8 dev 0x0101 0x00]) (\<lambda>s. ((), close_queue s))"
    unfolding io_seq.simps close_queue_def
    by (rule computes_cong, (rule computes_then write8 write16 computes_return)+) simp
  have "(0x0100 + 1 :: u16) = 0x0101" by simp
  note c' = c [folded this]
  have c_wp: "wp (io_seq [wr16 dev 0x0204 0x8000, wr8 dev 0x0550 0x14, wr8 dev (0x0100 + 1) 0x00]) (\<lambda>_ h'. st h' = close_queue s) h1"
    if "st h1 = s" for h1 s
    by (rule wp_computes [OF c']) (use that in simp)
  have len: "length (slice off n section) < 2 ^ 16" using assms(2,3) by simp
  show ?thesis
    unfolding send_chunk_def
  proof (rule wp_bindI [OF send_packet_wp [OF len]], elim exE conjE)
    fix once' h1 d
    let ?s = "dma_packet (d @ slice off n section) (st h)"
    assume d: "length d = 40" "beacon_packet (d @ slice off n section)" and h1: "st h1 = ?s"
    have s: "idle (close_queue ?s)"
      using assms(1) by (simp add: idle_def close_queue_fields dma_packet_def Let_def)
    have src: "copy_ocp dst 40 n (close_queue ?s) = copy_ocp dst 40 n ?s" for dst
      by (simp add: copy_ocp_def close_queue_fields cong: if_cong)
    have pause_wp: "wp (pause_us dev k) (\<lambda>_ h'. st h' = st h) h" for k h
      by (rule wp_computes [OF pause]) simp
    show "wp (io_then (pause_us dev 100) (io_bind (ack_wait 200 dev) (\<lambda>got_ack.
        io_then (io_seq [wr16 dev 0x0204 0x8000, wr8 dev 0x0550 0x14, wr8 dev (0x0100 + 1) 0x00])
          (io_bind (IDDMADownLoadFW_3081 dev (OCPBASE_TXBUF_3081 + of_nat TXDESC_OFFSET_8814A) (dest + of_nat off) (of_nat n) (off = 0) ls)
            (\<lambda>ok. io_return (ok, once'))))))
      (\<lambda>r h'. fst r \<and> idle (st h') \<and> dregs (st h') 0x101 = 0 \<and> (\<exists>d s. length d = 40 \<and> beacon_packet (d @ slice off n section) \<and>
        s = dma_packet (d @ slice off n section) (st h) \<and>
        txpage (st h') = txpage s \<and> sent (st h') = sent s \<and> ocp (st h') = copy_ocp (dest + of_nat off) 40 n s)) h1"
    proof (rule wp_thenI [OF pause_wp], rule wp_bindI [OF ack_wait_wp], rule wp_thenI [OF c_wp [where s = ?s]])
      fix h2 h3 h4
      assume h: "st h4 = close_queue ?s"
      show "wp (io_bind (IDDMADownLoadFW_3081 dev (OCPBASE_TXBUF_3081 + of_nat TXDESC_OFFSET_8814A) (dest + of_nat off) (of_nat n) (off = 0) ls)
          (\<lambda>ok. io_return (ok, once'))) (\<lambda>r h'. fst r \<and> idle (st h') \<and> dregs (st h') 0x101 = 0 \<and> (\<exists>d s. length d = 40 \<and> beacon_packet (d @ slice off n section) \<and>
          s = dma_packet (d @ slice off n section) (st h) \<and>
          txpage (st h') = txpage s \<and> sent (st h') = sent s \<and> ocp (st h') = copy_ocp (dest + of_nat off) 40 n s)) h4"
        by (rule wp_bindI [OF dma_transfer_wp [OF _ assms(2)]])
          (use h s d in \<open>auto simp: close_queue_fields src\<close>)
    qed (use h1 in simp)
  qed
qed

text \<open>A section: chunk after chunk, with the queue opened again before every chunk but the first.\<close>

definition open_queue :: "dma_chip \<Rightarrow> dma_chip" where
  "open_queue s = dma_react 0x0550 [0x14] (dma_react 0x0101 [0x01] (dma_react 0x0204 (le_bytes 2 (0x8000 :: u16)) s))"

lemma open_queue_fields: "txpage (open_queue s) = txpage s" "sent (open_queue s) = sent s" "ocp (open_queue s) = ocp s"
    "x \<notin> {0x101, 0x204, 0x205, 0x550} \<Longrightarrow> dregs (open_queue s) x = dregs s x" "dregs (open_queue s) 0x101 = 1"
  by (auto simp: open_queue_def dma_react_def Let_def store_byte store_pair le_bytes_conv upt_rec)

lemma open_wp:
  "wp (io_when b (io_seq [wr16 dev 0x0204 0x8000, wr8 dev (0x0100 + 1) 0x01, wr8 dev 0x0550 0x14]))
    (\<lambda>_ h'. st h' = (if b then open_queue (st h) else st h)) h"
proof -
  have "computes st (io_seq [wr16 dev 0x0204 0x8000, wr8 dev (0x0100 + 1) 0x01, wr8 dev 0x0550 0x14]) (\<lambda>s. ((), open_queue s))"
    unfolding io_seq.simps open_queue_def
    by (rule computes_cong, (rule computes_then write8 write16 computes_return)+) simp
  from wp_computes [OF computes_when [OF this, of b]] show ?thesis by (cases b) simp_all
qed

lemma stream_section_wp:
  assumes "idle (st h)" and "remaining \<noteq> 0 \<longrightarrow> bit (dregs (st h) 0x101) 0"
    and "off + remaining \<le> length section" and "off + remaining < 2 ^ 32"
  shows "wp (stream_section dev bulk section dest remaining off once)
    (\<lambda>r h'. fst r \<and> section_end section off remaining (st h) (st h') \<and> idle (st h') \<and> sent (st h') = sent (st h) @ map (\<lambda>c. c + 40) (chunk_sizes remaining) \<and>
      ocp (st h') = put_ocp (dest + of_nat off) (slice off remaining section) (ocp (st h))) h"
  using assms
proof (induction remaining arbitrary: h off once rule: less_induct)
  case (less remaining)
  show ?case
  proof (cases "remaining = 0")
    case True
    then show ?thesis using less.prems(1) by (subst stream_section.simps, subst chunk_sizes.simps) (simp add: put_ocp_def slice_def section_end_def)
  next
    case False
    obtain n ls where nc: "next_chunk remaining = (n, ls)" by fastforce
    have n: "0 < n" "n \<le> remaining" "n \<le> 4096" using next_chunk_bounds [OF _ nc] False by auto
    let ?c = "slice off n section"
    have len: "length ?c = n" using less.prems(3) n by simp
    have app: "put_ocp (dest + of_nat (off + n)) (slice (off + n) (remaining - n) section) (put_ocp (dest + of_nat off) ?c m) =
        put_ocp (dest + of_nat off) (slice off remaining section) m" for m
      using put_ocp_append [of ?c "slice (off + n) (remaining - n) section" "dest + of_nat off" m]
        slice_join [of off n "section" "remaining - n"] less.prems(3,4) n len by (simp add: add.assoc)
    show ?thesis
      apply (subst stream_section.simps)
      apply (simp only: False if_False nc Let_def prod.case)
    proof (rule wp_bindI [OF send_chunk_wp [OF less.prems(1) n(3) len]], elim exE conjE)
      fix r :: "bool \<times> tx_once" and h1 d s
      assume d: "length d = 40" "beacon_packet (d @ ?c)" "s = dma_packet (d @ ?c) (st h)"
        and h1: "fst r" "idle (st h1)" "sent (st h1) = sent s" "ocp (st h1) = copy_ocp (dest + of_nat off) 40 n s"
          "dregs (st h1) 0x101 = 0" "txpage (st h1) = txpage s"
      have o: "ocp (st h1) = put_ocp (dest + of_nat off) ?c (ocp (st h))"
        using copy_accepted [of "st h" d ?c "dest + of_nat off"] less.prems(1,2) False d h1(4) len by (simp add: idle_def)
      have sn: "sent (st h1) = sent (st h) @ [n + 40]"
        using d(1) len by (simp add: h1(3) d(3) dma_packet_def Let_def)
      have cs: "chunk_sizes remaining = n # chunk_sizes (remaining - n)"
        using False by (subst chunk_sizes.simps) (simp add: nc)
      obtain once' where r: "r = (True, once')" using h1(1) by (cases r) auto
      have page: "txpage (st h1) (40 + i) = section ! (off + i)" if "i < n" for i
        using that d len less.prems(1-3) n False
        by (simp add: h1(6) d(3) dma_packet_def Let_def idle_def upd_mem_def nth_append slice_def)
      have sec_end: "section_end section off remaining (st h) y"
        if "section_end section (off + n) (remaining - n) (if remaining - n > 0 then open_queue (st h1) else st h1) y" for y
        using section_end_Cons [OF cs _ n(1,2) page h1(5)] that by simp
      show "wp (case r of (ok, once) \<Rightarrow> if \<not> ok then io_return (False, once)
          else io_then (io_when (remaining - n > 0) (io_seq [wr16 dev 0x0204 0x8000, wr8 dev (0x0100 + 1) 0x01, wr8 dev 0x0550 0x14]))
            (stream_section dev bulk section dest (remaining - n) (off + n) once))
        (\<lambda>r h'. fst r \<and> section_end section off remaining (st h) (st h') \<and> idle (st h') \<and> sent (st h') = sent (st h) @ map (\<lambda>c. c + 40) (chunk_sizes remaining) \<and>
      ocp (st h') = put_ocp (dest + of_nat off) (slice off remaining section) (ocp (st h))) h1"
        unfolding r prod.case not_True_eq_False if_False
      proof (rule wp_thenI [OF open_wp])
        fix x h2
        assume h2: "st h2 = (if remaining - n > 0 then open_queue (st h1) else st h1)"
        have i2: "idle (st h2)" "ocp (st h2) = ocp (st h1)" "sent (st h2) = sent (st h1)" "remaining - n \<noteq> 0 \<longrightarrow> bit (dregs (st h2) 0x101) 0"
          using h1(2) by (simp_all add: h2 idle_def open_queue_fields)
        have l: "remaining - n < remaining" "off + n + (remaining - n) \<le> length section" "off + n + (remaining - n) < 2 ^ 32"
          using less.prems(3,4) n by simp_all
        show "wp (stream_section dev bulk section dest (remaining - n) (off + n) once')
          (\<lambda>r h'. fst r \<and> section_end section off remaining (st h) (st h') \<and> idle (st h') \<and> sent (st h') = sent (st h) @ map (\<lambda>c. c + 40) (chunk_sizes remaining) \<and>
      ocp (st h') = put_ocp (dest + of_nat off) (slice off remaining section) (ocp (st h))) h2"
          by (rule wp_mono [OF less.IH [OF l(1) i2(1,4) l(2,3)]])
            (simp add: i2(2,3) o app sn cs sec_end [folded h2] del: of_nat_add)
      qed
    qed
  qed
qed

text \<open>A section whose first chunk meets a closed queue.\<close>

lemma stream_closed_wp:
  assumes "idle (st h)" and "\<not> bit (dregs (st h) 0x101) 0" and "0 < remaining"
    and "remaining \<le> length section" and "remaining < 2 ^ 32" and "n = hd (chunk_sizes remaining)"
  shows "wp (stream_section dev bulk section dest remaining 0 once)
    (\<lambda>r h'. fst r \<and> idle (st h') \<and>
      ocp (st h') = put_ocp (dest + of_nat n) (slice n (remaining - n) section) (copy_ocp dest 40 n (st h))) h"
proof -
  obtain m ls where nc: "next_chunk remaining = (m, ls)" by fastforce
  have "chunk_sizes remaining = m # chunk_sizes (remaining - m)" using assms(3) by (subst chunk_sizes.simps) (simp add: nc)
  then have nc: "next_chunk remaining = (n, ls)" using nc assms(6) by simp
  have n: "0 < n" "n \<le> remaining" "n \<le> 4096" using next_chunk_bounds [OF assms(3) nc] by auto
  have ne: "remaining \<noteq> 0" using assms(3) by simp
  have len: "length (slice 0 n section) = n" using assms(4) n by simp
  show ?thesis
    apply (subst stream_section.simps)
    apply (simp only: ne if_False nc Let_def prod.case)
  proof (rule wp_bindI [OF send_chunk_wp [OF assms(1) n(3) len]], elim exE conjE)
    fix r :: "bool \<times> tx_once" and h1 d s
    assume s: "s = dma_packet (d @ slice 0 n section) (st h)"
      and h1: "fst r" "idle (st h1)" "ocp (st h1) = copy_ocp (dest + of_nat 0) 40 n s"
    have "copy_ocp dest 40 n s = copy_ocp dest 40 n (st h)"
      using assms(2) by (simp add: s dma_packet_def Let_def copy_ocp_def cong: if_cong)
    then have o: "ocp (st h1) = copy_ocp dest 40 n (st h)" using h1(3) by simp
    obtain once' where r: "r = (True, once')" using h1(1) by (cases r) auto
    show "wp (case r of (ok, once) \<Rightarrow> if \<not> ok then io_return (False, once)
        else io_then (io_when (remaining - n > 0) (io_seq [wr16 dev 0x0204 0x8000, wr8 dev (0x0100 + 1) 0x01, wr8 dev 0x0550 0x14]))
          (stream_section dev bulk section dest (remaining - n) (0 + n) once))
      (\<lambda>r h'. fst r \<and> idle (st h') \<and>
        ocp (st h') = put_ocp (dest + of_nat n) (slice n (remaining - n) section) (copy_ocp dest 40 n (st h))) h1"
      unfolding r prod.case not_True_eq_False if_False
    proof (rule wp_thenI [OF open_wp])
      fix x h2
      assume h2: "st h2 = (if remaining - n > 0 then open_queue (st h1) else st h1)"
      have i2: "idle (st h2)" "ocp (st h2) = ocp (st h1)" "remaining - n \<noteq> 0 \<longrightarrow> bit (dregs (st h2) 0x101) 0"
        using h1(2) by (simp_all add: h2 idle_def open_queue_fields)
      show "wp (stream_section dev bulk section dest (remaining - n) (0 + n) once')
        (\<lambda>r h'. fst r \<and> idle (st h') \<and>
          ocp (st h') = put_ocp (dest + of_nat n) (slice n (remaining - n) section) (copy_ocp dest 40 n (st h))) h2"
        by (rule wp_mono [OF stream_section_wp [OF i2(1,3)]]) (use assms(4,5) n i2(2) o in simp_all)
    qed
  qed
qed

section \<open>Around the sections\<close>

lemma ops_computes: "computes st (io_seq (map (run_op dev) ops)) (\<lambda>s. ((), fold op_effect ops s))"
proof -
  have "computes st (run_op dev op) (\<lambda>s. ((), op_effect op s))" for op
    by (cases op) (auto intro: computes_void read8 read16 read32 write8 write16 write32)
  then show ?thesis by (rule computes_list)
qed

lemma ops_wp: "wp (io_seq (map (run_op dev) ops)) (\<lambda>_ h'. st h' = fold op_effect ops (st h)) h"
  by (rule wp_computes [OF ops_computes]) simp

lemma power_ready_wp: "wp (power_ready_poll n dev) (\<lambda>_ h'. st h' = st h) h"
proof (induction n arbitrary: h)
  case (Suc n)
  have "wp (power_ready_poll n dev) (\<lambda>_ h'. st h' = st h) h1" if "st h1 = st h" for h1
    by (rule wp_mono [OF Suc]) (use that in simp)
  then show ?case unfolding power_ready_poll.simps wp_bind by (intro wp_computes [OF read8]) simp
qed simp

lemma pre_fwdl_wp: "wp (pre_fwdl dev) (\<lambda>_ h'. idle (st h') \<and> bit (dregs (st h') 0x101) 0) h"
  unfolding pre_fwdl_def
proof (rule wp_thenI [OF ops_wp], rule wp_thenI [OF power_ready_wp], rule wp_mono [OF ops_wp])
  fix x y z and h1 h2 h3
  assume h3: "st h3 = fold op_effect pre_fwdl_2 (st h2)"
  have "\<exists>xs. pre_fwdl_2 = xs @ [W16 0x0080 0x2001, R32 0x1208, W32 0x1208 0x02000000, R8 0x0550,
      W16 0x0204 0x8000, R8 0x0101, W8 0x0101 0x01, W8 0x0550 0x14]"
    by (rule exI [of _ "take 32 pre_fwdl_2"]) (simp add: pre_fwdl_2_def)
  then obtain xs where xs: "pre_fwdl_2 = xs @ [W16 0x0080 0x2001, R32 0x1208, W32 0x1208 0x02000000, R8 0x0550,
      W16 0x0204 0x8000, R8 0x0101, W8 0x0101 0x01, W8 0x0550 0x14]" by blast
  have "idle (fold op_effect pre_fwdl_2 s) \<and> bit (dregs (fold op_effect pre_fwdl_2 s) 0x101) 0" for s
    unfolding xs fold_append comp_def fold.simps id_def op_effect.simps
    using pre_tail by blast
  then show "idle (st h3) \<and> bit (dregs (st h3) 0x101) 0" by (simp add: h3)
qed

lemma kick_wp: "wp (io_seq (map (run_op dev) cpu_kick)) (\<lambda>_ h'. ocp (st h') = ocp (st h) \<and> dregs (st h') 0x80 = 0x78) h"
  by (rule wp_mono [OF ops_wp]) (simp add: kick_effect)

lemma reset_free: "wp (io_bind (rtw_read8 dev REG_MCUFWDL) (\<lambda>v. io_when (v AND BIT7 \<noteq> 0)
    (io_then (wr8 dev REG_MCUFWDL 0x00) (u8051Reset8812 dev)))) (\<lambda>_ h'. True) h"
proof -
  have "\<exists>f. computes st (io_bind (rtw_read8 dev REG_MCUFWDL) (\<lambda>v. io_when (v AND BIT7 \<noteq> 0)
    (io_then (wr8 dev REG_MCUFWDL 0x00) (u8051Reset8812 dev)))) f"
    unfolding u8051Reset8812_def update8_def
    by (rule exI, (rule computes_rules read8 write8)+)
  then obtain f where f: "computes st (io_bind (rtw_read8 dev REG_MCUFWDL) (\<lambda>v. io_when (v AND BIT7 \<noteq> 0)
    (io_then (wr8 dev REG_MCUFWDL 0x00) (u8051Reset8812 dev)))) f" ..
  show ?thesis by (rule wp_computes [OF f]) (rule TrueI)
qed

end







section \<open>What the download does\<close>

text \<open>
  C18: A section arrives. Streamed on a chip whose beacon queue is open, a section of any length is cut into
  chunks, and the memory behind the bus then holds it byte for byte at its destination and is otherwise
  unchanged; the streaming reports success and leaves the queue closed.
\<close>

theorem stream_section_loads:
  assumes "chip_device dev st dregs dma_react" and "bulk_chip bulk st"
    and "idle (st h)" and "bit (dregs (st h) 0x101) 0" and "length section < 2 ^ 32"
  shows "\<exists>h' once'. stream_section dev bulk section dest (length section) 0 once h = (Inr (True, once'), h') \<and>
    ocp (st h') = put_ocp dest section (ocp (st h)) \<and> (section \<noteq> [] \<longrightarrow> \<not> bit (dregs (st h') 0x101) 0)"
proof -
  have d: "dma_device dev st bulk" using assms(1,2) by (simp add: chip_def dma_device_def dma_device_axioms_def)
  obtain h' once' where "stream_section dev bulk section dest (length section) 0 once h = (Inr (True, once'), h')"
      "section_end section 0 (length section) (st h) (st h')" "ocp (st h') = put_ocp dest section (ocp (st h))"
    using dma_device.stream_section_wp [OF d assms(3), of "length section" 0 "section" dest once] assms(4,5)
    unfolding wp_def by (auto simp: slice_def)
  then show ?thesis by (auto simp: section_end_def)
qed


lemma chunk_sizes_bounds: "list_all (\<lambda>c. 0 < c \<and> c \<le> 4096) (chunk_sizes n)"
proof (induction n rule: chunk_sizes.induct)
  case (1 n)
  then show ?case
    by (subst chunk_sizes.simps) (auto split: prod.split dest: next_chunk_bounds)
qed

text \<open>
  Every bulk transfer of the download ends in a short packet. Streaming a section of more than 4096
  bytes sends packets, each a descriptor of 40 bytes and at most 4096 bytes of the section, that together
  carry the section exactly, and none is a multiple of 64 bytes long; the chip
  gets the end of each transfer without an empty packet, which the synchronous transfer never adds.
\<close>

theorem section_packets_end_short:
  assumes "chip_device dev st dregs dma_react" and "bulk_chip bulk st"
    and "idle (st h)" and "bit (dregs (st h) 0x101) 0"
    and "4096 < length section" and "length section < 2 ^ 32"
  shows "\<exists>h' once' ps. stream_section dev bulk section dest (length section) 0 once h = (Inr (True, once'), h') \<and>
    sent (st h') = sent (st h) @ ps \<and> sum_list (map (\<lambda>p. p - 40) ps) = length section \<and>
    list_all (\<lambda>p. 40 < p \<and> p \<le> 4136 \<and> p mod 64 \<noteq> 0) ps"
proof -
  have d: "dma_device dev st bulk" using assms(1,2) by (simp add: chip_def dma_device_def dma_device_axioms_def)
  obtain h' once' where "stream_section dev bulk section dest (length section) 0 once h = (Inr (True, once'), h')"
      "sent (st h') = sent (st h) @ map (\<lambda>c. c + 40) (chunk_sizes (length section))"
    using dma_device.stream_section_wp [OF d assms(3), of "length section" 0 "section" dest once] assms(4,6)
    unfolding wp_def by auto
  moreover have "list_all (\<lambda>p. 40 < p \<and> p \<le> 4136 \<and> p mod 64 \<noteq> 0) (map (\<lambda>c. c + 40) (chunk_sizes (length section)))"
    using chunk_sizes_bounds [of "length section"] chunk_short [of "length section"] assms(5) by (auto simp: list_all_iff)
  moreover have "sum_list (map (\<lambda>p. p - 40) (map (\<lambda>c. c + 40) (chunk_sizes (length section)))) = length section"
    by (simp add: comp_def sum_chunk_sizes)
  ultimately show ?thesis by blast
qed


text \<open>
  Instances on the chip itself: an image with the section sizes of the one in the repository, and a section that
  would end in a full block.
\<close>

definition dma_bulk :: "dma_chip bulk_out" where
  "dma_bulk p s = ((0, int (length p)), dma_packet p s)"

lemma bulk_chip_dma: "bulk_chip dma_bulk (\<lambda>s. s)"
  by (simp add: bulk_chip_def dma_bulk_def)

interpretation dma: dma_device "chip_usb dregs dma_react" "\<lambda>s. s" dma_bulk
  by unfold_locales (simp_all add: bulk_chip_dma)




theorem stream_section_loads_witness:
  "\<forall>once. \<exists>s' once'. stream_section (chip_usb dregs dma_react) dma_bulk (replicate 5792 7) 0x200000 (length (replicate 5792 (7 :: u8))) 0 once
      \<lparr>dregs = \<lambda>_. 1, txpage = \<lambda>_. 0, ocp = \<lambda>_. 0, sent = []\<rparr> = (Inr (True, once'), s') \<and>
    ocp s' = put_ocp 0x200000 (replicate 5792 7) (\<lambda>_. 0) \<and> ocp s' 0x20169F = 7"
proof
  fix once
  have "idle \<lparr>dregs = \<lambda>_. 1, txpage = \<lambda>_. 0, ocp = \<lambda>_. 0, sent = []\<rparr>" by (simp add: idle_def bit_simps)
  from stream_section_loads [OF chip_chip_usb bulk_chip_dma this, of "replicate 5792 7" "0x200000" once]
  show "\<exists>s' once'. stream_section (chip_usb dregs dma_react) dma_bulk (replicate 5792 7) 0x200000 (length (replicate 5792 (7 :: u8))) 0 once
      \<lparr>dregs = \<lambda>_. 1, txpage = \<lambda>_. 0, ocp = \<lambda>_. 0, sent = []\<rparr> = (Inr (True, once'), s') \<and>
    ocp s' = put_ocp 0x200000 (replicate 5792 7) (\<lambda>_. 0) \<and> ocp s' 0x20169F = 7"
    by (auto simp: put_ocp_def)
qed


theorem section_packets_end_short_witness:
  "\<forall>once. \<exists>s' once' ps. stream_section (chip_usb dregs dma_react) dma_bulk (replicate 4120 7) 0 (length (replicate 4120 (7 :: u8))) 0 once
      \<lparr>dregs = \<lambda>_. 1, txpage = \<lambda>_. 0, ocp = \<lambda>_. 0, sent = []\<rparr> = (Inr (True, once'), s') \<and>
    sent s' = ps \<and> list_all (\<lambda>p. 40 < p \<and> p \<le> 4136 \<and> p mod 64 \<noteq> 0) ps"
proof
  fix once
  have "idle \<lparr>dregs = \<lambda>_. 1, txpage = \<lambda>_. 0, ocp = \<lambda>_. 0, sent = []\<rparr>" by (simp add: idle_def bit_simps)
  from section_packets_end_short [OF chip_chip_usb bulk_chip_dma this, of "replicate 4120 7" 0 once]
  show "\<exists>s' once' ps. stream_section (chip_usb dregs dma_react) dma_bulk (replicate 4120 7) 0 (length (replicate 4120 (7 :: u8))) 0 once
      \<lparr>dregs = \<lambda>_. 1, txpage = \<lambda>_. 0, ocp = \<lambda>_. 0, sent = []\<rparr> = (Inr (True, once'), s') \<and>
    sent s' = ps \<and> list_all (\<lambda>p. 40 < p \<and> p \<le> 4136 \<and> p mod 64 \<noteq> 0) ps" by auto
qed

end
