(* ===== verification/WfbTx.thy ===== *)
theory WfbTx
  imports SendPacket
begin

text \<open>
  The long-range transmitter of src/wfb: the class \<open>Transmitter\<close> of TxFrame.cpp, which cuts a
  packet stream into blocks of \<open>fecK\<close> fragments, adds \<open>fecN - fecK\<close> parity fragments, seals every
  fragment under the session key with the nonce (block index, fragment index) and hands it to the
  injection method of the derived class, and the announcement and timeout steps of
  \<open>TxFrame::dataSource\<close>. The calls into libsodium and into the erasure coder, the random source and
  the virtual method \<open>injectPacket\<close> are the fields of \<open>wfb_env\<close>, acting on a state \<open>'w\<close>. The
  constants are those of wfb-ng/src/wifibroadcast.hpp.
\<close>

abbreviation (input) MAX_PAYLOAD_SIZE :: nat where "MAX_PAYLOAD_SIZE \<equiv> 3993"
abbreviation (input) MAX_FEC_PAYLOAD :: nat where "MAX_FEC_PAYLOAD \<equiv> 3996"
abbreviation (input) MAX_FORWARDER_PACKET_SIZE :: nat where "MAX_FORWARDER_PACKET_SIZE \<equiv> 4021"
abbreviation (input) WFB_PACKET_DATA :: u8 where "WFB_PACKET_DATA \<equiv> 1"
abbreviation (input) WFB_PACKET_SESSION :: u8 where "WFB_PACKET_SESSION \<equiv> 2"
abbreviation (input) WFB_FEC_VDM_RS :: u8 where "WFB_FEC_VDM_RS \<equiv> 1"
abbreviation (input) WFB_PACKET_FEC_ONLY :: u8 where "WFB_PACKET_FEC_ONLY \<equiv> 1"
abbreviation (input) SESSION_KEY_ANNOUNCE_MSEC :: u64 where "SESSION_KEY_ANNOUNCE_MSEC \<equiv> 1000"

definition BLOCK_IDX_MASK :: u64 where "BLOCK_IDX_MASK = 0xFFFFFFFFFFFFFF"
definition MAX_BLOCK_IDX :: u64 where "MAX_BLOCK_IDX = 0x7FFFFFFFFFFFFF"

section \<open>Environment and state\<close>

text \<open>
  \<open>aead_encrypt key ad nonce message\<close> (\<open>None\<close> is a non-zero return code), \<open>box_easy message nonce
  pk sk\<close>, \<open>fec_encode k n blocks size\<close> (the parity fragments), \<open>randombytes n\<close>; \<open>inject\<close> answers
  whether the packet went out (\<open>False\<close> is its exception).
\<close>

record 'w wfb_env =
  aead_encrypt :: "bytes \<Rightarrow> bytes \<Rightarrow> bytes \<Rightarrow> bytes \<Rightarrow> 'w \<Rightarrow> bytes option \<times> 'w"
  box_easy :: "bytes \<Rightarrow> bytes \<Rightarrow> bytes \<Rightarrow> bytes \<Rightarrow> bytes option"
  fec_encode :: "nat \<Rightarrow> nat \<Rightarrow> bytes list \<Rightarrow> nat \<Rightarrow> bytes list"
  randombytes :: "nat \<Rightarrow> 'w \<Rightarrow> bytes \<times> 'w"
  inject :: "bytes \<Rightarrow> 'w \<Rightarrow> bool \<times> 'w"

datatype tx_error =
    FecNewFailed | KeypairMissing | TxSecretKeyShort | RxPublicKeyShort
  | SizeExceedsPayload | UnableToEncrypt | UnableToCreateSession | InjectThrows | BlockOverrun

record transmitter =
  fecK :: u16
  fecN :: u16
  blockIndex :: u64
  fragmentIndex :: u8
  fec_block :: "bytes list"
  maxPacketSize :: nat
  tx_epoch :: u64
  channelId :: u32
  txSecretKey :: bytes
  rxPublicKey :: bytes
  sessionKey :: bytes
  sessionKeyPacket :: bytes

type_synonym ('w, 'a) txm = "transmitter \<times> 'w \<Rightarrow> (tx_error + 'a) \<times> transmitter \<times> 'w"

definition tx_return :: "'a \<Rightarrow> ('w, 'a) txm" where
  "tx_return x = (\<lambda>s. (Inr x, s))"

definition tx_bind :: "('w, 'a) txm \<Rightarrow> ('a \<Rightarrow> ('w, 'b) txm) \<Rightarrow> ('w, 'b) txm" where
  "tx_bind m f = (\<lambda>s. case m s of (Inl e, s') \<Rightarrow> (Inl e, s') | (Inr x, s') \<Rightarrow> f x s')"

definition tx_then :: "('w, 'a) txm \<Rightarrow> ('w, 'b) txm \<Rightarrow> ('w, 'b) txm" where
  "tx_then m n = tx_bind m (\<lambda>_. n)"

text \<open>An assignment to members.\<close>

definition tx_modify :: "(transmitter \<Rightarrow> transmitter) \<Rightarrow> ('w, unit) txm" where
  "tx_modify f = (\<lambda>(t, w). (Inr (), f t, w))"

section \<open>Session key\<close>

definition injectPacket :: "'w wfb_env \<Rightarrow> bytes \<Rightarrow> ('w, unit) txm" where
  "injectPacket env pkt = (\<lambda>(t, w). let (ok, w) = inject env pkt w in
    (if ok then Inr () else Inl InjectThrows, t, w))"

definition session_data :: "transmitter \<Rightarrow> bytes" where
  "session_data t = be_bytes 8 (tx_epoch t) @ be_bytes 4 (channelId t) @
    [WFB_FEC_VDM_RS, ucast (fecK t), ucast (fecN t)] @ sessionKey t"

definition makeSessionKey :: "'w wfb_env \<Rightarrow> ('w, unit) txm" where
  "makeSessionKey env = (\<lambda>(t, w).
    let (key, w) = randombytes env 32 w;
        (nonce, w) = randombytes env 24 w;
        t = t\<lparr>sessionKey := key, sessionKeyPacket := WFB_PACKET_SESSION # nonce @ drop 25 (sessionKeyPacket t)\<rparr> in
    case box_easy env (session_data t) nonce (rxPublicKey t) (txSecretKey t) of
      None \<Rightarrow> (Inl UnableToCreateSession, t, w)
    | Some c \<Rightarrow> (Inr (), t\<lparr>sessionKeyPacket := WFB_PACKET_SESSION # nonce @ c\<rparr>, w))"

definition sendSessionKey :: "'w wfb_env \<Rightarrow> ('w, unit) txm" where
  "sendSessionKey env = (\<lambda>(t, w). injectPacket env (sessionKeyPacket t) (t, w))"

text \<open>The constructor; \<open>keypair\<close> is the content of the key file. The asserts of \<open>fec_new\<close> are its failure.\<close>

definition new_transmitter ::
    "'w wfb_env \<Rightarrow> u8 \<Rightarrow> u8 \<Rightarrow> bytes option \<Rightarrow> u64 \<Rightarrow> u32 \<Rightarrow> 'w \<Rightarrow> (tx_error + transmitter) \<times> 'w" where
  "new_transmitter env k n keypair epoch channel w =
    (if \<not> (1 \<le> k \<and> k \<le> n) then (Inl FecNewFailed, w)
     else case keypair of None \<Rightarrow> (Inl KeypairMissing, w) | Some fp \<Rightarrow>
      if length fp < 32 then (Inl TxSecretKeyShort, w)
      else if length fp < 64 then (Inl RxPublicKeyShort, w)
      else
       (let t = \<lparr>fecK = ucast k, fecN = ucast n, blockIndex = 0, fragmentIndex = 0,
          fec_block = replicate (unat n) (replicate MAX_FEC_PAYLOAD 0), maxPacketSize = 0, tx_epoch = epoch,
          channelId = channel, txSecretKey = take 32 fp, rxPublicKey = slice 32 32 fp,
          sessionKey = replicate 32 0, sessionKeyPacket = replicate 88 0\<rparr> in
        case makeSessionKey env (t, w) of
          (Inl e, t, w) \<Rightarrow> (Inl e, w)
        | (Inr _, t, w) \<Rightarrow> (Inr t, w)))"

section \<open>Fragments\<close>

definition data_nonce :: "u64 \<Rightarrow> u8 \<Rightarrow> u64" where
  "data_nonce block fragment = push_bit 8 (block AND BLOCK_IDX_MASK) + ucast fragment"

definition block_header :: "transmitter \<Rightarrow> bytes" where
  "block_header t = WFB_PACKET_DATA # be_bytes 8 (data_nonce (blockIndex t) (fragmentIndex t))"

definition sendBlockFragment :: "'w wfb_env \<Rightarrow> nat \<Rightarrow> ('w, unit) txm" where
  "sendBlockFragment env packetSize = (\<lambda>(t, w).
    let i = unat (fragmentIndex t); hdr = block_header t in
    if length (fec_block t) \<le> i then (Inl BlockOverrun, t, w)
    else case aead_encrypt env (sessionKey t) hdr (tl hdr) (take packetSize (fec_block t ! i)) w of
      (None, w) \<Rightarrow> (Inl UnableToEncrypt, t, w)
    | (Some c, w) \<Rightarrow> injectPacket env (hdr @ c) (t, w))"

lemma sendBlockFragment_state: "fst (snd (sendBlockFragment env n s)) = fst s"
  by (cases s) (simp add: sendBlockFragment_def injectPacket_def Let_def split: prod.splits option.splits)

lemma unat_suc_less: "(a :: u8) < b \<Longrightarrow> unat (a + 1) = unat a + 1"
  using unat_lt [of b] by (simp add: word_less_nat_alt unat_word_ariths)

lemma send_parity_less:
  assumes "fragmentIndex t < (ucast (fecN t) :: u8)" and "(Inr u, t', w') = sendBlockFragment env n (t, w)"
  shows "unat (ucast (fecN (t'\<lparr>fragmentIndex := fragmentIndex t' + 1\<rparr>)) :: u8)
      - unat (fragmentIndex (t'\<lparr>fragmentIndex := fragmentIndex t' + 1\<rparr>))
    < unat (ucast (fecN t) :: u8) - unat (fragmentIndex t)"
proof -
  have "t' = t" using sendBlockFragment_state [of env n "(t, w)"] assms(2) by (metis fst_conv snd_conv)
  moreover have "unat (fragmentIndex t + 1) = unat (fragmentIndex t) + 1"
    using assms(1) by (rule unat_suc_less)
  ultimately show ?thesis using assms(1) by (simp add: word_less_nat_alt)
qed

text \<open>\<open>while (fragmentIndex_ < (uint8_t)fecN_)\<close>: the parity fragments.\<close>

function send_parity :: "'w wfb_env \<Rightarrow> transmitter \<times> 'w \<Rightarrow> (tx_error + unit) \<times> transmitter \<times> 'w" where
  "send_parity env (t, w) =
    (if fragmentIndex t < (ucast (fecN t) :: u8)
     then case sendBlockFragment env (maxPacketSize t) (t, w) of
        (Inl e, s) \<Rightarrow> (Inl e, s)
      | (Inr _, t', w') \<Rightarrow> send_parity env (t'\<lparr>fragmentIndex := fragmentIndex t' + 1\<rparr>, w')
     else (Inr (), t, w))"
  by pat_completeness auto

termination
  by (relation "measure (\<lambda>(env, t, w). unat (ucast (fecN t) :: u8) - unat (fragmentIndex t))")
     (auto dest: send_parity_less)

declare send_parity.simps [simp del]

section \<open>Packets\<close>

text \<open>The content of a fragment: header, payload and zeros up to the size of the buffer.\<close>

definition packet_fragment :: "bytes \<Rightarrow> u8 \<Rightarrow> bytes" where
  "packet_fragment buf flags =
    flags # be_bytes 2 (of_nat (length buf) :: u16) @ buf @ replicate (MAX_PAYLOAD_SIZE - length buf) 0"

text \<open>The erasure coder writes \<open>maxPacketSize\<close> bytes of every parity buffer.\<close>

definition encode_parity :: "'w wfb_env \<Rightarrow> transmitter \<Rightarrow> transmitter" where
  "encode_parity env t =
    (let k = unat (fecK t); old = drop k (fec_block t) in
     t\<lparr>fec_block := take k (fec_block t) @
       map2 (\<lambda>p b. set_slice 0 (take (maxPacketSize t) p) b)
         (fec_encode env k (unat (fecN t)) (take k (fec_block t)) (maxPacketSize t)) old\<rparr>)"

definition next_block :: "transmitter \<Rightarrow> transmitter" where
  "next_block t = t\<lparr>blockIndex := blockIndex t + 1, fragmentIndex := 0, maxPacketSize := 0\<rparr>"

text \<open>A new session key when the block indices are used up.\<close>

definition rekey :: "'w wfb_env \<Rightarrow> ('w, unit) txm" where
  "rekey env = (\<lambda>(t, w).
    if MAX_BLOCK_IDX < blockIndex t
    then tx_then (makeSessionKey env) (tx_then (sendSessionKey env) (tx_modify (\<lambda>t. t\<lparr>blockIndex := 0\<rparr>))) (t, w)
    else (Inr (), t, w))"

definition finish_block :: "'w wfb_env \<Rightarrow> ('w, unit) txm" where
  "finish_block env =
    tx_then (tx_modify (encode_parity env)) (tx_then (send_parity env) (tx_then (tx_modify next_block) (rekey env)))"

definition put_fragment :: "bytes \<Rightarrow> u8 \<Rightarrow> transmitter \<Rightarrow> transmitter" where
  "put_fragment buf flags t = t\<lparr>fec_block := (fec_block t)[unat (fragmentIndex t) := packet_fragment buf flags]\<rparr>"

definition count_fragment :: "nat \<Rightarrow> transmitter \<Rightarrow> transmitter" where
  "count_fragment n t = t\<lparr>maxPacketSize := max (maxPacketSize t) n, fragmentIndex := fragmentIndex t + 1\<rparr>"

definition sendPacket :: "'w wfb_env \<Rightarrow> bytes \<Rightarrow> u8 \<Rightarrow> ('w, bool) txm" where
  "sendPacket env buf flags = (\<lambda>(t, w).
    if fragmentIndex t = 0 \<and> flags AND WFB_PACKET_FEC_ONLY \<noteq> 0 then (Inr False, t, w)
    else if MAX_PAYLOAD_SIZE < length buf then (Inl SizeExceedsPayload, t, w)
    else if length (fec_block t) \<le> unat (fragmentIndex t) then (Inl BlockOverrun, t, w)
    else tx_then (tx_modify (put_fragment buf flags))
      (tx_then (sendBlockFragment env (3 + length buf))
      (tx_then (tx_modify (count_fragment (3 + length buf)))
      (tx_then (\<lambda>(t, w). if fragmentIndex t < ucast (fecK t) then (Inr (), t, w) else finish_block env (t, w))
        (tx_return True)))) (t, w))"

section \<open>The input loop\<close>

text \<open>
  The state of \<open>TxFrame::dataSource\<close> between two datagrams. \<open>on_datagram\<close> is what it does with a
  received one: count it, account for the kernel's overflow counter, announce the session key when
  it is due and forward at most \<open>MAX_PAYLOAD_SIZE\<close> bytes. \<open>on_timeout\<close> is the branch of a poll
  that found nothing.
\<close>

record data_source =
  sessionKeyAnnounceTs :: u64
  rxqOverflowCount :: u32
  fecCloseTs :: u64
  countPFecTimeouts :: u32
  countPIncoming :: u32
  countBIncoming :: u32
  countPDropped :: u32
  countPTruncated :: u32

definition count_incoming :: "nat \<Rightarrow> u32 \<Rightarrow> data_source \<Rightarrow> data_source" where
  "count_incoming rsize curOverflow d =
    (let d = d\<lparr>countPIncoming := countPIncoming d + 1, countBIncoming := countBIncoming d + of_nat rsize\<rparr>;
         d = (if MAX_PAYLOAD_SIZE < rsize then d\<lparr>countPTruncated := countPTruncated d + 1\<rparr> else d);
         diff = curOverflow - rxqOverflowCount d in
     if curOverflow \<noteq> rxqOverflowCount d
     then d\<lparr>countPDropped := countPDropped d + diff, countPIncoming := countPIncoming d + diff,
            rxqOverflowCount := curOverflow\<rparr>
     else d)"

definition on_datagram ::
    "'w wfb_env \<Rightarrow> u64 \<Rightarrow> u32 \<Rightarrow> bytes \<Rightarrow> data_source \<Rightarrow> ('w, data_source) txm" where
  "on_datagram env nowTs curOverflow buf d =
    (let d = count_incoming (length buf) curOverflow d;
         due = sessionKeyAnnounceTs d \<le> nowTs;
         d' = (if due then d\<lparr>sessionKeyAnnounceTs := nowTs + SESSION_KEY_ANNOUNCE_MSEC\<rparr> else d) in
     tx_then (if due then sendSessionKey env else tx_return ())
       (tx_then (sendPacket env (take MAX_PAYLOAD_SIZE buf) 0) (tx_return d')))"

definition on_timeout :: "'w wfb_env \<Rightarrow> u64 \<Rightarrow> u64 \<Rightarrow> int \<Rightarrow> data_source \<Rightarrow> ('w, data_source) txm" where
  "on_timeout env curTs laterTs fecTimeout d =
    (if fecTimeout > 0 \<and> fecCloseTs d \<le> curTs
     then tx_bind (sendPacket env [] WFB_PACKET_FEC_ONLY) (\<lambda>sent.
       tx_return (d\<lparr>countPFecTimeouts := (if sent then countPFecTimeouts d else countPFecTimeouts d + 1),
                    fecCloseTs := laterTs + of_int fecTimeout\<rparr>))
     else tx_return d)"


datatype source_event = Datagram u64 u32 bytes | PollTimeout u64 u64

primrec run_source :: "'w wfb_env \<Rightarrow> int \<Rightarrow> source_event list \<Rightarrow> data_source \<Rightarrow> ('w, data_source) txm" where
  "run_source env fecTimeout [] d = tx_return d"
| "run_source env fecTimeout (e # es) d =
    tx_bind (case e of Datagram nowTs ovfl buf \<Rightarrow> on_datagram env nowTs ovfl buf d
                     | PollTimeout curTs laterTs \<Rightarrow> on_timeout env curTs laterTs fecTimeout d)
      (run_source env fecTimeout es)"

text \<open>The fresh loop: nothing announced yet, so that the first datagram announces the key.\<close>

definition fresh_source :: "int \<Rightarrow> u64 \<Rightarrow> data_source" where
  "fresh_source fecTimeout now = \<lparr>sessionKeyAnnounceTs = 0, rxqOverflowCount = 0,
    fecCloseTs = (if fecTimeout > 0 then now + of_int fecTimeout else 0), countPFecTimeouts = 0,
    countPIncoming = 0, countBIncoming = 0, countPDropped = 0, countPTruncated = 0\<rparr>"

section \<open>Outcomes of a step\<close>

text \<open>What holds after a step that returns, and after one that throws.\<close>

definition txp :: "(transmitter \<times> 'w \<Rightarrow> bool) \<Rightarrow> ('w, 'a) txm \<Rightarrow> ('a \<Rightarrow> transmitter \<times> 'w \<Rightarrow> bool) \<Rightarrow>
    (transmitter \<times> 'w \<Rightarrow> bool) \<Rightarrow> bool" where
  "txp P m Q E \<longleftrightarrow> (\<forall>s. P s \<longrightarrow> (case m s of (Inr x, s') \<Rightarrow> Q x s' | (Inl e, s') \<Rightarrow> E s'))"

lemma txpI:
  assumes "\<And>t w. P (t, w) \<Longrightarrow> case m (t, w) of (Inr x, s') \<Rightarrow> Q x s' | (Inl e, s') \<Rightarrow> E s'"
  shows "txp P m Q E"
  unfolding txp_def
proof (intro allI impI)
  fix s assume "P s"
  then show "case m s of (Inr x, s') \<Rightarrow> Q x s' | (Inl e, s') \<Rightarrow> E s'" using assms by (cases s) simp
qed

lemma txpD: "txp P m Q E \<Longrightarrow> P s \<Longrightarrow> case m s of (Inr x, s') \<Rightarrow> Q x s' | (Inl e, s') \<Rightarrow> E s'"
  unfolding txp_def by (erule allE, erule mp)

lemma txp_bind:
  assumes "txp P m R E" and "\<And>x. txp (R x) (f x) Q E"
  shows "txp P (tx_bind m f) Q E"
proof (rule txpI)
  fix t w assume P: "P (t, w)"
  obtain r s' where m: "m (t, w) = (r, s')" by (cases "m (t, w)")
  show "case tx_bind m f (t, w) of (Inr x, s') \<Rightarrow> Q x s' | (Inl e, s') \<Rightarrow> E s'"
  proof (cases r)
    case (Inl e)
    then show ?thesis using txpD [OF assms(1) P] by (simp add: tx_bind_def m)
  next
    case (Inr x)
    then have "R x s'" using txpD [OF assms(1) P] by (simp add: m)
    then show ?thesis using txpD [OF assms(2)] Inr by (simp add: tx_bind_def m)
  qed
qed

lemma txp_then: "txp P m (\<lambda>_. R) E \<Longrightarrow> txp R n Q E \<Longrightarrow> txp P (tx_then m n) Q E"
  unfolding tx_then_def by (rule txp_bind)

lemma txp_return: "(\<And>t w. P (t, w) \<Longrightarrow> Q x (t, w)) \<Longrightarrow> txp P (tx_return x) Q E"
  by (rule txpI) (simp add: tx_return_def)

lemma txp_skip: "txp P (tx_return x) (\<lambda>_. P) E"
  by (rule txp_return)

lemma txp_modify: "(\<And>t w. P (t, w) \<Longrightarrow> Q () (f t, w)) \<Longrightarrow> txp P (tx_modify f) Q E"
  by (rule txpI) (simp add: tx_modify_def)

lemma txp_pre:
  assumes "txp P' m Q E" and "\<And>t w. P (t, w) \<Longrightarrow> P' (t, w)"
  shows "txp P m Q E"
  by (rule txpI) (rule txpD [OF assms(1) assms(2)])

lemma txp_post:
  assumes "txp P m Q' E" and "\<And>x t w. Q' x (t, w) \<Longrightarrow> Q x (t, w)"
  shows "txp P m Q E"
proof (rule txpI)
  fix t w assume "P (t, w)"
  from txpD [OF assms(1) this]
  show "case m (t, w) of (Inr x, s') \<Rightarrow> Q x s' | (Inl e, s') \<Rightarrow> E s'"
    using assms(2) by (auto split: prod.splits sum.splits)
qed

section \<open>Recorded runs\<close>

text \<open>\<open>recording env\<close> is \<open>env\<close> with a log of the random draws, the seals and the injections.\<close>

datatype tx_event = Drawn bytes | Sealed bytes bytes bytes | Injected bytes

definition recording :: "'w wfb_env \<Rightarrow> ('w \<times> tx_event list) wfb_env" where
  "recording env =
    \<lparr>aead_encrypt = \<lambda>key ad nonce msg (w, l).
       (let (c, w) = aead_encrypt env key ad nonce msg w in (c, w, l @ [Sealed key nonce msg])),
     box_easy = box_easy env, fec_encode = fec_encode env,
     randombytes = \<lambda>n (w, l). (let (r, w) = randombytes env n w in (r, w, l @ [Drawn r])),
     inject = \<lambda>pkt (w, l). (let (ok, w) = inject env pkt w in (ok, w, l @ [Injected pkt]))\<rparr>"

fun seals :: "tx_event list \<Rightarrow> (bytes \<times> bytes) list" where
  "seals [] = []"
| "seals (Sealed key nonce msg # l) = (key, nonce) # seals l"
| "seals (_ # l) = seals l"

fun drawn :: "tx_event list \<Rightarrow> bytes list" where
  "drawn [] = []"
| "drawn (Drawn r # l) = r # drawn l"
| "drawn (_ # l) = drawn l"

lemma seals_append [simp]: "seals (l @ m) = seals l @ seals m"
  by (induction l rule: seals.induct) simp_all

lemma drawn_append [simp]: "drawn (l @ m) = drawn l @ drawn m"
  by (induction l rule: drawn.induct) simp_all

section \<open>Nonces\<close>

lemma unat_data_nonce:
  assumes "b \<le> MAX_BLOCK_IDX"
  shows "unat (data_nonce b f) = unat b * 256 + unat f"
proof -
  have b: "unat b < 2 ^ 55" using assms by (simp add: MAX_BLOCK_IDX_def word_le_nat_alt)
  have "BLOCK_IDX_MASK = mask 56" by (simp add: BLOCK_IDX_MASK_def mask_eq_exp_minus_1)
  then have "b AND BLOCK_IDX_MASK = take_bit 56 b" by (simp add: take_bit_eq_mask)
  moreover have "take_bit 56 b = b" using b by (simp add: word_unat_eq_iff unsigned_take_bit_eq take_bit_nat_eq_self)
  ultimately have *: "data_nonce b f = push_bit 8 b + ucast f" by (simp add: data_nonce_def)
  have "unat (push_bit 8 b) = unat b * 256"
    using b by (simp add: unsigned_push_bit_eq take_bit_nat_eq_self push_bit_nat_def)
  moreover have "unat (ucast f :: u64) = unat f"
    using unat_lt [of f] by (simp add: unsigned_ucast_eq take_bit_nat_eq_self)
  ultimately show ?thesis
    using b unat_lt [of f] by (simp add: * unat_word_ariths)
qed

definition nonce_bytes :: "u64 \<Rightarrow> u8 \<Rightarrow> bytes" where
  "nonce_bytes b f = be_bytes 8 (data_nonce b f)"

definition position :: "transmitter \<Rightarrow> nat" where
  "position t = unat (blockIndex t) * 256 + unat (fragmentIndex t)"

lemma nonce_position:
  assumes "nonce_bytes b f = nonce_bytes b' f'" and "b \<le> MAX_BLOCK_IDX" and "b' \<le> MAX_BLOCK_IDX"
  shows "unat b * 256 + unat f = unat b' * 256 + unat f'"
proof -
  have "data_nonce b f = data_nonce b' f'"
  proof -
    have "be_word (be_bytes 8 w) = w" for w :: u64 by (simp add: be_word_be_bytes)
    then show ?thesis using assms(1) by (metis nonce_bytes_def)
  qed
  then show ?thesis using assms(2,3) by (metis unat_data_nonce)
qed


section \<open>No nonce is used twice\<close>

text \<open>
  \<open>keyed key p l\<close>: the key has been drawn, and if no draw repeated, then no pair of key and nonce
  was sealed twice, only drawn keys were used, and the nonces used with this one are below \<open>p\<close>.
\<close>

definition clean :: "tx_event list \<Rightarrow> bool" where
  "clean l \<longleftrightarrow> (distinct (drawn l) \<longrightarrow> distinct (seals l))"

definition keyed :: "bytes \<Rightarrow> nat \<Rightarrow> tx_event list \<Rightarrow> bool" where
  "keyed key p l \<longleftrightarrow> key \<in> set (drawn l) \<and> clean l \<and> fst ` set (seals l) \<subseteq> set (drawn l) \<and>
    (distinct (drawn l) \<longrightarrow> (\<forall>n. (key, n) \<in> set (seals l) \<longrightarrow>
      (\<exists>b f. n = nonce_bytes b f \<and> b \<le> MAX_BLOCK_IDX \<and> unat b * 256 + unat f < p)))"

lemma keyed_clean: "keyed key p l \<Longrightarrow> clean l"
  by (simp add: keyed_def)

lemma keyed_injected [simp]: "keyed key p (l @ [Injected x]) = keyed key p l"
  by (simp add: keyed_def clean_def)

lemma clean_injected [simp]: "clean (l @ [Injected x]) = clean l"
  by (simp add: clean_def)

lemma injected_behind [simp]:
  "keyed key p (l @ [e, Injected x]) = keyed key p (l @ [e])" "clean (l @ [e, Injected x]) = clean (l @ [e])"
  using keyed_injected [of key p "l @ [e]" x] clean_injected [of "l @ [e]" x] by simp_all

lemma clean_drawn: "clean l \<Longrightarrow> clean (l @ [Drawn r])"
  by (simp add: clean_def)

lemma keyed_drawn: "keyed key p l \<Longrightarrow> keyed key p (l @ [Drawn r])"
  by (auto simp: keyed_def clean_def)

lemma keyed_fresh: "clean l \<Longrightarrow> fst ` set (seals l) \<subseteq> set (drawn l) \<Longrightarrow> keyed r 0 (l @ [Drawn r])"
  by (force simp: keyed_def clean_def)

lemma keyed_sealed:
  assumes k: "keyed key p l" and b: "b \<le> MAX_BLOCK_IDX" and p: "p = unat b * 256 + unat f"
  shows "keyed key (p + 1) (l @ [Sealed key (nonce_bytes b f) m])"
proof -
  have new: "(key, nonce_bytes b f) \<notin> set (seals l)" if d: "distinct (drawn l)"
  proof
    assume "(key, nonce_bytes b f) \<in> set (seals l)"
    then obtain b' f' where n: "nonce_bytes b f = nonce_bytes b' f'" "b' \<le> MAX_BLOCK_IDX" "unat b' * 256 + unat f' < p"
      using k d by (auto simp: keyed_def)
    show False using nonce_position [OF n(1) b n(2)] n(3) p by simp
  qed
  have "\<exists>b' f'. n = nonce_bytes b' f' \<and> b' \<le> MAX_BLOCK_IDX \<and> unat b' * 256 + unat f' < p + 1"
    if d: "distinct (drawn l)" and n: "(key, n) \<in> set (seals l) \<or> n = nonce_bytes b f" for n
  proof (cases "n = nonce_bytes b f")
    case True
    then show ?thesis using b p by (intro exI [of _ b] exI [of _ f]) simp
  next
    case False
    then have "(key, n) \<in> set (seals l)" using n by simp
    then obtain b' f' where "n = nonce_bytes b' f'" "b' \<le> MAX_BLOCK_IDX" "unat b' * 256 + unat f' < p"
      using k d by (auto simp: keyed_def)
    then show ?thesis by (intro exI [of _ b'] exI [of _ f']) simp
  qed
  then show ?thesis
    using k new by (simp add: keyed_def clean_def)
qed

definition params_ok :: "transmitter \<Rightarrow> bool" where
  "params_ok t \<longleftrightarrow> 1 \<le> unat (fecK t) \<and> unat (fecK t) \<le> unat (fecN t) \<and> unat (fecN t) \<le> 255"

definition nonce_inv :: "nat \<Rightarrow> transmitter \<times> 'w \<times> tx_event list \<Rightarrow> bool" where
  "nonce_inv d = (\<lambda>(t, w, l). params_ok t \<and> blockIndex t \<le> MAX_BLOCK_IDX \<and>
    keyed (sessionKey t) (position t + d) l)"

definition stopped :: "transmitter \<times> 'w \<times> tx_event list \<Rightarrow> bool" where
  "stopped = (\<lambda>(t, w, l). clean l)"

lemma recording_simps [simp]:
  "aead_encrypt (recording env) key ad nonce msg (w, l) =
    (let (c, w) = aead_encrypt env key ad nonce msg w in (c, w, l @ [Sealed key nonce msg]))"
  "box_easy (recording env) = box_easy env"
  "fec_encode (recording env) = fec_encode env"
  "randombytes (recording env) n (w, l) = (let (r, w) = randombytes env n w in (r, w, l @ [Drawn r]))"
  "inject (recording env) pkt (w, l) = (let (ok, w) = inject env pkt w in (ok, w, l @ [Injected pkt]))"
  by (simp_all add: recording_def)

lemma nonce_fragment:
  fixes env :: "'w wfb_env"
  shows "txp (\<lambda>s. nonce_inv 0 s \<and> fst s = t0) (sendBlockFragment (recording env) n)
    (\<lambda>_ s. nonce_inv 1 s \<and> fst s = t0) stopped"
proof (rule txpI)
  fix t and w :: "'w \<times> tx_event list"
  assume "nonce_inv 0 (t, w) \<and> fst (t, w) = t0"
  then obtain w' l where w: "w = (w', l)" and a: "nonce_inv 0 (t, w', l)" and t: "t = t0" by (cases w) auto
  let ?e = "\<lambda>m. Sealed (sessionKey t) (be_bytes 8 (data_nonce (blockIndex t) (fragmentIndex t))) m"
  have *: "keyed (sessionKey t) (position t + 1) (l @ [?e m])" for m
    using keyed_sealed [where b = "blockIndex t" and f = "fragmentIndex t"] a
    by (simp add: nonce_inv_def position_def nonce_bytes_def)
  moreover have "clean (l @ [?e m])" for m using * by (rule keyed_clean)
  moreover have "clean l" using a keyed_clean by (auto simp: nonce_inv_def)
  ultimately show "case sendBlockFragment (recording env) n (t, w) of
      (Inr x, s') \<Rightarrow> nonce_inv 1 s' \<and> fst s' = t0 | (Inl e, s') \<Rightarrow> stopped s'"
    using a t
    by (auto simp: sendBlockFragment_def block_header_def injectPacket_def Let_def nonce_inv_def stopped_def w
        split: prod.splits option.splits if_splits)
qed


lemma nonce_parity:
  fixes env :: "'w wfb_env"
  shows "txp (\<lambda>s. nonce_inv 0 s) (send_parity (recording env)) (\<lambda>_ s. nonce_inv 0 s) stopped"
proof (rule txpI)
  fix t and w :: "'w \<times> tx_event list"
  assume "nonce_inv 0 (t, w)"
  then show "case send_parity (recording env) (t, w) of
      (Inr x, s') \<Rightarrow> nonce_inv 0 s' | (Inl e, s') \<Rightarrow> stopped s'"
  proof (induction "recording env" "(t, w)" arbitrary: t w rule: send_parity.induct)
    case (1 t w)
    show ?case
    proof (cases "fragmentIndex t < (ucast (fecN t) :: u8)")
      case True
      obtain r t' w' where f: "sendBlockFragment (recording env) (maxPacketSize t) (t, w) = (r, t', w')"
        by (metis surj_pair)
      from txpD [OF nonce_fragment, of "(t, w)" t env "maxPacketSize t"] 1(2)
      have *: "case r of Inr x \<Rightarrow> nonce_inv 1 (t', w') \<and> t' = t | Inl e \<Rightarrow> stopped (t', w')"
        by (auto simp: f split: sum.splits)
      show ?thesis
      proof (cases r)
        case (Inl e)
        then show ?thesis using True * by (subst send_parity.simps) (simp add: f)
      next
        case (Inr u)
        then have "nonce_inv 0 (t'\<lparr>fragmentIndex := fragmentIndex t' + 1\<rparr>, w')"
          using * True unat_suc_less [OF True]
          by (cases w') (auto simp: nonce_inv_def params_ok_def position_def algebra_simps)
        from 1(1) [OF True f [symmetric, unfolded Inr] refl refl this] show ?thesis
          using True Inr by (subst send_parity.simps) (simp add: f)
      qed
    next
      case False
      then show ?thesis using 1(2) by (subst send_parity.simps) simp
    qed
  qed
qed


text \<open>Between two packets: the block is open.\<close>

definition call_inv :: "transmitter \<times> 'w \<times> tx_event list \<Rightarrow> bool" where
  "call_inv s \<longleftrightarrow> nonce_inv 0 s \<and> unat (fragmentIndex (fst s)) < unat (fecK (fst s))"

text \<open>After the last fragment: the next block, whose index may be one too many for the key.\<close>

definition block_inv :: "transmitter \<times> 'w \<times> tx_event list \<Rightarrow> bool" where
  "block_inv = (\<lambda>(t, w, l). params_ok t \<and> fragmentIndex t = 0 \<and> keyed (sessionKey t) (position t) l)"

lemma keyed_mono: "keyed key p l \<Longrightarrow> p \<le> q \<Longrightarrow> keyed key q l"
  unfolding keyed_def by (meson order_less_le_trans)

lemma call_inv_stopped: "call_inv (t, w) \<Longrightarrow> stopped (t, w)"
  by (cases w) (auto simp: call_inv_def nonce_inv_def stopped_def keyed_def)

lemma keep_inject:
  fixes env :: "'w wfb_env"
  assumes "\<And>t w w' l x. P (t, w, l) \<Longrightarrow> P (t, w', l @ [Injected x]) \<and> clean l"
  shows "txp P (injectPacket (recording env) pkt) (\<lambda>_. P) stopped"
proof (rule txpI)
  fix t and w :: "'w \<times> tx_event list"
  assume "P (t, w)"
  moreover obtain w' l where "w = (w', l)" by (cases w)
  ultimately show "case injectPacket (recording env) pkt (t, w) of (Inr x, s') \<Rightarrow> P s' | (Inl e, s') \<Rightarrow> stopped s'"
    using assms by (auto simp: injectPacket_def stopped_def split: prod.splits)
qed

lemma sendSessionKey_txp:
  assumes "\<And>pkt. txp P (injectPacket env pkt) Q E"
  shows "txp P (sendSessionKey env) Q E"
  using assms by (auto simp: txp_def sendSessionKey_def)

lemma nonce_new_key:
  fixes env :: "'w wfb_env"
  shows "txp (\<lambda>(t, w, l). params_ok t \<and> fragmentIndex t = 0 \<and> clean l \<and> fst ` set (seals l) \<subseteq> set (drawn l))
    (makeSessionKey (recording env)) (\<lambda>_ (t, w, l). params_ok t \<and> fragmentIndex t = 0 \<and> keyed (sessionKey t) 0 l) stopped"
proof (rule txpI)
  fix t and w :: "'w \<times> tx_event list"
  obtain w' l where w: "w = (w', l)" by (cases w)
  assume "case (t, w) of (t, w, l) \<Rightarrow> params_ok t \<and> fragmentIndex t = 0 \<and> clean l \<and> fst ` set (seals l) \<subseteq> set (drawn l)"
  then have a: "params_ok t" "fragmentIndex t = 0" "clean l" "fst ` set (seals l) \<subseteq> set (drawn l)" by (simp_all add: w)
  have k: "keyed r 0 (l @ [Drawn r, Drawn n])" for r n
    using keyed_drawn [OF keyed_fresh [OF a(3,4)]] by simp
  show "case makeSessionKey (recording env) (t, w) of
      (Inr x, s') \<Rightarrow> (case s' of (t, w, l) \<Rightarrow> params_ok t \<and> fragmentIndex t = 0 \<and> keyed (sessionKey t) 0 l)
    | (Inl e, s') \<Rightarrow> stopped s'"
    using a(1,2) k keyed_clean [OF k]
    by (auto simp: makeSessionKey_def w Let_def stopped_def params_ok_def split: prod.splits option.splits)
qed

lemma nonce_rekey:
  fixes env :: "'w wfb_env"
  shows "txp block_inv (rekey (recording env)) (\<lambda>_. call_inv) stopped"
proof -
  let ?fresh = "\<lambda>(t :: transmitter, w :: 'w, l). params_ok t \<and> fragmentIndex t = 0 \<and> keyed (sessionKey t) 0 l"
  have "txp block_inv (tx_then (makeSessionKey (recording env)) (tx_then (sendSessionKey (recording env))
      (tx_modify (\<lambda>t. t\<lparr>blockIndex := 0\<rparr>)))) (\<lambda>_. call_inv) stopped"
  proof (rule txp_then)
    show "txp block_inv (makeSessionKey (recording env)) (\<lambda>_. ?fresh) stopped"
      by (rule txp_pre [OF nonce_new_key]) (auto simp: block_inv_def keyed_def)
    show "txp ?fresh (tx_then (sendSessionKey (recording env)) (tx_modify (\<lambda>t. t\<lparr>blockIndex := 0\<rparr>))) (\<lambda>_. call_inv) stopped"
    proof (rule txp_then)
      show "txp ?fresh (sendSessionKey (recording env)) (\<lambda>_. ?fresh) stopped"
        by (intro sendSessionKey_txp keep_inject) (auto simp: keyed_def)
      show "txp ?fresh (tx_modify (\<lambda>t. t\<lparr>blockIndex := 0\<rparr>)) (\<lambda>_. call_inv) stopped"
        by (rule txp_modify) (auto simp: call_inv_def nonce_inv_def position_def params_ok_def)
    qed
  qed
  then show ?thesis
    unfolding txp_def rekey_def
    by (auto simp: block_inv_def call_inv_def nonce_inv_def params_ok_def not_less)
qed


lemma nonce_finish:
  fixes env :: "'w wfb_env"
  shows "txp (nonce_inv 0) (finish_block (recording env)) (\<lambda>_. call_inv) stopped"
  unfolding finish_block_def
proof (intro txp_then)
  show "txp (nonce_inv 0) (tx_modify (encode_parity (recording env))) (\<lambda>_. nonce_inv 0) stopped"
    by (rule txp_modify) (auto simp: nonce_inv_def encode_parity_def Let_def params_ok_def position_def)
  show "txp (nonce_inv 0) (send_parity (recording env)) (\<lambda>_. nonce_inv 0) stopped" by (rule nonce_parity)
  show "txp (nonce_inv 0) (tx_modify next_block) (\<lambda>_. block_inv) stopped"
  proof (rule txp_modify, clarify)
    fix t w l
    assume a: "nonce_inv 0 (t, w, l)"
    then have "unat (blockIndex t + 1) = unat (blockIndex t) + 1"
      by (simp add: nonce_inv_def MAX_BLOCK_IDX_def word_le_nat_alt unat_word_ariths)
    then show "block_inv (next_block t, w, l)"
      using a unat_lt [of "fragmentIndex t"]
      by (auto simp: nonce_inv_def block_inv_def next_block_def params_ok_def position_def elim: keyed_mono)
  qed
  show "txp block_inv (rekey (recording env)) (\<lambda>_. call_inv) stopped" by (rule nonce_rekey)
qed

lemma nonce_packet:
  fixes env :: "'w wfb_env"
  shows "txp call_inv (sendPacket (recording env) buf flags) (\<lambda>_. call_inv) stopped"
proof -
  let ?frag = "\<lambda>(t :: transmitter). unat (fragmentIndex t) < unat (fecK t)"
  let ?open = "\<lambda>d (s :: transmitter \<times> 'w \<times> tx_event list). nonce_inv d s \<and> ?frag (fst s)"
  have "txp call_inv (tx_then (tx_modify (put_fragment buf flags))
      (tx_then (sendBlockFragment (recording env) (3 + length buf))
      (tx_then (tx_modify (count_fragment (3 + length buf)))
      (tx_then (\<lambda>(t, w). if fragmentIndex t < ucast (fecK t) then (Inr (), t, w) else finish_block (recording env) (t, w))
        (tx_return True))))) (\<lambda>_. call_inv) stopped"
  proof (intro txp_then)
    show "txp call_inv (tx_modify (put_fragment buf flags)) (\<lambda>_. ?open 0) stopped"
      by (rule txp_modify) (auto simp: call_inv_def nonce_inv_def put_fragment_def params_ok_def position_def)
    show "txp (?open 0) (sendBlockFragment (recording env) (3 + length buf)) (\<lambda>_. ?open 1) stopped"
      using nonce_fragment [of _ env "3 + length buf"] unfolding txp_def
      by (fastforce split: prod.splits sum.splits)
    show "txp (?open 1) (tx_modify (count_fragment (3 + length buf))) (\<lambda>_. nonce_inv 0) stopped"
    proof (rule txp_modify, clarify)
      fix t w l
      assume a: "nonce_inv 1 (t, w, l)" "?frag (fst (t, w, l))"
      then have "unat (fragmentIndex t + 1) = unat (fragmentIndex t) + 1"
        by (simp add: nonce_inv_def params_ok_def unat_word_ariths)
      then show "nonce_inv 0 (count_fragment (3 + length buf) t, w, l)"
        using a by (simp add: nonce_inv_def count_fragment_def params_ok_def position_def algebra_simps)
    qed
    show "txp (nonce_inv 0) (\<lambda>(t, w). if fragmentIndex t < ucast (fecK t) then (Inr (), t, w)
        else finish_block (recording env) (t, w)) (\<lambda>_. call_inv) stopped"
    proof (rule txpI)
      fix t and w :: "'w \<times> tx_event list"
      assume a: "nonce_inv 0 (t, w)"
      then have "unat (ucast (fecK t) :: u8) = unat (fecK t)"
        by (cases w) (simp add: nonce_inv_def params_ok_def unsigned_ucast_eq take_bit_nat_eq_self)
      then show "case (case (t, w) of (t, w) \<Rightarrow> if fragmentIndex t < ucast (fecK t) then (Inr (), t, w)
          else finish_block (recording env) (t, w)) of (Inr x, s') \<Rightarrow> call_inv s' | (Inl e, s') \<Rightarrow> stopped s'"
        using a txpD [OF nonce_finish a, of env] by (simp add: call_inv_def word_less_nat_alt)
    qed
    show "txp call_inv (tx_return True) (\<lambda>_. call_inv) stopped" by (rule txp_return)
  qed
  then show ?thesis
    unfolding txp_def sendPacket_def using call_inv_stopped by auto
qed

lemma nonce_source:
  fixes env :: "'w wfb_env"
  shows "txp call_inv (run_source (recording env) fecTimeout es d) (\<lambda>_. call_inv) stopped"
proof (induction es arbitrary: d)
  case Nil
  show ?case by (simp add: txp_return)
next
  case (Cons e es)
  have "txp call_inv (sendSessionKey (recording env)) (\<lambda>_. call_inv) stopped"
    by (intro sendSessionKey_txp keep_inject) (auto simp: call_inv_def nonce_inv_def keyed_def)
  then have "txp call_inv (on_datagram (recording env) now ovfl buf d) (\<lambda>_. call_inv) stopped" for now ovfl buf
    unfolding on_datagram_def Let_def by (auto intro!: txp_then txp_skip nonce_packet)
  moreover have "txp call_inv (on_timeout (recording env) cur later fecTimeout d) (\<lambda>_. call_inv) stopped" for cur later
    unfolding on_timeout_def by (auto intro!: txp_bind txp_return nonce_packet)
  ultimately have "txp call_inv (case e of Datagram nowTs ovfl buf \<Rightarrow> on_datagram (recording env) nowTs ovfl buf d
      | PollTimeout curTs laterTs \<Rightarrow> on_timeout (recording env) curTs laterTs fecTimeout d) (\<lambda>_. call_inv) stopped"
    by (cases e) simp_all
  then show ?case using Cons.IH by (simp add: txp_bind)
qed



lemma makeSessionKey_keeps:
  "makeSessionKey env (t, w) = (r, t', w') \<Longrightarrow>
    blockIndex t' = blockIndex t \<and> fragmentIndex t' = fragmentIndex t \<and> fecK t' = fecK t \<and> fecN t' = fecN t \<and>
    fec_block t' = fec_block t \<and> maxPacketSize t' = maxPacketSize t"
  by (auto simp: makeSessionKey_def Let_def split: prod.splits option.splits)

lemma new_transmitter_inv:
  fixes env :: "'w wfb_env"
  assumes "new_transmitter (recording env) k n keypair epoch channel (w, []) = (Inr t, s)"
  shows "call_inv (t, s)"
proof -
  obtain fp where kn: "1 \<le> k" "k \<le> n" and kp: "keypair = Some fp" "64 \<le> length fp"
    using assms by (auto simp: new_transmitter_def split: if_splits option.splits)
  define t0 where "t0 = \<lparr>fecK = ucast k, fecN = ucast n, blockIndex = 0, fragmentIndex = 0,
    fec_block = replicate (unat n) (replicate MAX_FEC_PAYLOAD 0), maxPacketSize = 0, tx_epoch = epoch,
    channelId = channel, txSecretKey = take 32 fp, rxPublicKey = slice 32 32 fp,
    sessionKey = replicate 32 0, sessionKeyPacket = replicate 88 (0 :: u8)\<rparr>"
  have m: "makeSessionKey (recording env) (t0, w, []) = (Inr (), t, s)"
    using assms kn kp unfolding new_transmitter_def t0_def [symmetric]
    by (auto simp: Let_def t0_def split: prod.splits sum.splits)
  have p: "params_ok t0"
    using kn unat_lt [of n] by (simp add: t0_def params_ok_def unsigned_ucast_eq take_bit_nat_eq_self word_le_nat_alt)
  have "fragmentIndex t0 = 0" by (simp add: t0_def)
  then have "case s of (w, l) \<Rightarrow> keyed (sessionKey t) 0 l"
    using txpD [OF nonce_new_key, of "(t0, w, [])" env] p by (auto simp: m clean_def)
  then show ?thesis
    using makeSessionKey_keeps [OF m] p
    by (cases s) (auto simp: call_inv_def nonce_inv_def position_def params_ok_def t0_def)
qed

text \<open>
  C6: no nonce is used twice under one session key. From a fresh transmitter, whatever the
  libraries and the injection do, whichever datagrams and timeouts arrive and however many blocks
  they fill, until the run ends or an exception stops it: if the random source never repeats a
  draw, then the pairs of session key and nonce given to the authenticated encryption are pairwise
  distinct.
\<close>

theorem nonce_never_reused:
  assumes "new_transmitter (recording env) k n keypair epoch channel (w, []) = (Inr t, s)"
    and "run_source (recording env) fecTimeout es d (t, s) = (r, t', w', l)" and "distinct (drawn l)"
  shows "distinct (seals l)"
proof -
  have "case run_source (recording env) fecTimeout es d (t, s) of
      (Inr x, s') \<Rightarrow> call_inv s' | (Inl e, s') \<Rightarrow> stopped s'"
    by (rule txpD [OF nonce_source new_transmitter_inv [OF assms(1)]])
  then have "stopped (t', w', l)"
    using call_inv_stopped [of t' "(w', l)"] by (cases r) (auto simp: assms(2))
  then show ?thesis using assms(3) by (simp add: stopped_def clean_def)
qed


text \<open>Libraries that answer something: a counter as the random source, no encryption, copies as parity.\<close>

definition toy_env :: "nat wfb_env" where
  "toy_env = \<lparr>aead_encrypt = \<lambda>key ad nonce msg c. (Some msg, c), box_easy = \<lambda>msg nonce pk sk. Some msg,
    fec_encode = \<lambda>k n blocks sz. replicate (n - k) (take sz (hd blocks)), randombytes = \<lambda>n c. (replicate n (of_nat c), c + 1),
    inject = \<lambda>pkt c. (True, c)\<rparr>"

theorem nonce_never_reused_witness:
  "\<exists>t s r t' w' l. new_transmitter (recording toy_env) 1 1 (Some (replicate 64 0)) 0 7 (0, []) = (Inr t, s) \<and>
    run_source (recording toy_env) 0 [Datagram 5 0 [9], Datagram 6 0 [8]] (fresh_source 0 0) (t, s) = (r, t', w', l) \<and>
    length (seals l) = 2 \<and> distinct (seals l)"
proof -
  let ?new = "new_transmitter (recording toy_env) 1 1 (Some (replicate 64 0)) 0 7 (0, [])"
  obtain t s where n: "?new = (Inr t, s)" "blockIndex t = 0" "fragmentIndex t = 0" "fecK t = 1" "fecN t = 1" "length (fec_block t) = 1"
      "s = (2, [Drawn (replicate 32 0), Drawn (replicate 24 1)])"
    by (simp add: new_transmitter_def makeSessionKey_def toy_env_def)
  obtain r t' w' l where r: "run_source (recording toy_env) 0 [Datagram 5 0 [9], Datagram 6 0 [8]] (fresh_source 0 0) (t, s) = (r, t', w', l)"
    by (metis surj_pair)
  have l: "length (seals l) = 2 \<and> drawn l = [replicate 32 0, replicate 24 1]"
    using r n(2-) by (auto simp: on_datagram_def fresh_source_def count_incoming_def sendSessionKey_def injectPacket_def
      sendPacket_def tx_then_def tx_bind_def tx_modify_def tx_return_def put_fragment_def sendBlockFragment_def
      count_fragment_def finish_block_def encode_parity_def send_parity.simps next_block_def rekey_def MAX_BLOCK_IDX_def
      toy_env_def Let_def)
  then have "distinct (seals l)"
    using nonce_never_reused [OF n(1) r] by (simp add: replicate_eq_replicate)
  then show ?thesis using n(1) r l by blast
qed


section \<open>A block on the air\<close>

text \<open>Libraries and an injection that always answer; \<open>seal\<close> is the ciphertext.\<close>

definition reliable :: "'w wfb_env \<Rightarrow> (bytes \<Rightarrow> bytes \<Rightarrow> bytes \<Rightarrow> bytes \<Rightarrow> bytes) \<Rightarrow> bool" where
  "reliable env seal \<longleftrightarrow>
    (\<forall>key ad nonce msg w. fst (aead_encrypt env key ad nonce msg w) = Some (seal key ad nonce msg)) \<and>
    (\<forall>pkt w. fst (inject env pkt w))"

text \<open>What a fragment leaves in the log: one seal and one packet.\<close>

definition fragment_events ::
    "(bytes \<Rightarrow> bytes \<Rightarrow> bytes \<Rightarrow> bytes \<Rightarrow> bytes) \<Rightarrow> bytes \<Rightarrow> u64 \<Rightarrow> nat \<Rightarrow> bytes \<Rightarrow> tx_event list" where
  "fragment_events seal key b i msg =
    (let nonce = nonce_bytes b (of_nat i); hdr = WFB_PACKET_DATA # nonce in
     [Sealed key nonce msg, Injected (hdr @ seal key hdr nonce msg)])"

lemma fragment_run:
  assumes "reliable env seal" and "unat (fragmentIndex t) < length (fec_block t)"
  shows "\<exists>w'. sendBlockFragment (recording env) n (t, w, l) = (Inr (), t, w',
    l @ fragment_events seal (sessionKey t) (blockIndex t) (unat (fragmentIndex t)) (take n (fec_block t ! unat (fragmentIndex t))))"
proof -
  obtain w1 where 1: "aead_encrypt env (sessionKey t) (block_header t) (tl (block_header t))
      (take n (fec_block t ! unat (fragmentIndex t))) w = (Some (seal (sessionKey t) (block_header t) (tl (block_header t))
      (take n (fec_block t ! unat (fragmentIndex t)))), w1)"
    using assms(1) unfolding reliable_def by (metis prod.collapse)
  obtain w2 where "inject env (block_header t @ seal (sessionKey t) (block_header t) (tl (block_header t))
      (take n (fec_block t ! unat (fragmentIndex t)))) w1 = (True, w2)"
    using assms(1) unfolding reliable_def by (metis prod.collapse)
  with 1 assms(2) show ?thesis
    by (simp add: sendBlockFragment_def injectPacket_def Let_def fragment_events_def block_header_def nonce_bytes_def)
qed

lemma parity_run:
  assumes "reliable env seal" and "params_ok t" and "length (fec_block t) = unat (fecN t)"
    and "unat (fragmentIndex t) \<le> unat (fecN t)"
  shows "\<exists>w'. send_parity (recording env) (t, w, l) = (Inr (), t\<lparr>fragmentIndex := ucast (fecN t)\<rparr>, w',
    l @ concat (map (\<lambda>i. fragment_events seal (sessionKey t) (blockIndex t) i (take (maxPacketSize t) (fec_block t ! i)))
      [unat (fragmentIndex t)..<unat (fecN t)]))"
  using assms(2-)
proof (induction "unat (fecN t) - unat (fragmentIndex t)" arbitrary: t w l)
  case 0
  have n: "unat (ucast (fecN t) :: u8) = unat (fecN t)"
    using 0(2) by (simp add: params_ok_def unsigned_ucast_eq take_bit_nat_eq_self)
  have "fragmentIndex t = ucast (fecN t)" using 0(1,4) n by (simp add: word_unat_eq_iff)
  then show ?case by (subst send_parity.simps) (simp add: n)
next
  case (Suc d)
  have n: "unat (ucast (fecN t) :: u8) = unat (fecN t)"
    using Suc(3) by (simp add: params_ok_def unsigned_ucast_eq take_bit_nat_eq_self)
  have lt: "fragmentIndex t < (ucast (fecN t) :: u8)" using Suc(2) n by (simp add: word_less_nat_alt)
  have fl: "unat (fragmentIndex t) < unat (fecN t)" using Suc(2) by linarith
  have s: "unat (fragmentIndex t + 1) = Suc (unat (fragmentIndex t))" using unat_suc_less [OF lt] by simp
  let ?t = "t\<lparr>fragmentIndex := fragmentIndex t + 1\<rparr>"
  obtain w1 where 1: "sendBlockFragment (recording env) (maxPacketSize t) (t, w, l) = (Inr (), t, w1,
    l @ fragment_events seal (sessionKey t) (blockIndex t) (unat (fragmentIndex t)) (take (maxPacketSize t) (fec_block t ! unat (fragmentIndex t))))"
    using fragment_run [OF assms(1), of t "maxPacketSize t" w l] Suc(4) fl by auto
  have "\<exists>w'. send_parity (recording env) (?t, w1, l @ fragment_events seal (sessionKey t) (blockIndex t) (unat (fragmentIndex t))
      (take (maxPacketSize t) (fec_block t ! unat (fragmentIndex t)))) = (Inr (), ?t\<lparr>fragmentIndex := ucast (fecN ?t)\<rparr>, w',
    (l @ fragment_events seal (sessionKey t) (blockIndex t) (unat (fragmentIndex t)) (take (maxPacketSize t) (fec_block t ! unat (fragmentIndex t)))) @
    concat (map (\<lambda>i. fragment_events seal (sessionKey ?t) (blockIndex ?t) i (take (maxPacketSize ?t) (fec_block ?t ! i)))
      [unat (fragmentIndex ?t)..<unat (fecN ?t)]))"
    using Suc(2-5) s by (intro Suc(1)) (simp_all add: params_ok_def)
  moreover have "[unat (fragmentIndex t)..<unat (fecN t)] = unat (fragmentIndex t) # [unat (fragmentIndex ?t)..<unat (fecN ?t)]"
    using Suc(2) s by (simp add: upt_conv_Cons)
  ultimately show ?case
    using lt 1 by (subst send_parity.simps) auto
qed


definition fill :: "bytes list \<Rightarrow> transmitter \<Rightarrow> transmitter" where
  "fill ps t = fold (\<lambda>p t. count_fragment (3 + length p) (put_fragment p 0 t)) ps t"

definition flagged :: "u8 \<Rightarrow> bytes \<Rightarrow> bytes" where
  "flagged flags p = flags # be_bytes 2 (of_nat (length p) :: u16) @ p"

abbreviation plain :: "bytes \<Rightarrow> bytes" where
  "plain \<equiv> flagged 0"

lemma take_packet_fragment [simp]: "take (3 + length p) (packet_fragment p flags) = flagged flags p"
  by (simp add: packet_fragment_def flagged_def eval_nat_numeral)

primrec send_all :: "'w wfb_env \<Rightarrow> bytes list \<Rightarrow> ('w, unit) txm" where
  "send_all env [] = tx_return ()"
| "send_all env (p # ps) = tx_then (sendPacket env p 0) (send_all env ps)"

lemma fill_fields:
  "length ps + unat (fragmentIndex t) < 256 \<Longrightarrow>
   unat (fragmentIndex (fill ps t)) = unat (fragmentIndex t) + length ps \<and>
   fecK (fill ps t) = fecK t \<and> fecN (fill ps t) = fecN t \<and> blockIndex (fill ps t) = blockIndex t \<and>
   sessionKey (fill ps t) = sessionKey t \<and> length (fec_block (fill ps t)) = length (fec_block t) \<and>
   maxPacketSize (fill ps t) = fold (\<lambda>p m. max m (3 + length p)) ps (maxPacketSize t)"
proof (induction ps arbitrary: t)
  case (Cons p ps)
  have "unat (fragmentIndex t + 1) = unat (fragmentIndex t) + 1" using Cons.prems by (simp add: unat_word_ariths)
  then show ?case
    using Cons.IH [of "count_fragment (3 + length p) (put_fragment p 0 t)"] Cons.prems
    by (simp add: fill_def count_fragment_def put_fragment_def)
qed (simp add: fill_def)

lemma fill_block:
  assumes "length ps + unat (fragmentIndex t) \<le> length (fec_block t)" and "length ps + unat (fragmentIndex t) < 256"
  shows "fec_block (fill ps t) = take (unat (fragmentIndex t)) (fec_block t) @ map (\<lambda>p. packet_fragment p 0) ps @
    drop (unat (fragmentIndex t) + length ps) (fec_block t)"
  using assms
proof (induction ps arbitrary: t)
  case (Cons p ps)
  let ?t = "count_fragment (3 + length p) (put_fragment p 0 t)"
  have s: "unat (fragmentIndex t + 1) = Suc (unat (fragmentIndex t))" using Cons.prems by (simp add: unat_word_ariths)
  have t: "unat (fragmentIndex ?t) = Suc (unat (fragmentIndex t))"
    "fec_block ?t = (fec_block t)[unat (fragmentIndex t) := packet_fragment p 0]"
    by (simp_all add: count_fragment_def put_fragment_def s)
  have "fec_block (fill ps ?t) = take (unat (fragmentIndex ?t)) (fec_block ?t) @ map (\<lambda>p. packet_fragment p 0) ps @
    drop (unat (fragmentIndex ?t) + length ps) (fec_block ?t)"
    using Cons.prems by (intro Cons.IH) (simp_all add: t)
  moreover have "take (Suc (unat (fragmentIndex t))) (fec_block ?t) = take (unat (fragmentIndex t)) (fec_block t) @ [packet_fragment p 0]"
    using Cons.prems(1) by (simp add: t take_Suc_conv_app_nth)
  ultimately show ?case
    using Cons.prems by (simp add: t fill_def)
qed (simp add: fill_def)

lemma packet_open:
  assumes "reliable env seal" and "params_ok t" and "length (fec_block t) = unat (fecN t)"
    and "unat (fragmentIndex t) + 1 < unat (fecK t)" and "length p \<le> MAX_PAYLOAD_SIZE"
    and "fragmentIndex t = 0 \<longrightarrow> flags AND WFB_PACKET_FEC_ONLY = 0"
  shows "\<exists>w'. sendPacket (recording env) p flags (t, w, l) = (Inr True, count_fragment (3 + length p) (put_fragment p flags t), w',
    l @ fragment_events seal (sessionKey t) (blockIndex t) (unat (fragmentIndex t)) (flagged flags p))"
proof -
  have b: "unat (fragmentIndex t) < length (fec_block t)" using assms by (simp add: params_ok_def)
  obtain w' where f: "sendBlockFragment (recording env) (3 + length p) (put_fragment p flags t, w, l) = (Inr (), put_fragment p flags t, w',
    l @ fragment_events seal (sessionKey t) (blockIndex t) (unat (fragmentIndex t)) (flagged flags p))"
    using fragment_run [OF assms(1), of "put_fragment p flags t" "3 + length p" w l] b by (auto simp: put_fragment_def)
  have "unat (fragmentIndex t + 1) = unat (fragmentIndex t) + 1"
    using assms(2,4) by (simp add: params_ok_def unat_word_ariths)
  moreover have "unat (ucast (fecK t) :: u8) = unat (fecK t)"
    using assms(2) by (simp add: params_ok_def unsigned_ucast_eq take_bit_nat_eq_self)
  ultimately have "fragmentIndex t + 1 < ucast (fecK t)" using assms(4) by (simp add: word_less_nat_alt)
  then show ?thesis
    using f b assms(5,6)
    by (simp add: sendPacket_def tx_then_def tx_bind_def tx_modify_def tx_return_def count_fragment_def)
      (simp add: put_fragment_def)
qed


lemma open_run:
  assumes "reliable env seal" and "params_ok t" and "length (fec_block t) = unat (fecN t)"
    and "unat (fragmentIndex t) + length ps < unat (fecK t)" and "\<forall>p \<in> set ps. length p \<le> MAX_PAYLOAD_SIZE"
  shows "\<exists>w'. send_all (recording env) (ps @ qs) (t, w, l) = send_all (recording env) qs (fill ps t, w', l @ concat (map2 (\<lambda>i p.
    fragment_events seal (sessionKey t) (blockIndex t) i (plain p)) [unat (fragmentIndex t)..<unat (fragmentIndex t) + length ps] ps))"
  using assms(2-)
proof (induction ps arbitrary: t w l)
  case Nil
  then show ?case by (auto simp: fill_def)
next
  case (Cons p ps)
  let ?e = "fragment_events seal (sessionKey t) (blockIndex t)"
  obtain w1 where 1: "sendPacket (recording env) p 0 (t, w, l) = (Inr True, fill [p] t, w1, l @ ?e (unat (fragmentIndex t)) (plain p))"
    using packet_open [OF assms(1), of t p 0 w l] Cons.prems by (auto simp: fill_def)
  have "length [p] + unat (fragmentIndex t) < 256" using Cons.prems by (simp add: params_ok_def)
  note f = fill_fields [OF this]
  have "\<exists>w'. send_all (recording env) (ps @ qs) (fill [p] t, w1, l @ ?e (unat (fragmentIndex t)) (plain p)) =
    send_all (recording env) qs (fill ps (fill [p] t), w', (l @ ?e (unat (fragmentIndex t)) (plain p)) @ concat (map2 (\<lambda>i q.
      fragment_events seal (sessionKey (fill [p] t)) (blockIndex (fill [p] t)) i (plain q))
      [unat (fragmentIndex (fill [p] t))..<unat (fragmentIndex (fill [p] t)) + length ps] ps))"
    using Cons.prems f by (intro Cons.IH) (simp_all add: params_ok_def)
  moreover have "fill ps (fill [p] t) = fill (p # ps) t" by (simp add: fill_def)
  moreover have up: "[unat (fragmentIndex t)..<unat (fragmentIndex t) + length (p # ps)] =
      unat (fragmentIndex t) # [Suc (unat (fragmentIndex t))..<Suc (unat (fragmentIndex t)) + length ps]"
    by (simp add: upt_conv_Cons del: upt_Suc)
  ultimately show ?case
    using f up by (auto simp: tx_then_def tx_bind_def 1 simp del: upt_Suc)
qed

lemma packet_closing:
  assumes "reliable env seal" and "params_ok t" and "length (fec_block t) = unat (fecN t)"
    and "unat (fragmentIndex t) + 1 = unat (fecK t)" and "length p \<le> MAX_PAYLOAD_SIZE" and "blockIndex t < MAX_BLOCK_IDX"
    and "fill [p] t = u" and "length (fec_block (encode_parity env u)) = unat (fecN t)"
  shows "\<exists>w'. sendPacket (recording env) p 0 (t, w, l) = (Inr True, next_block (encode_parity env u), w',
    l @ fragment_events seal (sessionKey t) (blockIndex t) (unat (fragmentIndex t)) (plain p) @
    concat (map (\<lambda>i. fragment_events seal (sessionKey t) (blockIndex t) i
      (take (maxPacketSize u) (fec_block (encode_parity env u) ! i))) [unat (fecK t)..<unat (fecN t)]))"
proof -
  have b: "unat (fragmentIndex t) < length (fec_block t)" using assms by (simp add: params_ok_def)
  obtain w1 where 1: "sendBlockFragment (recording env) (3 + length p) (put_fragment p 0 t, w, l) = (Inr (), put_fragment p 0 t, w1,
    l @ fragment_events seal (sessionKey t) (blockIndex t) (unat (fragmentIndex t)) (plain p))"
    using fragment_run [OF assms(1), of "put_fragment p 0 t" "3 + length p" w l] b by (auto simp: put_fragment_def)
  have u: "count_fragment (3 + length p) (put_fragment p 0 t) = u" using assms(7) by (simp add: fill_def)
  have "length [p] + unat (fragmentIndex t) < 256" using assms(2,4) by (simp add: params_ok_def)
  note f = fill_fields [OF this, unfolded assms(7)]
  have e: "fragmentIndex (encode_parity env u) = fragmentIndex u" "fecK (encode_parity env u) = fecK u"
    "fecN (encode_parity env u) = fecN u" "blockIndex (encode_parity env u) = blockIndex u"
    "sessionKey (encode_parity env u) = sessionKey u" "maxPacketSize (encode_parity env u) = maxPacketSize u"
    by (simp_all add: encode_parity_def Let_def)
  obtain w2 where 2: "send_parity (recording env) (encode_parity env u, w1,
      l @ fragment_events seal (sessionKey t) (blockIndex t) (unat (fragmentIndex t)) (plain p)) =
    (Inr (), (encode_parity env u)\<lparr>fragmentIndex := ucast (fecN u)\<rparr>, w2,
      (l @ fragment_events seal (sessionKey t) (blockIndex t) (unat (fragmentIndex t)) (plain p)) @
      concat (map (\<lambda>i. fragment_events seal (sessionKey t) (blockIndex t) i
        (take (maxPacketSize u) (fec_block (encode_parity env u) ! i))) [unat (fecK t)..<unat (fecN t)]))"
    using parity_run [OF assms(1), of "encode_parity env u" w1
        "l @ fragment_events seal (sessionKey t) (blockIndex t) (unat (fragmentIndex t)) (plain p)"] assms(2,4,8) f
    by (auto simp: e params_ok_def)
  have "unat (ucast (fecK t) :: u8) = unat (fecK t)"
    using assms(2) by (simp add: params_ok_def unsigned_ucast_eq take_bit_nat_eq_self)
  then have nlt: "\<not> fragmentIndex u < ucast (fecK u)" using f assms(4) by (simp add: word_less_nat_alt)
  have ep: "encode_parity (recording env) u = encode_parity env u" by (simp add: encode_parity_def)
  have "\<not> MAX_BLOCK_IDX < blockIndex t + 1"
    using assms(6) by (simp add: MAX_BLOCK_IDX_def word_less_nat_alt unat_word_ariths)
  then have "rekey (recording env) (next_block ((encode_parity env u)\<lparr>fragmentIndex := ucast (fecN u)\<rparr>), w2, x) =
      (Inr (), next_block (encode_parity env u), w2, x)" for x
    using f by (simp add: rekey_def next_block_def e)
  then show ?thesis
    using b assms(5) nlt
    by (simp add: sendPacket_def tx_then_def tx_bind_def tx_modify_def tx_return_def 1 u finish_block_def ep 2)
qed


definition block_start :: "transmitter \<Rightarrow> bool" where
  "block_start t \<longleftrightarrow> params_ok t \<and> fragmentIndex t = 0 \<and> maxPacketSize t = 0 \<and> length (fec_block t) = unat (fecN t)"

definition block_size :: "bytes list \<Rightarrow> nat" where
  "block_size ps = fold (\<lambda>p m. max m (3 + length p)) ps 0"

definition parity_of :: "'w wfb_env \<Rightarrow> transmitter \<Rightarrow> bytes list \<Rightarrow> bytes list" where
  "parity_of env t ps = fec_encode env (unat (fecK t)) (unat (fecN t)) (map (\<lambda>p. packet_fragment p 0) ps) (block_size ps)"

definition block_events ::
    "(bytes \<Rightarrow> bytes \<Rightarrow> bytes \<Rightarrow> bytes \<Rightarrow> bytes) \<Rightarrow> transmitter \<Rightarrow> bytes list \<Rightarrow> tx_event list" where
  "block_events seal t msgs =
    concat (map2 (fragment_events seal (sessionKey t) (blockIndex t)) [0..<unat (fecN t)] msgs)"

lemma encode_fill:
  assumes "block_start t" and "length ps = unat (fecK t)"
    and "length (parity_of env t ps) = unat (fecN t) - unat (fecK t)" and "\<forall>q \<in> set (parity_of env t ps). length q = block_size ps"
  shows "length (fec_block (encode_parity env (fill ps t))) = unat (fecN t)"
    and "map (\<lambda>i. take (block_size ps) (fec_block (encode_parity env (fill ps t)) ! i)) [unat (fecK t)..<unat (fecN t)] = parity_of env t ps"
proof -
  have k: "unat (fecK t) \<le> unat (fecN t)" "length ps + unat (fragmentIndex t) < 256"
    "length ps + unat (fragmentIndex t) \<le> length (fec_block t)" "unat (fragmentIndex t) = 0"
    using assms(1,2) by (auto simp: block_start_def params_ok_def)
  note f = fill_fields [OF k(2)] and b = fill_block [OF k(3,2)]
  let ?old = "drop (unat (fecK t)) (fec_block t)"
  let ?par = "map2 (\<lambda>p b. set_slice 0 (take (block_size ps) p) b) (parity_of env t ps) ?old"
  have e: "fec_block (encode_parity env (fill ps t)) = map (\<lambda>p. packet_fragment p 0) ps @ ?par"
    using f b assms(1,2) k(4)
    by (simp add: encode_parity_def Let_def parity_of_def block_size_def block_start_def)
  have l: "length ?old = unat (fecN t) - unat (fecK t)" using assms(1) by (simp add: block_start_def)
  show "length (fec_block (encode_parity env (fill ps t))) = unat (fecN t)"
    using k(1) l assms(2,3) by (simp add: e)
  show "map (\<lambda>i. take (block_size ps) (fec_block (encode_parity env (fill ps t)) ! i)) [unat (fecK t)..<unat (fecN t)] = parity_of env t ps"
  proof (rule nth_equalityI)
    fix i assume "i < length (map (\<lambda>i. take (block_size ps) (fec_block (encode_parity env (fill ps t)) ! i)) [unat (fecK t)..<unat (fecN t)])"
    then have i: "i < unat (fecN t) - unat (fecK t)" by simp
    then have "length (parity_of env t ps ! i) = block_size ps" using assms(3,4) by simp
    then show "map (\<lambda>i. take (block_size ps) (fec_block (encode_parity env (fill ps t)) ! i)) [unat (fecK t)..<unat (fecN t)] ! i = parity_of env t ps ! i"
      using i l assms(2,3) by (simp add: e nth_append set_slice_def)
  qed (simp add: assms(3))
qed

text \<open>
  C7: a block on the air. From the start of a block, with libraries and an injection that answer
  and an erasure coder that yields the parity fragments it promises, any \<open>k\<close> payloads leave as
  exactly \<open>n\<close> packets: packet \<open>i\<close> carries the nonce (block index, \<open>i\<close>); the first \<open>k\<close> seal each
  payload behind its length at its own size, the others the parity of the padded payloads at the
  size of the largest; and the transmitter stands at the start of the next block.
\<close>

theorem block_on_air:
  assumes "reliable env seal" and "block_start t" and "blockIndex t < MAX_BLOCK_IDX"
    and "length ps = unat (fecK t)" and "\<forall>p \<in> set ps. length p \<le> MAX_PAYLOAD_SIZE"
    and "length (parity_of env t ps) = unat (fecN t) - unat (fecK t)" and "\<forall>q \<in> set (parity_of env t ps). length q = block_size ps"
  shows "\<exists>t' w'. send_all (recording env) ps (t, w, l) =
      (Inr (), t', w', l @ block_events seal t (map plain ps @ parity_of env t ps)) \<and>
    block_start t' \<and> blockIndex t' = blockIndex t + 1 \<and> sessionKey t' = sessionKey t"
proof -
  have po: "params_ok t" and f0: "fragmentIndex t = 0" and lb: "length (fec_block t) = unat (fecN t)"
    using assms(2) by (simp_all add: block_start_def)
  obtain qs p where ps: "ps = qs @ [p]" using assms(4) po by (cases ps rule: rev_cases) (auto simp: params_ok_def)
  have k: "unat (fragmentIndex t) + length qs < unat (fecK t)" "unat (fecK t) = Suc (length qs)"
    using assms(4) by (simp_all add: ps f0)
  have q256: "length qs + unat (fragmentIndex t) < 256" "length ps + unat (fragmentIndex t) < 256"
    using k po by (simp_all add: params_ok_def f0 ps)
  let ?u = "fill qs t" let ?v = "fill ps t"
  note f = fill_fields [OF q256(1)] and g = fill_fields [OF q256(2)]
  have v: "fill [p] ?u = ?v" by (simp add: fill_def ps)
  note enc = encode_fill [OF assms(2,4,6,7)]
  obtain w1 where 1: "send_all (recording env) ps (t, w, l) = send_all (recording env) [p] (?u, w1,
      l @ concat (map2 (\<lambda>i p. fragment_events seal (sessionKey t) (blockIndex t) i (plain p)) [0..<length qs] qs))"
    using open_run [OF assms(1) po lb k(1), of "[p]" w l] assms(5) by (auto simp: ps f0)
  let ?l = "l @ concat (map2 (\<lambda>i p. fragment_events seal (sessionKey t) (blockIndex t) i (plain p)) [0..<length qs] qs)"
  have pu: "params_ok ?u" using po f by (simp add: params_ok_def)
  obtain w2 where 2: "sendPacket (recording env) p 0 (?u, w1, ?l) = (Inr True, next_block (encode_parity env ?v), w2,
    ?l @ fragment_events seal (sessionKey t) (blockIndex t) (length qs) (plain p) @
    concat (map (\<lambda>i. fragment_events seal (sessionKey t) (blockIndex t) i (take (maxPacketSize ?v) (fec_block (encode_parity env ?v) ! i)))
      [unat (fecK t)..<unat (fecN t)]))"
    using packet_closing [OF assms(1) pu _ _ _ _ v, of w1 ?l] assms(3,5) f k enc(1) lb by (auto simp: ps f0)
  have m: "maxPacketSize ?v = block_size ps" using g assms(2) by (simp add: block_size_def block_start_def)
  have par: "map (\<lambda>i. fragment_events seal (sessionKey t) (blockIndex t) i (take (block_size ps) (fec_block (encode_parity env ?v) ! i)))
      [unat (fecK t)..<unat (fecN t)] =
    map2 (fragment_events seal (sessionKey t) (blockIndex t)) [unat (fecK t)..<unat (fecN t)] (parity_of env t ps)"
    unfolding enc(2) [symmetric] by (simp add: zip_map2 zip_same_conv_map comp_def case_prod_unfold)
  obtain d where d: "unat (fecN t) = Suc (length qs) + d" using po k(2) le_Suc_ex unfolding params_ok_def by metis
  have "[0..<unat (fecN t)] = [0..<length qs] @ [length qs] @ [unat (fecK t)..<unat (fecN t)]"
    unfolding k(2) d upt_add_eq_append [OF le0] by simp
  then have ev: "block_events seal t (map plain ps @ parity_of env t ps) =
      concat (map2 (\<lambda>i p. fragment_events seal (sessionKey t) (blockIndex t) i (plain p)) [0..<length qs] qs) @
      fragment_events seal (sessionKey t) (blockIndex t) (length qs) (plain p) @
      concat (map2 (fragment_events seal (sessionKey t) (blockIndex t)) [unat (fecK t)..<unat (fecN t)] (parity_of env t ps))"
    by (simp add: block_events_def ps zip_map2 case_prod_unfold comp_def)
  have "send_all (recording env) ps (t, w, l) =
      (Inr (), next_block (encode_parity env ?v), w2, l @ block_events seal t (map plain ps @ parity_of env t ps))"
    unfolding 1 using 2 by (simp add: tx_then_def tx_bind_def tx_return_def m par ev)
  moreover have "block_start (next_block (encode_parity env ?v))"
    using po g enc(1) by (simp add: block_start_def next_block_def params_ok_def encode_parity_def Let_def)
  moreover have "blockIndex (next_block (encode_parity env ?v)) = blockIndex t + 1"
    "sessionKey (next_block (encode_parity env ?v)) = sessionKey t"
    using g by (simp_all add: next_block_def encode_parity_def Let_def)
  ultimately show ?thesis by blast
qed


lemma nat_le_2: "nat_le 2 v = [of_nat (v mod 256), of_nat (v div 256 mod 256)]"
  by (simp add: numeral_2_eq_2)

theorem block_on_air_witness:
  "\<exists>t s t' w'. new_transmitter (recording toy_env) 2 3 (Some (replicate 64 0)) 0 7 (0, []) = (Inr t, s) \<and>
    send_all (recording toy_env) [[9], [8, 7]] (t, s) = (Inr (), t', w',
      [Drawn (replicate 32 0), Drawn (replicate 24 1)] @ block_events (\<lambda>key ad nonce msg. msg) t
        [[0, 0, 1, 9], [0, 0, 2, 8, 7], [0, 0, 1, 9, 0]])"
proof -
  obtain t s where n: "new_transmitter (recording toy_env) 2 3 (Some (replicate 64 0)) 0 7 (0, []) = (Inr t, s)"
      "blockIndex t = 0" "fragmentIndex t = 0" "fecK t = 2" "fecN t = 3" "length (fec_block t) = 3" "maxPacketSize t = 0"
      "s = (2, [Drawn (replicate 32 0), Drawn (replicate 24 1)])"
    by (simp add: new_transmitter_def makeSessionKey_def toy_env_def)
  have b: "block_start t" using n by (simp add: block_start_def params_ok_def)
  have r: "reliable toy_env (\<lambda>key ad nonce msg. msg)" by (simp add: reliable_def toy_env_def)
  have h: "be_bytes 2 (1 :: u16) = [0, 1]" "be_bytes 2 (2 :: u16) = [0, 2]"
    by (simp_all add: be_bytes_def le_bytes_def nat_le_2)
  have par: "parity_of toy_env t [[9], [8, 7]] = [[0, 0, 1, 9, 0]]"
    using n by (simp add: parity_of_def toy_env_def packet_fragment_def block_size_def h)
  show ?thesis
    using block_on_air [OF r b, of "[[9], [8, 7]]" "fst s" "snd s"] n
    by (auto simp: par flagged_def h block_size_def MAX_BLOCK_IDX_def)
qed


section \<open>Timeouts and exceptions\<close>

text \<open>
  A timeout does not close the block. When the poll runs out with the block timer expired, an
  empty block sends nothing and counts a timeout; an open block that misses more than one fragment
  gets a single padding fragment and stays open, and no timeout is counted.
\<close>

theorem timeout_leaves_block_open:
  assumes "reliable env seal" and "params_ok t" and "length (fec_block t) = unat (fecN t)"
    and "unat (fragmentIndex t) + 1 < unat (fecK t)" and "fecTimeout > 0" and "fecCloseTs d \<le> cur"
  shows "\<exists>t' w' evs. on_timeout (recording env) cur later fecTimeout d (t, w, l) =
      (Inr (d\<lparr>countPFecTimeouts := countPFecTimeouts d + of_bool (fragmentIndex t = 0), fecCloseTs := later + of_int fecTimeout\<rparr>),
       t', w', l @ evs) \<and>
    blockIndex t' = blockIndex t \<and>
    unat (fragmentIndex t') = (if fragmentIndex t = 0 then 0 else unat (fragmentIndex t) + 1) \<and>
    evs = (if fragmentIndex t = 0 then []
           else fragment_events seal (sessionKey t) (blockIndex t) (unat (fragmentIndex t)) [1, 0, 0])"
proof (cases "fragmentIndex t = 0")
  case True
  then show ?thesis using assms(5,6) by (simp add: on_timeout_def sendPacket_def tx_bind_def tx_return_def)
next
  case False
  obtain w' where "sendPacket (recording env) [] 1 (t, w, l) = (Inr True, count_fragment (3 + length []) (put_fragment [] 1 t), w',
      l @ fragment_events seal (sessionKey t) (blockIndex t) (unat (fragmentIndex t)) (flagged 1 []))"
    using packet_open [OF assms(1-4), of "[]" 1 w l] False by auto
  moreover have "unat (fragmentIndex t + 1) = unat (fragmentIndex t) + 1"
    using assms(2,4) by (simp add: params_ok_def unat_word_ariths)
  moreover have "flagged 1 [] = [1, 0, 0]" by (simp add: flagged_def be_bytes_def le_bytes_def nat_le_2)
  ultimately show ?thesis
    using assms(5,6) False
    by (simp add: on_timeout_def tx_bind_def tx_return_def count_fragment_def put_fragment_def)
qed

theorem timeout_leaves_block_open_witness:
  "\<exists>t s t' w' evs. new_transmitter (recording toy_env) 3 5 (Some (replicate 64 0)) 0 7 (0, []) = (Inr t, s) \<and>
    on_timeout (recording toy_env) 30 31 20 (fresh_source 20 0) (t, s) =
      (Inr ((fresh_source 20 0)\<lparr>countPFecTimeouts := 1, fecCloseTs := 51\<rparr>), t', w', evs)"
proof -
  obtain t s where n: "new_transmitter (recording toy_env) 3 5 (Some (replicate 64 0)) 0 7 (0, []) = (Inr t, s)"
      "fragmentIndex t = 0" "fecK t = 3" "fecN t = 5" "length (fec_block t) = 5"
    by (simp add: new_transmitter_def makeSessionKey_def toy_env_def)
  have "reliable toy_env (\<lambda>key ad nonce msg. msg)" by (simp add: reliable_def toy_env_def)
  from timeout_leaves_block_open [OF this, of t 20 "fresh_source 20 0" 30 31 "fst s" "snd s"] n
  show ?thesis by (auto simp: params_ok_def fresh_source_def)
qed

lemma packet_open_log:
  assumes "unat (fragmentIndex t) < length (fec_block t)" and "fragmentIndex t + 1 < ucast (fecK t)" and "length p \<le> MAX_PAYLOAD_SIZE"
    and "sendPacket (recording env) p 0 (t, w, l) = (r, t', w', l')"
  shows "\<exists>rest. l' = l @ Sealed (sessionKey t) (nonce_bytes (blockIndex t) (fragmentIndex t)) (plain p) # rest \<and>
    (r = Inl InjectThrows \<longrightarrow> t' = put_fragment p 0 t \<and> (\<exists>sent. rest = [Injected sent]))"
proof -
  let ?t = "put_fragment p 0 t"
  have m: "take (3 + length p) (fec_block ?t ! unat (fragmentIndex t)) = plain p"
    "length (fec_block ?t) = length (fec_block t)" "fragmentIndex ?t = fragmentIndex t"
    "sessionKey ?t = sessionKey t" "fecK ?t = fecK t"
    "block_header ?t = WFB_PACKET_DATA # nonce_bytes (blockIndex t) (fragmentIndex t)"
    using assms(1) by (simp_all add: put_fragment_def block_header_def nonce_bytes_def)
  show ?thesis
    using assms
    by (auto simp: sendPacket_def tx_then_def tx_bind_def tx_modify_def tx_return_def sendBlockFragment_def m Let_def
        injectPacket_def count_fragment_def split: prod.splits option.splits if_splits)
qed

text \<open>
  C37: a packet whose injection throws is lost with its nonce spent. If the exception leaves a
  fragment that does not complete the block, then the transmitter still stands at that fragment, so
  that the next packet, whatever it holds, is sealed under the same key and the same nonce.
\<close>

theorem throw_then_retry_reuses_nonce:
  assumes "sendPacket (recording env) p 0 (t, w, l) = (Inl InjectThrows, t', w', l')" and "length p \<le> MAX_PAYLOAD_SIZE"
    and "unat (fragmentIndex t) < length (fec_block t)" and "fragmentIndex t + 1 < ucast (fecK t)"
    and "sendPacket (recording env) p' 0 (t', w', l') = (r, t'', w'', l'')" and "length p' \<le> MAX_PAYLOAD_SIZE"
  shows "\<exists>key nonce sent rest. l' = l @ [Sealed key nonce (plain p), Injected sent] \<and>
    l'' = l' @ Sealed key nonce (plain p') # rest"
proof -
  have 1: "t' = put_fragment p 0 t"
    "\<exists>sent. l' = l @ [Sealed (sessionKey t) (nonce_bytes (blockIndex t) (fragmentIndex t)) (plain p), Injected sent]"
    using packet_open_log [OF assms(3,4,2,1)] by auto
  have "\<exists>rest. l'' = l' @ Sealed (sessionKey t') (nonce_bytes (blockIndex t') (fragmentIndex t')) (plain p') # rest"
    using packet_open_log [OF _ _ assms(6,5)] assms(3,4) by (auto simp: 1(1) put_fragment_def)
  then show ?thesis using 1 by (auto simp: put_fragment_def)
qed

text \<open>An injection that fails once, as a mirrored output does when one interface is gone.\<close>

definition failing_env :: "nat wfb_env" where
  "failing_env = toy_env\<lparr>inject := \<lambda>pkt c. (c \<noteq> 2, c + 1)\<rparr>"

theorem throw_then_retry_reuses_nonce_witness:
  "\<exists>t s key nonce sent rest. new_transmitter (recording failing_env) 2 3 (Some (replicate 64 0)) 0 7 (0, []) = (Inr t, s) \<and>
    snd (snd (snd (sendPacket (recording failing_env) [8] 0 (snd (sendPacket (recording failing_env) [9] 0 (t, s)))))) =
      snd s @ [Sealed key nonce [0, 0, 1, 9], Injected sent] @ Sealed key nonce [0, 0, 1, 8] # rest"
proof -
  obtain t ls where n: "new_transmitter (recording failing_env) 2 3 (Some (replicate 64 0)) 0 7 (0, []) = (Inr t, 2, ls)"
      "fragmentIndex t = 0" "fecK t = 2" "length (fec_block t) = 3"
    by (simp add: new_transmitter_def makeSessionKey_def failing_env_def toy_env_def)
  obtain t' w' l' where 1: "sendPacket (recording failing_env) [9] 0 (t, 2, ls) = (Inl InjectThrows, t', w', l')"
    using n(2-) by (simp add: sendPacket_def tx_then_def tx_bind_def tx_modify_def sendBlockFragment_def put_fragment_def
        failing_env_def toy_env_def injectPacket_def Let_def)
  obtain r t'' w'' l'' where 2: "sendPacket (recording failing_env) [8] 0 (t', w', l') = (r, t'', w'', l'')" by (metis surj_pair)
  have "plain [9] = [0, 0, 1, 9]" "plain [8] = [0, 0, 1, 8]"
    by (simp_all add: flagged_def be_bytes_def le_bytes_def nat_le_2)
  then obtain key nonce sent rest where l: "l' = ls @ [Sealed key nonce [0, 0, 1, 9], Injected sent]"
      "l'' = l' @ Sealed key nonce [0, 0, 1, 8] # rest"
    using throw_then_retry_reuses_nonce [OF 1 _ _ _ 2] n by (auto simp: word_less_nat_alt)
  show ?thesis
    by (rule exI [of _ t], rule exI [of _ "(2, ls)"], rule exI [of _ key], rule exI [of _ nonce], rule exI [of _ sent],
        rule exI [of _ rest], simp add: n(1) 1 2 l(2), simp add: l(1))
qed

end
