(* ===== verification/WfbAir.thy ===== *)
theory WfbAir
  imports WfbTx
begin

text \<open>
  The injection side of src/wfb: the radiotap header \<open>TxFrame::run\<close> builds from its arguments, the
  802.11 header and the statistics of \<open>UsbTransmitter::injectPacket\<close> in TxFrame.cpp and TxFrame.h,
  which feeds the injection path of the driver (\<open>SendPacket\<close>), and the receive-side frame filter of
  RxFrame.h.
\<close>

section \<open>The radiotap header\<close>

text \<open>The fields of \<open>TxArgs\<close> the header depends on; \<open>int\<close> flags are tested against zero.\<close>

record wfb_args =
  a_bandwidth :: int
  a_short_gi :: int
  a_stbc :: int
  a_ldpc :: int
  a_mcs_index :: int
  a_vht_nss :: int
  a_vht_mode :: bool

datatype args_error = UnsupportedBandwidth | UnsupportedStbc | UnsupportedVhtBandwidth

abbreviation (input) MCS_KNOWN :: u8 where "MCS_KNOWN \<equiv> 0x37"
abbreviation (input) FRAME_TYPE_RTS :: u8 where "FRAME_TYPE_RTS \<equiv> 0xb4"

definition radiotap_header_ht :: bytes where
  "radiotap_header_ht = [0x00, 0x00, 0x0d, 0x00, 0x00, 0x80, 0x08, 0x00, 0x08, 0x00, MCS_KNOWN, 0x00, 0x00]"

definition radiotap_header_vht :: bytes where
  "radiotap_header_vht = [0x00, 0x00, 0x16, 0x00, 0x00, 0x80, 0x20, 0x00, 0x08, 0x00, 0x45, 0x00, 0x00, 0x04,
    0x00, 0x00, 0x00, 0x00, 0x00, 0x00, 0x00, 0x00]"

definition ht_flags :: "wfb_args \<Rightarrow> u8" where
  "ht_flags a = (if a_bandwidth a = 40 then 0x01 else 0) OR (if a_short_gi a \<noteq> 0 then 0x04 else 0) OR
    push_bit 5 (of_int (a_stbc a)) OR (if a_ldpc a \<noteq> 0 then 0x10 else 0)"

definition build_ht_header :: "wfb_args \<Rightarrow> args_error + bytes" where
  "build_ht_header a =
    (if a_bandwidth a \<notin> {10, 20, 40} then Inl UnsupportedBandwidth
     else if a_stbc a \<notin> {0, 1, 2, 3} then Inl UnsupportedStbc
     else Inr (radiotap_header_ht[11 := ht_flags a, 12 := of_int (a_mcs_index a)]))"

definition vht_flags :: "wfb_args \<Rightarrow> u8" where
  "vht_flags a = (if a_short_gi a \<noteq> 0 then 0x04 else 0) OR (if a_stbc a \<noteq> 0 then 0x01 else 0)"

definition vht_mcs_nss :: "wfb_args \<Rightarrow> u8" where
  "vht_mcs_nss a = (push_bit 4 (of_int (a_mcs_index a)) AND 0xF0) OR (of_int (a_vht_nss a) AND 0x0F)"

definition build_vht_header :: "wfb_args \<Rightarrow> args_error + bytes" where
  "build_vht_header a =
    (let h = radiotap_header_vht;
         h = (if a_ldpc a \<noteq> 0 then h[18 := 0x01] else h) in
     if a_bandwidth a = 80 then Inr (h[13 := 0x04, 12 := vht_flags a, 14 := vht_mcs_nss a])
     else if a_bandwidth a = 160 then Inr (h[13 := 0x0B, 12 := vht_flags a, 14 := vht_mcs_nss a])
     else Inl UnsupportedVhtBandwidth)"

definition run_header :: "wfb_args \<Rightarrow> args_error + bytes" where
  "run_header a =
    (let vht_mode = (a_vht_mode a \<or> a_bandwidth a \<ge> 80) in
     if \<not> vht_mode then build_ht_header a else build_vht_header a)"

section \<open>Statistics\<close>

record TxAntennaItem =
  countPacketsInjected :: u32
  countBytesInjected :: u32
  countPacketsDropped :: u32
  latencySum :: u64
  latencyMin :: u64
  latencyMax :: u64

definition newTxAntennaItem :: TxAntennaItem where
  "newTxAntennaItem = \<lparr>countPacketsInjected = 0, countBytesInjected = 0, countPacketsDropped = 0,
    latencySum = 0, latencyMin = 0, latencyMax = 0\<rparr>"

definition logLatency :: "u64 \<Rightarrow> bool \<Rightarrow> u32 \<Rightarrow> TxAntennaItem \<Rightarrow> TxAntennaItem" where
  "logLatency latency succeeded packetSize s =
    (let s = (if countPacketsInjected s + countPacketsDropped s = 0
              then s\<lparr>latencyMin := latency, latencyMax := latency\<rparr>
              else s\<lparr>latencyMin := min latency (latencyMin s), latencyMax := max latency (latencyMax s)\<rparr>);
         s = s\<lparr>latencySum := latencySum s + latency\<rparr> in
     if succeeded
     then s\<lparr>countPacketsInjected := countPacketsInjected s + 1, countBytesInjected := countBytesInjected s + packetSize\<rparr>
     else s\<lparr>countPacketsDropped := countPacketsDropped s + 1\<rparr>)"

text \<open>\<open>antennaStat_[key]\<close> creates a missing entry.\<close>

definition antenna_item :: "(u64 \<rightharpoonup> TxAntennaItem) \<Rightarrow> u64 \<Rightarrow> TxAntennaItem" where
  "antenna_item m key = (case m key of Some s \<Rightarrow> s | None \<Rightarrow> newTxAntennaItem)"

section \<open>Injection over USB\<close>

record usb_transmitter =
  ut_channelId :: u32
  currentOutput :: int
  ieee80211Sequence :: u16
  antennaStat :: "u64 \<rightharpoonup> TxAntennaItem"
  radiotapHeader :: bytes
  frameType :: u8

definition ieee80211_header :: bytes where
  "ieee80211_header = [0x08, 0x01, 0x00, 0x00, 0xFF, 0xFF, 0xFF, 0xFF, 0xFF, 0xFF,
    0x57, 0x42, 0xaa, 0xbb, 0xcc, 0xdd, 0x57, 0x42, 0xaa, 0xbb, 0xcc, 0xdd, 0x00, 0x00]"

definition ieee_header :: "usb_transmitter \<Rightarrow> bytes" where
  "ieee_header u =
    (let h = ieee80211_header[0 := frameType u];
         ch = be_bytes 4 (ut_channelId u);
         h = set_slice 18 ch (set_slice 12 ch h) in
     h[22 := ucast (ieee80211Sequence u AND 0xff), 23 := ucast (drop_bit 8 (ieee80211Sequence u) AND 0xff)])"

datatype inject_error = MainThreadExit | PacketTooLarge

text \<open>
  \<open>send\<close> is the driver's \<open>send_packet\<close>, \<open>stopping\<close> the flag \<open>should_stop\<close> of the device (or no
  device), \<open>latency\<close> the time the call took. The frame handed over is the second component.
\<close>

definition usb_injectPacket ::
    "(bytes \<Rightarrow> send_result) \<Rightarrow> bool \<Rightarrow> u64 \<Rightarrow> bytes \<Rightarrow> usb_transmitter \<Rightarrow> inject_error + (send_result \<times> usb_transmitter)" where
  "usb_injectPacket send stopping latency buf u =
    (if stopping then Inl MainThreadExit
     else if MAX_FORWARDER_PACKET_SIZE < length buf then Inl PacketTooLarge
     else
      (let hdr = ieee_header u;
           u = u\<lparr>ieee80211Sequence := ieee80211Sequence u + 16\<rparr>;
           result = send (radiotapHeader u @ hdr @ buf);
           ok = (case result of SendDone frame b \<Rightarrow> b | _ \<Rightarrow> False);
           key = push_bit 8 (of_int (currentOutput u)) OR 0xff in
       Inr (result, u\<lparr>antennaStat := (antennaStat u)(key \<mapsto>
         logLatency latency ok (of_nat (length buf)) (antenna_item (antennaStat u) key))\<rparr>)))"

section \<open>The receive filter\<close>






text \<open>\<open>None\<close> is a read behind the frame.\<close>

definition all_equal :: "bytes \<Rightarrow> (nat \<times> u8) list \<Rightarrow> bool option" where
  "all_equal d tests = foldr (\<lambda>(i, v) rest. case rd d i of None \<Rightarrow> None | Some b \<Rightarrow> if b = v then rest else Some False)
    tests (Some True)"

definition MatchesChannelID :: "bytes \<Rightarrow> bytes \<Rightarrow> bool option" where
  "MatchesChannelID d ch = all_equal d
    [(10, 0x57), (11, 0x42), (12, ch ! 0), (13, ch ! 1), (14, ch ! 2), (15, ch ! 3),
     (16, 0x57), (17, 0x42), (18, ch ! 0), (19, ch ! 1), (20, ch ! 2), (21, ch ! 3)]"


record WifiFrame =
  frameControl :: u16
  durationID :: u16
  receiverAddress :: bytes
  transmitterAddress :: bytes
  destinationAddress :: bytes
  sequenceControl :: u16

definition parse_wifi_frame :: "bytes \<Rightarrow> WifiFrame option" where
  "parse_wifi_frame d = (if length d < 24 then None else Some \<lparr>frameControl = push_bit 8 (ucast (d ! 1)) OR ucast (d ! 0),
    durationID = push_bit 8 (ucast (d ! 3)) OR ucast (d ! 2),
    receiverAddress = slice 4 6 d, transmitterAddress = slice 10 6 d, destinationAddress = slice 16 6 d,
    sequenceControl = push_bit 8 (ucast (d ! 22)) OR ucast (d ! 22)\<rparr>)"


section \<open>What the driver makes of the header\<close>

definition vht_header :: "u8 \<Rightarrow> u8 \<Rightarrow> u8 \<Rightarrow> u8 \<Rightarrow> bytes" where
  "vht_header flags bw mcs_nss coding = [0, 0, 0x16, 0, 0, 0x80, 0x20, 0, 8, 0, 0x45, 0, flags, bw, mcs_nss, 0, 0, 0, coding, 0, 0, 0]"

lemma length_vht_header [simp]: "length (vht_header flags bw mcs_nss coding) = 22"
  by (simp add: vht_header_def)

lemma vht_bitmap: "rt_bitmap (vht_header flags bw mcs_nss coding @ q) 0 = 0x208000"
  by (simp add: rt_bitmap_def vht_header_def slice_def le_word_def)

lemma vht_no_bit18: "\<not> has_bit18 (vht_header flags bw mcs_nss coding @ q) mx"
proof
  assume "has_bit18 (vht_header flags bw mcs_nss coding @ q) mx"
  then obtain k where "\<forall>j<k. bit (rt_bitmap (vht_header flags bw mcs_nss coding @ q) j) IEEE80211_RADIOTAP_EXT"
    "bit (rt_bitmap (vht_header flags bw mcs_nss coding @ q) k) 18" by (auto simp: has_bit18_def)
  then show False by (cases k) (auto simp: vht_bitmap)
qed

lemma vht_params:
  "tx_params_of (vht_header flags bw mcs_nss coding @ q) 22 =
     Some (vht_arg [0x45, 0, flags, bw, mcs_nss, 0, 0, 0, coding] (tx_defaults\<lparr>tp_txflags := 8\<rparr>))"
  by (simp add: tx_params_of_def ieee80211_radiotap_iterator_init_def rd_def rd16_def rd32_def
      rd_slice_def slice_def le_word_def fresh_iterator_def vht_header_def
      tx_args.simps ieee80211_radiotap_iterator_next.simps radiotap_step_def next_entry_def
      arg_layout_def radiotap_ns_def rtap_namespace_sizes_def Let_def align_up_def commit_arg_def
      tx_arg_def)

lemma send_coding_fields:
  assumes "\<And>f. field_ok TXDESC_SIZE f \<Longrightarrow> fdisj TX_CHECKSUM f \<Longrightarrow>
      LE_BITS_TO_4BYTE d f = LE_BITS_TO_4BYTE (fold (\<lambda>(f, v). put_bits f v) (send_sets v n vht p) (replicate TXDESC_SIZE 0)) f"
    and "tp_ldpc p = 0 \<or> tp_ldpc p = 1"
  shows "LE_BITS_TO_4BYTE d DATA_LDPC_8812 = ucast (tp_ldpc p)" "LE_BITS_TO_4BYTE d DATA_STBC_8812 = ucast (tp_stbc p AND 3)"
proof -
  have z0: "LE_BITS_TO_4BYTE (replicate TXDESC_SIZE 0) f = 0" if "field_ok TXDESC_SIZE f" for f
    using that by (cases f) (simp add: LE_BITS_TO_4BYTE_def LE_P4BYTE_TO_HOST_4BYTE_def slice_def field_ok_def le_word_def)
  note s = send_sets_def Let_def field_simps
  have b: "take_bit 2 (ucast (tp_stbc p AND 3) :: u32) = ucast (tp_stbc p AND 3)"
  proof -
    have "tp_stbc p AND 3 = take_bit 2 (tp_stbc p)" by (simp add: take_bit_eq_mask mask_eq_exp_minus_1)
    then show ?thesis by (simp add: word_unat_eq_iff unsigned_take_bit_eq unsigned_ucast_eq)
  qed
  show "LE_BITS_TO_4BYTE d DATA_LDPC_8812 = ucast (tp_ldpc p)"
  proof (cases "tp_ldpc p = 0")
    case True
    then show ?thesis by (subst assms(1), simp add: s, simp add: s, subst tx.get_puts; simp add: s z0)
  next
    case False
    then have "tp_ldpc p = 1" using assms(2) by simp
    then show ?thesis by (subst assms(1), simp add: s, simp add: s, subst tx.get_puts; simp add: s z0)
  qed
  show "LE_BITS_TO_4BYTE d DATA_STBC_8812 = ucast (tp_stbc p AND 3)"
    by (subst assms(1), simp add: s, simp add: s, subst tx.get_puts; simp add: s b)
qed


definition uses_vht :: "wfb_args \<Rightarrow> bool" where
  "uses_vht a \<longleftrightarrow> a_vht_mode a \<or> 80 \<le> a_bandwidth a"

text \<open>The rate the arguments come out at.\<close>

definition wire_rate :: "wfb_args \<Rightarrow> u8" where
  "wire_rate a = (if uses_vht a
    then MRateToHwRate (MGN_VHT1SS_MCS0 + of_int ((a_vht_nss a - 1) * 10 + a_mcs_index a)) else DESC_RATE1M)"

lemma run_header_cases:
  assumes "run_header a = Inr h"
  shows "if uses_vht a then \<exists>bw. h = vht_header (vht_flags a) bw (vht_mcs_nss a) (of_bool (a_ldpc a \<noteq> 0))
    else h = ht_header 8 0 MCS_KNOWN (ht_flags a) (of_int (a_mcs_index a))"
  using assms
  by (auto simp: run_header_def Let_def uses_vht_def build_ht_header_def build_vht_header_def radiotap_header_ht_def
      radiotap_header_vht_def ht_header_def vht_header_def split: if_splits)

lemma vht_mcs_nss_parts:
  assumes "a_vht_nss a \<in> {1..4}" and "a_mcs_index a \<in> {0..9}"
  shows "vht_rate (vht_mcs_nss a) = Some (MGN_VHT1SS_MCS0 + of_int ((a_vht_nss a - 1) * 10 + a_mcs_index a))"
proof -
  have "a_vht_nss a \<in> {1, 2, 3, 4}" "a_mcs_index a \<in> {0, 1, 2, 3, 4, 5, 6, 7, 8, 9}"
    using assms by (simp_all add: atLeastAtMost_iff) presburger+
  then show ?thesis by (auto simp: vht_rate_def vht_mcs_nss_def Let_def)
qed

lemma ht_flags_parts:
  "(ht_flags a AND 4 \<noteq> 0) = (a_short_gi a \<noteq> 0)" "(ht_flags a AND 3 = 1) = (a_bandwidth a = 40)"
proof -
  have z: "push_bit 5 x AND 4 = 0" "push_bit 5 x AND 3 = 0" for x :: u8
  proof -
    have "push_bit 5 x AND 2 ^ 2 = 0" by (simp only: and_exp_eq_0_iff_not_bit) (simp add: bit_simps)
    then show "push_bit 5 x AND 4 = 0" by simp
    have "take_bit 2 (push_bit 5 x) = 0" by (rule bit_word_eqI) (simp add: bit_simps)
    then show "push_bit 5 x AND 3 = 0" by (simp add: take_bit_eq_mask mask_eq_exp_minus_1)
  qed
  show "(ht_flags a AND 4 \<noteq> 0) = (a_short_gi a \<noteq> 0)" "(ht_flags a AND 3 = 1) = (a_bandwidth a = 40)"
    by (auto simp: ht_flags_def bit.conj_disj_distrib2 z)
qed

lemma ieee_header_bytes:
  assumes "be_bytes 4 (ut_channelId u) = [c0, c1, c2, c3]"
  shows "ieee_header u = [frameType u, 1, 0, 0, 0xFF, 0xFF, 0xFF, 0xFF, 0xFF, 0xFF, 0x57, 0x42, c0, c1, c2, c3,
    0x57, 0x42, c0, c1, c2, c3, ucast (ieee80211Sequence u AND 0xff), ucast (drop_bit 8 (ieee80211Sequence u) AND 0xff)]"
  by (simp add: ieee_header_def Let_def assms ieee80211_header_def set_slice_def)

lemma length_4: "length xs = 4 \<Longrightarrow> \<exists>a b c d. xs = [a, b, c, d]"
  by (auto simp: length_Suc_conv numeral_eq_Suc)

lemma usb_injection:
  assumes "radiotapHeader u = h" and "length buf \<le> MAX_FORWARDER_PACKET_SIZE"
    and "rd16 h 2 = Some w" and "unat w = length h" and "8 \<le> length h" and "\<And>q. \<not> has_bit18 (h @ q) (unat w)"
    and "tx_params_of (h @ ieee_header u @ buf) (unat w) = Some p" and "length (ieee_header u) = 24"
  obtains d u' where "usb_injectPacket (send_packet device v) False latency buf u =
      Inr (SendDone (d @ ieee_header u @ buf) (device (d @ ieee_header u @ buf)), u')"
    "length d = TXDESC_SIZE" "xor_halfwords d = 0"
    "\<And>f. field_ok TXDESC_SIZE f \<Longrightarrow> fdisj TX_CHECKSUM f \<Longrightarrow> LE_BITS_TO_4BYTE d f =
      LE_BITS_TO_4BYTE (fold (\<lambda>(f, v). put_bits f v)
        (send_sets v (24 + length buf) (unat w \<noteq> 0x0d) p) (replicate TXDESC_SIZE 0)) f"
    "ieee80211Sequence u' = ieee80211Sequence u + 16"
proof -
  let ?p = "h @ ieee_header u @ buf"
  have w: "rd16 ?p 2 = Some w"
    using assms(3,5) by (auto simp: rd16_def rd_slice_def split: if_splits)
  have "w \<noteq> 0" using assms(4,5) by (metis le_zero_eq unsigned_0 zero_neq_numeral)
  moreover have "8 \<le> length ?p" "unat w < length ?p" "drop (unat w) ?p = ieee_header u @ buf" "length ?p - unat w = 24 + length buf"
    using assms(4,5,8) by simp_all
  ultimately obtain p' d where *: "tx_params_of ?p (unat w) = Some p'"
    "send_packet device v ?p = SendDone (d @ ieee_header u @ buf) (device (d @ ieee_header u @ buf))"
    "length d = TXDESC_SIZE" "xor_halfwords d = 0"
    "\<And>f. field_ok TXDESC_SIZE f \<Longrightarrow> fdisj TX_CHECKSUM f \<Longrightarrow> LE_BITS_TO_4BYTE d f =
      LE_BITS_TO_4BYTE (fold (\<lambda>(f, v). put_bits f v)
        (send_sets v (24 + length buf) (unat w \<noteq> 0x0d) p') (replicate TXDESC_SIZE 0)) f"
    using send_packet_run [OF w _ _ _ assms(6), of device v] by (metis (no_types, lifting))
  have "p' = p" using *(1) assms(7) by simp
  with * show thesis
    using that assms(1,2) by (auto simp: usb_injectPacket_def Let_def)
qed

text \<open>
  C11: what the long-range transmitter puts on the air. For every argument set the program accepts
  and every packet that fits, the driver takes the frame and sends exactly the 802.11 header and the
  packet behind one descriptor that verifies its checksum; the frame carries the channel
  identifier, so that the filter of the receiver matches it, and the sequence number advances by
  one. In HT mode guard interval and bandwidth are those of the arguments, but the rate is always
  1 Mb/s without LDPC and STBC; in VHT mode rate, guard interval, LDPC and STBC are those of the
  arguments, but the bandwidth is always 20 MHz.
\<close>

theorem wfb_frame_on_air:
  assumes "run_header a = Inr (radiotapHeader u)" and "length buf \<le> MAX_FORWARDER_PACKET_SIZE"
    and "uses_vht a \<longrightarrow> a_vht_nss a \<in> {1..4} \<and> a_mcs_index a \<in> {0..9}"
  shows "\<exists>d u'. usb_injectPacket (send_packet device v) False latency buf u =
      Inr (SendDone (d @ ieee_header u @ buf) (device (d @ ieee_header u @ buf)), u') \<and>
    length d = TXDESC_SIZE \<and> xor_halfwords d = 0 \<and>
    LE_BITS_TO_4BYTE d TX_RATE_8812 = ucast (wire_rate a) \<and>
    LE_BITS_TO_4BYTE d DATA_SHORT_8812 = of_bool (a_short_gi a \<noteq> 0) \<and>
    LE_BITS_TO_4BYTE d DATA_BW_8812 = of_bool (\<not> uses_vht a \<and> a_bandwidth a = 40) \<and>
    LE_BITS_TO_4BYTE d DATA_LDPC_8812 = of_bool (uses_vht a \<and> a_ldpc a \<noteq> 0) \<and>
    LE_BITS_TO_4BYTE d DATA_STBC_8812 = of_bool (uses_vht a \<and> a_stbc a \<noteq> 0) \<and>
    MatchesChannelID (ieee_header u @ buf) (be_bytes 4 (ut_channelId u)) = Some True \<and>
    ieee80211Sequence u' = ieee80211Sequence u + 16"
proof -
  obtain c0 c1 c2 c3 where c: "be_bytes 4 (ut_channelId u) = [c0, c1, c2, c3]" using length_4 [OF length_be_bytes] by blast
  note hb = ieee_header_bytes [OF c]
  have lh: "length (ieee_header u) = 24" by (simp add: hb)
  have m: "MatchesChannelID (ieee_header u @ buf) (be_bytes 4 (ut_channelId u)) = Some True"
    by (simp add: MatchesChannelID_def all_equal_def rd_def c hb)
  show ?thesis
  proof (cases "uses_vht a")
    case True
    then obtain bw where h: "radiotapHeader u = vht_header (vht_flags a) bw (vht_mcs_nss a) (of_bool (a_ldpc a \<noteq> 0))"
      using run_header_cases [OF assms(1)] by auto
    let ?p = "vht_arg [0x45, 0, vht_flags a, bw, vht_mcs_nss a, 0, 0, 0, of_bool (a_ldpc a \<noteq> 0)] (tx_defaults\<lparr>tp_txflags := 8\<rparr>)"
    have p: "fixed_rate ?p = MGN_VHT1SS_MCS0 + of_int ((a_vht_nss a - 1) * 10 + a_mcs_index a)"
      "tp_sgi ?p = of_bool (a_short_gi a \<noteq> 0)" "tp_stbc ?p = of_bool (a_stbc a \<noteq> 0)" "tp_ldpc ?p = of_bool (a_ldpc a \<noteq> 0)"
      "BWSettingOfDesc (tp_bwidth ?p) = 0"
      using vht_mcs_nss_parts assms(3) True
      by (auto simp: vht_arg_def tx_defaults_def vht_flags_def Let_def BWSettingOfDesc_def)
    have r: "rd16 (vht_header (vht_flags a) bw (vht_mcs_nss a) (of_bool (a_ldpc a \<noteq> 0))) 2 = Some 22"
      by (simp add: rd16_def rd_slice_def vht_header_def slice_def le_word_def)
    obtain d u' where d: "usb_injectPacket (send_packet device v) False latency buf u =
        Inr (SendDone (d @ ieee_header u @ buf) (device (d @ ieee_header u @ buf)), u')"
      "length d = TXDESC_SIZE" "xor_halfwords d = 0"
      "\<And>f. field_ok TXDESC_SIZE f \<Longrightarrow> fdisj TX_CHECKSUM f \<Longrightarrow> LE_BITS_TO_4BYTE d f =
        LE_BITS_TO_4BYTE (fold (\<lambda>(f, v). put_bits f v)
          (send_sets v (24 + length buf) (unat (22 :: u16) \<noteq> 0x0d) ?p) (replicate TXDESC_SIZE 0)) f"
      "ieee80211Sequence u' = ieee80211Sequence u + 16"
      using usb_injection [OF h assms(2) r _ _ vht_no_bit18 _ lh, of ?p device v latency] vht_params by auto
    show ?thesis
      using d(1-3,5) send_fields [OF d(4)] send_coding_fields [OF d(4)] p m True by (auto simp: wire_rate_def)
  next
    case False
    then have h: "radiotapHeader u = ht_header 8 0 MCS_KNOWN (ht_flags a) (of_int (a_mcs_index a))"
      using run_header_cases [OF assms(1)] by simp
    let ?p = "mcs_arg (ht_flags a) (tx_defaults\<lparr>tp_txflags := le_word [8, 0]\<rparr>)"
    have p: "fixed_rate ?p = MGN_1M" "tp_sgi ?p = of_bool (a_short_gi a \<noteq> 0)" "tp_stbc ?p = 0" "tp_ldpc ?p = 0"
      "BWSettingOfDesc (tp_bwidth ?p) = of_bool (a_bandwidth a = 40)"
      using ht_flags_parts [of a] by (auto simp: mcs_arg_def tx_defaults_def Let_def BWSettingOfDesc_def)
    have r: "rd16 (ht_header 8 0 MCS_KNOWN (ht_flags a) (of_int (a_mcs_index a))) 2 = Some 13"
      by (simp add: rd16_def rd_slice_def ht_header_def slice_def le_word_def)
    obtain d u' where d: "usb_injectPacket (send_packet device v) False latency buf u =
        Inr (SendDone (d @ ieee_header u @ buf) (device (d @ ieee_header u @ buf)), u')"
      "length d = TXDESC_SIZE" "xor_halfwords d = 0"
      "\<And>f. field_ok TXDESC_SIZE f \<Longrightarrow> fdisj TX_CHECKSUM f \<Longrightarrow> LE_BITS_TO_4BYTE d f =
        LE_BITS_TO_4BYTE (fold (\<lambda>(f, v). put_bits f v)
          (send_sets v (24 + length buf) (unat (13 :: u16) \<noteq> 0x0d) ?p) (replicate TXDESC_SIZE 0)) f"
      "ieee80211Sequence u' = ieee80211Sequence u + 16"
      using usb_injection [OF h assms(2) r _ _ ht_no_bit18 _ lh, of ?p device v latency] ht_params by auto
    have "MRateToHwRate MGN_1M = DESC_RATE1M" by (simp add: MRateToHwRate_def rate_table_def)
    then show ?thesis
      using d(1-3,5) send_fields [OF d(4)] send_coding_fields [OF d(4)] p m False by (auto simp: wire_rate_def)
  qed
qed


text \<open>Two spatial streams at MCS 3 on 80 MHz.\<close>

definition vht_example :: wfb_args where
  "vht_example = \<lparr>a_bandwidth = 80, a_short_gi = 1, a_stbc = 0, a_ldpc = 1, a_mcs_index = 3, a_vht_nss = 2, a_vht_mode = False\<rparr>"

definition usb_example :: usb_transmitter where
  "usb_example = \<lparr>ut_channelId = 7, currentOutput = 0, ieee80211Sequence = 0, antennaStat = Map.empty,
    radiotapHeader = vht_header 4 4 0x32 1, frameType = FRAME_TYPE_RTS\<rparr>"

theorem wfb_frame_on_air_witness:
  "\<exists>d u'. usb_injectPacket (send_packet (\<lambda>_. True) False) False 5 [1, 2, 3] usb_example =
      Inr (SendDone (d @ ieee_header usb_example @ [1, 2, 3]) True, u') \<and>
    LE_BITS_TO_4BYTE d TX_RATE_8812 = ucast (MRateToHwRate (MGN_VHT1SS_MCS0 + 13)) \<and>
    LE_BITS_TO_4BYTE d DATA_BW_8812 = 0"
proof -
  have "run_header vht_example = Inr (radiotapHeader usb_example)"
    by (simp add: run_header_def build_vht_header_def vht_example_def usb_example_def radiotap_header_vht_def vht_header_def
        vht_flags_def vht_mcs_nss_def Let_def)
  from wfb_frame_on_air [OF this, of "[1, 2, 3]" "\<lambda>_. True" False 5]
  show ?thesis by (auto simp: vht_example_def uses_vht_def wire_rate_def)
qed

section \<open>What the filter accepts\<close>





end
