(* ===== verification/LinkAdapt.thy ===== *)
theory LinkAdapt
  imports Prelude
begin

text \<open>
  The link adaptation of src/wfb: the decaying redundancy request of FecChangeController.h and the
  sample windows of SignalQualityCalculator.h and SignalQualityCalculator.cpp. Times are the ticks
  of the steady clock in nanoseconds; the reading of the clock is an argument of each call. The
  averages and the quality are \<open>float\<close> values and are not modelled: the windows they are taken
  over are.
\<close>

section \<open>The redundancy request\<close>

abbreviation (input) kTick :: int where "kTick \<equiv> 1000000000"

record fec_change =
  val :: int
  lastChange :: int
  mEnabled :: bool

definition new_fec_change :: "int \<Rightarrow> fec_change" where
  "new_fec_change now = \<lparr>val = 0, lastChange = now, mEnabled = False\<rparr>"

definition decayLocked :: "int \<Rightarrow> fec_change \<Rightarrow> fec_change" where
  "decayLocked now c =
    (if val c = 0 then c
     else let elapsed = now - lastChange c in
       if elapsed < kTick then c
       else let ticks = elapsed div kTick in
         if ticks = 0 then c
         else let decayed = val c - ticks; decayed = (if decayed < 0 then 0 else decayed) in
           if decayed \<noteq> val c then c\<lparr>val := decayed, lastChange := lastChange c + kTick * ticks\<rparr> else c)"

definition fc_value :: "int \<Rightarrow> fec_change \<Rightarrow> int \<times> fec_change" where
  "fc_value now c = (if \<not> mEnabled c then (0, c) else let c = decayLocked now c in (val c, c))"

definition bump :: "int \<Rightarrow> int \<Rightarrow> fec_change \<Rightarrow> fec_change" where
  "bump now newValue c = (if val c < newValue then c\<lparr>val := newValue, lastChange := now\<rparr> else c)"

definition setEnabled :: "bool \<Rightarrow> fec_change \<Rightarrow> fec_change" where
  "setEnabled use c = c\<lparr>mEnabled := use\<rparr>"

text \<open>The specification: one less for every full tick since the last change, never below zero.\<close>

definition decayed_value :: "int \<Rightarrow> fec_change \<Rightarrow> int" where
  "decayed_value now c = max 0 (val c - (now - lastChange c) div kTick)"

lemma decay_closed:
  assumes "0 \<le> val c" and "lastChange c \<le> now" and "k = (now - lastChange c) div kTick"
  shows "decayLocked now c = (if val c = 0 \<or> k = 0 then c else c\<lparr>val := max 0 (val c - k), lastChange := lastChange c + kTick * k\<rparr>)"
proof -
  have k: "0 \<le> k" using assms(2,3) by (simp add: pos_imp_zdiv_nonneg_iff)
  have "k = 0" if "now - lastChange c < kTick" using that assms(2,3) by simp
  moreover have "max 0 (val c - k) \<noteq> val c" if "val c \<noteq> 0" "k \<noteq> 0" using that k assms(1) by simp
  moreover have "(if val c - k < 0 then 0 else val c - k) = max 0 (val c - k)" by simp
  ultimately show ?thesis
    unfolding decayLocked_def Let_def assms(3) [symmetric] by (auto simp del: max_def)
qed

lemma decay_value:
  assumes "0 \<le> val c" and "lastChange c \<le> now"
  shows "val (decayLocked now c) = decayed_value now c"
proof -
  have "0 \<le> (now - lastChange c) div kTick" using assms(2) by (simp add: pos_imp_zdiv_nonneg_iff)
  then show ?thesis using assms(1) by (simp add: decay_closed [OF assms refl] decayed_value_def)
qed

lemma decay_later:
  assumes "0 \<le> val c" and "lastChange c \<le> t" and "t \<le> t'"
  shows "decayed_value t' (decayLocked t c) = decayed_value t' c"
    and "lastChange (decayLocked t c) \<le> t" and "0 \<le> val (decayLocked t c)" and "mEnabled (decayLocked t c) = mEnabled c"
proof -
  let ?k = "(t - lastChange c) div kTick"
  have k: "0 \<le> ?k" using assms(2) by (simp add: pos_imp_zdiv_nonneg_iff)
  have "kTick * ?k + (t - lastChange c) mod kTick = t - lastChange c" by (rule mult_div_mod_eq)
  moreover have "0 \<le> (t - lastChange c) mod kTick" by (rule pos_mod_sign) simp
  ultimately have kt: "lastChange c + kTick * ?k \<le> t" by linarith
  have shift: "(t' - (lastChange c + kTick * ?k)) div kTick = (t' - lastChange c) div kTick - ?k"
  proof -
    have "t' - (lastChange c + kTick * ?k) = (t' - lastChange c) + (- ?k) * kTick" by simp
    also have "\<dots> div kTick = - ?k + (t' - lastChange c) div kTick" by (rule div_mult_self1) simp
    finally show ?thesis by simp
  qed
  have mono: "?k \<le> (t' - lastChange c) div kTick" using assms(3) by (intro zdiv_mono1) simp_all
  show "decayed_value t' (decayLocked t c) = decayed_value t' c"
  proof (cases "val c = 0 \<or> ?k = 0")
    case True
    then show ?thesis by (simp add: decay_closed [OF assms(1,2) refl])
  next
    case False
    then have "decayed_value t' (decayLocked t c) = max 0 (max 0 (val c - ?k) - ((t' - lastChange c) div kTick - ?k))"
      by (simp add: decay_closed [OF assms(1,2) refl] decayed_value_def shift)
    also have "\<dots> = max 0 (val c - (t' - lastChange c) div kTick)" using mono by linarith
    finally show ?thesis by (simp add: decayed_value_def)
  qed
  show "lastChange (decayLocked t c) \<le> t" "0 \<le> val (decayLocked t c)" "mEnabled (decayLocked t c) = mEnabled c"
    using assms(1,2) kt by (simp_all add: decay_closed [OF assms(1,2) refl])
qed

definition poll_values :: "int list \<Rightarrow> fec_change \<Rightarrow> fec_change" where
  "poll_values ts c = fold (\<lambda>t c. snd (fc_value t c)) ts c"

lemma polls_irrelevant:
  assumes "0 \<le> val c" and "sorted (lastChange c # ts @ [t])" and "mEnabled c"
  shows "decayed_value t (poll_values ts c) = decayed_value t c \<and> 0 \<le> val (poll_values ts c) \<and>
    lastChange (poll_values ts c) \<le> t \<and> mEnabled (poll_values ts c)"
  using assms
proof (induction ts arbitrary: c)
  case Nil
  then show ?case by (simp add: poll_values_def)
next
  case (Cons s ts)
  have o: "lastChange c \<le> s" "s \<le> t" using Cons.prems(2) by auto
  note d = decay_later [OF Cons.prems(1) o]
  have "sorted (lastChange (decayLocked s c) # ts @ [t])"
    using Cons.prems(2) d(2) by (auto intro: order_trans)
  from Cons.IH [OF d(3) this] show ?case
    using Cons.prems(3) d(1,4) by (simp add: poll_values_def fc_value_def Let_def)
qed

text \<open>
  C26: the redundancy request decays by one every second, whoever looks. However often the
  controller is polled after a change, at the time \<open>t\<close> it answers the value of the change less one
  for every full second since, and zero once that is used up; so after the first second it is
  already one less.
\<close>

theorem fec_change_poll_independent:
  assumes "0 \<le> val c" and "sorted (lastChange c # ts @ [t])" and "mEnabled c"
  shows "fst (fc_value t (poll_values ts c)) = max 0 (val c - (t - lastChange c) div kTick) \<and>
    (0 < val c \<longrightarrow> fst (fc_value (lastChange c + kTick) c) = val c - 1)"
proof -
  note p = polls_irrelevant [OF assms]
  have "fst (fc_value t (poll_values ts c)) = val (decayLocked t (poll_values ts c))"
    using p by (simp add: fc_value_def Let_def)
  then have "fst (fc_value t (poll_values ts c)) = decayed_value t c" using p decay_value by simp
  moreover have "fst (fc_value (lastChange c + kTick) c) = decayed_value (lastChange c + kTick) c"
    using assms(1,3) decay_value [of c "lastChange c + kTick"] by (simp add: fc_value_def Let_def)
  ultimately show ?thesis by (simp add: decayed_value_def)
qed

theorem fec_change_poll_independent_witness:
  "fst (fc_value 3500000000 (poll_values [1200000000, 2900000000] \<lparr>val = 5, lastChange = 0, mEnabled = True\<rparr>)) = 2"
  using fec_change_poll_independent [of "\<lparr>val = 5, lastChange = 0, mEnabled = True\<rparr>" "[1200000000, 2900000000]" 3500000000]
  by simp

text \<open>
  A new request can be lost to a request that has already decayed. The comparison of \<open>bump\<close> is
  with the stored value and not with the decayed one: if nobody polled since the last change, a
  smaller request raised after the old one has run out is ignored and the controller answers zero;
  had it been polled at the same moment just before, it would answer the new request.
\<close>

theorem bump_lost_without_poll:
  assumes "mEnabled c" and "0 < new" and "new \<le> val c" and "lastChange c + kTick * val c \<le> t"
  shows "fst (fc_value t (bump t new c)) = 0 \<and> fst (fc_value t (bump t new (snd (fc_value t c)))) = new"
proof -
  have v: "0 \<le> val c" "lastChange c \<le> t" using assms(2-4) by auto
  have "val c \<le> (t - lastChange c) div kTick" using assms(4) zdiv_mono1 [of "kTick * val c" "t - lastChange c" kTick] by simp
  then have z: "decayed_value t c = 0" using v by (simp add: decayed_value_def)
  have "fst (fc_value t (bump t new c)) = 0"
    using decay_value [OF v] assms(1,3) z by (simp add: bump_def fc_value_def Let_def)
  moreover have "val (snd (fc_value t c)) = 0" "mEnabled (snd (fc_value t c))"
    using decay_value [OF v] assms(1) z decay_later(4) [OF v order_refl] by (simp_all add: fc_value_def Let_def)
  then have "fst (fc_value t (bump t new (snd (fc_value t c)))) = new"
    using assms(2) by (simp add: bump_def fc_value_def decayLocked_def Let_def)
  ultimately show ?thesis by simp
qed

theorem bump_lost_without_poll_witness:
  "fst (fc_value 9000000000 (bump 9000000000 3 \<lparr>val = 5, lastChange = 0, mEnabled = True\<rparr>)) = 0 \<and>
   fst (fc_value 9000000000 (bump 9000000000 3 (snd (fc_value 9000000000 \<lparr>val = 5, lastChange = 0, mEnabled = True\<rparr>)))) = 3"
  using bump_lost_without_poll [of "\<lparr>val = 5, lastChange = 0, mEnabled = True\<rparr>" 3 9000000000] by simp

section \<open>The sample windows\<close>

abbreviation (input) kAveragingWindow :: int where "kAveragingWindow \<equiv> 1000000000"

record 'a sample =
  timestamp :: int
  ant1 :: 'a
  ant2 :: 'a

record fec_entry =
  fe_timestamp :: int
  fe_all :: u32
  fe_recovered :: u32
  fe_lost :: u32

record signal_quality =
  m_rssis :: "u8 sample list"
  m_snrs :: "u8 sample list"
  m_fec_data :: "fec_entry list"

definition young :: "int \<Rightarrow> int \<Rightarrow> bool" where
  "young now stamp \<longleftrightarrow> \<not> stamp < now - kAveragingWindow"

definition cleanup_old_rssi_data :: "int \<Rightarrow> signal_quality \<Rightarrow> signal_quality" where
  "cleanup_old_rssi_data now q = q\<lparr>m_rssis := filter (\<lambda>e. young now (timestamp e)) (m_rssis q)\<rparr>"

definition cleanup_old_snr_data :: "int \<Rightarrow> signal_quality \<Rightarrow> signal_quality" where
  "cleanup_old_snr_data now q = q\<lparr>m_snrs := filter (\<lambda>e. young now (timestamp e)) (m_snrs q)\<rparr>"

definition cleanup_old_fec_data :: "int \<Rightarrow> signal_quality \<Rightarrow> signal_quality" where
  "cleanup_old_fec_data now q = q\<lparr>m_fec_data := filter (\<lambda>e. young now (fe_timestamp e)) (m_fec_data q)\<rparr>"

definition add_rssi :: "int \<Rightarrow> u8 \<Rightarrow> u8 \<Rightarrow> signal_quality \<Rightarrow> signal_quality" where
  "add_rssi now a b q = q\<lparr>m_rssis := m_rssis q @ [\<lparr>timestamp = now, ant1 = a, ant2 = b\<rparr>]\<rparr>"

definition add_snr :: "int \<Rightarrow> u8 \<Rightarrow> u8 \<Rightarrow> signal_quality \<Rightarrow> signal_quality" where
  "add_snr now a b q = q\<lparr>m_snrs := m_snrs q @ [\<lparr>timestamp = now, ant1 = a, ant2 = b\<rparr>]\<rparr>"

definition add_fec_data :: "int \<Rightarrow> u32 \<Rightarrow> u32 \<Rightarrow> u32 \<Rightarrow> signal_quality \<Rightarrow> signal_quality" where
  "add_fec_data now al recovered lost q =
    q\<lparr>m_fec_data := m_fec_data q @ [\<lparr>fe_timestamp = now, fe_all = al, fe_recovered = recovered, fe_lost = lost\<rparr>]\<rparr>"

definition get_accumulated_fec_data :: "int \<Rightarrow> signal_quality \<Rightarrow> (u32 \<times> u32) \<times> signal_quality" where
  "get_accumulated_fec_data now q =
    (let q = cleanup_old_fec_data now q in
     (if m_fec_data q = [] then (300, 300)
      else foldl (\<lambda>(r, l) e. (r + fe_recovered e, l + fe_lost e)) (0, 0) (m_fec_data q), q))"

text \<open>
  \<open>calculate_signal_quality\<close> without its floating point: the samples the two averages are taken
  over (\<open>get_avg\<close> cleans the signal strengths, whichever list it averages) and the packet counts.
\<close>

definition calculate_windows ::
    "int \<Rightarrow> signal_quality \<Rightarrow> (u8 sample list \<times> u8 sample list \<times> (u32 \<times> u32)) \<times> signal_quality" where
  "calculate_windows now q =
    (let q = cleanup_old_rssi_data now q; rssis = m_rssis q;
         q = cleanup_old_rssi_data now q; snrs = m_snrs q;
         (fec, q) = get_accumulated_fec_data now q;
         q = cleanup_old_fec_data now (cleanup_old_snr_data now (cleanup_old_rssi_data now q)) in
     ((rssis, snrs, fec), q))"


text \<open>
  The signal-to-noise average is taken over every sample that has arrived since the last call, old
  ones included, while the other two windows hold only the last second.
\<close>

lemma windows_of_an_answer:
  assumes "calculate_windows now q = ((rssis, snrs, fec), q')"
  shows "snrs = m_snrs q" "\<forall>e \<in> set rssis. now - kAveragingWindow \<le> timestamp e"
    "\<forall>e \<in> set (m_rssis q'). now - kAveragingWindow \<le> timestamp e"
    "\<forall>e \<in> set (m_snrs q'). now - kAveragingWindow \<le> timestamp e"
    "\<forall>e \<in> set (m_fec_data q'). now - kAveragingWindow \<le> fe_timestamp e"
  using assms
  by (auto simp: calculate_windows_def get_accumulated_fec_data_def cleanup_old_rssi_data_def cleanup_old_snr_data_def
      cleanup_old_fec_data_def young_def Let_def not_less split: prod.splits if_splits)

end
