(* ===== verification/Spec2Isabelle.thy ===== *)
theory Spec2Isabelle
  imports PowerOn RxFrame SendPacket PhyConfig WpaExchange StationJoin Firmware8814 WfbAir LinkAdapt
begin

text \<open>
  A user-space driver for the Realtek Jaguar USB adapters RTL8812A, RTL8814A and RTL8821A, with
  monitor mode, frame injection, a WPA2 station and a long-range video link on top. This development models the parts of it that
  carry decisions, and proves what makes each of them correct. File names are relative to the
  repository; functions keep their names.

  \<^bold>\<open>Parts and how they interact.\<close>
  \<^item> Registers. Every other part talks to the device through \<open>rtw_read8\<close> to \<open>rtw_write32\<close> of
    src/RtlUsbAdapter.h: theory UsbIo. The libusb call behind them is the argument \<open>'h usb\<close>, a record
    of three functions on an unknown device state \<open>'h\<close>; a read is tried again as the code does and
    throws when all attempts fail, which is \<open>Inl UsbReadFailed\<close>. \<open>reg_file\<close> is the instance with
    a register file behind the bus and a reaction of the device to writes.
  \<^item> Power. hal/Hal8812PwrSeq.h and its two siblings define arrays of commands (PwrFlow8812,
    PwrFlow8814, PwrFlow8821, entry by entry); \<open>HalModule::HalPwrSeqCmdParsing\<close> interprets them
    (PwrSeq); \<open>InitPowerOn\<close>, the page link tables, the mailbox of the firmware (\<open>fillH2CCmd\<close>) and the
    efuse byte read are built on registers and flows (PowerOn).
  \<^item> Baseband. \<open>PhyTableLoader::Load\<close> of src/PhyTableLoader.cpp walks a flat table with conditional
    blocks (PhyTable). The tables of the RTL8814A and RTL8821A are in PhyReg8814, PhyAgc8814 and
    PhyReg8821; PhyConfig has the masked register access and the procedures that load them.
  \<^item> Tuning. RegIo has the masked register access, the sequencing of register programs and what they
    compute on a chip. RfReg is the serial access to the radio registers (\<open>phy_query_rf_reg\<close>,
    \<open>phy_set_rf_reg\<close>), PwrTrack src/PowerTracking8812a.cpp, and Watchdog \<open>PhydmWatchdog::TickOnce\<close> with
    everything it does every two seconds.
  \<^item> Firmware. Firmware8812 is the download of src/FirmwareManager.cpp by page writes to the 8051 of the
    RTL8812A and RTL8821A, Firmware8814 the download of the RTL8814A by reserved-page packets and the
    internal direct memory access. The image is an argument.
  \<^item> Frames to the device. TxDesc has the bit-field macros, the checksum and the station descriptor
    of src/StationTxDesc.cpp; Radiotap the iterator of src/Radiotap.c; SendPacket the injection path
    \<open>RtlJaguarDevice::send_packet\<close>, which reads a radiotap header through the iterator and makes a
    descriptor.
  \<^item> Long-range link. WfbTx is the class \<open>Transmitter\<close> of src/wfb/TxFrame.cpp, which cuts a packet stream
    into blocks with parity fragments and seals every fragment under a session key, with the steps of
    its input loop; WfbAir the radiotap header it is configured with, the injection over USB through
    SendPacket, and the receive filter of src/wfb/RxFrame.h; LinkAdapt the redundancy request and the
    sample windows of the receiver. libsodium and the erasure coder are the record \<open>wfb_env\<close>.
  \<^item> Frames from the device. \<open>FrameParser::recvbuf2recvframe\<close> splits a bulk-IN transfer (RxFrame).
  \<^item> Station. Dot11Frames has the frames of the association (src/Dot11Frames.cpp) and the parser of
    beacons (src/ScanProbe.cpp). Wpa2 is the supplicant of src/Wpa2Supplicant.cpp: state, handshake
    messages, key derivation, and CCMP. It calls its primitives through the record \<open>crypto\<close>, as the
    code does through \<open>struct Crypto\<close>; \<open>MakeWpa2Crypto\<close> fills it from Aes, KeyWrap, Ccm, Cmac and
    Sha1 (src/crypto/). PnWindow is the replay window in front of the decrypted frames. StationRegs has
    the registers and firmware commands of src/StationMode.cpp (\<open>arm\<close>, \<open>becomeStation\<close>) and the receive
    filters; StationJoin its frames, \<open>runProbe\<close> as a machine with a phase for every sleep, driven by calls,
    received frames and the clock, and the scan.

  \<^bold>\<open>How the state and the effects are represented.\<close> C integers are machine words of their width.
  A buffer is a list of bytes, and a read outside it is \<open>None\<close> or an outcome of its own (\<open>Beyond\<close>,
  \<open>RtUndefined\<close>, \<open>PwrPastEnd\<close>), never an unspecified value. Exceptions and error returns are values.
  State is passed explicitly; the fields of the supplicant are the record \<open>supplicant\<close>. Random bytes
  and the answers of the USB library are arguments.

  \<^bold>\<open>Termination.\<close> Loops are structural, or \<open>function\<close>s with a measure: the walk over a transfer
  (\<open>rx_walk\<close>), the radiotap iterator (\<open>rt_measure\<close>), polling loops (the remaining budget, 5000 in
  \<open>poll_loop\<close>, as in the code). The loops of the hash and the key derivation, whose end the code does
  not show, and the loops that poll until a clock says so are \<open>partial_function\<close>s, and that they return
  is part of what is proved about them; for a clock the hypothesis is \<open>clocked\<close>: every register read takes
  time. No fuel is used.

  \<^bold>\<open>What the lemmas show.\<close>
  \<^item> PwrSeq, PowerOn: the interpreter runs a flow as the list of its effective entries
    (\<open>flow_spec\<close>), skips entries of other chips, is bounded, and on every shipped flow never runs
    past the end; power-on on a register file implements \<open>power_on_spec\<close>; the link table it writes
    chains the pages as a ring; a mailbox command occupies its box and the next one follows.
  \<^item> TxDesc: the bit-field macros satisfy the locale \<open>field_codec\<close> (read after write, and disjoint
    fields do not disturb each other), interpreted for the transmit and the receive descriptor; the
    descriptor has the documented fields and a checksum that makes the halfwords cancel.
  \<^item> RxFrame: all spans lie inside the transfer, and an aggregate built from frames is taken apart
    into them.
  \<^item> Radiotap, SendPacket: the iterator stays inside the header; the frame handed to the device.
  \<^item> PhyTable, PhyConfig: the flat walk implements the block structure; every table entry is
    well formed; loading a table writes what the block semantics says.
  \<^item> RfReg, PwrTrack, Watchdog: a register of the radio paths A and B reads back, while on the write-only paths C
    and D a masked write loses the rest of the register; from its start on the thermal loop leaves the
    compensation that the tables prescribe for the last readings, on one channel, and skips the tables when only
    the channel changes; the gain and the crystal cap stay inside their bounds in every
    reachable state, the gain settles on a quiet channel and the cap follows the carrier offset.
    \<open>computes\<close> and \<open>wp\<close> (RegIo) and \<open>yields\<close> carry these proofs.
  \<^item> Firmware8812, Firmware8814: an accepted image is what the core runs, a rejected one is never started, the
    download always returns. For the RTL8814A the chip takes packets only while the beacon queue is open, as the
    comments of the source describe it: a section streamed with the queue open arrives byte for byte in packets that
    end short, and the first chunk of the instruction section, for which the queue was not opened again, is lost,
    which the readiness test cannot notice.
  \<^item> WfbTx: no nonce is used twice under a session key, for every behaviour of the libraries
    (\<open>recording\<close> logs what they are given, \<open>txp\<close> states what holds after a step that returns and after
    one that throws); the packets of a block; what a timeout and an exception leave behind. WfbAir: the
    frame that reaches the device and the settings it is sent with; exactly the frames the filter accepts. LinkAdapt:
    the request decays alike however it is polled.
  \<^item> Aes to Sha1: decryption inverts encryption, CMAC and SHA-1 agree with reference definitions,
    CCM and key unwrapping accept exactly what their counterparts produce.
  \<^item> WpaSafety: the supplicant as a step relation with a history of the keys and nonces it hands to the
    cipher, read off by running the code with recording primitives (\<open>probe\<close>), and of the keys that the answered first
    messages call for. In every reachable state the keys are the derived ones, and if those keys differ, no
    pair of key and nonce is used for two sent frames or for two delivered unicast frames; group frames are
    delivered once per window. The laws of the primitives are the locale \<open>wpa_crypto\<close>, interpreted on
    \<open>MakeWpa2Crypto\<close>.
  \<^item> StationRegs, StationJoin: the chip is set up as a station of the access point and later as a
    connected one; a held link was answered by its access point; the call returns after a bounded number of
    sleeps; scan results were on the air; and three behaviours that are not intended.
  \<^item> WpaExchange: the handshake completes with key data of any elements around the group key, the replies
    verify, data frames are decrypted to what was encrypted, and the weaknesses the model exhibits: unchecked
    MICs, a repeated group message, the unauthenticated key number, and reads beyond short frames.

  \<^bold>\<open>Not modelled.\<close> Firmware images, register headers, and the remaining tables are data. The vendor
  layer under hal/rtl8814a and hal/phydm/rtl8814a is not called by the driver. The libraries under
  libs and include, libusb, libsodium and libpcap are third-party code. Calibration (src/Iqk8812a.cpp, src/Iqk8814a.cpp),
  channel switching and the efuse parser are register sequences that are not modelled. The wfb-ng project
  under src/wfb/wfb-ng, its erasure coder included, is vendored: what the transmitter calls of it is an
  argument. Logging, environment variables and threads are left out; where a
  decision depends on them it is an argument.
\<close>

end
